(* ===== verification/Prelude.thy ===== *)
theory Prelude
  imports Complex_Main "HOL-Library.Char_ord" "HOL-Library.List_Lexorder" "HOL-Library.Product_Lexorder"
    "HOL-Library.Word"
begin

text \<open>
  Shared vocabulary of the development: the exceptions of the modelled modules as one
  datatype, results as a sum type (\<open>Inl\<close> is the raised exception), the combinators that
  sequence fallible steps, the commit-or-rollback combinator of the SQLite stores, and the
  list lemmas the component theories share.
\<close>

named_theorems result_simps \<open>rewrite rules for results\<close>
named_theorems codec_simps \<open>round trips of text and JSON codecs\<close>
named_theorems row_simps \<open>rewrite rules for table rows\<close>

section \<open>Exceptions and results\<close>

text \<open>
  One constructor per exception class that the modelled code raises or lets through. The
  first group is Python's and SQLite's own; the others are declared in \<open>execution/\<close>,
  \<open>risk/\<close>, \<open>scheduler/\<close> and \<open>brokers/\<close>.
\<close>

datatype error =
    PyValueError string
  | PyKeyError string
  | PyTypeError string
  | PyAttributeError string
  | PyOverflowError string
  | PyRecursionError string
  | DecimalInvalidOperation string
  | IntegrityError string
  | DomainValidationError string
  | InvalidLifecycleTransition string
  | ExecutionStoreError string
  | DuplicateIntentError string
  | DuplicateLogicalRequestError string
  | ApprovalReplayError string
  | SubmissionReplayError string
  | InstrumentCollisionError string
  | InstrumentNotFoundError string
  | AmbiguousInstrumentError string
  | InstrumentMappingError string
  | KillSwitchError string
  | RiskConfigurationError string
  | RiskEvidenceError string
  | ApprovalError string
  | SubmissionBlockedError string
  | ExecutionDisabledError string
  | IntentImportError string
  | AccountingEvidenceError string
  | UsageEvidenceError string
  | BrokerFillIngestionError string
  | ScheduleStoreError string
  | ScheduleLockError string
  | ScheduledRunError string
  | SchedulerConfigurationError string
  | PilotMandateError string
  | FiniteDemoMandateError string
  | PilotLedgerError string
  | StrategyValidationError string
  | ExperimentRegistryError string
  | PyFileExistsError string
  | PilotPolicyError string
  | ConnectorEvidenceError string
  | ExecutionJournalError string
  | FreshnessError string
  | PyAssertionError string
  | BrokerException string

type_synonym 'a result = "error + 'a"

definition bindR :: "'a result \<Rightarrow> ('a \<Rightarrow> 'b result) \<Rightarrow> 'b result" where
  "bindR r f = (case r of Inl e \<Rightarrow> Inl e | Inr x \<Rightarrow> f x)"

fun mapR :: "('a \<Rightarrow> 'b result) \<Rightarrow> 'a list \<Rightarrow> 'b list result" where
  "mapR f [] = Inr []"
| "mapR f (x # xs) = bindR (f x) (\<lambda>y. bindR (mapR f xs) (\<lambda>ys. Inr (y # ys)))"

text \<open>\<open>raiseIf c e k\<close> is the statement \<open>if c: raise e\<close> followed by \<open>k\<close>.\<close>

definition raiseIf :: "bool \<Rightarrow> error \<Rightarrow> 'a result \<Rightarrow> 'a result" where
  "raiseIf c e k = (if c then Inl e else k)"

definition of_option :: "error \<Rightarrow> 'a option \<Rightarrow> 'a result" where
  "of_option e x = (case x of None \<Rightarrow> Inl e | Some y \<Rightarrow> Inr y)"

text \<open>An optional value converted by a fallible function, \<open>None\<close> passing through.\<close>

definition optR :: "('a \<Rightarrow> 'b result) \<Rightarrow> 'a option \<Rightarrow> 'b option result" where
  "optR f x = (case x of None \<Rightarrow> Inr None | Some y \<Rightarrow> bindR (f y) (\<lambda>z. Inr (Some z)))"

text \<open>
  A database transaction: the body sees the state and either raises, and then the state is
  what it was, or commits the new state with its value.
\<close>

definition transaction :: "('s \<Rightarrow> ('a \<times> 's) result) \<Rightarrow> 's \<Rightarrow> 'a result \<times> 's" where
  "transaction body s = (case body s of Inl e \<Rightarrow> (Inl e, s) | Inr (x, s') \<Rightarrow> (Inr x, s'))"

text \<open>Sequencing of operations that keep what was done before an exception.\<close>

definition andThen :: "('a result \<times> 'w) \<Rightarrow> ('a \<Rightarrow> 'w \<Rightarrow> 'b result \<times> 'w) \<Rightarrow> 'b result \<times> 'w" where
  "andThen out k = (case out of (Inl e, w) \<Rightarrow> (Inl e, w) | (Inr x, w) \<Rightarrow> k x w)"

text \<open>\<open>exc.__class__.__name__\<close>\<close>

fun error_class :: "error \<Rightarrow> string" where
  "error_class (PyValueError _) = ''ValueError''"
| "error_class (PyKeyError _) = ''KeyError''"
| "error_class (PyTypeError _) = ''TypeError''"
| "error_class (PyAttributeError _) = ''AttributeError''"
| "error_class (PyOverflowError _) = ''OverflowError''"
| "error_class (PyRecursionError _) = ''RecursionError''"
| "error_class (DecimalInvalidOperation _) = ''InvalidOperation''"
| "error_class (IntegrityError _) = ''IntegrityError''"
| "error_class (DomainValidationError _) = ''DomainValidationError''"
| "error_class (InvalidLifecycleTransition _) = ''InvalidLifecycleTransition''"
| "error_class (ExecutionStoreError _) = ''ExecutionStoreError''"
| "error_class (DuplicateIntentError _) = ''DuplicateIntentError''"
| "error_class (DuplicateLogicalRequestError _) = ''DuplicateLogicalRequestError''"
| "error_class (ApprovalReplayError _) = ''ApprovalReplayError''"
| "error_class (SubmissionReplayError _) = ''SubmissionReplayError''"
| "error_class (InstrumentCollisionError _) = ''InstrumentCollisionError''"
| "error_class (InstrumentNotFoundError _) = ''InstrumentNotFoundError''"
| "error_class (AmbiguousInstrumentError _) = ''AmbiguousInstrumentError''"
| "error_class (InstrumentMappingError _) = ''InstrumentMappingError''"
| "error_class (KillSwitchError _) = ''KillSwitchError''"
| "error_class (RiskConfigurationError _) = ''RiskConfigurationError''"
| "error_class (RiskEvidenceError _) = ''RiskEvidenceError''"
| "error_class (ApprovalError _) = ''ApprovalError''"
| "error_class (SubmissionBlockedError _) = ''SubmissionBlockedError''"
| "error_class (ExecutionDisabledError _) = ''ExecutionDisabledError''"
| "error_class (IntentImportError _) = ''IntentImportError''"
| "error_class (AccountingEvidenceError _) = ''AccountingEvidenceError''"
| "error_class (UsageEvidenceError _) = ''UsageEvidenceError''"
| "error_class (BrokerFillIngestionError _) = ''BrokerFillIngestionError''"
| "error_class (ScheduleStoreError _) = ''ScheduleStoreError''"
| "error_class (ScheduleLockError _) = ''ScheduleLockError''"
| "error_class (ScheduledRunError _) = ''ScheduledRunError''"
| "error_class (SchedulerConfigurationError _) = ''SchedulerConfigurationError''"
| "error_class (PilotMandateError _) = ''PilotMandateError''"
| "error_class (FiniteDemoMandateError _) = ''FiniteDemoMandateError''"
| "error_class (PilotLedgerError _) = ''PilotLedgerError''"
| "error_class (StrategyValidationError _) = ''StrategyValidationError''"
| "error_class (ExperimentRegistryError _) = ''ExperimentRegistryError''"
| "error_class (PyFileExistsError _) = ''FileExistsError''"
| "error_class (PilotPolicyError _) = ''PilotPolicyError''"
| "error_class (ConnectorEvidenceError _) = ''ConnectorEvidenceError''"
| "error_class (ExecutionJournalError _) = ''ExecutionJournalError''"
| "error_class (FreshnessError _) = ''FreshnessError''"
| "error_class (PyAssertionError _) = ''AssertionError''"
| "error_class (BrokerException name) = name"

lemma bindR_simps [simp, result_simps]:
  "bindR (Inl e) f = Inl e"
  "bindR (Inr x) f = f x"
  by (simp_all add: bindR_def)

lemma bindR_eq_Inr [simp, result_simps]:
  "(bindR r f = Inr y) \<longleftrightarrow> (\<exists>x. r = Inr x \<and> f x = Inr y)"
  by (cases r) simp_all

lemma raiseIf_simps [simp, result_simps]:
  "raiseIf True e k = Inl e"
  "raiseIf False e k = k"
  by (simp_all add: raiseIf_def)

lemma raiseIf_eq_Inr [simp, result_simps]:
  "(raiseIf c e k = Inr y) \<longleftrightarrow> \<not> c \<and> k = Inr y"
  by (simp add: raiseIf_def)

lemma of_option_eq_Inr [simp, result_simps]:
  "(of_option e x = Inr y) \<longleftrightarrow> x = Some y"
  by (cases x) (simp_all add: of_option_def)

lemma of_option_simps [simp, result_simps]:
  "of_option e None = Inl e"
  "of_option e (Some y) = Inr y"
  by (simp_all add: of_option_def)

lemma optR_simps [simp, result_simps]:
  "optR f None = Inr None"
  "optR f (Some x) = bindR (f x) (\<lambda>z. Inr (Some z))"
  by (simp_all add: optR_def)

lemma mapR_eq_Inr_length: "mapR f xs = Inr ys \<Longrightarrow> length ys = length xs"
  by (induction xs arbitrary: ys) auto

lemma mapR_eq_Inr_iff: "mapR f xs = Inr ys \<longleftrightarrow> list_all2 (\<lambda>x y. f x = Inr y) xs ys"
  by (induction xs arbitrary: ys) (auto simp: list_all2_Cons1)

lemma mapR_Inr_map: "(\<And>x. x \<in> set xs \<Longrightarrow> f x = Inr (g x)) \<Longrightarrow> mapR f xs = Inr (map g xs)"
  by (induction xs) auto

lemma mapR_set: "mapR f xs = Inr ys \<Longrightarrow> y \<in> set ys \<Longrightarrow> \<exists>x\<in>set xs. f x = Inr y"
  by (induction xs arbitrary: ys) auto

lemma mapR_mem: "mapR f xs = Inr ys \<Longrightarrow> x \<in> set xs \<Longrightarrow> \<exists>y\<in>set ys. f x = Inr y"
  by (induction xs arbitrary: ys) auto

lemma transaction_cases:
  "transaction body s = (r, s') \<Longrightarrow>
     (\<exists>e. r = Inl e \<and> s' = s \<and> body s = Inl e) \<or> (\<exists>x. r = Inr x \<and> body s = Inr (x, s'))"
  by (auto simp: transaction_def split: sum.splits)

lemma transaction_Inr [simp]:
  "transaction body s = (Inr x, s') \<longleftrightarrow> body s = Inr (x, s')"
  by (auto simp: transaction_def split: sum.splits)

lemma transaction_Inl [simp]:
  "transaction body s = (Inl e, s') \<longleftrightarrow> body s = Inl e \<and> s' = s"
  by (auto simp: transaction_def split: sum.splits)

text \<open>What holds of the state after an operation that changes nothing when it raises.\<close>

lemma keep_or_commit:
  assumes "\<And>e s'. out = (Inl e, s') \<Longrightarrow> s' = s" and "\<And>x s'. out = (Inr x, s') \<Longrightarrow> P s'" and "P s"
  shows "P (snd out)"
  using assms by (cases out; cases "fst out") auto

lemma andThen_Inr:
  "andThen out k = (Inr y, w') \<longleftrightarrow> (\<exists>x w1. out = (Inr x, w1) \<and> k x w1 = (Inr y, w'))"
  by (auto simp: andThen_def split: prod.splits sum.splits)

lemma andThen_ok: "out = (Inr x, w1) \<Longrightarrow> andThen out k = k x w1"
  by (simp add: andThen_def)

section \<open>Tables\<close>

text \<open>
  A table is a list of rows in \<open>rowid\<close> order. \<open>find_row\<close> is \<open>SELECT ... fetchone()\<close>,
  \<open>update_rows\<close> is \<open>UPDATE ... WHERE\<close> and \<open>key_free\<close> is the uniqueness check of an
  \<open>INSERT\<close>.
\<close>

definition find_row :: "('r \<Rightarrow> bool) \<Rightarrow> 'r list \<Rightarrow> 'r option" where
  "find_row P rows = List.find P rows"

definition update_rows :: "('r \<Rightarrow> bool) \<Rightarrow> ('r \<Rightarrow> 'r) \<Rightarrow> 'r list \<Rightarrow> 'r list" where
  "update_rows P f rows = map (\<lambda>r. if P r then f r else r) rows"

definition key_free :: "('r \<Rightarrow> 'k) \<Rightarrow> 'k \<Rightarrow> 'r list \<Rightarrow> bool" where
  "key_free key k rows \<longleftrightarrow> k \<notin> set (map key rows)"

text \<open>\<open>unique_by key rows\<close>: no two rows share the key, the promise of a unique column.\<close>

definition unique_by :: "('r \<Rightarrow> 'k) \<Rightarrow> 'r list \<Rightarrow> bool" where
  "unique_by key rows \<longleftrightarrow> distinct (map key rows)"

lemma find_row_Some [row_simps]:
  "find_row P rows = Some r \<Longrightarrow> r \<in> set rows \<and> P r"
  by (auto simp: find_row_def find_Some_iff)

lemma find_row_None [row_simps]: "find_row P rows = None \<longleftrightarrow> (\<forall>r\<in>set rows. \<not> P r)"
  by (auto simp: find_row_def find_None_iff)

lemma key_free_iff [row_simps]: "key_free key k rows \<longleftrightarrow> (\<forall>r\<in>set rows. key r \<noteq> k)"
  by (auto simp: key_free_def)

lemma find_row_unique:
  assumes "unique_by key rows" and "r \<in> set rows" and "key r = k"
  shows "find_row (\<lambda>r. key r = k) rows = Some r"
  using assms
  by (induction rows) (auto simp: find_row_def unique_by_def)

lemma find_row_simps [simp]:
  "find_row P [] = None"
  "find_row P (r # rows) = (if P r then Some r else find_row P rows)"
  by (simp_all add: find_row_def)

lemma find_row_append:
  "find_row P (xs @ ys) = (case find_row P xs of None \<Rightarrow> find_row P ys | Some r \<Rightarrow> Some r)"
  by (induction xs) (auto simp: find_row_def)

lemma unique_by_append [row_simps]:
  "unique_by key (rows @ [r]) \<longleftrightarrow> unique_by key rows \<and> key_free key (key r) rows"
  by (auto simp: unique_by_def key_free_def)

lemma unique_by_update [row_simps]:
  "(\<And>r. r \<in> set rows \<Longrightarrow> P r \<Longrightarrow> key (f r) = key r) \<Longrightarrow>
     unique_by key (update_rows P f rows) = unique_by key rows"
  unfolding unique_by_def update_rows_def map_map comp_def
  by (rule arg_cong [where f = distinct], rule map_cong) auto

lemma map_update_rows [row_simps]:
  "(\<And>r. r \<in> set rows \<Longrightarrow> P r \<Longrightarrow> key (f r) = key r) \<Longrightarrow>
     map key (update_rows P f rows) = map key rows"
  by (auto simp: update_rows_def)

lemma set_update_rows [row_simps]:
  "set (update_rows P f rows) = (\<lambda>r. if P r then f r else r) ` set rows"
  by (simp add: update_rows_def)

lemma unique_by_inj:
  "unique_by key rows \<Longrightarrow> r \<in> set rows \<Longrightarrow> r' \<in> set rows \<Longrightarrow> key r = key r' \<Longrightarrow> r = r'"
  by (auto simp: unique_by_def distinct_map inj_on_def)

lemma filter_unique:
  assumes "unique_by key rows" and "r \<in> set rows"
  shows "filter (\<lambda>x. key x = key r \<and> Q x) rows = (if Q r then [r] else [])"
  using assms
proof (induction rows)
  case (Cons y ys)
  show ?case
  proof (cases "y = r")
    case True
    then have "filter (\<lambda>x. key x = key r \<and> Q x) ys = []"
      using Cons.prems by (auto simp: unique_by_def filter_empty_conv image_iff)
    then show ?thesis using True by simp
  next
    case False
    then have "key y \<noteq> key r" using Cons.prems by (auto simp: unique_by_def image_iff)
    then show ?thesis using Cons False by (auto simp: unique_by_def)
  qed
qed simp

lemma find_row_update:
  assumes "\<And>r. P (f r) = P r"
  shows "find_row P (update_rows P f rows) = map_option f (find_row P rows)"
  using assms by (induction rows) (auto simp: find_row_def update_rows_def)

lemma find_row_update_other:
  assumes "\<And>r. r \<in> set rows \<Longrightarrow> P r \<Longrightarrow> \<not> Q r \<and> \<not> Q (f r)"
  shows "find_row Q (update_rows P f rows) = find_row Q rows"
  using assms by (induction rows) (auto simp: find_row_def update_rows_def)

section \<open>Sorted lists\<close>

lemma sort_sort [simp]: "sort (sort xs) = sort (xs :: 'a::linorder list)"
  by (simp add: sorted_sort_id)

end
