(* ===== verification/Once.thy ===== *)
theory Once
  imports Prelude
begin

text \<open>
  The interface of the components that promise to do something at most once. A system has
  atomic calls; a call may grant keys (a send claim, the consumption of an approval); the
  state remembers what was granted. The laws are about one call each. The client lemma is
  about every sequence of calls, hence about every interleaving of any number of processes:
  no key is granted twice.
\<close>

fun run_calls :: "('c \<Rightarrow> 's \<Rightarrow> 's) \<Rightarrow> 'c list \<Rightarrow> 's \<Rightarrow> 's" where
  "run_calls step [] s = s"
| "run_calls step (c # cs) s = run_calls step cs (step c s)"

fun grant_log :: "('c \<Rightarrow> 's \<Rightarrow> 's) \<Rightarrow> ('c \<Rightarrow> 's \<Rightarrow> 'k list) \<Rightarrow> 'c list \<Rightarrow> 's \<Rightarrow> 'k list" where
  "grant_log step grants [] s = []"
| "grant_log step grants (c # cs) s = grants c s @ grant_log step grants cs (step c s)"

lemma run_calls_append: "run_calls step (cs @ ds) s = run_calls step ds (run_calls step cs s)"
  by (induction cs arbitrary: s) auto

locale invariant_calls =
  fixes step :: "'c \<Rightarrow> 's \<Rightarrow> 's" and ok :: "'c \<Rightarrow> bool" and inv :: "'s \<Rightarrow> bool"
  assumes inv_step: "inv s \<Longrightarrow> ok c \<Longrightarrow> inv (step c s)"
begin

lemma inv_run: "inv s \<Longrightarrow> list_all ok cs \<Longrightarrow> inv (run_calls step cs s)"
  by (induction cs arbitrary: s) (auto intro: inv_step)

end

locale once_only = invariant_calls step ok inv
  for step :: "'c \<Rightarrow> 's \<Rightarrow> 's" and ok :: "'c \<Rightarrow> bool" and inv :: "'s \<Rightarrow> bool" +
  fixes grants :: "'c \<Rightarrow> 's \<Rightarrow> 'k list" and granted :: "'s \<Rightarrow> 'k \<Rightarrow> bool"
  assumes grant_fresh: "inv s \<Longrightarrow> ok c \<Longrightarrow> k \<in> set (grants c s) \<Longrightarrow> \<not> granted s k"
    and grant_marks: "inv s \<Longrightarrow> ok c \<Longrightarrow> k \<in> set (grants c s) \<Longrightarrow> granted (step c s) k"
    and grant_stays: "inv s \<Longrightarrow> ok c \<Longrightarrow> granted s k \<Longrightarrow> granted (step c s) k"
    and grant_distinct: "inv s \<Longrightarrow> ok c \<Longrightarrow> distinct (grants c s)"
begin

lemma granted_run: "inv s \<Longrightarrow> list_all ok cs \<Longrightarrow> granted s k \<Longrightarrow> granted (run_calls step cs s) k"
  by (induction cs arbitrary: s) (auto intro: inv_step grant_stays)

lemma log_fresh: "inv s \<Longrightarrow> list_all ok cs \<Longrightarrow> k \<in> set (grant_log step grants cs s) \<Longrightarrow> \<not> granted s k"
proof (induction cs arbitrary: s)
  case (Cons c cs)
  then show ?case using inv_step [of s c] grant_fresh [of s c k] grant_stays [of s c k] by auto
qed simp

lemma log_distinct: "inv s \<Longrightarrow> list_all ok cs \<Longrightarrow> distinct (grant_log step grants cs s)"
proof (induction cs arbitrary: s)
  case (Cons c cs)
  have "inv (step c s)" "list_all ok cs" using Cons.prems inv_step by auto
  then show ?case
    using Cons grant_distinct [of s c] grant_marks [of s c] log_fresh [of "step c s" cs] by auto
qed simp

lemma log_granted: "inv s \<Longrightarrow> list_all ok cs \<Longrightarrow> k \<in> set (grant_log step grants cs s) \<Longrightarrow>
    granted (run_calls step cs s) k"
proof (induction cs arbitrary: s)
  case (Cons c cs)
  then show ?case using inv_step [of s c] grant_marks [of s c k] granted_run [of "step c s" cs k] by auto
qed simp

end

end
