(* ===== verification/Py_Text.thy ===== *)
theory Py_Text
  imports Prelude
begin

text \<open>
  The parts of Python's \<open>str\<close>, \<open>int\<close> and \<open>uuid.UUID\<close> that the modelled modules use.
  Strings are lists of characters restricted to ASCII by use: \<open>strip\<close> removes ASCII
  whitespace, \<open>upper\<close> and \<open>lower\<close> change ASCII letters. A UUID is its 128-bit value.
\<close>

section \<open>Definitions\<close>

definition py_isspace :: "char \<Rightarrow> bool" where
  "py_isspace c \<longleftrightarrow> (let n = (of_char c :: nat) in (9 \<le> n \<and> n \<le> 13) \<or> (28 \<le> n \<and> n \<le> 32))"

definition py_strip :: "string \<Rightarrow> string" where
  "py_strip s = rev (dropWhile py_isspace (rev (dropWhile py_isspace s)))"

definition py_upper :: "string \<Rightarrow> string" where
  "py_upper s = map (\<lambda>c. let n = (of_char c :: nat) in
     if 97 \<le> n \<and> n \<le> 122 then char_of (n - 32) else c) s"

definition py_lower :: "string \<Rightarrow> string" where
  "py_lower s = map (\<lambda>c. let n = (of_char c :: nat) in
     if 65 \<le> n \<and> n \<le> 90 then char_of (n + 32) else c) s"

text \<open>\<open>not value.strip()\<close>\<close>

definition blank :: "string \<Rightarrow> bool" where
  "blank s \<longleftrightarrow> py_strip s = []"

text \<open>\<open>a or b\<close> on optional strings: \<open>None\<close> and the empty string are false.\<close>

definition py_or :: "string option \<Rightarrow> string option \<Rightarrow> string option" where
  "py_or a b = (case a of None \<Rightarrow> b | Some s \<Rightarrow> if s = [] then b else a)"

definition py_truthy :: "string option \<Rightarrow> bool" where
  "py_truthy a \<longleftrightarrow> a \<noteq> None \<and> a \<noteq> Some []"

text \<open>\<open>s.replace(pat, '')\<close>: leftmost, non-overlapping removal.\<close>

function remove_sub :: "string \<Rightarrow> string \<Rightarrow> string" where
  "remove_sub pat [] = []"
| "remove_sub pat (c # cs) =
     (if pat \<noteq> [] \<and> take (length pat) (c # cs) = pat
      then remove_sub pat (drop (length pat) (c # cs))
      else c # remove_sub pat cs)"
  by pat_completeness auto
termination
  by (relation "measure (\<lambda>(p, s). length s)") auto

definition strip_braces :: "string \<Rightarrow> string" where
  "strip_braces s = (let b = (\<lambda>c. c = CHR ''{'' \<or> c = CHR ''}'')
     in rev (dropWhile b (rev (dropWhile b s))))"

subsection \<open>Decimal and hexadecimal digits\<close>

definition digit_char :: "nat \<Rightarrow> char" where
  "digit_char n = (if n < 10 then char_of (48 + n) else char_of (87 + n))"

definition digit_val :: "char \<Rightarrow> nat option" where
  "digit_val c = (let n = (of_char c :: nat) in
     if 48 \<le> n \<and> n \<le> 57 then Some (n - 48)
     else if 97 \<le> n \<and> n \<le> 102 then Some (n - 87)
     else if 65 \<le> n \<and> n \<le> 70 then Some (n - 55)
     else None)"

text \<open>\<open>str\<close> of a natural number and of an integer.\<close>

fun str_nat :: "nat \<Rightarrow> string" where
  "str_nat n = (if n < 10 then [digit_char n] else str_nat (n div 10) @ [digit_char (n mod 10)])"

declare str_nat.simps [simp del]

definition str_int :: "int \<Rightarrow> string" where
  "str_int i = (if i < 0 then CHR ''-'' # str_nat (nat (- i)) else str_nat (nat i))"

text \<open>\<open>'%0nx' % x\<close> for a value below \<open>16 ^ n\<close>.\<close>

fun hexn :: "nat \<Rightarrow> nat \<Rightarrow> string" where
  "hexn 0 x = []"
| "hexn (Suc n) x = hexn n (x div 16) @ [digit_char (x mod 16)]"

text \<open>
  \<open>int(s, 16)\<close>: surrounding whitespace, a sign, a \<open>0x\<close> prefix and single underscores
  between digits are accepted. \<open>hex_run\<close> reads the digits; its flag says that the last
  character was a digit.
\<close>

fun hex_run :: "bool \<Rightarrow> nat \<Rightarrow> string \<Rightarrow> nat option" where
  "hex_run d acc [] = (if d then Some acc else None)"
| "hex_run d acc (c # cs) =
     (case digit_val c of
        Some v \<Rightarrow> hex_run True (acc * 16 + v) cs
      | None \<Rightarrow> if c = CHR ''_'' \<and> d then hex_run False acc cs else None)"

definition py_int16 :: "string \<Rightarrow> int option" where
  "py_int16 s =
     (let t = py_strip s;
          (neg, u) = (case t of c # cs \<Rightarrow>
             if c = CHR ''-'' then (True, cs) else if c = CHR ''+'' then (False, cs) else (False, t)
           | [] \<Rightarrow> (False, []));
          v = (case u of a # b # cs \<Rightarrow>
             if a = CHR ''0'' \<and> (b = CHR ''x'' \<or> b = CHR ''X'')
             then (case cs of c # ds \<Rightarrow> if c = CHR ''_'' then ds else cs | [] \<Rightarrow> [])
             else u
           | _ \<Rightarrow> u)
      in map_option (\<lambda>n. if neg then - int n else int n) (hex_run False 0 v))"

text \<open>\<open>int(s)\<close>: the same with decimal digits and no prefix.\<close>

fun dec_run :: "bool \<Rightarrow> nat \<Rightarrow> string \<Rightarrow> nat option" where
  "dec_run d acc [] = (if d then Some acc else None)"
| "dec_run d acc (c # cs) =
     (case digit_val c of
        Some v \<Rightarrow> if v < 10 then dec_run True (acc * 10 + v) cs else None
      | None \<Rightarrow> if c = CHR ''_'' \<and> d then dec_run False acc cs else None)"

definition py_int10 :: "string \<Rightarrow> int option" where
  "py_int10 s =
     (case py_strip s of
        [] \<Rightarrow> None
      | c # cs \<Rightarrow>
          if c = CHR ''-'' then map_option (\<lambda>n. - int n) (dec_run False 0 cs)
          else if c = CHR ''+'' then map_option int (dec_run False 0 cs)
          else map_option int (dec_run False 0 (c # cs)))"

subsection \<open>UUIDs\<close>

type_synonym uuid = "128 word"

text \<open>\<open>str(uuid)\<close>: 32 lower-case hexadecimal digits grouped 8-4-4-4-12.\<close>

definition uuid_str :: "uuid \<Rightarrow> string" where
  "uuid_str u = (let h = hexn 32 (unat u) in
     take 8 h @ ''-'' @ take 4 (drop 8 h) @ ''-'' @ take 4 (drop 12 h) @ ''-'' @
     take 4 (drop 16 h) @ ''-'' @ drop 20 h)"

text \<open>\<open>UUID(text)\<close>\<close>

definition uuid_of_string :: "string \<Rightarrow> uuid option" where
  "uuid_of_string s =
     (let h = filter (\<lambda>c. c \<noteq> CHR ''-'')
                (strip_braces (remove_sub ''uuid:'' (remove_sub ''urn:'' s)))
      in if length h \<noteq> 32 then None
         else case py_int16 h of
                None \<Rightarrow> None
              | Some i \<Rightarrow> if 0 \<le> i \<and> i < 2 ^ 128 then Some (word_of_int i) else None)"

section \<open>Whitespace\<close>

lemma py_strip_Nil [simp]: "py_strip [] = []"
  by (simp add: py_strip_def)

lemma blank_Nil [simp]: "blank []"
  by (simp add: blank_def)

lemma dropWhile_rev_id:
  assumes "\<And>c. c \<in> set s \<Longrightarrow> \<not> P c"
  shows "rev (dropWhile P (rev (dropWhile P s))) = s"
proof -
  have "dropWhile P t = t" if "set t \<subseteq> set s" for t
    using that assms by (cases t) auto
  then show ?thesis by simp
qed

lemma py_strip_id: "(\<And>c. c \<in> set s \<Longrightarrow> \<not> py_isspace c) \<Longrightarrow> py_strip s = s"
  unfolding py_strip_def by (rule dropWhile_rev_id)

lemma py_strip_strip [simp]: "py_strip (py_strip s) = py_strip s"
proof -
  define t where "t = dropWhile py_isspace s"
  define u where "u = rev (dropWhile py_isspace (rev t))"
  have last: "u = [] \<or> \<not> py_isspace (last u)"
    unfolding u_def by (metis hd_dropWhile last_rev rev_is_Nil_conv)
  have "u = [] \<or> hd u = hd t"
  proof (cases "u = []")
    case False
    have "t = u @ rev (takeWhile py_isspace (rev t))"
      unfolding u_def by (metis rev_append rev_rev_ident takeWhile_dropWhile_id)
    with False have "hd t = hd u" by (metis hd_append2)
    then show ?thesis by simp
  qed simp
  moreover have "t = [] \<or> \<not> py_isspace (hd t)"
    unfolding t_def by (metis hd_dropWhile)
  ultimately have "u = [] \<or> \<not> py_isspace (hd u)"
    by (cases "t = []") (auto simp: u_def)
  then have "dropWhile py_isspace u = u" by (auto simp: dropWhile_eq_self_iff)
  moreover have "dropWhile py_isspace (rev u) = rev u"
    using last by (auto simp: dropWhile_eq_self_iff hd_rev)
  ultimately have "rev (dropWhile py_isspace (rev (dropWhile py_isspace u))) = u"
    by simp
  then show ?thesis by (simp add: py_strip_def u_def t_def)
qed

lemma blank_strip [simp]: "blank (py_strip s) = blank s"
  by (simp add: blank_def)

lemma py_or_None [simp]: "py_or None b = b"
  by (simp add: py_or_def)

section \<open>Digits\<close>

lemma of_char_digit_char [simp]:
  "n < 16 \<Longrightarrow> (of_char (digit_char n) :: nat) = (if n < 10 then 48 + n else 87 + n)"
  by (simp add: digit_char_def)

lemma digit_val_char [simp]: "n < 16 \<Longrightarrow> digit_val (digit_char n) = Some n"
  by (auto simp: digit_val_def)

lemma digit_char_range:
  assumes "n < 16"
  shows "\<not> py_isspace (digit_char n) \<and> digit_char n \<notin> set ''{}-+_xXu:''"
proof -
  have k: "(of_char (digit_char n) :: nat) = (if n < 10 then 48 + n else 87 + n)"
    using assms by simp
  have "(of_char (digit_char n) :: nat) \<notin> of_char ` set ''{}-+_xXu:''"
    unfolding k using assms by auto
  then have "digit_char n \<notin> set ''{}-+_xXu:''" by blast
  moreover have "\<not> py_isspace (digit_char n)"
    unfolding py_isspace_def k Let_def by simp
  ultimately show ?thesis by blast
qed

lemma length_hexn [simp]: "length (hexn n x) = n"
  by (induction n arbitrary: x) auto

lemma set_hexn: "c \<in> set (hexn n x) \<Longrightarrow> \<exists>d<16. c = digit_char d"
proof (induction n arbitrary: x)
  case (Suc n)
  have "x mod 16 < 16" by simp
  with Suc show ?case by (metis Un_iff empty_iff empty_set hexn.simps(2) set_ConsD set_append)
qed simp

lemma hex_run_append_digit:
  "d < 16 \<Longrightarrow> hex_run b acc (s @ [digit_char d]) =
     (case hex_run True acc s of None \<Rightarrow> None | Some a \<Rightarrow> Some (a * 16 + d))
   \<or> \<not> (\<forall>c\<in>set s. \<exists>v<16. c = digit_char v)"
  by (induction s arbitrary: b acc) (auto split: option.splits)

lemma hex_run_hexn: "hex_run True acc (hexn n x) = Some (acc * 16 ^ n + x mod 16 ^ n)"
proof (induction n arbitrary: x)
  case (Suc n)
  have digits: "\<forall>c\<in>set (hexn n (x div 16)). \<exists>v<16. c = digit_char v"
    using set_hexn by blast
  have "x mod 16 ^ Suc n = 16 * (x div 16 mod 16 ^ n) + x mod 16"
    by (simp add: mod_mult2_eq)
  then show ?case
    using hex_run_append_digit [of "x mod 16" True acc "hexn n (x div 16)"] digits Suc.IH
    by (simp add: algebra_simps)
qed simp

lemma hex_run_flag: "s \<noteq> [] \<Longrightarrow> \<forall>c\<in>set s. \<exists>v<16. c = digit_char v \<Longrightarrow> hex_run b acc s = hex_run True acc s"
  by (cases s) (metis digit_val_char hex_run.simps(2) list.set_intros(1) option.simps(5))+

section \<open>UUID text\<close>

lemma remove_sub_id: "c0 \<in> set pat \<Longrightarrow> c0 \<notin> set s \<Longrightarrow> remove_sub pat s = s"
proof (induction pat s rule: remove_sub.induct)
  case (2 pat c cs)
  have "\<not> (pat \<noteq> [] \<and> take (length pat) (c # cs) = pat)"
    using "2.prems" by (metis in_set_takeD)
  with 2 show ?case by auto
qed simp

lemma py_int16_hexn:
  assumes "0 < n"
  shows "py_int16 (hexn n x) = Some (int (x mod 16 ^ n))"
proof -
  have digits: "\<forall>c\<in>set (hexn n x). \<exists>v<16. c = digit_char v"
    using set_hexn by blast
  then have strip: "py_strip (hexn n x) = hexn n x"
    by (metis digit_char_range py_strip_id)
  obtain a s where h: "hexn n x = a # s" using assms by (cases "hexn n x") (auto dest: arg_cong [of _ _ length])
  then have a: "a \<noteq> CHR ''-''" "a \<noteq> CHR ''+''"
    using digits digit_char_range by fastforce+
  have b: "\<And>b t. s = b # t \<Longrightarrow> b \<noteq> CHR ''x'' \<and> b \<noteq> CHR ''X''"
    using digits h digit_char_range by fastforce
  have run: "hex_run False 0 (a # s) = Some (x mod 16 ^ n)"
    using hex_run_flag [of "hexn n x" False 0] digits h hex_run_hexn [of 0 n x] by simp
  show ?thesis
    using a b run strip h by (cases s) (simp_all add: py_int16_def)
qed

lemma uuid_of_string_uuid_str [simp, codec_simps]: "uuid_of_string (uuid_str u) = Some u"
proof -
  define h where "h = hexn 32 (unat u)"
  have len: "length h = 32" by (simp add: h_def)
  have digits: "\<And>c. c \<in> set h \<Longrightarrow> \<exists>v<16. c = digit_char v"
    unfolding h_def by (rule set_hexn)
  have plain: "c \<in> set h \<Longrightarrow> c \<notin> set ''{}-u''" for c
    using digits digit_char_range by fastforce
  let ?s = "uuid_str u"
  have set_s: "set ?s \<subseteq> insert CHR ''-'' (set h)"
    unfolding uuid_str_def Let_def h_def [symmetric]
    by (auto dest: in_set_takeD in_set_dropD)
  have u: "CHR ''u'' \<notin> set ?s" and b: "\<And>c. c \<in> set ?s \<Longrightarrow> c \<noteq> CHR ''{'' \<and> c \<noteq> CHR ''}''"
    using set_s plain by auto
  have "remove_sub ''uuid:'' (remove_sub ''urn:'' ?s) = ?s"
    using u remove_sub_id [of "CHR ''u''"] by simp
  moreover have "strip_braces ?s = ?s"
    unfolding strip_braces_def Let_def using b by (intro dropWhile_rev_id) blast
  moreover have "filter (\<lambda>c. c \<noteq> CHR ''-'') ?s = h"
  proof -
    have keep: "set t \<subseteq> set h \<Longrightarrow> filter (\<lambda>c. c \<noteq> CHR ''-'') t = t" for t
      using plain by (intro filter_True) auto
    have "h = take 8 h @ take 4 (drop 8 h) @ take 4 (drop 12 h) @ take 4 (drop 16 h) @ drop 20 h"
      using take_add [of 8 4 h] take_add [of 12 4 h] take_add [of 16 4 h] append_take_drop_id [of 20 h]
      by simp
    moreover have "set (take 8 h) \<subseteq> set h" "set (take 4 (drop 8 h)) \<subseteq> set h"
      "set (take 4 (drop 12 h)) \<subseteq> set h" "set (take 4 (drop 16 h)) \<subseteq> set h" "set (drop 20 h) \<subseteq> set h"
      by (auto dest: in_set_takeD in_set_dropD)
    ultimately show ?thesis
      unfolding uuid_str_def Let_def h_def [symmetric] by (simp add: keep)
  qed
  moreover have "py_int16 h = Some (int (unat u))"
    using py_int16_hexn [of 32 "unat u"] unsigned_less [of u, where ?'a = nat] by (simp add: h_def)
  moreover have "int (unat u) < 2 ^ 128" using unsigned_less [of u, where ?'a = int] by simp
  ultimately show ?thesis by (simp add: uuid_of_string_def len)
qed

lemma uuid_str_inj [simp]: "uuid_str u = uuid_str v \<longleftrightarrow> u = v"
  by (metis uuid_of_string_uuid_str option.inject)

lemma uuid_str_not_Nil [simp]: "uuid_str u \<noteq> []"
  by (simp add: uuid_str_def Let_def)

end
