(* ===== verification/Py_Decimal.thy ===== *)
theory Py_Decimal
  imports Py_Text
begin

text \<open>
  Python's \<open>decimal.Decimal\<close> as the modelled modules use it: construction from text, the
  \<open>'f'\<close> format, \<open>str\<close>, comparison, and the arithmetic of a context with precision \<open>p\<close>
  and rounding half-even. A finite value is a sign, a coefficient and an exponent, so that
  representations of the same number stay distinct, as they do in Python; \<open>dec_val\<close> is the
  rational number a finite value denotes. Exponent overflow (beyond \<open>10 ^ 999999\<close>) is not
  modelled.
\<close>

section \<open>Definitions\<close>

datatype decimal = Dec bool nat int | DInf bool | DNaN

fun is_finite :: "decimal \<Rightarrow> bool" where
  "is_finite (Dec _ _ _) = True"
| "is_finite _ = False"

fun dec_val :: "decimal \<Rightarrow> rat" where
  "dec_val (Dec s c e) = (if s then -1 else 1) * of_nat c * 10 powi e"
| "dec_val _ = 0"

fun dec_exp :: "decimal \<Rightarrow> int" where
  "dec_exp (Dec s c e) = e"
| "dec_exp _ = 0"

text \<open>The integer \<open>d * 10 ^ (- m)\<close>, for \<open>m\<close> at most the exponent of \<open>d\<close>.\<close>

fun dec_scaled :: "int \<Rightarrow> decimal \<Rightarrow> int" where
  "dec_scaled m (Dec s c e) = (if s then -1 else 1) * int c * 10 ^ nat (e - m)"
| "dec_scaled m _ = 0"

subsection \<open>Comparison\<close>

fun dec_le :: "decimal \<Rightarrow> decimal \<Rightarrow> bool" where
  "dec_le (Dec s c e) (Dec s' c' e') =
     (let m = min e e' in dec_scaled m (Dec s c e) \<le> dec_scaled m (Dec s' c' e'))"
| "dec_le (DInf s) (DInf s') = (s \<or> \<not> s')"
| "dec_le (DInf s) (Dec _ _ _) = s"
| "dec_le (Dec _ _ _) (DInf s) = (\<not> s)"
| "dec_le _ _ = False"

definition dec_eq :: "decimal \<Rightarrow> decimal \<Rightarrow> bool" where
  "dec_eq a b \<longleftrightarrow> dec_le a b \<and> dec_le b a"

definition dec_lt :: "decimal \<Rightarrow> decimal \<Rightarrow> bool" where
  "dec_lt a b \<longleftrightarrow> dec_le a b \<and> \<not> dec_le b a"

text \<open>The ordering operators signal \<open>InvalidOperation\<close> on NaN.\<close>

definition dec_ltR :: "decimal \<Rightarrow> decimal \<Rightarrow> bool result" where
  "dec_ltR a b = (if a = DNaN \<or> b = DNaN
     then Inl (DecimalInvalidOperation ''comparison involving NaN'') else Inr (dec_lt a b))"

abbreviation dec0 :: decimal where "dec0 \<equiv> Dec False 0 0"
abbreviation dec1 :: decimal where "dec1 \<equiv> Dec False 1 0"

definition dec_of_int :: "int \<Rightarrow> decimal" where
  "dec_of_int i = Dec (i < 0) (nat \<bar>i\<bar>) 0"

definition dec_max :: "decimal \<Rightarrow> decimal \<Rightarrow> decimal" where
  "dec_max a b = (if dec_lt a b then b else a)"

subsection \<open>Text\<close>

definition is_digit :: "char \<Rightarrow> bool" where
  "is_digit c \<longleftrightarrow> (let n = (of_char c :: nat) in 48 \<le> n \<and> n \<le> 57)"

definition digits_val :: "string \<Rightarrow> nat" where
  "digits_val s = foldl (\<lambda>a c. a * 10 + (of_char c - 48)) 0 s"

definition dec_exponent :: "string \<Rightarrow> int option" where
  "dec_exponent r =
     (case r of
        [] \<Rightarrow> Some 0
      | c # t \<Rightarrow>
          if c = CHR ''e'' \<or> c = CHR ''E'' then
            (let (neg, u) = (case t of d # w \<Rightarrow>
                   if d = CHR ''-'' then (True, w) else if d = CHR ''+'' then (False, w) else (False, t)
                 | [] \<Rightarrow> (False, []))
             in if u \<noteq> [] \<and> list_all is_digit u
                then Some ((if neg then -1 else 1) * int (digits_val u)) else None)
          else None)"

definition dec_unsigned :: "bool \<Rightarrow> string \<Rightarrow> decimal option" where
  "dec_unsigned s t =
     (let ip = takeWhile is_digit t; r = dropWhile is_digit t;
          fp = (case r of c # u \<Rightarrow> if c = CHR ''.'' then takeWhile is_digit u else [] | [] \<Rightarrow> []);
          x = (case r of c # u \<Rightarrow> if c = CHR ''.'' then dropWhile is_digit u else r | [] \<Rightarrow> [])
      in if ip @ fp = [] then None
         else case dec_exponent x of
                None \<Rightarrow> None
              | Some k \<Rightarrow> Some (Dec s (digits_val (ip @ fp)) (k - int (length fp))))"

text \<open>\<open>Decimal(text)\<close>: surrounding whitespace and all underscores are ignored.\<close>

definition dec_of_string :: "string \<Rightarrow> decimal option" where
  "dec_of_string str =
     (let t = filter (\<lambda>c. c \<noteq> CHR ''_'') (py_strip str);
          (s, u) = (case t of c # cs \<Rightarrow>
             if c = CHR ''-'' then (True, cs) else if c = CHR ''+'' then (False, cs) else (False, t)
           | [] \<Rightarrow> (False, []));
          l = py_lower u
      in if l = ''inf'' \<or> l = ''infinity'' then Some (DInf s)
         else if take 3 l = ''nan'' \<and> list_all is_digit (drop 3 l)
              \<or> take 4 l = ''snan'' \<and> list_all is_digit (drop 4 l) then Some DNaN
         else dec_unsigned s u)"

definition dec_body :: "nat \<Rightarrow> int \<Rightarrow> string" where
  "dec_body c e =
     (if 0 \<le> e then (if c = 0 then ''0'' else str_nat c @ replicate (nat e) CHR ''0'')
      else let k = nat (- e); ds = str_nat c;
               padded = replicate (Suc k - length ds) CHR ''0'' @ ds;
               i = length padded - k
           in take i padded @ ''.'' @ drop i padded)"

text \<open>\<open>format(d, 'f')\<close>\<close>

fun dec_format_f :: "decimal \<Rightarrow> string" where
  "dec_format_f (Dec s c e) = (if s then ''-'' else []) @ dec_body c e"
| "dec_format_f (DInf s) = (if s then ''-'' else []) @ ''Infinity''"
| "dec_format_f DNaN = ''NaN''"

text \<open>\<open>str(d)\<close>, the to-scientific-string conversion.\<close>

definition dec_point :: "nat \<Rightarrow> string \<Rightarrow> string" where
  "dec_point i ds = take i ds @ (if i < length ds then ''.'' @ drop i ds else [])"

fun dec_str :: "decimal \<Rightarrow> string" where
  "dec_str (Dec s c e) =
     (let ds = str_nat c; n = int (length ds); left = e + n
      in (if s then ''-'' else []) @
         (if e \<le> 0 \<and> left > -6 then dec_body c e
          else dec_point 1 ds @ ''E'' @ (if left - 1 < 0 then str_int (left - 1)
                                         else ''+'' @ str_int (left - 1))))"
| "dec_str (DInf s) = (if s then ''-'' else []) @ ''Infinity''"
| "dec_str DNaN = ''NaN''"

subsection \<open>Context arithmetic\<close>

definition ndigits :: "nat \<Rightarrow> nat" where
  "ndigits c = length (str_nat c)"

definition adjusted :: "decimal \<Rightarrow> int" where
  "adjusted d = (case d of Dec s c e \<Rightarrow> e + int (ndigits c) - 1 | _ \<Rightarrow> 0)"

text \<open>Rounding to \<open>p\<close> digits, half to even.\<close>

definition dec_round :: "nat \<Rightarrow> bool \<Rightarrow> nat \<Rightarrow> int \<Rightarrow> decimal" where
  "dec_round p s c e =
     (let n = ndigits c in
      if n \<le> p then Dec s c e
      else let k = n - p; q = c div 10 ^ k; r = c mod 10 ^ k;
               up = (2 * r > 10 ^ k \<or> 2 * r = 10 ^ k \<and> odd q);
               q' = (if up then Suc q else q)
           in if q' = 10 ^ p then Dec s (q' div 10) (e + int k + 1) else Dec s q' (e + int k))"

definition dec_add :: "nat \<Rightarrow> decimal \<Rightarrow> decimal \<Rightarrow> decimal" where
  "dec_add p a b =
     (case (a, b) of
        (Dec s c e, Dec s' c' e') \<Rightarrow>
          (let m = min e e'; v = dec_scaled m a + dec_scaled m b
           in dec_round p (if v = 0 then s \<and> s' else v < 0) (nat \<bar>v\<bar>) m)
      | (DInf s, DInf s') \<Rightarrow> if s = s' then DInf s else DNaN
      | (DInf s, Dec _ _ _) \<Rightarrow> DInf s
      | (Dec _ _ _, DInf s) \<Rightarrow> DInf s
      | _ \<Rightarrow> DNaN)"

fun dec_copy_negate :: "decimal \<Rightarrow> decimal" where
  "dec_copy_negate (Dec s c e) = Dec (\<not> s) c e"
| "dec_copy_negate (DInf s) = DInf (\<not> s)"
| "dec_copy_negate DNaN = DNaN"

text \<open>Unary minus and \<open>abs\<close> round to the context and give a zero without sign.\<close>

fun dec_neg :: "nat \<Rightarrow> decimal \<Rightarrow> decimal" where
  "dec_neg p (Dec s c e) = dec_round p (\<not> s \<and> c \<noteq> 0) c e"
| "dec_neg p (DInf s) = DInf (\<not> s)"
| "dec_neg p DNaN = DNaN"

fun dec_abs :: "nat \<Rightarrow> decimal \<Rightarrow> decimal" where
  "dec_abs p (Dec s c e) = dec_round p False c e"
| "dec_abs p (DInf s) = DInf False"
| "dec_abs p DNaN = DNaN"

definition dec_sub :: "nat \<Rightarrow> decimal \<Rightarrow> decimal \<Rightarrow> decimal" where
  "dec_sub p a b = dec_add p a (dec_copy_negate b)"

definition dec_mul :: "nat \<Rightarrow> decimal \<Rightarrow> decimal \<Rightarrow> decimal" where
  "dec_mul p a b =
     (case (a, b) of
        (Dec s c e, Dec s' c' e') \<Rightarrow> dec_round p (s \<noteq> s') (c * c') (e + e')
      | (DInf s, DInf s') \<Rightarrow> DInf (s \<noteq> s')
      | (DInf s, Dec s' c' _) \<Rightarrow> if c' = 0 then DNaN else DInf (s \<noteq> s')
      | (Dec s c _, DInf s') \<Rightarrow> if c = 0 then DNaN else DInf (s \<noteq> s')
      | _ \<Rightarrow> DNaN)"

text \<open>
  Division of finite values by a non-zero divisor: enough digits for correct rounding, an
  inexact quotient marked by its last digit, an exact one brought towards the ideal exponent.
\<close>

function dec_ideal :: "nat \<Rightarrow> int \<Rightarrow> int \<Rightarrow> nat \<times> int" where
  "dec_ideal c e ideal =
     (if e < ideal \<and> c mod 10 = 0 then dec_ideal (c div 10) (e + 1) ideal else (c, e))"
  by pat_completeness auto
termination
  by (relation "measure (\<lambda>(c, e, ideal). nat (ideal - e))") auto

declare dec_ideal.simps [simp del]

definition dec_quot :: "nat \<Rightarrow> nat \<Rightarrow> int \<Rightarrow> nat \<Rightarrow> int \<Rightarrow> nat \<times> int" where
  "dec_quot p c e c' e' =
     (let shift = int (ndigits c') - int (ndigits c) + int p + 1;
          x = e - e' - shift;
          n = (if 0 \<le> shift then c * 10 ^ nat shift else c);
          d = (if 0 \<le> shift then c' else c' * 10 ^ nat (- shift));
          q = n div d
      in if n mod d \<noteq> 0 then (if q mod 5 = 0 then Suc q else q, x)
         else dec_ideal q x (e - e'))"

fun dec_div :: "nat \<Rightarrow> decimal \<Rightarrow> decimal \<Rightarrow> decimal result" where
  "dec_div p (Dec s c e) (Dec s' c' e') =
     (if c' = 0 then Inl (DecimalInvalidOperation ''division by zero'')
      else if c = 0 then Inr (Dec (s \<noteq> s') 0 (e - e'))
      else case dec_quot p c e c' e' of (q, x) \<Rightarrow> Inr (dec_round p (s \<noteq> s') q x))"
| "dec_div p (DInf s) (Dec s' _ _) = Inr (DInf (s \<noteq> s'))"
| "dec_div p (Dec s _ _) (DInf s') = Inr (Dec (s \<noteq> s') 0 0)"
| "dec_div p _ _ = Inr DNaN"

definition dec_sum :: "nat \<Rightarrow> decimal list \<Rightarrow> decimal" where
  "dec_sum p xs = foldl (dec_add p) dec0 xs"

section \<open>Values and comparison\<close>

lemma powi_10_pos [simp]: "(0 :: rat) < 10 powi e"
  by (simp add: zero_less_power_int)

lemma dec_scaled_val:
  assumes "m \<le> dec_exp d" and "is_finite d"
  shows "dec_val d = of_int (dec_scaled m d) * 10 powi m"
proof (cases d)
  case (Dec s c e)
  have "(10 :: rat) powi e = 10 powi (e - m) * 10 powi m"
    by (simp flip: power_int_add)
  moreover have "(10 :: rat) powi (e - m) = 10 ^ nat (e - m)"
    using assms Dec by (simp add: power_int_def)
  ultimately show ?thesis using Dec by simp
qed (use assms in auto)

lemma dec_le_iff_val [simp]:
  assumes "is_finite a" and "is_finite b"
  shows "dec_le a b \<longleftrightarrow> dec_val a \<le> dec_val b"
proof (cases a; cases b)
  fix s c e s' c' e' assume ab: "a = Dec s c e" "b = Dec s' c' e'"
  let ?m = "min e e'"
  have "dec_val a = of_int (dec_scaled ?m a) * 10 powi ?m" "dec_val b = of_int (dec_scaled ?m b) * 10 powi ?m"
    using ab by (simp_all add: dec_scaled_val del: dec_val.simps dec_scaled.simps)
  then show ?thesis using ab by (simp add: Let_def del: dec_val.simps dec_scaled.simps)
qed (use assms in auto)

lemma dec_lt_iff_val [simp]:
  "is_finite a \<Longrightarrow> is_finite b \<Longrightarrow> dec_lt a b \<longleftrightarrow> dec_val a < dec_val b"
  by (auto simp: dec_lt_def)

lemma dec_eq_iff_val [simp]:
  "is_finite a \<Longrightarrow> is_finite b \<Longrightarrow> dec_eq a b \<longleftrightarrow> dec_val a = dec_val b"
  by (auto simp: dec_eq_def)

lemma dec_eq_refl [simp]: "is_finite a \<Longrightarrow> dec_eq a a"
  by simp

lemma dec_eq_finite: "dec_eq a b \<Longrightarrow> is_finite b \<Longrightarrow> is_finite a"
  by (cases a; cases b) (auto simp: dec_eq_def)

lemma dec_eq_trans: "dec_eq a b \<Longrightarrow> dec_eq b c \<Longrightarrow> is_finite c \<Longrightarrow> dec_eq a c"
  using dec_eq_finite [of b c] dec_eq_finite [of a b] by simp

section \<open>Digits\<close>

lemma is_digit_char [simp]: "n < 10 \<Longrightarrow> is_digit (digit_char n)"
  by (simp add: is_digit_def)

lemma is_digit_0 [simp]: "is_digit CHR ''0''"
  by (simp add: is_digit_def)

lemma not_digits [simp]:
  "\<not> is_digit CHR ''.''" "\<not> is_digit CHR ''-''" "\<not> is_digit CHR ''+''" "\<not> is_digit CHR ''_''"
  by (simp_all add: is_digit_def)

lemma is_digit_not_space: "is_digit c \<Longrightarrow> \<not> py_isspace c"
  by (auto simp: is_digit_def py_isspace_def Let_def)

lemma set_str_nat: "c \<in> set (str_nat n) \<Longrightarrow> is_digit c"
proof (induction n rule: str_nat.induct)
  case (1 n)
  then show ?case by (subst (asm) (2) str_nat.simps) (auto split: if_splits)
qed

lemma str_nat_not_Nil [simp]: "str_nat n \<noteq> []"
  by (subst str_nat.simps) simp

lemma digits_val_Nil [simp]: "digits_val [] = 0"
  by (simp add: digits_val_def)

lemma digits_val_snoc [simp]: "digits_val (s @ [c]) = digits_val s * 10 + (of_char c - 48)"
  by (simp add: digits_val_def)

lemma digits_val_str_nat [simp, codec_simps]: "digits_val (str_nat n) = n"
proof (induction n rule: str_nat.induct)
  case (1 n)
  then show ?case
    by (subst str_nat.simps) (auto simp: digits_val_def)
qed

lemma digits_val_append: "digits_val (s @ t) = digits_val s * 10 ^ length t + digits_val t"
  by (induction t rule: rev_induct) (auto simp: algebra_simps simp flip: append_assoc)

lemma digits_val_zeros [simp]: "digits_val (replicate n CHR ''0'') = 0"
  by (induction n) (auto simp: digits_val_def)

lemma digits_val_zeros_append [simp]: "digits_val (replicate n CHR ''0'' @ s) = digits_val s"
  by (simp add: digits_val_append)

lemma digits_val_append_zeros [simp]: "digits_val (s @ replicate n CHR ''0'') = digits_val s * 10 ^ n"
  by (simp add: digits_val_append)

lemma digits_val_less: "list_all is_digit s \<Longrightarrow> digits_val s < 10 ^ length s"
proof (induction s rule: rev_induct)
  case (snoc c s)
  then have "(of_char c :: nat) - 48 \<le> 9" by (auto simp: is_digit_def Let_def)
  moreover have "Suc (digits_val s) * 10 \<le> 10 ^ length s * 10"
    using snoc by (intro mult_right_mono) auto
  ultimately show ?case by simp
qed simp

lemma ndigits_le_iff: "0 < n \<Longrightarrow> ndigits c \<le> n \<longleftrightarrow> c < 10 ^ n"
proof (induction c arbitrary: n rule: str_nat.induct)
  case (1 c)
  show ?case
  proof (cases "c < 10")
    case True
    moreover have "(10 :: nat) ^ 1 \<le> 10 ^ n" using 1(2) by (intro power_increasing) auto
    ultimately show ?thesis using 1(2) by (subst ndigits_def, subst str_nat.simps) auto
  next
    case False
    have nd: "ndigits c = Suc (ndigits (c div 10))"
      using False by (simp add: ndigits_def str_nat.simps [of c])
    show ?thesis
    proof (cases "n = 1")
      case True
      then show ?thesis using False nd by (simp add: ndigits_def)
    next
      case n: False
      then obtain m where m: "n = Suc m" "0 < m" using 1(2) by (cases n) auto
      have "ndigits (c div 10) \<le> m \<longleftrightarrow> c div 10 < 10 ^ m" using 1(1) False m by blast
      also have "\<dots> \<longleftrightarrow> c < 10 ^ n" using m by (simp add: div_less_iff_less_mult mult.commute)
      finally show ?thesis using nd m by simp
    qed
  qed
qed

section \<open>Reading back the fixed-point format\<close>

lemma takeWhile_dropWhile_digits:
  assumes "list_all is_digit s" and "\<not> is_digit c"
  shows "takeWhile is_digit (s @ c # t) = s" and "dropWhile is_digit (s @ c # t) = c # t"
    and "takeWhile is_digit s = s" and "dropWhile is_digit s = []"
  using assms by (induction s) auto

lemma dec_unsigned_int:
  "list_all is_digit s \<Longrightarrow> s \<noteq> [] \<Longrightarrow> dec_unsigned b s = Some (Dec b (digits_val s) 0)"
  by (simp add: dec_unsigned_def dec_exponent_def
      takeWhile_dropWhile_digits(3,4) [where c = "CHR ''.''"] Let_def)

lemma dec_unsigned_frac:
  "list_all is_digit s \<Longrightarrow> list_all is_digit t \<Longrightarrow> s \<noteq> [] \<Longrightarrow>
     dec_unsigned b (s @ ''.'' @ t) = Some (Dec b (digits_val (s @ t)) (- int (length t)))"
  by (simp add: dec_unsigned_def dec_exponent_def takeWhile_dropWhile_digits(1,2)
      takeWhile_dropWhile_digits(3,4) [where c = "CHR ''.''"] Let_def)

lemma py_lower_hd: "is_digit c \<Longrightarrow> py_lower (c # cs) = c # py_lower cs"
  by (auto simp: py_lower_def is_digit_def Let_def)

text \<open>Text of digits, points and exponent marks that starts with a digit, after an optional minus sign.\<close>

lemma dec_of_string_plain:
  assumes "\<And>c. c \<in> set t \<Longrightarrow> is_digit c \<or> c \<in> set ''.E+-''" and "t \<noteq> []" and "is_digit (hd t)"
  shows "dec_of_string ((if s then ''-'' else []) @ t) = dec_unsigned s t"
proof -
  obtain c cs where t: "t = c # cs" and c: "is_digit c" using assms by (cases t) auto
  let ?u = "(if s then ''-'' else []) @ t"
  have marks: "\<not> py_isspace CHR ''.''" "\<not> py_isspace CHR ''-''" "\<not> py_isspace CHR ''E''" "\<not> py_isspace CHR ''+''"
    by (simp_all add: py_isspace_def)
  have strip: "py_strip ?u = ?u"
    using assms(1) marks is_digit_not_space by (intro py_strip_id) (fastforce split: if_splits)
  have keep: "filter (\<lambda>c. c \<noteq> CHR ''_'') ?u = ?u"
    using assms(1) [of "CHR ''_''"] by (intro filter_True) (auto split: if_splits)
  have ne: "c \<noteq> CHR ''-''" "c \<noteq> CHR ''+''" "c \<noteq> CHR ''i''" "c \<noteq> CHR ''n''" "c \<noteq> CHR ''s''"
    using c by (auto simp: is_digit_def)
  show ?thesis
    unfolding dec_of_string_def strip keep using ne c
    by (cases s) (simp_all add: t py_lower_hd)
qed

lemma dec_body_digits:
  "c \<in> set (dec_body n e) \<Longrightarrow> is_digit c \<or> c = CHR ''.''"
  by (auto simp: dec_body_def Let_def set_str_nat split: if_splits dest!: in_set_takeD in_set_dropD)

lemma dec_body_frac:
  assumes "e < 0"
  obtains s t where "dec_body c e = s @ ''.'' @ t" and "list_all is_digit s" and "list_all is_digit t"
    and "s \<noteq> []" and "int (length t) = - e" and "digits_val (s @ t) = c"
proof -
  define k where "k = nat (- e)"
  define padded where "padded = replicate (Suc k - length (str_nat c)) CHR ''0'' @ str_nat c"
  define i where "i = length padded - k"
  have len: "k < length padded" by (simp add: padded_def)
  have dig: "list_all is_digit padded"
    by (auto simp: padded_def list_all_iff set_str_nat)
  show ?thesis
  proof
    show "dec_body c e = take i padded @ ''.'' @ drop i padded"
      using assms by (simp add: dec_body_def Let_def i_def padded_def k_def)
    show "list_all is_digit (take i padded)" "list_all is_digit (drop i padded)"
      using dig by (auto simp: list_all_iff dest: in_set_takeD in_set_dropD)
    show "take i padded \<noteq> []" using len by (simp add: i_def) (metis list.size(3) not_less0)
    show "int (length (drop i padded)) = - e" using len assms by (simp add: i_def k_def)
    show "digits_val (take i padded @ drop i padded) = c"
      unfolding append_take_drop_id by (simp add: padded_def)
  qed
qed

theorem dec_of_string_format_f:
  "dec_of_string (dec_format_f (Dec s c e)) =
     Some (if e \<le> 0 then Dec s c e else Dec s (c * 10 ^ nat e) 0)"
proof (cases "e < 0")
  case True
  then obtain a t where b: "dec_body c e = a @ ''.'' @ t" "list_all is_digit a" "list_all is_digit t"
    "a \<noteq> []" "int (length t) = - e" "digits_val (a @ t) = c"
    by (rule dec_body_frac)
  have "dec_of_string ((if s then ''-'' else []) @ dec_body c e) = dec_unsigned s (dec_body c e)"
    using dec_body_digits b by (intro dec_of_string_plain) (auto simp: list_all_iff hd_append)
  then show ?thesis using b True dec_unsigned_frac [OF b(2-4)] by simp
next
  case False
  then have e: "0 \<le> e" by simp
  have dig: "list_all is_digit (dec_body c e)"
    using e by (auto simp: dec_body_def list_all_iff set_str_nat)
  have ne: "dec_body c e \<noteq> []" using e by (simp add: dec_body_def)
  have "dec_of_string ((if s then ''-'' else []) @ dec_body c e) = dec_unsigned s (dec_body c e)"
    using dig ne by (intro dec_of_string_plain) (auto simp: list_all_iff)
  also have "\<dots> = Some (Dec s (digits_val (dec_body c e)) 0)"
    using dig ne by (rule dec_unsigned_int)
  also have "digits_val (dec_body c e) = c * 10 ^ nat e"
    using e by (simp add: dec_body_def) (simp add: digits_val_def)
  finally show ?thesis using e by (cases "e = 0") auto
qed

corollary dec_of_string_format_f_val:
  assumes "is_finite d"
  shows "\<exists>d'. dec_of_string (dec_format_f d) = Some d' \<and> is_finite d' \<and> dec_val d' = dec_val d"
proof (cases d)
  case (Dec s c e)
  have "0 < e \<Longrightarrow> (10 :: rat) ^ nat e = 10 powi e" by (simp add: power_int_def)
  then show ?thesis using Dec dec_of_string_format_f [of s c e]
    by (cases "e \<le> 0") (auto simp del: dec_format_f.simps)
qed (use assms in auto)

section \<open>Reading back \<open>str\<close>\<close>

definition exponent_text :: "int \<Rightarrow> string" where
  "exponent_text k = ''E'' @ (if k < 0 then str_int k else ''+'' @ str_int k)"

lemma list_all_str_nat [simp]: "list_all is_digit (str_nat n)"
  by (auto simp: list_all_iff set_str_nat)

lemma dec_exponent_text: "dec_exponent (exponent_text k) = Some k"
  by (auto simp: dec_exponent_def exponent_text_def str_int_def Let_def)

lemma dec_unsigned_point:
  assumes "list_all is_digit ds" and "ds \<noteq> []"
  shows "dec_unsigned b (dec_point 1 ds @ exponent_text k) = Some (Dec b (digits_val ds) (k - int (length ds - 1)))"
proof (cases ds)
  case (Cons d t)
  have e: "\<not> is_digit CHR ''E''" by (simp add: is_digit_def)
  have ex: "exponent_text k = CHR ''E'' # tl (exponent_text k)" by (simp add: exponent_text_def)
  have d: "is_digit d" "list_all is_digit t" using assms Cons by simp_all
  show ?thesis
  proof (cases t)
    case Nil
    then show ?thesis using d e
      by (subst ex, simp add: dec_unsigned_def dec_point_def Cons Let_def, subst ex [symmetric], simp add: dec_exponent_text)
  next
    case (Cons _ _)
    have tw: "takeWhile is_digit (t @ exponent_text k) = t" "dropWhile is_digit (t @ exponent_text k) = exponent_text k"
      using takeWhile_dropWhile_digits(1,2) [OF d(2) e, of "tl (exponent_text k)"] by (simp_all flip: ex)
    show ?thesis using d(1) tw Cons \<open>ds = d # t\<close>
      by (simp add: dec_unsigned_def dec_point_def Let_def dec_exponent_text)
  qed
qed (use assms in simp)

theorem dec_of_string_dec_str [simp, codec_simps]:
  assumes "is_finite d"
  shows "dec_of_string (dec_str d) = Some d"
proof (cases d)
  case (Dec s c e)
  let ?ds = "str_nat c" and ?k = "e + int (length (str_nat c)) - 1"
  show ?thesis
  proof (cases "e \<le> 0 \<and> e + int (length ?ds) > -6")
    case True
    then show ?thesis using dec_of_string_format_f [of s c e] by (simp add: Dec)
  next
    case False
    have shown: "dec_str d = (if s then ''-'' else []) @ dec_point 1 ?ds @ exponent_text ?k"
      using False by (auto simp: Dec Let_def exponent_text_def)
    have "is_digit c' \<or> c' \<in> set ''.E+-''" if "c' \<in> set (dec_point 1 ?ds @ exponent_text ?k)" for c'
      using that by (auto simp: dec_point_def exponent_text_def str_int_def set_str_nat split: if_splits
          dest!: in_set_takeD in_set_dropD)
    moreover have "dec_point 1 ?ds \<noteq> []" "is_digit (hd (dec_point 1 ?ds @ exponent_text ?k))"
      using set_str_nat [of _ c] by (cases ?ds; simp add: dec_point_def)+
    ultimately have "dec_of_string (dec_str d) = dec_unsigned s (dec_point 1 ?ds @ exponent_text ?k)"
      unfolding shown by (intro dec_of_string_plain) auto
    also have "\<dots> = Some (Dec s c (?k - int (length ?ds - 1)))"
      using dec_unsigned_point [of ?ds s ?k] by simp
    also have "?k - int (length ?ds - 1) = e" by (simp add: Suc_leI of_nat_diff)
    finally show ?thesis unfolding Dec .
  qed
qed (use assms in auto)

section \<open>Rounding is exact on few digits\<close>

lemma dec_round_exact [simp]: "ndigits c \<le> p \<Longrightarrow> dec_round p s c e = Dec s c e"
  by (simp add: dec_round_def)

lemma is_finite_round [simp]: "is_finite (dec_round p s c e)"
  by (simp add: dec_round_def Let_def)

lemma is_finite_iff: "is_finite d \<longleftrightarrow> (\<exists>s c e. d = Dec s c e)"
  by (cases d) auto

lemma is_finite_ops [simp]:
  "is_finite a \<Longrightarrow> is_finite b \<Longrightarrow> is_finite (dec_add p a b)"
  "is_finite a \<Longrightarrow> is_finite b \<Longrightarrow> is_finite (dec_mul p a b)"
  "is_finite a \<Longrightarrow> is_finite (dec_copy_negate a)"
  "is_finite a \<Longrightarrow> is_finite (dec_neg p a)"
  "is_finite a \<Longrightarrow> is_finite (dec_abs p a)"
  by (auto simp: is_finite_iff [of a] is_finite_iff [of b] dec_add_def dec_mul_def Let_def)

lemma is_finite_sub [simp]: "is_finite a \<Longrightarrow> is_finite b \<Longrightarrow> is_finite (dec_sub p a b)"
  by (simp add: dec_sub_def)

lemma is_finite_foldl_add:
  "is_finite a \<Longrightarrow> \<forall>x\<in>set xs. is_finite x \<Longrightarrow> is_finite (foldl (dec_add p) a xs)"
  by (induction xs arbitrary: a) auto

lemma is_finite_sum [simp]: "\<forall>x\<in>set xs. is_finite x \<Longrightarrow> is_finite (dec_sum p xs)"
  by (simp add: dec_sum_def is_finite_foldl_add)

end
