(* ===== verification/Domain.thy ===== *)
theory Domain
  imports Py_Decimal
begin

text \<open>
  \<open>src/execution/domain.py\<close>: the enumerations, the lifecycle table, the frozen dataclasses
  with their \<open>__post_init__\<close> validation, canonical JSON and payload hashing, and the JSON
  decoders of \<open>src/execution/store.py\<close>. Enumerations are datatypes with their text in
  \<open>_str\<close> and the checked conversion from text in \<open>_of\<close>. A \<open>datetime\<close> is either naive or
  aware; an aware one normalised to UTC is an \<open>instant\<close>, microseconds since the epoch. In a
  JSON tree the ISO text of an instant is the leaf \<open>JTime\<close>, so reading it back is exact. The
  SHA-256 digest is a parameter \<open>H\<close> from text to hex text.
\<close>

section \<open>Time\<close>

type_synonym instant = int

datatype pydatetime = Naive int | Aware int int

fun aware_utc :: "pydatetime \<Rightarrow> string \<Rightarrow> instant result" where
  "aware_utc (Naive _) field_name = Inl (DomainValidationError (field_name @ '' must be timezone-aware''))"
| "aware_utc (Aware t _) field_name = Inr t"

abbreviation utc :: "instant \<Rightarrow> pydatetime" where "utc t \<equiv> Aware t 0"

definition seconds :: "int \<Rightarrow> int" where
  "seconds n = n * 1000000"

definition pad_nat :: "nat \<Rightarrow> nat \<Rightarrow> string" where
  "pad_nat w n = (let s = str_nat n in replicate (w - length s) CHR ''0'' @ s)"

text \<open>Proleptic Gregorian date of a day number counted from 1970-01-01.\<close>

definition civil_from_days :: "int \<Rightarrow> int \<times> int \<times> int" where
  "civil_from_days days =
     (let z = days + 719468; era = z div 146097; doe = z - era * 146097;
          yoe = (doe - doe div 1460 + doe div 36524 - doe div 146096) div 365;
          doy = doe - (365 * yoe + yoe div 4 - yoe div 100);
          mp = (5 * doy + 2) div 153;
          d = doy - (153 * mp + 2) div 5 + 1;
          m = (if mp < 10 then mp + 3 else mp - 9);
          y = yoe + era * 400 + (if m \<le> 2 then 1 else 0)
      in (y, m, d))"

text \<open>\<open>isoformat()\<close> of a UTC instant with the given spelling of the zero offset.\<close>

definition iso_text :: "string \<Rightarrow> instant \<Rightarrow> string" where
  "iso_text off t =
     (let us = t mod 1000000; s = t div 1000000; days = s div 86400; r = s mod 86400;
          (y, m, d) = civil_from_days days
      in pad_nat 4 (nat y) @ ''-'' @ pad_nat 2 (nat m) @ ''-'' @ pad_nat 2 (nat d) @ ''T'' @
         pad_nat 2 (nat (r div 3600)) @ '':'' @ pad_nat 2 (nat (r mod 3600 div 60)) @ '':'' @
         pad_nat 2 (nat (r mod 60)) @ (if us = 0 then [] else ''.'' @ pad_nat 6 (nat us)) @ off)"

section \<open>Canonical JSON\<close>

datatype json =
    JNull
  | JBool bool
  | JInt int
  | JStr string
  | JTime instant
  | JArr "json list"
  | JObj "(string \<times> json) list"

definition json_char :: "char \<Rightarrow> string" where
  "json_char c = (let n = (of_char c :: nat) in
     if c = CHR 0x22 then [CHR 0x5C, CHR 0x22]
     else if c = CHR 0x5C then [CHR 0x5C, CHR 0x5C]
     else if n = 8 then CHR 0x5C # ''b'' else if n = 9 then CHR 0x5C # ''t''
     else if n = 10 then CHR 0x5C # ''n'' else if n = 12 then CHR 0x5C # ''f''
     else if n = 13 then CHR 0x5C # ''r''
     else if n < 32 \<or> 127 < n then CHR 0x5C # CHR ''u'' # hexn 4 n
     else [c])"

definition json_quote :: "string \<Rightarrow> string" where
  "json_quote s = CHR 0x22 # concat (map json_char s) @ [CHR 0x22]"

fun join :: "string \<Rightarrow> string list \<Rightarrow> string" where
  "join sep [] = []"
| "join sep [x] = x"
| "join sep (x # y # ys) = x @ sep @ join sep (y # ys)"

text \<open>\<open>json.dumps(..., sort_keys=True, separators=(',', ':'), ensure_ascii=True)\<close>\<close>

fun canonical_json :: "json \<Rightarrow> string" where
  "canonical_json JNull = ''null''"
| "canonical_json (JBool b) = (if b then ''true'' else ''false'')"
| "canonical_json (JInt i) = str_int i"
| "canonical_json (JStr s) = json_quote s"
| "canonical_json (JTime t) = json_quote (iso_text ''Z'' t)"
| "canonical_json (JArr vs) = ''['' @ join '','' (map canonical_json vs) @ '']''"
| "canonical_json (JObj kvs) = ''{'' @ join '',''
     (map (\<lambda>(k, t). json_quote k @ '':'' @ t)
       (sort_key fst (map (\<lambda>kv. (fst kv, canonical_json (snd kv))) kvs))) @ ''}''"

type_synonym digest = "string \<Rightarrow> string"

definition payload_hash :: "digest \<Rightarrow> json \<Rightarrow> string" where
  "payload_hash H v = H (canonical_json v)"

definition json_get :: "json \<Rightarrow> string \<Rightarrow> json result" where
  "json_get j k = (case j of JObj kvs \<Rightarrow> of_option (PyKeyError k) (map_of kvs k)
                           | _ \<Rightarrow> Inl (PyTypeError ''not subscriptable''))"

definition json_str :: "json \<Rightarrow> string result" where
  "json_str j = (case j of JStr s \<Rightarrow> Inr s | _ \<Rightarrow> Inl (PyTypeError ''string expected''))"

definition json_int :: "json \<Rightarrow> int result" where
  "json_int j = (case j of JInt i \<Rightarrow> Inr i | _ \<Rightarrow> Inl (PyTypeError ''integer expected''))"

definition json_bool :: "json \<Rightarrow> bool result" where
  "json_bool j = (case j of JBool b \<Rightarrow> Inr b | _ \<Rightarrow> Inl (PyTypeError ''boolean expected''))"

definition json_arr :: "json \<Rightarrow> json list result" where
  "json_arr j = (case j of JArr vs \<Rightarrow> Inr vs | _ \<Rightarrow> Inl (PyTypeError ''array expected''))"

definition json_opt_str :: "json \<Rightarrow> string option result" where
  "json_opt_str j = (case j of JNull \<Rightarrow> Inr None | _ \<Rightarrow> bindR (json_str j) (\<lambda>s. Inr (Some s)))"

text \<open>\<open>_parse_datetime\<close> on the ISO text of an instant.\<close>

definition parse_datetime :: "json \<Rightarrow> pydatetime result" where
  "parse_datetime j = (case j of JTime t \<Rightarrow> Inr (utc t) | _ \<Rightarrow> Inl (PyValueError ''Invalid isoformat string''))"

definition str_field :: "json \<Rightarrow> string \<Rightarrow> string result" where
  "str_field j k = bindR (json_get j k) json_str"

definition jopt :: "string option \<Rightarrow> json" where
  "jopt x = (case x of None \<Rightarrow> JNull | Some s \<Rightarrow> JStr s)"

section \<open>Enumerations\<close>

datatype environment = OFFLINE | DEMO | REAL
datatype order_side = BUY | SELL
datatype order_type = MARKET | LIMIT
datatype sizing_method = FIXED_NOTIONAL | PERCENT_EQUITY | UNITS
datatype risk_outcome = ACCEPTED | DECLINED
datatype broker_operation = SUBMIT_ORDER | CLOSE_POSITION | PARTIAL_CLOSE | CANCEL_ORDER | RECONCILE

datatype command_state =
    PROPOSED | RISK_REJECTED | AWAITING_APPROVAL | APPROVED | SUBMISSION_PENDING | ACKNOWLEDGED
  | PARTIALLY_FILLED | FILLED | REJECTED | CANCEL_PENDING | CANCELLED | UNKNOWN | RECONCILING
  | RECONCILED

text \<open>\<open>Enum(text)\<close>: the member with that text, else \<open>ValueError\<close>.\<close>

definition enum_of :: "('a \<Rightarrow> string) \<Rightarrow> 'a list \<Rightarrow> string \<Rightarrow> 'a result" where
  "enum_of text members s = of_option (PyValueError s) (List.find (\<lambda>x. text x = s) members)"

fun environment_str :: "environment \<Rightarrow> string" where
  "environment_str OFFLINE = ''offline''"
| "environment_str DEMO = ''demo''"
| "environment_str REAL = ''real''"

definition environment_of :: "string \<Rightarrow> environment result" where
  "environment_of = enum_of environment_str [OFFLINE, DEMO, REAL]"

fun order_side_str :: "order_side \<Rightarrow> string" where
  "order_side_str BUY = ''buy''"
| "order_side_str SELL = ''sell''"

definition order_side_of :: "string \<Rightarrow> order_side result" where
  "order_side_of = enum_of order_side_str [BUY, SELL]"

fun order_type_str :: "order_type \<Rightarrow> string" where
  "order_type_str MARKET = ''market''"
| "order_type_str LIMIT = ''limit''"

definition order_type_of :: "string \<Rightarrow> order_type result" where
  "order_type_of = enum_of order_type_str [MARKET, LIMIT]"

fun sizing_method_str :: "sizing_method \<Rightarrow> string" where
  "sizing_method_str FIXED_NOTIONAL = ''fixed_notional''"
| "sizing_method_str PERCENT_EQUITY = ''percent_equity''"
| "sizing_method_str UNITS = ''units''"

definition sizing_method_of :: "string \<Rightarrow> sizing_method result" where
  "sizing_method_of = enum_of sizing_method_str [FIXED_NOTIONAL, PERCENT_EQUITY, UNITS]"

fun risk_outcome_str :: "risk_outcome \<Rightarrow> string" where
  "risk_outcome_str ACCEPTED = ''accepted''"
| "risk_outcome_str DECLINED = ''rejected''"

definition risk_outcome_of :: "string \<Rightarrow> risk_outcome result" where
  "risk_outcome_of = enum_of risk_outcome_str [ACCEPTED, DECLINED]"

fun broker_operation_str :: "broker_operation \<Rightarrow> string" where
  "broker_operation_str SUBMIT_ORDER = ''submit_order''"
| "broker_operation_str CLOSE_POSITION = ''close_position''"
| "broker_operation_str PARTIAL_CLOSE = ''partial_close''"
| "broker_operation_str CANCEL_ORDER = ''cancel_order''"
| "broker_operation_str RECONCILE = ''reconcile''"

definition broker_operation_of :: "string \<Rightarrow> broker_operation result" where
  "broker_operation_of =
     enum_of broker_operation_str [SUBMIT_ORDER, CLOSE_POSITION, PARTIAL_CLOSE, CANCEL_ORDER, RECONCILE]"

fun command_state_str :: "command_state \<Rightarrow> string" where
  "command_state_str PROPOSED = ''proposed''"
| "command_state_str RISK_REJECTED = ''risk_rejected''"
| "command_state_str AWAITING_APPROVAL = ''awaiting_approval''"
| "command_state_str APPROVED = ''approved''"
| "command_state_str SUBMISSION_PENDING = ''submission_pending''"
| "command_state_str ACKNOWLEDGED = ''acknowledged''"
| "command_state_str PARTIALLY_FILLED = ''partially_filled''"
| "command_state_str FILLED = ''filled''"
| "command_state_str REJECTED = ''rejected''"
| "command_state_str CANCEL_PENDING = ''cancel_pending''"
| "command_state_str CANCELLED = ''cancelled''"
| "command_state_str UNKNOWN = ''unknown''"
| "command_state_str RECONCILING = ''reconciling''"
| "command_state_str RECONCILED = ''reconciled''"

definition all_command_states :: "command_state list" where
  "all_command_states =
     [PROPOSED, RISK_REJECTED, AWAITING_APPROVAL, APPROVED, SUBMISSION_PENDING, ACKNOWLEDGED,
      PARTIALLY_FILLED, FILLED, REJECTED, CANCEL_PENDING, CANCELLED, UNKNOWN, RECONCILING,
      RECONCILED]"

definition command_state_of :: "string \<Rightarrow> command_state result" where
  "command_state_of = enum_of command_state_str all_command_states"

fun allowed_transitions :: "command_state \<Rightarrow> command_state list" where
  "allowed_transitions PROPOSED = [RISK_REJECTED, AWAITING_APPROVAL]"
| "allowed_transitions RISK_REJECTED = [RECONCILED]"
| "allowed_transitions AWAITING_APPROVAL = [APPROVED, RISK_REJECTED]"
| "allowed_transitions APPROVED = [SUBMISSION_PENDING]"
| "allowed_transitions SUBMISSION_PENDING = [ACKNOWLEDGED, REJECTED, UNKNOWN]"
| "allowed_transitions ACKNOWLEDGED = [PARTIALLY_FILLED, FILLED, REJECTED, CANCEL_PENDING, UNKNOWN]"
| "allowed_transitions PARTIALLY_FILLED =
     [PARTIALLY_FILLED, FILLED, CANCEL_PENDING, UNKNOWN, RECONCILED]"
| "allowed_transitions FILLED = [RECONCILED]"
| "allowed_transitions REJECTED = [RECONCILED]"
| "allowed_transitions CANCEL_PENDING = [CANCELLED, PARTIALLY_FILLED, FILLED, UNKNOWN]"
| "allowed_transitions CANCELLED = [RECONCILED]"
| "allowed_transitions UNKNOWN = [RECONCILING]"
| "allowed_transitions RECONCILING =
     [RECONCILED, ACKNOWLEDGED, PARTIALLY_FILLED, FILLED, REJECTED, CANCELLED, UNKNOWN]"
| "allowed_transitions RECONCILED = []"

text \<open>A run of the lifecycle: consecutive states are allowed transitions.\<close>

fun lifecycle_path :: "command_state list \<Rightarrow> bool" where
  "lifecycle_path [] = True"
| "lifecycle_path [s] = True"
| "lifecycle_path (s # t # ss) = (t \<in> set (allowed_transitions s) \<and> lifecycle_path (t # ss))"

text \<open>How far a command is: before submission, pending, with the broker, closed.\<close>

fun phase :: "command_state \<Rightarrow> nat" where
  "phase PROPOSED = 0"
| "phase AWAITING_APPROVAL = 1"
| "phase APPROVED = 2"
| "phase SUBMISSION_PENDING = 3"
| "phase RISK_REJECTED = 4"
| "phase RECONCILED = 5"
| "phase _ = 4"

section \<open>Conversions\<close>

lemma aware_utc_Inr [simp, result_simps]: "aware_utc d f = Inr t \<longleftrightarrow> (\<exists>off. d = Aware t off)"
  by (cases d) auto

lemma environment_of_str [simp, codec_simps]: "environment_of (environment_str e) = Inr e"
  by (cases e) (simp_all add: environment_of_def enum_of_def)

lemma order_side_of_str [simp, codec_simps]: "order_side_of (order_side_str e) = Inr e"
  by (cases e) (simp_all add: order_side_of_def enum_of_def)

lemma order_type_of_str [simp, codec_simps]: "order_type_of (order_type_str e) = Inr e"
  by (cases e) (simp_all add: order_type_of_def enum_of_def)

lemma sizing_method_of_str [simp, codec_simps]: "sizing_method_of (sizing_method_str e) = Inr e"
  by (cases e) (simp_all add: sizing_method_of_def enum_of_def)

lemma risk_outcome_of_str [simp, codec_simps]: "risk_outcome_of (risk_outcome_str e) = Inr e"
  by (cases e) (simp_all add: risk_outcome_of_def enum_of_def)

lemma broker_operation_of_str [simp, codec_simps]: "broker_operation_of (broker_operation_str e) = Inr e"
  by (cases e) (simp_all add: broker_operation_of_def enum_of_def)

lemma command_state_of_str [simp, codec_simps]: "command_state_of (command_state_str e) = Inr e"
  by (cases e) (simp_all add: command_state_of_def enum_of_def all_command_states_def)

lemma command_state_str_inj [simp]: "command_state_str a = command_state_str b \<longleftrightarrow> a = b"
  by (metis command_state_of_str sum.inject(2))

lemma environment_str_inj [simp]: "environment_str a = environment_str b \<longleftrightarrow> a = b"
  by (metis environment_of_str sum.inject(2))

lemma enum_of_Inr: "enum_of text members s = Inr e \<Longrightarrow> text e = s"
  by (auto simp: enum_of_def find_Some_iff)

lemma all_command_states_complete: "s \<in> set all_command_states"
  by (cases s) (simp_all add: all_command_states_def)

section \<open>The lifecycle table\<close>

lemma allowed_phase: "t \<in> set (allowed_transitions s) \<Longrightarrow> phase s \<le> phase t"
  by (cases s; cases t) simp_all

lemma allowed_phase_strict:
  "t \<in> set (allowed_transitions s) \<Longrightarrow> phase s < 4 \<Longrightarrow> phase s < phase t"
  by (cases s; cases t) simp_all

lemma allowed_into_pending:
  "SUBMISSION_PENDING \<in> set (allowed_transitions s) \<longleftrightarrow> s = APPROVED"
  by (cases s) simp_all

lemma allowed_into_approved: "APPROVED \<in> set (allowed_transitions s) \<longleftrightarrow> s = AWAITING_APPROVAL"
  by (cases s) simp_all

lemma phase_eq_3 [simp]: "phase s = 3 \<longleftrightarrow> s = SUBMISSION_PENDING"
  by (cases s) simp_all

lemma lifecycle_path_phase:
  "lifecycle_path (s # ss) \<Longrightarrow> t \<in> set ss \<Longrightarrow> phase s \<le> phase t"
proof (induction ss arbitrary: s)
  case (Cons u ss)
  then have "phase s \<le> phase u" by (simp add: allowed_phase)
  with Cons show ?case by (cases "t = u") (auto intro: le_trans)
qed simp

lemma lifecycle_path_phase_strict:
  "lifecycle_path (s # ss) \<Longrightarrow> phase s < 4 \<Longrightarrow> t \<in> set ss \<Longrightarrow> phase s < phase t"
proof (cases ss)
  case (Cons u us)
  assume "lifecycle_path (s # ss)" "phase s < 4" "t \<in> set ss"
  then have "phase s < phase u" and "lifecycle_path (u # us)"
    using Cons by (auto intro: allowed_phase_strict)
  then show ?thesis using lifecycle_path_phase \<open>t \<in> set ss\<close> Cons by fastforce
qed simp

text \<open>
  Along any run of the lifecycle table a command is in \<open>submission_pending\<close> at most once,
  so a command that left that state is never again eligible for a send.
\<close>

theorem submission_pending_once:
  "lifecycle_path ss \<Longrightarrow> count_list ss SUBMISSION_PENDING \<le> 1"
proof (induction ss)
  case (Cons s ss)
  then have IH: "count_list ss SUBMISSION_PENDING \<le> 1" by (cases ss) auto
  show ?case
  proof (cases "s = SUBMISSION_PENDING")
    case True
    then have "SUBMISSION_PENDING \<notin> set ss"
      using lifecycle_path_phase_strict [OF Cons.prems, of SUBMISSION_PENDING] by auto
    then show ?thesis by (simp add: count_notin)
  qed (use IH in simp)
qed simp

theorem submission_pending_once_witness:
  "lifecycle_path [APPROVED, SUBMISSION_PENDING, UNKNOWN, RECONCILING, UNKNOWN] \<and>
   count_list [APPROVED, SUBMISSION_PENDING, UNKNOWN, RECONCILING, UNKNOWN] SUBMISSION_PENDING \<le> 1"
  using submission_pending_once [of "[APPROVED, SUBMISSION_PENDING, UNKNOWN, RECONCILING, UNKNOWN]"]
  by simp

text \<open>Every state can be closed: a shortest way to \<open>reconciled\<close>.\<close>

fun closing_path :: "command_state \<Rightarrow> command_state list" where
  "closing_path PROPOSED = [PROPOSED, RISK_REJECTED, RECONCILED]"
| "closing_path AWAITING_APPROVAL = [AWAITING_APPROVAL, RISK_REJECTED, RECONCILED]"
| "closing_path APPROVED = [APPROVED, SUBMISSION_PENDING, REJECTED, RECONCILED]"
| "closing_path SUBMISSION_PENDING = [SUBMISSION_PENDING, REJECTED, RECONCILED]"
| "closing_path ACKNOWLEDGED = [ACKNOWLEDGED, FILLED, RECONCILED]"
| "closing_path CANCEL_PENDING = [CANCEL_PENDING, CANCELLED, RECONCILED]"
| "closing_path UNKNOWN = [UNKNOWN, RECONCILING, RECONCILED]"
| "closing_path RECONCILED = [RECONCILED]"
| "closing_path s = [s, RECONCILED]"

text \<open>
  No state of the table is a dead end: from every state some run reaches \<open>reconciled\<close>,
  and \<open>reconciled\<close> is the only state without successors.
\<close>

theorem lifecycle_can_close:
  "\<exists>ss. lifecycle_path ss \<and> hd ss = s \<and> last ss = RECONCILED \<and>
        (allowed_transitions s = [] \<longleftrightarrow> s = RECONCILED)"
  by (rule exI [of _ "closing_path s"], cases s) simp_all

end
