(* ===== verification/Py_Render.thy ===== *)
theory Py_Render
  imports Domain
begin

text \<open>
  The text Python gives values that the modelled code turns into strings (\<open>str\<close> of booleans,
  tuples, lists and second counts) and parsed YAML documents with the conversions the
  configuration loaders apply to them. The YAML parser is third-party code: a loader takes
  its result, \<open>None\<close> when the file cannot be read or parsed.
\<close>

section \<open>Text of values\<close>

definition bool_text :: "bool \<Rightarrow> string" where
  "bool_text b = (if b then ''True'' else ''False'')"

text \<open>\<open>repr\<close> of a string of ASCII characters.\<close>

definition repr_char :: "char \<Rightarrow> char \<Rightarrow> string" where
  "repr_char q c = (let n = (of_char c :: nat) in
     if c = q \<or> c = CHR 0x5C then [CHR 0x5C, c]
     else if n = 9 then CHR 0x5C # ''t'' else if n = 10 then CHR 0x5C # ''n''
     else if n = 13 then CHR 0x5C # ''r''
     else if n < 32 \<or> n = 127 then CHR 0x5C # CHR ''x'' # hexn 2 n
     else [c])"

definition py_repr_str :: "string \<Rightarrow> string" where
  "py_repr_str s =
     (let q = (if CHR 0x27 \<in> set s \<and> CHR 0x22 \<notin> set s then CHR 0x22 else CHR 0x27)
      in q # concat (map (repr_char q) s) @ [q])"

definition py_list_text :: "string list \<Rightarrow> string" where
  "py_list_text reprs = ''['' @ join '', '' reprs @ '']''"

definition py_tuple_text :: "string list \<Rightarrow> string" where
  "py_tuple_text reprs = ''('' @ join '', '' reprs @ (if length reprs = 1 then '','' else []) @ '')''"

text \<open>
  \<open>str\<close> of \<open>timedelta.total_seconds()\<close> for a difference of microseconds: the shortest text of
  the float, which is the decimal itself below fifteen digits. Values under \<open>1e-4\<close> seconds
  are in scientific notation.
\<close>

definition rstrip_zeros :: "string \<Rightarrow> string" where
  "rstrip_zeros s = rev (dropWhile (\<lambda>c. c = CHR ''0'') (rev s))"

definition seconds_text :: "int \<Rightarrow> string" where
  "seconds_text us =
     (let m = nat \<bar>us\<bar>; w = m div 1000000; f = m mod 1000000;
          ds = str_nat m;
          body = (if m = 0 \<or> 100 \<le> m
                  then str_nat w @ ''.'' @ (if f = 0 then ''0'' else rstrip_zeros (pad_nat 6 f))
                  else (let t = rstrip_zeros ds in
                        take 1 t @ (if length t = 1 then [] else ''.'' @ drop 1 t) @ ''e-0'' @
                        str_nat (7 - length ds)))
      in (if us < 0 then ''-'' else []) @ body)"

section \<open>YAML documents\<close>

text \<open>A float is its \<open>repr\<close> and its truncation, which an infinity or a NaN does not have.\<close>

datatype yaml =
    YNull
  | YBool bool
  | YInt int
  | YFloat string "int option"
  | YStr string
  | YList "yaml list"
  | YMap "(string \<times> yaml) list"

fun yaml_str :: "yaml \<Rightarrow> string" and yaml_repr :: "yaml \<Rightarrow> string" where
  "yaml_str (YStr s) = s"
| "yaml_str YNull = ''None''"
| "yaml_str (YBool b) = bool_text b"
| "yaml_str (YInt i) = str_int i"
| "yaml_str (YFloat r t) = r"
| "yaml_str (YList vs) = py_list_text (map yaml_repr vs)"
| "yaml_str (YMap kvs) = ''{'' @ join '', '' (map (\<lambda>kv. py_repr_str (fst kv) @ '': '' @ yaml_repr (snd kv)) kvs) @ ''}''"
| "yaml_repr (YStr s) = py_repr_str s"
| "yaml_repr YNull = ''None''"
| "yaml_repr (YBool b) = bool_text b"
| "yaml_repr (YInt i) = str_int i"
| "yaml_repr (YFloat r t) = r"
| "yaml_repr (YList vs) = py_list_text (map yaml_repr vs)"
| "yaml_repr (YMap kvs) = ''{'' @ join '', '' (map (\<lambda>kv. py_repr_str (fst kv) @ '': '' @ yaml_repr (snd kv)) kvs) @ ''}''"

text \<open>\<open>int(value)\<close>\<close>

fun yaml_int :: "yaml \<Rightarrow> int result" where
  "yaml_int (YInt i) = Inr i"
| "yaml_int (YBool b) = Inr (if b then 1 else 0)"
| "yaml_int (YFloat r t) = of_option (if r = ''nan'' then PyValueError ''cannot convert float NaN to integer''
     else PyOverflowError ''cannot convert float infinity to integer'') t"
| "yaml_int (YStr s) = of_option (PyValueError ''invalid literal for int()'') (py_int10 s)"
| "yaml_int _ = Inl (PyTypeError ''int() argument'')"

text \<open>\<open>Decimal(str(value))\<close>\<close>

definition yaml_decimal :: "yaml \<Rightarrow> decimal result" where
  "yaml_decimal v = of_option (DecimalInvalidOperation ''ConversionSyntax'') (dec_of_string (yaml_str v))"

text \<open>\<open>for item in value\<close>\<close>

fun yaml_items :: "yaml \<Rightarrow> yaml list result" where
  "yaml_items (YList vs) = Inr vs"
| "yaml_items (YStr s) = Inr (map (\<lambda>c. YStr [c]) s)"
| "yaml_items (YMap kvs) = Inr (map (\<lambda>kv. YStr (fst kv)) kvs)"
| "yaml_items _ = Inl (PyTypeError ''object is not iterable'')"

definition yaml_true :: "yaml \<Rightarrow> bool" where
  "yaml_true v = (v = YBool True)"

text \<open>\<open>if not isinstance(raw, dict): raise e\<close>\<close>

fun yaml_dict :: "error \<Rightarrow> yaml \<Rightarrow> (string \<times> yaml) list result" where
  "yaml_dict e (YMap kvs) = Inr kvs"
| "yaml_dict e _ = Inl e"

lemma yaml_dict_Inr [simp, result_simps]: "yaml_dict e y = Inr kvs \<longleftrightarrow> y = YMap kvs"
  by (cases y) auto

text \<open>\<open>raw[key]\<close> of a mapping that has the key.\<close>

definition yaml_get :: "(string \<times> yaml) list \<Rightarrow> string \<Rightarrow> yaml" where
  "yaml_get kvs k = (case map_of kvs k of Some v \<Rightarrow> v | None \<Rightarrow> YNull)"

definition missing_keys :: "string list \<Rightarrow> (string \<times> yaml) list \<Rightarrow> string list" where
  "missing_keys required kvs = sort (filter (\<lambda>k. map_of kvs k = None) required)"

text \<open>The text Python's f-string gives the list of missing keys.\<close>

definition missing_text :: "string list \<Rightarrow> string" where
  "missing_text ks = py_list_text (map py_repr_str ks)"

text \<open>Any exception of a block is replaced by the one the \<open>except\<close> clause raises.\<close>

definition rescue :: "error \<Rightarrow> 'a result \<Rightarrow> 'a result" where
  "rescue e r = (case r of Inl _ \<Rightarrow> Inl e | Inr x \<Rightarrow> Inr x)"

lemma rescue_Inr [simp, result_simps]: "rescue e r = Inr x \<longleftrightarrow> r = Inr x"
  by (cases r) (simp_all add: rescue_def)

section \<open>Calendar dates\<close>

text \<open>
  \<open>date.fromisoformat(text).isoformat()\<close>: the calendar forms \<open>YYYY-MM-DD\<close> and \<open>YYYYMMDD\<close>, and the
  week forms \<open>YYYY-Www\<close>, \<open>YYYYWww\<close>, \<open>YYYY-Www-D\<close> and \<open>YYYYWwwD\<close>, for the years 1 to 9999.
\<close>

definition days_from_civil :: "int \<Rightarrow> int \<Rightarrow> int \<Rightarrow> int" where
  "days_from_civil y m d =
     (let y' = (if m \<le> 2 then y - 1 else y); era = y' div 400; yoe = y' - era * 400;
          doy = (153 * (if m > 2 then m - 3 else m + 9) + 2) div 5 + d - 1;
          doe = yoe * 365 + yoe div 4 - yoe div 100 + doy
      in era * 146097 + doe - 719468)"

definition date_text_of :: "int \<times> int \<times> int \<Rightarrow> string" where
  "date_text_of ymd = (case ymd of (y, m, d) \<Rightarrow>
     pad_nat 4 (nat y) @ ''-'' @ pad_nat 2 (nat m) @ ''-'' @ pad_nat 2 (nat d))"

text \<open>A year, month and day that exist are their own day number's date.\<close>

definition calendar_date :: "int \<Rightarrow> int \<Rightarrow> int \<Rightarrow> string option" where
  "calendar_date y m d =
     (if 1 \<le> y \<and> y \<le> 9999 \<and> civil_from_days (days_from_civil y m d) = (y, m, d)
      then Some (date_text_of (y, m, d)) else None)"

text \<open>The Monday of week 1, the week of 4 January; day 0 is a Thursday.\<close>

definition first_monday :: "int \<Rightarrow> int" where
  "first_monday y = (let j = days_from_civil y 1 4 in j - (j + 3) mod 7)"

definition week_date :: "int \<Rightarrow> int \<Rightarrow> int \<Rightarrow> string option" where
  "week_date y w d =
     (let day = first_monday y + 7 * (w - 1) + d - 1; ymd = civil_from_days day in
      if 1 \<le> y \<and> y \<le> 9999 \<and> 1 \<le> w \<and> first_monday y + 7 * (w - 1) < first_monday (y + 1) \<and> 1 \<le> d \<and> d \<le> 7 \<and>
         1 \<le> fst ymd \<and> fst ymd \<le> 9999
      then Some (date_text_of ymd) else None)"

definition digits_at :: "nat \<Rightarrow> nat \<Rightarrow> string \<Rightarrow> int option" where
  "digits_at i n s = (let t = take n (drop i s) in
     if length t = n \<and> list_all is_digit t then Some (int (digits_val t)) else None)"

definition date_fromisoformat :: "string \<Rightarrow> string option" where
  "date_fromisoformat s =
     (let sep = (take 1 (drop 4 s) = ''-''); pos = (if sep then 5 else 4) in
      case digits_at 0 4 s of
        None \<Rightarrow> None
      | Some y \<Rightarrow>
          if take 1 (drop pos s) = ''W'' then
            (case digits_at (pos + 1) 2 s of
               None \<Rightarrow> None
             | Some w \<Rightarrow>
                 if length s = pos + 3 then week_date y w 1
                 else if sep then
                   (if take 1 (drop 8 s) = ''-'' \<and> length s = 10
                    then Option.bind (digits_at 9 1 s) (week_date y w) else None)
                 else (if length s = 8 then Option.bind (digits_at 7 1 s) (week_date y w) else None))
          else
            (case (digits_at pos 2 s, digits_at (if sep then 8 else 6) 2 s) of
               (Some m, Some d) \<Rightarrow>
                 if length s = (if sep then 10 else 8) \<and> (sep \<longrightarrow> take 1 (drop 7 s) = ''-'')
                 then calendar_date y m d else None
             | _ \<Rightarrow> None))"

section \<open>Dictionaries\<close>

text \<open>\<open>d.update(e)\<close> of a dict in insertion order.\<close>

fun dict_put :: "('k \<times> 'v) list \<Rightarrow> 'k \<Rightarrow> 'v \<Rightarrow> ('k \<times> 'v) list" where
  "dict_put [] k v = [(k, v)]"
| "dict_put ((j, w) # kvs) k v = (if j = k then (k, v) # kvs else (j, w) # dict_put kvs k v)"

definition dict_update :: "('k \<times> 'v) list \<Rightarrow> ('k \<times> 'v) list \<Rightarrow> ('k \<times> 'v) list" where
  "dict_update d e = foldl (\<lambda>d kv. dict_put d (fst kv) (snd kv)) d e"

lemma map_of_dict_put: "map_of (dict_put d k v) j = (if j = k then Some v else map_of d j)"
  by (induction d k v rule: dict_put.induct) auto

lemma map_of_dict_update: "map_of (dict_update d e) j = (case map_of (rev e) j of Some v \<Rightarrow> Some v | None \<Rightarrow> map_of d j)"
  unfolding dict_update_def
  by (induction e arbitrary: d) (auto simp: map_of_dict_put map_add_def split: option.splits)

lemma distinct_dict_put: "distinct (map fst d) \<Longrightarrow> distinct (map fst (dict_put d k v))"
proof (induction d k v rule: dict_put.induct)
  case (2 j w kvs k v)
  have "fst ` set (dict_put kvs k v) = insert k (fst ` set kvs)"
    by (induction kvs k v rule: dict_put.induct) auto
  then show ?case using 2 by auto
qed simp

lemma distinct_dict_update: "distinct (map fst d) \<Longrightarrow> distinct (map fst (dict_update d e))"
  unfolding dict_update_def by (induction e arbitrary: d) (auto simp: distinct_dict_put)

end
