(* ===== verification/Py_Exact.thy ===== *)
theory Py_Exact
  imports Py_Decimal
begin

text \<open>
  What rounding to the context precision preserves. A number with at most \<open>p\<close> digits bounds
  a rounded result from above or below exactly when it bounds the exact one, for sums,
  products and quotients alike. From this follow exact results (the exact value has few
  digits) and exact comparisons with limits of few digits.
\<close>

section \<open>Digits\<close>

lemma ndigits_pos [simp]: "0 < ndigits c"
  by (subst (1) ndigits_def, subst str_nat.simps) simp

lemma ndigits_upper: "c < 10 ^ ndigits c"
  using ndigits_le_iff [of "ndigits c" c] by simp

lemma ndigits_lower: "p < ndigits c \<Longrightarrow> 10 ^ p \<le> c \<or> p = 0"
  using ndigits_le_iff [of p c] by auto

section \<open>Numbers of at most \<open>p\<close> digits\<close>

definition fits :: "nat \<Rightarrow> rat \<Rightarrow> bool" where
  "fits p x \<longleftrightarrow> (\<exists>k e. \<bar>k\<bar> < 10 ^ p \<and> x = of_int k * 10 powi e)"

lemma fits_uminus [simp]: "fits p (- x) = fits p x"
proof -
  have "fits p (- y)" if "fits p y" for y
    using that unfolding fits_def by (metis abs_minus_cancel mult_minus_left of_int_minus)
  from this [of x] this [of "- x"] show ?thesis by auto
qed

lemma fits_int [intro]: "\<bar>k\<bar> < 10 ^ p \<Longrightarrow> fits p (of_int k * 10 powi e)"
  by (auto simp: fits_def)

lemma powi_split: "(m :: int) \<le> e \<Longrightarrow> (10 :: rat) powi e = of_int (10 ^ nat (e - m)) * 10 powi m"
proof -
  assume "m \<le> e"
  then have "(10 :: rat) powi (e - m) = 10 ^ nat (e - m)" by (simp add: power_int_def)
  then show ?thesis using power_int_add [of "10 :: rat" "e - m" m] by simp
qed

text \<open>A number of few digits is a multiple of the unit, or smaller than every number with \<open>p\<close> digits in that unit.\<close>

lemma fits_grid:
  assumes "fits p x" and "0 < p"
  obtains (grid) j where "x = of_int j * 10 powi u" | (small) "\<bar>x\<bar> < 10 ^ (p - 1) * 10 powi u"
proof -
  obtain k e where k: "\<bar>k\<bar> < 10 ^ p" "x = of_int k * 10 powi e" using assms(1) by (auto simp: fits_def)
  show ?thesis
  proof (cases "u \<le> e")
    case True
    then have "x = of_int (k * 10 ^ nat (e - u)) * 10 powi u" using k(2) powi_split [OF True] by simp
    then show ?thesis by (rule grid)
  next
    case False
    have "\<bar>x\<bar> = of_int \<bar>k\<bar> * 10 powi e" using k(2) by (simp add: abs_mult)
    also have "\<dots> < of_int (10 ^ p) * 10 powi e" using k(1) by (simp del: of_int_power)
    also have "\<dots> = 10 ^ (p - 1) * 10 powi (e + 1)"
      using assms(2) by (cases p) (simp_all add: power_int_add)
    also have "\<dots> \<le> 10 ^ (p - 1) * 10 powi u"
      using False by (intro mult_left_mono power_int_increasing) simp_all
    finally show ?thesis by (rule small)
  qed
qed

section \<open>Rounding\<close>

text \<open>The rounded coefficient is one of the two neighbours on the grid of \<open>p\<close> digits.\<close>

lemma round_neighbours:
  assumes "0 < p" and "p < ndigits c"
  obtains q k where "k = ndigits c - p" "10 ^ (p - 1) \<le> q" "q * 10 ^ k \<le> c" "c < Suc q * 10 ^ k"
    "dec_val (dec_round p False c e) = of_nat q * 10 powi (e + int k) \<or>
     q * 10 ^ k < c \<and> dec_val (dec_round p False c e) = of_nat (Suc q) * 10 powi (e + int k)"
proof -
  define k where "k = ndigits c - p"
  define q where "q = c div 10 ^ k"
  define r where "r = c mod 10 ^ k"
  define up where "up \<longleftrightarrow> 2 * r > 10 ^ k \<or> 2 * r = 10 ^ k \<and> odd q"
  have c: "c = q * 10 ^ k + r" unfolding q_def r_def by (rule div_mult_mod_eq [symmetric])
  have r: "r < 10 ^ k" by (simp add: r_def)
  have "10 ^ (ndigits c - 1) \<le> c" using ndigits_lower [of "ndigits c - 1" c] assms by simp
  moreover have "(10 :: nat) ^ (ndigits c - 1) = 10 ^ (p - 1) * 10 ^ k"
    using assms by (simp add: k_def flip: power_add)
  ultimately have q: "10 ^ (p - 1) \<le> q" by (simp add: q_def less_eq_div_iff_mult_less_eq)
  have val: "dec_val (dec_round p False c e) = of_nat (if up then Suc q else q) * 10 powi (e + int k)"
  proof -
    have ten: "(10 :: rat) powi (e + int k + 1) = 10 * 10 powi (e + int k)" by (simp add: power_int_add)
    have "dec_val (Dec False (m div 10) (e + int k + 1)) = of_nat m * 10 powi (e + int k)" if "m = 10 ^ p" for m
    proof -
      have "10 * (m div 10) = m" using that assms(1) by (cases p) simp_all
      then have "(of_nat m :: rat) = of_nat (10 * (m div 10))" by (simp only:)
      then have "(of_nat m :: rat) = 10 * of_nat (m div 10)" by (simp only: of_nat_mult of_nat_numeral)
      then show ?thesis using ten by simp
    qed
    moreover have "dec_round p False c e = (let m = (if up then Suc q else q) in
        if m = 10 ^ p then Dec False (m div 10) (e + int k + 1) else Dec False m (e + int k))"
      using assms(2) by (simp add: dec_round_def Let_def k_def q_def r_def up_def)
    ultimately show ?thesis by (simp add: Let_def)
  qed
  have up_r: "up \<Longrightarrow> 0 < r" by (rule ccontr) (simp add: up_def)
  show ?thesis
  proof (rule that [of k q])
    show "dec_val (dec_round p False c e) = of_nat q * 10 powi (e + int k) \<or>
      q * 10 ^ k < c \<and> dec_val (dec_round p False c e) = of_nat (Suc q) * 10 powi (e + int k)"
      using val c up_r by (cases up) auto
  qed (use q c r in \<open>simp_all add: k_def\<close>)
qed

text \<open>Rounding respects every bound of at most \<open>p\<close> digits.\<close>

lemma round_le_abs:
  assumes "0 < p" and "fits p x" and "of_nat c * 10 powi e \<le> x"
  shows "dec_val (dec_round p False c e) \<le> x"
proof (cases "ndigits c \<le> p")
  case False
  then obtain q k where qk: "k = ndigits c - p" "10 ^ (p - 1) \<le> q" "q * 10 ^ k \<le> c" "c < Suc q * 10 ^ k"
    and val: "dec_val (dec_round p False c e) = of_nat q * 10 powi (e + int k) \<or>
      q * 10 ^ k < c \<and> dec_val (dec_round p False c e) = of_nat (Suc q) * 10 powi (e + int k)"
    by (metis assms(1) linorder_not_le round_neighbours)
  define U :: rat where "U = 10 powi (e + int k)"
  have U: "0 < U" "U = 10 ^ k * 10 powi e" by (simp_all add: U_def power_int_add)
  have low: "of_nat q * U \<le> of_nat c * 10 powi e"
  proof -
    have "(of_nat (q * 10 ^ k) :: rat) \<le> of_nat c" using qk(3) by (simp only: of_nat_le_iff)
    then show ?thesis using U(2) by (simp add: mult.assoc [symmetric])
  qed
  from val show ?thesis
  proof
    assume "dec_val (dec_round p False c e) = of_nat q * 10 powi (e + int k)"
    then show ?thesis using low assms(3) by (simp add: U_def)
  next
    assume up: "q * 10 ^ k < c \<and> dec_val (dec_round p False c e) = of_nat (Suc q) * 10 powi (e + int k)"
    have "(of_nat (q * 10 ^ k) :: rat) < of_nat c" using up by (simp only: of_nat_less_iff)
    then have "of_nat (q * 10 ^ k) * 10 powi e < of_nat c * (10 powi e :: rat)" by (intro mult_strict_right_mono) simp_all
    also have "\<dots> \<le> x" by (rule assms(3))
    finally have strict: "of_nat q * U < x" using U(2) by (simp add: mult.assoc)
    have "of_nat (Suc q) * U \<le> x"
    proof (rule fits_grid [OF assms(2,1), of "e + int k"])
      fix j assume j: "x = of_int j * 10 powi (e + int k)"
      then have "int q < j" using strict U(1) by (simp add: U_def)
      then have "int (Suc q) \<le> j" by simp
      then have "(of_int (int (Suc q)) :: rat) \<le> of_int j" by (simp only: of_int_le_iff)
      then have "(of_nat (Suc q) :: rat) \<le> of_int j" by (simp only: of_int_of_nat_eq)
      then show ?thesis using j U(1) by (simp add: U_def del: of_nat_Suc)
    next
      assume "\<bar>x\<bar> < 10 ^ (p - 1) * 10 powi (e + int k)"
      also have "\<dots> \<le> of_nat q * U"
      proof -
        have "(of_nat (10 ^ (p - 1)) :: rat) \<le> of_nat q" using qk(2) by (simp only: of_nat_le_iff)
        then show ?thesis by (simp add: U_def)
      qed
      finally show ?thesis using strict by simp
    qed
    then show ?thesis using up by (simp add: U_def)
  qed
qed (use assms in simp)

lemma round_ge_abs:
  assumes "0 < p" and "fits p x" and "x \<le> of_nat c * 10 powi e"
  shows "x \<le> dec_val (dec_round p False c e)"
proof (cases "ndigits c \<le> p")
  case False
  then obtain q k where qk: "k = ndigits c - p" "10 ^ (p - 1) \<le> q" "q * 10 ^ k \<le> c" "c < Suc q * 10 ^ k"
    and val: "dec_val (dec_round p False c e) = of_nat q * 10 powi (e + int k) \<or>
      q * 10 ^ k < c \<and> dec_val (dec_round p False c e) = of_nat (Suc q) * 10 powi (e + int k)"
    by (metis assms(1) linorder_not_le round_neighbours)
  define U :: rat where "U = 10 powi (e + int k)"
  have U: "0 < U" "U = 10 ^ k * 10 powi e" by (simp_all add: U_def power_int_add)
  have "(of_nat c :: rat) < of_nat (Suc q * 10 ^ k)" using qk(4) by (simp only: of_nat_less_iff)
  then have "of_nat c * (10 powi e :: rat) < of_nat (Suc q * 10 ^ k) * 10 powi e" by (intro mult_strict_right_mono) simp_all
  then have high: "x < of_nat (Suc q) * U" using assms(3) U(2) by (simp add: algebra_simps)
  have "x \<le> of_nat q * U"
  proof (rule fits_grid [OF assms(2,1), of "e + int k"])
    fix j assume j: "x = of_int j * 10 powi (e + int k)"
    then have "(of_int j :: rat) < of_int (int (Suc q))" using high U(1) by (simp add: U_def)
    then have "j \<le> int q" by (simp only: of_int_less_iff)
    then have "(of_int j :: rat) \<le> of_int (int q)" by (simp only: of_int_le_iff)
    then show ?thesis using j by (simp add: U_def)
  next
    assume "\<bar>x\<bar> < 10 ^ (p - 1) * 10 powi (e + int k)"
    also have "\<dots> \<le> of_nat q * U"
    proof -
      have "(of_nat (10 ^ (p - 1)) :: rat) \<le> of_nat q" using qk(2) by (simp only: of_nat_le_iff)
      then show ?thesis by (simp add: U_def)
    qed
    finally show ?thesis by simp
  qed
  moreover have "of_nat q * U \<le> dec_val (dec_round p False c e)"
    using val U(1) by (auto simp: U_def algebra_simps)
  ultimately show ?thesis by simp
qed (use assms in simp)

lemma dec_round_sign: "dec_val (dec_round p s c e) = (if s then - 1 else 1) * dec_val (dec_round p False c e)"
  by (simp add: dec_round_def Let_def)

lemma round_le:
  assumes "0 < p" and "fits p x" and "dec_val (Dec s c e) \<le> x"
  shows "dec_val (dec_round p s c e) \<le> x"
  using assms round_le_abs [of p x c e] round_ge_abs [of p "- x" c e] by (cases s) (auto simp: dec_round_sign [of p True])

lemma round_ge:
  assumes "0 < p" and "fits p x" and "x \<le> dec_val (Dec s c e)"
  shows "x \<le> dec_val (dec_round p s c e)"
  using assms round_ge_abs [of p x c e] round_le_abs [of p "- x" c e] by (cases s) (auto simp: dec_round_sign [of p True])

lemma round_exact: "0 < p \<Longrightarrow> fits p (dec_val (Dec s c e)) \<Longrightarrow> dec_val (dec_round p s c e) = dec_val (Dec s c e)"
  by (rule antisym) (auto intro: round_le round_ge simp del: dec_val.simps)

section \<open>Sums and products\<close>

lemma dec_val_signed_int: "dec_val (Dec (if v = 0 then b else v < 0) (nat \<bar>v\<bar>) m) = of_int v * 10 powi m"
  by (cases "v < 0") auto

lemma dec_add_unrounded:
  assumes "is_finite a" and "is_finite b"
  obtains s c e where "dec_add p a b = dec_round p s c e" "dec_val (Dec s c e) = dec_val a + dec_val b"
proof -
  obtain sa ca ea where a: "a = Dec sa ca ea" using assms(1) by (cases a) auto
  obtain sb cb eb where b: "b = Dec sb cb eb" using assms(2) by (cases b) auto
  let ?m = "min ea eb" and ?v = "dec_scaled (min ea eb) a + dec_scaled (min ea eb) b"
  have "dec_val a + dec_val b = of_int ?v * 10 powi ?m"
    using dec_scaled_val [of ?m a] dec_scaled_val [of ?m b] a b by (simp add: algebra_simps del: dec_val.simps dec_scaled.simps)
  also have "\<dots> = dec_val (Dec (if ?v = 0 then sa \<and> sb else ?v < 0) (nat \<bar>?v\<bar>) ?m)"
    by (rule dec_val_signed_int [symmetric])
  finally have "dec_val (Dec (if ?v = 0 then sa \<and> sb else ?v < 0) (nat \<bar>?v\<bar>) ?m) = dec_val a + dec_val b" by (rule sym)
  moreover have "dec_add p a b = dec_round p (if ?v = 0 then sa \<and> sb else ?v < 0) (nat \<bar>?v\<bar>) ?m"
    unfolding dec_add_def Let_def a b by (simp only: prod.case decimal.case)
  ultimately show ?thesis using that by blast
qed

lemma dec_add_exact:
  assumes "is_finite a" and "is_finite b" and "0 < p" and "fits p (dec_val a + dec_val b)"
  shows "dec_val (dec_add p a b) = dec_val a + dec_val b"
proof -
  obtain s c e where "dec_add p a b = dec_round p s c e" "dec_val (Dec s c e) = dec_val a + dec_val b"
    by (rule dec_add_unrounded [OF assms(1,2)])
  then show ?thesis using round_exact [OF assms(3), of s c e] assms(4) by (simp only:)
qed

lemma dec_add_le:
  assumes "is_finite a" and "is_finite b" and "0 < p" and "fits p x" and "dec_val a + dec_val b \<le> x"
  shows "dec_val (dec_add p a b) \<le> x"
proof -
  obtain s c e where "dec_add p a b = dec_round p s c e" "dec_val (Dec s c e) = dec_val a + dec_val b"
    by (rule dec_add_unrounded [OF assms(1,2)])
  then show ?thesis using round_le [OF assms(3,4), of s c e] assms(5) by (simp only:)
qed

lemma dec_add_ge:
  assumes "is_finite a" and "is_finite b" and "0 < p" and "fits p x" and "x \<le> dec_val a + dec_val b"
  shows "x \<le> dec_val (dec_add p a b)"
proof -
  obtain s c e where "dec_add p a b = dec_round p s c e" "dec_val (Dec s c e) = dec_val a + dec_val b"
    by (rule dec_add_unrounded [OF assms(1,2)])
  then show ?thesis using round_ge [OF assms(3,4), of s c e] assms(5) by (simp only:)
qed

lemma dec_val_copy_negate [simp]: "dec_val (dec_copy_negate a) = - dec_val a"
  by (cases a) simp_all

lemma dec_sub_exact:
  assumes "is_finite a" and "is_finite b" and "0 < p" and "fits p (dec_val a - dec_val b)"
  shows "dec_val (dec_sub p a b) = dec_val a - dec_val b"
  using dec_add_exact [of a "dec_copy_negate b" p] assms by (simp add: dec_sub_def)

lemma dec_sub_le:
  assumes "is_finite a" and "is_finite b" and "0 < p" and "fits p x" and "dec_val a - dec_val b \<le> x"
  shows "dec_val (dec_sub p a b) \<le> x"
  using dec_add_le [of a "dec_copy_negate b" p x] assms by (simp add: dec_sub_def)

lemma dec_mul_unrounded:
  assumes "is_finite a" and "is_finite b"
  obtains s c e where "dec_mul p a b = dec_round p s c e" "dec_val (Dec s c e) = dec_val a * dec_val b"
proof -
  obtain sa ca ea where a: "a = Dec sa ca ea" using assms(1) by (cases a) auto
  obtain sb cb eb where b: "b = Dec sb cb eb" using assms(2) by (cases b) auto
  show ?thesis by (rule that [of "sa \<noteq> sb" "ca * cb" "ea + eb"]) (simp_all add: dec_mul_def a b power_int_add)
qed

lemma dec_mul_exact:
  assumes "is_finite a" and "is_finite b" and "0 < p" and "fits p (dec_val a * dec_val b)"
  shows "dec_val (dec_mul p a b) = dec_val a * dec_val b"
proof -
  obtain s c e where "dec_mul p a b = dec_round p s c e" "dec_val (Dec s c e) = dec_val a * dec_val b"
    by (rule dec_mul_unrounded [OF assms(1,2)])
  then show ?thesis using round_exact [OF assms(3), of s c e] assms(4) by (simp only:)
qed

lemma dec_mul_le:
  assumes "is_finite a" and "is_finite b" and "0 < p" and "fits p x" and "dec_val a * dec_val b \<le> x"
  shows "dec_val (dec_mul p a b) \<le> x"
proof -
  obtain s c e where "dec_mul p a b = dec_round p s c e" "dec_val (Dec s c e) = dec_val a * dec_val b"
    by (rule dec_mul_unrounded [OF assms(1,2)])
  then show ?thesis using round_le [OF assms(3,4), of s c e] assms(5) by (simp only:)
qed

lemma dec_neg_exact:
  assumes "is_finite a" and "0 < p" and "fits p (dec_val a)"
  shows "dec_val (dec_neg p a) = - dec_val a" and "dec_val (dec_abs p a) = \<bar>dec_val a\<bar>"
proof -
  obtain s c e where a: "a = Dec s c e" using assms(1) by (cases a) auto
  have "dec_val (Dec (\<not> s \<and> c \<noteq> 0) c e) = - dec_val a" "dec_val (Dec False c e) = \<bar>dec_val a\<bar>"
    by (simp_all add: a abs_mult)
  then show "dec_val (dec_neg p a) = - dec_val a" "dec_val (dec_abs p a) = \<bar>dec_val a\<bar>"
    using round_exact [OF assms(2), of "\<not> s \<and> c \<noteq> 0" c e] round_exact [OF assms(2), of False c e] assms(3)
    by (simp_all add: a abs_if del: dec_val.simps split: if_splits)
qed

section \<open>Quotients\<close>

lemma dec_ideal_val:
  "dec_ideal c e ideal = (c', e') \<Longrightarrow> of_nat c' * 10 powi e' = (of_nat c * 10 powi e :: rat)"
proof (induction c e ideal rule: dec_ideal.induct)
  case (1 c e ideal)
  show ?case
  proof (cases "e < ideal \<and> c mod 10 = 0")
    case True
    then have "of_nat c' * 10 powi e' = (of_nat (c div 10) * 10 powi (e + 1) :: rat)"
      using 1 by (simp add: dec_ideal.simps [of c e ideal])
    also have "\<dots> = of_nat (10 * (c div 10)) * 10 powi e" by (simp add: power_int_add)
    also have "10 * (c div 10) = c" using True by presburger
    finally show ?thesis .
  next
    case False
    then show ?thesis using 1(2) by (auto simp: dec_ideal.simps [of c e ideal])
  qed
qed

text \<open>The integer quotient that is rounded: exact, or strictly between two neighbours with more than \<open>p\<close> digits.\<close>

lemma dec_quot_neighbours:
  assumes "0 < c" and "0 < c'" and quot: "dec_quot p c e c' e' = (q, x)"
  defines "v \<equiv> (of_nat c * 10 powi e) / (of_nat c' * 10 powi e') :: rat"
  obtains (exact) "of_nat q * 10 powi x = v"
  | (between) r where "of_nat r * 10 powi x < v" "v < of_nat (Suc r) * 10 powi x" "q = r \<or> q = Suc r" "10 ^ p \<le> r"
proof -
  define sh where "sh = int (ndigits c') - int (ndigits c) + int p + 1"
  define y where "y = e - e' - sh"
  define n where "n = (if 0 \<le> sh then c * 10 ^ nat sh else c)"
  define d where "d = (if 0 \<le> sh then c' else c' * 10 ^ nat (- sh))"
  have d: "0 < d" using assms(2) by (simp add: d_def)
  have ratio: "of_nat n / of_nat d = (of_nat c / of_nat c' * 10 powi sh :: rat)"
    by (cases "0 \<le> sh") (simp_all add: n_def d_def power_int_def inverse_eq_divide power_one_over)
  have v: "v = of_nat n / of_nat d * 10 powi y"
  proof -
    have "(10 :: rat) powi (e - e') = 10 powi sh * 10 powi y" by (simp add: y_def flip: power_int_add)
    then show ?thesis using ratio by (simp add: v_def power_int_diff field_simps)
  qed
  have q: "dec_quot p c e c' e' = (if n mod d \<noteq> 0 then (if n div d mod 5 = 0 then Suc (n div d) else n div d, y)
      else dec_ideal (n div d) y (e - e'))"
    unfolding dec_quot_def Let_def sh_def n_def d_def y_def by (simp only:)
  show ?thesis
  proof (cases "n mod d = 0")
    case True
    then have "of_nat q * 10 powi x = (of_nat (n div d) * 10 powi y :: rat)"
      using quot q dec_ideal_val by simp
    also have "(of_nat (n div d) :: rat) = of_nat n / of_nat d"
    proof -
      have "n = n div d * d" using True div_mult_mod_eq [of n d] by simp
      then have "(of_nat n :: rat) = of_nat (n div d) * of_nat d" by (metis of_nat_mult)
      then show ?thesis using d by simp
    qed
    finally show ?thesis using v by (intro exact) simp
  next
    case False
    let ?r = "n div d"
    have xq: "x = y" "q = ?r \<or> q = Suc ?r" using quot q False by (auto split: if_splits)
    have "?r * d < n" using False by (metis bot_nat_0.not_eq_extremum div_mult_mod_eq less_add_same_cancel1)
    then have "(of_nat (?r * d) :: rat) < of_nat n" by (simp only: of_nat_less_iff)
    then have lo: "of_nat ?r < (of_nat n / of_nat d :: rat)" using d by (simp add: less_divide_eq)
    have "n < Suc ?r * d" using d by (metis div_less_iff_less_mult lessI)
    then have "(of_nat n :: rat) < of_nat (Suc ?r * d)" by (simp only: of_nat_less_iff)
    then have hi: "of_nat n / of_nat d < (of_nat (Suc ?r) :: rat)"
      using d by (simp add: divide_less_eq algebra_simps)
    have "(10 ^ p :: rat) \<le> of_nat n / of_nat d"
    proof -
      have "(of_nat (10 ^ (ndigits c - 1)) :: rat) \<le> of_nat c"
        using ndigits_lower [of "ndigits c - 1" c] assms(1) by (cases "ndigits c = 1") (auto simp: of_nat_le_iff)
      moreover have "(of_nat c' :: rat) \<le> of_nat (10 ^ ndigits c')"
        using ndigits_upper [of c'] by (simp only: of_nat_le_iff less_imp_le)
      ultimately have "of_nat (10 ^ (ndigits c - 1)) / of_nat (10 ^ ndigits c') \<le> (of_nat c / of_nat c' :: rat)"
        using assms(2) by (intro frac_le) simp_all
      then have "of_nat (10 ^ (ndigits c - 1)) / of_nat (10 ^ ndigits c') * 10 powi sh \<le> (of_nat n / of_nat d :: rat)"
        unfolding ratio by (intro mult_right_mono) simp_all
      moreover have "of_nat (10 ^ (ndigits c - 1)) / of_nat (10 ^ ndigits c') * 10 powi sh = (10 ^ p :: rat)"
      proof -
        have "of_nat (10 ^ (ndigits c - 1)) / of_nat (10 ^ ndigits c') = (10 powi (int (ndigits c - 1) - int (ndigits c')) :: rat)"
          by (simp add: power_int_diff)
        moreover have "int (ndigits c - 1) - int (ndigits c') + sh = int p"
          using ndigits_pos [of c] unfolding sh_def by linarith
        ultimately show ?thesis by (simp flip: power_int_add)
      qed
      ultimately show ?thesis by simp
    qed
    then have "(of_nat (10 ^ p) :: rat) < of_nat (Suc ?r)" using hi by simp
    then have "10 ^ p \<le> ?r" by (simp only: of_nat_less_iff less_Suc_eq_le)
    moreover have "of_nat ?r * 10 powi x < v" "v < of_nat (Suc ?r) * 10 powi x"
      unfolding v xq(1) using lo hi by (intro mult_strict_right_mono; simp del: of_nat_Suc)+
    ultimately show ?thesis using xq(2) by (intro between) simp_all
  qed
qed

lemma power_pred_le: "10 ^ p \<le> r \<Longrightarrow> 10 ^ (p - 1) * 10 powi x \<le> (of_nat r * 10 powi x :: rat)"
proof -
  assume "10 ^ p \<le> r"
  moreover have "(10 :: nat) ^ (p - 1) \<le> 10 ^ p" by (rule power_increasing) simp_all
  ultimately have "10 ^ (p - 1) \<le> r" by (rule order_trans [rotated])
  then have "(of_nat (10 ^ (p - 1)) :: rat) \<le> of_nat r" by (simp only: of_nat_le_iff)
  then show ?thesis by simp
qed

lemma dec_quot_le:
  assumes "0 < c" and "0 < c'" and "0 < p" and "dec_quot p c e c' e' = (q, x)" and "fits p b"
    and "(of_nat c * 10 powi e) / (of_nat c' * 10 powi e') \<le> b"
  shows "of_nat q * 10 powi x \<le> b"
proof (rule dec_quot_neighbours [OF assms(1,2,4)])
  fix r assume r: "of_nat r * 10 powi x < (of_nat c * 10 powi e) / (of_nat c' * 10 powi e' :: rat)" "q = r \<or> q = Suc r" "10 ^ p \<le> r"
  have strict: "of_nat r * 10 powi x < b" using r(1) assms(6) by (rule less_le_trans)
  have "of_nat (Suc r) * 10 powi x \<le> b"
  proof (rule fits_grid [OF assms(5,3), of x])
    fix j assume j: "b = of_int j * 10 powi x"
    then have "(of_int (int r) :: rat) < of_int j" using strict by simp
    then have "int (Suc r) \<le> j" by (simp only: of_int_less_iff)
    then have "(of_int (int (Suc r)) :: rat) \<le> of_int j" by (simp only: of_int_le_iff)
    then show ?thesis using j by (simp del: of_nat_Suc)
  next
    assume "\<bar>b\<bar> < 10 ^ (p - 1) * 10 powi x"
    also have "\<dots> \<le> of_nat r * 10 powi x" by (rule power_pred_le [OF r(3)])
    finally show ?thesis using strict by simp
  qed
  then show ?thesis using r(2) strict by auto
qed (use assms in simp)

lemma dec_quot_ge:
  assumes "0 < c" and "0 < c'" and "0 < p" and "dec_quot p c e c' e' = (q, x)" and "fits p b"
    and "b \<le> (of_nat c * 10 powi e) / (of_nat c' * 10 powi e')"
  shows "b \<le> of_nat q * 10 powi x"
proof (rule dec_quot_neighbours [OF assms(1,2,4)])
  fix r assume r: "(of_nat c * 10 powi e) / (of_nat c' * 10 powi e' :: rat) < of_nat (Suc r) * 10 powi x" "q = r \<or> q = Suc r" "10 ^ p \<le> r"
  have strict: "b < of_nat (Suc r) * 10 powi x" using assms(6) r(1) by (rule le_less_trans)
  have "b \<le> of_nat r * 10 powi x"
  proof (rule fits_grid [OF assms(5,3), of x])
    fix j assume j: "b = of_int j * 10 powi x"
    then have "(of_int j :: rat) < of_int (int (Suc r))" using strict by (simp del: of_nat_Suc)
    then have "j \<le> int r" by (simp only: of_int_less_iff)
    then have "(of_int j :: rat) \<le> of_int (int r)" by (simp only: of_int_le_iff)
    then show ?thesis using j by simp
  next
    assume "\<bar>b\<bar> < 10 ^ (p - 1) * 10 powi x"
    also have "\<dots> \<le> of_nat r * 10 powi x" by (rule power_pred_le [OF r(3)])
    finally show ?thesis by simp
  qed
  also have "of_nat r * 10 powi x \<le> (of_nat q * 10 powi x :: rat)" using r(2) by auto
  finally show ?thesis .
qed (use assms in simp)

lemma dec_div_cases:
  assumes "is_finite a" and "is_finite b" and "dec_val b \<noteq> 0"
  obtains s c e c' e' where "dec_val a / dec_val b = (if s then - 1 else 1) * ((of_nat c * 10 powi e) / (of_nat c' * 10 powi e'))"
    "0 < c'" "c = 0 \<Longrightarrow> dec_div p a b = Inr (Dec s 0 (e - e'))"
    "\<And>q x. 0 < c \<Longrightarrow> dec_quot p c e c' e' = (q, x) \<Longrightarrow> dec_div p a b = Inr (dec_round p s q x)"
proof -
  obtain sa ca ea where a: "a = Dec sa ca ea" using assms(1) by (cases a) auto
  obtain sb cb eb where b: "b = Dec sb cb eb" using assms(2) by (cases b) auto
  show ?thesis
    by (rule that [of "sa \<noteq> sb" ca ea cb eb]) (use assms(3) in \<open>auto simp: a b\<close>)
qed

lemma dec_div_bounds:
  assumes "is_finite a" and "is_finite b" and "dec_val b \<noteq> 0" and "0 < p"
  obtains d where "dec_div p a b = Inr d" "is_finite d"
    "\<And>x. fits p x \<Longrightarrow> dec_val a / dec_val b \<le> x \<Longrightarrow> dec_val d \<le> x"
    "\<And>x. fits p x \<Longrightarrow> x \<le> dec_val a / dec_val b \<Longrightarrow> x \<le> dec_val d"
proof (rule dec_div_cases [OF assms(1-3), of p])
  fix s c e c' e'
  assume v: "dec_val a / dec_val b = (if s then - 1 else 1) * ((of_nat c * 10 powi e) / (of_nat c' * 10 powi e'))"
    and c': "0 < c'" and zero: "c = 0 \<Longrightarrow> dec_div p a b = Inr (Dec s 0 (e - e'))"
    and quot: "\<And>q x. 0 < c \<Longrightarrow> dec_quot p c e c' e' = (q, x) \<Longrightarrow> dec_div p a b = Inr (dec_round p s q x)"
  obtain q x where qx: "dec_quot p c e c' e' = (q, x)" by fastforce
  show thesis
  proof (cases "c = 0")
    case True
    then show ?thesis using that [OF zero] v by simp
  next
    case False
    let ?v = "(of_nat c * 10 powi e) / (of_nat c' * 10 powi e') :: rat"
    have le: "?v \<le> y \<Longrightarrow> fits p y \<Longrightarrow> of_nat q * 10 powi x \<le> y" for y
      using dec_quot_le [OF _ c' assms(4) qx, of y] False by simp
    have ge: "y \<le> ?v \<Longrightarrow> fits p y \<Longrightarrow> y \<le> of_nat q * 10 powi x" for y
      using dec_quot_ge [OF _ c' assms(4) qx, of y] False by simp
    show ?thesis
    proof (rule that [of "dec_round p s q x"])
      show "dec_div p a b = Inr (dec_round p s q x)" using quot [OF _ qx] False by simp
      show "dec_val (dec_round p s q x) \<le> y" if "fits p y" "dec_val a / dec_val b \<le> y" for y
        using that v le [of y] ge [of "- y"] by (intro round_le [OF assms(4)]) (auto split: if_splits)
      show "y \<le> dec_val (dec_round p s q x)" if "fits p y" "y \<le> dec_val a / dec_val b" for y
        using that v ge [of y] le [of "- y"] by (intro round_ge [OF assms(4)]) (auto split: if_splits)
    qed simp
  qed
qed

lemma dec_div_exact:
  assumes "is_finite a" and "is_finite b" and "dec_val b \<noteq> 0" and "0 < p" and "fits p (dec_val a / dec_val b)"
  shows "\<exists>d. dec_div p a b = Inr d \<and> is_finite d \<and> dec_val d = dec_val a / dec_val b"
  by (rule dec_div_bounds [OF assms(1-4)]) (use assms(5) in \<open>auto intro: antisym\<close>)

section \<open>Integers\<close>

lemma dec_of_int [simp]: "is_finite (dec_of_int i)" "dec_val (dec_of_int i) = of_int i"
  by (simp_all add: dec_of_int_def)

section \<open>Sums are exact\<close>

definition on_grid :: "int \<Rightarrow> rat \<Rightarrow> bool" where
  "on_grid m x \<longleftrightarrow> (\<exists>k. x = of_int k * 10 powi m)"

lemma on_grid_dec: "is_finite d \<Longrightarrow> m \<le> dec_exp d \<Longrightarrow> on_grid m (dec_val d)"
  using dec_scaled_val [of m d] by (auto simp: on_grid_def)

lemma on_grid_add: "on_grid m x \<Longrightarrow> on_grid m y \<Longrightarrow> on_grid m (x + y)"
  by (auto simp: on_grid_def simp flip: distrib_right of_int_add)

lemma on_grid_fits:
  assumes "on_grid m x" and "\<bar>x\<bar> < 10 powi n" and "n - m \<le> int p"
  shows "fits p x"
proof -
  obtain k where k: "x = of_int k * 10 powi m" using assms(1) by (auto simp: on_grid_def)
  have "of_int \<bar>k\<bar> * 10 powi m < (10 powi n :: rat)" using assms(2) k by (simp add: abs_mult)
  also have "\<dots> \<le> 10 powi (int p + m)" using assms(3) by (intro power_int_increasing) simp_all
  also have "\<dots> = of_int (10 ^ p) * 10 powi m" by (simp add: power_int_add)
  finally have "of_int \<bar>k\<bar> < (of_int (10 ^ p) :: rat)" by (simp del: of_int_power)
  then have "\<bar>k\<bar> < 10 ^ p" by (simp only: of_int_less_iff)
  then show ?thesis using k by auto
qed

lemma adjusted_bound: "is_finite d \<Longrightarrow> \<bar>dec_val d\<bar> < 10 powi (adjusted d + 1)"
proof -
  assume "is_finite d"
  then obtain s c e where d: "d = Dec s c e" by (cases d) auto
  have "(of_nat c :: rat) < of_nat (10 ^ ndigits c)" using ndigits_upper [of c] by (simp only: of_nat_less_iff)
  then have "of_nat c * 10 powi e < (10 ^ ndigits c * 10 powi e :: rat)" by simp
  then show ?thesis by (simp add: d adjusted_def abs_mult power_int_add mult.commute)
qed

text \<open>Adding a list of bounded numbers on a grid loses nothing when the precision covers the sum.\<close>

lemma foldl_add_exact:
  assumes "\<forall>x\<in>set xs. is_finite x \<and> on_grid m (dec_val x) \<and> \<bar>dec_val x\<bar> \<le> b" and "is_finite a"
    and "on_grid m (dec_val a)" and "\<bar>dec_val a\<bar> + of_nat (length xs) * b < 10 powi n" and "n - m \<le> int p" and "0 < p"
    and "0 \<le> b"
  shows "dec_val (foldl (dec_add p) a xs) = dec_val a + sum_list (map dec_val xs)"
  using assms(1-4)
proof (induction xs arbitrary: a)
  case (Cons x xs)
  have x: "is_finite x" "on_grid m (dec_val x)" "\<bar>dec_val x\<bar> \<le> b" using Cons.prems(1) by simp_all
  have nn: "0 \<le> of_nat (length xs) * b" using assms(7) by simp
  have len: "of_nat (length (x # xs)) * b = b + of_nat (length xs) * b" by (simp add: algebra_simps)
  have small: "\<bar>dec_val a + dec_val x\<bar> < 10 powi n"
    using Cons.prems(4) x(3) abs_triangle_ineq [of "dec_val a" "dec_val x"] nn unfolding len by linarith
  have grid: "on_grid m (dec_val a + dec_val x)" using on_grid_add Cons.prems(3) x(2) by blast
  have add: "dec_val (dec_add p a x) = dec_val a + dec_val x"
    by (rule dec_add_exact [OF Cons.prems(2) x(1) assms(6) on_grid_fits [OF grid small assms(5)]])
  have "dec_val (foldl (dec_add p) (dec_add p a x) xs) = dec_val (dec_add p a x) + sum_list (map dec_val xs)"
  proof (rule Cons.IH)
    show "\<bar>dec_val (dec_add p a x)\<bar> + of_nat (length xs) * b < 10 powi n"
      using Cons.prems(4) x(3) abs_triangle_ineq [of "dec_val a" "dec_val x"] unfolding add len by linarith
  qed (use Cons.prems x grid add in simp_all)
  then show ?case using add by simp
qed simp

end
