(* ===== verification/Evidence.thy ===== *)
theory Evidence
  imports Domain
begin

text \<open>
  The frozen dataclasses of \<open>src/execution/domain.py\<close> and their stored form. Each class has
  a record, a constructor that runs \<open>__post_init__\<close> on the caller's raw arguments, its
  primitive JSON tree (what \<open>dataclass_json\<close> writes) and the decoder of
  \<open>src/execution/store.py\<close> that rebuilds the instance from the tree. A raw UUID or decimal is
  either an instance or the \<open>str(value)\<close> of anything else, the two branches the code
  distinguishes.
\<close>

section \<open>Raw arguments\<close>

datatype raw_uuid = RUuid uuid | RUuidText string

fun uuid_arg :: "raw_uuid \<Rightarrow> string \<Rightarrow> uuid result" where
  "uuid_arg (RUuid u) field_name = Inr u"
| "uuid_arg (RUuidText s) field_name =
     of_option (DomainValidationError (field_name @ '' must be a UUID'')) (uuid_of_string s)"

datatype raw_decimal = RDecimal decimal | RText string

fun decimal_value :: "raw_decimal \<Rightarrow> string \<Rightarrow> decimal result" where
  "decimal_value (RDecimal d) field_name =
     raiseIf (\<not> is_finite d) (DomainValidationError (field_name @ '' must be finite'')) (Inr d)"
| "decimal_value (RText s) field_name =
     bindR (of_option (DomainValidationError (field_name @ '' must be decimal-compatible'')) (dec_of_string s))
       (\<lambda>d. raiseIf (\<not> is_finite d) (DomainValidationError (field_name @ '' must be finite'')) (Inr d))"

section \<open>Canonical decimal text\<close>

definition rstrip_char :: "char \<Rightarrow> string \<Rightarrow> string" where
  "rstrip_char c s = rev (dropWhile (\<lambda>x. x = c) (rev s))"

definition canonical_rendered :: "string \<Rightarrow> string" where
  "canonical_rendered r =
     (if CHR ''.'' \<in> set r then rstrip_char CHR ''.'' (rstrip_char CHR ''0'' r) else r)"

definition canonical_decimal :: "decimal \<Rightarrow> decimal option" where
  "canonical_decimal d =
     (let r = canonical_rendered (dec_format_f d) in dec_of_string (if r = [] then ''0'' else r))"

definition decimal_text :: "decimal \<Rightarrow> string option" where
  "decimal_text d =
     map_option (\<lambda>c. let r = dec_format_f c in if r = ''-0'' then ''0'' else r) (canonical_decimal d)"

definition immutable_pairs :: "(string \<times> string) list \<Rightarrow> (string \<times> string) list" where
  "immutable_pairs items = sort items"

definition schema_version :: string where
  "schema_version = ''1.0''"

section \<open>OrderIntent\<close>

record order_intent =
  oi_intent_id :: uuid
  oi_strategy_id :: string
  oi_run_id :: string
  oi_internal_instrument_id :: uuid
  oi_environment :: environment
  oi_side :: order_side
  oi_order_type :: order_type
  oi_sizing_method :: sizing_method
  oi_sizing_value :: decimal
  oi_currency :: string
  oi_expires_at :: instant
  oi_intent_hash :: string
  oi_target_leverage :: decimal
  oi_limit_price :: "decimal option"
  oi_schema_version :: string

text \<open>The constructor's arguments before \<open>__post_init__\<close>; enumeration members as text.\<close>

record raw_intent =
  ri_intent_id :: raw_uuid
  ri_strategy_id :: string
  ri_run_id :: string
  ri_internal_instrument_id :: raw_uuid
  ri_environment :: string
  ri_side :: string
  ri_order_type :: string
  ri_sizing_method :: string
  ri_sizing_value :: raw_decimal
  ri_currency :: string
  ri_expires_at :: pydatetime
  ri_intent_hash :: string
  ri_target_leverage :: raw_decimal
  ri_limit_price :: "raw_decimal option"
  ri_schema_version :: string

definition jdec :: "decimal \<Rightarrow> json" where
  "jdec d = JStr (dec_format_f d)"

definition jdec_opt :: "decimal option \<Rightarrow> json" where
  "jdec_opt x = (case x of None \<Rightarrow> JNull | Some d \<Rightarrow> jdec d)"

definition intent_hash_payload :: "order_intent \<Rightarrow> json" where
  "intent_hash_payload i = JObj
     [(''strategy_id'', JStr (oi_strategy_id i)),
      (''run_id'', JStr (oi_run_id i)),
      (''internal_instrument_id'', JStr (uuid_str (oi_internal_instrument_id i))),
      (''environment'', JStr (environment_str (oi_environment i))),
      (''side'', JStr (order_side_str (oi_side i))),
      (''order_type'', JStr (order_type_str (oi_order_type i))),
      (''sizing_method'', JStr (sizing_method_str (oi_sizing_method i))),
      (''sizing_value'', jdec (oi_sizing_value i)),
      (''currency'', JStr (oi_currency i)),
      (''expires_at'', JTime (oi_expires_at i)),
      (''target_leverage'', jdec (oi_target_leverage i)),
      (''limit_price'', jdec_opt (oi_limit_price i)),
      (''schema_version'', JStr (oi_schema_version i))]"

definition compute_hash :: "digest \<Rightarrow> order_intent \<Rightarrow> string" where
  "compute_hash H i = payload_hash H (intent_hash_payload i)"

text \<open>The checks of \<open>__post_init__\<close> after the conversions.\<close>

definition intent_checks :: "digest \<Rightarrow> order_intent \<Rightarrow> order_intent result" where
  "intent_checks H i =
     raiseIf (blank (oi_strategy_id i)) (DomainValidationError ''strategy_id must not be blank'') (
     raiseIf (blank (oi_run_id i)) (DomainValidationError ''run_id must not be blank'') (
     raiseIf (blank (oi_currency i)) (DomainValidationError ''currency must not be blank'') (
     raiseIf (dec_le (oi_sizing_value i) dec0) (DomainValidationError ''sizing_value must be positive'') (
     raiseIf (dec_le (oi_target_leverage i) dec0) (DomainValidationError ''target_leverage must be positive'') (
     raiseIf (oi_order_type i = LIMIT \<and> oi_limit_price i = None)
       (DomainValidationError ''limit orders require limit_price'') (
     raiseIf (oi_order_type i = MARKET \<and> oi_limit_price i \<noteq> None)
       (DomainValidationError ''market orders must not include limit_price'') (
     raiseIf (oi_intent_hash i \<noteq> compute_hash H i)
       (DomainValidationError ''intent_hash does not match the immutable payload'') (
     Inr i))))))))"

definition OrderIntent :: "digest \<Rightarrow> raw_intent \<Rightarrow> order_intent result" where
  "OrderIntent H r =
     bindR (uuid_arg (ri_intent_id r) ''intent_id'') (\<lambda>intent_id.
     bindR (uuid_arg (ri_internal_instrument_id r) ''internal_instrument_id'') (\<lambda>instrument_id.
     bindR (environment_of (ri_environment r)) (\<lambda>env.
     bindR (order_side_of (ri_side r)) (\<lambda>side.
     bindR (order_type_of (ri_order_type r)) (\<lambda>order_type.
     bindR (sizing_method_of (ri_sizing_method r)) (\<lambda>sizing_method.
     bindR (decimal_value (ri_sizing_value r) ''sizing_value'') (\<lambda>sizing_value.
     bindR (decimal_value (ri_target_leverage r) ''target_leverage'') (\<lambda>target_leverage.
     bindR (optR (\<lambda>x. decimal_value x ''limit_price'') (ri_limit_price r)) (\<lambda>limit_price.
     bindR (aware_utc (ri_expires_at r) ''expires_at'') (\<lambda>expires_at.
     intent_checks H
       \<lparr>oi_intent_id = intent_id, oi_strategy_id = ri_strategy_id r, oi_run_id = ri_run_id r,
        oi_internal_instrument_id = instrument_id, oi_environment = env, oi_side = side,
        oi_order_type = order_type, oi_sizing_method = sizing_method, oi_sizing_value = sizing_value,
        oi_currency = py_upper (py_strip (ri_currency r)), oi_expires_at = expires_at,
        oi_intent_hash = ri_intent_hash r, oi_target_leverage = target_leverage,
        oi_limit_price = limit_price, oi_schema_version = ri_schema_version r\<rparr>))))))))))"

text \<open>\<open>intent_id or uuid4()\<close> with the drawn UUID as an argument.\<close>

definition uuid_or :: "raw_uuid option \<Rightarrow> uuid \<Rightarrow> raw_uuid" where
  "uuid_or r fresh = (case r of None \<Rightarrow> RUuid fresh
     | Some x \<Rightarrow> if x = RUuidText [] then RUuid fresh else x)"

text \<open>
  \<open>OrderIntent.create\<close>: the keyword arguments are those of a \<open>raw_intent\<close> without hash, schema
  version and identity; the hash is taken over the normalised values.
\<close>

definition create_intent ::
  "digest \<Rightarrow> uuid \<Rightarrow> raw_uuid option \<Rightarrow> raw_intent \<Rightarrow> order_intent result" where
  "create_intent H fresh intent_id r =
     bindR (uuid_arg (ri_internal_instrument_id r) ''internal_instrument_id'') (\<lambda>instrument_id.
     bindR (environment_of (ri_environment r)) (\<lambda>env.
     bindR (order_side_of (ri_side r)) (\<lambda>side.
     bindR (order_type_of (ri_order_type r)) (\<lambda>order_type.
     bindR (sizing_method_of (ri_sizing_method r)) (\<lambda>sizing_method.
     bindR (decimal_value (ri_sizing_value r) ''sizing_value'') (\<lambda>sizing_value.
     bindR (aware_utc (ri_expires_at r) ''expires_at'') (\<lambda>expires_at.
     bindR (decimal_value (ri_target_leverage r) ''target_leverage'') (\<lambda>target_leverage.
     bindR (optR (\<lambda>x. decimal_value x ''limit_price'') (ri_limit_price r)) (\<lambda>limit_price.
     bindR (uuid_arg (uuid_or intent_id fresh) ''intent_id'') (\<lambda>new_id.
     let values = \<lparr>oi_intent_id = new_id, oi_strategy_id = py_strip (ri_strategy_id r),
           oi_run_id = py_strip (ri_run_id r), oi_internal_instrument_id = instrument_id,
           oi_environment = env, oi_side = side, oi_order_type = order_type,
           oi_sizing_method = sizing_method, oi_sizing_value = sizing_value,
           oi_currency = py_upper (py_strip (ri_currency r)), oi_expires_at = expires_at,
           oi_intent_hash = [], oi_target_leverage = target_leverage, oi_limit_price = limit_price,
           oi_schema_version = schema_version\<rparr>
     in OrderIntent H
       \<lparr>ri_intent_id = RUuid new_id, ri_strategy_id = oi_strategy_id values,
        ri_run_id = oi_run_id values, ri_internal_instrument_id = RUuid instrument_id,
        ri_environment = environment_str env, ri_side = order_side_str side,
        ri_order_type = order_type_str order_type,
        ri_sizing_method = sizing_method_str sizing_method,
        ri_sizing_value = RDecimal sizing_value, ri_currency = oi_currency values,
        ri_expires_at = utc expires_at,
        ri_intent_hash = payload_hash H (intent_hash_payload values),
        ri_target_leverage = RDecimal target_leverage,
        ri_limit_price = map_option RDecimal limit_price,
        ri_schema_version = schema_version\<rparr>))))))))))"

text \<open>Dataclass equality, which compares decimals by value.\<close>

definition intent_eq :: "order_intent \<Rightarrow> order_intent \<Rightarrow> bool" where
  "intent_eq a b \<longleftrightarrow>
     oi_intent_id a = oi_intent_id b \<and> oi_strategy_id a = oi_strategy_id b \<and>
     oi_run_id a = oi_run_id b \<and> oi_internal_instrument_id a = oi_internal_instrument_id b \<and>
     oi_environment a = oi_environment b \<and> oi_side a = oi_side b \<and>
     oi_order_type a = oi_order_type b \<and> oi_sizing_method a = oi_sizing_method b \<and>
     dec_eq (oi_sizing_value a) (oi_sizing_value b) \<and> oi_currency a = oi_currency b \<and>
     oi_expires_at a = oi_expires_at b \<and> oi_intent_hash a = oi_intent_hash b \<and>
     dec_eq (oi_target_leverage a) (oi_target_leverage b) \<and>
     (case (oi_limit_price a, oi_limit_price b) of
        (None, None) \<Rightarrow> True | (Some x, Some y) \<Rightarrow> dec_eq x y | _ \<Rightarrow> False) \<and>
     oi_schema_version a = oi_schema_version b"

definition intent_json :: "order_intent \<Rightarrow> json" where
  "intent_json i = JObj
     [(''intent_id'', JStr (uuid_str (oi_intent_id i))),
      (''strategy_id'', JStr (oi_strategy_id i)),
      (''run_id'', JStr (oi_run_id i)),
      (''internal_instrument_id'', JStr (uuid_str (oi_internal_instrument_id i))),
      (''environment'', JStr (environment_str (oi_environment i))),
      (''side'', JStr (order_side_str (oi_side i))),
      (''order_type'', JStr (order_type_str (oi_order_type i))),
      (''sizing_method'', JStr (sizing_method_str (oi_sizing_method i))),
      (''sizing_value'', jdec (oi_sizing_value i)),
      (''currency'', JStr (oi_currency i)),
      (''expires_at'', JTime (oi_expires_at i)),
      (''intent_hash'', JStr (oi_intent_hash i)),
      (''target_leverage'', jdec (oi_target_leverage i)),
      (''limit_price'', jdec_opt (oi_limit_price i)),
      (''schema_version'', JStr (oi_schema_version i))]"

definition intent_from_json :: "digest \<Rightarrow> json \<Rightarrow> order_intent result" where
  "intent_from_json H v =
     bindR (str_field v ''intent_id'') (\<lambda>intent_id.
     bindR (str_field v ''strategy_id'') (\<lambda>strategy_id.
     bindR (str_field v ''run_id'') (\<lambda>run_id.
     bindR (str_field v ''internal_instrument_id'') (\<lambda>instrument_id.
     bindR (str_field v ''environment'') (\<lambda>env.
     bindR (str_field v ''side'') (\<lambda>side.
     bindR (str_field v ''order_type'') (\<lambda>order_type.
     bindR (str_field v ''sizing_method'') (\<lambda>sizing_method.
     bindR (str_field v ''sizing_value'') (\<lambda>sizing_value.
     bindR (str_field v ''currency'') (\<lambda>currency.
     bindR (bindR (json_get v ''expires_at'') parse_datetime) (\<lambda>expires_at.
     bindR (str_field v ''intent_hash'') (\<lambda>intent_hash.
     bindR (str_field v ''target_leverage'') (\<lambda>target_leverage.
     bindR (bindR (json_get v ''limit_price'') json_opt_str) (\<lambda>limit_price.
     bindR (str_field v ''schema_version'') (\<lambda>version.
     OrderIntent H
       \<lparr>ri_intent_id = RUuidText intent_id, ri_strategy_id = strategy_id, ri_run_id = run_id,
        ri_internal_instrument_id = RUuidText instrument_id, ri_environment = env, ri_side = side,
        ri_order_type = order_type, ri_sizing_method = sizing_method,
        ri_sizing_value = RText sizing_value, ri_currency = currency, ri_expires_at = expires_at,
        ri_intent_hash = intent_hash, ri_target_leverage = RText target_leverage,
        ri_limit_price = map_option RText limit_price, ri_schema_version = version\<rparr>)))))))))))))))"

section \<open>RiskCheck and RiskDecision\<close>

record risk_check =
  rc_name :: string
  rc_passed :: bool
  rc_observed :: string
  rc_limit :: string

record risk_decision =
  rd_decision_id :: uuid
  rd_intent_hash :: string
  rd_account_snapshot_id :: string
  rd_quote_id :: string
  rd_quote_observed_at :: instant
  rd_computed_exposures :: "(string \<times> string) list"
  rd_checks :: "risk_check list"
  rd_outcome :: risk_outcome
  rd_reasons :: "string list"
  rd_decided_at :: instant
  rd_schema_version :: string

definition decision_checks :: "risk_decision \<Rightarrow> risk_decision result" where
  "decision_checks d =
     raiseIf (blank (rd_intent_hash d)) (DomainValidationError ''intent_hash must not be blank'') (
     raiseIf (blank (rd_account_snapshot_id d)) (DomainValidationError ''account_snapshot_id must not be blank'') (
     raiseIf (blank (rd_quote_id d)) (DomainValidationError ''quote_id must not be blank'') (
     raiseIf (rd_outcome d \<noteq> (if list_all rc_passed (rd_checks d) then ACCEPTED else DECLINED))
       (DomainValidationError ''risk outcome conflicts with recorded checks'') (
     Inr d))))"

definition RiskDecision ::
  "raw_uuid \<Rightarrow> string \<Rightarrow> string \<Rightarrow> string \<Rightarrow> pydatetime \<Rightarrow> (string \<times> string) list \<Rightarrow>
   risk_check list \<Rightarrow> string \<Rightarrow> string list \<Rightarrow> pydatetime \<Rightarrow> string \<Rightarrow> risk_decision result" where
  "RiskDecision decision_id intent_hash snapshot_id quote_id quote_observed_at exposures checks
     outcome reasons decided_at version =
     bindR (uuid_arg decision_id ''decision_id'') (\<lambda>did.
     bindR (risk_outcome_of outcome) (\<lambda>out.
     bindR (aware_utc quote_observed_at ''quote_observed_at'') (\<lambda>qt.
     bindR (aware_utc decided_at ''decided_at'') (\<lambda>dt.
     decision_checks
       \<lparr>rd_decision_id = did, rd_intent_hash = intent_hash, rd_account_snapshot_id = snapshot_id,
        rd_quote_id = quote_id, rd_quote_observed_at = qt,
        rd_computed_exposures = immutable_pairs exposures, rd_checks = checks, rd_outcome = out,
        rd_reasons = reasons, rd_decided_at = dt, rd_schema_version = version\<rparr>))))"

definition pair_json :: "string \<times> string \<Rightarrow> json" where
  "pair_json kv = JArr [JStr (fst kv), JStr (snd kv)]"

definition pair_from_json :: "json \<Rightarrow> (string \<times> string) result" where
  "pair_from_json j = (case j of
     JArr [JStr k, JStr v] \<Rightarrow> Inr (k, v) | _ \<Rightarrow> Inl (PyTypeError ''pair expected''))"

definition check_json :: "risk_check \<Rightarrow> json" where
  "check_json c = JObj [(''name'', JStr (rc_name c)), (''passed'', JBool (rc_passed c)),
     (''observed'', JStr (rc_observed c)), (''limit'', JStr (rc_limit c))]"

definition check_from_json :: "json \<Rightarrow> risk_check result" where
  "check_from_json v =
     bindR (str_field v ''name'') (\<lambda>name.
     bindR (bindR (json_get v ''passed'') json_bool) (\<lambda>passed.
     bindR (str_field v ''observed'') (\<lambda>observed.
     bindR (str_field v ''limit'') (\<lambda>limit.
     Inr \<lparr>rc_name = name, rc_passed = passed, rc_observed = observed, rc_limit = limit\<rparr>))))"

definition decision_json :: "risk_decision \<Rightarrow> json" where
  "decision_json d = JObj
     [(''decision_id'', JStr (uuid_str (rd_decision_id d))),
      (''intent_hash'', JStr (rd_intent_hash d)),
      (''account_snapshot_id'', JStr (rd_account_snapshot_id d)),
      (''quote_id'', JStr (rd_quote_id d)),
      (''quote_observed_at'', JTime (rd_quote_observed_at d)),
      (''computed_exposures'', JArr (map pair_json (rd_computed_exposures d))),
      (''checks'', JArr (map check_json (rd_checks d))),
      (''outcome'', JStr (risk_outcome_str (rd_outcome d))),
      (''reasons'', JArr (map JStr (rd_reasons d))),
      (''decided_at'', JTime (rd_decided_at d)),
      (''schema_version'', JStr (rd_schema_version d))]"

definition risk_from_json :: "json \<Rightarrow> risk_decision result" where
  "risk_from_json v =
     bindR (str_field v ''decision_id'') (\<lambda>decision_id.
     bindR (str_field v ''intent_hash'') (\<lambda>intent_hash.
     bindR (str_field v ''account_snapshot_id'') (\<lambda>snapshot_id.
     bindR (str_field v ''quote_id'') (\<lambda>quote_id.
     bindR (bindR (json_get v ''quote_observed_at'') parse_datetime) (\<lambda>quote_observed_at.
     bindR (bindR (bindR (json_get v ''computed_exposures'') json_arr) (mapR pair_from_json)) (\<lambda>exposures.
     bindR (bindR (bindR (json_get v ''checks'') json_arr) (mapR check_from_json)) (\<lambda>checks.
     bindR (str_field v ''outcome'') (\<lambda>outcome.
     bindR (bindR (bindR (json_get v ''reasons'') json_arr) (mapR json_str)) (\<lambda>reasons.
     bindR (bindR (json_get v ''decided_at'') parse_datetime) (\<lambda>decided_at.
     bindR (str_field v ''schema_version'') (\<lambda>version.
     RiskDecision (RUuidText decision_id) intent_hash snapshot_id quote_id quote_observed_at exposures
       checks outcome reasons decided_at version)))))))))))"

section \<open>Approval\<close>

record approval =
  ap_approval_id :: uuid
  ap_intent_hash :: string
  ap_approver :: string
  ap_environment :: environment
  ap_limits :: "(string \<times> string) list"
  ap_issued_at :: instant
  ap_expires_at :: instant
  ap_schema_version :: string

definition approval_checks :: "approval \<Rightarrow> approval result" where
  "approval_checks a =
     raiseIf (blank (ap_intent_hash a) \<or> blank (ap_approver a))
       (DomainValidationError ''approval identity fields must not be blank'') (
     raiseIf (ap_expires_at a \<le> ap_issued_at a)
       (DomainValidationError ''approval expiry must be after issue time'') (
     Inr a))"

definition Approval ::
  "raw_uuid \<Rightarrow> string \<Rightarrow> string \<Rightarrow> string \<Rightarrow> (string \<times> string) list \<Rightarrow> pydatetime \<Rightarrow> pydatetime \<Rightarrow>
   string \<Rightarrow> approval result" where
  "Approval approval_id intent_hash approver env limits issued_at expires_at version =
     bindR (uuid_arg approval_id ''approval_id'') (\<lambda>aid.
     bindR (environment_of env) (\<lambda>e.
     bindR (aware_utc issued_at ''issued_at'') (\<lambda>ti.
     bindR (aware_utc expires_at ''expires_at'') (\<lambda>te.
     approval_checks
       \<lparr>ap_approval_id = aid, ap_intent_hash = intent_hash, ap_approver = approver,
        ap_environment = e, ap_limits = immutable_pairs limits, ap_issued_at = ti,
        ap_expires_at = te, ap_schema_version = version\<rparr>))))"

definition approval_json :: "approval \<Rightarrow> json" where
  "approval_json a = JObj
     [(''approval_id'', JStr (uuid_str (ap_approval_id a))),
      (''intent_hash'', JStr (ap_intent_hash a)),
      (''approver'', JStr (ap_approver a)),
      (''environment'', JStr (environment_str (ap_environment a))),
      (''limits'', JArr (map pair_json (ap_limits a))),
      (''issued_at'', JTime (ap_issued_at a)),
      (''expires_at'', JTime (ap_expires_at a)),
      (''schema_version'', JStr (ap_schema_version a))]"

definition approval_from_json :: "json \<Rightarrow> approval result" where
  "approval_from_json v =
     bindR (str_field v ''approval_id'') (\<lambda>approval_id.
     bindR (str_field v ''intent_hash'') (\<lambda>intent_hash.
     bindR (str_field v ''approver'') (\<lambda>approver.
     bindR (str_field v ''environment'') (\<lambda>env.
     bindR (bindR (bindR (json_get v ''limits'') json_arr) (mapR pair_from_json)) (\<lambda>limits.
     bindR (bindR (json_get v ''issued_at'') parse_datetime) (\<lambda>issued_at.
     bindR (bindR (json_get v ''expires_at'') parse_datetime) (\<lambda>expires_at.
     bindR (str_field v ''schema_version'') (\<lambda>version.
     Approval (RUuidText approval_id) intent_hash approver env limits issued_at expires_at version))))))))"

section \<open>CommandAttempt and BrokerCommand\<close>

record command_attempt =
  ca_attempt_number :: int
  ca_request_id :: uuid
  ca_attempted_at :: instant
  ca_outcome :: string

definition CommandAttempt :: "int \<Rightarrow> raw_uuid \<Rightarrow> pydatetime \<Rightarrow> string \<Rightarrow> command_attempt result" where
  "CommandAttempt number request_id attempted_at outcome =
     bindR (uuid_arg request_id ''request_id'') (\<lambda>rid.
     bindR (aware_utc attempted_at ''attempted_at'') (\<lambda>t.
     raiseIf (number < 1 \<or> blank outcome) (DomainValidationError ''command attempt is invalid'') (
     Inr \<lparr>ca_attempt_number = number, ca_request_id = rid, ca_attempted_at = t, ca_outcome = outcome\<rparr>)))"

record broker_command =
  bc_command_id :: uuid
  bc_logical_request_id :: uuid
  bc_intent_hash :: string
  bc_operation :: broker_operation
  bc_broker :: string
  bc_environment :: environment
  bc_payload_hash :: string
  bc_state :: command_state
  bc_attempt_history :: "command_attempt list"
  bc_broker_order_id :: "string option"
  bc_broker_reference_id :: "string option"
  bc_broker_position_id :: "string option"
  bc_schema_version :: string

text \<open>\<open>numbers != list(range(1, len(numbers) + 1))\<close>, negated.\<close>

definition contiguous_attempts :: "command_attempt list \<Rightarrow> bool" where
  "contiguous_attempts h \<longleftrightarrow> map ca_attempt_number h = map int [1..<Suc (length h)]"

definition command_checks :: "broker_command \<Rightarrow> broker_command result" where
  "command_checks c =
     raiseIf (blank (bc_intent_hash c) \<or> blank (bc_broker c) \<or> blank (bc_payload_hash c))
       (DomainValidationError ''broker command identity fields must not be blank'') (
     raiseIf (\<not> contiguous_attempts (bc_attempt_history c))
       (DomainValidationError ''attempt history must be contiguous and ordered'') (
     Inr c))"

text \<open>
  The constructor converts identities and enumeration members, then checks. \<open>replace\<close> on an
  instance runs the checks again on members that are already converted.
\<close>

definition BrokerCommand ::
  "raw_uuid \<Rightarrow> raw_uuid \<Rightarrow> string \<Rightarrow> string \<Rightarrow> string \<Rightarrow> string \<Rightarrow> string \<Rightarrow> string \<Rightarrow>
   command_attempt list \<Rightarrow> string option \<Rightarrow> string option \<Rightarrow> string option \<Rightarrow> string \<Rightarrow>
   broker_command result" where
  "BrokerCommand command_id request_id intent_hash operation broker env phash state history
     order_id reference_id position_id version =
     bindR (uuid_arg command_id ''command_id'') (\<lambda>cid.
     bindR (uuid_arg request_id ''logical_request_id'') (\<lambda>rid.
     bindR (broker_operation_of operation) (\<lambda>op.
     bindR (environment_of env) (\<lambda>e.
     bindR (command_state_of state) (\<lambda>st.
     command_checks
       \<lparr>bc_command_id = cid, bc_logical_request_id = rid, bc_intent_hash = intent_hash,
        bc_operation = op, bc_broker = broker, bc_environment = e, bc_payload_hash = phash,
        bc_state = st, bc_attempt_history = history, bc_broker_order_id = order_id,
        bc_broker_reference_id = reference_id, bc_broker_position_id = position_id,
        bc_schema_version = version\<rparr>)))))"

definition create_command ::
  "digest \<Rightarrow> uuid \<Rightarrow> uuid \<Rightarrow> string \<Rightarrow> broker_operation \<Rightarrow> string \<Rightarrow> environment \<Rightarrow> json \<Rightarrow>
   broker_command result" where
  "create_command H fresh_command fresh_request intent_hash operation broker env broker_payload =
     BrokerCommand (RUuid fresh_command) (RUuid fresh_request) intent_hash
       (broker_operation_str operation) (py_lower (py_strip broker)) (environment_str env)
       (payload_hash H broker_payload) (command_state_str PROPOSED) [] None None None schema_version"

definition transition ::
  "broker_command \<Rightarrow> command_state \<Rightarrow> string option \<Rightarrow> string option \<Rightarrow> string option \<Rightarrow>
   broker_command result" where
  "transition c target order_id reference_id position_id =
     raiseIf (target \<notin> set (allowed_transitions (bc_state c)))
       (InvalidLifecycleTransition
         (command_state_str (bc_state c) @ '' -> '' @ command_state_str target @ '' is not allowed'')) (
     command_checks (c\<lparr>bc_state := target,
       bc_broker_order_id := py_or order_id (bc_broker_order_id c),
       bc_broker_reference_id := py_or reference_id (bc_broker_reference_id c),
       bc_broker_position_id := py_or position_id (bc_broker_position_id c)\<rparr>))"

definition with_attempt :: "broker_command \<Rightarrow> command_attempt \<Rightarrow> broker_command result" where
  "with_attempt c a =
     raiseIf (ca_attempt_number a \<noteq> int (length (bc_attempt_history c)) + 1)
       (DomainValidationError ''attempt number is not the next contiguous value'') (
     command_checks (c\<lparr>bc_attempt_history := bc_attempt_history c @ [a]\<rparr>))"

definition attempt_json :: "command_attempt \<Rightarrow> json" where
  "attempt_json a = JObj
     [(''attempt_number'', JInt (ca_attempt_number a)),
      (''request_id'', JStr (uuid_str (ca_request_id a))),
      (''attempted_at'', JTime (ca_attempted_at a)),
      (''outcome'', JStr (ca_outcome a))]"

definition attempt_from_json :: "json \<Rightarrow> command_attempt result" where
  "attempt_from_json v =
     bindR (bindR (json_get v ''attempt_number'') json_int) (\<lambda>number.
     bindR (str_field v ''request_id'') (\<lambda>request_id.
     bindR (bindR (json_get v ''attempted_at'') parse_datetime) (\<lambda>attempted_at.
     bindR (str_field v ''outcome'') (\<lambda>outcome.
     CommandAttempt number (RUuidText request_id) attempted_at outcome))))"

definition command_json :: "broker_command \<Rightarrow> json" where
  "command_json c = JObj
     [(''command_id'', JStr (uuid_str (bc_command_id c))),
      (''logical_request_id'', JStr (uuid_str (bc_logical_request_id c))),
      (''intent_hash'', JStr (bc_intent_hash c)),
      (''operation'', JStr (broker_operation_str (bc_operation c))),
      (''broker'', JStr (bc_broker c)),
      (''environment'', JStr (environment_str (bc_environment c))),
      (''payload_hash'', JStr (bc_payload_hash c)),
      (''state'', JStr (command_state_str (bc_state c))),
      (''attempt_history'', JArr (map attempt_json (bc_attempt_history c))),
      (''broker_order_id'', jopt (bc_broker_order_id c)),
      (''broker_reference_id'', jopt (bc_broker_reference_id c)),
      (''broker_position_id'', jopt (bc_broker_position_id c)),
      (''schema_version'', JStr (bc_schema_version c))]"

definition command_from_json :: "json \<Rightarrow> broker_command result" where
  "command_from_json v =
     bindR (str_field v ''command_id'') (\<lambda>command_id.
     bindR (str_field v ''logical_request_id'') (\<lambda>request_id.
     bindR (str_field v ''intent_hash'') (\<lambda>intent_hash.
     bindR (str_field v ''operation'') (\<lambda>operation.
     bindR (str_field v ''broker'') (\<lambda>broker.
     bindR (str_field v ''environment'') (\<lambda>env.
     bindR (str_field v ''payload_hash'') (\<lambda>phash.
     bindR (str_field v ''state'') (\<lambda>state.
     bindR (bindR (bindR (json_get v ''attempt_history'') json_arr) (mapR attempt_from_json)) (\<lambda>history.
     bindR (bindR (json_get v ''broker_order_id'') json_opt_str) (\<lambda>order_id.
     bindR (bindR (json_get v ''broker_reference_id'') json_opt_str) (\<lambda>reference_id.
     bindR (bindR (json_get v ''broker_position_id'') json_opt_str) (\<lambda>position_id.
     bindR (str_field v ''schema_version'') (\<lambda>version.
     BrokerCommand (RUuidText command_id) (RUuidText request_id) intent_hash operation broker env
       phash state history order_id reference_id position_id version)))))))))))))"

section \<open>Validity\<close>

text \<open>
  What the constructors guarantee of an instance. Every value the code passes around was
  built by a constructor, so these predicates hold of all arguments of the store.
\<close>

definition intent_ok :: "digest \<Rightarrow> order_intent \<Rightarrow> bool" where
  "intent_ok H i \<longleftrightarrow> \<not> blank (oi_strategy_id i) \<and> \<not> blank (oi_run_id i) \<and> \<not> blank (oi_currency i) \<and>
     \<not> dec_le (oi_sizing_value i) dec0 \<and> \<not> dec_le (oi_target_leverage i) dec0 \<and>
     (oi_order_type i = LIMIT \<longleftrightarrow> oi_limit_price i \<noteq> None) \<and> oi_intent_hash i = compute_hash H i"

definition valid_intent :: "digest \<Rightarrow> order_intent \<Rightarrow> bool" where
  "valid_intent H i \<longleftrightarrow> intent_ok H i \<and> is_finite (oi_sizing_value i) \<and>
     is_finite (oi_target_leverage i) \<and> (\<forall>p. oi_limit_price i = Some p \<longrightarrow> is_finite p) \<and>
     py_upper (py_strip (oi_currency i)) = oi_currency i"

definition decision_ok :: "risk_decision \<Rightarrow> bool" where
  "decision_ok d \<longleftrightarrow> \<not> blank (rd_intent_hash d) \<and> \<not> blank (rd_account_snapshot_id d) \<and>
     \<not> blank (rd_quote_id d) \<and> (rd_outcome d = ACCEPTED \<longleftrightarrow> list_all rc_passed (rd_checks d))"

definition valid_decision :: "risk_decision \<Rightarrow> bool" where
  "valid_decision d \<longleftrightarrow> decision_ok d \<and> sorted (rd_computed_exposures d)"

definition approval_ok :: "approval \<Rightarrow> bool" where
  "approval_ok a \<longleftrightarrow> \<not> blank (ap_intent_hash a) \<and> \<not> blank (ap_approver a) \<and>
     ap_issued_at a < ap_expires_at a"

definition valid_approval :: "approval \<Rightarrow> bool" where
  "valid_approval a \<longleftrightarrow> approval_ok a \<and> sorted (ap_limits a)"

definition command_ok :: "broker_command \<Rightarrow> bool" where
  "command_ok c \<longleftrightarrow> \<not> blank (bc_intent_hash c) \<and> \<not> blank (bc_broker c) \<and> \<not> blank (bc_payload_hash c) \<and>
     contiguous_attempts (bc_attempt_history c)"

definition valid_attempt :: "command_attempt \<Rightarrow> bool" where
  "valid_attempt a \<longleftrightarrow> 1 \<le> ca_attempt_number a \<and> \<not> blank (ca_outcome a)"

definition valid_command :: "broker_command \<Rightarrow> bool" where
  "valid_command c \<longleftrightarrow> command_ok c \<and> list_all valid_attempt (bc_attempt_history c)"

section \<open>JSON fields\<close>

lemma json_get_obj [simp]: "json_get (JObj kvs) k = of_option (PyKeyError k) (map_of kvs k)"
  by (simp add: json_get_def)

lemma str_field_obj [simp]: "str_field (JObj kvs) k = bindR (of_option (PyKeyError k) (map_of kvs k)) json_str"
  by (simp add: str_field_def)

lemma json_readers [simp]:
  "json_str (JStr s) = Inr s" "json_int (JInt i) = Inr i" "json_bool (JBool b) = Inr b"
  "json_arr (JArr vs) = Inr vs" "parse_datetime (JTime t) = Inr (utc t)"
  "json_opt_str (jopt x) = Inr x"
  by (simp_all add: json_str_def json_int_def json_bool_def json_arr_def parse_datetime_def
      json_opt_str_def jopt_def split: option.splits)

lemma pair_roundtrip [simp, codec_simps]: "pair_from_json (pair_json kv) = Inr kv"
  by (simp add: pair_from_json_def pair_json_def)

lemma pairs_roundtrip [simp, codec_simps]: "mapR pair_from_json (map pair_json kvs) = Inr kvs"
  by (induction kvs) simp_all

lemma check_roundtrip [simp, codec_simps]: "check_from_json (check_json c) = Inr c"
  by (cases c) (simp add: check_from_json_def check_json_def)

lemma checks_roundtrip [simp, codec_simps]: "mapR check_from_json (map check_json cs) = Inr cs"
  by (induction cs) simp_all

lemma strs_roundtrip [simp, codec_simps]: "mapR json_str (map JStr ss) = Inr ss"
  by (induction ss) simp_all

lemma attempt_roundtrip [codec_simps]:
  "valid_attempt a \<Longrightarrow> attempt_from_json (attempt_json a) = Inr a"
  by (cases a) (auto simp: attempt_from_json_def attempt_json_def CommandAttempt_def valid_attempt_def)

lemma attempts_roundtrip [codec_simps]:
  "list_all valid_attempt as \<Longrightarrow> mapR attempt_from_json (map attempt_json as) = Inr as"
  by (induction as) (auto simp: attempt_roundtrip)

lemma attempt_from_json_valid: "attempt_from_json j = Inr a \<Longrightarrow> valid_attempt a"
  by (auto simp: attempt_from_json_def CommandAttempt_def valid_attempt_def)

section \<open>Round trips through the store's JSON\<close>

lemma immutable_pairs_sorted [simp]: "sorted kvs \<Longrightarrow> immutable_pairs kvs = kvs"
  by (simp add: immutable_pairs_def sorted_sort_id)

lemma sorted_immutable_pairs [simp]: "sorted (immutable_pairs kvs)"
  by (simp add: immutable_pairs_def)

lemma decision_checks_Inr [simp]: "decision_checks d = Inr d' \<longleftrightarrow> decision_ok d \<and> d' = d"
  by (cases "rd_outcome d") (auto simp: decision_checks_def decision_ok_def)

lemma approval_checks_Inr [simp]: "approval_checks a = Inr a' \<longleftrightarrow> approval_ok a \<and> a' = a"
  by (auto simp: approval_checks_def approval_ok_def)

lemma command_checks_Inr [simp]: "command_checks c = Inr c' \<longleftrightarrow> command_ok c \<and> c' = c"
  by (auto simp: command_checks_def command_ok_def)

lemma intent_checks_Inr [simp]: "intent_checks H i = Inr i' \<longleftrightarrow> intent_ok H i \<and> i' = i"
  by (cases "oi_order_type i") (auto simp: intent_checks_def intent_ok_def)

lemma decision_roundtrip [simp, codec_simps]:
  "valid_decision d \<Longrightarrow> risk_from_json (decision_json d) = Inr d"
  by (cases d) (simp add: valid_decision_def risk_from_json_def decision_json_def RiskDecision_def)

lemma approval_roundtrip [simp, codec_simps]:
  "valid_approval a \<Longrightarrow> approval_from_json (approval_json a) = Inr a"
  by (cases a) (simp add: valid_approval_def approval_from_json_def approval_json_def Approval_def)

lemma command_roundtrip [simp, codec_simps]:
  "valid_command c \<Longrightarrow> command_from_json (command_json c) = Inr c"
  by (cases c)
    (simp add: valid_command_def command_from_json_def command_json_def BrokerCommand_def
      attempts_roundtrip)

lemma RiskDecision_valid:
  "RiskDecision did h sn q qt ex ch out rs dt v = Inr d \<Longrightarrow> valid_decision d"
  by (auto simp: RiskDecision_def valid_decision_def)

lemma Approval_valid: "Approval aid h who env lims ti te v = Inr a \<Longrightarrow> valid_approval a"
  by (auto simp: Approval_def valid_approval_def)

lemma BrokerCommand_valid:
  assumes "BrokerCommand cid rid h op br env ph st hist oid ref pos v = Inr c"
    and "list_all valid_attempt hist"
  shows "valid_command c"
  using assms by (auto simp: BrokerCommand_def valid_command_def)

lemma risk_from_json_valid: "risk_from_json j = Inr d \<Longrightarrow> valid_decision d"
  by (auto simp: risk_from_json_def dest: RiskDecision_valid)

lemma approval_from_json_valid: "approval_from_json j = Inr a \<Longrightarrow> valid_approval a"
  by (auto simp: approval_from_json_def dest: Approval_valid)

lemma mapR_attempts_valid: "mapR attempt_from_json vs = Inr as \<Longrightarrow> list_all valid_attempt as"
  unfolding list_all_iff using mapR_set attempt_from_json_valid by fast

lemma command_from_json_valid: "command_from_json j = Inr c \<Longrightarrow> valid_command c"
  by (auto simp: command_from_json_def intro: BrokerCommand_valid dest!: mapR_attempts_valid)

section \<open>Currency text\<close>

lemma py_strip_map:
  assumes "\<And>c. py_isspace (f c) = py_isspace c"
  shows "py_strip (map f s) = map f (py_strip s)"
  using assms by (simp add: py_strip_def dropWhile_map comp_def rev_map)

lemma upper_char_props:
  fixes c :: char
  defines "u \<equiv> (let n = (of_char c :: nat) in if 97 \<le> n \<and> n \<le> 122 then char_of (n - 32) else c)"
  shows "py_isspace u = py_isspace c"
    and "(let n = (of_char u :: nat) in if 97 \<le> n \<and> n \<le> 122 then char_of (n - 32) else u) = u"
  unfolding u_def Let_def by (auto simp: py_isspace_def Let_def)

lemma py_upper_upper [simp]: "py_upper (py_upper s) = py_upper s"
  unfolding py_upper_def map_map comp_def using upper_char_props(2) by (intro map_cong) auto

lemma py_strip_upper [simp]: "py_strip (py_upper s) = py_upper (py_strip s)"
  unfolding py_upper_def using upper_char_props(1) by (rule py_strip_map)

section \<open>Decimals through their fixed-point text\<close>

definition dec_norm :: "decimal \<Rightarrow> decimal" where
  "dec_norm d = (case d of Dec s c e \<Rightarrow> if e \<le> 0 then Dec s c e else Dec s (c * 10 ^ nat e) 0 | _ \<Rightarrow> d)"

lemma dec_norm_parse [simp]: "is_finite d \<Longrightarrow> dec_of_string (dec_format_f d) = Some (dec_norm d)"
  by (cases d) (auto simp: dec_norm_def dec_of_string_format_f simp del: dec_format_f.simps)

lemma is_finite_norm [simp]: "is_finite (dec_norm d) = is_finite d"
  by (cases d) (auto simp: dec_norm_def)

lemma dec_val_norm [simp]: "dec_val (dec_norm d) = dec_val d"
  by (cases d) (auto simp: dec_norm_def power_int_def)

lemma digit_char_0 [simp]: "digit_char 0 = CHR ''0''"
  by code_simp

lemma str_nat_mult_10: "0 < m \<Longrightarrow> str_nat (m * 10) = str_nat m @ ''0''"
  by (subst str_nat.simps) simp

lemma str_nat_mult_power: "0 < m \<Longrightarrow> str_nat (m * 10 ^ n) = str_nat m @ replicate n CHR ''0''"
proof (induction n)
  case (Suc n)
  have "str_nat (m * 10 ^ Suc n) = str_nat (m * 10 ^ n * 10)" by (simp add: algebra_simps)
  also have "\<dots> = str_nat (m * 10 ^ n) @ ''0''" using Suc.prems by (intro str_nat_mult_10) simp
  finally show ?case using Suc by (simp add: replicate_append_same)
qed simp

lemma dec_body_norm: "0 < e \<Longrightarrow> dec_body (c * 10 ^ nat e) 0 = dec_body c e"
  by (simp add: dec_body_def str_nat_mult_power)

lemma dec_format_norm [simp]: "dec_format_f (dec_norm d) = dec_format_f d"
  by (cases d) (auto simp: dec_norm_def dec_body_norm)

lemma dec_le_norm [simp]: "is_finite d \<Longrightarrow> dec_le (dec_norm d) dec0 = dec_le d dec0"
  by simp

section \<open>Intents\<close>

lemma decimal_value_Inr [simp]:
  "decimal_value (RDecimal d) f = Inr d' \<longleftrightarrow> is_finite d \<and> d' = d"
  "decimal_value (RText (dec_format_f d)) f = Inr d' \<longleftrightarrow> is_finite d \<and> d' = dec_norm d"
  if "is_finite d" for d
  using that by auto

definition intent_norm :: "order_intent \<Rightarrow> order_intent" where
  "intent_norm i = i\<lparr>oi_sizing_value := dec_norm (oi_sizing_value i),
     oi_target_leverage := dec_norm (oi_target_leverage i),
     oi_limit_price := map_option dec_norm (oi_limit_price i)\<rparr>"

lemma compute_hash_norm [simp]: "compute_hash H (intent_norm i) = compute_hash H i"
  by (cases "oi_limit_price i")
    (simp_all add: compute_hash_def intent_norm_def intent_hash_payload_def jdec_def jdec_opt_def)

lemma intent_ok_norm: "valid_intent H i \<Longrightarrow> intent_ok H (intent_norm i)"
  using compute_hash_norm [of H i]
  by (auto simp: intent_ok_def valid_intent_def intent_norm_def simp del: compute_hash_norm)

lemma valid_intent_norm: "valid_intent H i \<Longrightarrow> valid_intent H (intent_norm i)"
  using intent_ok_norm [of H i] by (auto simp: valid_intent_def intent_norm_def)

lemma intent_eq_norm: "valid_intent H i \<Longrightarrow> intent_eq (intent_norm i) i"
  by (cases "oi_limit_price i") (auto simp: intent_eq_def intent_norm_def valid_intent_def)

lemma limit_price_roundtrip:
  "(\<forall>p. x = Some p \<longrightarrow> is_finite p) \<Longrightarrow>
     bindR (json_opt_str (jdec_opt x)) (\<lambda>t. optR (\<lambda>x. decimal_value x f) (map_option RText t)) =
       Inr (map_option dec_norm x)"
  by (cases x) (simp_all add: jdec_opt_def jdec_def json_opt_str_def)

lemma intent_roundtrip [codec_simps]:
  assumes "valid_intent H i"
  shows "intent_from_json H (intent_json i) = Inr (intent_norm i)"
proof -
  have fin: "is_finite (oi_sizing_value i)" "is_finite (oi_target_leverage i)"
    and cur: "py_upper (py_strip (oi_currency i)) = oi_currency i"
    and lp: "\<forall>p. oi_limit_price i = Some p \<longrightarrow> is_finite p"
    using assms by (simp_all add: valid_intent_def)
  have ok: "intent_ok H (intent_norm i)" using assms by (rule intent_ok_norm)
  show ?thesis
  proof (cases "oi_limit_price i")
    case None
    then show ?thesis
      using fin cur ok by (cases i) (simp add: intent_from_json_def intent_json_def OrderIntent_def jdec_def
          jdec_opt_def json_opt_str_def intent_norm_def)
  next
    case (Some p)
    then show ?thesis
      using fin cur ok lp by (cases i) (simp add: intent_from_json_def intent_json_def OrderIntent_def jdec_def
          jdec_opt_def json_opt_str_def intent_norm_def)
  qed
qed

lemma decimal_value_finite: "decimal_value r f = Inr d \<Longrightarrow> is_finite d"
  by (cases r) auto

lemma OrderIntent_valid: "OrderIntent H r = Inr i \<Longrightarrow> valid_intent H i"
  by (cases "ri_limit_price r")
    (auto simp: OrderIntent_def valid_intent_def dest: decimal_value_finite)

lemma intent_from_json_valid: "intent_from_json H j = Inr i \<Longrightarrow> valid_intent H i"
  by (auto simp: intent_from_json_def dest: OrderIntent_valid)

section \<open>Commands\<close>

lemma transition_Inr:
  assumes "transition c target oid ref pos = Inr c'"
  shows "target \<in> set (allowed_transitions (bc_state c))" and "bc_state c' = target"
    and "bc_command_id c' = bc_command_id c" and "bc_logical_request_id c' = bc_logical_request_id c"
    and "bc_intent_hash c' = bc_intent_hash c" and "bc_operation c' = bc_operation c"
    and "bc_environment c' = bc_environment c" and "bc_attempt_history c' = bc_attempt_history c"
    and "bc_broker c' = bc_broker c"
  using assms by (auto simp: transition_def)

lemma transition_valid: "transition c target oid ref pos = Inr c' \<Longrightarrow> valid_command c \<Longrightarrow> valid_command c'"
  by (auto simp: transition_def valid_command_def)

lemma transition_allowed:
  "valid_command c \<Longrightarrow> target \<in> set (allowed_transitions (bc_state c)) \<Longrightarrow>
     \<exists>c'. transition c target oid ref pos = Inr c'"
  by (auto simp: transition_def valid_command_def command_ok_def)

lemma with_attempt_Inr:
  assumes "with_attempt c a = Inr c'"
  shows "c' = c\<lparr>bc_attempt_history := bc_attempt_history c @ [a]\<rparr>"
    and "ca_attempt_number a = int (length (bc_attempt_history c)) + 1"
  using assms by (auto simp: with_attempt_def)

lemma with_attempt_valid:
  "with_attempt c a = Inr c' \<Longrightarrow> valid_command c \<Longrightarrow> valid_attempt a \<Longrightarrow> valid_command c'"
  by (auto simp: with_attempt_def valid_command_def)

lemma create_command_valid:
  "create_command H fc fr h op broker env payload = Inr c \<Longrightarrow>
     valid_command c \<and> bc_state c = PROPOSED \<and> bc_attempt_history c = [] \<and> bc_intent_hash c = h \<and>
     bc_operation c = op \<and> bc_environment c = env \<and> bc_command_id c = fc \<and> bc_logical_request_id c = fr"
  using command_state_of_str [of PROPOSED]
  by (auto simp: create_command_def BrokerCommand_def valid_command_def)

section \<open>Canonical decimals\<close>

definition dec_canon :: "decimal \<Rightarrow> bool" where
  "dec_canon d = (case d of Dec s c e \<Rightarrow> e \<le> 0 \<and> (e < 0 \<longrightarrow> \<not> 10 dvd c) | _ \<Rightarrow> False)"

lemma rstrip_char_append: "rstrip_char c t \<noteq> [] \<Longrightarrow> rstrip_char c (s @ t) = s @ rstrip_char c t"
  by (auto simp: rstrip_char_def dropWhile_append3 dropWhile_eq_Nil_conv dropWhile_append)

lemma rstrip_char_append_Nil: "rstrip_char c t = [] \<Longrightarrow> rstrip_char c (s @ t) = rstrip_char c s"
  by (auto simp: rstrip_char_def dropWhile_append dropWhile_eq_Nil_conv)

lemma rstrip_char_last: "s \<noteq> [] \<Longrightarrow> last s \<noteq> c \<Longrightarrow> rstrip_char c s = s"
  by (cases s rule: rev_cases) (auto simp: rstrip_char_def)

lemma rstrip_char_split: "\<exists>k. t = rstrip_char c t @ replicate k c"
proof
  have "rev t = takeWhile (\<lambda>x. x = c) (rev t) @ dropWhile (\<lambda>x. x = c) (rev t)" by simp
  moreover have "takeWhile (\<lambda>x. x = c) (rev t) = replicate (length (takeWhile (\<lambda>x. x = c) (rev t))) c"
    by (metis (mono_tags) replicate_length_same set_takeWhileD)
  ultimately show "t = rstrip_char c t @ replicate (length (takeWhile (\<lambda>x. x = c) (rev t))) c"
    unfolding rstrip_char_def by (metis rev_append rev_replicate rev_rev_ident)
qed

lemma rstrip_char_last_ne: "rstrip_char c t \<noteq> [] \<Longrightarrow> last (rstrip_char c t) \<noteq> c"
  unfolding rstrip_char_def by (metis (mono_tags) hd_dropWhile last_rev rev_is_Nil_conv)

lemma canonical_rendered_frac:
  assumes "list_all is_digit a" "a \<noteq> []" "list_all is_digit t"
  shows "canonical_rendered (sg @ a @ ''.'' @ t) =
    sg @ a @ (if rstrip_char CHR ''0'' t = [] then [] else ''.'' @ rstrip_char CHR ''0'' t)"
proof -
  define t' where "t' = rstrip_char CHR ''0'' t"
  have dot: "CHR ''.'' \<in> set (sg @ a @ ''.'' @ t)" by simp
  have last_a: "last (sg @ a) \<noteq> CHR ''.''" using assms last_in_set [of a]
    by (metis last_appendR list_all_iff not_digits(1))
  show ?thesis
  proof (cases "t' = []")
    case True
    then have "rstrip_char CHR ''0'' (sg @ a @ ''.'' @ t) = rstrip_char CHR ''0'' (sg @ a @ ''.'')"
      using rstrip_char_append_Nil [of "CHR ''0''" t "sg @ a @ ''.''"] by (simp add: t'_def)
    also have "\<dots> = sg @ a @ ''.''" by (rule rstrip_char_last) auto
    finally have "canonical_rendered (sg @ a @ ''.'' @ t) = rstrip_char CHR ''.'' ((sg @ a) @ ''.'')"
      using dot by (simp add: canonical_rendered_def)
    also have "\<dots> = rstrip_char CHR ''.'' (sg @ a)"
      by (rule rstrip_char_append_Nil) (simp add: rstrip_char_def)
    also have "\<dots> = sg @ a" using last_a assms by (intro rstrip_char_last) auto
    finally show ?thesis using True by (simp add: t'_def)
  next
    case False
    then have 1: "rstrip_char CHR ''0'' (sg @ a @ ''.'' @ t) = sg @ a @ ''.'' @ t'"
      using rstrip_char_append [of "CHR ''0''" t "sg @ a @ ''.''"] by (simp add: t'_def)
    have "set t' \<subseteq> set t" using rstrip_char_split [of t "CHR ''0''"] unfolding t'_def
      by (metis Un_upper1 set_append)
    then have "last t' \<noteq> CHR ''.''" using False assms(3) last_in_set [of t']
      by (metis list_all_iff not_digits(1) subset_iff)
    then have "rstrip_char CHR ''.'' (sg @ a @ ''.'' @ t') = sg @ a @ ''.'' @ t'"
      using False by (intro rstrip_char_last) auto
    with 1 show ?thesis using dot False by (simp add: canonical_rendered_def t'_def)
  qed
qed

lemma canonical_decimal_neg_exp:
  assumes "e < 0"
  shows "\<exists>c' e'. canonical_decimal (Dec s c e) = Some (Dec s c' e') \<and> dec_canon (Dec s c' e') \<and>
           dec_val (Dec s c' e') = dec_val (Dec s c e)"
proof -
  obtain a t where b: "dec_body c e = a @ ''.'' @ t" "list_all is_digit a" "list_all is_digit t"
    "a \<noteq> []" "int (length t) = - e" "digits_val (a @ t) = c"
    using assms by (rule dec_body_frac)
  define t' where "t' = rstrip_char CHR ''0'' t"
  obtain k where k: "t = t' @ replicate k CHR ''0''" using rstrip_char_split t'_def by blast
  have dig': "list_all is_digit t'" using b(3) k by (simp add: list_all_iff)
  let ?sg = "if s then ''-'' else []"
  have r: "canonical_rendered (dec_format_f (Dec s c e)) = ?sg @ a @ (if t' = [] then [] else ''.'' @ t')"
    using canonical_rendered_frac [OF b(2,4,3), of ?sg] b(1) by (simp add: t'_def)
  have "dec_of_string (?sg @ a @ (if t' = [] then [] else ''.'' @ t')) =
      dec_unsigned s (a @ (if t' = [] then [] else ''.'' @ t'))"
    using b dig' by (intro dec_of_string_plain) (auto simp: list_all_iff hd_append split: if_splits)
  also have "\<dots> = Some (Dec s (digits_val (a @ t')) (- int (length t')))"
    using dec_unsigned_int [OF b(2,4)] dec_unsigned_frac [OF b(2) dig' b(4)] by simp
  finally have cd: "canonical_decimal (Dec s c e) = Some (Dec s (digits_val (a @ t')) (- int (length t')))"
    using b(4) by (simp add: canonical_decimal_def r Let_def del: dec_format_f.simps)
  have len: "- e = int (length t') + int k" using b(5) k by simp
  have c: "c = digits_val (a @ t') * 10 ^ k" using b(6) k digits_val_append_zeros [of "a @ t'" k] by simp
  have val: "dec_val (Dec s (digits_val (a @ t')) (- int (length t'))) = dec_val (Dec s c e)"
  proof -
    have "- int (length t') = e + int k" using len by linarith
    then have "(10 :: rat) powi (- int (length t')) = 10 ^ k * 10 powi e"
      by (simp add: power_int_add)
    then show ?thesis by (simp add: c)
  qed
  have "dec_canon (Dec s (digits_val (a @ t')) (- int (length t')))"
  proof (cases "t' = []")
    case False
    then obtain u d where u: "t' = u @ [d]" by (metis rev_exhaust)
    have "d \<noteq> CHR ''0''" using rstrip_char_last_ne [of "CHR ''0''" t] False u by (simp add: t'_def)
    then have "(of_char d :: nat) \<noteq> of_char CHR ''0''" by (metis of_char_eq_iff)
    then have "0 < (of_char d :: nat) - 48" "(of_char d :: nat) - 48 < 10"
      using dig' u by (auto simp: is_digit_def Let_def)
    moreover define w where "w = (of_char d :: nat) - 48"
    ultimately have "0 < w" "w < 10" by simp_all
    then have "\<not> 10 dvd digits_val (a @ u) * 10 + w" by presburger
    then have "\<not> 10 dvd digits_val (a @ u @ [d])"
      using digits_val_snoc [of "a @ u" d] by (simp add: w_def)
    then show ?thesis using u by (simp add: dec_canon_def)
  qed (simp add: dec_canon_def)
  with cd val show ?thesis by blast
qed

lemma canonical_decimal_spec:
  "\<exists>c' e'. canonical_decimal (Dec s c e) = Some (Dec s c' e') \<and> dec_canon (Dec s c' e') \<and>
           dec_val (Dec s c' e') = dec_val (Dec s c e)"
proof (cases "e < 0")
  case False
  then have "CHR ''.'' \<notin> set (dec_format_f (Dec s c e))"
    by (auto simp: dec_body_def dest: set_str_nat split: if_splits)
  moreover have "dec_format_f (Dec s c e) \<noteq> []" by (simp add: dec_body_def Let_def)
  ultimately have "canonical_decimal (Dec s c e) = Some (dec_norm (Dec s c e))"
    by (simp add: canonical_decimal_def canonical_rendered_def Let_def del: dec_format_f.simps)
  moreover have "dec_norm (Dec s c e) = Dec s (c * 10 ^ nat e) 0"
    using False by (auto simp: dec_norm_def)
  moreover have "dec_val (dec_norm (Dec s c e)) = dec_val (Dec s c e)" by (rule dec_val_norm)
  ultimately show ?thesis by (auto simp: dec_canon_def)
qed (rule canonical_decimal_neg_exp)

lemma dec_canon_unique_le:
  assumes "dec_canon (Dec s c e)" "dec_canon (Dec s' c' e')" "e \<le> e'"
    and "(of_nat c :: rat) * 10 powi e = of_nat c' * 10 powi e'"
  shows "c = c' \<and> e = e'"
proof -
  have "(10 :: rat) powi e' = 10 ^ nat (e' - e) * 10 powi e"
    using assms(3) by (simp flip: power_int_of_nat power_int_add)
  then have "(of_nat c :: rat) = of_nat c' * 10 ^ nat (e' - e)" using assms(4) by simp
  then have c: "c = c' * 10 ^ nat (e' - e)"
    by (metis of_nat_eq_iff of_nat_mult of_nat_numeral of_nat_power)
  have "e = e'"
  proof (rule ccontr)
    assume "e \<noteq> e'"
    then have "e < e'" "e < 0" using assms by (auto simp: dec_canon_def)
    then have "10 dvd c" using c by (simp add: dvd_mult)
    with \<open>e < 0\<close> assms(1) show False by (simp add: dec_canon_def)
  qed
  with c show ?thesis by simp
qed

lemma dec_canon_unique:
  assumes "dec_canon (Dec s c e)" "dec_canon (Dec s' c' e')"
    and "dec_val (Dec s c e) = dec_val (Dec s' c' e')"
  shows "c = c' \<and> e = e' \<and> (c = 0 \<or> s = s')"
proof -
  have "\<bar>dec_val (Dec s c e)\<bar> = \<bar>dec_val (Dec s' c' e')\<bar>" using assms(3) by simp
  then have abs: "(of_nat c :: rat) * 10 powi e = of_nat c' * 10 powi e'"
    by (simp add: abs_mult split: if_splits)
  then have ce: "c = c' \<and> e = e'"
    using dec_canon_unique_le [OF assms(1,2)] dec_canon_unique_le [OF assms(2,1)] by fastforce
  moreover have "c = 0 \<or> s = s'"
  proof (rule ccontr)
    assume "\<not> ?thesis"
    then have "0 < (of_nat c :: rat) * 10 powi e" by simp
    with assms(3) ce \<open>\<not> ?thesis\<close> show False by (cases s; cases s') auto
  qed
  ultimately show ?thesis by blast
qed

lemma decimal_text_spec:
  assumes "is_finite d"
  obtains s c e where "dec_canon (Dec s c e)" "dec_val (Dec s c e) = dec_val d" "\<not> (s \<and> c = 0)"
    "decimal_text d = Some (dec_format_f (Dec s c e))"
proof -
  obtain s c e where d: "d = Dec s c e" using assms by (auto simp: is_finite_iff)
  obtain c' e' where r: "canonical_decimal d = Some (Dec s c' e')" "dec_canon (Dec s c' e')"
    "dec_val (Dec s c' e') = dec_val d"
    using canonical_decimal_spec [of s c e] d by blast
  show ?thesis
  proof (cases "s \<and> c' = 0")
    case True
    then have z: "e' = 0" using r(2) by (auto simp: dec_canon_def)
    show ?thesis
      by (rule that [of False 0 0]) (use True z r in \<open>simp_all add: dec_canon_def decimal_text_def dec_body_def\<close>)
  next
    case False
    have "dec_format_f (Dec s c' e') \<noteq> ''-0''"
    proof
      assume "dec_format_f (Dec s c' e') = ''-0''"
      then have "dec_of_string (dec_format_f (Dec s c' e')) = dec_of_string (dec_format_f (Dec True 0 0))"
        by (simp add: dec_body_def)
      then have "Dec s c' e' = Dec True 0 0"
        using r(2) by (simp add: dec_of_string_format_f dec_canon_def del: dec_format_f.simps)
      with False show False by simp
    qed
    then show ?thesis using that [of s c' e'] False r by (simp add: decimal_text_def del: dec_format_f.simps)
  qed
qed

text \<open>
  The text written for a decimal is canonical: two finite decimals have the same text
  exactly when they are equal as numbers, however many trailing zeros or which exponent they
  carry.
\<close>

theorem decimal_text_canonical:
  assumes "is_finite a" and "is_finite b"
  shows "decimal_text a = decimal_text b \<longleftrightarrow> dec_eq a b"
proof -
  obtain s c e where A: "dec_canon (Dec s c e)" "dec_val (Dec s c e) = dec_val a" "\<not> (s \<and> c = 0)"
    "decimal_text a = Some (dec_format_f (Dec s c e))" using decimal_text_spec [OF assms(1)] .
  obtain s' c' e' where B: "dec_canon (Dec s' c' e')" "dec_val (Dec s' c' e') = dec_val b" "\<not> (s' \<and> c' = 0)"
    "decimal_text b = Some (dec_format_f (Dec s' c' e'))" using decimal_text_spec [OF assms(2)] .
  show ?thesis
  proof
    assume "decimal_text a = decimal_text b"
    then have "dec_of_string (dec_format_f (Dec s c e)) = dec_of_string (dec_format_f (Dec s' c' e'))"
      using A(4) B(4) by simp
    then have "Dec s c e = Dec s' c' e'"
      using A(1) B(1) by (simp add: dec_of_string_format_f dec_canon_def del: dec_format_f.simps)
    then show "dec_eq a b" using A(2) B(2) assms by simp
  next
    assume "dec_eq a b"
    then have "dec_val (Dec s c e) = dec_val (Dec s' c' e')" using A(2) B(2) assms by simp
    then have "c = c' \<and> e = e' \<and> (c = 0 \<or> s = s')" using A(1) B(1) by (rule dec_canon_unique [rotated 2])
    then show "decimal_text a = decimal_text b" using A(3,4) B(3,4) by auto
  qed
qed

theorem decimal_text_canonical_witness:
  "decimal_text (Dec False 150 (-2)) = decimal_text (Dec False 15 (-1)) \<longleftrightarrow>
     dec_eq (Dec False 150 (-2)) (Dec False 15 (-1))"
  by (rule decimal_text_canonical) simp_all

section \<open>What is stored reads back\<close>


text \<open>Concrete evidence for the witnesses of this and later theories.\<close>

definition ex_digest :: digest where
  "ex_digest s = ''sha''"

definition ex_intent :: order_intent where
  "ex_intent =
     \<lparr>oi_intent_id = 1, oi_strategy_id = ''s'', oi_run_id = ''r'', oi_internal_instrument_id = 2,
      oi_environment = DEMO, oi_side = BUY, oi_order_type = MARKET,
      oi_sizing_method = FIXED_NOTIONAL, oi_sizing_value = Dec False 100 0, oi_currency = ''USD'',
      oi_expires_at = 1000000000, oi_intent_hash = ''sha'', oi_target_leverage = dec1,
      oi_limit_price = None, oi_schema_version = ''1.0''\<rparr>"

definition ex_decision :: risk_decision where
  "ex_decision =
     \<lparr>rd_decision_id = 3, rd_intent_hash = ''sha'', rd_account_snapshot_id = ''snap'',
      rd_quote_id = ''q'', rd_quote_observed_at = 100000000, rd_computed_exposures = [],
      rd_checks = [\<lparr>rc_name = ''long_only'', rc_passed = True, rc_observed = ''buy'', rc_limit = ''buy''\<rparr>],
      rd_outcome = ACCEPTED, rd_reasons = [], rd_decided_at = 100000000, rd_schema_version = ''1.0''\<rparr>"

definition ex_approval :: approval where
  "ex_approval =
     \<lparr>ap_approval_id = 4, ap_intent_hash = ''sha'', ap_approver = ''op'', ap_environment = DEMO,
      ap_limits = [(''account_snapshot_id'', ''snap''), (''quote_id'', ''q''),
                   (''risk_decision_id'', uuid_str 3)],
      ap_issued_at = 101000000, ap_expires_at = 200000000, ap_schema_version = ''1.0''\<rparr>"

definition ex_command :: broker_command where
  "ex_command =
     \<lparr>bc_command_id = 5, bc_logical_request_id = 6, bc_intent_hash = ''sha'',
      bc_operation = SUBMIT_ORDER, bc_broker = ''etoro'', bc_environment = DEMO,
      bc_payload_hash = ''ph'', bc_state = PROPOSED, bc_attempt_history = [],
      bc_broker_order_id = None, bc_broker_reference_id = None, bc_broker_position_id = None,
      bc_schema_version = ''1.0''\<rparr>"

definition ex_attempt :: command_attempt where
  "ex_attempt =
     \<lparr>ca_attempt_number = 1, ca_request_id = 6, ca_attempted_at = 103000000,
      ca_outcome = ''send_started''\<rparr>"

lemma not_blank_Cons: "\<not> py_isspace c \<Longrightarrow> \<not> blank (c # s)"
  by (auto simp: blank_def py_strip_def dropWhile_append)

lemma ex_valid:
  "valid_command ex_command" "valid_decision ex_decision" "valid_approval ex_approval"
  "valid_intent ex_digest ex_intent" "valid_attempt ex_attempt"
  by (simp_all add: valid_command_def command_ok_def contiguous_attempts_def ex_command_def
      valid_decision_def decision_ok_def ex_decision_def
      valid_approval_def approval_ok_def ex_approval_def
      valid_intent_def intent_ok_def ex_intent_def compute_hash_def payload_hash_def ex_digest_def
      valid_attempt_def ex_attempt_def not_blank_Cons py_isspace_def py_strip_def py_upper_def)


section \<open>Creating an intent\<close>

text \<open>
  \<open>OrderIntent.create\<close> on arguments that convert returns the intent whose fields are the
  normalised arguments and whose hash covers exactly these fields, whenever the identities
  are not blank, the size and leverage are positive and the limit price fits the order type;
  the hash check of the constructor never rejects it.
\<close>

theorem create_intent_binds_hash:
  assumes "uuid_arg (ri_internal_instrument_id r) ''internal_instrument_id'' = Inr instrument_id"
    and "environment_of (ri_environment r) = Inr env"
    and "order_side_of (ri_side r) = Inr side"
    and "order_type_of (ri_order_type r) = Inr order_type"
    and "sizing_method_of (ri_sizing_method r) = Inr sizing_method"
    and "decimal_value (ri_sizing_value r) ''sizing_value'' = Inr sizing_value"
    and "aware_utc (ri_expires_at r) ''expires_at'' = Inr expires_at"
    and "decimal_value (ri_target_leverage r) ''target_leverage'' = Inr target_leverage"
    and "optR (\<lambda>x. decimal_value x ''limit_price'') (ri_limit_price r) = Inr limit_price"
    and "\<not> blank (ri_strategy_id r)" and "\<not> blank (ri_run_id r)"
    and "\<not> blank (py_upper (py_strip (ri_currency r)))"
    and "0 < dec_val sizing_value" and "0 < dec_val target_leverage"
    and "order_type = LIMIT \<longleftrightarrow> limit_price \<noteq> None"
  shows "\<exists>i. create_intent H fresh None r = Inr i \<and> valid_intent H i \<and>
           oi_intent_id i = fresh \<and> oi_intent_hash i = compute_hash H i \<and>
           oi_internal_instrument_id i = instrument_id \<and> oi_environment i = env \<and> oi_side i = side \<and>
           oi_order_type i = order_type \<and> oi_sizing_method i = sizing_method \<and>
           oi_sizing_value i = sizing_value \<and> oi_expires_at i = expires_at \<and>
           oi_target_leverage i = target_leverage \<and> oi_limit_price i = limit_price \<and>
           oi_currency i = py_upper (py_strip (ri_currency r))"
proof -
  define v where "v = \<lparr>oi_intent_id = fresh, oi_strategy_id = py_strip (ri_strategy_id r),
     oi_run_id = py_strip (ri_run_id r), oi_internal_instrument_id = instrument_id,
     oi_environment = env, oi_side = side, oi_order_type = order_type,
     oi_sizing_method = sizing_method, oi_sizing_value = sizing_value,
     oi_currency = py_upper (py_strip (ri_currency r)), oi_expires_at = expires_at,
     oi_intent_hash = [], oi_target_leverage = target_leverage, oi_limit_price = limit_price,
     oi_schema_version = schema_version\<rparr>"
  define i where "i = v\<lparr>oi_intent_hash := payload_hash H (intent_hash_payload v)\<rparr>"
  have fin: "is_finite sizing_value" "is_finite target_leverage"
    using assms(6,8) decimal_value_finite by blast+
  have lp: "optR (\<lambda>x. decimal_value x ''limit_price'') (map_option RDecimal limit_price) = Inr limit_price"
    using assms(9) by (cases "ri_limit_price r") (auto dest: decimal_value_finite)
  have hash: "oi_intent_hash i = compute_hash H i"
    by (simp add: i_def v_def compute_hash_def intent_hash_payload_def)
  then have ok: "intent_ok H i"
    using assms fin by (simp add: intent_ok_def i_def v_def)
  obtain off where off: "ri_expires_at r = Aware expires_at off" using assms(7) by auto
  have "create_intent H fresh None r = intent_checks H i"
    unfolding create_intent_def using assms(1-6,8,9) off fin lp
    by (simp add: OrderIntent_def uuid_or_def v_def i_def)
  then have "create_intent H fresh None r = Inr i" using ok by simp
  moreover have "\<forall>p. limit_price = Some p \<longrightarrow> is_finite p"
    using assms(9) by (cases "ri_limit_price r") (auto dest: decimal_value_finite)
  ultimately show ?thesis
    using hash ok fin by (intro exI [of _ i]) (simp add: valid_intent_def i_def v_def)
qed

definition ex_raw_intent :: raw_intent where
  "ex_raw_intent =
     \<lparr>ri_intent_id = RUuid 0, ri_strategy_id = ''s'', ri_run_id = ''r'',
      ri_internal_instrument_id = RUuid 2, ri_environment = ''demo'', ri_side = ''buy'',
      ri_order_type = ''market'', ri_sizing_method = ''fixed_notional'',
      ri_sizing_value = RDecimal (Dec False 100 0), ri_currency = ''usd'',
      ri_expires_at = utc 1000000000, ri_intent_hash = [], ri_target_leverage = RDecimal dec1,
      ri_limit_price = None, ri_schema_version = []\<rparr>"

theorem create_intent_binds_hash_witness:
  "\<exists>i. create_intent ex_digest 1 None ex_raw_intent = Inr i \<and> valid_intent ex_digest i \<and>
       oi_intent_id i = 1 \<and> oi_intent_hash i = compute_hash ex_digest i \<and>
       oi_internal_instrument_id i = 2 \<and> oi_environment i = DEMO \<and> oi_side i = BUY \<and>
       oi_order_type i = MARKET \<and> oi_sizing_method i = FIXED_NOTIONAL \<and>
       oi_sizing_value i = Dec False 100 0 \<and> oi_expires_at i = 1000000000 \<and>
       oi_target_leverage i = dec1 \<and> oi_limit_price i = None \<and>
       oi_currency i = py_upper (py_strip (ri_currency ex_raw_intent))"
  by (rule create_intent_binds_hash)
    (simp_all add: ex_raw_intent_def environment_of_def order_side_of_def order_type_of_def
      sizing_method_of_def enum_of_def not_blank_Cons py_isspace_def py_strip_def py_upper_def)

end
