(* ===== verification/Instruments.thy ===== *)
theory Instruments
  imports Evidence
begin

text \<open>
  \<open>src/execution/instruments.py\<close>: the instrument and broker-mapping dataclasses with their
  normalising constructors. The registry facade, which reads and writes the store, is in
  theory \<open>Store\<close>.
\<close>

section \<open>Definitions\<close>

record instrument =
  in_internal_instrument_id :: uuid
  in_canonical_symbol :: string
  in_exchange :: string
  in_asset_type :: string
  in_currency :: string
  in_sector :: string

definition sector_text :: "string \<Rightarrow> string" where
  "sector_text s = (let t = py_lower (py_strip s) in if t = [] then ''unknown'' else t)"

definition instrument_checks :: "instrument \<Rightarrow> instrument result" where
  "instrument_checks i =
     raiseIf (in_canonical_symbol i = []) (DomainValidationError ''canonical_symbol must not be blank'') (
     raiseIf (in_exchange i = []) (DomainValidationError ''exchange must not be blank'') (
     raiseIf (in_asset_type i = []) (DomainValidationError ''asset_type must not be blank'') (
     raiseIf (in_currency i = []) (DomainValidationError ''currency must not be blank'') (
     Inr i))))"

definition Instrument ::
  "raw_uuid \<Rightarrow> string \<Rightarrow> string \<Rightarrow> string \<Rightarrow> string \<Rightarrow> string \<Rightarrow> instrument result" where
  "Instrument internal_id symbol exchange asset_type currency sector =
     bindR (uuid_arg internal_id ''internal_instrument_id'') (\<lambda>u.
     instrument_checks
       \<lparr>in_internal_instrument_id = u, in_canonical_symbol = py_upper (py_strip symbol),
        in_exchange = py_upper (py_strip exchange), in_asset_type = py_lower (py_strip asset_type),
        in_currency = py_upper (py_strip currency), in_sector = sector_text sector\<rparr>)"

definition create_instrument ::
  "uuid \<Rightarrow> raw_uuid option \<Rightarrow> string \<Rightarrow> string \<Rightarrow> string \<Rightarrow> string \<Rightarrow> string \<Rightarrow> instrument result" where
  "create_instrument fresh internal_id symbol exchange asset_type currency sector =
     bindR (uuid_arg (uuid_or internal_id fresh) ''internal_instrument_id'') (\<lambda>u.
     Instrument (RUuid u) symbol exchange asset_type currency sector)"

record broker_mapping =
  bm_internal_instrument_id :: uuid
  bm_broker :: string
  bm_environment :: environment
  bm_broker_instrument_id :: int
  bm_exact_match_symbol :: string
  bm_resolved_at :: instant
  bm_metadata_checksum :: string

definition mapping_checks :: "broker_mapping \<Rightarrow> broker_mapping result" where
  "mapping_checks m =
     raiseIf (bm_broker_instrument_id m \<le> 0) (DomainValidationError ''broker_instrument_id must be positive'') (
     raiseIf (bm_broker m = [] \<or> bm_exact_match_symbol m = [])
       (DomainValidationError ''broker mapping identity must not be blank'') (
     raiseIf (length (bm_metadata_checksum m) \<noteq> 64)
       (DomainValidationError ''metadata_checksum must be a sha256 hex digest'') (
     raiseIf (py_int16 (bm_metadata_checksum m) = None)
       (DomainValidationError ''metadata_checksum must be a sha256 hex digest'') (
     Inr m))))"

definition BrokerInstrumentMapping ::
  "raw_uuid \<Rightarrow> string \<Rightarrow> string \<Rightarrow> int \<Rightarrow> string \<Rightarrow> pydatetime \<Rightarrow> string \<Rightarrow> broker_mapping result" where
  "BrokerInstrumentMapping internal_id broker env broker_instrument_id symbol resolved_at checksum =
     bindR (uuid_arg internal_id ''internal_instrument_id'') (\<lambda>u.
     bindR (environment_of env) (\<lambda>e.
     bindR (aware_utc resolved_at ''resolved_at'') (\<lambda>t.
     mapping_checks
       \<lparr>bm_internal_instrument_id = u, bm_broker = py_lower (py_strip broker), bm_environment = e,
        bm_broker_instrument_id = broker_instrument_id,
        bm_exact_match_symbol = py_upper (py_strip symbol), bm_resolved_at = t,
        bm_metadata_checksum = checksum\<rparr>)))"

text \<open>\<open>from_resolution\<close>; the wall clock stands in for a missing \<open>resolved_at\<close>.\<close>

definition from_resolution ::
  "digest \<Rightarrow> instant \<Rightarrow> instrument \<Rightarrow> string \<Rightarrow> string \<Rightarrow> int \<Rightarrow> string \<Rightarrow> json \<Rightarrow> pydatetime option \<Rightarrow>
   broker_mapping result" where
  "from_resolution H wall i broker env broker_instrument_id exact_match_symbol metadata resolved_at =
     (let exact_symbol = py_upper (py_strip exact_match_symbol) in
      raiseIf (exact_symbol \<noteq> in_canonical_symbol i)
        (InstrumentMappingError ''broker symbol is not an exact match for the canonical symbol'') (
      bindR (environment_of env) (\<lambda>e.
      BrokerInstrumentMapping (RUuid (in_internal_instrument_id i)) broker (environment_str e)
        broker_instrument_id exact_symbol (case resolved_at of None \<Rightarrow> utc wall | Some t \<Rightarrow> t)
        (payload_hash H metadata))))"

text \<open>What the constructors guarantee.\<close>

definition valid_instrument :: "instrument \<Rightarrow> bool" where
  "valid_instrument i \<longleftrightarrow>
     Instrument (RUuid (in_internal_instrument_id i)) (in_canonical_symbol i) (in_exchange i)
       (in_asset_type i) (in_currency i) (in_sector i) = Inr i"

definition valid_mapping :: "broker_mapping \<Rightarrow> bool" where
  "valid_mapping m \<longleftrightarrow>
     BrokerInstrumentMapping (RUuid (bm_internal_instrument_id m)) (bm_broker m)
       (environment_str (bm_environment m)) (bm_broker_instrument_id m) (bm_exact_match_symbol m)
       (utc (bm_resolved_at m)) (bm_metadata_checksum m) = Inr m"

section \<open>The constructors normalise\<close>

lemma lower_char_props:
  fixes c :: char
  defines "u \<equiv> (let n = (of_char c :: nat) in if 65 \<le> n \<and> n \<le> 90 then char_of (n + 32) else c)"
  shows "py_isspace u = py_isspace c"
    and "(let n = (of_char u :: nat) in if 65 \<le> n \<and> n \<le> 90 then char_of (n + 32) else u) = u"
  unfolding u_def Let_def by (auto simp: py_isspace_def Let_def)

lemma py_lower_lower [simp]: "py_lower (py_lower s) = py_lower s"
  unfolding py_lower_def map_map comp_def using lower_char_props(2) by (intro map_cong) auto

lemma py_strip_lower [simp]: "py_strip (py_lower s) = py_lower (py_strip s)"
  unfolding py_lower_def using lower_char_props(1) by (rule py_strip_map)

lemma sector_unknown: "py_lower (py_strip ''unknown'') = ''unknown''"
  by (simp add: py_strip_def py_isspace_def py_lower_def)

lemma sector_text_idem [simp]: "sector_text (sector_text s) = sector_text s"
  using sector_unknown by (auto simp: sector_text_def Let_def)

definition instrument_ok :: "instrument \<Rightarrow> bool" where
  "instrument_ok i \<longleftrightarrow> in_canonical_symbol i \<noteq> [] \<and> in_exchange i \<noteq> [] \<and> in_asset_type i \<noteq> [] \<and>
     in_currency i \<noteq> []"

lemma instrument_checks_Inr [simp]: "instrument_checks i = Inr j \<longleftrightarrow> instrument_ok i \<and> j = i"
  by (auto simp: instrument_checks_def instrument_ok_def)

lemma Instrument_valid: "Instrument u sy ex ty cu se = Inr i \<Longrightarrow> valid_instrument i"
  unfolding valid_instrument_def by (auto simp: Instrument_def instrument_ok_def)

definition mapping_ok :: "broker_mapping \<Rightarrow> bool" where
  "mapping_ok m \<longleftrightarrow> 0 < bm_broker_instrument_id m \<and> bm_broker m \<noteq> [] \<and> bm_exact_match_symbol m \<noteq> [] \<and>
     length (bm_metadata_checksum m) = 64 \<and> py_int16 (bm_metadata_checksum m) \<noteq> None"

lemma mapping_checks_Inr [simp]: "mapping_checks m = Inr n \<longleftrightarrow> mapping_ok m \<and> n = m"
  by (auto simp: mapping_checks_def mapping_ok_def)

lemma BrokerInstrumentMapping_valid:
  "BrokerInstrumentMapping u br en bid sy rt ck = Inr m \<Longrightarrow> valid_mapping m"
  unfolding valid_mapping_def by (auto simp: BrokerInstrumentMapping_def mapping_ok_def)

lemma from_resolution_exact:
  assumes "from_resolution H wall i br en bid sy md rt = Inr m"
  shows "bm_internal_instrument_id m = in_internal_instrument_id i"
    and "bm_exact_match_symbol m = in_canonical_symbol i" and "valid_mapping m"
proof -
  have sy: "in_canonical_symbol i = py_upper (py_strip sy)"
    using assms by (simp add: from_resolution_def Let_def)
  obtain e t where m: "BrokerInstrumentMapping (RUuid (in_internal_instrument_id i)) br (environment_str e)
      bid (py_upper (py_strip sy)) t (payload_hash H md) = Inr m"
    using assms by (auto simp: from_resolution_def Let_def)
  then show "valid_mapping m" by (rule BrokerInstrumentMapping_valid)
  show "bm_internal_instrument_id m = in_internal_instrument_id i"
    "bm_exact_match_symbol m = in_canonical_symbol i"
    using m sy by (auto simp: BrokerInstrumentMapping_def)
qed

text \<open>A concrete instrument for the worked examples of later theories.\<close>

definition ex_instrument :: "uuid \<Rightarrow> string \<Rightarrow> instrument" where
  "ex_instrument u sector = \<lparr>in_internal_instrument_id = u, in_canonical_symbol = ''AAPL'', in_exchange = ''NASDAQ'',
     in_asset_type = ''equity'', in_currency = ''USD'', in_sector = sector\<rparr>"

lemma ex_instrument_valid: "valid_instrument (ex_instrument u ''tech'')" "valid_instrument (ex_instrument u ''energy'')"
  by (simp_all add: valid_instrument_def Instrument_def ex_instrument_def instrument_ok_def py_strip_def py_upper_def
      py_lower_def py_isspace_def sector_text_def)

end
