(* ===== verification/Store.thy ===== *)
theory Store
  imports Instruments
begin

text \<open>
  \<open>src/execution/store.py\<close> and the registry facade of \<open>src/execution/instruments.py\<close>. The
  SQLite file is a record of tables; a table is the list of its rows in insertion order.
  Uniqueness and foreign-key constraints of the schema are checked by the inserts and
  updates that can violate them. A mutating operation returns the result and the database
  after it: \<open>transaction\<close> leaves the database as it was when the body raises. Timestamps are
  instants; the wall clock that \<open>_now_iso\<close> reads is the argument \<open>wall\<close>, read once per
  operation. File permissions and SQLite pragmas are not modelled.
\<close>

section \<open>Tables\<close>

record instrument_row =
  ir_internal_instrument_id :: string
  ir_canonical_symbol :: string
  ir_exchange :: string
  ir_asset_type :: string
  ir_currency :: string
  ir_sector :: string

record symbol_history_row =
  sh_internal_instrument_id :: string
  sh_symbol :: string
  sh_effective_at :: instant

record mapping_row =
  mr_internal_instrument_id :: string
  mr_broker :: string
  mr_environment :: string
  mr_broker_instrument_id :: int
  mr_exact_match_symbol :: string
  mr_resolved_at :: instant
  mr_metadata_checksum :: string

record intent_row =
  ti_intent_id :: string
  ti_intent_hash :: string
  ti_run_id :: string
  ti_payload_json :: json
  ti_persisted_at :: instant

record risk_row =
  tr_decision_id :: string
  tr_intent_hash :: string
  tr_payload_json :: json
  tr_persisted_at :: instant

record approval_row =
  ta_approval_id :: string
  ta_intent_hash :: string
  ta_payload_json :: json
  ta_persisted_at :: instant
  ta_consumed_at :: "instant option"

record command_row =
  tc_command_id :: string
  tc_logical_request_id :: string
  tc_intent_hash :: string
  tc_state :: string
  tc_revision :: nat
  tc_payload_json :: json
  tc_persisted_at :: instant
  tc_updated_at :: instant

record event_row =
  te_command_id :: string
  te_revision :: nat
  te_previous_state :: "string option"
  te_new_state :: string
  te_event_time :: instant
  te_details :: "(string \<times> string) list"

record authorization_row =
  tz_command_id :: string
  tz_risk_decision_id :: string
  tz_approval_id :: "string option"
  tz_authorized_at :: "instant option"
  tz_valid_until :: "instant option"
  tz_submission_claimed_at :: "instant option"

record store =
  instruments :: "instrument_row list"
  instrument_symbol_history :: "symbol_history_row list"
  broker_instrument_mappings :: "mapping_row list"
  order_intents :: "intent_row list"
  risk_decisions :: "risk_row list"
  approvals :: "approval_row list"
  broker_commands :: "command_row list"
  command_events :: "event_row list"
  command_authorizations :: "authorization_row list"

definition empty_store :: store where
  "empty_store = \<lparr>instruments = [], instrument_symbol_history = [], broker_instrument_mappings = [],
     order_intents = [], risk_decisions = [], approvals = [], broker_commands = [],
     command_events = [], command_authorizations = []\<rparr>"

type_synonym 'a store_op = "store \<Rightarrow> 'a result \<times> store"

text \<open>A foreign-key or uniqueness violation.\<close>

abbreviation integrity :: "string \<Rightarrow> error" where
  "integrity what \<equiv> IntegrityError what"

section \<open>Instruments\<close>

definition instrument_from_row :: "instrument_row \<Rightarrow> instrument result" where
  "instrument_from_row r = Instrument (RUuidText (ir_internal_instrument_id r)) (ir_canonical_symbol r)
     (ir_exchange r) (ir_asset_type r) (ir_currency r) (ir_sector r)"

definition instrument_row_of :: "instrument \<Rightarrow> instrument_row" where
  "instrument_row_of i = \<lparr>ir_internal_instrument_id = uuid_str (in_internal_instrument_id i),
     ir_canonical_symbol = in_canonical_symbol i, ir_exchange = in_exchange i,
     ir_asset_type = in_asset_type i, ir_currency = in_currency i, ir_sector = in_sector i\<rparr>"

definition insert_history :: "symbol_history_row \<Rightarrow> store \<Rightarrow> store result" where
  "insert_history h s =
     raiseIf (h \<in> set (instrument_symbol_history s)
              \<or> key_free ir_internal_instrument_id (sh_internal_instrument_id h) (instruments s))
       (integrity ''instrument_symbol_history'') (
     Inr (s\<lparr>instrument_symbol_history := instrument_symbol_history s @ [h]\<rparr>))"

definition register_instrument :: "instant \<Rightarrow> instrument \<Rightarrow> instrument store_op" where
  "register_instrument wall i = transaction (\<lambda>s.
     case find_row (\<lambda>r. ir_internal_instrument_id r = uuid_str (in_internal_instrument_id i)) (instruments s) of
       Some existing \<Rightarrow>
         bindR (instrument_from_row existing) (\<lambda>stored.
         raiseIf (stored \<noteq> i) (InstrumentCollisionError
           ''internal instrument UUID is immutable and already has another identity'') (
         Inr (stored, s)))
     | None \<Rightarrow>
         if \<not> key_free (\<lambda>r. (ir_canonical_symbol r, ir_exchange r))
               (in_canonical_symbol i, in_exchange i) (instruments s)
         then Inl (InstrumentCollisionError
           ''canonical symbol and exchange already identify another instrument'')
         else
           (case insert_history
              \<lparr>sh_internal_instrument_id = uuid_str (in_internal_instrument_id i),
               sh_symbol = in_canonical_symbol i, sh_effective_at = wall\<rparr>
              (s\<lparr>instruments := instruments s @ [instrument_row_of i]\<rparr>) of
              Inl e \<Rightarrow> Inl (InstrumentCollisionError
                ''canonical symbol and exchange already identify another instrument'')
            | Inr s' \<Rightarrow> Inr (i, s')))"

definition get_instrument :: "string \<Rightarrow> store \<Rightarrow> instrument option result" where
  "get_instrument key s =
     optR instrument_from_row (find_row (\<lambda>r. ir_internal_instrument_id r = key) (instruments s))"

definition find_instrument :: "string \<Rightarrow> string \<Rightarrow> store \<Rightarrow> instrument option result" where
  "find_instrument symbol exchange s =
     optR instrument_from_row
       (find_row (\<lambda>r. ir_canonical_symbol r = py_upper (py_strip symbol)
                    \<and> ir_exchange r = py_upper (py_strip exchange)) (instruments s))"

definition find_instruments_by_symbol :: "string \<Rightarrow> store \<Rightarrow> instrument list result" where
  "find_instruments_by_symbol symbol s =
     mapR instrument_from_row
       (sort_key ir_exchange (filter (\<lambda>r. ir_canonical_symbol r = py_upper (py_strip symbol)) (instruments s)))"

definition rename_instrument_symbol ::
  "string \<Rightarrow> string \<Rightarrow> pydatetime \<Rightarrow> instrument store_op" where
  "rename_instrument_symbol key new_symbol effective_at s =
     (case get_instrument key s of
        Inl e \<Rightarrow> (Inl e, s)
      | Inr None \<Rightarrow> (Inl (InstrumentNotFoundError key), s)
      | Inr (Some i) \<Rightarrow>
          (let normalised = py_upper (py_strip new_symbol);
               id_text = uuid_str (in_internal_instrument_id i);
               collision = InstrumentCollisionError ''ticker change collides with an existing canonical identity''
           in if normalised = [] then (Inl (DomainValidationError ''new_symbol must not be blank''), s)
              else
                (case transaction (\<lambda>s.
                   let renamed = update_rows (\<lambda>r. ir_internal_instrument_id r = id_text)
                                   (\<lambda>r. r\<lparr>ir_canonical_symbol := normalised\<rparr>) (instruments s)
                   in if \<not> unique_by (\<lambda>r. (ir_canonical_symbol r, ir_exchange r)) renamed then Inl collision
                      else bindR (aware_utc effective_at ''effective_at'') (\<lambda>t.
                        case insert_history
                               \<lparr>sh_internal_instrument_id = id_text, sh_symbol = normalised, sh_effective_at = t\<rparr>
                               (s\<lparr>instruments := renamed\<rparr>) of
                          Inl e \<Rightarrow> Inl collision
                        | Inr s' \<Rightarrow> Inr ((), s'))) s of
                   (Inl e, s') \<Rightarrow> (Inl e, s')
                 | (Inr _, s') \<Rightarrow>
                     (Instrument (RUuid (in_internal_instrument_id i)) normalised (in_exchange i)
                        (in_asset_type i) (in_currency i) (in_sector i), s'))))"

section \<open>Broker mappings\<close>

definition mapping_from_row :: "mapping_row \<Rightarrow> broker_mapping result" where
  "mapping_from_row r = BrokerInstrumentMapping (RUuidText (mr_internal_instrument_id r)) (mr_broker r)
     (mr_environment r) (mr_broker_instrument_id r) (mr_exact_match_symbol r)
     (utc (mr_resolved_at r)) (mr_metadata_checksum r)"

definition mapping_row_of :: "broker_mapping \<Rightarrow> mapping_row" where
  "mapping_row_of m = \<lparr>mr_internal_instrument_id = uuid_str (bm_internal_instrument_id m),
     mr_broker = bm_broker m, mr_environment = environment_str (bm_environment m),
     mr_broker_instrument_id = bm_broker_instrument_id m,
     mr_exact_match_symbol = bm_exact_match_symbol m, mr_resolved_at = bm_resolved_at m,
     mr_metadata_checksum = bm_metadata_checksum m\<rparr>"

definition mapping_key :: "mapping_row \<Rightarrow> string \<times> string \<times> string" where
  "mapping_key r = (mr_internal_instrument_id r, mr_broker r, mr_environment r)"

definition save_broker_mapping :: "broker_mapping \<Rightarrow> unit store_op" where
  "save_broker_mapping m s =
     (case get_instrument (uuid_str (bm_internal_instrument_id m)) s of
        Inl e \<Rightarrow> (Inl e, s)
      | Inr None \<Rightarrow> (Inl (InstrumentNotFoundError (uuid_str (bm_internal_instrument_id m))), s)
      | Inr (Some _) \<Rightarrow> transaction (\<lambda>s.
          case find_row (\<lambda>r. mapping_key r = mapping_key (mapping_row_of m)) (broker_instrument_mappings s) of
            Some existing \<Rightarrow>
              bindR (mapping_from_row existing) (\<lambda>stored.
              raiseIf (stored \<noteq> m) (InstrumentCollisionError ''broker mapping is immutable once persisted'') (
              Inr ((), s)))
          | None \<Rightarrow>
              raiseIf (\<not> key_free (\<lambda>r. (mr_broker r, mr_environment r, mr_broker_instrument_id r))
                 (bm_broker m, environment_str (bm_environment m), bm_broker_instrument_id m)
                 (broker_instrument_mappings s))
                (InstrumentCollisionError ''broker instrument ID already maps to another internal instrument'') (
              Inr ((), s\<lparr>broker_instrument_mappings := broker_instrument_mappings s @ [mapping_row_of m]\<rparr>))) s)"

definition get_broker_mapping ::
  "string \<Rightarrow> string \<Rightarrow> environment \<Rightarrow> store \<Rightarrow> broker_mapping option result" where
  "get_broker_mapping key broker env s =
     optR mapping_from_row
       (find_row (\<lambda>r. mapping_key r = (key, py_lower (py_strip broker), environment_str env))
         (broker_instrument_mappings s))"

section \<open>The registry facade\<close>

definition registry_get :: "string \<Rightarrow> store \<Rightarrow> instrument result" where
  "registry_get key s =
     bindR (get_instrument key s) (\<lambda>i. of_option (InstrumentNotFoundError key) i)"

definition resolve_canonical :: "string \<Rightarrow> string \<Rightarrow> store \<Rightarrow> instrument result" where
  "resolve_canonical symbol exchange s =
     bindR (find_instrument symbol exchange s)
       (\<lambda>i. of_option (InstrumentNotFoundError (symbol @ ''@'' @ exchange)) i)"

definition resolve_symbol_only :: "string \<Rightarrow> store \<Rightarrow> instrument result" where
  "resolve_symbol_only symbol s =
     bindR (find_instruments_by_symbol symbol s) (\<lambda>matches.
     raiseIf (matches = []) (InstrumentNotFoundError symbol) (
     case matches of
       [i] \<Rightarrow> Inr i
     | _ \<Rightarrow> Inl (AmbiguousInstrumentError (''symbol-only lookup is ambiguous for '' @ py_upper symbol))))"

definition record_mapping :: "broker_mapping \<Rightarrow> unit store_op" where
  "record_mapping m s =
     (case registry_get (uuid_str (bm_internal_instrument_id m)) s of
        Inl e \<Rightarrow> (Inl e, s)
      | Inr i \<Rightarrow>
          if bm_exact_match_symbol m \<noteq> in_canonical_symbol i
          then (Inl (InstrumentMappingError ''broker mapping does not match the current canonical symbol''), s)
          else save_broker_mapping m s)"

definition registry_broker_mapping ::
  "string \<Rightarrow> string \<Rightarrow> environment \<Rightarrow> store \<Rightarrow> broker_mapping result" where
  "registry_broker_mapping key broker env s =
     bindR (get_broker_mapping key broker env s) (\<lambda>m.
     of_option (InstrumentNotFoundError
       (''no '' @ broker @ ''/'' @ environment_str env @ '' mapping for '' @ key)) m)"

section \<open>Intents\<close>

definition intent_row_of :: "instant \<Rightarrow> order_intent \<Rightarrow> intent_row" where
  "intent_row_of wall i = \<lparr>ti_intent_id = uuid_str (oi_intent_id i), ti_intent_hash = oi_intent_hash i,
     ti_run_id = oi_run_id i, ti_payload_json = intent_json i, ti_persisted_at = wall\<rparr>"

fun insert_intents :: "instant \<Rightarrow> order_intent list \<Rightarrow> store \<Rightarrow> store result" where
  "insert_intents wall [] s = Inr s"
| "insert_intents wall (i # is) s =
     (if key_free ti_intent_id (uuid_str (oi_intent_id i)) (order_intents s)
         \<and> key_free ti_intent_hash (oi_intent_hash i) (order_intents s)
      then insert_intents wall is (s\<lparr>order_intents := order_intents s @ [intent_row_of wall i]\<rparr>)
      else Inl (DuplicateIntentError (oi_intent_hash i)))"

definition save_intents :: "instant \<Rightarrow> order_intent list \<Rightarrow> unit store_op" where
  "save_intents wall is s =
     (if \<not> distinct (map oi_intent_hash is) then (Inl (DuplicateIntentError ''duplicate intent in batch''), s)
      else transaction (\<lambda>s. bindR (insert_intents wall is s) (\<lambda>s'. Inr ((), s'))) s)"

definition save_intent :: "instant \<Rightarrow> order_intent \<Rightarrow> unit store_op" where
  "save_intent wall i = save_intents wall [i]"

definition get_intent :: "digest \<Rightarrow> string \<Rightarrow> store \<Rightarrow> order_intent option result" where
  "get_intent H h s =
     optR (\<lambda>r. intent_from_json H (ti_payload_json r)) (find_row (\<lambda>r. ti_intent_hash r = h) (order_intents s))"

section \<open>Risk decisions\<close>

definition risk_row_of :: "instant \<Rightarrow> risk_decision \<Rightarrow> risk_row" where
  "risk_row_of wall d = \<lparr>tr_decision_id = uuid_str (rd_decision_id d), tr_intent_hash = rd_intent_hash d,
     tr_payload_json = decision_json d, tr_persisted_at = wall\<rparr>"

definition insert_risk :: "instant \<Rightarrow> risk_decision \<Rightarrow> store \<Rightarrow> store result" where
  "insert_risk wall d s =
     raiseIf (\<not> key_free tr_decision_id (uuid_str (rd_decision_id d)) (risk_decisions s)
              \<or> key_free ti_intent_hash (rd_intent_hash d) (order_intents s))
       (integrity ''risk_decisions'') (
     Inr (s\<lparr>risk_decisions := risk_decisions s @ [risk_row_of wall d]\<rparr>))"

definition save_risk_decision :: "digest \<Rightarrow> instant \<Rightarrow> risk_decision \<Rightarrow> unit store_op" where
  "save_risk_decision H wall d s =
     (case get_intent H (rd_intent_hash d) s of
        Inl e \<Rightarrow> (Inl e, s)
      | Inr None \<Rightarrow> (Inl (ExecutionStoreError ''risk decision references an unknown intent''), s)
      | Inr (Some _) \<Rightarrow> transaction (\<lambda>s. bindR (insert_risk wall d s) (\<lambda>s'. Inr ((), s'))) s)"

definition latest_risk_decision :: "string \<Rightarrow> store \<Rightarrow> risk_decision option result" where
  "latest_risk_decision h s =
     optR (\<lambda>r. risk_from_json (tr_payload_json r)) (find_row (\<lambda>r. tr_intent_hash r = h) (rev (risk_decisions s)))"

definition get_risk_decision :: "string \<Rightarrow> store \<Rightarrow> risk_decision option result" where
  "get_risk_decision key s =
     optR (\<lambda>r. risk_from_json (tr_payload_json r)) (find_row (\<lambda>r. tr_decision_id r = key) (risk_decisions s))"

definition get_command_risk_decision :: "string \<Rightarrow> store \<Rightarrow> risk_decision option result" where
  "get_command_risk_decision command_id s =
     (case find_row (\<lambda>z. tz_command_id z = command_id) (command_authorizations s) of
        None \<Rightarrow> Inr None
      | Some z \<Rightarrow> get_risk_decision (tz_risk_decision_id z) s)"

section \<open>Approvals\<close>

definition approval_row_of :: "instant \<Rightarrow> approval \<Rightarrow> approval_row" where
  "approval_row_of wall a = \<lparr>ta_approval_id = uuid_str (ap_approval_id a), ta_intent_hash = ap_intent_hash a,
     ta_payload_json = approval_json a, ta_persisted_at = wall, ta_consumed_at = None\<rparr>"

definition insert_approval :: "instant \<Rightarrow> approval \<Rightarrow> store \<Rightarrow> store result" where
  "insert_approval wall a s =
     raiseIf (\<not> key_free ta_approval_id (uuid_str (ap_approval_id a)) (approvals s)
              \<or> key_free ti_intent_hash (ap_intent_hash a) (order_intents s))
       (integrity ''approvals'') (
     Inr (s\<lparr>approvals := approvals s @ [approval_row_of wall a]\<rparr>))"

definition get_approval :: "string \<Rightarrow> store \<Rightarrow> approval option result" where
  "get_approval key s =
     optR (\<lambda>r. approval_from_json (ta_payload_json r)) (find_row (\<lambda>r. ta_approval_id r = key) (approvals s))"

definition get_command_approval :: "string \<Rightarrow> store \<Rightarrow> approval option result" where
  "get_command_approval command_id s =
     (case find_row (\<lambda>z. tz_command_id z = command_id) (command_authorizations s) of
        None \<Rightarrow> Inr None
      | Some z \<Rightarrow> (case tz_approval_id z of None \<Rightarrow> Inr None | Some a \<Rightarrow> get_approval a s))"

definition save_approval :: "digest \<Rightarrow> instant \<Rightarrow> approval \<Rightarrow> unit store_op" where
  "save_approval H wall a s =
     (case get_intent H (ap_intent_hash a) s of
        Inl e \<Rightarrow> (Inl e, s)
      | Inr None \<Rightarrow> (Inl (ExecutionStoreError ''approval references an unknown intent''), s)
      | Inr (Some _) \<Rightarrow> transaction (\<lambda>s. bindR (insert_approval wall a s) (\<lambda>s'. Inr ((), s'))) s)"

text \<open>\<open>UPDATE approvals SET consumed_at WHERE approval_id AND consumed_at IS NULL\<close>\<close>

definition mark_consumed :: "string \<Rightarrow> instant \<Rightarrow> store \<Rightarrow> store result" where
  "mark_consumed key t s =
     (let open_row = (\<lambda>r. ta_approval_id r = key \<and> ta_consumed_at r = None) in
      raiseIf (length (filter open_row (approvals s)) \<noteq> 1) (ApprovalReplayError key) (
      Inr (s\<lparr>approvals := update_rows open_row (\<lambda>r. r\<lparr>ta_consumed_at := Some t\<rparr>) (approvals s)\<rparr>)))"

definition consume_approval :: "string \<Rightarrow> pydatetime \<Rightarrow> unit store_op" where
  "consume_approval key consumed_at = transaction (\<lambda>s.
     bindR (aware_utc consumed_at ''consumed_at'') (\<lambda>t.
     bindR (mark_consumed key t s) (\<lambda>s'. Inr ((), s'))))"

section \<open>Commands\<close>

definition insert_event :: "event_row \<Rightarrow> store \<Rightarrow> store result" where
  "insert_event e s =
     raiseIf (\<not> key_free (\<lambda>r. (te_command_id r, te_revision r)) (te_command_id e, te_revision e) (command_events s)
              \<or> key_free tc_command_id (te_command_id e) (broker_commands s))
       (integrity ''command_events'') (
     Inr (s\<lparr>command_events := command_events s @ [e]\<rparr>))"

definition command_row_of :: "instant \<Rightarrow> broker_command \<Rightarrow> command_row" where
  "command_row_of wall c = \<lparr>tc_command_id = uuid_str (bc_command_id c),
     tc_logical_request_id = uuid_str (bc_logical_request_id c), tc_intent_hash = bc_intent_hash c,
     tc_state = command_state_str (bc_state c), tc_revision = 0, tc_payload_json = command_json c,
     tc_persisted_at = wall, tc_updated_at = wall\<rparr>"

definition insert_command :: "instant \<Rightarrow> broker_command \<Rightarrow> store \<Rightarrow> store result" where
  "insert_command wall c s =
     (if key_free tc_command_id (uuid_str (bc_command_id c)) (broker_commands s)
         \<and> key_free tc_logical_request_id (uuid_str (bc_logical_request_id c)) (broker_commands s)
         \<and> \<not> key_free ti_intent_hash (bc_intent_hash c) (order_intents s)
      then
        (case insert_event
           \<lparr>te_command_id = uuid_str (bc_command_id c), te_revision = 0, te_previous_state = None,
            te_new_state = command_state_str (bc_state c), te_event_time = wall, te_details = []\<rparr>
           (s\<lparr>broker_commands := broker_commands s @ [command_row_of wall c]\<rparr>) of
           Inl e \<Rightarrow> Inl (DuplicateLogicalRequestError (uuid_str (bc_logical_request_id c)))
         | Inr s' \<Rightarrow> Inr s')
      else Inl (DuplicateLogicalRequestError (uuid_str (bc_logical_request_id c))))"

definition save_command :: "digest \<Rightarrow> instant \<Rightarrow> broker_command \<Rightarrow> unit store_op" where
  "save_command H wall c s =
     (case get_intent H (bc_intent_hash c) s of
        Inl e \<Rightarrow> (Inl e, s)
      | Inr None \<Rightarrow> (Inl (ExecutionStoreError ''command references an unknown intent''), s)
      | Inr (Some _) \<Rightarrow> transaction (\<lambda>s. bindR (insert_command wall c s) (\<lambda>s'. Inr ((), s'))) s)"

definition command_in_transaction ::
  "string \<Rightarrow> broker_command option \<Rightarrow> store \<Rightarrow> (command_row \<times> broker_command) result" where
  "command_in_transaction command_id expected s =
     bindR (of_option (ExecutionStoreError (''unknown command: '' @ command_id))
       (find_row (\<lambda>r. tc_command_id r = command_id) (broker_commands s))) (\<lambda>row.
     bindR (command_from_json (tc_payload_json row)) (\<lambda>command.
     raiseIf (expected \<noteq> None \<and> expected \<noteq> Some command)
       (DomainValidationError ''command snapshot is stale or differs from persisted evidence'') (
     Inr (row, command))))"

definition update_command ::
  "instant \<Rightarrow> command_row \<Rightarrow> broker_command \<Rightarrow> broker_command \<Rightarrow> (string \<times> string) list \<Rightarrow> store \<Rightarrow>
   (broker_command \<times> store) result" where
  "update_command wall row command updated details s =
     (let revision = Suc (tc_revision row); id_text = uuid_str (bc_command_id command);
          hit = (\<lambda>r. tc_command_id r = id_text \<and> tc_revision r = tc_revision row)
      in raiseIf (length (filter hit (broker_commands s)) \<noteq> 1)
           (ExecutionStoreError ''concurrent command transition rejected'') (
         bindR (insert_event
           \<lparr>te_command_id = id_text, te_revision = revision,
            te_previous_state = Some (command_state_str (bc_state command)),
            te_new_state = command_state_str (bc_state updated), te_event_time = wall,
            te_details = sort_key fst details\<rparr>
           (s\<lparr>broker_commands := update_rows hit
               (\<lambda>r. r\<lparr>tc_state := command_state_str (bc_state updated), tc_revision := revision,
                      tc_payload_json := command_json updated, tc_updated_at := wall\<rparr>)
               (broker_commands s)\<rparr>)) (\<lambda>s'.
         Inr (updated, s'))))"

definition insert_authorization :: "string \<Rightarrow> string \<Rightarrow> store \<Rightarrow> store result" where
  "insert_authorization command_id decision_id s =
     raiseIf (\<not> key_free tz_command_id command_id (command_authorizations s)
              \<or> \<not> key_free tz_risk_decision_id decision_id (command_authorizations s)
              \<or> key_free tc_command_id command_id (broker_commands s)
              \<or> key_free tr_decision_id decision_id (risk_decisions s))
       (integrity ''command_authorizations'') (
     Inr (s\<lparr>command_authorizations := command_authorizations s @
       [\<lparr>tz_command_id = command_id, tz_risk_decision_id = decision_id, tz_approval_id = None,
         tz_authorized_at = None, tz_valid_until = None, tz_submission_claimed_at = None\<rparr>]\<rparr>))"

text \<open>
  The check of \<open>save_risk_bound_command\<close> that the intent has no submission command yet: every
  stored command of the intent is decoded.
\<close>

definition submission_commands :: "string \<Rightarrow> store \<Rightarrow> broker_command list result" where
  "submission_commands h s =
     bindR (mapR (\<lambda>r. command_from_json (tc_payload_json r))
              (filter (\<lambda>r. tc_intent_hash r = h) (broker_commands s)))
       (\<lambda>cs. Inr (filter (\<lambda>c. bc_operation c = SUBMIT_ORDER) cs))"

definition save_risk_bound_command ::
  "digest \<Rightarrow> instant \<Rightarrow> broker_command \<Rightarrow> risk_decision \<Rightarrow> broker_command store_op" where
  "save_risk_bound_command H wall command decision s =
     (if bc_state command \<noteq> PROPOSED \<or> bc_attempt_history command \<noteq> []
      then (Inl (DomainValidationError ''new command must be proposed without attempts''), s)
      else if bc_intent_hash command \<noteq> rd_intent_hash decision
      then (Inl (DomainValidationError ''risk decision does not bind to command''), s)
      else transaction (\<lambda>s.
        bindR (of_option (ExecutionStoreError ''command references an unknown intent'')
          (find_row (\<lambda>r. ti_intent_hash r = bc_intent_hash command) (order_intents s))) (\<lambda>intent_row.
        bindR (intent_from_json H (ti_payload_json intent_row)) (\<lambda>intent.
        raiseIf (bc_environment command \<noteq> oi_environment intent)
          (DomainValidationError ''command environment differs from intent'') (
        bindR (if bc_operation command = SUBMIT_ORDER
               then bindR (submission_commands (bc_intent_hash command) s) (\<lambda>existing.
                 raiseIf (existing \<noteq> []) (SubmissionReplayError
                   ''intent already has a submission command; inspect/reconcile it'') (Inr ()))
               else Inr ()) (\<lambda>_.
        bindR (insert_risk wall decision s) (\<lambda>s1.
        bindR (insert_command wall command s1) (\<lambda>s2.
        bindR (insert_authorization (uuid_str (bc_command_id command)) (uuid_str (rd_decision_id decision)) s2) (\<lambda>s3.
        let target = (if rd_outcome decision = ACCEPTED then AWAITING_APPROVAL else RISK_REJECTED) in
        bindR (command_in_transaction (uuid_str (bc_command_id command)) None s3) (\<lambda>(row, current).
        bindR (transition current target None None None) (\<lambda>updated.
        update_command wall row current updated [] s3)))))))))) s)"

definition bound_risk ::
  "broker_command \<Rightarrow> store \<Rightarrow> (authorization_row \<times> risk_decision) result" where
  "bound_risk command s =
     bindR (of_option (DomainValidationError ''command has no persisted risk authorization'')
       (find_row (\<lambda>z. tz_command_id z = uuid_str (bc_command_id command)) (command_authorizations s))) (\<lambda>binding.
     bindR (of_option (PyTypeError ''risk decision row is missing'')
       (find_row (\<lambda>r. tr_decision_id r = tz_risk_decision_id binding) (risk_decisions s))) (\<lambda>risk.
     bindR (risk_from_json (tr_payload_json risk)) (\<lambda>decision.
     bindR (of_option (PyTypeError ''risk decision row is missing'')
       (find_row (\<lambda>r. tr_intent_hash r = bc_intent_hash command) (rev (risk_decisions s)))) (\<lambda>latest.
     raiseIf (rd_intent_hash decision \<noteq> bc_intent_hash command
              \<or> rd_outcome decision \<noteq> ACCEPTED
              \<or> \<not> list_all rc_passed (rd_checks decision)
              \<or> tr_decision_id latest \<noteq> uuid_str (rd_decision_id decision))
       (DomainValidationError ''bound risk decision is rejected or superseded'') (
     Inr (binding, decision))))))"

text \<open>\<open>dict(pairs).get(key)\<close>: the last pair of the key counts.\<close>

definition dict_get :: "(string \<times> string) list \<Rightarrow> string \<Rightarrow> string option" where
  "dict_get kvs k = map_of (rev kvs) k"

definition validate_approval_binding ::
  "broker_command \<Rightarrow> risk_decision \<Rightarrow> approval \<Rightarrow> instant \<Rightarrow> unit result" where
  "validate_approval_binding command decision a now =
     raiseIf (ap_intent_hash a \<noteq> bc_intent_hash command
              \<or> ap_environment a \<noteq> bc_environment command
              \<or> dict_get (ap_limits a) ''risk_decision_id'' \<noteq> Some (uuid_str (rd_decision_id decision))
              \<or> dict_get (ap_limits a) ''account_snapshot_id'' \<noteq> Some (rd_account_snapshot_id decision)
              \<or> dict_get (ap_limits a) ''quote_id'' \<noteq> Some (rd_quote_id decision))
       (DomainValidationError ''approval does not bind to command and risk evidence'') (
     raiseIf (ap_issued_at a < rd_decided_at decision \<or> now < ap_issued_at a \<or> now \<ge> ap_expires_at a)
       (DomainValidationError ''approval is not currently valid'') (
     Inr ()))"

text \<open>\<open>UPDATE command_authorizations ... WHERE command_id = ?\<close>\<close>

definition update_authorization ::
  "string \<Rightarrow> (authorization_row \<Rightarrow> authorization_row) \<Rightarrow> store \<Rightarrow> store" where
  "update_authorization command_id f s =
     s\<lparr>command_authorizations := update_rows (\<lambda>z. tz_command_id z = command_id) f (command_authorizations s)\<rparr>"

definition approve_command :: "instant \<Rightarrow> broker_command \<Rightarrow> approval \<Rightarrow> pydatetime \<Rightarrow> broker_command store_op" where
  "approve_command wall command a now s =
     (case aware_utc now ''now'' of
        Inl e \<Rightarrow> (Inl e, s)
      | Inr moment \<Rightarrow> transaction (\<lambda>s.
          bindR (command_in_transaction (uuid_str (bc_command_id command)) (Some command) s) (\<lambda>(row, current).
          raiseIf (bc_state current \<noteq> AWAITING_APPROVAL) (DomainValidationError ''command is not awaiting approval'') (
          bindR (bound_risk current s) (\<lambda>(binding, decision).
          bindR (validate_approval_binding current decision a moment) (\<lambda>_.
          raiseIf (tz_approval_id binding \<noteq> None) (ApprovalReplayError ''command already has an approval'') (
          bindR (case insert_approval wall a s of
                   Inl e \<Rightarrow> Inl (ApprovalReplayError (uuid_str (ap_approval_id a)))
                 | Inr s1 \<Rightarrow> Inr s1) (\<lambda>s1.
          raiseIf (\<not> key_free tz_approval_id (Some (uuid_str (ap_approval_id a))) (command_authorizations s1))
            (integrity ''command_authorizations'') (
          let s2 = update_authorization (uuid_str (bc_command_id current))
                     (\<lambda>z. z\<lparr>tz_approval_id := Some (uuid_str (ap_approval_id a))\<rparr>) s1 in
          bindR (transition current APPROVED None None None) (\<lambda>updated.
          update_command wall row current updated [(''approval_id'', uuid_str (ap_approval_id a))] s2))))))))) s)"

definition persisted_intent :: "digest \<Rightarrow> broker_command \<Rightarrow> order_intent \<Rightarrow> store \<Rightarrow> unit result" where
  "persisted_intent H command intent s =
     (case find_row (\<lambda>r. ti_intent_hash r = bc_intent_hash command) (order_intents s) of
        None \<Rightarrow> Inl (DomainValidationError ''command does not match the persisted intent'')
      | Some row \<Rightarrow>
          bindR (intent_from_json H (ti_payload_json row)) (\<lambda>stored.
          raiseIf (\<not> intent_eq stored intent \<or> oi_intent_hash intent \<noteq> bc_intent_hash command
                   \<or> oi_environment intent \<noteq> bc_environment command)
            (DomainValidationError ''command does not match the persisted intent'') (
          Inr ())))"

definition authorize_submission ::
  "digest \<Rightarrow> instant \<Rightarrow> broker_command \<Rightarrow> order_intent \<Rightarrow> risk_decision \<Rightarrow> approval \<Rightarrow> pydatetime \<Rightarrow>
   pydatetime \<Rightarrow> broker_command store_op" where
  "authorize_submission H wall command intent decision a authorized_at valid_until s =
     (case bindR (aware_utc authorized_at ''authorized_at'') (\<lambda>moment.
           bindR (aware_utc valid_until ''valid_until'') (\<lambda>deadline.
           raiseIf (deadline \<le> moment) (DomainValidationError ''submission authorization has expired'') (
           Inr (moment, deadline)))) of
        Inl e \<Rightarrow> (Inl e, s)
      | Inr (moment, deadline) \<Rightarrow> transaction (\<lambda>s.
          bindR (command_in_transaction (uuid_str (bc_command_id command)) (Some command) s) (\<lambda>(row, current).
          raiseIf (bc_state current \<noteq> APPROVED) (DomainValidationError ''command is not approved'') (
          bindR (persisted_intent H current intent s) (\<lambda>_.
          bindR (bound_risk current s) (\<lambda>(binding, persisted_decision).
          raiseIf (persisted_decision \<noteq> decision \<or> tz_approval_id binding \<noteq> Some (uuid_str (ap_approval_id a)))
            (DomainValidationError ''supplied evidence differs from command authorization'') (
          bindR (of_option (PyTypeError ''approval row is missing'')
            (find_row (\<lambda>r. ta_approval_id r = uuid_str (ap_approval_id a)) (approvals s))) (\<lambda>approval_row.
          bindR (approval_from_json (ta_payload_json approval_row)) (\<lambda>stored.
          raiseIf (stored \<noteq> a) (DomainValidationError ''approval differs from persisted evidence'') (
          bindR (validate_approval_binding current decision a moment) (\<lambda>_.
          raiseIf (deadline > min (oi_expires_at intent) (ap_expires_at a))
            (DomainValidationError ''authorization exceeds intent or approval expiry'') (
          bindR (mark_consumed (uuid_str (ap_approval_id a)) moment s) (\<lambda>s1.
          let s2 = update_authorization (uuid_str (bc_command_id current))
                     (\<lambda>z. z\<lparr>tz_authorized_at := Some moment, tz_valid_until := Some deadline\<rparr>) s1 in
          bindR (transition current SUBMISSION_PENDING None None None) (\<lambda>updated.
          update_command wall row current updated [(''approval_id'', uuid_str (ap_approval_id a))] s2))))))))))))) s)"

definition claim_submission ::
  "digest \<Rightarrow> instant \<Rightarrow> broker_command \<Rightarrow> order_intent \<Rightarrow> command_attempt \<Rightarrow> broker_command store_op" where
  "claim_submission H wall command intent attempt = transaction (\<lambda>s.
     bindR (command_in_transaction (uuid_str (bc_command_id command)) (Some command) s) (\<lambda>(row, current).
     raiseIf (bc_state current \<noteq> SUBMISSION_PENDING) (DomainValidationError ''command is not submission_pending'') (
     bindR (persisted_intent H current intent s) (\<lambda>_.
     bindR (bound_risk current s) (\<lambda>(binding, decision).
     raiseIf (bc_attempt_history current \<noteq> [] \<or> tz_submission_claimed_at binding \<noteq> None)
       (SubmissionReplayError ''submission already claimed; broker lookup is required'') (
     raiseIf (ca_attempt_number attempt \<noteq> 1 \<or> ca_request_id attempt \<noteq> bc_logical_request_id current
              \<or> ca_outcome attempt \<noteq> ''send_started'')
       (DomainValidationError ''submission attempt must use the original request identity'') (
     case (bc_operation current, tz_authorized_at binding, tz_valid_until binding) of
       (SUBMIT_ORDER, Some authorized_at, Some valid_until) \<Rightarrow>
         raiseIf (\<not> (authorized_at \<le> ca_attempted_at attempt \<and> ca_attempted_at attempt < valid_until))
           (DomainValidationError ''submission authorization is stale'') (
         bindR (of_option (DomainValidationError ''submission approval has not been consumed'')
           (find_row (\<lambda>r. Some (ta_approval_id r) = tz_approval_id binding) (approvals s))) (\<lambda>approval_row.
         raiseIf (ta_consumed_at approval_row = None)
           (DomainValidationError ''submission approval has not been consumed'') (
         bindR (approval_from_json (ta_payload_json approval_row)) (\<lambda>stored.
         bindR (validate_approval_binding current decision stored (ca_attempted_at attempt)) (\<lambda>_.
         let s1 = update_authorization (uuid_str (bc_command_id current))
                    (\<lambda>z. z\<lparr>tz_submission_claimed_at := Some (ca_attempted_at attempt)\<rparr>) s in
         bindR (with_attempt current attempt) (\<lambda>updated.
         update_command wall row current updated
           [(''attempt_number'', ''1''), (''submission_claim'', ''durable'')] s1))))))
     | _ \<Rightarrow> Inl (DomainValidationError ''command lacks a consumed submission authorization''))))))))"

definition get_command :: "string \<Rightarrow> store \<Rightarrow> broker_command option result" where
  "get_command key s =
     optR (\<lambda>r. command_from_json (tc_payload_json r)) (find_row (\<lambda>r. tc_command_id r = key) (broker_commands s))"

definition list_commands :: "command_state list \<Rightarrow> store \<Rightarrow> broker_command list result" where
  "list_commands states s =
     (let wanted = (\<lambda>r. states = [] \<or> tc_state r \<in> set (map command_state_str states)) in
      mapR (\<lambda>r. command_from_json (tc_payload_json r))
        (sort_key (\<lambda>r. (tc_persisted_at r, tc_command_id r)) (filter wanted (broker_commands s))))"

definition transition_command ::
  "instant \<Rightarrow> string \<Rightarrow> command_state \<Rightarrow> (string \<times> string) list \<Rightarrow> string option \<Rightarrow> string option \<Rightarrow>
   string option \<Rightarrow> broker_command store_op" where
  "transition_command wall command_id new_state details order_id reference_id position_id = transaction (\<lambda>s.
     bindR (command_in_transaction command_id None s) (\<lambda>(row, command).
     bindR (transition command new_state order_id reference_id position_id) (\<lambda>updated.
     update_command wall row command updated details s)))"

definition record_attempt :: "digest \<Rightarrow> instant \<Rightarrow> string \<Rightarrow> command_attempt \<Rightarrow> broker_command store_op" where
  "record_attempt H wall command_id attempt s =
     (case get_command command_id s of
        Inl e \<Rightarrow> (Inl e, s)
      | Inr None \<Rightarrow> (Inl (ExecutionStoreError (''unknown command: '' @ command_id)), s)
      | Inr (Some command) \<Rightarrow>
          (case get_intent H (bc_intent_hash command) s of
             Inl e \<Rightarrow> (Inl e, s)
           | Inr None \<Rightarrow> (Inl (ExecutionStoreError ''command references an unknown intent''), s)
           | Inr (Some intent) \<Rightarrow> claim_submission H wall command intent attempt s))"

end
