(* ===== verification/Ledger.thy ===== *)
theory Ledger
  imports Store Once
begin

text \<open>
  The command ledger of the execution store: the invariant that ties the command rows, their
  JSON payloads, the event trail and the authorisation rows together, and its preservation by
  every operation of theory \<open>Store\<close>. \<open>store_call\<close> is one call of a mutating operation with its
  arguments and \<open>store_exec\<close> its effect, so that any interleaving of calls by any number of
  processes is a list of calls.
\<close>

section \<open>Definitions\<close>

text \<open>The stored command of an id, when its payload decodes.\<close>

definition stored_command :: "store \<Rightarrow> string \<Rightarrow> broker_command option" where
  "stored_command s k =
     (case get_command k s of Inr (Some c) \<Rightarrow> Some c | _ \<Rightarrow> None)"

text \<open>The columns of a command row agree with its payload.\<close>

definition row_agrees :: "command_row \<Rightarrow> bool" where
  "row_agrees r \<longleftrightarrow>
     (\<exists>c. command_from_json (tc_payload_json r) = Inr c \<and>
          tc_command_id r = uuid_str (bc_command_id c) \<and>
          tc_logical_request_id r = uuid_str (bc_logical_request_id c) \<and>
          tc_intent_hash r = bc_intent_hash c \<and> tc_state r = command_state_str (bc_state c))"

text \<open>
  One event of a trail follows the previous one: it records the state it found, and the new
  state is the same (a send claim) or an allowed transition.
\<close>

definition event_follows :: "string \<Rightarrow> event_row \<Rightarrow> bool" where
  "event_follows before e \<longleftrightarrow> te_previous_state e = Some before \<and>
     (\<exists>a b. before = command_state_str a \<and> te_new_state e = command_state_str b \<and>
            (a = b \<or> b \<in> set (allowed_transitions a)))"

fun trail_from :: "string \<Rightarrow> event_row list \<Rightarrow> string \<Rightarrow> bool" where
  "trail_from st [] final = (st = final)"
| "trail_from st (e # es) final = (event_follows st e \<and> trail_from (te_new_state e) es final)"

text \<open>
  The whole trail of a command: it opens with revision 0 and no previous state, its revisions
  count up to the revision of the row, and it ends in the state of the row.
\<close>

definition trail_ok :: "event_row list \<Rightarrow> command_row \<Rightarrow> bool" where
  "trail_ok evs r \<longleftrightarrow>
     (case filter (\<lambda>e. te_command_id e = tc_command_id r) evs of
        [] \<Rightarrow> False
      | e # es \<Rightarrow> te_previous_state e = None \<and> trail_from (te_new_state e) es (tc_state r) \<and>
                  map te_revision (e # es) = [0..<Suc (tc_revision r)])"

definition commands_ok :: "command_row list \<Rightarrow> event_row list \<Rightarrow> bool" where
  "commands_ok rows evs \<longleftrightarrow> unique_by tc_command_id rows \<and> unique_by tc_logical_request_id rows \<and>
     (\<forall>r\<in>set rows. row_agrees r \<and> trail_ok evs r) \<and>
     (\<forall>e\<in>set evs. te_command_id e \<in> set (map tc_command_id rows))"

text \<open>The bound command of an authorisation row, and when the row is consistent with it.\<close>

definition binds :: "store \<Rightarrow> authorization_row \<Rightarrow> broker_command \<Rightarrow> bool" where
  "binds s z c \<longleftrightarrow> stored_command s (tz_command_id z) = Some c"

definition claim_ok :: "store \<Rightarrow> authorization_row \<Rightarrow> broker_command \<Rightarrow> bool" where
  "claim_ok s z c \<longleftrightarrow>
     (tz_submission_claimed_at z = None \<longleftrightarrow> bc_attempt_history c = []) \<and>
     (tz_submission_claimed_at z \<noteq> None \<longrightarrow>
        bc_operation c = SUBMIT_ORDER \<and> 3 \<le> phase (bc_state c) \<and>
        (\<exists>a. bc_attempt_history c = [a] \<and> ca_request_id a = bc_logical_request_id c \<and>
             tz_submission_claimed_at z = Some (ca_attempted_at a)) \<and>
        (\<exists>r\<in>set (approvals s). Some (ta_approval_id r) = tz_approval_id z \<and> ta_consumed_at r \<noteq> None))"

definition authorizations_ok :: "store \<Rightarrow> bool" where
  "authorizations_ok s \<longleftrightarrow> unique_by tz_command_id (command_authorizations s) \<and>
     (\<forall>z\<in>set (command_authorizations s). \<exists>c. binds s z c \<and> claim_ok s z c) \<and>
     (\<forall>z\<in>set (command_authorizations s). \<forall>z'\<in>set (command_authorizations s). \<forall>c c'.
        binds s z c \<longrightarrow> binds s z' c' \<longrightarrow> bc_operation c = SUBMIT_ORDER \<longrightarrow>
        bc_operation c' = SUBMIT_ORDER \<longrightarrow> bc_intent_hash c = bc_intent_hash c' \<longrightarrow> z = z')"

definition ledger_ok :: "store \<Rightarrow> bool" where
  "ledger_ok s \<longleftrightarrow> commands_ok (broker_commands s) (command_events s) \<and> authorizations_ok s"

text \<open>The send claim of a command id is recorded.\<close>

definition claimed :: "store \<Rightarrow> string \<Rightarrow> bool" where
  "claimed s k \<longleftrightarrow> (\<exists>z\<in>set (command_authorizations s). tz_command_id z = k \<and> tz_submission_claimed_at z \<noteq> None)"

section \<open>Calls\<close>

datatype store_call =
    Register_Instrument instant instrument
  | Rename_Symbol string string pydatetime
  | Save_Mapping broker_mapping
  | Save_Intents instant "order_intent list"
  | Save_Risk_Decision instant risk_decision
  | Save_Approval instant approval
  | Consume_Approval string pydatetime
  | Save_Command instant broker_command
  | Save_Risk_Bound_Command instant broker_command risk_decision
  | Approve_Command instant broker_command approval pydatetime
  | Authorize_Submission instant broker_command order_intent risk_decision approval pydatetime pydatetime
  | Claim_Submission instant broker_command order_intent command_attempt
  | Transition_Command instant string command_state "(string \<times> string) list" "string option" "string option"
      "string option"

fun store_exec :: "digest \<Rightarrow> store_call \<Rightarrow> store \<Rightarrow> store" where
  "store_exec H (Register_Instrument wall i) s = snd (register_instrument wall i s)"
| "store_exec H (Rename_Symbol k symb t) s = snd (rename_instrument_symbol k symb t s)"
| "store_exec H (Save_Mapping m) s = snd (save_broker_mapping m s)"
| "store_exec H (Save_Intents wall is) s = snd (save_intents wall is s)"
| "store_exec H (Save_Risk_Decision wall d) s = snd (save_risk_decision H wall d s)"
| "store_exec H (Save_Approval wall a) s = snd (save_approval H wall a s)"
| "store_exec H (Consume_Approval k t) s = snd (consume_approval k t s)"
| "store_exec H (Save_Command wall c) s = snd (save_command H wall c s)"
| "store_exec H (Save_Risk_Bound_Command wall c d) s = snd (save_risk_bound_command H wall c d s)"
| "store_exec H (Approve_Command wall c a t) s = snd (approve_command wall c a t s)"
| "store_exec H (Authorize_Submission wall c i d a t t') s = snd (authorize_submission H wall c i d a t t' s)"
| "store_exec H (Claim_Submission wall c i att) s = snd (claim_submission H wall c i att s)"
| "store_exec H (Transition_Command wall k st det oid ref pos) s =
     snd (transition_command wall k st det oid ref pos s)"

text \<open>The arguments were built by the constructors.\<close>

fun valid_call :: "digest \<Rightarrow> store_call \<Rightarrow> bool" where
  "valid_call H (Save_Intents wall is) = list_all (valid_intent H) is"
| "valid_call H (Save_Risk_Decision wall d) = valid_decision d"
| "valid_call H (Save_Approval wall a) = valid_approval a"
| "valid_call H (Save_Command wall c) = valid_command c"
| "valid_call H (Save_Risk_Bound_Command wall c d) = (valid_command c \<and> valid_decision d)"
| "valid_call H (Approve_Command wall c a t) = valid_approval a"
| "valid_call H (Claim_Submission wall c i att) = valid_attempt att"
| "valid_call H _ = True"

section \<open>What the primitive writes do\<close>

lemma insert_event_Inr:
  "insert_event e s = Inr s' \<longleftrightarrow>
     key_free (\<lambda>r. (te_command_id r, te_revision r)) (te_command_id e, te_revision e) (command_events s) \<and>
     \<not> key_free tc_command_id (te_command_id e) (broker_commands s) \<and>
     s' = s\<lparr>command_events := command_events s @ [e]\<rparr>"
  by (auto simp: insert_event_def)

definition opening_event :: "instant \<Rightarrow> broker_command \<Rightarrow> event_row" where
  "opening_event wall c = \<lparr>te_command_id = uuid_str (bc_command_id c), te_revision = 0,
     te_previous_state = None, te_new_state = command_state_str (bc_state c), te_event_time = wall,
     te_details = []\<rparr>"

lemma insert_command_Inr:
  assumes "insert_command wall c s = Inr s'"
  shows "s' = s\<lparr>broker_commands := broker_commands s @ [command_row_of wall c],
                command_events := command_events s @ [opening_event wall c]\<rparr>"
    and "key_free tc_command_id (uuid_str (bc_command_id c)) (broker_commands s)"
    and "key_free tc_logical_request_id (uuid_str (bc_logical_request_id c)) (broker_commands s)"
  using assms
  by (auto simp: insert_command_def insert_event_Inr opening_event_def split: if_splits sum.splits)

definition update_event ::
  "instant \<Rightarrow> command_row \<Rightarrow> broker_command \<Rightarrow> broker_command \<Rightarrow> (string \<times> string) list \<Rightarrow> event_row" where
  "update_event wall row c u det = \<lparr>te_command_id = uuid_str (bc_command_id c),
     te_revision = Suc (tc_revision row), te_previous_state = Some (command_state_str (bc_state c)),
     te_new_state = command_state_str (bc_state u), te_event_time = wall, te_details = sort_key fst det\<rparr>"

definition updated_row :: "instant \<Rightarrow> command_row \<Rightarrow> broker_command \<Rightarrow> command_row \<Rightarrow> command_row" where
  "updated_row wall row u r = r\<lparr>tc_state := command_state_str (bc_state u), tc_revision := Suc (tc_revision row),
     tc_payload_json := command_json u, tc_updated_at := wall\<rparr>"

lemma update_command_Inr:
  assumes "update_command wall row c u det s = Inr (c', s')"
  shows "c' = u"
    and "s' = s\<lparr>broker_commands := update_rows
                  (\<lambda>r. tc_command_id r = uuid_str (bc_command_id c) \<and> tc_revision r = tc_revision row)
                  (updated_row wall row u) (broker_commands s),
                command_events := command_events s @ [update_event wall row c u det]\<rparr>"
  using assms
  by (auto simp: update_command_def Let_def insert_event_Inr update_event_def updated_row_def [abs_def])

lemma command_in_transaction_Inr:
  assumes "command_in_transaction k expected s = Inr (row, c)"
  shows "row \<in> set (broker_commands s)" and "tc_command_id row = k"
    and "command_from_json (tc_payload_json row) = Inr c" and "expected = None \<or> expected = Some c"
    and "find_row (\<lambda>r. tc_command_id r = k) (broker_commands s) = Some row"
  using assms by (auto simp: command_in_transaction_def dest: find_row_Some)

section \<open>Command rows and their trail\<close>

lemma row_agrees_new: "valid_command c \<Longrightarrow> row_agrees (command_row_of wall c)"
  by (auto simp: row_agrees_def command_row_of_def)

lemma trail_from_snoc:
  "trail_from st (es @ [e]) final \<longleftrightarrow>
     (\<exists>mid. trail_from st es mid \<and> event_follows mid e \<and> te_new_state e = final)"
  by (induction es arbitrary: st) auto

lemma trail_ok_snoc:
  assumes "trail_ok evs r" and "te_command_id e = tc_command_id r" and "event_follows (tc_state r) e"
    and "te_revision e = Suc (tc_revision r)"
    and "tc_command_id r' = tc_command_id r" and "tc_state r' = te_new_state e"
    and "tc_revision r' = Suc (tc_revision r)"
  shows "trail_ok (evs @ [e]) r'"
  using assms by (auto simp: trail_ok_def trail_from_snoc split: list.splits)

lemma trail_ok_other: "te_command_id e \<noteq> tc_command_id r \<Longrightarrow> trail_ok (evs @ [e]) r = trail_ok evs r"
  by (simp add: trail_ok_def)

lemma trail_revisions:
  assumes "trail_ok evs r" and "e \<in> set evs" and "te_command_id e = tc_command_id r"
  shows "te_revision e \<le> tc_revision r"
proof -
  have "map te_revision (filter (\<lambda>e. te_command_id e = tc_command_id r) evs) = [0..<Suc (tc_revision r)]"
    using assms(1) by (auto simp: trail_ok_def split: list.splits)
  moreover have "te_revision e \<in> set (map te_revision (filter (\<lambda>e. te_command_id e = tc_command_id r) evs))"
    using assms(2,3) by simp
  ultimately have "te_revision e \<in> set [0..<Suc (tc_revision r)]" by (simp only:)
  then show ?thesis by auto
qed

lemma trail_ok_new:
  assumes "\<forall>e\<in>set evs. te_command_id e \<noteq> tc_command_id r"
    and "te_command_id e = tc_command_id r" and "te_previous_state e = None" and "te_revision e = 0"
    and "tc_revision r = 0" and "te_new_state e = tc_state r"
  shows "trail_ok (evs @ [e]) r"
  using assms by (simp add: trail_ok_def)

lemma commands_ok_insert:
  assumes ok: "commands_ok rows evs" and c: "valid_command c"
    and free: "key_free tc_command_id (uuid_str (bc_command_id c)) rows"
      "key_free tc_logical_request_id (uuid_str (bc_logical_request_id c)) rows"
  shows "commands_ok (rows @ [command_row_of wall c]) (evs @ [opening_event wall c])"
proof -
  let ?r = "command_row_of wall c" and ?e = "opening_event wall c"
  have no: "\<forall>e\<in>set evs. te_command_id e \<noteq> tc_command_id ?r"
    using ok free unfolding commands_ok_def key_free_def command_row_of_def by force
  have "trail_ok (evs @ [?e]) ?r"
    using no by (intro trail_ok_new) (simp_all add: opening_event_def command_row_of_def)
  moreover have "trail_ok (evs @ [?e]) r" if "r \<in> set rows" for r
  proof -
    have "te_command_id ?e \<noteq> tc_command_id r"
      using free(1) that by (auto simp: key_free_def opening_event_def)
    then show ?thesis using ok that by (simp add: trail_ok_other commands_ok_def)
  qed
  ultimately show ?thesis
    using ok free row_agrees_new [OF c, of wall]
    by (auto simp: commands_ok_def unique_by_append opening_event_def command_row_of_def)
qed

lemma commands_ok_update:
  assumes ok: "commands_ok rows evs" and row: "row \<in> set rows" and dec: "command_from_json (tc_payload_json row) = Inr c"
    and u: "valid_command u" "bc_command_id u = bc_command_id c"
      "bc_logical_request_id u = bc_logical_request_id c" "bc_intent_hash u = bc_intent_hash c"
      "bc_state u = bc_state c \<or> bc_state u \<in> set (allowed_transitions (bc_state c))"
  shows "commands_ok (update_rows (\<lambda>r. tc_command_id r = uuid_str (bc_command_id c) \<and> tc_revision r = tc_revision row)
             (updated_row wall row u) rows) (evs @ [update_event wall row c u det])"
    (is "commands_ok (update_rows ?hit ?f rows) (evs @ [?e])")
proof -
  have agree: "tc_command_id row = uuid_str (bc_command_id c)"
    "tc_logical_request_id row = uuid_str (bc_logical_request_id c)"
    "tc_intent_hash row = bc_intent_hash c" "tc_state row = command_state_str (bc_state c)"
    using ok row dec by (auto simp: commands_ok_def row_agrees_def)
  have hit: "?hit r \<longleftrightarrow> r = row" if "r \<in> set rows" for r
    using ok row agree(1) that unique_by_inj [of tc_command_id rows r row] by (auto simp: commands_ok_def)
  then have upd: "update_rows ?hit ?f rows = update_rows (\<lambda>r. r = row) ?f rows"
    by (auto simp: update_rows_def)
  have keys: "unique_by tc_command_id (update_rows (\<lambda>r. r = row) ?f rows)"
    "unique_by tc_logical_request_id (update_rows (\<lambda>r. r = row) ?f rows)"
    "map tc_command_id (update_rows (\<lambda>r. r = row) ?f rows) = map tc_command_id rows"
    using ok by (auto simp: commands_ok_def unique_by_update map_update_rows updated_row_def)
  have "row_agrees (?f row) \<and> trail_ok (evs @ [?e]) (?f row)"
  proof
    show "row_agrees (?f row)" using u agree by (auto simp: row_agrees_def updated_row_def)
    show "trail_ok (evs @ [?e]) (?f row)"
      using ok row u(5) agree by (intro trail_ok_snoc [of _ row])
        (auto simp: commands_ok_def update_event_def updated_row_def event_follows_def)
  qed
  moreover have "row_agrees r \<and> trail_ok (evs @ [?e]) r" if "r \<in> set rows" "r \<noteq> row" for r
  proof -
    have "te_command_id ?e \<noteq> tc_command_id r"
      using ok row that agree(1) unique_by_inj [of tc_command_id rows r row]
      by (auto simp: commands_ok_def update_event_def)
    then show ?thesis using ok that by (simp add: trail_ok_other commands_ok_def)
  qed
  moreover have "te_command_id ?e \<in> set (map tc_command_id rows)"
    using row agree(1) by (auto simp: update_event_def image_iff intro!: bexI [of _ row])
  ultimately show ?thesis
    unfolding upd commands_ok_def using ok keys
    by (auto simp: set_update_rows commands_ok_def)
qed


text \<open>Reading a command back after an insert and after an update.\<close>

lemma stored_command_row:
  "commands_ok (broker_commands s) evs \<Longrightarrow> r \<in> set (broker_commands s) \<Longrightarrow>
     command_from_json (tc_payload_json r) = Inr c \<Longrightarrow> tc_command_id r = k \<Longrightarrow> stored_command s k = Some c"
  by (auto simp: stored_command_def get_command_def commands_ok_def dest: find_row_unique)

lemma stored_command_SomeD:
  assumes "stored_command s k = Some c"
  shows "\<exists>r\<in>set (broker_commands s). tc_command_id r = k \<and> command_from_json (tc_payload_json r) = Inr c"
  using assms
  by (cases "find_row (\<lambda>r. tc_command_id r = k) (broker_commands s)")
    (auto simp: stored_command_def get_command_def dest: find_row_Some split: sum.splits)

lemma stored_command_insert:
  assumes "valid_command c" and "key_free tc_command_id (uuid_str (bc_command_id c)) (broker_commands s)"
    and "broker_commands s' = broker_commands s @ [command_row_of wall c]"
  shows "stored_command s' k = (if k = uuid_str (bc_command_id c) then Some c else stored_command s k)"
proof -
  have "find_row (\<lambda>r. tc_command_id r = uuid_str (bc_command_id c)) (broker_commands s) = None"
    using assms(2) by (auto simp: find_row_None key_free_iff)
  then show ?thesis using assms
    by (auto simp: stored_command_def get_command_def find_row_append command_row_of_def split: option.splits)
qed

text \<open>
  The effect of the update that ends every command operation: the invariant of the rows is
  kept and only the addressed command changes.
\<close>

definition successor :: "broker_command \<Rightarrow> broker_command \<Rightarrow> bool" where
  "successor c u \<longleftrightarrow> valid_command u \<and> bc_command_id u = bc_command_id c \<and>
     bc_logical_request_id u = bc_logical_request_id c \<and> bc_intent_hash u = bc_intent_hash c \<and>
     bc_operation u = bc_operation c \<and> bc_environment u = bc_environment c \<and>
     (bc_state u = bc_state c \<or> bc_state u \<in> set (allowed_transitions (bc_state c)))"

lemma successor_phase: "successor c u \<Longrightarrow> phase (bc_state c) \<le> phase (bc_state u)"
  by (auto simp: successor_def dest: allowed_phase)

lemma update_effect:
  assumes ok: "commands_ok (broker_commands s) (command_events s)"
    and cur: "command_in_transaction k expected s = Inr (row, c)"
    and same: "broker_commands s1 = broker_commands s" "command_events s1 = command_events s"
    and upd: "update_command wall row c u det s1 = Inr (c', s')" and u: "successor c u"
  shows "commands_ok (broker_commands s') (command_events s')"
    and "stored_command s' j = (if j = k then Some u else stored_command s j)"
    and "stored_command s k = Some c" and "k = uuid_str (bc_command_id c)"
    and "approvals s' = approvals s1" and "command_authorizations s' = command_authorizations s1"
    and "order_intents s' = order_intents s1" and "risk_decisions s' = risk_decisions s1"
    and "c' = u"
proof -
  note row = command_in_transaction_Inr [OF cur]
  note eff = update_command_Inr [OF upd]
  show k: "k = uuid_str (bc_command_id c)"
    using ok row by (auto simp: commands_ok_def row_agrees_def)
  show ok': "commands_ok (broker_commands s') (command_events s')"
    using commands_ok_update [OF ok row(1,3), of u wall det] u
    by (simp add: eff same successor_def)
  show "stored_command s k = Some c"
    using stored_command_row [OF ok row(1,3)] row(2) by simp
  have hit: "updated_row wall row u row \<in> set (broker_commands s')"
    using row(1,2) k by (auto simp: eff same set_update_rows image_iff intro!: bexI [of _ row])
  have "stored_command s' k = Some u"
    using stored_command_row [OF ok' hit, of u k] row(2) u by (simp add: updated_row_def successor_def)
  moreover have "stored_command s' j = stored_command s j" if "j \<noteq> k"
    using that k unfolding stored_command_def get_command_def eff same
    by (subst find_row_update_other [symmetric]) (auto simp: updated_row_def)
  ultimately show "stored_command s' j = (if j = k then Some u else stored_command s j)" by simp
qed (use update_command_Inr [OF upd] in simp_all)

lemma transition_successor:
  "transition c target oid ref pos = Inr u \<Longrightarrow> valid_command c \<Longrightarrow>
     successor c u \<and> bc_state u = target \<and> bc_attempt_history u = bc_attempt_history c"
  using transition_valid transition_allowed by (auto simp: successor_def transition_Inr)

lemma with_attempt_successor:
  "with_attempt c a = Inr u \<Longrightarrow> valid_command c \<Longrightarrow> valid_attempt a \<Longrightarrow>
     successor c u \<and> bc_state u = bc_state c \<and> bc_attempt_history u = bc_attempt_history c @ [a]"
  using with_attempt_valid by (auto simp: successor_def dest: with_attempt_Inr(1))

section \<open>Authorisation rows\<close>

text \<open>Approvals are never removed and a consumption is never undone.\<close>

definition consumed :: "store \<Rightarrow> string \<Rightarrow> bool" where
  "consumed s a \<longleftrightarrow> (\<exists>r\<in>set (approvals s). ta_approval_id r = a \<and> ta_consumed_at r \<noteq> None)"

lemma claim_ok_alt:
  "claim_ok s z c \<longleftrightarrow>
     (tz_submission_claimed_at z = None \<longleftrightarrow> bc_attempt_history c = []) \<and>
     (tz_submission_claimed_at z \<noteq> None \<longrightarrow>
        bc_operation c = SUBMIT_ORDER \<and> 3 \<le> phase (bc_state c) \<and>
        (\<exists>a. bc_attempt_history c = [a] \<and> ca_request_id a = bc_logical_request_id c \<and>
             tz_submission_claimed_at z = Some (ca_attempted_at a)) \<and>
        (\<exists>k. tz_approval_id z = Some k \<and> consumed s k))"
  unfolding claim_ok_def consumed_def by (auto; metis)

lemma claim_ok_successor:
  assumes "claim_ok s z c" and "\<And>k. consumed s k \<Longrightarrow> consumed s' k" and "successor c u"
    and "bc_attempt_history u = bc_attempt_history c"
    and "tz_submission_claimed_at z' = tz_submission_claimed_at z"
    and "tz_submission_claimed_at z \<noteq> None \<Longrightarrow> tz_approval_id z' = tz_approval_id z"
  shows "claim_ok s' z' u"
  using assms successor_phase [OF assms(3)] by (auto simp: claim_ok_alt successor_def)

lemma authorizations_ok_map:
  assumes ok: "authorizations_ok s"
    and rows: "command_authorizations s' = map g (command_authorizations s)"
    and key: "\<And>z. tz_command_id (g z) = tz_command_id z"
    and step: "\<And>z c. z \<in> set (command_authorizations s) \<Longrightarrow> binds s z c \<Longrightarrow> claim_ok s z c \<Longrightarrow>
       \<exists>c'. stored_command s' (tz_command_id z) = Some c' \<and> bc_operation c' = bc_operation c \<and>
            bc_intent_hash c' = bc_intent_hash c \<and> claim_ok s' (g z) c'"
  shows "authorizations_ok s'"
proof -
  have bound: "\<exists>c c'. binds s z c \<and> binds s' (g z) c' \<and> bc_operation c' = bc_operation c \<and>
      bc_intent_hash c' = bc_intent_hash c \<and> claim_ok s' (g z) c'" if "z \<in> set (command_authorizations s)" for z
    using ok that step [OF that] by (fastforce simp: authorizations_ok_def binds_def key)
  have "unique_by tz_command_id (command_authorizations s')"
    using ok by (simp add: authorizations_ok_def rows unique_by_def comp_def key)
  moreover have "\<exists>c. binds s' z c \<and> claim_ok s' z c" if "z \<in> set (command_authorizations s')" for z
    using that bound by (auto simp: rows)
  moreover have "z = z'" if zs: "z \<in> set (command_authorizations s')" "z' \<in> set (command_authorizations s')"
      and b: "binds s' z c" "binds s' z' c'" and sub: "bc_operation c = SUBMIT_ORDER"
        "bc_operation c' = SUBMIT_ORDER" "bc_intent_hash c = bc_intent_hash c'" for z z' c c'
  proof -
    obtain y y' where y: "y \<in> set (command_authorizations s)" "z = g y"
      "y' \<in> set (command_authorizations s)" "z' = g y'" using zs by (auto simp: rows)
    have "y = y'" using bound [OF y(1)] bound [OF y(3)] b sub y ok
      unfolding authorizations_ok_def by (auto simp: binds_def)
    then show ?thesis using y by simp
  qed
  ultimately show ?thesis unfolding authorizations_ok_def by blast
qed

lemma authorizations_ok_frame:
  assumes "authorizations_ok s" and "command_authorizations s' = command_authorizations s"
    and "\<And>k. consumed s k \<Longrightarrow> consumed s' k"
    and "\<And>k c. stored_command s k = Some c \<Longrightarrow>
       \<exists>u. stored_command s' k = Some u \<and> successor c u \<and> bc_attempt_history u = bc_attempt_history c"
  shows "authorizations_ok s'"
proof (rule authorizations_ok_map [OF assms(1), of s' id])
  fix z c assume z: "z \<in> set (command_authorizations s)" "binds s z c" "claim_ok s z c"
  obtain u where u: "stored_command s' (tz_command_id z) = Some u" "successor c u"
    "bc_attempt_history u = bc_attempt_history c" using assms(4) z(2) by (auto simp: binds_def)
  then show "\<exists>c'. stored_command s' (tz_command_id z) = Some c' \<and> bc_operation c' = bc_operation c \<and>
      bc_intent_hash c' = bc_intent_hash c \<and> claim_ok s' (id z) c'"
    using claim_ok_successor [OF z(3) assms(3) u(2,3), of z] by (auto simp: successor_def)
qed (use assms(2) in simp_all)

lemma authorizations_ok_insert:
  assumes ok: "authorizations_ok s" and free: "key_free tz_command_id (tz_command_id z0) (command_authorizations s)"
    and rows: "command_authorizations s' = command_authorizations s @ [z0]"
    and keep: "\<And>k. consumed s k \<Longrightarrow> consumed s' k"
      "\<And>z. z \<in> set (command_authorizations s) \<Longrightarrow>
         stored_command s' (tz_command_id z) = stored_command s (tz_command_id z)"
    and new: "stored_command s' (tz_command_id z0) = Some c0" "claim_ok s' z0 c0"
      "bc_operation c0 = SUBMIT_ORDER \<Longrightarrow>
         \<forall>z\<in>set (command_authorizations s). \<forall>c. binds s z c \<longrightarrow> bc_intent_hash c = bc_intent_hash c0 \<longrightarrow>
           bc_operation c \<noteq> SUBMIT_ORDER"
  shows "authorizations_ok s'"
proof -
  have old: "binds s' z = binds s z" if "z \<in> set (command_authorizations s)" for z
    using keep(2) [OF that] by (auto simp: binds_def)
  have "claim_ok s' z c" if "claim_ok s z c" for z c
    using that keep(1) by (auto simp: claim_ok_alt)
  then have "\<exists>c. binds s' z c \<and> claim_ok s' z c" if "z \<in> set (command_authorizations s')" for z
    using that ok keep(2) new(1,2) unfolding rows authorizations_ok_def binds_def by auto
  moreover have "unique_by tz_command_id (command_authorizations s')"
    using ok free by (simp add: authorizations_ok_def rows unique_by_append)
  moreover have "z = z'" if zs: "z \<in> set (command_authorizations s')" "z' \<in> set (command_authorizations s')"
      and b: "binds s' z c" "binds s' z' c'" and sub: "bc_operation c = SUBMIT_ORDER"
        "bc_operation c' = SUBMIT_ORDER" "bc_intent_hash c = bc_intent_hash c'" for z z' c c'
  proof -
    have clash: "False" if "y \<in> set (command_authorizations s)" "binds s' y d" "binds s' z0 d0"
      "bc_operation d = SUBMIT_ORDER" "bc_operation d0 = SUBMIT_ORDER"
      "bc_intent_hash d = bc_intent_hash d0" for y d d0
      using that old [OF that(1)] new by (auto simp: binds_def)
    have "z \<in> set (command_authorizations s) \<or> z = z0" "z' \<in> set (command_authorizations s) \<or> z' = z0"
      using zs by (auto simp: rows)
    then show ?thesis
    proof (elim disjE)
      assume "z \<in> set (command_authorizations s)" "z' \<in> set (command_authorizations s)"
      then show ?thesis using ok old b sub unfolding authorizations_ok_def by metis
    qed (use clash b sub in metis)+
  qed
  ultimately show ?thesis unfolding authorizations_ok_def by blast
qed

section \<open>Preservation\<close>

text \<open>Operations that do not touch the command tables.\<close>

definition same_ledger :: "store \<Rightarrow> store \<Rightarrow> bool" where
  "same_ledger s s' \<longleftrightarrow> broker_commands s' = broker_commands s \<and> command_events s' = command_events s \<and>
     command_authorizations s' = command_authorizations s \<and> (\<forall>k. consumed s k \<longrightarrow> consumed s' k)"

lemma same_ledger_refl [simp]: "same_ledger s s"
  by (simp add: same_ledger_def)

lemma stored_command_cong: "broker_commands s' = broker_commands s \<Longrightarrow> stored_command s' = stored_command s"
  by (auto simp: stored_command_def get_command_def)

lemma stored_command_valid: "stored_command s k = Some c \<Longrightarrow> valid_command c"
  by (auto dest!: stored_command_SomeD command_from_json_valid)

lemma successor_refl: "valid_command c \<Longrightarrow> successor c c"
  by (simp add: successor_def)

lemma ledger_ok_same:
  assumes "ledger_ok s" and "same_ledger s s'"
  shows "ledger_ok s'"
proof -
  have "authorizations_ok s'"
  proof (rule authorizations_ok_frame [of s])
    fix k c assume "stored_command s k = Some c"
    then show "\<exists>u. stored_command s' k = Some u \<and> successor c u \<and> bc_attempt_history u = bc_attempt_history c"
      using assms(2) successor_refl [OF stored_command_valid]
      by (simp add: same_ledger_def stored_command_cong [of s' s])
  qed (use assms in \<open>simp_all add: ledger_ok_def same_ledger_def\<close>)
  then show ?thesis using assms by (simp add: ledger_ok_def same_ledger_def)
qed

lemma consumed_approvals:
  "consumed (s\<lparr>approvals := approvals s @ rs\<rparr>) k \<longleftrightarrow> consumed s k \<or> (\<exists>r\<in>set rs. ta_approval_id r = k \<and> ta_consumed_at r \<noteq> None)"
  by (auto simp: consumed_def)

lemma mark_consumed_Inr:
  assumes "mark_consumed key t s = Inr s'"
  shows "consumed s' k \<longleftrightarrow> k = key \<or> consumed s k"
    and "s' = s\<lparr>approvals := approvals s'\<rparr>"
    and "map ta_approval_id (approvals s') = map ta_approval_id (approvals s)"
proof -
  let ?open = "\<lambda>r. ta_approval_id r = key \<and> ta_consumed_at r = None"
  have s': "s' = s\<lparr>approvals := update_rows ?open (\<lambda>r. r\<lparr>ta_consumed_at := Some t\<rparr>) (approvals s)\<rparr>"
    and "filter ?open (approvals s) \<noteq> []"
    using assms by (auto simp: mark_consumed_def Let_def)
  then obtain r where "r \<in> set (approvals s)" "?open r" by (auto simp: filter_empty_conv)
  then show "consumed s' k \<longleftrightarrow> k = key \<or> consumed s k"
    unfolding consumed_def s'
    by (simp add: set_update_rows del: if_image_distrib not_None_eq)
      (cases "k = key"; metis (no_types, lifting) option.distinct(1))
  show "s' = s\<lparr>approvals := approvals s'\<rparr>"
    "map ta_approval_id (approvals s') = map ta_approval_id (approvals s)"
    by (simp_all add: s' map_update_rows)
qed

lemma mark_consumed_same: "mark_consumed key t s = Inr s' \<Longrightarrow> same_ledger s s'"
  using mark_consumed_Inr(1) [of key t s s'] by (auto simp: same_ledger_def mark_consumed_def Let_def)

lemma insert_intents_same: "insert_intents wall is s = Inr s' \<Longrightarrow> same_ledger s s'"
  by (induction wall "is" s rule: insert_intents.induct)
    (auto simp: same_ledger_def consumed_def split: if_splits)

lemma insert_history_Inr:
  "insert_history h s = Inr s' \<Longrightarrow> s' = s\<lparr>instrument_symbol_history := instrument_symbol_history s @ [h]\<rparr>"
  by (auto simp: insert_history_def)

lemma quiet_calls:
  "same_ledger s (snd (register_instrument wall i s))"
  "same_ledger s (snd (rename_instrument_symbol k symb t s))"
  "same_ledger s (snd (save_broker_mapping m s))"
  "same_ledger s (snd (save_intents wall is s))"
  "same_ledger s (snd (save_risk_decision H wall d s))"
  "same_ledger s (snd (save_approval H wall a s))"
  "same_ledger s (snd (consume_approval k t s))"
proof -
  show "same_ledger s (snd (register_instrument wall i s))"
    by (auto simp: register_instrument_def transaction_def raiseIf_def same_ledger_def consumed_def
        split: option.splits sum.splits if_splits dest!: insert_history_Inr)
  show "same_ledger s (snd (save_intents wall is s))"
    by (auto simp: save_intents_def transaction_def split: sum.splits dest!: insert_intents_same)
  show "same_ledger s (snd (save_broker_mapping m s))"
    by (auto simp: save_broker_mapping_def transaction_def raiseIf_def same_ledger_def consumed_def
        split: option.splits sum.splits if_splits)
  show "same_ledger s (snd (save_risk_decision H wall d s))"
    by (auto simp: save_risk_decision_def insert_risk_def transaction_def same_ledger_def consumed_def
        split: option.splits sum.splits)
  show "same_ledger s (snd (save_approval H wall a s))"
    by (auto simp: save_approval_def insert_approval_def transaction_def same_ledger_def consumed_approvals
        split: option.splits sum.splits)
  show "same_ledger s (snd (consume_approval k t s))"
    by (auto simp: consume_approval_def transaction_def split: sum.splits dest!: mark_consumed_same)
  show "same_ledger s (snd (rename_instrument_symbol k symb t s))"
    by (auto simp: rename_instrument_symbol_def transaction_def Let_def same_ledger_def consumed_def
        insert_history_def raiseIf_def bindR_def split: option.splits sum.splits if_splits)
qed

text \<open>Operations that end in an update of one command.\<close>

lemma claim_ok_cong: "approvals s' = approvals s \<Longrightarrow> claim_ok s' = claim_ok s"
  by (intro ext) (simp add: claim_ok_def)

lemma update_rows_id: "update_rows P (\<lambda>r. r) rows = rows"
  by (simp add: update_rows_def)

lemma ledger_ok_update:
  assumes ok: "ledger_ok s" and cur: "command_in_transaction k expected s = Inr (row, c)"
    and same: "broker_commands s1 = broker_commands s" "command_events s1 = command_events s"
      "command_authorizations s1 = update_rows (\<lambda>z. tz_command_id z = k) f (command_authorizations s)"
    and mono: "\<And>a. consumed s a \<Longrightarrow> consumed s1 a" and key: "\<And>z. tz_command_id (f z) = tz_command_id z"
    and upd: "update_command wall row c u det s1 = Inr (c', s')" and u: "successor c u"
    and claim: "\<And>z. z \<in> set (command_authorizations s) \<Longrightarrow> tz_command_id z = k \<Longrightarrow> claim_ok s z c \<Longrightarrow> claim_ok s1 (f z) u"
  shows "ledger_ok s'"
proof -
  have cok: "commands_ok (broker_commands s) (command_events s)" and aok: "authorizations_ok s"
    using ok by (simp_all add: ledger_ok_def)
  note eff = update_effect [OF cok cur same(1,2) upd u]
  have "authorizations_ok s'"
  proof (rule authorizations_ok_map [OF aok, of s' "\<lambda>z. if tz_command_id z = k then f z else z"])
    show "command_authorizations s' = map (\<lambda>z. if tz_command_id z = k then f z else z) (command_authorizations s)"
      by (simp add: eff same update_rows_def)
    fix z d assume z: "z \<in> set (command_authorizations s)" "binds s z d" "claim_ok s z d"
    have "consumed s' = consumed s1" using eff(5) by (intro ext) (simp add: consumed_def)
    then have other: "claim_ok s' z d" using z(3) mono by (auto simp: claim_ok_alt)
    show "\<exists>c'. stored_command s' (tz_command_id z) = Some c' \<and> bc_operation c' = bc_operation d \<and>
        bc_intent_hash c' = bc_intent_hash d \<and> claim_ok s' (if tz_command_id z = k then f z else z) c'"
      using z claim [OF z(1)] eff(2) [of "tz_command_id z"] eff(3) u other
      by (auto simp: binds_def successor_def claim_ok_cong [OF eff(5)])
  qed (simp add: key)
  then show ?thesis using eff(1) by (simp add: ledger_ok_def)
qed

lemma command_in_transaction_valid: "command_in_transaction k e s = Inr (row, c) \<Longrightarrow> valid_command c"
  by (auto dest: command_in_transaction_Inr(3) command_from_json_valid)

text \<open>An operation that raises leaves the database as it was.\<close>

lemma raise_keeps:
  "transition_command wall k target det oid ref pos s = (Inl e, s') \<Longrightarrow> s' = s"
  "approve_command wall c a now s = (Inl e, s') \<Longrightarrow> s' = s"
  "authorize_submission H wall c i d a now until s = (Inl e, s') \<Longrightarrow> s' = s"
  "claim_submission H wall c i att s = (Inl e, s') \<Longrightarrow> s' = s"
  "save_risk_bound_command H wall c d s = (Inl e, s') \<Longrightarrow> s' = s"
  "save_command H wall c s = (Inl e, s') \<Longrightarrow> s' = s"
  by (auto simp: transition_command_def approve_command_def authorize_submission_def claim_submission_def
      save_risk_bound_command_def save_command_def split: sum.splits option.splits if_splits)

lemma transition_command_Inr:
  assumes "transition_command wall k target det oid ref pos s = (Inr x, s')"
  obtains row c u where "command_in_transaction k None s = Inr (row, c)"
    "transition c target oid ref pos = Inr u" "update_command wall row c u det s = Inr (x, s')"
  using assms by (auto simp: transition_command_def)

lemma ledger_ok_transition_command:
  assumes "ledger_ok s" and "transition_command wall k target det oid ref pos s = (Inr x, s')"
  shows "ledger_ok s'"
proof -
  obtain row c u where cur: "command_in_transaction k None s = Inr (row, c)"
    and u: "transition c target oid ref pos = Inr u" and upd: "update_command wall row c u det s = Inr (x, s')"
    by (rule transition_command_Inr [OF assms(2)])
  note suc = transition_successor [OF u command_in_transaction_valid [OF cur]]
  show ?thesis
  proof (rule ledger_ok_update [OF assms(1) cur _ _ _ _ _ upd, of "\<lambda>z. z"])
    fix z assume "claim_ok s z c"
    then show "claim_ok s z u" using suc by (auto intro: claim_ok_successor)
  qed (use suc in \<open>simp_all add: update_rows_id\<close>)
qed

lemma approve_command_Inr:
  assumes "approve_command wall command a now s = (Inr x, s')"
  obtains moment off row c binding decision s1 u where
    "now = Aware moment off"
    "command_in_transaction (uuid_str (bc_command_id command)) (Some command) s = Inr (row, c)"
    "bc_state c = AWAITING_APPROVAL" "bound_risk c s = Inr (binding, decision)"
    "validate_approval_binding c decision a moment = Inr ()" "tz_approval_id binding = None"
    "insert_approval wall a s = Inr s1"
    "key_free tz_approval_id (Some (uuid_str (ap_approval_id a))) (command_authorizations s1)"
    "transition c APPROVED None None None = Inr u"
    "update_command wall row c u [(''approval_id'', uuid_str (ap_approval_id a))]
       (update_authorization (uuid_str (bc_command_id c))
          (\<lambda>z. z\<lparr>tz_approval_id := Some (uuid_str (ap_approval_id a))\<rparr>) s1) = Inr (x, s')"
proof -
  show ?thesis
    using assms that
    by (cases now; cases "insert_approval wall a s")
      (auto simp: approve_command_def Let_def split: sum.splits)
qed

lemma bound_risk_Inr:
  assumes "bound_risk c s = Inr (binding, decision)"
  shows "binding \<in> set (command_authorizations s)" and "tz_command_id binding = uuid_str (bc_command_id c)"
    and "rd_intent_hash decision = bc_intent_hash c" and "rd_outcome decision = ACCEPTED"
    and "list_all rc_passed (rd_checks decision)"
    and "\<exists>r\<in>set (risk_decisions s). tr_decision_id r = tz_risk_decision_id binding \<and>
           risk_from_json (tr_payload_json r) = Inr decision"
    and "\<exists>r. find_row (\<lambda>r. tr_intent_hash r = bc_intent_hash c) (rev (risk_decisions s)) = Some r \<and>
           tr_decision_id r = uuid_str (rd_decision_id decision)"
proof -
  show "\<exists>r. find_row (\<lambda>r. tr_intent_hash r = bc_intent_hash c) (rev (risk_decisions s)) = Some r \<and>
      tr_decision_id r = uuid_str (rd_decision_id decision)"
    using assms by (auto simp: bound_risk_def)
qed (use assms in \<open>auto simp: bound_risk_def dest!: find_row_Some\<close>)

lemma insert_approval_Inr:
  assumes "insert_approval wall a s = Inr s1"
  shows "s1 = s\<lparr>approvals := approvals s @ [approval_row_of wall a]\<rparr>"
    and "key_free ta_approval_id (uuid_str (ap_approval_id a)) (approvals s)"
  using assms by (auto simp: insert_approval_def)

lemma ledger_ok_approve_command:
  assumes ok: "ledger_ok s" and run: "approve_command wall command a now s = (Inr x, s')"
  shows "ledger_ok s'"
proof (rule approve_command_Inr [OF run])
  fix moment off row c binding decision s1 u
  let ?k = "uuid_str (bc_command_id command)" and ?f = "\<lambda>z. z\<lparr>tz_approval_id := Some (uuid_str (ap_approval_id a))\<rparr>"
  assume cur: "command_in_transaction ?k (Some command) s = Inr (row, c)"
    and b: "bound_risk c s = Inr (binding, decision)" "tz_approval_id binding = None"
    and s1: "insert_approval wall a s = Inr s1" and u: "transition c APPROVED None None None = Inr u"
    and upd: "update_command wall row c u [(''approval_id'', uuid_str (ap_approval_id a))]
      (update_authorization (uuid_str (bc_command_id c)) ?f s1) = Inr (x, s')"
  note eq = insert_approval_Inr(1) [OF s1]
  have c: "c = command" using command_in_transaction_Inr(4) [OF cur] by simp
  note suc = transition_successor [OF u command_in_transaction_valid [OF cur]]
  have z_eq: "z = binding" if "z \<in> set (command_authorizations s)" "tz_command_id z = ?k" for z
    using that ok bound_risk_Inr(1,2) [OF b(1)] c
    by (auto simp: ledger_ok_def authorizations_ok_def intro: unique_by_inj)
  show ?thesis
  proof (rule ledger_ok_update [OF ok cur _ _ _ _ _ upd, of ?f])
    fix z assume z: "z \<in> set (command_authorizations s)" "tz_command_id z = ?k" "claim_ok s z c"
    have "tz_submission_claimed_at z = None" using z b(2) z_eq by (auto simp: claim_ok_alt)
    then show "claim_ok (update_authorization (uuid_str (bc_command_id c)) ?f s1) (?f z) u"
      using suc z(3) by (simp add: claim_ok_alt)
  qed (use suc c in \<open>simp_all add: update_authorization_def eq consumed_def\<close>)
qed

lemma authorize_submission_Inr:
  assumes "authorize_submission H wall command intent decision a authorized_at valid_until s = (Inr x, s')"
  obtains moment off deadline off' row c binding ar s1 u where
    "authorized_at = Aware moment off" "valid_until = Aware deadline off'" "moment < deadline"
    "command_in_transaction (uuid_str (bc_command_id command)) (Some command) s = Inr (row, c)"
    "bc_state c = APPROVED" "persisted_intent H c intent s = Inr ()"
    "bound_risk c s = Inr (binding, decision)" "tz_approval_id binding = Some (uuid_str (ap_approval_id a))"
    "ar \<in> set (approvals s)" "ta_approval_id ar = uuid_str (ap_approval_id a)"
    "approval_from_json (ta_payload_json ar) = Inr a"
    "validate_approval_binding c decision a moment = Inr ()"
    "deadline \<le> oi_expires_at intent" "deadline \<le> ap_expires_at a"
    "mark_consumed (uuid_str (ap_approval_id a)) moment s = Inr s1"
    "transition c SUBMISSION_PENDING None None None = Inr u"
    "update_command wall row c u [(''approval_id'', uuid_str (ap_approval_id a))]
       (update_authorization (uuid_str (bc_command_id c))
          (\<lambda>z. z\<lparr>tz_authorized_at := Some moment, tz_valid_until := Some deadline\<rparr>) s1) = Inr (x, s')"
proof -
  obtain moment off deadline off' where t: "authorized_at = Aware moment off" "valid_until = Aware deadline off'"
    "moment < deadline"
    using assms by (cases authorized_at; cases valid_until)
      (auto simp: authorize_submission_def raiseIf_def split: if_splits)
  show ?thesis
    using assms that [OF t] t
    by (auto simp: authorize_submission_def Let_def split: sum.splits dest!: find_row_Some)
qed

lemma ledger_ok_authorize_submission:
  assumes ok: "ledger_ok s"
    and run: "authorize_submission H wall command intent decision a authorized_at valid_until s = (Inr x, s')"
  shows "ledger_ok s'"
proof (rule authorize_submission_Inr [OF run])
  fix moment off deadline off' row c binding ar s1 u
  let ?k = "uuid_str (bc_command_id command)"
    and ?f = "\<lambda>z. z\<lparr>tz_authorized_at := Some moment, tz_valid_until := Some deadline\<rparr>"
  assume cur: "command_in_transaction ?k (Some command) s = Inr (row, c)"
    and s1: "mark_consumed (uuid_str (ap_approval_id a)) moment s = Inr s1"
    and u: "transition c SUBMISSION_PENDING None None None = Inr u"
    and upd: "update_command wall row c u [(''approval_id'', uuid_str (ap_approval_id a))]
      (update_authorization (uuid_str (bc_command_id c)) ?f s1) = Inr (x, s')"
  have same: "same_ledger s s1" by (rule mark_consumed_same [OF s1])
  have c: "c = command" using command_in_transaction_Inr(4) [OF cur] by simp
  note suc = transition_successor [OF u command_in_transaction_valid [OF cur]]
  show ?thesis
  proof (rule ledger_ok_update [OF ok cur _ _ _ _ _ upd, of ?f])
    fix z assume "claim_ok s z c"
    then have "claim_ok s1 (?f z) u"
      using suc same by (auto simp: same_ledger_def intro: claim_ok_successor)
    then show "claim_ok (update_authorization (uuid_str (bc_command_id c)) ?f s1) (?f z) u"
      by (subst claim_ok_cong [of _ s1]) (simp_all add: update_authorization_def)
  qed (use suc c same in \<open>simp_all add: update_authorization_def same_ledger_def consumed_def\<close>)
qed

lemma claim_submission_Inr:
  assumes "claim_submission H wall command intent attempt s = (Inr x, s')"
  obtains row c binding decision authorized_at valid_until ar stored u where
    "command_in_transaction (uuid_str (bc_command_id command)) (Some command) s = Inr (row, c)"
    "bc_state c = SUBMISSION_PENDING" "persisted_intent H c intent s = Inr ()"
    "bound_risk c s = Inr (binding, decision)" "bc_attempt_history c = []"
    "tz_submission_claimed_at binding = None" "ca_attempt_number attempt = 1"
    "ca_request_id attempt = bc_logical_request_id c" "ca_outcome attempt = ''send_started''"
    "bc_operation c = SUBMIT_ORDER" "tz_authorized_at binding = Some authorized_at"
    "tz_valid_until binding = Some valid_until" "authorized_at \<le> ca_attempted_at attempt"
    "ca_attempted_at attempt < valid_until"
    "ar \<in> set (approvals s)" "tz_approval_id binding = Some (ta_approval_id ar)" "ta_consumed_at ar \<noteq> None"
    "approval_from_json (ta_payload_json ar) = Inr stored"
    "validate_approval_binding c decision stored (ca_attempted_at attempt) = Inr ()"
    "with_attempt c attempt = Inr u"
    "update_command wall row c u [(''attempt_number'', ''1''), (''submission_claim'', ''durable'')]
       (update_authorization (uuid_str (bc_command_id c))
          (\<lambda>z. z\<lparr>tz_submission_claimed_at := Some (ca_attempted_at attempt)\<rparr>) s) = Inr (x, s')"
proof -
  obtain row c binding decision where pre:
    "command_in_transaction (uuid_str (bc_command_id command)) (Some command) s = Inr (row, c)"
    "bc_state c = SUBMISSION_PENDING" "persisted_intent H c intent s = Inr ()"
    "bound_risk c s = Inr (binding, decision)" "bc_attempt_history c = []"
    "tz_submission_claimed_at binding = None" "ca_attempt_number attempt = 1"
    "ca_request_id attempt = bc_logical_request_id c" "ca_outcome attempt = ''send_started''"
    using assms by (auto simp: claim_submission_def)
  obtain authorized_at valid_until where auth: "bc_operation c = SUBMIT_ORDER"
    "tz_authorized_at binding = Some authorized_at" "tz_valid_until binding = Some valid_until"
    using assms pre
    by (cases "bc_operation c"; cases "tz_authorized_at binding"; cases "tz_valid_until binding")
      (auto simp: claim_submission_def)
  show ?thesis
    using assms that [OF pre auth] pre auth
    by (auto simp: claim_submission_def Let_def dest!: find_row_Some)
qed

lemma ledger_ok_claim_submission:
  assumes ok: "ledger_ok s" and run: "claim_submission H wall command intent attempt s = (Inr x, s')"
    and att: "valid_attempt attempt"
  shows "ledger_ok s'"
proof (rule claim_submission_Inr [OF run])
  fix row c binding decision authorized_at valid_until ar stored u
  let ?k = "uuid_str (bc_command_id command)"
    and ?f = "\<lambda>z. z\<lparr>tz_submission_claimed_at := Some (ca_attempted_at attempt)\<rparr>"
  assume cur: "command_in_transaction ?k (Some command) s = Inr (row, c)"
    and pre: "bc_state c = SUBMISSION_PENDING" "bound_risk c s = Inr (binding, decision)"
      "bc_attempt_history c = []" "ca_request_id attempt = bc_logical_request_id c" "bc_operation c = SUBMIT_ORDER"
      "ar \<in> set (approvals s)" "tz_approval_id binding = Some (ta_approval_id ar)" "ta_consumed_at ar \<noteq> None"
    and u: "with_attempt c attempt = Inr u"
    and upd: "update_command wall row c u [(''attempt_number'', ''1''), (''submission_claim'', ''durable'')]
       (update_authorization (uuid_str (bc_command_id c)) ?f s) = Inr (x, s')"
  have c: "c = command" using command_in_transaction_Inr(4) [OF cur] by simp
  note suc = with_attempt_successor [OF u command_in_transaction_valid [OF cur] att]
  have z_eq: "z = binding" if "z \<in> set (command_authorizations s)" "tz_command_id z = ?k" for z
    using that ok bound_risk_Inr(1,2) [OF pre(2)] c
    by (auto simp: ledger_ok_def authorizations_ok_def intro: unique_by_inj)
  show ?thesis
  proof (rule ledger_ok_update [OF ok cur _ _ _ _ _ upd, of ?f])
    fix z assume "z \<in> set (command_authorizations s)" "tz_command_id z = ?k"
    then have "z = binding" by (rule z_eq)
    then have "claim_ok s (?f z) u"
      using suc pre by (auto simp: claim_ok_def successor_def)
    then show "claim_ok (update_authorization (uuid_str (bc_command_id c)) ?f s) (?f z) u"
      by (subst claim_ok_cong [of _ s]) (simp_all add: update_authorization_def)
  qed (use suc c in \<open>simp_all add: update_authorization_def consumed_def\<close>)
qed

text \<open>Inserting commands.\<close>

lemma stored_command_fresh:
  "key_free tc_command_id k (broker_commands s) \<Longrightarrow> stored_command s k = None"
  by (cases "stored_command s k") (auto simp: key_free_iff dest: stored_command_SomeD)

lemma ledger_ok_insert_command:
  assumes ok: "ledger_ok s" and c: "valid_command c" and ins: "insert_command wall c s = Inr s'"
  shows "ledger_ok s'"
    and "stored_command s' k = (if k = uuid_str (bc_command_id c) then Some c else stored_command s k)"
    and "stored_command s (uuid_str (bc_command_id c)) = None"
proof -
  note eff = insert_command_Inr [OF ins]
  show none: "stored_command s (uuid_str (bc_command_id c)) = None"
    by (rule stored_command_fresh [OF eff(2)])
  have sto: "stored_command s' j = (if j = uuid_str (bc_command_id c) then Some c else stored_command s j)" for j
    using stored_command_insert [OF c eff(2), of s' wall] by (simp add: eff(1))
  then show "stored_command s' k = (if k = uuid_str (bc_command_id c) then Some c else stored_command s k)" .
  have "authorizations_ok s'"
  proof (rule authorizations_ok_frame [of s])
    fix j d assume d: "stored_command s j = Some d"
    then show "\<exists>u. stored_command s' j = Some u \<and> successor d u \<and> bc_attempt_history u = bc_attempt_history d"
      using none sto successor_refl [OF stored_command_valid [OF d]] by auto
  qed (use ok in \<open>simp_all add: eff(1) ledger_ok_def consumed_def\<close>)
  then show "ledger_ok s'"
    using commands_ok_insert [OF _ c eff(2,3)] ok by (simp add: ledger_ok_def eff(1))
qed

lemma submission_commands_none:
  assumes ok: "ledger_ok s" and none: "submission_commands h s = Inr []"
    and c: "stored_command s k = Some c" "bc_intent_hash c = h"
  shows "bc_operation c \<noteq> SUBMIT_ORDER"
proof -
  obtain r where r: "r \<in> set (broker_commands s)" "command_from_json (tc_payload_json r) = Inr c"
    using stored_command_SomeD [OF c(1)] by blast
  then have "tc_intent_hash r = h"
    using ok c(2) by (auto simp: ledger_ok_def commands_ok_def row_agrees_def)
  moreover obtain cs where cs: "mapR (\<lambda>r. command_from_json (tc_payload_json r))
      (filter (\<lambda>r. tc_intent_hash r = h) (broker_commands s)) = Inr cs"
    and "filter (\<lambda>c. bc_operation c = SUBMIT_ORDER) cs = []"
    using none by (auto simp: submission_commands_def)
  ultimately show ?thesis
    using r mapR_mem [OF cs, of r] by (auto simp: filter_empty_conv)
qed

lemma insert_authorization_Inr:
  assumes "insert_authorization k d s = Inr s'"
  shows "s' = s\<lparr>command_authorizations := command_authorizations s @
      [\<lparr>tz_command_id = k, tz_risk_decision_id = d, tz_approval_id = None, tz_authorized_at = None,
        tz_valid_until = None, tz_submission_claimed_at = None\<rparr>]\<rparr>"
    and "key_free tz_command_id k (command_authorizations s)"
  using assms by (auto simp: insert_authorization_def)

lemma save_risk_bound_command_Inr:
  assumes "save_risk_bound_command H wall command decision s = (Inr x, s')"
  obtains ir intent s1 s2 s3 row c u where
    "bc_state command = PROPOSED" "bc_attempt_history command = []"
    "bc_intent_hash command = rd_intent_hash decision"
    "find_row (\<lambda>r. ti_intent_hash r = bc_intent_hash command) (order_intents s) = Some ir"
    "intent_from_json H (ti_payload_json ir) = Inr intent" "bc_environment command = oi_environment intent"
    "bc_operation command = SUBMIT_ORDER \<Longrightarrow> submission_commands (bc_intent_hash command) s = Inr []"
    "insert_risk wall decision s = Inr s1" "insert_command wall command s1 = Inr s2"
    "insert_authorization (uuid_str (bc_command_id command)) (uuid_str (rd_decision_id decision)) s2 = Inr s3"
    "command_in_transaction (uuid_str (bc_command_id command)) None s3 = Inr (row, c)"
    "transition c (if rd_outcome decision = ACCEPTED then AWAITING_APPROVAL else RISK_REJECTED) None None None = Inr u"
    "update_command wall row c u [] s3 = Inr (x, s')"
proof -
  have "\<not> (bc_state command \<noteq> PROPOSED \<or> bc_attempt_history command \<noteq> [])"
    "bc_intent_hash command = rd_intent_hash decision"
    using assms by (auto simp: save_risk_bound_command_def split: if_splits)
  then show ?thesis
    using assms that
    by (cases "bc_operation command = SUBMIT_ORDER") (auto simp: save_risk_bound_command_def Let_def)
qed

lemma insert_risk_same: "insert_risk wall d s = Inr s1 \<Longrightarrow> same_ledger s s1"
  by (auto simp: insert_risk_def same_ledger_def consumed_def)

lemma ledger_ok_save_risk_bound_command:
  assumes ok: "ledger_ok s" and valid: "valid_command command"
    and run: "save_risk_bound_command H wall command decision s = (Inr x, s')"
  shows "ledger_ok s'"
proof (rule save_risk_bound_command_Inr [OF run])
  fix ir intent s1 s2 s3 row c u
  let ?k = "uuid_str (bc_command_id command)"
  assume fresh: "bc_attempt_history command = []"
    "bc_operation command = SUBMIT_ORDER \<Longrightarrow> submission_commands (bc_intent_hash command) s = Inr []"
    and ins: "insert_risk wall decision s = Inr s1" "insert_command wall command s1 = Inr s2"
    "insert_authorization ?k (uuid_str (rd_decision_id decision)) s2 = Inr s3"
    and cur: "command_in_transaction ?k None s3 = Inr (row, c)"
    and u: "transition c (if rd_outcome decision = ACCEPTED then AWAITING_APPROVAL else RISK_REJECTED) None None None = Inr u"
    and upd: "update_command wall row c u [] s3 = Inr (x, s')"
  have ok1: "ledger_ok s1" by (rule ledger_ok_same [OF ok insert_risk_same [OF ins(1)]])
  have sto1: "stored_command s1 = stored_command s"
    using insert_risk_same [OF ins(1)] by (intro stored_command_cong) (simp add: same_ledger_def)
  note i2 = ledger_ok_insert_command [OF ok1 valid ins(2)]
  note eq2 = insert_command_Inr(1) [OF ins(2)]
  note i3 = insert_authorization_Inr [OF ins(3)]
  have sto3: "stored_command s3 = stored_command s2" by (rule stored_command_cong) (simp add: i3(1))
  have "authorizations_ok s3"
  proof (rule authorizations_ok_insert [of s2])
    show "authorizations_ok s2" using i2(1) by (simp add: ledger_ok_def)
    assume sub: "bc_operation command = SUBMIT_ORDER"
    show "\<forall>z\<in>set (command_authorizations s2). \<forall>d. binds s2 z d \<longrightarrow> bc_intent_hash d = bc_intent_hash command \<longrightarrow>
        bc_operation d \<noteq> SUBMIT_ORDER"
      using i2(2) i3(2) submission_commands_none [OF ok fresh(2) [OF sub]]
      by (auto simp: binds_def key_free_iff sto1)
  qed (use i3 fresh(1) i2(2) sto3 in \<open>auto simp: consumed_def claim_ok_def\<close>)
  then have ok3: "ledger_ok s3" using i2(1) by (simp add: ledger_ok_def i3(1))
  note suc = transition_successor [OF u command_in_transaction_valid [OF cur]]
  show ?thesis
  proof (rule ledger_ok_update [OF ok3 cur _ _ _ _ _ upd, of "\<lambda>z. z"])
    fix z assume "claim_ok s3 z c"
    then show "claim_ok s3 z u" using suc by (auto intro: claim_ok_successor)
  qed (use suc in \<open>simp_all add: update_rows_id\<close>)
qed

lemma ledger_ok_save_command:
  assumes "ledger_ok s" and "valid_command c" and "save_command H wall c s = (Inr x, s')"
  shows "ledger_ok s'"
  using assms ledger_ok_insert_command(1) [OF assms(1,2), of wall s']
  by (auto simp: save_command_def split: sum.splits option.splits)

lemma ledger_ok_exec:
  assumes "ledger_ok s" and "valid_call H c"
  shows "ledger_ok (store_exec H c s)"
  using assms
  by (cases c)
    (auto intro!: ledger_ok_same [OF _ quiet_calls(1)] ledger_ok_same [OF _ quiet_calls(2)]
      ledger_ok_same [OF _ quiet_calls(3)] ledger_ok_same [OF _ quiet_calls(4)]
      ledger_ok_same [OF _ quiet_calls(5)] ledger_ok_same [OF _ quiet_calls(6)]
      ledger_ok_same [OF _ quiet_calls(7)] keep_or_commit [where P = ledger_ok and s = s]
      dest: raise_keeps intro: ledger_ok_save_command ledger_ok_save_risk_bound_command
      ledger_ok_approve_command ledger_ok_authorize_submission ledger_ok_claim_submission
      ledger_ok_transition_command)

lemma ledger_ok_empty: "ledger_ok empty_store"
  by (simp add: ledger_ok_def commands_ok_def authorizations_ok_def empty_store_def unique_by_def)

section \<open>Key columns\<close>

text \<open>The unique columns of the schema that the commands rely on.\<close>

definition keys_ok :: "store \<Rightarrow> bool" where
  "keys_ok s \<longleftrightarrow> unique_by ta_approval_id (approvals s) \<and> unique_by tr_decision_id (risk_decisions s) \<and>
     unique_by ti_intent_hash (order_intents s) \<and>
     unique_by ir_internal_instrument_id (instruments s) \<and>
     unique_by (\<lambda>r. (ir_canonical_symbol r, ir_exchange r)) (instruments s) \<and>
     unique_by mapping_key (broker_instrument_mappings s) \<and>
     unique_by (\<lambda>r. (mr_broker r, mr_environment r, mr_broker_instrument_id r)) (broker_instrument_mappings s)"

lemma keys_ok_cong:
  assumes "approvals s' = approvals s" and "risk_decisions s' = risk_decisions s"
    and "order_intents s' = order_intents s" and "instruments s' = instruments s"
    and "broker_instrument_mappings s' = broker_instrument_mappings s"
  shows "keys_ok s' = keys_ok s"
  using assms by (simp add: keys_ok_def)

lemma keys_ok_insert_intents: "insert_intents wall is s = Inr s' \<Longrightarrow> keys_ok s \<Longrightarrow> keys_ok s'"
  by (induction wall "is" s rule: insert_intents.induct)
    (auto simp: keys_ok_def unique_by_append intent_row_of_def split: if_splits)

lemma keys_ok_insert_risk: "insert_risk wall d s = Inr s' \<Longrightarrow> keys_ok s \<Longrightarrow> keys_ok s'"
  by (auto simp: insert_risk_def keys_ok_def unique_by_append risk_row_of_def)

lemma keys_ok_insert_approval: "insert_approval wall a s = Inr s' \<Longrightarrow> keys_ok s \<Longrightarrow> keys_ok s'"
  by (auto simp: insert_approval_def keys_ok_def unique_by_append approval_row_of_def)

lemma keys_ok_mark_consumed: "mark_consumed k t s = Inr s' \<Longrightarrow> keys_ok s \<Longrightarrow> keys_ok s'"
  by (auto simp: mark_consumed_def Let_def keys_ok_def unique_by_update)

lemma keys_ok_insert_command: "insert_command wall c s = Inr s' \<Longrightarrow> keys_ok s \<Longrightarrow> keys_ok s'"
  by (drule insert_command_Inr(1)) (simp add: keys_ok_def)

lemma keys_ok_update_command: "update_command wall row c u det s = Inr (x, s') \<Longrightarrow> keys_ok s \<Longrightarrow> keys_ok s'"
  by (drule update_command_Inr(2)) (simp add: keys_ok_def)

lemma keys_ok_update_authorization [simp]: "keys_ok (update_authorization k f s) = keys_ok s"
  by (simp add: keys_ok_def update_authorization_def)

lemma keys_ok_insert_authorization: "insert_authorization k d s = Inr s' \<Longrightarrow> keys_ok s \<Longrightarrow> keys_ok s'"
  by (drule insert_authorization_Inr(1)) (simp add: keys_ok_def)

lemmas keys_ok_writes = keys_ok_insert_intents keys_ok_insert_risk keys_ok_insert_approval
  keys_ok_mark_consumed keys_ok_insert_command keys_ok_update_command keys_ok_insert_authorization

lemma keys_ok_register_instrument:
  "register_instrument wall i s = (Inr x, s') \<Longrightarrow> keys_ok s \<Longrightarrow> keys_ok s'"
  by (auto simp: register_instrument_def insert_history_def raiseIf_def keys_ok_def unique_by_append
      instrument_row_of_def find_row_None key_free_iff split: option.splits if_splits)

lemma keys_ok_rename:
  "rename_instrument_symbol k symb t s = (r, s') \<Longrightarrow> keys_ok s \<Longrightarrow> keys_ok s'"
  by (auto simp: rename_instrument_symbol_def transaction_def Let_def insert_history_def raiseIf_def bindR_def
      keys_ok_def unique_by_update split: option.splits sum.splits if_splits)

lemma keys_ok_save_mapping:
  "save_broker_mapping m s = (Inr x, s') \<Longrightarrow> keys_ok s \<Longrightarrow> keys_ok s'"
  by (auto simp: save_broker_mapping_def raiseIf_def keys_ok_def unique_by_append mapping_row_of_def
      find_row_None key_free_iff split: option.splits if_splits sum.splits)

lemma keys_ok_commands:
  "keys_ok s \<Longrightarrow> transition_command wall k target det oid ref pos s = (Inr x, s') \<Longrightarrow> keys_ok s'"
  "keys_ok s \<Longrightarrow> approve_command wall c a now s = (Inr x, s') \<Longrightarrow> keys_ok s'"
  "keys_ok s \<Longrightarrow> authorize_submission H wall c i d a now until s = (Inr x, s') \<Longrightarrow> keys_ok s'"
  "keys_ok s \<Longrightarrow> claim_submission H wall c i att s = (Inr x, s') \<Longrightarrow> keys_ok s'"
  "keys_ok s \<Longrightarrow> save_risk_bound_command H wall c d s = (Inr x, s') \<Longrightarrow> keys_ok s'"
  by (auto elim!: transition_command_Inr approve_command_Inr authorize_submission_Inr claim_submission_Inr
      save_risk_bound_command_Inr dest!: keys_ok_writes)

lemma keys_ok_simple:
  "keys_ok s \<Longrightarrow> save_intents wall is s = (Inr x, s') \<Longrightarrow> keys_ok s'"
  "keys_ok s \<Longrightarrow> save_risk_decision H wall d s = (Inr x, s') \<Longrightarrow> keys_ok s'"
  "keys_ok s \<Longrightarrow> save_approval H wall a s = (Inr x, s') \<Longrightarrow> keys_ok s'"
  "keys_ok s \<Longrightarrow> consume_approval k t s = (Inr x, s') \<Longrightarrow> keys_ok s'"
  "keys_ok s \<Longrightarrow> save_command H wall c s = (Inr x, s') \<Longrightarrow> keys_ok s'"
  by (auto simp: save_intents_def save_risk_decision_def save_approval_def consume_approval_def save_command_def
      dest!: keys_ok_writes split: sum.splits option.splits if_splits)

lemma raise_keeps_simple:
  "register_instrument wall i s = (Inl e, s') \<Longrightarrow> s' = s"
  "save_broker_mapping m s = (Inl e, s') \<Longrightarrow> s' = s"
  "save_intents wall is s = (Inl e, s') \<Longrightarrow> s' = s"
  "save_risk_decision H wall d s = (Inl e, s') \<Longrightarrow> s' = s"
  "save_approval H wall a s = (Inl e, s') \<Longrightarrow> s' = s"
  "consume_approval k t s = (Inl e, s') \<Longrightarrow> s' = s"
  by (auto simp: register_instrument_def save_broker_mapping_def save_intents_def save_risk_decision_def
      save_approval_def consume_approval_def split: sum.splits option.splits if_splits)

lemma keys_ok_exec:
  assumes "keys_ok s"
  shows "keys_ok (store_exec H c s)"
proof (cases c)
  case (Rename_Symbol k symb t)
  then show ?thesis using keys_ok_rename [OF prod.collapse [symmetric] assms] by simp
qed (use assms in \<open>auto intro!: keep_or_commit [where P = keys_ok and s = s] dest: raise_keeps raise_keeps_simple
      intro: keys_ok_commands keys_ok_simple keys_ok_register_instrument keys_ok_save_mapping\<close>)

lemma keys_ok_empty: "keys_ok empty_store"
  by (simp add: keys_ok_def empty_store_def unique_by_def)

section \<open>Evidence rows\<close>

text \<open>Every row of evidence decodes, and its key columns are those of the decoded object.\<close>

definition risk_row_ok :: "risk_row \<Rightarrow> bool" where
  "risk_row_ok r \<longleftrightarrow> (\<exists>d. risk_from_json (tr_payload_json r) = Inr d \<and>
     tr_decision_id r = uuid_str (rd_decision_id d) \<and> tr_intent_hash r = rd_intent_hash d)"

definition approval_row_ok :: "approval_row \<Rightarrow> bool" where
  "approval_row_ok r \<longleftrightarrow> (\<exists>a. approval_from_json (ta_payload_json r) = Inr a \<and>
     ta_approval_id r = uuid_str (ap_approval_id a) \<and> ta_intent_hash r = ap_intent_hash a)"

definition intent_row_ok :: "digest \<Rightarrow> intent_row \<Rightarrow> bool" where
  "intent_row_ok H r \<longleftrightarrow> (\<exists>i. intent_from_json H (ti_payload_json r) = Inr i \<and>
     ti_intent_hash r = oi_intent_hash i \<and> oi_intent_hash i = compute_hash H i)"

definition evidence_ok :: "digest \<Rightarrow> store \<Rightarrow> bool" where
  "evidence_ok H s \<longleftrightarrow> list_all (intent_row_ok H) (order_intents s) \<and> list_all risk_row_ok (risk_decisions s) \<and>
     list_all approval_row_ok (approvals s)"

lemma evidence_rows_new:
  "valid_decision d \<Longrightarrow> risk_row_ok (risk_row_of wall d)"
  "valid_approval a \<Longrightarrow> approval_row_ok (approval_row_of wall a)"
  by (auto simp: risk_row_ok_def risk_row_of_def approval_row_ok_def approval_row_of_def)

lemma intent_row_new: "valid_intent H i \<Longrightarrow> intent_row_ok H (intent_row_of wall i)"
  using intent_roundtrip [of H i] valid_intent_norm [of H i]
  by (auto simp: intent_row_ok_def intent_row_of_def valid_intent_def intent_ok_def intent_norm_def)

lemma evidence_ok_insert_intents:
  "insert_intents wall is s = Inr s' \<Longrightarrow> list_all (valid_intent H) is \<Longrightarrow> evidence_ok H s \<Longrightarrow> evidence_ok H s'"
  by (induction wall "is" s rule: insert_intents.induct)
    (auto simp: evidence_ok_def intent_row_new split: if_splits)

lemma approval_row_ok_consumed: "approval_row_ok (r\<lparr>ta_consumed_at := t\<rparr>) = approval_row_ok r"
  by (simp add: approval_row_ok_def)

lemma evidence_ok_mark_consumed: "mark_consumed k t s = Inr s' \<Longrightarrow> evidence_ok H s' = evidence_ok H s"
  by (auto simp: mark_consumed_def Let_def evidence_ok_def update_rows_def list.pred_map comp_def
      if_distrib [of approval_row_ok] approval_row_ok_consumed cong: if_cong)

lemma evidence_ok_insert_risk:
  "insert_risk wall d s = Inr s' \<Longrightarrow> valid_decision d \<Longrightarrow> evidence_ok H s \<Longrightarrow> evidence_ok H s'"
  by (auto simp: insert_risk_def evidence_ok_def evidence_rows_new)

lemma evidence_ok_insert_approval:
  "insert_approval wall a s = Inr s' \<Longrightarrow> valid_approval a \<Longrightarrow> evidence_ok H s \<Longrightarrow> evidence_ok H s'"
  by (auto simp: insert_approval_def evidence_ok_def evidence_rows_new)

lemma evidence_ok_command_writes:
  "update_command wall row c u det s = Inr (x, s') \<Longrightarrow> evidence_ok H s' = evidence_ok H s"
  "insert_command wall c s = Inr s' \<Longrightarrow> evidence_ok H s' = evidence_ok H s"
  "insert_authorization k d s = Inr s' \<Longrightarrow> evidence_ok H s' = evidence_ok H s"
  "evidence_ok H (update_authorization k f s) = evidence_ok H s"
  by (auto simp: evidence_ok_def update_authorization_def
      dest!: update_command_Inr(2) insert_command_Inr(1) insert_authorization_Inr(1))

lemma evidence_ok_commands:
  "evidence_ok H s \<Longrightarrow> transition_command wall k target det oid ref pos s = (Inr x, s') \<Longrightarrow> evidence_ok H s'"
  "evidence_ok H s \<Longrightarrow> valid_approval a \<Longrightarrow> approve_command wall c a now s = (Inr x, s') \<Longrightarrow> evidence_ok H s'"
  "evidence_ok H s \<Longrightarrow> authorize_submission H wall c i d a now until s = (Inr x, s') \<Longrightarrow> evidence_ok H s'"
  "evidence_ok H s \<Longrightarrow> claim_submission H wall c i att s = (Inr x, s') \<Longrightarrow> evidence_ok H s'"
  "evidence_ok H s \<Longrightarrow> valid_decision d \<Longrightarrow> save_risk_bound_command H wall c d s = (Inr x, s') \<Longrightarrow> evidence_ok H s'"
  by (auto elim!: transition_command_Inr approve_command_Inr authorize_submission_Inr claim_submission_Inr
      save_risk_bound_command_Inr simp: evidence_ok_command_writes evidence_ok_mark_consumed
      dest: evidence_ok_insert_approval evidence_ok_insert_risk)

lemma evidence_ok_simple:
  "evidence_ok H s \<Longrightarrow> list_all (valid_intent H) is \<Longrightarrow> save_intents wall is s = (Inr x, s') \<Longrightarrow> evidence_ok H s'"
  "evidence_ok H s \<Longrightarrow> valid_decision d \<Longrightarrow> save_risk_decision H wall d s = (Inr x, s') \<Longrightarrow> evidence_ok H s'"
  "evidence_ok H s \<Longrightarrow> valid_approval a \<Longrightarrow> save_approval H wall a s = (Inr x, s') \<Longrightarrow> evidence_ok H s'"
  "evidence_ok H s \<Longrightarrow> consume_approval k t s = (Inr x, s') \<Longrightarrow> evidence_ok H s'"
  "evidence_ok H s \<Longrightarrow> save_command H wall c s = (Inr x, s') \<Longrightarrow> evidence_ok H s'"
  by (auto simp: save_intents_def save_risk_decision_def save_approval_def consume_approval_def save_command_def
      evidence_ok_mark_consumed evidence_ok_command_writes split: sum.splits option.splits if_splits
      dest: evidence_ok_insert_intents evidence_ok_insert_risk evidence_ok_insert_approval)

lemma evidence_ok_registry:
  "evidence_ok H (snd (register_instrument wall i s)) = evidence_ok H s"
  "evidence_ok H (snd (rename_instrument_symbol k symb t s)) = evidence_ok H s"
  "evidence_ok H (snd (save_broker_mapping m s)) = evidence_ok H s"
  by (auto simp: register_instrument_def rename_instrument_symbol_def save_broker_mapping_def transaction_def
      Let_def insert_history_def raiseIf_def bindR_def evidence_ok_def
      split: option.splits sum.splits if_splits)

lemma evidence_ok_exec:
  assumes "evidence_ok H s" and "valid_call H c"
  shows "evidence_ok H (store_exec H c s)"
  using assms
  by (cases c) (auto simp: evidence_ok_registry intro!: keep_or_commit [where P = "evidence_ok H" and s = s]
      dest: raise_keeps raise_keeps_simple intro: evidence_ok_commands evidence_ok_simple)

section \<open>The invariant of the database\<close>

definition db_ok :: "digest \<Rightarrow> store \<Rightarrow> bool" where
  "db_ok H s \<longleftrightarrow> ledger_ok s \<and> keys_ok s \<and> evidence_ok H s"

interpretation db: invariant_calls "store_exec H" "valid_call H" "db_ok H" for H
  by unfold_locales (simp add: db_ok_def ledger_ok_exec keys_ok_exec evidence_ok_exec)

lemma evidence_ok_empty: "evidence_ok H empty_store"
  by (simp add: evidence_ok_def empty_store_def)

lemma db_ok_empty: "db_ok H empty_store"
  by (simp add: db_ok_def ledger_ok_empty keys_ok_empty evidence_ok_empty)

text \<open>The databases that calls on valid arguments can build.\<close>

definition database :: "digest \<Rightarrow> store_call list \<Rightarrow> store" where
  "database H calls = run_calls (store_exec H) calls empty_store"

lemma db_ok_reachable: "list_all (valid_call H) calls \<Longrightarrow> db_ok H (database H calls)"
  unfolding database_def by (rule db.inv_run [OF db_ok_empty])

end
