(* ===== verification/Claims.thy ===== *)
theory Claims
  imports Ledger
begin

text \<open>
  What the command ledger promises its clients: commands only move along the lifecycle, an
  approval is consumed once, the claim to send is given out once per command and once per
  intent, whatever calls are interleaved, and a claim is only given out on complete, current
  evidence. The one-time promises are the interpretations of the locale \<open>once_only\<close>.
\<close>

section \<open>Definitions\<close>

definition returned :: "('a result \<times> 's) \<Rightarrow> 'a list" where
  "returned out = (case fst out of Inl e \<Rightarrow> [] | Inr x \<Rightarrow> [x])"

text \<open>The commands a call gives a send claim for, by command id and by intent.\<close>

fun claim_results :: "digest \<Rightarrow> store_call \<Rightarrow> store \<Rightarrow> broker_command list" where
  "claim_results H (Claim_Submission wall c i att) s = returned (claim_submission H wall c i att s)"
| "claim_results H _ s = []"

definition claim_grants :: "digest \<Rightarrow> store_call \<Rightarrow> store \<Rightarrow> string list" where
  "claim_grants H c s = map (\<lambda>x. uuid_str (bc_command_id x)) (claim_results H c s)"

definition intent_grants :: "digest \<Rightarrow> store_call \<Rightarrow> store \<Rightarrow> string list" where
  "intent_grants H c s = map bc_intent_hash (claim_results H c s)"

definition intent_claimed :: "store \<Rightarrow> string \<Rightarrow> bool" where
  "intent_claimed s h \<longleftrightarrow> (\<exists>k c. claimed s k \<and> stored_command s k = Some c \<and> bc_intent_hash c = h)"

text \<open>The approvals a call consumes.\<close>

fun consume_grants :: "digest \<Rightarrow> store_call \<Rightarrow> store \<Rightarrow> string list" where
  "consume_grants H (Consume_Approval k t) s = map (\<lambda>_. k) (returned (consume_approval k t s))"
| "consume_grants H (Authorize_Submission wall c i d a t t') s =
     map (\<lambda>_. uuid_str (ap_approval_id a)) (returned (authorize_submission H wall c i d a t t' s))"
| "consume_grants H _ s = []"

lemma set_returned: "x \<in> set (returned out) \<longleftrightarrow> (\<exists>s'. out = (Inr x, s'))"
  by (cases out) (auto simp: returned_def split: sum.splits)

lemma returned_cases: "returned out = [] \<or> (\<exists>x s'. out = (Inr x, s') \<and> returned out = [x])"
  by (cases out) (auto simp: returned_def split: sum.splits)

lemma distinct_returned: "distinct (map f (returned out))"
  using returned_cases [of out] by auto

lemma claim_results_iff:
  "x \<in> set (claim_results H c s) \<longleftrightarrow>
     (\<exists>wall cmd i att. c = Claim_Submission wall cmd i att \<and>
        claim_submission H wall cmd i att s = (Inr x, store_exec H c s))"
  by (cases c) (auto simp: set_returned)

section \<open>Commands evolve along the lifecycle\<close>

definition evolves :: "store \<Rightarrow> store \<Rightarrow> bool" where
  "evolves s s' \<longleftrightarrow> (\<forall>k c. stored_command s k = Some c \<longrightarrow> (\<exists>u. stored_command s' k = Some u \<and> successor c u))"

lemma evolves_same: "broker_commands s' = broker_commands s \<Longrightarrow> evolves s s'"
  by (auto simp: evolves_def stored_command_cong [of s' s] intro: successor_refl stored_command_valid)

lemma evolves_update:
  assumes "ledger_ok s" and "command_in_transaction k expected s = Inr (row, c)"
    and "update_command wall row c u det s1 = Inr (x, s')" and "successor c u"
    and "broker_commands s1 = broker_commands s" "command_events s1 = command_events s"
  shows "evolves s s'"
proof -
  note eff = update_effect [OF _ assms(2,5,6,3,4)]
  show ?thesis
    using assms(1,4) eff(2,3) unfolding evolves_def
    by (auto simp: ledger_ok_def intro: successor_refl stored_command_valid)
qed

lemma evolves_insert:
  assumes "ledger_ok s" and "valid_command c" and "insert_command wall c s = Inr s'"
  shows "evolves s s'"
  using ledger_ok_insert_command(2,3) [OF assms]
  by (auto simp: evolves_def intro: successor_refl stored_command_valid)

lemma same_rows [simp]:
  "broker_commands (update_authorization k f s) = broker_commands s"
  "command_events (update_authorization k f s) = command_events s"
  "approvals (update_authorization k f s) = approvals s"
  by (simp_all add: update_authorization_def)

lemma step_successor:
  assumes "command_in_transaction k e s = Inr (row, c)"
  shows "transition c target oid ref pos = Inr u \<Longrightarrow> successor c u"
    and "with_attempt c att = Inr u \<Longrightarrow> valid_attempt att \<Longrightarrow> successor c u"
  using transition_successor with_attempt_successor command_in_transaction_valid [OF assms] by blast+

lemma evolves_commands:
  assumes ok: "ledger_ok s"
  shows "transition_command wall k target det oid ref pos s = (Inr x, s') \<Longrightarrow> evolves s s'"
    and "approve_command wall c a now s = (Inr x, s') \<Longrightarrow> evolves s s'"
    and "authorize_submission H wall c i d a now until s = (Inr x, s') \<Longrightarrow> evolves s s'"
    and "claim_submission H wall c i att s = (Inr x, s') \<Longrightarrow> valid_attempt att \<Longrightarrow> evolves s s'"
proof -
  show "transition_command wall k target det oid ref pos s = (Inr x, s') \<Longrightarrow> evolves s s'"
    by (elim transition_command_Inr) (blast intro: evolves_update [OF ok _ _ _ refl refl] step_successor)
  show "claim_submission H wall c i att s = (Inr x, s') \<Longrightarrow> valid_attempt att \<Longrightarrow> evolves s s'"
    by (elim claim_submission_Inr) (blast intro: evolves_update [OF ok _ _ _ same_rows(1,2)] step_successor)
  show "approve_command wall c a now s = (Inr x, s') \<Longrightarrow> evolves s s'"
    by (elim approve_command_Inr, frule insert_approval_Inr(1))
      (rule evolves_update [OF ok], assumption, assumption, blast intro: step_successor, simp, simp)
  show "authorize_submission H wall c i d a now until s = (Inr x, s') \<Longrightarrow> evolves s s'"
    by (elim authorize_submission_Inr, frule mark_consumed_same)
      (rule evolves_update [OF ok], assumption, assumption, blast intro: step_successor,
        simp add: same_ledger_def, simp add: same_ledger_def)
qed

lemma evolves_save_risk_bound_command:
  assumes ok: "ledger_ok s" and c: "valid_command command"
    and run: "save_risk_bound_command H wall command decision s = (Inr x, s')"
  shows "evolves s s'"
proof (rule save_risk_bound_command_Inr [OF run])
  fix ir intent s1 s2 s3 row d u
  assume ins: "insert_risk wall decision s = Inr s1" "insert_command wall command s1 = Inr s2"
      "insert_authorization (uuid_str (bc_command_id command)) (uuid_str (rd_decision_id decision)) s2 = Inr s3"
    and cur: "command_in_transaction (uuid_str (bc_command_id command)) None s3 = Inr (row, d)"
    and upd: "update_command wall row d u [] s3 = Inr (x, s')"
    and u: "transition d (if rd_outcome decision = ACCEPTED then AWAITING_APPROVAL else RISK_REJECTED) None None None = Inr u"
  note same = insert_risk_same [OF ins(1)]
  have ok1: "ledger_ok s1" by (rule ledger_ok_same [OF ok same])
  have sto1: "stored_command s1 = stored_command s"
    using same by (intro stored_command_cong) (simp add: same_ledger_def)
  note i2 = ledger_ok_insert_command [OF ok1 c ins(2)]
  note i3 = insert_authorization_Inr(1) [OF ins(3)]
  have sto3: "stored_command s3 = stored_command s2" by (rule stored_command_cong) (simp add: i3)
  have "commands_ok (broker_commands s3) (command_events s3)" using i2(1) by (simp add: i3 ledger_ok_def)
  note eff = update_effect(2) [OF this cur refl refl upd
      conjunct1 [OF transition_successor [OF u command_in_transaction_valid [OF cur]]]]
  show ?thesis
    using eff i2(2,3) sto3 sto1 unfolding evolves_def
    by (auto intro: successor_refl stored_command_valid)
qed

lemma exec_evolves:
  assumes "ledger_ok s" and "valid_call H c"
  shows "evolves s (store_exec H c s)"
proof -
  have refl: "evolves s s" by (rule evolves_same) simp
  have quiet: "evolves s s'" if "same_ledger s s'" for s'
    using that by (intro evolves_same) (simp add: same_ledger_def)
  show ?thesis
  proof (cases c)
    case (Save_Command wall d)
    have "evolves s s'" if "save_command H wall d s = (Inr x, s')" for x s'
      using that assms Save_Command evolves_insert [of s d wall s']
      by (auto simp: save_command_def split: sum.splits option.splits)
    then show ?thesis using Save_Command refl raise_keeps
      by (auto intro!: keep_or_commit [where P = "evolves s" and s = s])
  next
    case (Save_Risk_Bound_Command wall d r)
    then show ?thesis using assms refl raise_keeps evolves_save_risk_bound_command
      by (auto intro!: keep_or_commit [where P = "evolves s" and s = s])
  qed (use assms refl quiet quiet_calls raise_keeps evolves_commands in
      \<open>auto intro!: keep_or_commit [where P = "evolves s" and s = s]\<close>)
qed

section \<open>Claims and consumptions are permanent\<close>

lemma claimed_map:
  assumes "claimed s k" and "command_authorizations s' = update_rows P f (command_authorizations s) @ zs"
    and "\<And>z. tz_command_id (f z) = tz_command_id z"
    and "\<And>z. tz_submission_claimed_at z \<noteq> None \<Longrightarrow> tz_submission_claimed_at (f z) \<noteq> None"
  shows "claimed s' k"
proof -
  obtain z where "z \<in> set (command_authorizations s)" "tz_command_id z = k" "tz_submission_claimed_at z \<noteq> None"
    using assms(1) by (auto simp: claimed_def)
  then show ?thesis
    using assms(2-4) unfolding claimed_def
    by (intro bexI [of _ "if P z then f z else z"]) (auto simp: set_update_rows simp del: if_image_distrib)
qed

lemma claimed_cong: "command_authorizations s' = command_authorizations s \<Longrightarrow> claimed s' = claimed s"
  by (intro ext) (simp add: claimed_def)

lemma consumed_cong: "approvals s' = approvals s \<Longrightarrow> consumed s' = consumed s"
  by (intro ext) (simp add: consumed_def)

lemma update_command_tables:
  assumes "update_command wall row c u det s = Inr (x, s')"
  shows "command_authorizations s' = command_authorizations s" and "approvals s' = approvals s"
    and "risk_decisions s' = risk_decisions s" and "order_intents s' = order_intents s"
  using update_command_Inr(2) [OF assms] by simp_all

lemma command_calls_tables:
  "transition_command wall k target det oid ref pos s = (Inr x, s') \<Longrightarrow>
     command_authorizations s' = command_authorizations s \<and> approvals s' = approvals s"
  "save_command H wall c s = (Inr y, s') \<Longrightarrow>
     command_authorizations s' = command_authorizations s \<and> approvals s' = approvals s"
  "save_risk_bound_command H wall c d s = (Inr x, s') \<Longrightarrow>
     (\<exists>zs. command_authorizations s' = command_authorizations s @ zs) \<and> approvals s' = approvals s"
  "approve_command wall c a now s = (Inr x, s') \<Longrightarrow>
     (\<exists>P. command_authorizations s' =
        update_rows P (\<lambda>z. z\<lparr>tz_approval_id := Some (uuid_str (ap_approval_id a))\<rparr>) (command_authorizations s)) \<and>
     approvals s' = approvals s @ [approval_row_of wall a]"
  by (auto elim!: transition_command_Inr save_risk_bound_command_Inr approve_command_Inr
      dest!: update_command_Inr(2) insert_command_Inr(1) insert_authorization_Inr(1) insert_approval_Inr(1)
      simp: save_command_def insert_risk_def update_authorization_def split: sum.splits option.splits)

lemma authorize_tables:
  assumes "authorize_submission H wall c i d a now until s = (Inr x, s')"
  shows "\<exists>P t t'. command_authorizations s' =
      update_rows P (\<lambda>z. z\<lparr>tz_authorized_at := t, tz_valid_until := t'\<rparr>) (command_authorizations s)"
    and "consumed s' k \<longleftrightarrow> k = uuid_str (ap_approval_id a) \<or> consumed s k"
proof -
  obtain s1 row d' u moment deadline where m: "mark_consumed (uuid_str (ap_approval_id a)) moment s = Inr s1"
    and upd: "update_command wall row d' u [(''approval_id'', uuid_str (ap_approval_id a))]
       (update_authorization (uuid_str (bc_command_id d'))
          (\<lambda>z. z\<lparr>tz_authorized_at := Some moment, tz_valid_until := Some deadline\<rparr>) s1) = Inr (x, s')"
    by (rule authorize_submission_Inr [OF assms]) blast
  note eff = update_command_tables(1,2) [OF upd]
  show "\<exists>P t t'. command_authorizations s' =
      update_rows P (\<lambda>z. z\<lparr>tz_authorized_at := t, tz_valid_until := t'\<rparr>) (command_authorizations s)"
    using eff(1) mark_consumed_same [OF m] by (auto simp: same_ledger_def update_authorization_def)
  show "consumed s' k \<longleftrightarrow> k = uuid_str (ap_approval_id a) \<or> consumed s k"
    using eff(2) mark_consumed_Inr(1) [OF m] consumed_cong [of s' s1] by simp
qed

lemma claim_tables:
  assumes "claim_submission H wall c i att s = (Inr x, s')"
  shows "command_authorizations s' = update_rows (\<lambda>z. tz_command_id z = uuid_str (bc_command_id c))
      (\<lambda>z. z\<lparr>tz_submission_claimed_at := Some (ca_attempted_at att)\<rparr>) (command_authorizations s)"
    and "approvals s' = approvals s"
proof -
  obtain row d u where cur: "command_in_transaction (uuid_str (bc_command_id c)) (Some c) s = Inr (row, d)"
    and upd: "update_command wall row d u [(''attempt_number'', ''1''), (''submission_claim'', ''durable'')]
       (update_authorization (uuid_str (bc_command_id d))
          (\<lambda>z. z\<lparr>tz_submission_claimed_at := Some (ca_attempted_at att)\<rparr>) s) = Inr (x, s')"
    by (rule claim_submission_Inr [OF assms]) blast
  have "d = c" using command_in_transaction_Inr(4) [OF cur] by simp
  then show "command_authorizations s' = update_rows (\<lambda>z. tz_command_id z = uuid_str (bc_command_id c))
      (\<lambda>z. z\<lparr>tz_submission_claimed_at := Some (ca_attempted_at att)\<rparr>) (command_authorizations s)"
    and "approvals s' = approvals s"
    using update_command_tables(1,2) [OF upd] by (simp_all add: update_authorization_def)
qed

lemma exec_claimed:
  assumes "claimed s k"
  shows "claimed (store_exec H c s) k"
proof -
  have quiet: "claimed s' k" if "same_ledger s s'" for s'
    using that assms claimed_cong [of s' s] by (simp add: same_ledger_def)
  have keep: "claimed s' k" if "command_authorizations s' = command_authorizations s @ zs" for s' zs
    using that assms by (auto simp: claimed_def)
  show ?thesis
  proof (cases c)
    case (Approve_Command wall d a now)
    then show ?thesis using assms
      by (auto intro!: keep_or_commit [where P = "\<lambda>s. claimed s k" and s = s] dest: raise_keeps
          dest!: command_calls_tables(4) intro: claimed_map [where zs = "[]"])
  next
    case (Authorize_Submission wall d i r a t t')
    then show ?thesis using assms
      by (auto intro!: keep_or_commit [where P = "\<lambda>s. claimed s k" and s = s] dest: raise_keeps
          dest!: authorize_tables(1) intro: claimed_map [where zs = "[]"])
  next
    case (Claim_Submission wall d i att)
    then show ?thesis using assms
      by (auto intro!: keep_or_commit [where P = "\<lambda>s. claimed s k" and s = s] dest: raise_keeps
          dest!: claim_tables(1) intro: claimed_map [where zs = "[]"])
  qed (use assms quiet quiet_calls raise_keeps in
      \<open>auto intro!: keep_or_commit [where P = "\<lambda>s. claimed s k" and s = s] dest!: command_calls_tables
         intro: keep [where zs = "[]"] keep\<close>)
qed

lemma exec_consumed:
  assumes "consumed s k"
  shows "consumed (store_exec H c s) k"
proof -
  have quiet: "consumed s' k" if "same_ledger s s'" for s'
    using that assms by (simp add: same_ledger_def)
  have keep: "consumed s' k" if "approvals s' = approvals s @ rs" for s' rs
    using that assms by (auto simp: consumed_def)
  show ?thesis
    by (cases c)
      (use assms quiet quiet_calls raise_keeps in
      \<open>auto intro!: keep_or_commit [where P = "\<lambda>s. consumed s k" and s = s] dest!: command_calls_tables claim_tables(2)
         intro: keep [where rs = "[]"] keep simp: authorize_tables(2)\<close>)
qed

section \<open>What a claim finds and leaves\<close>

lemma claim_submission_facts:
  assumes ok: "ledger_ok s" and att: "valid_attempt att"
    and run: "claim_submission H wall c i att s = (Inr x, s')"
  shows "stored_command s (uuid_str (bc_command_id c)) = Some c" and "bc_state c = SUBMISSION_PENDING"
    and "bc_operation c = SUBMIT_ORDER" and "bc_attempt_history c = []"
    and "x = c\<lparr>bc_attempt_history := [att]\<rparr>"
    and "stored_command s' (uuid_str (bc_command_id c)) = Some x"
    and "\<exists>z\<in>set (command_authorizations s). tz_command_id z = uuid_str (bc_command_id c) \<and>
           tz_submission_claimed_at z = None"
    and "claimed s' (uuid_str (bc_command_id c))"
proof -
  obtain row d binding decision u where cur: "command_in_transaction (uuid_str (bc_command_id c)) (Some c) s = Inr (row, d)"
    and b: "bc_state d = SUBMISSION_PENDING" "bound_risk d s = Inr (binding, decision)" "bc_attempt_history d = []"
      "tz_submission_claimed_at binding = None" "bc_operation d = SUBMIT_ORDER"
    and u: "with_attempt d att = Inr u"
    and upd: "update_command wall row d u [(''attempt_number'', ''1''), (''submission_claim'', ''durable'')]
       (update_authorization (uuid_str (bc_command_id d))
          (\<lambda>z. z\<lparr>tz_submission_claimed_at := Some (ca_attempted_at att)\<rparr>) s) = Inr (x, s')"
    by (rule claim_submission_Inr [OF run]) blast
  have d: "d = c" using command_in_transaction_Inr(4) [OF cur] by simp
  have suc: "successor d u" using step_successor(2) [OF cur u att] .
  have cok: "commands_ok (broker_commands s) (command_events s)" using ok by (simp add: ledger_ok_def)
  note eff = update_effect [OF cok cur same_rows(1,2) upd suc]
  show "stored_command s (uuid_str (bc_command_id c)) = Some c" using eff(3) d by simp
  show "bc_state c = SUBMISSION_PENDING" "bc_operation c = SUBMIT_ORDER" "bc_attempt_history c = []"
    using b d by simp_all
  show x: "x = c\<lparr>bc_attempt_history := [att]\<rparr>"
    using eff(9) with_attempt_Inr(1) [OF u] b d by simp
  show "stored_command s' (uuid_str (bc_command_id c)) = Some x" using eff(2,9) by simp
  show z: "\<exists>z\<in>set (command_authorizations s). tz_command_id z = uuid_str (bc_command_id c) \<and>
      tz_submission_claimed_at z = None"
    using bound_risk_Inr(1,2) [OF b(2)] b(4) d by auto
  then show "claimed s' (uuid_str (bc_command_id c))"
    unfolding claimed_def claim_tables(1) [OF run]
    by (auto simp: set_update_rows simp del: if_image_distrib)
qed

lemma unclaimed_row:
  assumes "ledger_ok s" and "z \<in> set (command_authorizations s)" and "tz_command_id z = k"
  shows "claimed s k \<longleftrightarrow> tz_submission_claimed_at z \<noteq> None"
  using assms unfolding claimed_def ledger_ok_def authorizations_ok_def
  by (metis unique_by_inj)

lemma claim_was_free:
  assumes ok: "ledger_ok s" and att: "valid_attempt att"
    and run: "claim_submission H wall c i att s = (Inr x, s')"
  shows "\<not> claimed s (uuid_str (bc_command_id c))" and "\<not> intent_claimed s (bc_intent_hash c)"
proof -
  note f = claim_submission_facts [OF ok att run]
  obtain z where z: "z \<in> set (command_authorizations s)" "tz_command_id z = uuid_str (bc_command_id c)"
    "tz_submission_claimed_at z = None" using f(7) by auto
  then show "\<not> claimed s (uuid_str (bc_command_id c))" using unclaimed_row [OF ok z(1,2)] by simp
  show "\<not> intent_claimed s (bc_intent_hash c)"
  proof
    assume "intent_claimed s (bc_intent_hash c)"
    then obtain k d y where d: "stored_command s k = Some d" "bc_intent_hash d = bc_intent_hash c"
      "y \<in> set (command_authorizations s)" "tz_command_id y = k" "tz_submission_claimed_at y \<noteq> None"
      by (auto simp: intent_claimed_def claimed_def)
    have "binds s y d" "binds s z c" using d z f(1) by (simp_all add: binds_def)
    moreover from this have "bc_operation d = SUBMIT_ORDER"
      using ok d(3,5) by (fastforce simp: ledger_ok_def authorizations_ok_def binds_def claim_ok_def)
    ultimately have "y = z"
      using ok d z f(3) unfolding ledger_ok_def authorizations_ok_def by metis
    then show False using d z by simp
  qed
qed

lemma mark_consumed_free:
  assumes "keys_ok s" and "mark_consumed k t s = Inr s'"
  shows "\<not> consumed s k"
proof -
  have "filter (\<lambda>r. ta_approval_id r = k \<and> ta_consumed_at r = None) (approvals s) \<noteq> []"
    using assms(2) by (auto simp: mark_consumed_def Let_def)
  then obtain r where "r \<in> set (approvals s)" "ta_approval_id r = k" "ta_consumed_at r = None"
    by (auto simp: filter_empty_conv)
  moreover have "unique_by ta_approval_id (approvals s)" using assms(1) by (simp add: keys_ok_def)
  ultimately show ?thesis unfolding consumed_def by (metis unique_by_inj)
qed

interpretation claims: once_only "store_exec H" "valid_call H" "db_ok H" "claim_grants H" claimed for H
proof
  fix s c k assume ok: "db_ok H s" "valid_call H c"
  then have lok: "ledger_ok s" by (simp add: db_ok_def)
  show "distinct (claim_grants H c s)"
    by (cases c) (simp_all add: claim_grants_def distinct_returned)
  show "claimed s k \<Longrightarrow> claimed (store_exec H c s) k" by (rule exec_claimed)
  assume "k \<in> set (claim_grants H c s)"
  then obtain x wall cmd i att where x: "k = uuid_str (bc_command_id x)" "c = Claim_Submission wall cmd i att"
    "claim_submission H wall cmd i att s = (Inr x, store_exec H c s)"
    by (auto simp: claim_grants_def claim_results_iff)
  have att: "valid_attempt att" using ok(2) x(2) by simp
  note f = claim_submission_facts [OF lok att x(3)]
  have k: "k = uuid_str (bc_command_id cmd)" using x(1) f(5) by simp
  show "\<not> claimed s k" using claim_was_free(1) [OF lok att x(3)] k by simp
  show "claimed (store_exec H c s) k" using f(8) k by simp
qed

interpretation intent_claims: once_only "store_exec H" "valid_call H" "db_ok H" "intent_grants H" intent_claimed for H
proof
  fix s c h assume ok: "db_ok H s" "valid_call H c"
  then have lok: "ledger_ok s" by (simp add: db_ok_def)
  show "distinct (intent_grants H c s)"
    by (cases c) (simp_all add: intent_grants_def distinct_returned)
  show "intent_claimed s h \<Longrightarrow> intent_claimed (store_exec H c s) h"
    using exec_claimed exec_evolves [OF lok ok(2)] unfolding intent_claimed_def evolves_def successor_def
    by metis
  assume "h \<in> set (intent_grants H c s)"
  then obtain x wall cmd i att where x: "h = bc_intent_hash x" "c = Claim_Submission wall cmd i att"
    "claim_submission H wall cmd i att s = (Inr x, store_exec H c s)"
    by (auto simp: intent_grants_def claim_results_iff)
  have att: "valid_attempt att" using ok(2) x(2) by simp
  note f = claim_submission_facts [OF lok att x(3)]
  have h: "h = bc_intent_hash cmd" using x(1) f(5) by simp
  show "\<not> intent_claimed s h" using claim_was_free(2) [OF lok att x(3)] h by simp
  show "intent_claimed (store_exec H c s) h" using f(6,8) x(1) by (auto simp: intent_claimed_def)
qed

interpretation consumptions: once_only "store_exec H" "valid_call H" "db_ok H" "consume_grants H" consumed for H
proof
  fix s c k assume ok: "db_ok H s" "valid_call H c"
  then have kok: "keys_ok s" by (simp add: db_ok_def)
  show "distinct (consume_grants H c s)" by (cases c) (simp_all add: distinct_returned)
  show "consumed s k \<Longrightarrow> consumed (store_exec H c s) k" by (rule exec_consumed)
  assume k: "k \<in> set (consume_grants H c s)"
  have "\<not> consumed s k \<and> consumed (store_exec H c s) k"
  proof (cases c)
    case (Consume_Approval j t)
    then obtain s' where run: "consume_approval k t s = (Inr (), s')" "k = j"
      using k by (auto simp: set_returned)
    then obtain moment where m: "mark_consumed k moment s = Inr s'"
      by (auto simp: consume_approval_def)
    then show ?thesis
      using Consume_Approval run mark_consumed_free [OF kok m] mark_consumed_Inr(1) [OF m] by simp
  next
    case (Authorize_Submission wall cmd i d a t t')
    then obtain x s' where run: "authorize_submission H wall cmd i d a t t' s = (Inr x, s')"
      "k = uuid_str (ap_approval_id a)" using k by (auto simp: set_returned)
    then obtain moment s1 where "mark_consumed k moment s = Inr s1"
      by (auto elim: authorize_submission_Inr)
    then show ?thesis
      using Authorize_Submission run mark_consumed_free [OF kok] authorize_tables(2) [OF run(1)] by auto
  qed (use k in simp_all)
  then show "\<not> consumed s k" "consumed (store_exec H c s) k" by simp_all
qed

section \<open>A complete run\<close>

text \<open>
  One order from proposal to the send claim, with the evidence of theory \<open>Evidence\<close>: the
  states of the database after each call.
\<close>

definition ex_state :: "command_state \<Rightarrow> broker_command" where
  "ex_state st = ex_command\<lparr>bc_state := st\<rparr>"

definition ex_authorization :: "string option \<Rightarrow> instant option \<Rightarrow> instant option \<Rightarrow> instant option \<Rightarrow> authorization_row" where
  "ex_authorization a t t' c = \<lparr>tz_command_id = uuid_str 5, tz_risk_decision_id = uuid_str 3, tz_approval_id = a,
     tz_authorized_at = t, tz_valid_until = t', tz_submission_claimed_at = c\<rparr>"

definition ex_calls :: "store_call list" where
  "ex_calls =
     [Register_Instrument 0 (ex_instrument 2 ''tech''),
      Save_Intents 0 [ex_intent],
      Save_Risk_Bound_Command 0 ex_command ex_decision,
      Approve_Command 0 (ex_state AWAITING_APPROVAL) ex_approval (utc 102000000),
      Authorize_Submission 0 (ex_state APPROVED) ex_intent ex_decision ex_approval (utc 102000000) (utc 110000000),
      Claim_Submission 0 (ex_state SUBMISSION_PENDING) ex_intent ex_attempt]"

definition ex_row :: "nat \<Rightarrow> broker_command \<Rightarrow> command_row" where
  "ex_row n c = (command_row_of 0 c)\<lparr>tc_revision := n\<rparr>"

definition ex_base :: store where
  "ex_base = empty_store\<lparr>instruments := [instrument_row_of (ex_instrument 2 ''tech'')],
     instrument_symbol_history :=
       [\<lparr>sh_internal_instrument_id = uuid_str 2, sh_symbol = ''AAPL'', sh_effective_at = 0\<rparr>]\<rparr>"

definition ex_store :: "nat \<Rightarrow> store" where
  "ex_store n =
     (let st = (\<lambda>n. [PROPOSED, AWAITING_APPROVAL, APPROVED, SUBMISSION_PENDING, SUBMISSION_PENDING] ! n);
          ev = (\<lambda>n det. update_event 0 (ex_row (n - 1) ex_command) (ex_state (st (n - 1))) (ex_state (st n)) det);
          aid = uuid_str 4
      in ex_base\<lparr>
           order_intents := [intent_row_of 0 ex_intent],
           risk_decisions := (if n < 2 then [] else [risk_row_of 0 ex_decision]),
           approvals := (if n < 3 then [] else
             [(approval_row_of 0 ex_approval)\<lparr>ta_consumed_at := (if n < 4 then None else Some 102000000)\<rparr>]),
           broker_commands := (if n < 2 then [] else
             [ex_row (n - 1) (if n < 5 then ex_state (st (n - 1))
                              else (ex_state SUBMISSION_PENDING)\<lparr>bc_attempt_history := [ex_attempt]\<rparr>)]),
           command_events := take n (if n < 2 then [] else
             [opening_event 0 ex_command, ev 1 [], ev 2 [(''approval_id'', aid)], ev 3 [(''approval_id'', aid)],
              ev 4 [(''attempt_number'', ''1''), (''submission_claim'', ''durable'')]]),
           command_authorizations := (if n < 2 then [] else
             [ex_authorization (if n < 3 then None else Some aid) (if n < 4 then None else Some 102000000)
                (if n < 4 then None else Some 110000000) (if n < 5 then None else Some 103000000)])\<rparr>)"

lemma ex_intent_back: "intent_from_json ex_digest (intent_json ex_intent) = Inr ex_intent"
  using intent_roundtrip [OF ex_valid(4)]
  by (simp add: intent_norm_def dec_norm_def ex_intent_def)

lemma ex_state_valid [simp]: "valid_command (ex_state st)"
  using ex_valid(1) by (simp add: valid_command_def command_ok_def ex_state_def)

lemma ex_state_sel [simp]:
  "bc_command_id (ex_state st) = 5" "bc_logical_request_id (ex_state st) = 6" "bc_intent_hash (ex_state st) = ''sha''"
  "bc_operation (ex_state st) = SUBMIT_ORDER" "bc_environment (ex_state st) = DEMO" "bc_state (ex_state st) = st"
  "bc_attempt_history (ex_state st) = []"
  by (simp_all add: ex_state_def ex_command_def)

lemma ex_state_proposed: "ex_command = ex_state PROPOSED"
  by (simp add: ex_state_def ex_command_def)

lemma ex_state_step:
  "b \<in> set (allowed_transitions a) \<Longrightarrow> transition (ex_state a) b None None None = Inr (ex_state b)"
  using ex_state_valid [of b] by (simp add: transition_def py_or_def valid_command_def ex_state_def ex_command_def)

lemma ex_decision_sel [simp]:
  "rd_decision_id ex_decision = 3" "rd_intent_hash ex_decision = ''sha''" "rd_outcome ex_decision = ACCEPTED"
  "list_all rc_passed (rd_checks ex_decision)" "rd_account_snapshot_id ex_decision = ''snap''"
  "rd_quote_id ex_decision = ''q''" "rd_decided_at ex_decision = 100000000"
  by (simp_all add: ex_decision_def)

lemma ex_approval_sel [simp]:
  "ap_approval_id ex_approval = 4" "ap_intent_hash ex_approval = ''sha''" "ap_environment ex_approval = DEMO"
  "dict_get (ap_limits ex_approval) ''risk_decision_id'' = Some (uuid_str 3)"
  "dict_get (ap_limits ex_approval) ''account_snapshot_id'' = Some ''snap''"
  "dict_get (ap_limits ex_approval) ''quote_id'' = Some ''q''"
  "ap_issued_at ex_approval = 101000000" "ap_expires_at ex_approval = 200000000"
  by (simp_all add: ex_approval_def dict_get_def)

lemma ex_intent_sel [simp]:
  "oi_intent_hash ex_intent = ''sha''" "oi_environment ex_intent = DEMO" "oi_expires_at ex_intent = 1000000000"
  "intent_eq ex_intent ex_intent"
  by (simp_all add: ex_intent_def intent_eq_def)

lemma ex_rows [simp]:
  "ti_intent_hash (intent_row_of 0 ex_intent) = ''sha''"
  "ti_payload_json (intent_row_of 0 ex_intent) = intent_json ex_intent"
  "tr_decision_id (risk_row_of 0 ex_decision) = uuid_str 3" "tr_intent_hash (risk_row_of 0 ex_decision) = ''sha''"
  "tr_payload_json (risk_row_of 0 ex_decision) = decision_json ex_decision"
  "ta_approval_id (approval_row_of 0 ex_approval) = uuid_str 4"
  "ta_payload_json (approval_row_of 0 ex_approval) = approval_json ex_approval"
  "ta_consumed_at (approval_row_of 0 ex_approval) = None"
  "tc_command_id (ex_row n (ex_state st)) = uuid_str 5" "tc_revision (ex_row n c) = n"
  "tc_payload_json (ex_row n c) = command_json c"
  "command_row_of 0 (ex_state st) = ex_row 0 (ex_state st)"
  "te_command_id (opening_event 0 (ex_state st)) = uuid_str 5" "te_revision (opening_event 0 c) = 0"
  "te_command_id (update_event 0 row (ex_state st) u det) = uuid_str 5"
  "te_revision (update_event 0 row c u det) = Suc (tc_revision row)"
  "tz_command_id (ex_authorization a t t' c') = uuid_str 5" "tz_risk_decision_id (ex_authorization a t t' c') = uuid_str 3"
  "tz_approval_id (ex_authorization a t t' c') = a" "tz_authorized_at (ex_authorization a t t' c') = t"
  "tz_valid_until (ex_authorization a t t' c') = t'" "tz_submission_claimed_at (ex_authorization a t t' c') = c'"
  by (simp_all add: intent_row_of_def risk_row_of_def approval_row_of_def command_row_of_def ex_row_def
      opening_event_def update_event_def ex_authorization_def)

lemma ex_updated_row:
  "updated_row 0 (ex_row n (ex_state a)) (ex_state b) (ex_row n (ex_state a)) = ex_row (Suc n) (ex_state b)"
  "updated_row 0 (ex_row n (ex_state a)) ((ex_state b)\<lparr>bc_attempt_history := as\<rparr>) (ex_row n (ex_state a)) =
     ex_row (Suc n) ((ex_state b)\<lparr>bc_attempt_history := as\<rparr>)"
  by (auto simp: updated_row_def ex_row_def command_row_of_def ex_state_def)

lemma update_command_eval:
  assumes "filter (\<lambda>r. tc_command_id r = uuid_str (bc_command_id c) \<and> tc_revision r = tc_revision row) (broker_commands s) = [row]"
    and "broker_commands s = [row]" and "key_free (\<lambda>r. (te_command_id r, te_revision r))
       (uuid_str (bc_command_id c), Suc (tc_revision row)) (command_events s)" and "tc_command_id row = uuid_str (bc_command_id c)"
  shows "update_command wall row c u det s = Inr (u, s\<lparr>broker_commands := [updated_row wall row u row],
     command_events := command_events s @ [update_event wall row c u det]\<rparr>)"
  using assms
  by (simp add: update_command_def Let_def insert_event_def update_rows_def updated_row_def update_event_def
      key_free_iff)

lemma ex_command_row: "broker_commands s = [ex_row n (ex_state st)] \<Longrightarrow>
    command_in_transaction (uuid_str 5) (Some (ex_state st)) s = Inr (ex_row n (ex_state st), ex_state st)"
  by (simp add: command_in_transaction_def)

lemma ex_bound_risk: "command_authorizations s = [ex_authorization a t t' c] \<Longrightarrow>
    risk_decisions s = [risk_row_of 0 ex_decision] \<Longrightarrow>
    bound_risk (ex_state st) s = Inr (ex_authorization a t t' c, ex_decision)"
  by (simp add: bound_risk_def ex_valid)

lemma ex_binding: "101000000 \<le> now \<Longrightarrow> now < 200000000 \<Longrightarrow>
    validate_approval_binding (ex_state st) ex_decision ex_approval now = Inr ()"
  by (simp add: validate_approval_binding_def)

lemma ex_persisted: "order_intents s = [intent_row_of 0 ex_intent] \<Longrightarrow>
    persisted_intent ex_digest (ex_state st) ex_intent s = Inr ()"
  by (simp add: persisted_intent_def ex_intent_back)

lemma ex_attempt_sel [simp]:
  "ca_attempt_number ex_attempt = 1" "ca_request_id ex_attempt = 6" "ca_attempted_at ex_attempt = 103000000"
  "ca_outcome ex_attempt = ''send_started''"
  by (simp_all add: ex_attempt_def)

lemma ex_with_attempt: "with_attempt (ex_state st) ex_attempt =
    Inr ((ex_state st)\<lparr>bc_attempt_history := [ex_attempt]\<rparr>)"
  using ex_state_valid [of st]
  by (simp add: with_attempt_def valid_command_def command_ok_def contiguous_attempts_def)

lemma ex_step0: "register_instrument 0 (ex_instrument 2 ''tech'') empty_store = (Inr (ex_instrument 2 ''tech''), ex_base)"
  by (simp add: register_instrument_def transaction_def empty_store_def key_free_def insert_history_def
      instrument_row_of_def ex_instrument_def ex_base_def)

lemma ex_step1: "save_intents 0 [ex_intent] ex_base = (Inr (), ex_store 1)"
  by (simp add: save_intents_def transaction_def ex_store_def key_free_def ex_base_def empty_store_def Let_def)

lemma ex_step2: "save_risk_bound_command ex_digest 0 ex_command ex_decision (ex_store 1) =
    (Inr (ex_state AWAITING_APPROVAL), ex_store 2)"
  by (simp add: save_risk_bound_command_def transaction_def ex_store_def Let_def ex_state_proposed
      ex_intent_back submission_commands_def insert_risk_def key_free_iff ex_base_def empty_store_def insert_command_def
      insert_event_def opening_event_def insert_authorization_def ex_authorization_def [symmetric]
      command_in_transaction_def ex_state_step update_command_eval ex_updated_row)

lemma ex_step3: "approve_command 0 (ex_state AWAITING_APPROVAL) ex_approval (utc 102000000) (ex_store 2) =
    (Inr (ex_state APPROVED), ex_store 3)"
  by (simp add: approve_command_def transaction_def ex_store_def Let_def ex_base_def empty_store_def ex_command_row
      ex_bound_risk ex_binding insert_approval_def key_free_iff update_authorization_def update_rows_def
      ex_state_step update_command_eval ex_updated_row ex_state_proposed)
    (simp add: ex_authorization_def update_event_def eval_nat_numeral)

lemma ex_step4: "authorize_submission ex_digest 0 (ex_state APPROVED) ex_intent ex_decision ex_approval (utc 102000000)
    (utc 110000000) (ex_store 3) = (Inr (ex_state SUBMISSION_PENDING), ex_store 4)"
  by (simp add: authorize_submission_def transaction_def ex_store_def Let_def ex_base_def empty_store_def ex_command_row
      ex_bound_risk ex_binding ex_persisted ex_valid mark_consumed_def key_free_iff update_authorization_def
      update_rows_def ex_state_step ex_with_attempt update_command_eval ex_updated_row ex_state_proposed)
    (simp add: ex_authorization_def update_event_def eval_nat_numeral)

lemma ex_step5: "claim_submission ex_digest 0 (ex_state SUBMISSION_PENDING) ex_intent ex_attempt (ex_store 4) =
    (Inr ((ex_state SUBMISSION_PENDING)\<lparr>bc_attempt_history := [ex_attempt]\<rparr>), ex_store 5)"
  by (simp add: claim_submission_def transaction_def ex_store_def Let_def ex_base_def empty_store_def ex_command_row
      ex_bound_risk ex_binding ex_persisted ex_valid mark_consumed_def key_free_iff update_authorization_def
      update_rows_def ex_state_step ex_with_attempt update_command_eval ex_updated_row ex_state_proposed)
    (simp add: ex_authorization_def update_event_def eval_nat_numeral)

lemmas ex_steps = ex_step0 ex_step1 ex_step2 [unfolded One_nat_def] ex_step3 ex_step4 ex_step5

lemma ex_calls_valid: "list_all (valid_call ex_digest) (take n ex_calls)"
  using ex_valid by (auto simp: ex_calls_def list_all_iff dest!: in_set_takeD)

lemma ex_database:
  "database ex_digest (take 4 ex_calls) = ex_store 3"
  "database ex_digest (take 5 ex_calls) = ex_store 4"
  "database ex_digest (take 6 ex_calls) = ex_store 5"
  by (simp_all add: database_def ex_calls_def ex_steps)

lemma stored_command_iff: "stored_command s k = Some c \<longleftrightarrow> get_command k s = Inr (Some c)"
  by (auto simp: stored_command_def split: sum.splits option.splits)

section \<open>Properties\<close>





text \<open>
  Over any sequence of calls on the store, from any number of processes, the claim to send
  is given out at most once for a command and at most once for an intent.
\<close>

theorem send_claim_once:
  assumes "list_all (valid_call H) calls"
  shows "distinct (grant_log (store_exec H) (claim_grants H) calls empty_store) \<and>
         distinct (grant_log (store_exec H) (intent_grants H) calls empty_store)"
  using claims.log_distinct [OF db_ok_empty assms] intent_claims.log_distinct [OF db_ok_empty assms] by simp

lemma ex_claim_log: "grant_log (store_exec ex_digest) (claim_grants ex_digest) ex_calls empty_store = [uuid_str 5]"
  by (simp add: ex_calls_def ex_steps claim_grants_def returned_def)

theorem send_claim_once_witness:
  "distinct (grant_log (store_exec ex_digest) (claim_grants ex_digest) (ex_calls @ [ex_calls ! 5]) empty_store) \<and>
   distinct (grant_log (store_exec ex_digest) (intent_grants ex_digest) (ex_calls @ [ex_calls ! 5]) empty_store) \<and>
   grant_log (store_exec ex_digest) (claim_grants ex_digest) ex_calls empty_store = [uuid_str 5]"
  using send_claim_once [of ex_digest "ex_calls @ [ex_calls ! 5]"] ex_calls_valid [of 6] ex_claim_log
  by (simp add: ex_calls_def)

text \<open>
  C8: an approval is consumed at most once, whether by \<open>consume_approval\<close> or by
  \<open>authorize_submission\<close>, over any sequence of calls.
\<close>

theorem approval_consumed_once:
  assumes "list_all (valid_call H) calls"
  shows "distinct (grant_log (store_exec H) (consume_grants H) calls empty_store)"
  using consumptions.log_distinct [OF db_ok_empty assms] .

theorem approval_consumed_once_witness:
  "distinct (grant_log (store_exec ex_digest) (consume_grants ex_digest)
     (ex_calls @ [Consume_Approval (uuid_str 4) (utc 0)]) empty_store) \<and>
   consume_grants ex_digest (ex_calls ! 4) (ex_store 3) = [uuid_str 4]"
  using approval_consumed_once [of ex_digest "ex_calls @ [Consume_Approval (uuid_str 4) (utc 0)]"]
    ex_calls_valid [of 6] ex_step4
  by (simp add: ex_calls_def returned_def)

text \<open>The latest decision of a bound command is the decision it is bound to.\<close>

lemma bound_risk_latest:
  assumes "db_ok H s" and "bound_risk c s = Inr (z, d)"
  shows "latest_risk_decision (bc_intent_hash c) s = Inr (Some d)"
    and "tz_risk_decision_id z = uuid_str (rd_decision_id d)"
proof -
  have rows: "list_all risk_row_ok (risk_decisions s)" "unique_by tr_decision_id (risk_decisions s)"
    using assms(1) by (simp_all add: db_ok_def evidence_ok_def keys_ok_def)
  obtain r0 where r0: "r0 \<in> set (risk_decisions s)" "tr_decision_id r0 = tz_risk_decision_id z"
    "risk_from_json (tr_payload_json r0) = Inr d" using bound_risk_Inr(6) [OF assms(2)] by blast
  then show id: "tz_risk_decision_id z = uuid_str (rd_decision_id d)"
    using rows(1) by (force simp: list_all_iff risk_row_ok_def)
  obtain r where r: "find_row (\<lambda>r. tr_intent_hash r = bc_intent_hash c) (rev (risk_decisions s)) = Some r"
    "tr_decision_id r = uuid_str (rd_decision_id d)" using bound_risk_Inr(7) [OF assms(2)] by blast
  then have "r = r0" using r0 id rows(2) find_row_Some [OF r(1)] by (auto intro: unique_by_inj)
  then show "latest_risk_decision (bc_intent_hash c) s = Inr (Some d)"
    using r(1) r0(3) by (simp add: latest_risk_decision_def)
qed

lemma validate_approval_binding_Inr:
  "validate_approval_binding c d a now = Inr u \<longleftrightarrow>
     ap_intent_hash a = bc_intent_hash c \<and> ap_environment a = bc_environment c \<and>
     dict_get (ap_limits a) ''risk_decision_id'' = Some (uuid_str (rd_decision_id d)) \<and>
     dict_get (ap_limits a) ''account_snapshot_id'' = Some (rd_account_snapshot_id d) \<and>
     dict_get (ap_limits a) ''quote_id'' = Some (rd_quote_id d) \<and>
     rd_decided_at d \<le> ap_issued_at a \<and> ap_issued_at a \<le> now \<and> now < ap_expires_at a"
  by (auto simp: validate_approval_binding_def)

definition claim_evidence :: "store \<Rightarrow> broker_command \<Rightarrow> instant \<Rightarrow> risk_decision \<Rightarrow> approval \<Rightarrow> bool" where
  "claim_evidence s c now d a \<longleftrightarrow>
     latest_risk_decision (bc_intent_hash c) s = Inr (Some d) \<and>
     get_command_risk_decision (uuid_str (bc_command_id c)) s = Inr (Some d) \<and>
     get_command_approval (uuid_str (bc_command_id c)) s = Inr (Some a) \<and>
     rd_intent_hash d = bc_intent_hash c \<and> rd_outcome d = ACCEPTED \<and> list_all rc_passed (rd_checks d) \<and>
     consumed s (uuid_str (ap_approval_id a)) \<and>
     ap_intent_hash a = bc_intent_hash c \<and> ap_environment a = bc_environment c \<and>
     dict_get (ap_limits a) ''risk_decision_id'' = Some (uuid_str (rd_decision_id d)) \<and>
     rd_decided_at d \<le> ap_issued_at a \<and> ap_issued_at a \<le> now \<and> now < ap_expires_at a"

lemma claim_evidence_holds:
  assumes ok: "db_ok H s" and att: "valid_attempt att" and run: "claim_submission H wall c i att s = (Inr x, s')"
  shows "\<exists>d a. claim_evidence s c (ca_attempted_at att) d a"
proof -
  have lok: "ledger_ok s" and kok: "keys_ok s" and eok: "evidence_ok H s" using ok by (simp_all add: db_ok_def)
  obtain row b z d ar a where cur: "command_in_transaction (uuid_str (bc_command_id c)) (Some c) s = Inr (row, b)"
    and br: "bound_risk b s = Inr (z, d)" and ar: "ar \<in> set (approvals s)" "tz_approval_id z = Some (ta_approval_id ar)"
      "ta_consumed_at ar \<noteq> None" "approval_from_json (ta_payload_json ar) = Inr a"
    and v: "validate_approval_binding b d a (ca_attempted_at att) = Inr ()"
    by (rule claim_submission_Inr [OF run]) blast
  have b: "b = c" using command_in_transaction_Inr(4) [OF cur] by simp
  note r = bound_risk_Inr [OF br]
  have find_z: "find_row (\<lambda>z. tz_command_id z = uuid_str (bc_command_id c)) (command_authorizations s) = Some z"
    using lok r(1,2) b by (auto simp: ledger_ok_def authorizations_ok_def intro: find_row_unique)
  have find_d: "get_risk_decision (tz_risk_decision_id z) s = Inr (Some d)"
  proof -
    obtain r0 where "r0 \<in> set (risk_decisions s)" "tr_decision_id r0 = tz_risk_decision_id z"
      "risk_from_json (tr_payload_json r0) = Inr d" using r(6) by blast
    then show ?thesis
      using find_row_unique [of tr_decision_id "risk_decisions s" r0] kok by (simp add: get_risk_decision_def keys_ok_def)
  qed
  have find_a: "get_approval (ta_approval_id ar) s = Inr (Some a)"
    using find_row_unique [of ta_approval_id "approvals s" ar] kok ar by (simp add: get_approval_def keys_ok_def)
  have "ta_approval_id ar = uuid_str (ap_approval_id a)"
    using eok ar(1,4) by (force simp: evidence_ok_def list_all_iff approval_row_ok_def)
  then have "consumed s (uuid_str (ap_approval_id a))" using ar by (auto simp: consumed_def)
  then have "claim_evidence s c (ca_attempted_at att) d a"
    using bound_risk_latest [OF ok br] v r b find_z find_d find_a ar
    by (simp add: claim_evidence_def validate_approval_binding_Inr get_command_risk_decision_def
        get_command_approval_def)
  then show ?thesis by blast
qed



end
