(* ===== verification/Registry.thy ===== *)
theory Registry
  imports Ledger
begin

text \<open>
  The instrument registry and the intent table: instruments and broker mappings are written
  once and read back, a batch of intents is saved entirely or not at all. The two registry
  tables share the interface \<open>write_once\<close>.
\<close>

section \<open>Write-once tables\<close>

fun put_all :: "('v \<Rightarrow> 's \<Rightarrow> 'a result \<times> 's) \<Rightarrow> 'v list \<Rightarrow> 's \<Rightarrow> 's" where
  "put_all put [] s = s"
| "put_all put (v # vs) s = put_all put vs (snd (put v s))"

locale write_once =
  fixes get :: "'k \<Rightarrow> 's \<Rightarrow> 'v option result" and put :: "'v \<Rightarrow> 's \<Rightarrow> 'a result \<times> 's"
    and key :: "'v \<Rightarrow> 'k" and ok :: "'v \<Rightarrow> bool"
  assumes put_get: "ok v \<Longrightarrow> put v s = (Inr x, s') \<Longrightarrow> get (key v) s' = Inr (Some v)"
    and put_keeps: "get k s = Inr (Some w) \<Longrightarrow> get k (snd (put v s)) = Inr (Some w)"
    and put_clash: "ok v \<Longrightarrow> get (key v) s = Inr (Some w) \<Longrightarrow> w \<noteq> v \<Longrightarrow> \<exists>e. put v s = (Inl e, s)"
begin

lemma written_stays: "get k s = Inr (Some w) \<Longrightarrow> get k (put_all put vs s) = Inr (Some w)"
  by (induction vs arbitrary: s) (auto intro: put_keeps)

lemma read_your_write: "ok v \<Longrightarrow> put v s = (Inr x, s') \<Longrightarrow> get (key v) (put_all put vs s') = Inr (Some v)"
  by (blast intro: written_stays put_get)

lemma write_wins_once:
  "ok v \<Longrightarrow> put v s = (Inr x, s') \<Longrightarrow> ok w \<Longrightarrow> key w = key v \<Longrightarrow> w \<noteq> v \<Longrightarrow>
     \<exists>e. put w (put_all put vs s') = (Inl e, put_all put vs s')"
  using read_your_write [of v s x s' vs] put_clash [of w] by metis

end

section \<open>Instruments and mappings\<close>

lemma instrument_from_row_of: "valid_instrument i \<Longrightarrow> instrument_from_row (instrument_row_of i) = Inr i"
  by (simp add: valid_instrument_def instrument_from_row_def instrument_row_of_def Instrument_def
      del: instrument_checks_Inr)

lemma mapping_from_row_of: "valid_mapping m \<Longrightarrow> mapping_from_row (mapping_row_of m) = Inr m"
  by (simp add: valid_mapping_def mapping_from_row_def mapping_row_of_def BrokerInstrumentMapping_def
      del: mapping_checks_Inr)

lemma register_instrument_effect:
  assumes "register_instrument wall i s = (Inr x, s')"
  shows "x = i" and "instruments s' = instruments s \<and>
           find_row (\<lambda>r. ir_internal_instrument_id r = uuid_str (in_internal_instrument_id i)) (instruments s) \<noteq> None \<and>
           get_instrument (uuid_str (in_internal_instrument_id i)) s = Inr (Some i) \<or>
         instruments s' = instruments s @ [instrument_row_of i] \<and>
           find_row (\<lambda>r. ir_internal_instrument_id r = uuid_str (in_internal_instrument_id i)) (instruments s) = None"
  using assms
  by (auto simp: register_instrument_def get_instrument_def insert_history_def raiseIf_def
      split: option.splits if_splits)

lemma get_instrument_append:
  "get_instrument k s = Inr (Some w) \<Longrightarrow> instruments s' = instruments s @ rows \<Longrightarrow> get_instrument k s' = Inr (Some w)"
  by (cases "find_row (\<lambda>r. ir_internal_instrument_id r = k) (instruments s)")
    (auto simp: get_instrument_def find_row_append)

definition mapping_id :: "broker_mapping \<Rightarrow> string \<times> string \<times> environment" where
  "mapping_id m = (uuid_str (bm_internal_instrument_id m), bm_broker m, bm_environment m)"

definition get_mapping :: "string \<times> string \<times> environment \<Rightarrow> store \<Rightarrow> broker_mapping option result" where
  "get_mapping k s = (case k of (i, b, e) \<Rightarrow> get_broker_mapping i b e s)"

lemma valid_mapping_broker: "valid_mapping m \<Longrightarrow> py_lower (py_strip (bm_broker m)) = bm_broker m"
  unfolding valid_mapping_def BrokerInstrumentMapping_def by auto (metis broker_mapping.select_convs(2))

lemma save_broker_mapping_effect:
  assumes "save_broker_mapping m s = (Inr x, s')"
  shows "instruments s' = instruments s"
    and "broker_instrument_mappings s' = broker_instrument_mappings s \<and>
           (\<exists>r. find_row (\<lambda>r. mapping_key r = mapping_key (mapping_row_of m)) (broker_instrument_mappings s) = Some r \<and>
                mapping_from_row r = Inr m) \<or>
         broker_instrument_mappings s' = broker_instrument_mappings s @ [mapping_row_of m] \<and>
           find_row (\<lambda>r. mapping_key r = mapping_key (mapping_row_of m)) (broker_instrument_mappings s) = None"
  using assms
  by (auto simp: save_broker_mapping_def split: option.splits sum.splits)

lemma get_mapping_append:
  "get_mapping k s = Inr (Some w) \<Longrightarrow> broker_instrument_mappings s' = broker_instrument_mappings s @ rows \<Longrightarrow>
     get_mapping k s' = Inr (Some w)"
  by (auto simp: get_mapping_def get_broker_mapping_def find_row_append split: prod.splits)
    (auto simp: optR_def split: option.splits)

interpretation instruments_table: write_once get_instrument "register_instrument wall"
  "\<lambda>i. uuid_str (in_internal_instrument_id i)" valid_instrument for wall
proof
  fix v s x s' assume v: "valid_instrument v" and run: "register_instrument wall v s = (Inr x, s')"
  show "get_instrument (uuid_str (in_internal_instrument_id v)) s' = Inr (Some v)"
    using register_instrument_effect(2) [OF run] instrument_from_row_of [OF v]
    by (auto simp: get_instrument_def find_row_append instrument_row_of_def)
next
  fix k s w v assume "get_instrument k s = Inr (Some w)"
  then show "get_instrument k (snd (register_instrument wall v s)) = Inr (Some w)"
    by (intro keep_or_commit [where P = "\<lambda>s. get_instrument k s = Inr (Some w)" and s = s])
      (auto dest: raise_keeps_simple dest!: register_instrument_effect(2) intro: get_instrument_append [where rows = "[]"]
        get_instrument_append)
next
  fix v s w assume "get_instrument (uuid_str (in_internal_instrument_id v)) s = Inr (Some w)" "w \<noteq> v"
  then show "\<exists>e. register_instrument wall v s = (Inl e, s)"
    by (cases "find_row (\<lambda>r. ir_internal_instrument_id r = uuid_str (in_internal_instrument_id v)) (instruments s)")
      (auto simp: register_instrument_def get_instrument_def transaction_def)
qed

interpretation mappings_table: write_once get_mapping save_broker_mapping mapping_id valid_mapping
proof
  fix v s s' and x :: unit assume v: "valid_mapping v" and run: "save_broker_mapping v s = (Inr x, s')"
  have key: "mapping_key (mapping_row_of v) = (uuid_str (bm_internal_instrument_id v), bm_broker v, environment_str (bm_environment v))"
    by (simp add: mapping_key_def mapping_row_of_def)
  show "get_mapping (mapping_id v) s' = Inr (Some v)"
    using save_broker_mapping_effect(2) [OF run] mapping_from_row_of [OF v] valid_mapping_broker [OF v]
    by (auto simp: get_mapping_def mapping_id_def get_broker_mapping_def find_row_append key)
next
  fix k s w v assume "get_mapping k s = Inr (Some w)"
  then show "get_mapping k (snd (save_broker_mapping v s)) = Inr (Some w)"
    by (intro keep_or_commit [where P = "\<lambda>s. get_mapping k s = Inr (Some w)" and s = s])
      (auto dest: raise_keeps_simple dest!: save_broker_mapping_effect(2) intro: get_mapping_append [where rows = "[]"]
        get_mapping_append)
next
  fix v s w assume v: "valid_mapping v" and got: "get_mapping (mapping_id v) s = Inr (Some w)" and ne: "w \<noteq> v"
  have "find_row (\<lambda>r. mapping_key r = mapping_key (mapping_row_of v)) (broker_instrument_mappings s) =
      find_row (\<lambda>r. mapping_key r = (uuid_str (bm_internal_instrument_id v), bm_broker v, environment_str (bm_environment v)))
        (broker_instrument_mappings s)"
    by (simp add: mapping_key_def mapping_row_of_def)
  then obtain r where r: "find_row (\<lambda>r. mapping_key r = mapping_key (mapping_row_of v)) (broker_instrument_mappings s) = Some r"
    "mapping_from_row r = Inr w"
    using got valid_mapping_broker [OF v]
    by (auto simp: get_mapping_def mapping_id_def get_broker_mapping_def optR_def split: option.splits)
  then show "\<exists>e. save_broker_mapping v s = (Inl e, s)"
    using ne by (auto simp: save_broker_mapping_def transaction_def split: sum.splits option.splits)
qed

section \<open>Batches of intents\<close>

definition batch_free :: "order_intent list \<Rightarrow> intent_row list \<Rightarrow> bool" where
  "batch_free is rows \<longleftrightarrow> distinct (map oi_intent_id is) \<and> distinct (map oi_intent_hash is) \<and>
     list_all (\<lambda>i. key_free ti_intent_id (uuid_str (oi_intent_id i)) rows \<and>
                   key_free ti_intent_hash (oi_intent_hash i) rows) is"

lemma batch_free_Cons:
  "batch_free (i # is) rows \<longleftrightarrow>
     key_free ti_intent_id (uuid_str (oi_intent_id i)) rows \<and> key_free ti_intent_hash (oi_intent_hash i) rows \<and>
     batch_free is (rows @ [intent_row_of wall i])"
  unfolding batch_free_def list_all_iff key_free_iff intent_row_of_def
  by (simp add: image_iff ball_Un ball_conj_distrib conj_ac)

lemma insert_intents_spec:
  "batch_free is (order_intents s) \<Longrightarrow>
     insert_intents wall is s = Inr (s\<lparr>order_intents := order_intents s @ map (intent_row_of wall) is\<rparr>)"
  "\<not> batch_free is (order_intents s) \<Longrightarrow> \<exists>h. insert_intents wall is s = Inl (DuplicateIntentError h)"
proof (induction "is" arbitrary: s)
  case Nil
  { case 1 show ?case by simp next case 2 then show ?case by (simp add: batch_free_def) }
next
  case (Cons i "is")
  { case 1 then show ?case using Cons.IH(1) batch_free_Cons [where wall = wall] by simp
  next case 2 then show ?case using Cons.IH(2) batch_free_Cons [where wall = wall] by simp }
qed

section \<open>Properties\<close>

text \<open>
  A batch of intents is persisted entirely or not at all. \<open>save_intents\<close> appends one row
  per intent, in the order of the batch, exactly when the intent ids and hashes of the batch
  are pairwise distinct and new to the table; in every other case it raises
  \<open>DuplicateIntentError\<close> and the database is unchanged.
\<close>

theorem save_intents_all_or_nothing:
  "if batch_free is (order_intents s)
   then save_intents wall is s =
     (Inr (), s\<lparr>order_intents := order_intents s @ map (intent_row_of wall) is\<rparr>)
   else \<exists>h. save_intents wall is s = (Inl (DuplicateIntentError h), s)"
proof (cases "batch_free is (order_intents s)")
  case True
  then show ?thesis using insert_intents_spec(1) [OF True, of wall]
    by (simp add: save_intents_def transaction_def batch_free_def)
next
  case False
  then show ?thesis using insert_intents_spec(2) [OF False, of wall]
    by (auto simp: save_intents_def transaction_def)
qed

text \<open>
  A registered instrument reads back under its id, and keeps reading back whatever is
  registered later; registering another identity under the same id is refused and changes
  nothing.
\<close>

theorem instrument_identity_immutable:
  assumes "valid_instrument i" and "register_instrument wall i s = (Inr x, s')"
    and "valid_instrument j" and "in_internal_instrument_id j = in_internal_instrument_id i" and "j \<noteq> i"
  shows "registry_get (uuid_str (in_internal_instrument_id i)) (put_all (register_instrument wall) later s') = Inr i \<and>
         (\<exists>e. register_instrument wall j (put_all (register_instrument wall) later s') =
              (Inl e, put_all (register_instrument wall) later s'))"
  using instruments_table.read_your_write [OF assms(1,2)]
    instruments_table.write_wins_once [OF assms(1,2,3)] assms(4,5)
  by (simp add: registry_get_def)

lemma ex_register: "\<exists>s'. register_instrument 0 (ex_instrument 2 ''tech'') empty_store = (Inr (ex_instrument 2 ''tech''), s')"
  by (simp add: register_instrument_def transaction_def empty_store_def key_free_def insert_history_def instrument_row_of_def)

theorem instrument_identity_immutable_witness:
  "\<exists>s'. registry_get (uuid_str 2) (put_all (register_instrument 0) [ex_instrument 2 ''energy''] s') =
     Inr (ex_instrument 2 ''tech'')"
proof -
  obtain s' where "register_instrument 0 (ex_instrument 2 ''tech'') empty_store = (Inr (ex_instrument 2 ''tech''), s')"
    using ex_register by blast
  from instrument_identity_immutable [OF ex_instrument_valid(1) this ex_instrument_valid(2), of 2 "[ex_instrument 2 ''energy'']"]
  show ?thesis by (auto simp: ex_instrument_def)
qed

end
