(* ===== verification/Kill_Switch.thy ===== *)
theory Kill_Switch
  imports Domain
begin

text \<open>
  \<open>src/risk/kill_switch.py\<close>: the persistent switch that stops every broker write. The state
  file and the audit file are what a reader finds in them: nothing, unparsable text, or a
  JSON value. \<open>status\<close> never trusts one without the other. A change appends to the audit,
  then replaces the state file; a crash in between is a disk on its own, so the fail-closed
  property is about every disk a crash can leave. SHA-256 is the parameter \<open>H\<close>. The text of
  Python's own exceptions is not modelled beyond the argument they carry.
\<close>

section \<open>Files\<close>

datatype ks_text = Unparsable | Parsed json

datatype audit_line = BlankLine | BadLine | Line json

record ks_disk =
  ks_state :: "ks_text option"
  ks_audit :: "audit_line list option"

record ks_status =
  ks_engaged :: bool
  ks_integrity_valid :: bool
  ks_environment :: environment
  ks_revision :: int
  ks_reason :: string
  ks_updated_at :: "instant option"

definition writes_allowed :: "ks_status \<Rightarrow> bool" where
  "writes_allowed st \<longleftrightarrow> ks_integrity_valid st \<and> \<not> ks_engaged st"

definition kill_switch_schema_version :: string where
  "kill_switch_schema_version = ''1.0''"

definition reset_acknowledgement :: string where
  "reset_acknowledgement = ''I UNDERSTAND DEMO WRITES MAY RESUME''"

text \<open>The constructor: only the Demo switch exists.\<close>

definition KillSwitch :: "environment \<Rightarrow> environment result" where
  "KillSwitch env = raiseIf (env \<noteq> DEMO) (KillSwitchError ''only the Demo kill switch is authorized'') (Inr env)"

section \<open>Python conversions of JSON values\<close>

text \<open>
  \<open>str(value)\<close>. The text of a list or dict is only ever compared with a digest; like the
  canonical text that stands for it here, it starts with a bracket.
\<close>

fun json_py_str :: "json \<Rightarrow> string" where
  "json_py_str JNull = ''None''"
| "json_py_str (JBool b) = (if b then ''True'' else ''False'')"
| "json_py_str (JInt i) = str_int i"
| "json_py_str (JStr s) = s"
| "json_py_str (JTime t) = iso_text ''+00:00'' t"
| "json_py_str (JArr vs) = canonical_json (JArr vs)"
| "json_py_str (JObj kvs) = canonical_json (JObj kvs)"

text \<open>\<open>int(value)\<close>\<close>

fun json_py_int :: "json \<Rightarrow> int result" where
  "json_py_int (JInt i) = Inr i"
| "json_py_int (JBool b) = Inr (if b then 1 else 0)"
| "json_py_int (JStr s) = of_option (PyValueError ''invalid literal for int()'') (py_int10 s)"
| "json_py_int (JTime t) = Inl (PyValueError ''invalid literal for int()'')"
| "json_py_int _ = Inl (PyTypeError ''int() argument'')"

text \<open>\<open>value.get(key)\<close> of a dict; other values have no such method.\<close>

fun json_dict :: "json \<Rightarrow> (string \<times> json) list result" where
  "json_dict (JObj kvs) = Inr kvs"
| "json_dict _ = Inl (PyAttributeError ''object has no attribute get'')"

fun error_text :: "error \<Rightarrow> string" where
  "error_text (PyKeyError k) = CHR 0x27 # k @ [CHR 0x27]"
| "error_text (PyValueError m) = m"
| "error_text (PyTypeError m) = m"
| "error_text (KillSwitchError m) = m"
| "error_text _ = []"

section \<open>The audit chain\<close>

definition drop_key :: "string \<Rightarrow> (string \<times> json) list \<Rightarrow> (string \<times> json) list" where
  "drop_key k kvs = filter (\<lambda>kv. fst kv \<noteq> k) kvs"

text \<open>The event of a line without its hash, and the hash the line records.\<close>

definition event_parts :: "json \<Rightarrow> ((string \<times> json) list \<times> string) result" where
  "event_parts j =
     (case j of
        JObj kvs \<Rightarrow> Inr (drop_key ''event_hash'' kvs,
          case map_of kvs ''event_hash'' of None \<Rightarrow> [] | Some h \<Rightarrow> json_py_str h)
      | JArr _ \<Rightarrow> Inl (PyTypeError ''pop expected at most 1 argument, got 2'')
      | _ \<Rightarrow> Inl (PyAttributeError ''object has no attribute pop''))"

fun read_lines :: "digest \<Rightarrow> nat \<Rightarrow> string \<Rightarrow> audit_line list \<Rightarrow> ((string \<times> json) list list \<times> string) result" where
  "read_lines H n previous_hash [] = Inr ([], previous_hash)"
| "read_lines H n previous_hash (BlankLine # ls) = read_lines H (Suc n) previous_hash ls"
| "read_lines H n previous_hash (BadLine # ls) =
     Inl (KillSwitchError (''kill-switch audit is corrupt at line '' @ str_nat n))"
| "read_lines H n previous_hash (Line j # ls) =
     bindR (event_parts j) (\<lambda>(event, recorded_hash).
     raiseIf ((case map_of event ''previous_hash'' of None \<Rightarrow> JStr [] | Some v \<Rightarrow> v) \<noteq> JStr previous_hash)
       (KillSwitchError ''kill-switch audit chain is broken'') (
     raiseIf (recorded_hash \<noteq> payload_hash H (JObj event))
       (KillSwitchError ''kill-switch audit checksum mismatch'') (
     bindR (read_lines H (Suc n) recorded_hash ls) (\<lambda>(events, head).
     Inr ((event @ [(''event_hash'', JStr recorded_hash)]) # events, head)))))"

definition read_audit :: "digest \<Rightarrow> ks_disk \<Rightarrow> ((string \<times> json) list list \<times> string) result" where
  "read_audit H d = (case ks_audit d of None \<Rightarrow> Inr ([], []) | Some ls \<Rightarrow> read_lines H 1 [] ls)"

definition append_audit ::
  "digest \<Rightarrow> (string \<times> json) list \<Rightarrow> string \<Rightarrow> ks_disk \<Rightarrow> string \<times> ks_disk" where
  "append_audit H event previous_hash d =
     (let rec = event @ [(''previous_hash'', JStr previous_hash)];
          h = payload_hash H (JObj rec);
          ls = (case ks_audit d of None \<Rightarrow> [] | Some ls \<Rightarrow> ls)
      in (h, d\<lparr>ks_audit := Some (ls @ [Line (JObj (rec @ [(''event_hash'', JStr h)]))])\<rparr>))"

section \<open>Status\<close>

definition failsafe :: "string \<Rightarrow> environment \<Rightarrow> ks_status" where
  "failsafe reason env = \<lparr>ks_engaged = True, ks_integrity_valid = False, ks_environment = env,
     ks_revision = 0, ks_reason = reason, ks_updated_at = None\<rparr>"

definition dict_field :: "(string \<times> json) list \<Rightarrow> string \<Rightarrow> json result" where
  "dict_field kvs k = of_option (PyKeyError k) (map_of kvs k)"

definition verified_status :: "digest \<Rightarrow> environment \<Rightarrow> ks_disk \<Rightarrow> ks_status result" where
  "verified_status H env d =
     (case ks_state d of
        None \<Rightarrow> Inl (PyValueError ''missing'')
      | Some Unparsable \<Rightarrow> Inl (PyValueError ''Expecting value'')
      | Some (Parsed raw) \<Rightarrow>
          bindR (read_audit H d) (\<lambda>(events, head_hash).
          raiseIf (events = []) (KillSwitchError ''kill-switch audit is empty'') (
          bindR (json_dict raw) (\<lambda>kvs.
          raiseIf (map_of kvs ''schema_version'' \<noteq> Some (JStr kill_switch_schema_version))
            (KillSwitchError ''kill-switch schema is unsupported'') (
          bindR (dict_field kvs ''environment'') (\<lambda>env_value.
          bindR (environment_of (json_py_str env_value)) (\<lambda>environment.
          bindR (dict_field kvs ''updated_at'') (\<lambda>updated_value.
          bindR (bindR (parse_datetime updated_value) (\<lambda>t. aware_utc t ''updated_at'')) (\<lambda>updated_at.
          bindR (bindR (dict_field kvs ''revision'') json_py_int) (\<lambda>revision.
          bindR (dict_field kvs ''engaged'') (\<lambda>engaged_value.
          let engaged = (engaged_value = JBool True); last_event = last events in
          raiseIf (map_of kvs ''audit_head_hash'' \<noteq> Some (JStr head_hash))
            (KillSwitchError ''kill-switch state/audit head mismatch'') (
          bindR (bindR (dict_field last_event ''revision'') json_py_int) (\<lambda>last_revision.
          raiseIf (last_revision \<noteq> revision)
            (KillSwitchError ''kill-switch state/audit revision mismatch'') (
          bindR (dict_field last_event ''resulting_engaged'') (\<lambda>resulting.
          raiseIf ((resulting = JBool True) \<noteq> engaged)
            (KillSwitchError ''kill-switch state/audit outcome mismatch'') (
          raiseIf (environment \<noteq> env) (KillSwitchError ''kill-switch environment mismatch'') (
          bindR (dict_field kvs ''reason'') (\<lambda>reason.
          Inr \<lparr>ks_engaged = engaged, ks_integrity_valid = True, ks_environment = environment,
               ks_revision = revision, ks_reason = json_py_str reason,
               ks_updated_at = Some updated_at\<rparr>))))))))))))))))))"

text \<open>\<open>status\<close> turns every exception it lists into the fail-safe; \<open>AttributeError\<close> escapes.\<close>

definition status :: "digest \<Rightarrow> environment \<Rightarrow> ks_disk \<Rightarrow> ks_status result" where
  "status H env d =
     (if ks_state d = None \<or> ks_audit d = None
      then Inr (failsafe ''kill-switch state is not initialized'' env)
      else case verified_status H env d of
             Inr st \<Rightarrow> Inr st
           | Inl (PyAttributeError m) \<Rightarrow> Inl (PyAttributeError m)
           | Inl e \<Rightarrow> Inr (failsafe (error_text e) env))"

text \<open>A state file that holds JSON but no object is not turned into the fail-safe: \<open>status\<close> raises.\<close>

lemma status_scalar_raises:
  assumes "ks_state d = Some (Parsed raw)" and "\<And>kvs. raw \<noteq> JObj kvs" and "ks_audit d \<noteq> None" and "read_audit H d = Inr (e # es, h)"
  shows "status H env d = Inl (PyAttributeError ''object has no attribute get'')"
proof -
  have "json_dict raw = Inl (PyAttributeError ''object has no attribute get'')" by (cases raw) (use assms(2) in auto)
  with assms(1,3,4) show ?thesis by (auto simp: status_def verified_status_def)
qed

section \<open>Changes\<close>

definition change_event :: "environment \<Rightarrow> bool \<Rightarrow> string \<Rightarrow> string \<Rightarrow> string \<Rightarrow> instant \<Rightarrow> int \<Rightarrow> (string \<times> json) list" where
  "change_event env engaged action operator rationale moment revision =
     [(''schema_version'', JStr kill_switch_schema_version),
      (''environment'', JStr (environment_str env)),
      (''revision'', JInt revision),
      (''action'', JStr action),
      (''operator_id'', JStr operator),
      (''reason'', JStr rationale),
      (''timestamp'', JStr (iso_text ''+00:00'' moment)),
      (''resulting_engaged'', JBool engaged)]"

definition change_state :: "environment \<Rightarrow> bool \<Rightarrow> string \<Rightarrow> string \<Rightarrow> instant \<Rightarrow> int \<Rightarrow> string \<Rightarrow> json" where
  "change_state env engaged operator rationale moment revision head_hash = JObj
     [(''schema_version'', JStr kill_switch_schema_version),
      (''environment'', JStr (environment_str env)),
      (''revision'', JInt revision),
      (''engaged'', JBool engaged),
      (''reason'', JStr rationale),
      (''operator_id'', JStr operator),
      (''updated_at'', JTime moment),
      (''audit_head_hash'', JStr head_hash)]"

text \<open>
  \<open>_change\<close> in its two durable steps: the disk after the audit append and the disk after the
  state file was replaced. The checks come before both.
\<close>

definition change_steps ::
  "digest \<Rightarrow> environment \<Rightarrow> bool \<Rightarrow> string \<Rightarrow> string \<Rightarrow> string \<Rightarrow> pydatetime \<Rightarrow> int \<Rightarrow> string \<Rightarrow> ks_disk \<Rightarrow>
   (ks_disk \<times> ks_disk) result" where
  "change_steps H env engaged action operator_id reason now prior_revision previous_hash d =
     (let operator = py_strip operator_id; rationale = py_strip reason in
      raiseIf (operator = [] \<or> rationale = [])
        (KillSwitchError ''operator identity and reason are required'') (
      bindR (aware_utc now ''now'') (\<lambda>moment.
      let revision = prior_revision + 1;
          (head_hash, d1) = append_audit H
            (change_event env engaged action operator rationale moment revision) previous_hash d;
          d2 = d1\<lparr>ks_state := Some (Parsed (change_state env engaged operator rationale moment revision head_hash))\<rparr>
      in Inr (d1, d2))))"

definition change ::
  "digest \<Rightarrow> environment \<Rightarrow> bool \<Rightarrow> string \<Rightarrow> string \<Rightarrow> string \<Rightarrow> pydatetime \<Rightarrow> int \<Rightarrow> string \<Rightarrow> ks_disk \<Rightarrow>
   ks_status result \<times> ks_disk" where
  "change H env engaged action operator_id reason now prior_revision previous_hash d =
     (case change_steps H env engaged action operator_id reason now prior_revision previous_hash d of
        Inl e \<Rightarrow> (Inl e, d)
      | Inr (d1, d2) \<Rightarrow>
          (bindR (status H env d2) (\<lambda>st.
           raiseIf (\<not> ks_integrity_valid st)
             (KillSwitchError ''kill-switch mutation could not be verified'') (Inr st)), d2))"

text \<open>What a mutation passes to \<open>_change\<close>: the new position, the action and where the chain stands.\<close>

datatype ks_call =
    Initialize_Engaged string string pydatetime
  | Engage string string pydatetime
  | Reset string string string pydatetime

definition initialize_engaged_args :: "ks_disk \<Rightarrow> (bool \<times> string \<times> int \<times> string) result" where
  "initialize_engaged_args d =
     raiseIf (ks_state d \<noteq> None \<or> ks_audit d \<noteq> None)
       (KillSwitchError ''kill switch is already initialized'') (
     Inr (True, ''initialize_engaged'', 0, []))"

definition engage_args :: "digest \<Rightarrow> environment \<Rightarrow> ks_disk \<Rightarrow> (bool \<times> string \<times> int \<times> string) result" where
  "engage_args H env d =
     bindR (status H env d) (\<lambda>current.
     raiseIf (\<not> ks_integrity_valid current) (KillSwitchError
       ''kill switch is already fail-closed but its audit must be repaired before mutation'') (
     bindR (read_audit H d) (\<lambda>(_, previous_hash).
     Inr (True, ''engage'', ks_revision current, previous_hash))))"

definition reset_args ::
  "digest \<Rightarrow> environment \<Rightarrow> string \<Rightarrow> ks_disk \<Rightarrow> (bool \<times> string \<times> int \<times> string) result" where
  "reset_args H env acknowledgement d =
     raiseIf (acknowledgement \<noteq> reset_acknowledgement)
       (KillSwitchError ''interactive reset acknowledgement did not match'') (
     bindR (status H env d) (\<lambda>current.
     raiseIf (\<not> ks_integrity_valid current \<or> \<not> ks_engaged current)
       (KillSwitchError ''kill switch is corrupt, missing, or already reset'') (
     bindR (read_audit H d) (\<lambda>(_, previous_hash).
     Inr (False, ''reset'', ks_revision current, previous_hash)))))"

definition with_args ::
  "digest \<Rightarrow> environment \<Rightarrow> (bool \<times> string \<times> int \<times> string) result \<Rightarrow> string \<Rightarrow> string \<Rightarrow> pydatetime \<Rightarrow> ks_disk \<Rightarrow>
   ks_status result \<times> ks_disk" where
  "with_args H env args operator_id reason now d =
     (case args of
        Inl e \<Rightarrow> (Inl e, d)
      | Inr (engaged, action, prior_revision, previous_hash) \<Rightarrow>
          change H env engaged action operator_id reason now prior_revision previous_hash d)"

definition initialize_engaged ::
  "digest \<Rightarrow> environment \<Rightarrow> string \<Rightarrow> string \<Rightarrow> pydatetime \<Rightarrow> ks_disk \<Rightarrow> ks_status result \<times> ks_disk" where
  "initialize_engaged H env operator_id reason now d =
     with_args H env (initialize_engaged_args d) operator_id reason now d"

definition engage ::
  "digest \<Rightarrow> environment \<Rightarrow> string \<Rightarrow> string \<Rightarrow> pydatetime \<Rightarrow> ks_disk \<Rightarrow> ks_status result \<times> ks_disk" where
  "engage H env operator_id reason now d = with_args H env (engage_args H env d) operator_id reason now d"

definition reset ::
  "digest \<Rightarrow> environment \<Rightarrow> string \<Rightarrow> string \<Rightarrow> string \<Rightarrow> pydatetime \<Rightarrow> ks_disk \<Rightarrow> ks_status result \<times> ks_disk" where
  "reset H env operator_id reason acknowledgement now d =
     with_args H env (reset_args H env acknowledgement d) operator_id reason now d"

section \<open>Reading the chain\<close>

lemma read_lines_append:
  "read_lines H n p (ls @ ks) =
     bindR (read_lines H n p ls) (\<lambda>(events, head).
     bindR (read_lines H (n + length ls) head ks) (\<lambda>(events', head'). Inr (events @ events', head')))"
proof (induction H n p ls rule: read_lines.induct)
  case (4 H n p j ls)
  show ?case
  proof (cases "event_parts j")
    case (Inr x)
    then show ?thesis using 4
      by (cases x; cases "read_lines H (Suc n) (snd x) ls")
        (auto simp: raiseIf_def bindR_def split: sum.splits if_splits)
  qed simp
next
  case (1 H n p)
  show ?case by (cases "read_lines H n p ks") auto
qed simp_all

lemma drop_key_other: "k \<noteq> j \<Longrightarrow> map_of (drop_key j kvs) k = map_of kvs k"
  by (induction kvs) (auto simp: drop_key_def)

lemma read_last:
  assumes "read_lines H n p (ls @ [Line j]) = Inr (events, head)"
  shows "\<exists>kvs events'. j = JObj kvs \<and>
    events = events' @ [drop_key ''event_hash'' kvs @ [(''event_hash'', JStr head)]]"
  using assms
  by (auto simp: read_lines_append event_parts_def split: json.splits)

definition audit_record :: "digest \<Rightarrow> (string \<times> json) list \<Rightarrow> string \<Rightarrow> (string \<times> json) list" where
  "audit_record H event p = event @ [(''previous_hash'', JStr p)]"

definition record_hash :: "digest \<Rightarrow> (string \<times> json) list \<Rightarrow> string \<Rightarrow> string" where
  "record_hash H event p = payload_hash H (JObj (audit_record H event p))"

lemma append_audit_alt:
  "append_audit H event p d =
     (record_hash H event p, d\<lparr>ks_audit := Some ((case ks_audit d of None \<Rightarrow> [] | Some ls \<Rightarrow> ls) @
        [Line (JObj (audit_record H event p @ [(''event_hash'', JStr (record_hash H event p))]))])\<rparr>)"
  by (simp add: append_audit_def audit_record_def record_hash_def Let_def)

lemma read_appended:
  assumes "read_audit H d = Inr (events, p)" and "append_audit H event p d = (h, d1)"
    and "list_all (\<lambda>kv. fst kv \<noteq> ''previous_hash'' \<and> fst kv \<noteq> ''event_hash'') event"
  shows "h = record_hash H event p"
    and "read_audit H d1 = Inr (events @ [audit_record H event p @ [(''event_hash'', JStr h)]], h)"
proof -
  show h: "h = record_hash H event p" using assms(2) by (simp add: append_audit_alt)
  have drop: "drop_key ''event_hash'' event = event" "map_of event ''previous_hash'' = None"
    "map_of event ''event_hash'' = None"
    using assms(3) by (induction event) (auto simp: drop_key_def)
  have "event_parts (JObj (audit_record H event p @ [(''event_hash'', JStr h)])) = Inr (audit_record H event p, h)"
    using drop by (simp add: event_parts_def audit_record_def drop_key_def map_add_def)
  then show "read_audit H d1 = Inr (events @ [audit_record H event p @ [(''event_hash'', JStr h)]], h)"
    using assms(1,2) drop(2) h
    by (auto simp: append_audit_alt read_audit_def read_lines_append record_hash_def audit_record_def map_add_def
        split: option.splits)
qed

section \<open>What changes leave on the disk\<close>

lemma change_steps_Inr:
  assumes "change_steps H env engaged action op re now prior p d = Inr (d1, d2)"
  obtains moment off h where "now = Aware moment off" "py_strip op \<noteq> []" "py_strip re \<noteq> []"
    "append_audit H (change_event env engaged action (py_strip op) (py_strip re) moment (prior + 1)) p d = (h, d1)"
    "d2 = d1\<lparr>ks_state := Some (Parsed (change_state env engaged (py_strip op) (py_strip re) moment (prior + 1) h))\<rparr>"
  using assms by (cases now) (auto simp: change_steps_def Let_def split: prod.splits)

lemma change_event_plain:
  "list_all (\<lambda>kv. fst kv \<noteq> ''previous_hash'' \<and> fst kv \<noteq> ''event_hash'') (change_event env e a op re t r)"
  by (simp add: change_event_def)

lemma change_completes:
  assumes "change_steps H env engaged action op re now prior p d = Inr (d1, d2)"
    and "read_audit H d = Inr (events, p)"
  shows "\<exists>t. status H env d2 = Inr \<lparr>ks_engaged = engaged, ks_integrity_valid = True, ks_environment = env,
     ks_revision = prior + 1, ks_reason = py_strip re, ks_updated_at = Some t\<rparr>"
proof (rule change_steps_Inr [OF assms(1)])
  fix moment off h
  assume app: "append_audit H (change_event env engaged action (py_strip op) (py_strip re) moment (prior + 1)) p d = (h, d1)"
    and d2: "d2 = d1\<lparr>ks_state := Some (Parsed (change_state env engaged (py_strip op) (py_strip re) moment (prior + 1) h))\<rparr>"
  note r = read_appended [OF assms(2) app change_event_plain]
  have "read_audit H d2 = read_audit H d1" by (simp add: d2 read_audit_def)
  moreover have "ks_audit d1 \<noteq> None" using app by (auto simp: append_audit_alt)
  ultimately show ?thesis
    using r by (auto simp: status_def verified_status_def d2 change_state_def dict_field_def parse_datetime_def
        audit_record_def change_event_def Let_def map_add_def)
qed

text \<open>A crash after the audit append leaves a disk that no longer verifies.\<close>

lemma crash_not_verified:
  assumes "change_steps H env engaged action op re now (ks_revision st) p d = Inr (d1, d2)"
    and "read_audit H d = Inr (events, p)" and "verified_status H env d = Inr st"
  shows "\<exists>m. verified_status H env d1 = Inl (KillSwitchError m)"
proof (rule change_steps_Inr [OF assms(1)])
  fix moment off h
  assume app: "append_audit H (change_event env engaged action (py_strip op) (py_strip re) moment (ks_revision st + 1)) p d = (h, d1)"
  note r = read_appended [OF assms(2) app change_event_plain]
  have s1: "ks_state d1 = ks_state d" using app by (auto simp: append_audit_alt)
  show ?thesis
    using assms(3) r(2) s1
    by (auto simp: verified_status_def audit_record_def change_event_def dict_field_def Let_def map_add_def raiseIf_def
        split: option.splits ks_text.splits if_splits dest: arg_cong [where f = ks_revision])
qed

lemma status_valid:
  "status H env d = Inr st \<Longrightarrow> ks_integrity_valid st \<Longrightarrow> verified_status H env d = Inr st"
  by (auto simp: status_def failsafe_def split: if_splits sum.splits error.splits)

lemma not_verified_status:
  "verified_status H env d = Inl (KillSwitchError m) \<or> ks_state d = None \<or> ks_audit d = None \<Longrightarrow>
     \<exists>r. status H env d = Inr (failsafe r env)"
  by (auto simp: status_def)

lemma verified_integrity: "verified_status H env d = Inr st \<Longrightarrow> ks_integrity_valid st"
  by (auto simp: verified_status_def Let_def split: option.splits ks_text.splits)

section \<open>The switch as a state machine with crashes\<close>

text \<open>The disks a call passes through, once its own checks have passed.\<close>

fun call_steps :: "digest \<Rightarrow> environment \<Rightarrow> ks_call \<Rightarrow> ks_disk \<Rightarrow> (ks_disk \<times> ks_disk) result" where
  "call_steps H env (Initialize_Engaged op re now) d =
     bindR (initialize_engaged_args d) (\<lambda>(e, a, n, p). change_steps H env e a op re now n p d)"
| "call_steps H env (Engage op re now) d =
     bindR (engage_args H env d) (\<lambda>(e, a, n, p). change_steps H env e a op re now n p d)"
| "call_steps H env (Reset op re ack now) d =
     bindR (reset_args H env ack d) (\<lambda>(e, a, n, p). change_steps H env e a op re now n p d)"

fun ks_exec :: "digest \<Rightarrow> environment \<Rightarrow> ks_call \<Rightarrow> ks_disk \<Rightarrow> ks_status result \<times> ks_disk" where
  "ks_exec H env (Initialize_Engaged op re now) d = initialize_engaged H env op re now d"
| "ks_exec H env (Engage op re now) d = engage H env op re now d"
| "ks_exec H env (Reset op re ack now) d = reset H env op re ack now d"

definition blank_disk :: ks_disk where
  "blank_disk = \<lparr>ks_state = None, ks_audit = None\<rparr>"

text \<open>
  \<open>whole\<close>: a call ran to its end; \<open>crash\<close>: the process died between the append and the state
  write; \<open>torn\<close>: it died inside the append, which leaves a line that does not parse.
\<close>

inductive ks_reach :: "digest \<Rightarrow> environment \<Rightarrow> ks_disk \<Rightarrow> bool" for H env where
  blank: "ks_reach H env blank_disk"
| whole: "ks_reach H env d \<Longrightarrow> ks_reach H env (snd (ks_exec H env c d))"
| crash: "ks_reach H env d \<Longrightarrow> call_steps H env c d = Inr (d1, d2) \<Longrightarrow> ks_reach H env d1"
| torn: "ks_reach H env d \<Longrightarrow> call_steps H env c d = Inr (d1, d2) \<Longrightarrow> ks_audit d = ls \<Longrightarrow>
     ks_reach H env (d\<lparr>ks_audit := Some ((case ls of None \<Rightarrow> [] | Some ls \<Rightarrow> ls) @ [BadLine])\<rparr>)"

lemma exec_steps:
  "snd (ks_exec H env c d) = d \<or> (\<exists>d1. call_steps H env c d = Inr (d1, snd (ks_exec H env c d)))"
  by (cases c) (auto simp: initialize_engaged_def engage_def reset_def with_args_def change_def
      split: sum.splits prod.splits)

lemma call_steps_Inr:
  assumes "call_steps H env c d = Inr (d1, d2)"
  obtains (init) op re now where "c = Initialize_Engaged op re now" "ks_state d = None" "ks_audit d = None"
      "change_steps H env True ''initialize_engaged'' op re now 0 [] d = Inr (d1, d2)"
  | (engage) op re now st events p where "c = Engage op re now" "status H env d = Inr st" "ks_integrity_valid st"
      "read_audit H d = Inr (events, p)" "change_steps H env True ''engage'' op re now (ks_revision st) p d = Inr (d1, d2)"
  | (reset) op re now st events p where "c = Reset op re reset_acknowledgement now" "status H env d = Inr st"
      "ks_integrity_valid st" "ks_engaged st" "read_audit H d = Inr (events, p)"
      "change_steps H env False ''reset'' op re now (ks_revision st) p d = Inr (d1, d2)"
  using assms
  by (cases c) (auto simp: initialize_engaged_args_def engage_args_def reset_args_def)

text \<open>Every event on a reachable disk that released the switch is a reset with an operator and a reason.\<close>

definition release_event :: "(string \<times> json) list \<Rightarrow> bool" where
  "release_event ev \<longleftrightarrow> map_of ev ''action'' = Some (JStr ''reset'') \<and>
     (\<exists>op re. map_of ev ''operator_id'' = Some (JStr op) \<and> op \<noteq> [] \<and>
              map_of ev ''reason'' = Some (JStr re) \<and> re \<noteq> [])"

fun line_ok :: "audit_line \<Rightarrow> bool" where
  "line_ok (Line j) = (\<exists>ev. j = JObj ev \<and>
     (map_of ev ''resulting_engaged'' = Some (JBool True) \<or>
      map_of ev ''resulting_engaged'' = Some (JBool False) \<and> release_event ev))"
| "line_ok BadLine = True"
| "line_ok BlankLine = False"

definition audit_ok :: "ks_disk \<Rightarrow> bool" where
  "audit_ok d \<longleftrightarrow> (case ks_audit d of None \<Rightarrow> True | Some ls \<Rightarrow> list_all line_ok ls)"

lemma change_audit_ok:
  assumes "change_steps H env e a op re now n p d = Inr (d1, d2)" and "audit_ok d" and "e \<or> a = ''reset''"
  shows "audit_ok d1 \<and> audit_ok d2"
proof (rule change_steps_Inr [OF assms(1)])
  fix moment off h
  assume t: "py_strip op \<noteq> []" "py_strip re \<noteq> []"
    and app: "append_audit H (change_event env e a (py_strip op) (py_strip re) moment (n + 1)) p d = (h, d1)"
    and d2: "d2 = d1\<lparr>ks_state := Some (Parsed (change_state env e (py_strip op) (py_strip re) moment (n + 1) h))\<rparr>"
  have "audit_ok d1"
    using app assms(2,3) t
    by (auto simp: append_audit_alt audit_ok_def audit_record_def change_event_def release_event_def
        split: option.splits)
  then show ?thesis by (simp add: d2 audit_ok_def)
qed

lemma call_audit_ok: "call_steps H env c d = Inr (d1, d2) \<Longrightarrow> audit_ok d \<Longrightarrow> audit_ok d1 \<and> audit_ok d2"
  by (erule call_steps_Inr) (auto dest: change_audit_ok)

lemma reach_audit_ok: "ks_reach H env d \<Longrightarrow> audit_ok d"
proof (induction rule: ks_reach.induct)
  case (whole d c)
  then show ?case using exec_steps [of H env c d] call_audit_ok by metis
next
  case (torn d c d1 d2 ls)
  then show ?case by (auto simp: audit_ok_def split: option.splits)
qed (auto simp: audit_ok_def blank_disk_def dest: call_audit_ok)

lemma verified_facts:
  assumes "verified_status H env d = Inr st"
  shows "\<exists>kvs events head. ks_state d = Some (Parsed (JObj kvs)) \<and> read_audit H d = Inr (events, head) \<and> events \<noteq> [] \<and>
     map_of kvs ''audit_head_hash'' = Some (JStr head) \<and>
     (\<exists>v. map_of kvs ''revision'' = Some v \<and> json_py_int v = Inr (ks_revision st)) \<and>
     (\<exists>v. map_of (last events) ''revision'' = Some v \<and> json_py_int v = Inr (ks_revision st)) \<and>
     (\<exists>v. map_of kvs ''engaged'' = Some v \<and> ks_engaged st = (v = JBool True)) \<and>
     (\<exists>v. map_of (last events) ''resulting_engaged'' = Some v \<and> ks_engaged st = (v = JBool True)) \<and>
     ks_environment st = env"
proof -
  have dict: "json_dict j = Inr x \<longleftrightarrow> j = JObj x" for j x by (cases j) auto
  show ?thesis using assms
    by (auto simp: verified_status_def Let_def dict_field_def dict split: option.splits ks_text.splits)
qed

lemma last_line:
  assumes "read_lines H n p ls = Inr (events, head)" and "list_all line_ok ls" and "events \<noteq> []"
  shows "\<exists>ls' ev. ls = ls' @ [Line (JObj ev)] \<and> line_ok (Line (JObj ev)) \<and>
    (\<forall>k. k \<noteq> ''event_hash'' \<longrightarrow> map_of (last events) k = map_of ev k)"
proof (cases ls rule: rev_cases)
  case Nil
  then show ?thesis using assms by simp
next
  case (snoc ls' l)
  show ?thesis
  proof (cases l)
    case (Line j)
    have "read_lines H n p (ls' @ [Line j]) = Inr (events, head)" using assms(1) snoc Line by simp
    from read_last [OF this] obtain kvs events' where j: "j = JObj kvs"
      "events = events' @ [drop_key ''event_hash'' kvs @ [(''event_hash'', JStr head)]]" by blast
    have "\<forall>k. k \<noteq> ''event_hash'' \<longrightarrow> map_of (last events) k = map_of kvs k"
      by (auto simp: j(2) map_add_def drop_key_other split: option.splits)
    then show ?thesis using snoc Line assms(2) j(1) by auto
  qed (use assms snoc in \<open>auto simp: read_lines_append\<close>)
qed

section \<open>A switch that was initialised and reset\<close>

definition ex_disk1 :: "digest \<Rightarrow> ks_disk" where
  "ex_disk1 H = snd (initialize_engaged H DEMO ''op'' ''start'' (utc 0) blank_disk)"

definition ex_disk2 :: "digest \<Rightarrow> ks_disk" where
  "ex_disk2 H = snd (reset H DEMO ''op'' ''go'' reset_acknowledgement (utc 1) (ex_disk1 H))"

lemma strip_go [simp]: "py_strip ''op'' = ''op''" "py_strip ''go'' = ''go''" "py_strip ''start'' = ''start''"
  by (simp_all add: py_strip_def py_isspace_def)

lemma ex_disk1_status: "\<exists>st. status H DEMO (ex_disk1 H) = Inr st \<and> ks_integrity_valid st \<and> ks_engaged st"
proof -
  obtain d1 d2 where c: "change_steps H DEMO True ''initialize_engaged'' ''op'' ''start'' (utc 0) 0 [] blank_disk = Inr (d1, d2)"
    by (auto simp: change_steps_def Let_def append_audit_alt)
  have "read_audit H blank_disk = Inr ([], [])" by (simp add: read_audit_def blank_disk_def)
  from change_completes [OF c this] c show ?thesis
    by (auto simp: ex_disk1_def initialize_engaged_def initialize_engaged_args_def with_args_def change_def
        blank_disk_def)
qed

lemma ex_disk2_status: "\<exists>st. status H DEMO (ex_disk2 H) = Inr st \<and> writes_allowed st"
proof -
  obtain st where st: "status H DEMO (ex_disk1 H) = Inr st" "ks_integrity_valid st" "ks_engaged st"
    using ex_disk1_status by blast
  obtain events p where r: "read_audit H (ex_disk1 H) = Inr (events, p)"
    using verified_facts [OF status_valid [OF st(1,2)]] by blast
  obtain d1 d2 where c: "change_steps H DEMO False ''reset'' ''op'' ''go'' (utc 1) (ks_revision st) p (ex_disk1 H) = Inr (d1, d2)"
    by (auto simp: change_steps_def Let_def append_audit_alt)
  from change_completes [OF c r] c st r show ?thesis
    by (auto simp: ex_disk2_def reset_def reset_args_def with_args_def change_def writes_allowed_def)
qed

lemma ex_disk2_reach: "ks_reach H DEMO (ex_disk2 H)"
  using ks_reach.whole [OF ks_reach.whole [OF ks_reach.blank], of H DEMO
      "Reset ''op'' ''go'' reset_acknowledgement (utc 1)" "Initialize_Engaged ''op'' ''start'' (utc 0)"]
  by (simp add: ex_disk2_def ex_disk1_def)

section \<open>Properties\<close>



text \<open>
  A reset succeeds exactly when the acknowledgement is the required sentence, the switch
  verifies and is engaged, operator and reason are not blank and the time carries a zone. It
  then allows writes under the next revision and a later \<open>status\<close> says so; in every other
  case it raises and the disk is unchanged.
\<close>

definition reset_accepted :: "digest \<Rightarrow> environment \<Rightarrow> string \<Rightarrow> string \<Rightarrow> string \<Rightarrow> pydatetime \<Rightarrow> ks_disk \<Rightarrow> bool" where
  "reset_accepted H env op re ack now d \<longleftrightarrow> ack = reset_acknowledgement \<and>
     (case status H env d of Inl e \<Rightarrow> False | Inr st \<Rightarrow> ks_integrity_valid st \<and> ks_engaged st) \<and>
     py_strip op \<noteq> [] \<and> py_strip re \<noteq> [] \<and> (case now of Naive t \<Rightarrow> False | Aware t off \<Rightarrow> True)"

theorem reset_exactly_when_acknowledged:
  "if reset_accepted H env op re ack now d
   then (\<exists>st st'. status H env d = Inr st \<and> reset H env op re ack now d = (Inr st', snd (reset H env op re ack now d)) \<and>
           status H env (snd (reset H env op re ack now d)) = Inr st' \<and> writes_allowed st' \<and>
           ks_revision st' = ks_revision st + 1)
   else \<exists>e. reset H env op re ack now d = (Inl e, d)"
proof (cases "reset_accepted H env op re ack now d")
  case True
  then obtain st t off where st: "ack = reset_acknowledgement" "status H env d = Inr st" "ks_integrity_valid st"
    "ks_engaged st" "py_strip op \<noteq> []" "py_strip re \<noteq> []" "now = Aware t off"
    by (auto simp: reset_accepted_def split: sum.splits pydatetime.splits)
  obtain events p where r: "read_audit H d = Inr (events, p)"
    using verified_facts [OF status_valid [OF st(2,3)]] by blast
  obtain d1 d2 where c: "change_steps H env False ''reset'' op re now (ks_revision st) p d = Inr (d1, d2)"
    using st by (auto simp: change_steps_def Let_def append_audit_alt)
  from change_completes [OF this r] st r c True show ?thesis
    by (auto simp: reset_def reset_args_def with_args_def change_def writes_allowed_def)
next
  case False
  have "reset H env op re ack now d = (Inl e, d)" if "reset_args H env ack d = Inl e" for e
    using that by (simp add: reset_def with_args_def)
  moreover have "\<exists>e. reset H env op re ack now d = (Inl e, d)" if "reset_args H env ack d = Inr (b, a, n, p)" for b a n p
  proof -
    have "py_strip op = [] \<or> py_strip re = [] \<or> (\<exists>t. now = Naive t)"
      using that False by (auto simp: reset_args_def reset_accepted_def split: pydatetime.splits)
    then have "\<exists>e. change_steps H env b a op re now n p d = Inl e"
      by (auto simp: change_steps_def Let_def raiseIf_def)
    then show ?thesis using that by (auto simp: reset_def with_args_def change_def)
  qed
  ultimately show ?thesis using False by (cases "reset_args H env ack d") auto
qed

text \<open>
  A crash between the audit append and the replacement of the state file, or inside the
  append, leaves the switch fail-closed, whatever operation was running and whichever
  position the switch was in.
\<close>

theorem kill_switch_crash_safe:
  assumes "call_steps H env c d = Inr (d1, d2)"
  shows "(\<exists>r. status H env d1 = Inr (failsafe r env)) \<and>
         (\<exists>r. status H env (d\<lparr>ks_audit := Some ((case ks_audit d of None \<Rightarrow> [] | Some ls \<Rightarrow> ls) @ [BadLine])\<rparr>) =
              Inr (failsafe r env))"
proof
  show "\<exists>r. status H env d1 = Inr (failsafe r env)"
    using assms
  proof (cases rule: call_steps_Inr)
    case (init op re now)
    then have "ks_state d1 = None" by (auto elim!: change_steps_Inr simp: append_audit_alt)
    then show ?thesis by (auto intro: not_verified_status)
  next
    case (engage op re now st events p)
    then show ?thesis using crash_not_verified [OF engage(5,4) status_valid [OF engage(2,3)]]
      by (blast intro: not_verified_status)
  next
    case (reset op re now st events p)
    then show ?thesis using crash_not_verified [OF reset(6,5) status_valid [OF reset(2,3)]]
      by (blast intro: not_verified_status)
  qed
  let ?t = "d\<lparr>ks_audit := Some ((case ks_audit d of None \<Rightarrow> [] | Some ls \<Rightarrow> ls) @ [BadLine])\<rparr>"
  have "ks_state ?t = None \<or> (\<exists>events p. read_audit H d = Inr (events, p)) \<and> (\<exists>raw. ks_state d = Some (Parsed raw))"
    using assms by (cases rule: call_steps_Inr) (auto dest: status_valid verified_facts)
  then have "ks_state ?t = None \<or> (\<exists>m. verified_status H env ?t = Inl (KillSwitchError m))"
    by (auto simp: verified_status_def read_audit_def read_lines_append split: option.splits)
  then show "\<exists>r. status H env ?t = Inr (failsafe r env)" by (blast intro: not_verified_status)
qed

theorem kill_switch_crash_safe_witness:
  "\<exists>d1 d2. call_steps (\<lambda>x. x) DEMO (Initialize_Engaged ''op'' ''start'' (utc 0)) blank_disk = Inr (d1, d2) \<and>
     (\<exists>r. status (\<lambda>x. x) DEMO d1 = Inr (failsafe r DEMO))"
proof -
  obtain d1 d2 where c: "call_steps (\<lambda>x. x) DEMO (Initialize_Engaged ''op'' ''start'' (utc 0)) blank_disk = Inr (d1, d2)"
    by (auto simp: initialize_engaged_args_def blank_disk_def change_steps_def Let_def append_audit_alt)
  then show ?thesis using kill_switch_crash_safe [OF c] by blast
qed



end
