(* ===== verification/Risk_Limits.thy ===== *)
theory Risk_Limits
  imports Py_Render
begin

text \<open>
  \<open>RiskLimits\<close> of \<open>src/risk/pretrade.py\<close>: the limits and the loader that accepts nothing
  outside the Demo scope.
\<close>

record risk_limits =
  rl_schema_version :: string
  rl_environment :: environment
  rl_max_order_equity_fraction :: decimal
  rl_max_issuer_fraction :: decimal
  rl_max_sector_fraction :: decimal
  rl_max_gross_fraction :: decimal
  rl_max_net_fraction :: decimal
  rl_min_cash_buffer_fraction :: decimal
  rl_required_leverage :: decimal
  rl_daily_loss_stop_fraction :: decimal
  rl_drawdown_stop_fraction :: decimal
  rl_quote_max_age_seconds :: int
  rl_account_max_age_seconds :: int
  rl_approval_max_age_seconds :: int
  rl_regular_hours_only :: bool
  rl_allowed_asset_types :: "string list"

definition risk_required_keys :: "string list" where
  "risk_required_keys =
     [''schema_version'', ''environment'', ''max_order_equity_fraction'', ''max_issuer_fraction'',
      ''max_sector_fraction'', ''max_gross_fraction'', ''max_net_fraction'', ''min_cash_buffer_fraction'',
      ''required_leverage'', ''daily_loss_stop_fraction'', ''drawdown_stop_fraction'',
      ''quote_max_age_seconds'', ''account_max_age_seconds'', ''approval_max_age_seconds'',
      ''regular_hours_only'', ''allowed_asset_types'']"

definition risk_limits_values :: "(string \<times> yaml) list \<Rightarrow> risk_limits result" where
  "risk_limits_values kvs =
     bindR (environment_of (py_lower (py_strip (yaml_str (yaml_get kvs ''environment''))))) (\<lambda>env.
     bindR (yaml_decimal (yaml_get kvs ''max_order_equity_fraction'')) (\<lambda>order_fraction.
     bindR (yaml_decimal (yaml_get kvs ''max_issuer_fraction'')) (\<lambda>issuer_fraction.
     bindR (yaml_decimal (yaml_get kvs ''max_sector_fraction'')) (\<lambda>sector_fraction.
     bindR (yaml_decimal (yaml_get kvs ''max_gross_fraction'')) (\<lambda>gross_fraction.
     bindR (yaml_decimal (yaml_get kvs ''max_net_fraction'')) (\<lambda>net_fraction.
     bindR (yaml_decimal (yaml_get kvs ''min_cash_buffer_fraction'')) (\<lambda>cash_fraction.
     bindR (yaml_decimal (yaml_get kvs ''required_leverage'')) (\<lambda>leverage.
     bindR (yaml_decimal (yaml_get kvs ''daily_loss_stop_fraction'')) (\<lambda>daily_fraction.
     bindR (yaml_decimal (yaml_get kvs ''drawdown_stop_fraction'')) (\<lambda>drawdown_fraction.
     bindR (yaml_int (yaml_get kvs ''quote_max_age_seconds'')) (\<lambda>quote_age.
     bindR (yaml_int (yaml_get kvs ''account_max_age_seconds'')) (\<lambda>account_age.
     bindR (yaml_int (yaml_get kvs ''approval_max_age_seconds'')) (\<lambda>approval_age.
     bindR (yaml_items (yaml_get kvs ''allowed_asset_types'')) (\<lambda>asset_types.
     Inr \<lparr>rl_schema_version = yaml_str (yaml_get kvs ''schema_version''), rl_environment = env,
          rl_max_order_equity_fraction = order_fraction, rl_max_issuer_fraction = issuer_fraction,
          rl_max_sector_fraction = sector_fraction, rl_max_gross_fraction = gross_fraction,
          rl_max_net_fraction = net_fraction, rl_min_cash_buffer_fraction = cash_fraction,
          rl_required_leverage = leverage, rl_daily_loss_stop_fraction = daily_fraction,
          rl_drawdown_stop_fraction = drawdown_fraction, rl_quote_max_age_seconds = quote_age,
          rl_account_max_age_seconds = account_age, rl_approval_max_age_seconds = approval_age,
          rl_regular_hours_only = yaml_true (yaml_get kvs ''regular_hours_only''),
          rl_allowed_asset_types = map (\<lambda>v. py_lower (py_strip (yaml_str v))) asset_types\<rparr>))))))))))))))"

definition risk_fractions :: "risk_limits \<Rightarrow> decimal list" where
  "risk_fractions l = [rl_max_order_equity_fraction l, rl_max_issuer_fraction l, rl_max_sector_fraction l,
     rl_max_gross_fraction l, rl_max_net_fraction l, rl_min_cash_buffer_fraction l,
     rl_daily_loss_stop_fraction l, rl_drawdown_stop_fraction l]"

text \<open>
  Comparing a NaN with \<open><=\<close> raises \<open>InvalidOperation\<close>, outside the \<open>try\<close> block; the fractions are
  looked at from the left until one decides.
\<close>

fun fractions_bad :: "decimal list \<Rightarrow> bool result" where
  "fractions_bad [] = Inr False"
| "fractions_bad (DNaN # ds) = Inl (DecimalInvalidOperation ''comparison involving NaN'')"
| "fractions_bad (d # ds) = (if dec_le d dec0 \<or> dec_lt dec1 d then Inr True else fractions_bad ds)"

definition load_limits :: "yaml option \<Rightarrow> risk_limits result" where
  "load_limits doc =
     bindR (of_option (RiskConfigurationError ''risk configuration is missing or invalid'') doc) (\<lambda>raw.
     bindR (yaml_dict (RiskConfigurationError ''risk configuration must be a mapping'') raw) (\<lambda>kvs.
     let missing = missing_keys risk_required_keys kvs in
     raiseIf (missing \<noteq> []) (RiskConfigurationError (''risk configuration missing keys: '' @ missing_text missing)) (
     bindR (rescue (RiskConfigurationError ''risk configuration values are invalid'') (risk_limits_values kvs)) (\<lambda>l.
     bindR (fractions_bad (risk_fractions l)) (\<lambda>bad.
     raiseIf bad (RiskConfigurationError ''risk fractions must be within (0, 1]'') (
     raiseIf (\<not> dec_eq (rl_required_leverage l) dec1)
       (RiskConfigurationError ''initial Demo scope requires leverage exactly 1'') (
     raiseIf (rl_environment l \<noteq> DEMO) (RiskConfigurationError ''only Demo risk configuration is authorized'') (
     raiseIf (min (rl_quote_max_age_seconds l)
                (min (rl_account_max_age_seconds l) (rl_approval_max_age_seconds l)) \<le> 0)
       (RiskConfigurationError ''freshness windows must be positive'') (
     raiseIf (\<not> rl_regular_hours_only l)
       (RiskConfigurationError ''initial Demo scope requires regular hours'') (
     Inr l))))))))))"

section \<open>Loaded limits\<close>

lemma fractions_in_range:
  "fractions_bad ds = Inr False \<longleftrightarrow> list_all (\<lambda>d. is_finite d \<and> 0 < dec_val d \<and> dec_val d \<le> 1) ds"
proof (induction ds)
  case (Cons d ds)
  show ?case
  proof (cases d)
    case (Dec s c e)
    have "fractions_bad (d # ds) = (if dec_le d dec0 \<or> dec_lt dec1 d then Inr True else fractions_bad ds)"
      and fin: "is_finite d" using Dec by simp_all
    moreover have "dec_le d dec0 \<or> dec_lt dec1 d \<longleftrightarrow> \<not> (0 < dec_val d \<and> dec_val d \<le> 1)"
    proof -
      have "dec_le d dec0 \<longleftrightarrow> dec_val d \<le> dec_val dec0" "dec_lt dec1 d \<longleftrightarrow> dec_val dec1 < dec_val d"
        by (rule dec_le_iff_val [OF fin], simp, rule dec_lt_iff_val [OF _ fin], simp)
      then show ?thesis by (auto simp: not_less)
    qed
    ultimately show ?thesis using Cons.IH fin by auto
  qed (use Cons.IH in \<open>auto simp: dec_lt_def\<close>)
qed simp

definition limits_ok :: "risk_limits \<Rightarrow> bool" where
  "limits_ok l \<longleftrightarrow> list_all (\<lambda>d. is_finite d \<and> 0 < dec_val d \<and> dec_val d \<le> 1) (risk_fractions l) \<and>
     dec_eq (rl_required_leverage l) dec1 \<and> rl_environment l = DEMO \<and>
     0 < rl_quote_max_age_seconds l \<and> 0 < rl_account_max_age_seconds l \<and> 0 < rl_approval_max_age_seconds l \<and>
     rl_regular_hours_only l"

text \<open>
  \<open>RiskLimits.load\<close> returns limits exactly when the document is a mapping with every
  required key, every value converts and the limits are inside the Demo scope: each fraction
  in \<open>(0, 1]\<close>, leverage 1, the Demo environment, positive freshness windows and regular hours
  only.
\<close>

theorem load_limits_exact:
  "load_limits doc = Inr l \<longleftrightarrow>
     (\<exists>kvs. doc = Some (YMap kvs) \<and> missing_keys risk_required_keys kvs = [] \<and>
            risk_limits_values kvs = Inr l \<and> limits_ok l)"
  by (auto simp: load_limits_def limits_ok_def fractions_in_range [symmetric] Let_def)

text \<open>Limits of the size the shipped configuration has.\<close>

definition ex_limits :: risk_limits where
  "ex_limits = \<lparr>rl_schema_version = ''1.0'', rl_environment = DEMO, rl_max_order_equity_fraction = Dec False 1 (-2),
     rl_max_issuer_fraction = Dec False 5 (-2), rl_max_sector_fraction = Dec False 20 (-2),
     rl_max_gross_fraction = Dec False 50 (-2), rl_max_net_fraction = Dec False 50 (-2),
     rl_min_cash_buffer_fraction = Dec False 20 (-2), rl_required_leverage = dec1,
     rl_daily_loss_stop_fraction = Dec False 1 (-2), rl_drawdown_stop_fraction = Dec False 5 (-2),
     rl_quote_max_age_seconds = 30, rl_account_max_age_seconds = 15, rl_approval_max_age_seconds = 300,
     rl_regular_hours_only = True, rl_allowed_asset_types = [''equity'', ''etf'']\<rparr>"

end
