(* ===== verification/Submission_Gate.thy ===== *)
theory Submission_Gate
  imports Store Kill_Switch Risk_Limits
begin

text \<open>
  \<open>src/risk/approval.py\<close> and \<open>src/risk/submission_gate.py\<close>: issuing and verifying a human
  approval, the governance policy, and the final gate in front of a broker write. The fresh
  UUID of an approval is an argument. Ages are differences of instants in microseconds; the
  code compares the same differences as floats of seconds, which is the same comparison for
  limits below a century.
\<close>

section \<open>Approvals\<close>

definition issue ::
  "risk_limits \<Rightarrow> uuid \<Rightarrow> order_intent \<Rightarrow> risk_decision \<Rightarrow> string \<Rightarrow> pydatetime \<Rightarrow> bool \<Rightarrow> (string \<times> string) list \<Rightarrow>
   approval result" where
  "issue limits fresh intent decision approver now human_confirmed approval_limits =
     bindR (aware_utc now ''now'') (\<lambda>moment.
     raiseIf (\<not> human_confirmed) (ApprovalError ''explicit human confirmation is required per order'') (
     raiseIf (py_strip approver = []) (ApprovalError ''approver identity is required'') (
     raiseIf (rd_intent_hash decision \<noteq> oi_intent_hash intent)
       (ApprovalError ''risk decision does not bind to the current intent'') (
     raiseIf (rd_outcome decision \<noteq> ACCEPTED) (ApprovalError ''risk-rejected intent cannot be approved'') (
     raiseIf (moment < rd_decided_at decision) (ApprovalError ''approval time precedes the risk decision'') (
     let expires_at = min (oi_expires_at intent) (moment + seconds (rl_approval_max_age_seconds limits)) in
     raiseIf (expires_at \<le> moment) (ApprovalError ''intent has already expired'') (
     let default_limits = [(''risk_decision_id'', uuid_str (rd_decision_id decision)),
                           (''account_snapshot_id'', rd_account_snapshot_id decision),
                           (''quote_id'', rd_quote_id decision)] in
     Approval (RUuid fresh) (oi_intent_hash intent) (py_strip approver) (environment_str (oi_environment intent))
       (immutable_pairs (dict_update default_limits approval_limits)) (utc moment) (utc expires_at)
       schema_version)))))))"

definition verify :: "digest \<Rightarrow> approval \<Rightarrow> order_intent \<Rightarrow> pydatetime \<Rightarrow> unit result" where
  "verify H a intent now =
     bindR (aware_utc now ''now'') (\<lambda>moment.
     raiseIf (compute_hash H intent \<noteq> oi_intent_hash intent)
       (ApprovalError ''intent payload integrity check failed'') (
     raiseIf (ap_intent_hash a \<noteq> oi_intent_hash intent)
       (ApprovalError ''intent change invalidated the approval'') (
     raiseIf (ap_environment a \<noteq> oi_environment intent) (ApprovalError ''approval environment mismatch'') (
     raiseIf (moment < ap_issued_at a \<or> moment \<ge> ap_expires_at a)
       (ApprovalError ''approval is stale or not yet valid'') (
     raiseIf (moment \<ge> oi_expires_at intent) (ApprovalError ''intent expired after approval'') (
     Inr ()))))))"

section \<open>Governance\<close>

record governance =
  gp_execution_mode :: string
  gp_allow_broker_api :: bool
  gp_allow_order_submission :: bool
  gp_manual_signoff_required :: bool

definition governance_required :: "string list" where
  "governance_required = [''execution_mode'', ''allow_broker_api'', ''allow_order_submission'', ''manual_signoff_required'']"

definition load_governance :: "yaml option \<Rightarrow> governance result" where
  "load_governance doc =
     bindR (of_option (SubmissionBlockedError ''governance configuration is missing or malformed'') doc) (\<lambda>raw.
     bindR (yaml_dict (SubmissionBlockedError ''governance configuration must be a mapping'') raw) (\<lambda>kvs.
     let missing = missing_keys governance_required kvs in
     raiseIf (missing \<noteq> []) (SubmissionBlockedError (''governance configuration missing: '' @ missing_text missing)) (
     Inr \<lparr>gp_execution_mode = py_lower (py_strip (yaml_str (yaml_get kvs ''execution_mode''))),
          gp_allow_broker_api = yaml_true (yaml_get kvs ''allow_broker_api''),
          gp_allow_order_submission = yaml_true (yaml_get kvs ''allow_order_submission''),
          gp_manual_signoff_required = yaml_true (yaml_get kvs ''manual_signoff_required'')\<rparr>)))"

definition demo_writes_allowed :: "governance \<Rightarrow> bool" where
  "demo_writes_allowed g \<longleftrightarrow> gp_execution_mode g = ''demo_manual'' \<and> gp_allow_broker_api g \<and>
     gp_allow_order_submission g \<and> gp_manual_signoff_required g"

section \<open>The gate\<close>

record submission_authorization =
  sa_intent_hash :: string
  sa_risk_decision_id :: string
  sa_approval_id :: string
  sa_environment :: environment
  sa_authorized_at :: instant

definition blocked :: "'a result \<Rightarrow> 'a result" where
  "blocked r = (case r of Inl (ApprovalError m) \<Rightarrow> Inl (SubmissionBlockedError m) | _ \<Rightarrow> r)"

definition authorize ::
  "digest \<Rightarrow> risk_limits \<Rightarrow> order_intent \<Rightarrow> risk_decision \<Rightarrow> approval \<Rightarrow> ks_status \<Rightarrow> bool \<Rightarrow> bool \<Rightarrow> governance \<Rightarrow>
   pydatetime \<Rightarrow> submission_authorization result" where
  "authorize H limits intent decision a kill_switch regular_session_open broker_writes_enabled gov now =
     bindR (aware_utc now ''now'') (\<lambda>moment.
     raiseIf (\<not> broker_writes_enabled) (SubmissionBlockedError ''broker writes are disabled by configuration'') (
     raiseIf (\<not> demo_writes_allowed gov) (SubmissionBlockedError ''governance does not authorize Demo writes'') (
     raiseIf (oi_environment intent \<noteq> rl_environment limits)
       (SubmissionBlockedError ''intent environment is not authorized'') (
     raiseIf (ks_environment kill_switch \<noteq> oi_environment intent)
       (SubmissionBlockedError ''kill-switch environment mismatch'') (
     raiseIf (\<not> writes_allowed kill_switch)
       (SubmissionBlockedError ''kill switch is engaged, missing, or corrupt'') (
     raiseIf (\<not> regular_session_open) (SubmissionBlockedError ''regular trading session is closed'') (
     raiseIf (rd_intent_hash decision \<noteq> oi_intent_hash intent)
       (SubmissionBlockedError ''risk decision does not bind to the intent'') (
     raiseIf (rd_outcome decision \<noteq> ACCEPTED \<or> \<not> list_all rc_passed (rd_checks decision))
       (SubmissionBlockedError ''current independent risk decision is not accepted'') (
     let decision_age = moment - rd_decided_at decision; quote_age = moment - rd_quote_observed_at decision in
     raiseIf (\<not> (0 \<le> decision_age \<and> decision_age \<le> seconds (rl_account_max_age_seconds limits)))
       (SubmissionBlockedError ''risk/account evidence is stale at submission'') (
     raiseIf (\<not> (0 \<le> quote_age \<and> quote_age \<le> seconds (rl_quote_max_age_seconds limits)))
       (SubmissionBlockedError ''broker quote is stale at submission'') (
     bindR (blocked (verify H a intent (utc moment))) (\<lambda>_.
     raiseIf (dict_get (ap_limits a) ''risk_decision_id'' \<noteq> Some (uuid_str (rd_decision_id decision)))
       (SubmissionBlockedError ''approval does not bind to the current risk decision'') (
     Inr \<lparr>sa_intent_hash = oi_intent_hash intent, sa_risk_decision_id = uuid_str (rd_decision_id decision),
          sa_approval_id = uuid_str (ap_approval_id a), sa_environment = oi_environment intent,
          sa_authorized_at = moment\<rparr>)))))))))))))"

section \<open>Lemmas\<close>

lemma blocked_Inr [simp]: "blocked r = Inr x \<longleftrightarrow> r = Inr x"
  by (auto simp: blocked_def split: sum.splits error.splits)

lemma verify_Inr:
  "verify H a intent now = Inr u \<longleftrightarrow>
     (\<exists>moment off. now = Aware moment off \<and> compute_hash H intent = oi_intent_hash intent \<and>
        ap_intent_hash a = oi_intent_hash intent \<and> ap_environment a = oi_environment intent \<and>
        ap_issued_at a \<le> moment \<and> moment < ap_expires_at a \<and> moment < oi_expires_at intent)"
  by (cases now) (auto simp: verify_def)

lemma dict_get_immutable_pairs:
  assumes "distinct (map fst d)"
  shows "dict_get (immutable_pairs d) k = map_of d k"
proof -
  have "distinct (map fst (rev (sort d)))"
    using assms by (metis distinct_map distinct_rev distinct_sort rev_map set_rev set_sort)
  then have "map_of (rev (sort d)) = map_of d"
    using assms by (intro map_of_inject_set [THEN iffD2]) auto
  then show ?thesis by (simp add: dict_get_def immutable_pairs_def)
qed

section \<open>Properties\<close>

definition gates_open ::
  "digest \<Rightarrow> risk_limits \<Rightarrow> order_intent \<Rightarrow> risk_decision \<Rightarrow> approval \<Rightarrow> ks_status \<Rightarrow> bool \<Rightarrow> bool \<Rightarrow> governance \<Rightarrow>
   instant \<Rightarrow> bool" where
  "gates_open H limits intent decision a kill_switch session_open writes_enabled gov moment \<longleftrightarrow>
     writes_enabled \<and> session_open \<and> demo_writes_allowed gov \<and>
     ks_integrity_valid kill_switch \<and> \<not> ks_engaged kill_switch \<and>
     oi_environment intent = rl_environment limits \<and> ks_environment kill_switch = oi_environment intent \<and>
     ap_environment a = oi_environment intent \<and>
     compute_hash H intent = oi_intent_hash intent \<and> rd_intent_hash decision = oi_intent_hash intent \<and>
     ap_intent_hash a = oi_intent_hash intent \<and>
     dict_get (ap_limits a) ''risk_decision_id'' = Some (uuid_str (rd_decision_id decision)) \<and>
     rd_outcome decision = ACCEPTED \<and> list_all rc_passed (rd_checks decision) \<and>
     rd_decided_at decision \<le> moment \<and> moment \<le> rd_decided_at decision + seconds (rl_account_max_age_seconds limits) \<and>
     rd_quote_observed_at decision \<le> moment \<and>
     moment \<le> rd_quote_observed_at decision + seconds (rl_quote_max_age_seconds limits) \<and>
     ap_issued_at a \<le> moment \<and> moment < ap_expires_at a \<and> moment < oi_expires_at intent"

lemma authorize_Inr:
  "authorize H limits intent decision a kill_switch session_open writes_enabled gov (Aware moment off) = Inr z \<longleftrightarrow>
     gates_open H limits intent decision a kill_switch session_open writes_enabled gov moment \<and>
     z = \<lparr>sa_intent_hash = oi_intent_hash intent, sa_risk_decision_id = uuid_str (rd_decision_id decision),
          sa_approval_id = uuid_str (ap_approval_id a), sa_environment = oi_environment intent,
          sa_authorized_at = moment\<rparr>"
  by (auto simp: authorize_def gates_open_def verify_Inr writes_allowed_def Let_def)


text \<open>
  An approval issued by \<open>ApprovalAuthority.issue\<close> was confirmed by a human for an accepted
  decision on this intent, is valid for at most the configured age and never beyond the
  intent, and verifies for this intent at every moment of its validity and at no other. It
  carries the decision id, snapshot id and quote id unless the caller overrides them.
\<close>

theorem issued_approval_verifies:
  assumes "issue limits fresh intent decision approver now confirmed extra = Inr a"
    and "compute_hash H intent = oi_intent_hash intent"
  shows "confirmed \<and> rd_outcome decision = ACCEPTED \<and> rd_intent_hash decision = oi_intent_hash intent \<and>
         valid_approval a \<and> rd_decided_at decision \<le> ap_issued_at a \<and>
         ap_expires_at a \<le> oi_expires_at intent \<and>
         ap_expires_at a \<le> ap_issued_at a + seconds (rl_approval_max_age_seconds limits) \<and>
         (verify H a intent (utc t) = Inr () \<longleftrightarrow> ap_issued_at a \<le> t \<and> t < ap_expires_at a) \<and>
         dict_get (ap_limits a) k = (case map_of (rev extra) k of Some v \<Rightarrow> Some v | None \<Rightarrow>
            map_of [(''risk_decision_id'', uuid_str (rd_decision_id decision)),
                    (''account_snapshot_id'', rd_account_snapshot_id decision),
                    (''quote_id'', rd_quote_id decision)] k)"
proof -
  let ?d = "[(''risk_decision_id'', uuid_str (rd_decision_id decision)),
             (''account_snapshot_id'', rd_account_snapshot_id decision), (''quote_id'', rd_quote_id decision)]"
  obtain m off where now: "now = Aware m off" using assms(1) by (cases now) (auto simp: issue_def)
  have a: "confirmed" "rd_intent_hash decision = oi_intent_hash intent" "rd_outcome decision = ACCEPTED"
    "rd_decided_at decision \<le> m"
    "Approval (RUuid fresh) (oi_intent_hash intent) (py_strip approver) (environment_str (oi_environment intent))
       (immutable_pairs (dict_update ?d extra)) (utc m)
       (utc (min (oi_expires_at intent) (m + seconds (rl_approval_max_age_seconds limits)))) schema_version = Inr a"
    using assms(1) by (auto simp: issue_def now Let_def)
  have lims: "ap_limits a = immutable_pairs (dict_update ?d extra)"
    and sel: "ap_intent_hash a = oi_intent_hash intent" "ap_environment a = oi_environment intent" "ap_issued_at a = m"
      "ap_expires_at a = min (oi_expires_at intent) (m + seconds (rl_approval_max_age_seconds limits))"
    using a(5) by (auto simp: Approval_def)
  have "dict_get (ap_limits a) k = map_of (dict_update ?d extra) k"
    unfolding lims by (rule dict_get_immutable_pairs) (simp add: distinct_dict_update)
  then show ?thesis
    using a sel Approval_valid [OF a(5)] assms(2) by (auto simp: map_of_dict_update verify_Inr)
qed

lemma ex_issue: "\<exists>a. issue ex_limits 4 ex_intent ex_decision ''op'' (utc 101000000) True [] = Inr a"
  by (simp add: issue_def Let_def ex_decision_def ex_intent_def ex_limits_def seconds_def Approval_def
      approval_ok_def not_blank_Cons py_isspace_def environment_of_def enum_of_def)

theorem issued_approval_verifies_witness:
  "\<exists>a. issue ex_limits 4 ex_intent ex_decision ''op'' (utc 101000000) True [] = Inr a \<and>
     (verify ex_digest a ex_intent (utc 102000000) = Inr () \<longleftrightarrow> ap_issued_at a \<le> 102000000 \<and> 102000000 < ap_expires_at a) \<and>
     dict_get (ap_limits a) ''quote_id'' = Some (rd_quote_id ex_decision)"
proof -
  obtain a where a: "issue ex_limits 4 ex_intent ex_decision ''op'' (utc 101000000) True [] = Inr a"
    using ex_issue by blast
  have "compute_hash ex_digest ex_intent = oi_intent_hash ex_intent"
    by (simp add: compute_hash_def payload_hash_def ex_digest_def ex_intent_def)
  from issued_approval_verifies [OF a this, of 102000000 "''quote_id''"] a show ?thesis by simp
qed

end
