(* ===== verification/Broker_Base.thy ===== *)
theory Broker_Base
  imports Instruments
begin

text \<open>
  \<open>src/brokers/base.py\<close>: the data a broker adapter exchanges with the execution layer. The
  dataclasses have no validation, so a record is all there is to them. An adapter is a record
  of its attributes and the two calls the coordinator makes; the calls are parameters of the
  model, and an adapter may answer anything or raise.
\<close>

record broker_quote =
  bq_quote_id :: string
  bq_internal_instrument_id :: uuid
  bq_broker_instrument_id :: int
  bq_bid :: decimal
  bq_ask :: decimal
  bq_observed_at :: pydatetime
  bq_source :: string

record broker_position =
  bp_broker_position_id :: "string option"
  bp_broker_instrument_id :: int
  bp_units :: decimal
  bp_current_exposure :: decimal
  bp_average_leverage :: decimal
  bp_pnl :: decimal
  bp_currency :: string

record broker_order =
  bo_broker_order_id :: string
  bo_broker_instrument_id :: int
  bo_side :: string
  bo_remaining_notional :: decimal
  bo_status :: string

record broker_execution =
  be_broker_execution_id :: string
  be_broker_order_id :: string
  be_broker_instrument_id :: int
  be_broker_position_id :: string
  be_broker_reference_id :: string
  be_environment :: environment
  be_side :: string
  be_action :: string
  be_units :: decimal
  be_price :: decimal
  be_executed_at :: pydatetime
  be_price_rate_id :: string
  be_fees :: decimal
  be_taxes :: decimal
  be_currency :: string
  be_executed_amount :: "decimal option"
  be_executed_at_source :: "string option"

record broker_account_snapshot =
  bs_snapshot_id :: string
  bs_environment :: environment
  bs_observed_at :: pydatetime
  bs_currency :: string
  bs_equity :: decimal
  bs_available_cash :: decimal
  bs_balance :: decimal
  bs_frozen_cash :: decimal
  bs_current_pnl :: decimal
  bs_used_margin :: decimal
  bs_positions :: "broker_position list"
  bs_pending_orders :: "broker_order list"
  bs_pending_orders_complete :: bool
  bs_executions_complete :: bool
  bs_invested_amount :: "decimal option"

record broker_submission_result =
  sr_request_id :: uuid
  sr_accepted_for_processing :: bool
  sr_broker_order_id :: "string option"
  sr_broker_reference_id :: "string option"
  sr_raw_status :: string
  sr_ambiguous :: bool

record broker_reconciliation_result =
  rr_command_id :: uuid
  rr_reconciled :: bool
  rr_lifecycle_state :: string
  rr_broker_order_id :: "string option"
  rr_broker_position_id :: "string option"
  rr_details :: "(string \<times> string) list"
  rr_executions :: "broker_execution list"

record broker_adapter =
  ad_broker_name :: string
  ad_environment :: environment
  ad_read_only :: bool
  ad_external_reference_identity :: bool
  ad_submit_order :: "order_intent \<Rightarrow> broker_command \<Rightarrow> broker_submission_result result"
  ad_reconcile_command :: "broker_command \<Rightarrow> broker_reconciliation_result result"

end
