(* ===== verification/Coordinator.thy ===== *)
theory Coordinator
  imports Claims Registry Broker_Base Submission_Gate
begin

text \<open>
  \<open>src/execution/coordinator.py\<close>: the configuration loader and every operation of
  \<open>ExecutionCoordinator\<close>. The world is the execution store and the log of what was handed to
  the broker: \<open>adapter.submit_order\<close> appends its command to the log, whatever it answers. The
  wall clock readings of the store calls of one operation are \<open>clock 0\<close>, \<open>clock 1\<close> and so on,
  and the UUIDs it draws are arguments.
\<close>

section \<open>Configuration\<close>

record execution_config =
  ec_schema_version :: string
  ec_intent_import_enabled :: bool
  ec_broker_writes_enabled :: bool
  ec_adapter :: string
  ec_environment :: environment
  ec_require_internal_instrument_id :: bool
  ec_allowed_asset_types :: "string list"
  ec_allowed_sides :: "string list"
  ec_allowed_leverage :: decimal

definition config_required_keys :: "string list" where
  "config_required_keys = [''schema_version'', ''intent_import_enabled'', ''broker_writes_enabled'', ''adapter'',
     ''environment'', ''require_internal_instrument_id'', ''allowed_asset_types'', ''allowed_sides'',
     ''allowed_leverage'']"

definition config_values :: "(string \<times> yaml) list \<Rightarrow> execution_config result" where
  "config_values kvs =
     bindR (environment_of (py_lower (py_strip (yaml_str (yaml_get kvs ''environment''))))) (\<lambda>env.
     bindR (yaml_items (yaml_get kvs ''allowed_asset_types'')) (\<lambda>asset_types.
     bindR (yaml_items (yaml_get kvs ''allowed_sides'')) (\<lambda>sides.
     bindR (yaml_decimal (yaml_get kvs ''allowed_leverage'')) (\<lambda>leverage.
     Inr \<lparr>ec_schema_version = yaml_str (yaml_get kvs ''schema_version''),
          ec_intent_import_enabled = yaml_true (yaml_get kvs ''intent_import_enabled''),
          ec_broker_writes_enabled = yaml_true (yaml_get kvs ''broker_writes_enabled''),
          ec_adapter = py_lower (py_strip (yaml_str (yaml_get kvs ''adapter''))),
          ec_environment = env,
          ec_require_internal_instrument_id = yaml_true (yaml_get kvs ''require_internal_instrument_id''),
          ec_allowed_asset_types = map (\<lambda>v. py_lower (py_strip (yaml_str v))) asset_types,
          ec_allowed_sides = map (\<lambda>v. py_lower (py_strip (yaml_str v))) sides,
          ec_allowed_leverage = leverage\<rparr>))))"

definition approved_adapters :: "string list" where
  "approved_adapters = [''offline'', ''fake'', ''etoro_demo_read_only'', ''etoro_demo_manual'']"

definition load_config :: "yaml option \<Rightarrow> execution_config result" where
  "load_config doc =
     bindR (of_option (ExecutionDisabledError ''execution configuration is missing or invalid'') doc) (\<lambda>raw.
     bindR (yaml_dict (ExecutionDisabledError ''execution configuration must be a mapping'') raw) (\<lambda>kvs.
     let missing = missing_keys config_required_keys kvs in
     raiseIf (missing \<noteq> []) (ExecutionDisabledError (''execution configuration missing keys: '' @ missing_text missing)) (
     bindR (rescue (ExecutionDisabledError ''execution configuration has invalid values'') (config_values kvs)) (\<lambda>c.
     raiseIf (ec_environment c = REAL) (ExecutionDisabledError ''Real execution is outside the authorized scope'') (
     raiseIf (ec_adapter c \<notin> set approved_adapters) (ExecutionDisabledError ''unapproved execution adapter'') (
     raiseIf (\<not> set (ec_allowed_asset_types c) \<subseteq> set [''equity'', ''etf''])
       (ExecutionDisabledError ''only equities and ETFs are supported'') (
     raiseIf (set (ec_allowed_sides c) \<noteq> set [''buy''])
       (ExecutionDisabledError ''initial Demo scope is buy/long only'') (
     raiseIf (\<not> dec_eq (ec_allowed_leverage c) dec1)
       (ExecutionDisabledError ''only unleveraged intents are supported'') (
     raiseIf (\<not> ec_require_internal_instrument_id c)
       (ExecutionDisabledError ''ticker-only identity is forbidden'') (
     Inr c))))))))))"

section \<open>The world\<close>

record world =
  w_store :: store
  w_sent :: "broker_command list"

type_synonym clock = "nat \<Rightarrow> instant"

text \<open>An operation of the store as an operation of the world.\<close>

definition on_store :: "'a store_op \<Rightarrow> world \<Rightarrow> 'a result \<times> world" where
  "on_store f w = (case f (w_store w) of (r, s) \<Rightarrow> (r, w\<lparr>w_store := s\<rparr>))"

definition check :: "'a result \<Rightarrow> world \<Rightarrow> 'a result \<times> world" where
  "check r w = (r, w)"

section \<open>Recording evidence\<close>

definition validate_intent :: "execution_config \<Rightarrow> order_intent \<Rightarrow> store \<Rightarrow> unit result" where
  "validate_intent config intent s =
     bindR (registry_get (uuid_str (oi_internal_instrument_id intent)) s) (\<lambda>i.
     raiseIf (oi_environment intent \<noteq> ec_environment config)
       (IntentImportError ''intent environment does not match coordinator'') (
     raiseIf (in_asset_type i \<notin> set (ec_allowed_asset_types config))
       (IntentImportError ''asset type is outside the long-only Demo scope'') (
     raiseIf (order_side_str (oi_side intent) \<notin> set (ec_allowed_sides config))
       (IntentImportError ''side is outside the long-only Demo scope'') (
     raiseIf (\<not> dec_eq (oi_target_leverage intent) (ec_allowed_leverage config))
       (IntentImportError ''leverage must be exactly 1'') (
     raiseIf (in_currency i \<noteq> oi_currency intent)
       (IntentImportError ''intent currency conflicts with instrument registry'') (
     Inr ()))))))"

definition prepare_intent :: "clock \<Rightarrow> execution_config \<Rightarrow> order_intent \<Rightarrow> world \<Rightarrow> order_intent result \<times> world" where
  "prepare_intent clock config intent w =
     andThen (check (validate_intent config intent (w_store w)) w) (\<lambda>_ w.
     andThen (on_store (save_intent (clock 0) intent) w) (\<lambda>_ w.
     (Inr intent, w)))"

definition record_risk_decision ::
  "digest \<Rightarrow> clock \<Rightarrow> execution_config \<Rightarrow> uuid \<Rightarrow> uuid \<Rightarrow> order_intent \<Rightarrow> risk_decision \<Rightarrow> json \<Rightarrow> string \<Rightarrow>
   broker_operation \<Rightarrow> world \<Rightarrow> broker_command result \<times> world" where
  "record_risk_decision H clock config fresh_command fresh_request intent decision broker_payload broker operation w =
     andThen (check (validate_intent config intent (w_store w)) w) (\<lambda>_ w.
     andThen (check (
       bindR (get_intent H (oi_intent_hash intent) (w_store w)) (\<lambda>stored.
       raiseIf (case stored of None \<Rightarrow> True | Some i \<Rightarrow> \<not> intent_eq i intent)
         (DomainValidationError ''intent differs from persisted evidence'') (
       raiseIf (rd_intent_hash decision \<noteq> oi_intent_hash intent)
         (DomainValidationError ''risk decision does not bind to this intent'') (
       create_command H fresh_command fresh_request (oi_intent_hash intent) operation broker
         (oi_environment intent) broker_payload)))) w) (\<lambda>command w.
     on_store (save_risk_bound_command H (clock 0) command decision) w))"

definition record_approval ::
  "clock \<Rightarrow> broker_command \<Rightarrow> approval \<Rightarrow> pydatetime \<Rightarrow> world \<Rightarrow> broker_command result \<times> world" where
  "record_approval clock command a now w = on_store (approve_command (clock 0) command a now) w"

definition submission_deadline :: "risk_limits \<Rightarrow> order_intent \<Rightarrow> risk_decision \<Rightarrow> approval \<Rightarrow> instant" where
  "submission_deadline limits intent decision a =
     min (min (oi_expires_at intent) (ap_expires_at a))
       (min (rd_decided_at decision + seconds (rl_account_max_age_seconds limits))
            (rd_quote_observed_at decision + seconds (rl_quote_max_age_seconds limits)))"

definition mark_submission_pending ::
  "digest \<Rightarrow> clock \<Rightarrow> execution_config \<Rightarrow> risk_limits \<Rightarrow> broker_command \<Rightarrow> order_intent \<Rightarrow> risk_decision \<Rightarrow>
   approval \<Rightarrow> ks_status \<Rightarrow> bool \<Rightarrow> governance \<Rightarrow> pydatetime \<Rightarrow> world \<Rightarrow> broker_command result \<times> world" where
  "mark_submission_pending H clock config limits command intent decision a kill_switch regular_session_open gov now w =
     andThen (check (
       raiseIf (bc_state command \<noteq> APPROVED) (DomainValidationError ''command is not approved'') (
       bindR (validate_intent config intent (w_store w)) (\<lambda>_.
       authorize H limits intent decision a kill_switch regular_session_open
         (ec_broker_writes_enabled config) gov now))) w) (\<lambda>_ w.
     on_store (authorize_submission H (clock 0) command intent decision a now
       (utc (submission_deadline limits intent decision a))) w)"

section \<open>Submitting\<close>

text \<open>The checks before the claim, and the attempt they lead to.\<close>

definition submit_checks ::
  "execution_config \<Rightarrow> broker_adapter \<Rightarrow> broker_command \<Rightarrow> order_intent \<Rightarrow> pydatetime \<Rightarrow> store \<Rightarrow> command_attempt result" where
  "submit_checks config adapter command intent now s =
     bindR (aware_utc now ''now'') (\<lambda>_.
     raiseIf (bc_state command \<noteq> SUBMISSION_PENDING) (DomainValidationError ''command is not submission_pending'') (
     raiseIf (\<not> ec_broker_writes_enabled config)
       (ExecutionDisabledError ''broker writes are disabled by configuration'') (
     bindR (validate_intent config intent s) (\<lambda>_.
     raiseIf (bc_environment command = REAL)
       (ExecutionDisabledError ''Real execution is outside the authorized scope'') (
     raiseIf (ad_read_only adapter) (ExecutionDisabledError ''selected broker adapter is read-only'') (
     raiseIf (ad_environment adapter \<noteq> bc_environment command)
       (ExecutionDisabledError ''broker adapter environment mismatch'') (
     raiseIf (ad_broker_name adapter \<noteq> bc_broker command)
       (ExecutionDisabledError ''broker adapter identity mismatch'') (
     CommandAttempt 1 (RUuid (bc_logical_request_id command)) now ''send_started''))))))))"

text \<open>What is recorded after the send, from the adapter's answer.\<close>

definition send_outcome ::
  "broker_adapter \<Rightarrow> broker_command \<Rightarrow> broker_submission_result result \<Rightarrow>
   command_state \<times> (string \<times> string) list \<times> string option \<times> string option" where
  "send_outcome adapter command answer =
     (let fallback_reference = (if ad_external_reference_identity adapter then None
                                else Some (uuid_str (bc_logical_request_id command)))
      in case answer of
           Inl e \<Rightarrow> (UNKNOWN, [(''error_type'', error_class e)], None, fallback_reference)
         | Inr r \<Rightarrow>
             if sr_request_id r \<noteq> bc_logical_request_id command \<or> sr_ambiguous r
             then (UNKNOWN, [(''broker_status'', sr_raw_status r), (''reason'', ''ambiguous_or_mismatched_response'')],
                   sr_broker_order_id r, py_or (sr_broker_reference_id r) fallback_reference)
             else if \<not> sr_accepted_for_processing r
             then (REJECTED, [(''broker_status'', sr_raw_status r)], sr_broker_order_id r, sr_broker_reference_id r)
             else (ACKNOWLEDGED, [(''broker_status'', sr_raw_status r)], sr_broker_order_id r, sr_broker_reference_id r))"

text \<open>
  An exception of the adapter is raised again once its outcome is recorded; if recording
  fails, that exception is raised instead.
\<close>

definition submit_pending_command ::
  "digest \<Rightarrow> clock \<Rightarrow> execution_config \<Rightarrow> broker_adapter \<Rightarrow> broker_command \<Rightarrow> order_intent \<Rightarrow> pydatetime \<Rightarrow>
   world \<Rightarrow> broker_command result \<times> world" where
  "submit_pending_command H clock config adapter command intent now w =
     andThen (check (submit_checks config adapter command intent now (w_store w)) w) (\<lambda>attempt w.
     andThen (on_store (claim_submission H (clock 0) command intent attempt) w) (\<lambda>command w.
     let answer = ad_submit_order adapter intent command;
         w = w\<lparr>w_sent := w_sent w @ [command]\<rparr>;
         (target, details, order_id, reference_id) = send_outcome adapter command answer
     in andThen (on_store (transition_command (clock 1) (uuid_str (bc_command_id command)) target details
                   order_id reference_id None) w) (\<lambda>updated w.
        (case answer of Inl e \<Rightarrow> Inl e | Inr _ \<Rightarrow> Inr updated, w))))"

section \<open>Reconciling\<close>

text \<open>One of the conditional transitions towards \<open>RECONCILING\<close>.\<close>

definition move_if ::
  "clock \<Rightarrow> nat \<Rightarrow> command_state list \<Rightarrow> command_state \<Rightarrow> broker_command \<Rightarrow> world \<Rightarrow> broker_command result \<times> world" where
  "move_if clock n from_states target current w =
     (if bc_state current \<in> set from_states
      then on_store (transition_command (clock n) (uuid_str (bc_command_id current)) target [] None None None) w
      else (Inr current, w))"

text \<open>The broker's answer to the lookup must belong to the command; the proven reference, if any.\<close>

definition recovered_reference ::
  "broker_adapter \<Rightarrow> broker_command \<Rightarrow> broker_reconciliation_result \<Rightarrow> string option result" where
  "recovered_reference adapter current r =
     (if \<not> ad_external_reference_identity adapter then Inr None
      else let candidate = dict_get (rr_details r) ''connector_broker_reference_id'' in
        if py_truthy candidate
        then bindR (of_option (DomainValidationError ''broker lookup reference identity invalid'')
               (Option.bind candidate uuid_of_string)) (\<lambda>u.
             let reference = uuid_str u in
             raiseIf (py_truthy (bc_broker_reference_id current) \<and> bc_broker_reference_id current \<noteq> Some reference
                      \<or> list_ex (\<lambda>x. be_broker_reference_id x \<noteq> reference) (rr_executions r))
               (DomainValidationError ''broker lookup returned a conflicting reference identity'') (
             Inr (Some reference)))
        else raiseIf (rr_executions r \<noteq> [])
               (DomainValidationError ''external broker execution reference identity unproven'') (Inr None))"

definition lookup_checks ::
  "broker_adapter \<Rightarrow> broker_command \<Rightarrow> broker_reconciliation_result \<Rightarrow> (command_state \<times> string option) result" where
  "lookup_checks adapter current r =
     raiseIf (rr_command_id r \<noteq> bc_command_id current)
       (DomainValidationError ''broker lookup returned another command identity'') (
     raiseIf (py_truthy (bc_broker_order_id current) \<and> rr_broker_order_id r \<noteq> bc_broker_order_id current)
       (DomainValidationError ''broker lookup returned a conflicting order identity'') (
     bindR (recovered_reference adapter current r) (\<lambda>reference.
     bindR (command_state_of (rr_lifecycle_state r)) (\<lambda>target.
     Inr (target, reference)))))"

definition reconcile_command ::
  "clock \<Rightarrow> broker_adapter \<Rightarrow> broker_command \<Rightarrow> world \<Rightarrow> (broker_command \<times> broker_reconciliation_result) result \<times> world" where
  "reconcile_command clock adapter command w =
     andThen (check (
       bindR (get_command (uuid_str (bc_command_id command)) (w_store w)) (\<lambda>found.
       bindR (of_option (DomainValidationError ''command is not persisted'') found) (\<lambda>current.
       raiseIf (ad_environment adapter \<noteq> bc_environment current \<or> ad_broker_name adapter \<noteq> bc_broker current)
         (ExecutionDisabledError ''reconciliation adapter identity mismatch'') (
       Inr current)))) w) (\<lambda>current w.
     andThen (move_if clock 0 [SUBMISSION_PENDING] UNKNOWN current w) (\<lambda>current w.
     andThen (move_if clock 1 [ACKNOWLEDGED, PARTIALLY_FILLED, CANCEL_PENDING] UNKNOWN current w) (\<lambda>current w.
     andThen (move_if clock 2 [UNKNOWN] RECONCILING current w) (\<lambda>current w.
     andThen (check (
       raiseIf (bc_state current \<noteq> RECONCILING)
         (DomainValidationError (''command state '' @ command_state_str (bc_state current) @ '' cannot be reconciled'')) (
       bindR (ad_reconcile_command adapter current) (\<lambda>r.
       bindR (lookup_checks adapter current r) (\<lambda>(target, reference).
       Inr (r, target, reference))))) w) (\<lambda>(r, target, reference) w.
     andThen (on_store (transition_command (clock 3) (uuid_str (bc_command_id current)) target
                (dict_update [] (rr_details r)) (rr_broker_order_id r) reference (rr_broker_position_id r)) w) (\<lambda>current w.
     andThen (if rr_reconciled r \<and> bc_state current \<noteq> RECONCILED
              then on_store (transition_command (clock 4) (uuid_str (bc_command_id current)) RECONCILED
                     [(''terminal_broker_state'', command_state_str target)] None None None) w
              else (Inr current, w)) (\<lambda>current w.
     (Inr (current, r), w))))))))"

section \<open>Importing advisory orders\<close>

text \<open>
  A data frame is its columns and its records; a cell is the \<open>str\<close> of its value, which is all
  the import reads.
\<close>

record frame =
  fr_columns :: "string list"
  fr_rows :: "(string \<times> string) list list"

definition import_required_columns :: "string list" where
  "import_required_columns = [''run_id'', ''internal_instrument_id'', ''direction'', ''asset_type'', ''currency'',
     ''capital_allocated'']"

definition cell :: "(string \<times> string) list \<Rightarrow> string \<Rightarrow> string result" where
  "cell row col = of_option (PyKeyError col) (map_of row col)"

definition import_row ::
  "digest \<Rightarrow> execution_config \<Rightarrow> string \<Rightarrow> pydatetime \<Rightarrow> store \<Rightarrow> uuid \<Rightarrow> (string \<times> string) list \<Rightarrow> order_intent result" where
  "import_row H config strategy_id expires_at s fresh row =
     bindR (cell row ''internal_instrument_id'') (\<lambda>id_cell.
     let internal_id = py_strip id_cell in
     raiseIf (internal_id = []) (IntentImportError ''ticker-only portfolio order rejected'') (
     bindR (registry_get internal_id s) (\<lambda>i.
     bindR (cell row ''asset_type'') (\<lambda>asset_cell.
     raiseIf (py_lower (py_strip asset_cell) \<noteq> in_asset_type i)
       (IntentImportError ''portfolio order asset type conflicts with registry'') (
     bindR (cell row ''direction'') (\<lambda>direction_cell.
     raiseIf (py_lower (py_strip direction_cell) \<noteq> ''long'')
       (IntentImportError ''only long portfolio orders are supported'') (
     bindR (cell row ''run_id'') (\<lambda>run_cell.
     bindR (cell row ''capital_allocated'') (\<lambda>capital_cell.
     bindR (cell row ''currency'') (\<lambda>currency_cell.
     bindR (create_intent H fresh None
       \<lparr>ri_intent_id = RUuid fresh, ri_strategy_id = strategy_id, ri_run_id = py_strip run_cell,
        ri_internal_instrument_id = RUuidText internal_id, ri_environment = environment_str (ec_environment config),
        ri_side = order_side_str BUY, ri_order_type = order_type_str MARKET,
        ri_sizing_method = sizing_method_str FIXED_NOTIONAL, ri_sizing_value = RText capital_cell,
        ri_currency = currency_cell, ri_expires_at = expires_at, ri_intent_hash = [],
        ri_target_leverage = RDecimal dec1, ri_limit_price = None, ri_schema_version = schema_version\<rparr>) (\<lambda>intent.
     bindR (validate_intent config intent s) (\<lambda>_.
     Inr intent))))))))))))"

definition import_advisory_orders ::
  "digest \<Rightarrow> clock \<Rightarrow> execution_config \<Rightarrow> (nat \<Rightarrow> uuid) \<Rightarrow> frame \<Rightarrow> string \<Rightarrow> pydatetime \<Rightarrow> world \<Rightarrow>
   order_intent list result \<times> world" where
  "import_advisory_orders H clock config fresh frame strategy_id expires_at w =
     (if \<not> ec_intent_import_enabled config
      then (Inl (ExecutionDisabledError ''advisory intent import is disabled''), w)
      else if fr_rows frame = [] \<or> fr_columns frame = [] then (Inr [], w)
      else let missing = sort (filter (\<lambda>c. c \<notin> set (fr_columns frame)) import_required_columns) in
        if missing \<noteq> []
        then (Inl (IntentImportError (''portfolio orders lack execution identity fields: '' @ missing_text missing)), w)
        else
          andThen (check (mapR (\<lambda>(n, row). import_row H config strategy_id expires_at (w_store w) (fresh n) row)
                     (enumerate 0 (fr_rows frame))) w) (\<lambda>prepared w.
          andThen (on_store (save_intents (clock 0) prepared) w) (\<lambda>_ w.
          (Inr prepared, w))))"

end
