(* ===== verification/Protocol.thy ===== *)
theory Protocol
  imports Coordinator
begin

text \<open>
  The send protocol of \<open>submit_pending_command\<close> under interleaving. A system is the shared
  execution store, the permits that processes hold in memory (commands whose claim returned
  to them) and the log of what was sent. Its events are any call on the store by anyone, the
  send of a permit, and the crash of its holder. The coordinator's operation is a run of
  this protocol; the at-most-once theorem is about every run.
\<close>

section \<open>The protocol\<close>

record system =
  sys_store :: store
  sys_permits :: "broker_command list"
  sys_sent :: "broker_command list"

datatype sys_event = Call store_call | Send nat | Crash nat

definition remove_nth :: "nat \<Rightarrow> 'a list \<Rightarrow> 'a list" where
  "remove_nth n xs = take n xs @ drop (Suc n) xs"

fun sys_step :: "digest \<Rightarrow> sys_event \<Rightarrow> system \<Rightarrow> system" where
  "sys_step H (Call c) y =
     y\<lparr>sys_store := store_exec H c (sys_store y),
       sys_permits := sys_permits y @ claim_results H c (sys_store y)\<rparr>"
| "sys_step H (Send n) y =
     (if n < length (sys_permits y)
      then y\<lparr>sys_permits := remove_nth n (sys_permits y), sys_sent := sys_sent y @ [sys_permits y ! n]\<rparr>
      else y)"
| "sys_step H (Crash n) y = y\<lparr>sys_permits := remove_nth n (sys_permits y)\<rparr>"

fun valid_event :: "digest \<Rightarrow> sys_event \<Rightarrow> bool" where
  "valid_event H (Call c) = valid_call H c"
| "valid_event H _ = True"

definition start :: system where
  "start = \<lparr>sys_store = empty_store, sys_permits = [], sys_sent = []\<rparr>"

section \<open>The invariant\<close>

definition command_key :: "broker_command \<Rightarrow> string" where
  "command_key c = uuid_str (bc_command_id c)"

definition granted_ok :: "system \<Rightarrow> bool" where
  "granted_ok y \<longleftrightarrow>
     distinct (map command_key (sys_permits y @ sys_sent y)) \<and>
     distinct (map bc_intent_hash (sys_permits y @ sys_sent y)) \<and>
     list_all (\<lambda>c. claimed (sys_store y) (command_key c) \<and> intent_claimed (sys_store y) (bc_intent_hash c))
       (sys_permits y @ sys_sent y)"

definition system_ok :: "digest \<Rightarrow> system \<Rightarrow> bool" where
  "system_ok H y \<longleftrightarrow> db_ok H (sys_store y) \<and> granted_ok y"

lemma remove_nth_mset: "n < length xs \<Longrightarrow> set (remove_nth n xs) \<subseteq> set xs"
  by (auto simp: remove_nth_def dest: in_set_takeD in_set_dropD)

lemma map_remove_nth: "map f (remove_nth n xs) = remove_nth n (map f xs)"
  by (simp add: remove_nth_def take_map drop_map)

lemma split_nth: "n < length xs \<Longrightarrow> xs = take n xs @ xs ! n # drop (Suc n) xs"
  by (simp add: id_take_nth_drop)

lemma distinct_remove_nth: "distinct (xs @ ys) \<Longrightarrow> distinct (remove_nth n xs @ ys)"
proof (cases "n < length xs")
  case True
  assume "distinct (xs @ ys)"
  then have "distinct ((take n xs @ xs ! n # drop (Suc n) xs) @ ys)" using split_nth [OF True] by simp
  then show ?thesis by (auto simp: remove_nth_def)
qed (simp add: remove_nth_def)

lemma distinct_send_nth:
  assumes "n < length xs" and "distinct (xs @ ys)"
  shows "distinct (remove_nth n xs @ ys @ [xs ! n])"
proof -
  have "distinct ((take n xs @ xs ! n # drop (Suc n) xs) @ ys)" using split_nth [OF assms(1)] assms(2) by simp
  then show ?thesis by (auto simp: remove_nth_def)
qed

lemma set_remove_nth: "set (remove_nth n xs) \<subseteq> set xs"
  by (auto simp: remove_nth_def dest: in_set_takeD in_set_dropD)

lemma granted_send:
  assumes "granted_ok y" and n: "n < length (sys_permits y)"
  shows "granted_ok (sys_step H (Send n) y)"
proof -
  have "set (remove_nth n (sys_permits y) @ sys_sent y @ [sys_permits y ! n]) \<subseteq> set (sys_permits y @ sys_sent y)"
    using set_remove_nth [of n "sys_permits y"] n by auto
  moreover have "distinct (map f (remove_nth n (sys_permits y) @ sys_sent y @ [sys_permits y ! n]))"
    if "distinct (map f (sys_permits y @ sys_sent y))" for f :: "broker_command \<Rightarrow> string"
    using distinct_send_nth [of n "map f (sys_permits y)" "map f (sys_sent y)"] that n
    by (simp add: map_remove_nth)
  ultimately show ?thesis using assms unfolding granted_ok_def list_all_iff by (auto simp: subset_iff)
qed

lemma granted_crash: "granted_ok y \<Longrightarrow> granted_ok (sys_step H (Crash n) y)"
proof -
  assume ok: "granted_ok y"
  have "distinct (map f (remove_nth n (sys_permits y) @ sys_sent y))"
    if "distinct (map f (sys_permits y @ sys_sent y))" for f :: "broker_command \<Rightarrow> string"
    using distinct_remove_nth [of "map f (sys_permits y)" "map f (sys_sent y)" n] that
    by (simp add: map_remove_nth)
  then show ?thesis using ok set_remove_nth [of n "sys_permits y"] unfolding granted_ok_def list_all_iff by auto
qed

lemma distinct_insert_fresh:
  assumes "distinct (map f (xs @ ys))" and "distinct (map f new)"
    and "\<forall>d\<in>set new. \<not> P (f d)" and "\<forall>d\<in>set (xs @ ys). P (f d)"
  shows "distinct (map f ((xs @ new) @ ys))"
proof -
  have "f d \<noteq> f e" if "d \<in> set new" "e \<in> set (xs @ ys)" for d e using assms(3,4) that by metis
  then have "f ` set new \<inter> f ` set (xs @ ys) = {}" by blast
  then show ?thesis using assms(1,2) by auto
qed

lemma granted_call:
  assumes ok: "system_ok H y" and c: "valid_call H c"
  shows "granted_ok (sys_step H (Call c) y)"
proof -
  let ?s = "sys_store y" and ?new = "claim_results H c (sys_store y)"
  have db: "db_ok H ?s" using ok by (simp add: system_ok_def)
  have old: "distinct (map command_key (sys_permits y @ sys_sent y))" "distinct (map bc_intent_hash (sys_permits y @ sys_sent y))"
    "\<forall>d\<in>set (sys_permits y @ sys_sent y). claimed ?s (command_key d) \<and> intent_claimed ?s (bc_intent_hash d)"
    using ok by (auto simp: system_ok_def granted_ok_def list_all_iff)
  have keys: "map command_key ?new = claim_grants H c ?s" "map bc_intent_hash ?new = intent_grants H c ?s"
    by (simp_all add: claim_grants_def intent_grants_def command_key_def)
  have fresh: "\<not> claimed ?s (command_key d)" "\<not> intent_claimed ?s (bc_intent_hash d)" if "d \<in> set ?new" for d
    using that claims.grant_fresh [OF db c, of "command_key d"] intent_claims.grant_fresh [OF db c, of "bc_intent_hash d"]
    by (simp_all flip: keys)
  have marks: "claimed (store_exec H c ?s) (command_key d)" "intent_claimed (store_exec H c ?s) (bc_intent_hash d)"
    if "d \<in> set ?new" for d
    using that claims.grant_marks [OF db c, of "command_key d"] intent_claims.grant_marks [OF db c, of "bc_intent_hash d"]
    by (simp_all flip: keys)
  have stays: "claimed (store_exec H c ?s) (command_key d)" "intent_claimed (store_exec H c ?s) (bc_intent_hash d)"
    if "d \<in> set (sys_permits y @ sys_sent y)" for d
    using that old(3) claims.grant_stays [OF db c] intent_claims.grant_stays [OF db c] by blast+
  have "distinct (map command_key ?new)" "distinct (map bc_intent_hash ?new)"
    using claims.grant_distinct [OF db c] intent_claims.grant_distinct [OF db c] by (simp_all add: keys)
  then have "distinct (map command_key ((sys_permits y @ ?new) @ sys_sent y))"
    "distinct (map bc_intent_hash ((sys_permits y @ ?new) @ sys_sent y))"
    using old fresh
    by (blast intro: distinct_insert_fresh [where P = "claimed ?s"] distinct_insert_fresh [where P = "intent_claimed ?s"])+
  then show ?thesis using marks stays by (auto simp: granted_ok_def list_all_iff)
qed

interpretation protocol: invariant_calls "sys_step H" "valid_event H" "system_ok H" for H
proof
  fix y e assume ok: "system_ok H y" and e: "valid_event H e"
  show "system_ok H (sys_step H e y)"
  proof (cases e)
    case (Call c)
    then have "db_ok H (store_exec H c (sys_store y))"
      using db.inv_step [of H "sys_store y" c] ok e by (simp add: system_ok_def)
    then show ?thesis using granted_call [OF ok, of c] e Call by (simp add: system_ok_def)
  next
    case (Send n)
    then show ?thesis using ok granted_send [of y n H] by (auto simp: system_ok_def)
  next
    case (Crash n)
    then show ?thesis using ok granted_crash [of y H n] by (auto simp: system_ok_def)
  qed
qed

lemma start_ok: "system_ok H start"
  by (simp add: system_ok_def start_def granted_ok_def db_ok_empty)

section \<open>The coordinator follows the protocol\<close>

lemma submit_checks_Inr:
  assumes "submit_checks config adapter command intent now s = Inr att"
  obtains t off where "now = Aware t off" "att = \<lparr>ca_attempt_number = 1, ca_request_id = bc_logical_request_id command,
      ca_attempted_at = t, ca_outcome = ''send_started''\<rparr>" "bc_state command = SUBMISSION_PENDING"
    "ec_broker_writes_enabled config" "validate_intent config intent s = Inr ()" "bc_environment command \<noteq> REAL"
    "\<not> ad_read_only adapter" "ad_environment adapter = bc_environment command"
    "ad_broker_name adapter = bc_broker command" "valid_attempt att"
  using assms by (cases now) (auto simp: submit_checks_def CommandAttempt_def valid_attempt_def)

text \<open>The recorded outcome is always an allowed transition out of \<open>SUBMISSION_PENDING\<close>.\<close>

lemma send_outcome_states:
  "fst (send_outcome adapter c answer) \<in> {UNKNOWN, REJECTED, ACKNOWLEDGED}"
  by (auto simp: send_outcome_def Let_def split: sum.splits)

lemma transition_command_succeeds:
  assumes ok: "ledger_ok s" and c: "stored_command s k = Some c"
    and target: "target \<in> set (allowed_transitions (bc_state c))"
  shows "\<exists>u s'. transition_command wall k target det oid ref pos s = (Inr u, s') \<and> bc_state u = target \<and>
    bc_attempt_history u = bc_attempt_history c \<and> stored_command s' k = Some u \<and> ledger_ok s'"
proof -
  obtain r where r: "r \<in> set (broker_commands s)" "tc_command_id r = k" "command_from_json (tc_payload_json r) = Inr c"
    using stored_command_SomeD [OF c] by blast
  have cok: "commands_ok (broker_commands s) (command_events s)" using ok by (simp add: ledger_ok_def)
  have uniq: "unique_by tc_command_id (broker_commands s)" using cok by (simp add: commands_ok_def)
  have k: "k = uuid_str (bc_command_id c)" and trail: "trail_ok (command_events s) r"
    using cok r by (auto simp: commands_ok_def row_agrees_def)
  have cur: "command_in_transaction k None s = Inr (r, c)"
    using find_row_unique [OF uniq r(1,2)] r(3) by (simp add: command_in_transaction_def)
  obtain u where u: "transition c target oid ref pos = Inr u"
    using transition_allowed [OF stored_command_valid [OF c] target] by blast
  note suc = transition_successor [OF u stored_command_valid [OF c]]
  have "filter (\<lambda>r'. tc_command_id r' = k \<and> tc_revision r' = tc_revision r) (broker_commands s) = [r]"
    using filter_unique [OF uniq r(1), of "\<lambda>r'. tc_revision r' = tc_revision r"] r(2) by simp
  moreover have "key_free (\<lambda>e. (te_command_id e, te_revision e)) (k, Suc (tc_revision r)) (command_events s)"
    using trail_revisions [OF trail] r(2) by (fastforce simp: key_free_iff)
  ultimately obtain s' where upd: "update_command wall r c u det s = Inr (u, s')"
    using k r(2) imageI [OF r(1), of tc_command_id]
    by (simp add: update_command_def Let_def insert_event_def key_free_def map_update_rows)
  have run: "transition_command wall k target det oid ref pos s = (Inr u, s')"
    using cur u upd by (simp add: transition_command_def)
  moreover have "stored_command s' k = Some u"
    using update_effect(2) [OF cok cur refl refl upd] suc by simp
  ultimately show ?thesis using suc ledger_ok_transition_command [OF ok run] by blast
qed

text \<open>
  \<open>submit_pending_command\<close> in one of its three courses: refused before the claim, refused by
  the claim, or claimed, sent once and recorded.
\<close>

lemma submit_courses:
  assumes ok: "db_ok H (w_store w)"
    and run: "submit_pending_command H clock config adapter command intent now w = (r, w')"
  obtains (refused) e where "r = Inl e" "w' = w"
  | (sent) att c s1 u where
      "submit_checks config adapter command intent now (w_store w) = Inr att"
      "claim_submission H (clock 0) command intent att (w_store w) = (Inr c, s1)"
      "c = command\<lparr>bc_attempt_history := [att]\<rparr>" "valid_attempt att"
      "stored_command (w_store w) (uuid_str (bc_command_id command)) = Some command"
      "transition_command (clock 1) (uuid_str (bc_command_id command))
         (fst (send_outcome adapter c (ad_submit_order adapter intent c)))
         (fst (snd (send_outcome adapter c (ad_submit_order adapter intent c))))
         (fst (snd (snd (send_outcome adapter c (ad_submit_order adapter intent c)))))
         (snd (snd (snd (send_outcome adapter c (ad_submit_order adapter intent c))))) None s1 = (Inr u, w_store w')"
      "w_sent w' = w_sent w @ [c]" "bc_state u = fst (send_outcome adapter c (ad_submit_order adapter intent c))"
      "bc_attempt_history u = [att]" "stored_command (w_store w') (uuid_str (bc_command_id command)) = Some u"
      "r = (case ad_submit_order adapter intent c of Inl e \<Rightarrow> Inl e | Inr _ \<Rightarrow> Inr u)"
proof (cases "submit_checks config adapter command intent now (w_store w)")
  case (Inl e)
  then show ?thesis using run refused by (auto simp: submit_pending_command_def check_def andThen_def)
next
  case att: (Inr att)
  obtain cr s1 where claim: "claim_submission H (clock 0) command intent att (w_store w) = (cr, s1)" by fastforce
  show ?thesis
  proof (cases cr)
    case (Inl e)
    then have "s1 = w_store w" using raise_keeps(4) claim by blast
    then show ?thesis using run refused att claim Inl
      by (auto simp: submit_pending_command_def check_def andThen_def on_store_def)
  next
    case (Inr c)
    have va: "valid_attempt att" using att by (rule submit_checks_Inr)
    have lok: "ledger_ok (w_store w)" using ok by (simp add: db_ok_def)
    note f = claim_submission_facts [OF lok va claim [unfolded Inr]]
    let ?o = "send_outcome adapter c (ad_submit_order adapter intent c)"
    have lok1: "ledger_ok s1" by (rule ledger_ok_claim_submission [OF lok claim [unfolded Inr] va])
    have allowed: "fst ?o \<in> set (allowed_transitions (bc_state c))"
      using send_outcome_states [of adapter c "ad_submit_order adapter intent c"] f(2,5) by auto
    obtain u s2 where t: "transition_command (clock 1) (uuid_str (bc_command_id command)) (fst ?o) (fst (snd ?o))
        (fst (snd (snd ?o))) (snd (snd (snd ?o))) None s1 = (Inr u, s2)" "bc_state u = fst ?o"
        "bc_attempt_history u = bc_attempt_history c" "stored_command s2 (uuid_str (bc_command_id command)) = Some u"
      using transition_command_succeeds [OF lok1 f(6) allowed] by blast
    have c_id: "bc_command_id c = bc_command_id command" using f(5) by simp
    obtain tg de oi re where o: "?o = (tg, de, oi, re)" by (cases ?o) auto
    have "submit_pending_command H clock config adapter command intent now w =
        (case ad_submit_order adapter intent c of Inl e \<Rightarrow> Inl e | Inr _ \<Rightarrow> Inr u,
         w\<lparr>w_store := s2, w_sent := w_sent w @ [c]\<rparr>)"
      using t(1) unfolding submit_pending_command_def check_def andThen_def on_store_def Let_def att
      by (simp add: claim Inr o c_id del: One_nat_def)
    then have w': "w' = w\<lparr>w_store := s2, w_sent := w_sent w @ [c]\<rparr>"
      and r: "r = (case ad_submit_order adapter intent c of Inl e \<Rightarrow> Inl e | Inr _ \<Rightarrow> Inr u)"
      using run by simp_all
    show ?thesis
      by (rule sent [OF att claim [unfolded Inr] f(5) va f(1) _ _ t(2) _ _ r]) (use t f(5) in \<open>simp_all add: w'\<close>)
  qed
qed

section \<open>Properties\<close>

text \<open>
  C1: at most one broker send per command and per intent. However the calls of any number of
  processes on the shared store, their sends and their crashes are interleaved, no two sends
  in the log are for the same command or for the same intent.
\<close>

theorem send_at_most_once:
  assumes "list_all (valid_event H) events"
  shows "distinct (map bc_command_id (sys_sent (run_calls (sys_step H) events start))) \<and>
         distinct (map bc_intent_hash (sys_sent (run_calls (sys_step H) events start)))"
proof -
  have "granted_ok (run_calls (sys_step H) events start)"
    using protocol.inv_run [OF start_ok assms] by (simp add: system_ok_def)
  moreover have "distinct (map bc_command_id cs)" if "distinct (map command_key cs)" for cs
    using that by (induction cs) (auto simp: command_key_def)
  ultimately show ?thesis by (auto simp: granted_ok_def)
qed

definition ex_claimed :: broker_command where
  "ex_claimed = (ex_state SUBMISSION_PENDING)\<lparr>bc_attempt_history := [ex_attempt]\<rparr>"

lemma ex_protocol:
  "run_calls (sys_step ex_digest) (map Call ex_calls @ [Send 0]) start =
     \<lparr>sys_store = ex_store 5, sys_permits = [], sys_sent = [ex_claimed]\<rparr>"
  by (simp add: ex_calls_def start_def ex_steps returned_def remove_nth_def ex_claimed_def)

lemma ex_events_valid: "list_all (valid_event ex_digest) (map Call ex_calls @ [Send 0, Call (ex_calls ! 5), Send 0])"
  using ex_calls_valid [of 6] by (simp add: ex_calls_def)

theorem send_at_most_once_witness:
  "distinct (map bc_command_id (sys_sent (run_calls (sys_step ex_digest)
     (map Call ex_calls @ [Send 0, Call (ex_calls ! 5), Send 0]) start))) \<and>
   sys_sent (run_calls (sys_step ex_digest) (map Call ex_calls @ [Send 0]) start) = [ex_claimed]"
proof
  show "distinct (map bc_command_id (sys_sent (run_calls (sys_step ex_digest)
     (map Call ex_calls @ [Send 0, Call (ex_calls ! 5), Send 0]) start)))"
    using send_at_most_once [OF ex_events_valid] by (rule conjunct1)
  show "sys_sent (run_calls (sys_step ex_digest) (map Call ex_calls @ [Send 0]) start) = [ex_claimed]"
    unfolding ex_protocol by simp
qed

text \<open>
  C11: \<open>submit_pending_command\<close> follows the send protocol. Each of its runs on a reachable
  database is a sequence of protocol events that starts and ends with no permit held and
  leads to the same store and the same log of sends.
\<close>

theorem submit_is_protocol_run:
  assumes "list_all (valid_call H) calls" and "w_store w = database H calls"
    and "submit_pending_command H clock config adapter command intent now w = (r, w')"
  shows "\<exists>events. list_all (valid_event H) events \<and>
    run_calls (sys_step H) events \<lparr>sys_store = w_store w, sys_permits = [], sys_sent = w_sent w\<rparr> =
      \<lparr>sys_store = w_store w', sys_permits = [], sys_sent = w_sent w'\<rparr>"
proof -
  have ok: "db_ok H (w_store w)" using db_ok_reachable [OF assms(1)] assms(2) by simp
  show ?thesis using ok assms(3)
  proof (cases rule: submit_courses)
    case (refused e)
    then show ?thesis by (intro exI [of _ "[]"]) simp
  next
    case (sent att c s1 u)
    let ?o = "send_outcome adapter c (ad_submit_order adapter intent c)"
    let ?events = "[Call (Claim_Submission (clock 0) command intent att), Send 0,
      Call (Transition_Command (clock 1) (uuid_str (bc_command_id command)) (fst ?o) (fst (snd ?o))
        (fst (snd (snd ?o))) (snd (snd (snd ?o))) None)]"
    have valid: "list_all (valid_event H) ?events" using sent(4) by simp
    have "run_calls (sys_step H) ?events \<lparr>sys_store = w_store w, sys_permits = [], sys_sent = w_sent w\<rparr> =
        \<lparr>sys_store = w_store w', sys_permits = [], sys_sent = w_sent w'\<rparr>"
      using sent(2,6,7) by (simp add: returned_def remove_nth_def)
    with valid show ?thesis by blast
  qed
qed

text \<open>An adapter that accepts everything, and the database of the worked run.\<close>

definition ex_adapter :: broker_adapter where
  "ex_adapter = \<lparr>ad_broker_name = ''etoro'', ad_environment = DEMO, ad_read_only = False,
     ad_external_reference_identity = False,
     ad_submit_order = (\<lambda>i c. Inr \<lparr>sr_request_id = bc_logical_request_id c, sr_accepted_for_processing = True,
        sr_broker_order_id = Some ''o1'', sr_broker_reference_id = None, sr_raw_status = ''ok'', sr_ambiguous = False\<rparr>),
     ad_reconcile_command = (\<lambda>c. Inr \<lparr>rr_command_id = bc_command_id c, rr_reconciled = True,
        rr_lifecycle_state = ''filled'', rr_broker_order_id = Some ''o1'', rr_broker_position_id = Some ''p1'',
        rr_details = [], rr_executions = []\<rparr>)\<rparr>"

definition ex_config :: execution_config where
  "ex_config = \<lparr>ec_schema_version = ''1.0'', ec_intent_import_enabled = True, ec_broker_writes_enabled = True,
     ec_adapter = ''fake'', ec_environment = DEMO, ec_require_internal_instrument_id = True,
     ec_allowed_asset_types = [''equity''], ec_allowed_sides = [''buy''], ec_allowed_leverage = dec1\<rparr>"

lemma ex_validate: "validate_intent ex_config ex_intent (ex_store n) = Inr ()"
proof -
  have "registry_get (uuid_str 2) (ex_store n) = Inr (ex_instrument 2 ''tech'')"
    using instrument_from_row_of [OF ex_instrument_valid(1), of 2]
    by (simp add: registry_get_def get_instrument_def ex_store_def ex_base_def Let_def)
      (simp add: instrument_row_of_def ex_instrument_def)
  then show ?thesis
    by (simp add: validate_intent_def ex_config_def ex_intent_def ex_instrument_def)
qed

definition ex_world :: "nat \<Rightarrow> world" where
  "ex_world n = \<lparr>w_store = ex_store n, w_sent = []\<rparr>"

lemma ex_submit_checks:
  "submit_checks ex_config ex_adapter (ex_state SUBMISSION_PENDING) ex_intent (utc 103000000) (ex_store 4) = Inr ex_attempt"
  by (simp add: submit_checks_def ex_validate CommandAttempt_def not_blank_Cons py_isspace_def ex_attempt_def)
    (simp add: ex_config_def ex_adapter_def ex_state_def ex_command_def)

lemma ex_submit:
  "\<exists>u w'. submit_pending_command ex_digest (\<lambda>n. 0) ex_config ex_adapter (ex_state SUBMISSION_PENDING) ex_intent
     (utc 103000000) (ex_world 4) = (Inr u, w') \<and> w_sent w' = [ex_claimed] \<and> bc_state u = ACKNOWLEDGED"
proof -
  obtain r w' where run: "submit_pending_command ex_digest (\<lambda>n. 0) ex_config ex_adapter (ex_state SUBMISSION_PENDING)
      ex_intent (utc 103000000) (ex_world 4) = (r, w')" by fastforce
  have ok: "db_ok ex_digest (w_store (ex_world 4))"
    using db_ok_reachable [OF ex_calls_valid [of 5]] ex_database(2) by (simp add: ex_world_def)
  show ?thesis using ok run
  proof (cases rule: submit_courses)
    case (refused e)
    then show ?thesis using run ex_submit_checks ex_step5
      by (auto simp: submit_pending_command_def check_def andThen_def on_store_def ex_world_def Let_def
          split: prod.splits sum.splits)
  next
    case (sent att c s1 u)
    then have "c = ex_claimed" using ex_submit_checks ex_step5 by (simp add: ex_world_def ex_claimed_def)
    then show ?thesis using run sent
      by (simp add: ex_world_def send_outcome_def ex_adapter_def)
  qed
qed

theorem submit_is_protocol_run_witness:
  "\<exists>u w' events. submit_pending_command ex_digest (\<lambda>n. 0) ex_config ex_adapter (ex_state SUBMISSION_PENDING) ex_intent
       (utc 103000000) (ex_world 4) = (Inr u, w') \<and> w_sent w' = [ex_claimed] \<and>
     list_all (valid_event ex_digest) events \<and>
     run_calls (sys_step ex_digest) events \<lparr>sys_store = ex_store 4, sys_permits = [], sys_sent = []\<rparr> =
       \<lparr>sys_store = w_store w', sys_permits = [], sys_sent = [ex_claimed]\<rparr>"
proof -
  obtain u w' where run: "submit_pending_command ex_digest (\<lambda>n. 0) ex_config ex_adapter (ex_state SUBMISSION_PENDING)
      ex_intent (utc 103000000) (ex_world 4) = (Inr u, w')" "w_sent w' = [ex_claimed]"
    using ex_submit by blast
  have "w_store (ex_world 4) = database ex_digest (take 5 ex_calls)"
    using ex_database(2) by (simp add: ex_world_def)
  from submit_is_protocol_run [OF ex_calls_valid [of 5] this run(1)] show ?thesis
    using run by (auto simp: ex_world_def)
qed

text \<open>
  C12: what a submission does. On a reachable database \<open>submit_pending_command\<close> either raises
  with the store and the broker untouched, or it hands exactly one command to the broker: the
  stored one, with its one attempt recorded first, whose logical request id is the command's own,
  with broker writes enabled and a writable adapter of the command's broker and environment, never
  a real one. In that case the stored command ends in the state of the answer's outcome, and an
  exception of the adapter is raised again only with the command left \<open>UNKNOWN\<close>.
\<close>

theorem submit_sends_once_and_records:
  assumes "list_all (valid_call H) calls" and "w_store w = database H calls"
    and "submit_pending_command H clock config adapter command intent now w = (r, w')"
  shows "(\<exists>e. r = Inl e \<and> w' = w) \<or>
    (\<exists>att u. let c = command\<lparr>bc_attempt_history := [att]\<rparr>; answer = ad_submit_order adapter intent c in
       w_sent w' = w_sent w @ [c] \<and> ca_request_id att = bc_logical_request_id command \<and>
       bc_state command = SUBMISSION_PENDING \<and> ec_broker_writes_enabled config \<and>
       \<not> ad_read_only adapter \<and> ad_broker_name adapter = bc_broker command \<and>
       ad_environment adapter = bc_environment command \<and> bc_environment command \<noteq> REAL \<and>
       get_command (uuid_str (bc_command_id command)) (w_store w) = Inr (Some command) \<and>
       get_command (uuid_str (bc_command_id command)) (w_store w') = Inr (Some u) \<and>
       bc_attempt_history u = [att] \<and> bc_state u = fst (send_outcome adapter c answer) \<and>
       (case answer of Inl e \<Rightarrow> r = Inl e \<and> bc_state u = UNKNOWN | Inr _ \<Rightarrow> r = Inr u))"
proof -
  have ok: "db_ok H (w_store w)" using db_ok_reachable [OF assms(1)] assms(2) by simp
  show ?thesis using ok assms(3)
  proof (cases rule: submit_courses)
    case (refused e)
    then show ?thesis by blast
  next
    case (sent att c s1 u)
    note checks = submit_checks_Inr [OF sent(1)]
    have facts: "ca_request_id att = bc_logical_request_id command" "bc_state command = SUBMISSION_PENDING"
      "ec_broker_writes_enabled config" "\<not> ad_read_only adapter" "ad_broker_name adapter = bc_broker command"
      "ad_environment adapter = bc_environment command" "bc_environment command \<noteq> REAL"
      by (rule checks; simp)+
    show ?thesis
      by (intro disjI2 exI [of _ att] exI [of _ u])
        (use sent facts in \<open>simp add: Let_def stored_command_iff [symmetric] send_outcome_def split: sum.splits\<close>)
  qed
qed

theorem submit_sends_once_and_records_witness:
  "\<exists>u w' u'. submit_pending_command ex_digest (\<lambda>n. 0) ex_config ex_adapter (ex_state SUBMISSION_PENDING) ex_intent
       (utc 103000000) (ex_world 4) = (Inr u, w') \<and> w_sent w' = [ex_claimed] \<and>
     get_command (uuid_str (bc_command_id ex_claimed)) (w_store w') = Inr (Some u') \<and> bc_state u' = ACKNOWLEDGED"
proof -
  obtain u w' where run: "submit_pending_command ex_digest (\<lambda>n. 0) ex_config ex_adapter (ex_state SUBMISSION_PENDING)
      ex_intent (utc 103000000) (ex_world 4) = (Inr u, w')" "w_sent w' = [ex_claimed]" "bc_state u = ACKNOWLEDGED"
    using ex_submit by blast
  have "w_store (ex_world 4) = database ex_digest (take 5 ex_calls)"
    using ex_database(2) by (simp add: ex_world_def)
  from submit_sends_once_and_records [OF ex_calls_valid [of 5] this run(1)] show ?thesis
    using run by (auto simp: ex_claimed_def ex_world_def Let_def ex_adapter_def)
qed

end
