(* ===== verification/Coordination.thy ===== *)
theory Coordination
  imports Protocol
begin

text \<open>
  Properties of the coordinator's other operations: what authorises a command for
  submission, what reconciliation may and must do, what an import of advisory orders stores
  and to which orders a loaded configuration confines all of them.
\<close>

section \<open>Running operations of the world\<close>

lemma check_Inr: "check r w = (Inr x, w') \<longleftrightarrow> r = Inr x \<and> w' = w"
  by (auto simp: check_def)

lemma on_store_Inr:
  "on_store f w = (Inr x, w') \<longleftrightarrow> (\<exists>s. f (w_store w) = (Inr x, s) \<and> w' = w\<lparr>w_store := s\<rparr>)"
  by (auto simp: on_store_def split: prod.splits)

lemma andThen_check_Inl: "r = Inl e \<Longrightarrow> andThen (check r w) k = (Inl e, w)"
  by (simp add: andThen_def check_def)

lemma andThen_check_ok: "r = Inr x \<Longrightarrow> andThen (check r w) k = k x w"
  by (simp add: andThen_def check_def)

lemmas world_Inr = andThen_Inr check_Inr on_store_Inr

section \<open>One transition\<close>

lemma transition_command_effect:
  assumes ok: "ledger_ok s" and run: "transition_command wall k target det oid ref pos s = (Inr u, s')"
  obtains c where "stored_command s k = Some c" "transition c target oid ref pos = Inr u"
    "\<And>j. stored_command s' j = (if j = k then Some u else stored_command s j)" "ledger_ok s'"
    "k = uuid_str (bc_command_id c)"
proof -
  obtain row c u' where cur: "command_in_transaction k None s = Inr (row, c)"
    and u': "transition c target oid ref pos = Inr u'" and upd: "update_command wall row c u' det s = Inr (u, s')"
    by (rule transition_command_Inr [OF run])
  have cok: "commands_ok (broker_commands s) (command_events s)" using ok by (simp add: ledger_ok_def)
  have suc: "successor c u'" using transition_successor [OF u' command_in_transaction_valid [OF cur]] by simp
  note eff = update_effect [OF cok cur refl refl upd suc]
  show ?thesis
    by (rule that [of c]) (use eff u' ledger_ok_transition_command [OF ok run] in simp_all)
qed

text \<open>What a reconciling step may do to the world: nothing is sent and no attempt is added.\<close>

definition kept :: "broker_command \<Rightarrow> broker_command \<Rightarrow> bool" where
  "kept c u \<longleftrightarrow> bc_attempt_history u = bc_attempt_history c \<and> bc_command_id u = bc_command_id c \<and>
     bc_logical_request_id u = bc_logical_request_id c \<and> bc_intent_hash u = bc_intent_hash c"

definition quiet :: "world \<Rightarrow> world \<Rightarrow> bool" where
  "quiet w w' \<longleftrightarrow> w_sent w' = w_sent w \<and> (ledger_ok (w_store w) \<longrightarrow> ledger_ok (w_store w') \<and>
     (\<forall>k c. stored_command (w_store w) k = Some c \<longrightarrow> (\<exists>u. stored_command (w_store w') k = Some u \<and> kept c u)))"

lemma quiet_refl [simp]: "quiet w w"
  by (auto simp: quiet_def kept_def)

lemma kept_trans: "kept c d \<Longrightarrow> kept d u \<Longrightarrow> kept c u"
  by (simp add: kept_def)

lemma quiet_trans: "quiet w w1 \<Longrightarrow> quiet w1 w2 \<Longrightarrow> quiet w w2"
  unfolding quiet_def by (fastforce intro: kept_trans)

lemma quiet_transition: "quiet w (snd (on_store (transition_command wall k target det oid ref pos) w))"
proof -
  obtain r s' where run: "transition_command wall k target det oid ref pos (w_store w) = (r, s')" by fastforce
  show ?thesis
  proof (cases r)
    case (Inl e)
    then have "s' = w_store w" using run raise_keeps(1) by blast
    then show ?thesis using run by (simp add: on_store_def)
  next
    case (Inr u)
    have "ledger_ok s' \<and> (\<forall>j c. stored_command (w_store w) j = Some c \<longrightarrow> (\<exists>u. stored_command s' j = Some u \<and> kept c u))"
      if ok: "ledger_ok (w_store w)"
    proof (rule transition_command_effect [OF ok run [unfolded Inr]])
      fix c assume c: "stored_command (w_store w) k = Some c" "transition c target oid ref pos = Inr u"
        and eff: "\<And>j. stored_command s' j = (if j = k then Some u else stored_command (w_store w) j)"
        and "ledger_ok s'"
      have "kept c u" using transition_Inr [OF c(2)] by (simp add: kept_def)
      then show ?thesis using c eff \<open>ledger_ok s'\<close> by (auto simp: kept_def)
    qed
    then show ?thesis using run by (simp add: on_store_def quiet_def)
  qed
qed

lemma quiet_andThen:
  assumes "quiet w (snd out)" and "\<And>x w1. quiet w1 (snd (k x w1))"
  shows "quiet w (snd (andThen out k))"
proof (cases out)
  case (Pair r w1)
  then show ?thesis using assms(1) quiet_trans [OF _ assms(2)] by (cases r) (simp_all add: andThen_def)
qed

lemma quiet_check: "quiet w (snd (check r w))"
  by (simp add: check_def)

lemma quiet_if: "(b \<Longrightarrow> quiet w (snd x)) \<Longrightarrow> (\<not> b \<Longrightarrow> quiet w (snd y)) \<Longrightarrow> quiet w (snd (if b then x else y))"
  by simp

lemma quiet_pair: "quiet w (snd (r, w))"
  by simp

lemma quiet_case: "(\<And>a b c. quiet w (snd (f a b c w))) \<Longrightarrow> quiet w (snd ((case x of (a, b, c) \<Rightarrow> f a b c) w))"
  by (cases x) simp

lemma quiet_reconcile: "quiet w (snd (reconcile_command clock adapter command w))"
  unfolding reconcile_command_def move_if_def
  by (intro quiet_andThen quiet_check quiet_transition quiet_if quiet_pair quiet_case)

section \<open>Following one command\<close>

definition tracks :: "world \<Rightarrow> broker_command \<Rightarrow> bool" where
  "tracks w c \<longleftrightarrow> ledger_ok (w_store w) \<and> stored_command (w_store w) (uuid_str (bc_command_id c)) = Some c"

lemma stored_command_key:
  assumes "ledger_ok s" and "stored_command s k = Some c"
  shows "k = uuid_str (bc_command_id c)"
proof -
  obtain r where "r \<in> set (broker_commands s)" "tc_command_id r = k" "command_from_json (tc_payload_json r) = Inr c"
    using stored_command_SomeD [OF assms(2)] by blast
  then show ?thesis using assms(1) by (auto simp: ledger_ok_def commands_ok_def row_agrees_def)
qed

lemma tracks_start:
  assumes "ledger_ok (w_store w)" and "get_command (uuid_str u) (w_store w) = Inr (Some c)"
  shows "tracks w c" and "bc_command_id c = u"
proof -
  have "stored_command (w_store w) (uuid_str u) = Some c" using assms(2) by (simp add: stored_command_iff)
  moreover from this have "uuid_str u = uuid_str (bc_command_id c)" by (rule stored_command_key [OF assms(1)])
  ultimately show "tracks w c" "bc_command_id c = u" using assms(1) by (simp_all add: tracks_def)
qed

lemma tracks_transition:
  assumes "tracks w c" and "on_store (transition_command wall (uuid_str (bc_command_id c)) target det oid ref pos) w = (Inr u, w')"
  shows "tracks w' u" and "bc_command_id u = bc_command_id c" and "bc_state u = target" and "kept c u"
proof -
  have ok: "ledger_ok (w_store w)" using assms(1) by (simp add: tracks_def)
  obtain s' where run: "transition_command wall (uuid_str (bc_command_id c)) target det oid ref pos (w_store w) = (Inr u, s')"
    and w': "w' = w\<lparr>w_store := s'\<rparr>" using assms(2) by (auto simp: on_store_Inr)
  obtain d where d: "stored_command (w_store w) (uuid_str (bc_command_id c)) = Some d" "transition d target oid ref pos = Inr u"
    "stored_command s' (uuid_str (bc_command_id c)) = Some u" "ledger_ok s'"
    by (rule transition_command_effect [OF ok run]) simp
  then have "d = c" using assms(1) by (simp add: tracks_def)
  then show "tracks w' u" "bc_command_id u = bc_command_id c" "bc_state u = target" "kept c u"
    using d w' transition_Inr [OF d(2)] by (simp_all add: tracks_def kept_def)
qed

lemma tracks_move:
  assumes "tracks w c" and "move_if clock n froms target c w = (Inr u, w')"
  shows "tracks w' u" and "bc_command_id u = bc_command_id c"
proof -
  have "tracks w' u \<and> bc_command_id u = bc_command_id c"
  proof (cases "bc_state c \<in> set froms")
    case True
    then show ?thesis using assms(2) tracks_transition(1,2) [OF assms(1)] by (simp add: move_if_def)
  next
    case False
    then show ?thesis using assms by (simp add: move_if_def)
  qed
  then show "tracks w' u" "bc_command_id u = bc_command_id c" by simp_all
qed

lemma lookup_checks_identity: "lookup_checks adapter c r = Inr x \<Longrightarrow> rr_command_id r = bc_command_id c"
  by (auto simp: lookup_checks_def)

lemma reconcile_result:
  assumes ok: "ledger_ok (w_store w)" and run: "reconcile_command clock adapter command w = (Inr (c, res), w')"
  shows "tracks w' c" and "bc_command_id c = bc_command_id command" and "rr_command_id res = bc_command_id command"
    and "rr_reconciled res \<Longrightarrow> bc_state c = RECONCILED"
proof -
  obtain c0 c1 w1 c2 w2 c3 w3 target ref c4 w4 where
    start: "get_command (uuid_str (bc_command_id command)) (w_store w) = Inr (Some c0)"
    and m: "move_if clock 0 [SUBMISSION_PENDING] UNKNOWN c0 w = (Inr c1, w1)"
      "move_if clock 1 [ACKNOWLEDGED, PARTIALLY_FILLED, CANCEL_PENDING] UNKNOWN c1 w1 = (Inr c2, w2)"
      "move_if clock 2 [UNKNOWN] RECONCILING c2 w2 = (Inr c3, w3)"
    and look: "lookup_checks adapter c3 res = Inr (target, ref)"
    and t: "on_store (transition_command (clock 3) (uuid_str (bc_command_id c3)) target
        (dict_update [] (rr_details res)) (rr_broker_order_id res) ref (rr_broker_position_id res)) w3 = (Inr c4, w4)"
    and final: "(if rr_reconciled res \<and> bc_state c4 \<noteq> RECONCILED
        then on_store (transition_command (clock 4) (uuid_str (bc_command_id c4)) RECONCILED
               [(''terminal_broker_state'', command_state_str target)] None None None) w4
        else (Inr c4, w4)) = (Inr c, w')"
    using run unfolding reconcile_command_def
    by (clarsimp simp: andThen_Inr check_Inr simp del: One_nat_def split del: if_split)
  note s0 = tracks_start [OF ok start]
  note s1 = tracks_move [OF s0(1) m(1)]
  note s2 = tracks_move [OF s1(1) m(2)]
  note s3 = tracks_move [OF s2(1) m(3)]
  note s4 = tracks_transition [OF s3(1) t]
  have last: "tracks w' c \<and> bc_command_id c = bc_command_id c4 \<and> (rr_reconciled res \<longrightarrow> bc_state c = RECONCILED)"
    using final s4 tracks_transition [OF s4(1)] by (auto split: if_splits)
  have id: "bc_command_id c3 = bc_command_id command" using s0(2) s1(2) s2(2) s3(2) by simp
  show "tracks w' c" "bc_command_id c = bc_command_id command" "rr_command_id res = bc_command_id command"
    "rr_reconciled res \<Longrightarrow> bc_state c = RECONCILED"
    using last id s4(2) lookup_checks_identity [OF look] by simp_all
qed

section \<open>Reconciliation completes\<close>

definition same_order :: "broker_command \<Rightarrow> broker_command \<Rightarrow> bool" where
  "same_order c u \<longleftrightarrow> bc_command_id u = bc_command_id c \<and> bc_environment u = bc_environment c \<and>
     bc_broker u = bc_broker c \<and> bc_broker_order_id u = bc_broker_order_id c \<and>
     bc_broker_reference_id u = bc_broker_reference_id c"

lemma same_order_refl [simp]: "same_order c c"
  by (simp add: same_order_def)

lemma same_order_trans: "same_order c d \<Longrightarrow> same_order d u \<Longrightarrow> same_order c u"
  by (simp add: same_order_def)

lemma transition_same_order: "transition c target None None pos = Inr u \<Longrightarrow> same_order c u"
  by (auto simp: transition_def command_checks_def same_order_def py_or_def)

lemma transition_forward:
  assumes "tracks w c" and "target \<in> set (allowed_transitions (bc_state c))"
  obtains u w' where "on_store (transition_command wall (uuid_str (bc_command_id c)) target det oid ref pos) w = (Inr u, w')"
    "tracks w' u" "bc_state u = target" "bc_command_id u = bc_command_id c"
    "oid = None \<Longrightarrow> ref = None \<Longrightarrow> same_order c u"
proof -
  have ok: "ledger_ok (w_store w)" and c: "stored_command (w_store w) (uuid_str (bc_command_id c)) = Some c"
    using assms(1) by (simp_all add: tracks_def)
  obtain u s' where run: "transition_command wall (uuid_str (bc_command_id c)) target det oid ref pos (w_store w) = (Inr u, s')"
    using transition_command_succeeds [OF ok c assms(2)] by blast
  then have os: "on_store (transition_command wall (uuid_str (bc_command_id c)) target det oid ref pos) w =
      (Inr u, w\<lparr>w_store := s'\<rparr>)" by (simp add: on_store_Inr)
  obtain d where "stored_command (w_store w) (uuid_str (bc_command_id c)) = Some d" "transition d target oid ref pos = Inr u"
    by (rule transition_command_effect [OF ok run])
  then have "transition c target oid ref pos = Inr u" using c by simp
  then show ?thesis using that [OF os] tracks_transition [OF assms(1) os] transition_same_order by blast
qed

lemma move_forward:
  assumes "tracks w c" and "bc_state c \<in> set froms \<Longrightarrow> target \<in> set (allowed_transitions (bc_state c))"
  obtains u w' where "move_if clock n froms target c w = (Inr u, w')" "tracks w' u" "same_order c u"
    "bc_state u = (if bc_state c \<in> set froms then target else bc_state c)"
proof (cases "bc_state c \<in> set froms")
  case True
  show ?thesis
    by (rule transition_forward [OF assms(1) assms(2) [OF True], of "clock n" "[]" None None None], rule that)
      (use True in \<open>auto simp: move_if_def\<close>)
next
  case False
  then show ?thesis using that assms(1) by (simp add: move_if_def)
qed

abbreviation reconcilable :: "command_state list" where
  "reconcilable \<equiv> [SUBMISSION_PENDING, ACKNOWLEDGED, PARTIALLY_FILLED, CANCEL_PENDING, UNKNOWN, RECONCILING]"

lemma moves_to_reconciling:
  assumes "tracks w c" and "bc_state c \<in> set reconcilable"
  obtains c1 w1 c2 w2 c3 w3 where "move_if clock 0 [SUBMISSION_PENDING] UNKNOWN c w = (Inr c1, w1)"
    "move_if clock 1 [ACKNOWLEDGED, PARTIALLY_FILLED, CANCEL_PENDING] UNKNOWN c1 w1 = (Inr c2, w2)"
    "move_if clock 2 [UNKNOWN] RECONCILING c2 w2 = (Inr c3, w3)"
    "tracks w3 c3" "same_order c c3" "bc_state c3 = RECONCILING"
proof -
  obtain c1 w1 where m1: "move_if clock 0 [SUBMISSION_PENDING] UNKNOWN c w = (Inr c1, w1)" "tracks w1 c1" "same_order c c1"
      "bc_state c1 = (if bc_state c \<in> set [SUBMISSION_PENDING] then UNKNOWN else bc_state c)"
    by (rule move_forward [OF assms(1), of "[SUBMISSION_PENDING]" UNKNOWN clock 0]) auto
  obtain c2 w2 where m2: "move_if clock 1 [ACKNOWLEDGED, PARTIALLY_FILLED, CANCEL_PENDING] UNKNOWN c1 w1 = (Inr c2, w2)"
      "tracks w2 c2" "same_order c1 c2"
      "bc_state c2 = (if bc_state c1 \<in> set [ACKNOWLEDGED, PARTIALLY_FILLED, CANCEL_PENDING] then UNKNOWN else bc_state c1)"
    by (rule move_forward [OF m1(2), of "[ACKNOWLEDGED, PARTIALLY_FILLED, CANCEL_PENDING]" UNKNOWN clock 1]) auto
  obtain c3 w3 where m3: "move_if clock 2 [UNKNOWN] RECONCILING c2 w2 = (Inr c3, w3)" "tracks w3 c3" "same_order c2 c3"
      "bc_state c3 = (if bc_state c2 \<in> set [UNKNOWN] then RECONCILING else bc_state c2)"
    by (rule move_forward [OF m2(2), of "[UNKNOWN]" RECONCILING clock 2]) auto
  have "bc_state c3 = RECONCILING" using assms(2) m1(4) m2(4) m3(4) by (auto split: if_splits)
  then show ?thesis using that m1 m2 m3 same_order_trans by blast
qed

lemma reconcile_runs:
  assumes ok: "ledger_ok (w_store w)"
    and found: "get_command (uuid_str (bc_command_id command)) (w_store w) = Inr (Some c)"
    and state: "bc_state c \<in> set reconcilable"
    and adapter: "ad_environment adapter = bc_environment c" "ad_broker_name adapter = bc_broker c"
    and answer: "\<And>d. same_order c d \<Longrightarrow> bc_state d = RECONCILING \<Longrightarrow>
      ad_reconcile_command adapter d = Inr res \<and> lookup_checks adapter d res = Inr (target, ref)"
    and target: "target \<in> set (allowed_transitions RECONCILING)"
    and close: "rr_reconciled res \<Longrightarrow> target = RECONCILED \<or> RECONCILED \<in> set (allowed_transitions target)"
  shows "\<exists>u w'. reconcile_command clock adapter command w = (Inr (u, res), w') \<and>
    bc_state u = (if rr_reconciled res then RECONCILED else target)"
proof -
  note s0 = tracks_start [OF ok found]
  obtain c1 w1 c2 w2 c3 w3 where m: "move_if clock 0 [SUBMISSION_PENDING] UNKNOWN c w = (Inr c1, w1)"
    "move_if clock 1 [ACKNOWLEDGED, PARTIALLY_FILLED, CANCEL_PENDING] UNKNOWN c1 w1 = (Inr c2, w2)"
    "move_if clock 2 [UNKNOWN] RECONCILING c2 w2 = (Inr c3, w3)"
    and s3: "tracks w3 c3" "same_order c c3" "bc_state c3 = RECONCILING"
    by (rule moves_to_reconciling [OF s0(1) state])
  note ans = answer [OF s3(2,3)]
  obtain c4 w4 where t: "on_store (transition_command (clock 3) (uuid_str (bc_command_id c3)) target
      (dict_update [] (rr_details res)) (rr_broker_order_id res) ref (rr_broker_position_id res)) w3 = (Inr c4, w4)"
    "tracks w4 c4" "bc_state c4 = target"
    by (rule transition_forward [OF s3(1)]) (use target s3(3) in auto)
  have "\<exists>u w'. (if rr_reconciled res \<and> bc_state c4 \<noteq> RECONCILED
        then on_store (transition_command (clock 4) (uuid_str (bc_command_id c4)) RECONCILED
               [(''terminal_broker_state'', command_state_str target)] None None None) w4
        else (Inr c4, w4)) = (Inr u, w') \<and> bc_state u = (if rr_reconciled res then RECONCILED else target)"
  proof (cases "rr_reconciled res \<and> bc_state c4 \<noteq> RECONCILED")
    case True
    show ?thesis
      by (rule transition_forward [OF t(2), of RECONCILED "clock 4" "[(''terminal_broker_state'', command_state_str target)]"
            None None None]) (use True t(3) close in auto)
  qed (use t(3) in auto)
  then show ?thesis
    using ans adapter found s3(3) t(1)
    by (auto simp: reconcile_command_def andThen_def check_def m simp del: One_nat_def split del: if_split)
qed

section \<open>Authorisation for submission\<close>

lemma authorize_submission_effect:
  assumes ok: "db_ok H s"
    and run: "authorize_submission H wall command intent decision a (Aware moment off) (Aware deadline off') s = (Inr c, s')"
  shows "moment < deadline" and "stored_command s (uuid_str (bc_command_id command)) = Some command"
    and "stored_command s' (uuid_str (bc_command_id command)) = Some c" and "bc_state c = SUBMISSION_PENDING"
    and "\<not> consumed s (uuid_str (ap_approval_id a))" and "consumed s' (uuid_str (ap_approval_id a))"
    and "\<exists>z\<in>set (command_authorizations s'). tz_command_id z = uuid_str (bc_command_id command) \<and>
          tz_authorized_at z = Some moment \<and> tz_valid_until z = Some deadline"
proof -
  obtain m d row b binding s1 u where t: "moment = m" "deadline = d" "m < d"
    and cur: "command_in_transaction (uuid_str (bc_command_id command)) (Some command) s = Inr (row, b)"
    and br: "bound_risk b s = Inr (binding, decision)"
    and mc: "mark_consumed (uuid_str (ap_approval_id a)) m s = Inr s1"
    and tr: "transition b SUBMISSION_PENDING None None None = Inr u"
    and upd: "update_command wall row b u [(''approval_id'', uuid_str (ap_approval_id a))]
       (update_authorization (uuid_str (bc_command_id b))
          (\<lambda>z. z\<lparr>tz_authorized_at := Some m, tz_valid_until := Some d\<rparr>) s1) = Inr (c, s')"
    by (rule authorize_submission_Inr [OF run]) simp
  have cok: "commands_ok (broker_commands s) (command_events s)" and kok: "keys_ok s"
    using ok by (simp_all add: db_ok_def ledger_ok_def)
  have b: "b = command" using command_in_transaction_Inr(4) [OF cur] by simp
  have suc: "successor b u" using transition_successor [OF tr command_in_transaction_valid [OF cur]] by simp
  have same: "same_ledger s s1" by (rule mark_consumed_same [OF mc])
  have rows: "broker_commands s1 = broker_commands s" "command_events s1 = command_events s"
    "command_authorizations s1 = command_authorizations s" using same by (simp_all add: same_ledger_def)
  note eff = update_effect [OF cok cur _ _ upd suc, unfolded same_rows, OF rows(1,2)]
  show "moment < deadline" using t by simp
  show "stored_command s (uuid_str (bc_command_id command)) = Some command"
    "stored_command s' (uuid_str (bc_command_id command)) = Some c" "bc_state c = SUBMISSION_PENDING"
    using eff(2,3,9) b transition_Inr(2) [OF tr] by simp_all
  show "\<not> consumed s (uuid_str (ap_approval_id a))" by (rule mark_consumed_free [OF kok mc])
  show "consumed s' (uuid_str (ap_approval_id a))" using authorize_tables(2) [OF run] by simp
  show "\<exists>z\<in>set (command_authorizations s'). tz_command_id z = uuid_str (bc_command_id command) \<and>
      tz_authorized_at z = Some moment \<and> tz_valid_until z = Some deadline"
    using eff(6) rows bound_risk_Inr(1,2) [OF br] t b
    by (intro bexI [of _ "binding\<lparr>tz_authorized_at := Some m, tz_valid_until := Some d\<rparr>"])
      (auto simp: update_authorization_def set_update_rows image_iff simp del: if_image_distrib intro!: bexI [of _ binding])
qed

section \<open>Importing\<close>

lemma create_intent_Inr:
  assumes "create_intent H fresh intent_id r = Inr i"
  shows "valid_intent H i" and "order_side_of (ri_side r) = Inr (oi_side i)"
    and "order_type_of (ri_order_type r) = Inr (oi_order_type i)"
    and "sizing_method_of (ri_sizing_method r) = Inr (oi_sizing_method i)"
    and "environment_of (ri_environment r) = Inr (oi_environment i)"
proof -
  show "valid_intent H i" using assms by (auto simp: create_intent_def Let_def intro: OrderIntent_valid)
qed (use assms in \<open>auto simp: create_intent_def OrderIntent_def intent_checks_def Let_def\<close>)

lemma import_row_Inr:
  assumes "import_row H config strategy_id expires_at s fresh row = Inr i"
  shows "valid_intent H i \<and> oi_side i = BUY \<and> oi_order_type i = MARKET \<and> oi_sizing_method i = FIXED_NOTIONAL \<and>
    oi_environment i = ec_environment config \<and> validate_intent config i s = Inr ()"
proof -
  obtain r where c: "create_intent H fresh None r = Inr i"
    and r: "ri_side r = order_side_str BUY" "ri_order_type r = order_type_str MARKET"
      "ri_sizing_method r = sizing_method_str FIXED_NOTIONAL" "ri_environment r = environment_str (ec_environment config)"
    and v: "validate_intent config i s = Inr ()"
    using assms by (force simp: import_row_def Let_def)
  show ?thesis using create_intent_Inr [OF c] v by (simp add: r del: order_side_str.simps order_type_str.simps
      sizing_method_str.simps environment_str.simps)
qed

lemma save_intents_Inr:
  assumes "save_intents wall is s = (Inr x, s')"
  shows "batch_free is (order_intents s)"
    and "s' = s\<lparr>order_intents := order_intents s @ map (intent_row_of wall) is\<rparr>"
proof -
  have ins: "insert_intents wall is s = Inr s'" using assms by (auto simp: save_intents_def split: if_splits)
  show free: "batch_free is (order_intents s)"
  proof (rule ccontr)
    assume "\<not> batch_free is (order_intents s)"
    then show False using insert_intents_spec(2) [of "is" s wall] ins by auto
  qed
  show "s' = s\<lparr>order_intents := order_intents s @ map (intent_row_of wall) is\<rparr>"
    using insert_intents_spec(1) [OF free, of wall] ins by simp
qed

lemma save_intents_keeps: "save_intents wall is s = (Inl e, s') \<Longrightarrow> s' = s"
  by (auto simp: save_intents_def split: if_splits)

section \<open>Properties\<close>


definition ex_released :: ks_status where
  "ex_released = \<lparr>ks_engaged = False, ks_integrity_valid = True, ks_environment = DEMO, ks_revision = 2,
     ks_reason = ''ok'', ks_updated_at = Some 0\<rparr>"

definition ex_governance :: governance where
  "ex_governance = \<lparr>gp_execution_mode = ''demo_manual'', gp_allow_broker_api = True,
     gp_allow_order_submission = True, gp_manual_signoff_required = True\<rparr>"

abbreviation ex_short_limits :: risk_limits where
  "ex_short_limits \<equiv> ex_limits\<lparr>rl_account_max_age_seconds := 10\<rparr>"

lemma ex_gates: "gates_open ex_digest ex_short_limits ex_intent ex_decision ex_approval ex_released True True ex_governance 102000000"
  by (simp add: gates_open_def ex_released_def ex_governance_def demo_writes_allowed_def ex_limits_def compute_hash_def
      payload_hash_def ex_digest_def seconds_def)
    (simp add: ex_intent_def ex_decision_def ex_approval_def dict_get_def)

lemma ex_mark:
  "mark_submission_pending ex_digest (\<lambda>n. 0) ex_config ex_short_limits (ex_state APPROVED) ex_intent ex_decision ex_approval
     ex_released True ex_governance (utc 102000000) (ex_world 3) = (Inr (ex_state SUBMISSION_PENDING), ex_world 4)"
proof -
  have "submission_deadline ex_short_limits ex_intent ex_decision ex_approval = 110000000"
    by (simp add: submission_deadline_def ex_limits_def seconds_def ex_intent_def ex_decision_def ex_approval_def)
  moreover have "ec_broker_writes_enabled ex_config" by (simp add: ex_config_def)
  ultimately show ?thesis
    using ex_gates ex_step4
    by (simp add: mark_submission_pending_def andThen_def check_def on_store_def ex_world_def ex_validate authorize_Inr [THEN iffD2])
qed


text \<open>
  C26: reconciliation never sends. Whatever the broker answers and wherever it raises,
  \<open>reconcile_command\<close> hands nothing to the broker and leaves every command with the same
  attempts, request id and intent. When it returns, the answer was about this command, the
  returned command is the stored one, and it is \<open>RECONCILED\<close> if the broker called it so.
\<close>

theorem reconcile_never_sends:
  assumes "list_all (valid_call H) calls" and "w_store w = database H calls"
    and "reconcile_command clock adapter command w = (r, w')"
  shows "w_sent w' = w_sent w \<and>
    (\<forall>k c. get_command k (w_store w) = Inr (Some c) \<longrightarrow>
       (\<exists>u. get_command k (w_store w') = Inr (Some u) \<and> bc_attempt_history u = bc_attempt_history c \<and>
            bc_logical_request_id u = bc_logical_request_id c \<and> bc_intent_hash u = bc_intent_hash c)) \<and>
    (\<forall>c res. r = Inr (c, res) \<longrightarrow>
       get_command (uuid_str (bc_command_id command)) (w_store w') = Inr (Some c) \<and>
       rr_command_id res = bc_command_id command \<and> (rr_reconciled res \<longrightarrow> bc_state c = RECONCILED))"
proof -
  have ok: "ledger_ok (w_store w)" using db_ok_reachable [OF assms(1)] assms(2) by (simp add: db_ok_def)
  have q: "quiet w w'" using quiet_reconcile [of w clock adapter command] assms(3) by simp
  have "get_command (uuid_str (bc_command_id command)) (w_store w') = Inr (Some c) \<and>
       rr_command_id res = bc_command_id command \<and> (rr_reconciled res \<longrightarrow> bc_state c = RECONCILED)"
    if "r = Inr (c, res)" for c res
    using reconcile_result [OF ok assms(3) [unfolded that]] by (auto simp: tracks_def stored_command_iff)
  moreover have "\<exists>u. get_command k (w_store w') = Inr (Some u) \<and> bc_attempt_history u = bc_attempt_history c \<and>
      bc_logical_request_id u = bc_logical_request_id c \<and> bc_intent_hash u = bc_intent_hash c"
    if "get_command k (w_store w) = Inr (Some c)" for k c
    using q ok that unfolding quiet_def kept_def stored_command_iff by blast
  moreover have "w_sent w' = w_sent w" using q by (simp add: quiet_def)
  ultimately show ?thesis by blast
qed

text \<open>
  C27: an ambiguous or in-flight command can always be settled. If a command is stored in a
  state from which reconciliation is possible and the broker's lookup gives a consistent
  answer whose state is reachable from \<open>RECONCILING\<close>, then \<open>reconcile_command\<close> returns, with
  the command \<open>RECONCILED\<close> when the broker calls it reconciled and in the answered state
  otherwise.
\<close>

theorem reconcile_completes:
  assumes "list_all (valid_call H) calls" and "w_store w = database H calls"
    and "get_command (uuid_str (bc_command_id command)) (w_store w) = Inr (Some c)"
    and "bc_state c \<in> set reconcilable"
    and "ad_environment adapter = bc_environment c" and "ad_broker_name adapter = bc_broker c"
    and "\<And>d. same_order c d \<Longrightarrow> bc_state d = RECONCILING \<Longrightarrow>
      ad_reconcile_command adapter d = Inr res \<and> lookup_checks adapter d res = Inr (target, ref)"
    and "target \<in> set (allowed_transitions RECONCILING)"
    and "rr_reconciled res \<Longrightarrow> target = RECONCILED \<or> RECONCILED \<in> set (allowed_transitions target)"
  shows "\<exists>u w'. reconcile_command clock adapter command w = (Inr (u, res), w') \<and>
    bc_state u = (if rr_reconciled res then RECONCILED else target)"
proof -
  have "ledger_ok (w_store w)" using db_ok_reachable [OF assms(1)] assms(2) by (simp add: db_ok_def)
  then show ?thesis by (rule reconcile_runs [OF _ assms(3-9)])
qed

definition ex_answer :: broker_reconciliation_result where
  "ex_answer = \<lparr>rr_command_id = 5, rr_reconciled = True, rr_lifecycle_state = ''filled'',
     rr_broker_order_id = Some ''o1'', rr_broker_position_id = Some ''p1'', rr_details = [], rr_executions = []\<rparr>"

lemma ex_reconcile:
  shows "get_command (uuid_str (bc_command_id ex_claimed)) (w_store (ex_world 5)) = Inr (Some ex_claimed)"
    and "same_order ex_claimed d \<Longrightarrow> bc_state d = RECONCILING \<Longrightarrow>
      ad_reconcile_command ex_adapter d = Inr ex_answer \<and> lookup_checks ex_adapter d ex_answer = Inr (FILLED, None)"
    and "w_store (ex_world 5) = database ex_digest (take 6 ex_calls)"
proof -
  show "w_store (ex_world 5) = database ex_digest (take 6 ex_calls)" using ex_database(3) by (simp add: ex_world_def)
  show "get_command (uuid_str (bc_command_id ex_claimed)) (w_store (ex_world 5)) = Inr (Some ex_claimed)"
    using claim_submission_facts(6) [OF _ ex_valid(5) ex_step5] db_ok_reachable [OF ex_calls_valid [of 5]] ex_database(2)
    by (simp add: ex_world_def ex_claimed_def db_ok_def stored_command_iff)
  show "ad_reconcile_command ex_adapter d = Inr ex_answer \<and> lookup_checks ex_adapter d ex_answer = Inr (FILLED, None)"
    if "same_order ex_claimed d" "bc_state d = RECONCILING"
    using that by (simp add: same_order_def ex_adapter_def ex_answer_def lookup_checks_def recovered_reference_def
        ex_claimed_def ex_state_def ex_command_def py_truthy_def command_state_of_def enum_of_def all_command_states_def)
qed

theorem reconcile_completes_witness:
  "\<exists>u w'. reconcile_command (\<lambda>n. 0) ex_adapter ex_claimed (ex_world 5) = (Inr (u, ex_answer), w') \<and> bc_state u = RECONCILED"
proof -
  have r: "rr_reconciled ex_answer" by (simp add: ex_answer_def)
  have "\<exists>u w'. reconcile_command (\<lambda>n. 0) ex_adapter ex_claimed (ex_world 5) = (Inr (u, ex_answer), w') \<and>
      bc_state u = (if rr_reconciled ex_answer then RECONCILED else FILLED)"
    by (rule reconcile_completes [OF ex_calls_valid ex_reconcile(3,1) _ _ _ ex_reconcile(2)])
      (simp_all add: ex_claimed_def ex_adapter_def ex_state_def ex_command_def)
  then show ?thesis using r by simp
qed

theorem reconcile_never_sends_witness:
  "\<exists>u w'. reconcile_command (\<lambda>n. 0) ex_adapter ex_claimed (ex_world 5) = (Inr (u, ex_answer), w') \<and>
     w_sent w' = [] \<and> bc_attempt_history u = [ex_attempt]"
proof -
  have ok: "ledger_ok (w_store (ex_world 5))"
    using db_ok_reachable [OF ex_calls_valid [of 6]] ex_reconcile(3) by (simp add: db_ok_def)
  obtain u w' where run: "reconcile_command (\<lambda>n. 0) ex_adapter ex_claimed (ex_world 5) = (Inr (u, ex_answer), w')"
  proof -
    have "\<exists>u w'. reconcile_command (\<lambda>n. 0) ex_adapter ex_claimed (ex_world 5) = (Inr (u, ex_answer), w') \<and>
        bc_state u = (if rr_reconciled ex_answer then RECONCILED else FILLED)"
      by (rule reconcile_runs [OF ok ex_reconcile(1) _ _ _ ex_reconcile(2)])
        (simp_all add: ex_claimed_def ex_adapter_def ex_state_def ex_command_def)
    then show ?thesis using that by blast
  qed
  note safe = reconcile_never_sends [OF ex_calls_valid ex_reconcile(3) run]
  obtain v where v: "get_command (uuid_str (bc_command_id ex_claimed)) (w_store w') = Inr (Some v)"
    "bc_attempt_history v = bc_attempt_history ex_claimed"
    using safe ex_reconcile(1) by blast
  moreover have "get_command (uuid_str (bc_command_id ex_claimed)) (w_store w') = Inr (Some u)" using safe by blast
  ultimately have "bc_attempt_history u = [ex_attempt]" by (simp add: ex_claimed_def)
  then show ?thesis using run safe by (simp add: ex_world_def)
qed

text \<open>
  The import of advisory orders is all or nothing and long-only. When it raises, store and
  broker are untouched. When it returns, the returned intents are exactly the rows appended to
  the intent table, in order and none of them a duplicate; each is a valid market buy of a fixed
  notional in the configured environment that passed validation; nothing is sent.
\<close>

theorem import_all_or_nothing:
  "case import_advisory_orders H clock config fresh frame strategy_id expires_at w of
     (Inl e, w') \<Rightarrow> w' = w
   | (Inr prepared, w') \<Rightarrow> ec_intent_import_enabled config \<and>
       w' = w\<lparr>w_store := (w_store w)\<lparr>order_intents :=
         order_intents (w_store w) @ map (intent_row_of (clock 0)) prepared\<rparr>\<rparr> \<and>
       batch_free prepared (order_intents (w_store w)) \<and>
       length prepared = (if fr_columns frame = [] then 0 else length (fr_rows frame)) \<and>
       list_all (\<lambda>i. valid_intent H i \<and> oi_side i = BUY \<and> oi_order_type i = MARKET \<and>
         oi_sizing_method i = FIXED_NOTIONAL \<and> oi_environment i = ec_environment config \<and>
         validate_intent config i (w_store w) = Inr ()) prepared"
proof -
  obtain r w' where run: "import_advisory_orders H clock config fresh frame strategy_id expires_at w = (r, w')" by fastforce
  note unfolded = run [unfolded import_advisory_orders_def]
  show ?thesis
  proof (cases r)
    case (Inl e)
    have "w' = w" using unfolded Inl save_intents_keeps
      by (auto simp: Let_def andThen_def check_def on_store_def split: if_splits sum.splits prod.splits)
    then show ?thesis using run Inl by simp
  next
    case (Inr prepared)
    show ?thesis
    proof (cases "fr_rows frame = [] \<or> fr_columns frame = []")
      case True
      then show ?thesis using unfolded run Inr by (auto simp: batch_free_def split: if_splits)
    next
      case False
      then obtain s' where on: "ec_intent_import_enabled config"
        and rows: "mapR (\<lambda>(n, row). import_row H config strategy_id expires_at (w_store w) (fresh n) row)
              (enumerate 0 (fr_rows frame)) = Inr prepared"
        and save: "save_intents (clock 0) prepared (w_store w) = (Inr (), s')" and w': "w' = w\<lparr>w_store := s'\<rparr>"
        using unfolded Inr by (auto simp: Let_def world_Inr split: if_splits)
      have each: "list_all (\<lambda>i. valid_intent H i \<and> oi_side i = BUY \<and> oi_order_type i = MARKET \<and>
         oi_sizing_method i = FIXED_NOTIONAL \<and> oi_environment i = ec_environment config \<and>
         validate_intent config i (w_store w) = Inr ()) prepared"
        unfolding list_all_iff by (auto dest!: mapR_set [OF rows] dest: import_row_Inr)
      show ?thesis
        using on each mapR_eq_Inr_length [OF rows] save_intents_Inr [OF save] False w' run Inr by simp
    qed
  qed
qed

text \<open>
  The scope of a loaded configuration. Whatever the configuration document says, an intent
  that passes validation under a configuration that loads is an unleveraged buy outside the real
  environment, of a registered equity or ETF in the registered currency; and broker writes are
  enabled only if the document says literally \<open>true\<close>.
\<close>

theorem configured_scope:
  assumes "load_config doc = Inr config" and "validate_intent config intent s = Inr ()"
  shows "oi_side intent = BUY \<and> dec_eq (oi_target_leverage intent) dec1 \<and> oi_environment intent \<noteq> REAL \<and>
    (\<exists>i. registry_get (uuid_str (oi_internal_instrument_id intent)) s = Inr i \<and>
         in_asset_type i \<in> {''equity'', ''etf''} \<and> in_currency i = oi_currency intent) \<and>
    (\<exists>kvs. doc = Some (YMap kvs) \<and>
       (ec_broker_writes_enabled config \<longleftrightarrow> map_of kvs ''broker_writes_enabled'' = Some (YBool True)))"
proof -
  obtain kvs where doc: "doc = Some (YMap kvs)" and vals: "config_values kvs = Inr config"
    and c: "ec_environment config \<noteq> REAL" "set (ec_allowed_asset_types config) \<subseteq> set [''equity'', ''etf'']"
      "set (ec_allowed_sides config) = set [''buy'']" "dec_eq (ec_allowed_leverage config) dec1"
    using assms(1) by (auto simp: load_config_def Let_def)
  obtain i where i: "registry_get (uuid_str (oi_internal_instrument_id intent)) s = Inr i"
    "oi_environment intent = ec_environment config" "in_asset_type i \<in> set (ec_allowed_asset_types config)"
    "order_side_str (oi_side intent) \<in> set (ec_allowed_sides config)"
    "dec_eq (oi_target_leverage intent) (ec_allowed_leverage config)" "in_currency i = oi_currency intent"
    using assms(2) by (auto simp: validate_intent_def)
  have "oi_side intent = BUY" using i(4) c(3) by (cases "oi_side intent") auto
  moreover have "dec_eq (oi_target_leverage intent) dec1" using dec_eq_trans [OF i(5) c(4)] by simp
  moreover have "ec_broker_writes_enabled config \<longleftrightarrow> map_of kvs ''broker_writes_enabled'' = Some (YBool True)"
  proof -
    have "ec_broker_writes_enabled config = yaml_true (yaml_get kvs ''broker_writes_enabled'')"
      using vals by (auto simp: config_values_def)
    then show ?thesis by (simp add: yaml_get_def yaml_true_def split: option.split)
  qed
  moreover have "in_asset_type i \<in> {''equity'', ''etf''}" using i(3) c(2) by auto
  ultimately show ?thesis using doc i(1,2,6) c(1) by simp
qed

definition ex_document :: yaml where
  "ex_document = YMap [(''schema_version'', YStr ''1.0''), (''intent_import_enabled'', YBool True),
     (''broker_writes_enabled'', YBool True), (''adapter'', YStr ''fake''), (''environment'', YStr ''demo''),
     (''require_internal_instrument_id'', YBool True), (''allowed_asset_types'', YList [YStr ''equity'']),
     (''allowed_sides'', YList [YStr ''buy'']), (''allowed_leverage'', YInt 1)]"

lemma ex_leverage: "yaml_decimal (YInt 1) = Inr dec1"
proof -
  have one: "char_of (49 :: nat) = CHR ''1''" using char_of_char [of "CHR ''1''"] by simp
  then have "dec_format_f dec1 = ''1''" by (simp add: dec_body_def str_nat.simps digit_char_def)
  then have "dec_of_string ''1'' = Some (dec_norm dec1)" using dec_norm_parse [of dec1] by (simp only: is_finite.simps)
  then show ?thesis using one by (simp add: yaml_decimal_def dec_norm_def str_int_def str_nat.simps digit_char_def)
qed

lemma ex_load_config: "load_config (Some ex_document) = Inr ex_config"
  by (simp add: load_config_def ex_document_def missing_keys_def config_required_keys_def config_values_def yaml_get_def
      environment_of_def enum_of_def ex_config_def approved_adapters_def py_strip_def py_lower_def py_isspace_def
      ex_leverage [unfolded One_nat_def] yaml_true_def)

theorem configured_scope_witness:
  "load_config (Some ex_document) = Inr ex_config \<and> oi_side ex_intent = BUY \<and>
   (\<exists>i. registry_get (uuid_str (oi_internal_instrument_id ex_intent)) (ex_store 1) = Inr i \<and>
        in_asset_type i \<in> {''equity'', ''etf''})"
  using configured_scope [OF ex_load_config ex_validate [of 1]] ex_load_config by blast

end
