(* ===== verification/Account_Source.thy ===== *)
theory Account_Source
  imports Evidence Py_Exact
begin

text \<open>
  \<open>src/execution/account_source.py\<close>: the broker-neutral account facts the risk evaluator
  consumes. Decimal arithmetic happens in the context of the caller, whose precision is the
  argument \<open>p\<close> (28 by default, 80 or more inside the evaluator).
\<close>

text \<open>Seconds since the epoch as a decimal; the datetimes that reach it are aware.\<close>

definition epoch :: "nat \<Rightarrow> instant \<Rightarrow> decimal result" where
  "epoch p t =
     bindR (dec_div p (dec_of_int (t mod 1000000)) (dec_of_int 1000000)) (\<lambda>fraction.
     Inr (dec_add p (dec_of_int (t div 1000000)) fraction))"

record source_position =
  sp_broker_position_id :: string
  sp_broker_instrument_id :: int
  sp_current_exposure :: decimal

record risk_account_source =
  as_model_version :: string
  as_source_evidence_sha256 :: string
  as_time_evidence_hash :: string
  as_demo_customer_id :: string
  as_currency :: string
  as_equity :: decimal
  as_available_cash :: decimal
  as_invested_amount :: decimal
  as_broker_margin :: decimal
  as_current_pnl :: decimal
  as_positions :: "source_position list"
  as_earliest_component_at :: instant
  as_latest_component_at :: instant
  as_assessed_at :: instant
  as_deadline_epoch :: decimal
  as_original_blockers :: "string list"
  as_age_limit :: int
  as_projection_hash :: string

text \<open>The caller's arguments before \<open>__post_init__\<close>.\<close>

record raw_account_source =
  ras_model_version :: string
  ras_source_evidence_sha256 :: string
  ras_time_evidence_hash :: string
  ras_demo_customer_id :: string
  ras_currency :: string
  ras_equity :: raw_decimal
  ras_available_cash :: raw_decimal
  ras_invested_amount :: raw_decimal
  ras_broker_margin :: raw_decimal
  ras_current_pnl :: raw_decimal
  ras_positions :: "source_position list"
  ras_earliest_component_at :: pydatetime
  ras_latest_component_at :: pydatetime
  ras_assessed_at :: pydatetime
  ras_deadline_epoch :: raw_decimal
  ras_original_blockers :: "string list"
  ras_age_limit :: int
  ras_projection_hash :: string

definition component_time_model :: string where
  "component_time_model = ''etoro-component-time-v1''"

definition hex_digest :: "string \<Rightarrow> bool" where
  "hex_digest s \<longleftrightarrow> length s = 64 \<and> list_all (\<lambda>c. c \<in> set ''0123456789abcdef'') s"

definition source_position_json :: "source_position \<Rightarrow> json" where
  "source_position_json x = JObj [(''broker_position_id'', JStr (sp_broker_position_id x)),
     (''broker_instrument_id'', JInt (sp_broker_instrument_id x)), (''current_exposure'', jdec (sp_current_exposure x))]"

definition source_payload :: "risk_account_source \<Rightarrow> json" where
  "source_payload x = JObj
     [(''model_version'', JStr (as_model_version x)),
      (''source_evidence_sha256'', JStr (as_source_evidence_sha256 x)),
      (''time_evidence_hash'', JStr (as_time_evidence_hash x)),
      (''demo_customer_id'', JStr (as_demo_customer_id x)),
      (''currency'', JStr (as_currency x)),
      (''equity'', jdec (as_equity x)),
      (''available_cash'', jdec (as_available_cash x)),
      (''invested_amount'', jdec (as_invested_amount x)),
      (''broker_margin'', jdec (as_broker_margin x)),
      (''current_pnl'', jdec (as_current_pnl x)),
      (''positions'', JArr (map source_position_json (as_positions x))),
      (''earliest_component_at'', JTime (as_earliest_component_at x)),
      (''latest_component_at'', JTime (as_latest_component_at x)),
      (''assessed_at'', JTime (as_assessed_at x)),
      (''deadline_epoch'', jdec (as_deadline_epoch x)),
      (''original_blockers'', JArr (map JStr (as_original_blockers x))),
      (''age_limit'', JInt (as_age_limit x))]"

text \<open>The checks after the conversions, and the digest of the projection.\<close>

definition source_checks :: "digest \<Rightarrow> nat \<Rightarrow> risk_account_source \<Rightarrow> risk_account_source result" where
  "source_checks H p x =
     bindR (epoch p (as_earliest_component_at x)) (\<lambda>earliest.
     raiseIf (dec_lt (dec_add p earliest (dec_of_int (as_age_limit x))) (as_deadline_epoch x))
       (PyValueError ''source_deadline_exceeds_structure_expiry'') (
     let d = payload_hash H (source_payload x) in
     raiseIf (as_projection_hash x \<noteq> [] \<and> as_projection_hash x \<noteq> d)
       (PyValueError ''source_projection_digest_mismatch'') (
     Inr (x\<lparr>as_projection_hash := d\<rparr>))))"

definition RiskAccountSource :: "digest \<Rightarrow> nat \<Rightarrow> raw_account_source \<Rightarrow> risk_account_source result" where
  "RiskAccountSource H p r =
     raiseIf (\<not> hex_digest (ras_source_evidence_sha256 r)) (PyValueError ''source_digest_invalid'') (
     raiseIf (\<not> hex_digest (ras_time_evidence_hash r)) (PyValueError ''source_digest_invalid'') (
     raiseIf (ras_model_version r \<noteq> component_time_model \<or> ras_currency r \<noteq> ''USD'' \<or> ras_demo_customer_id r = []
              \<or> \<not> (0 < ras_age_limit r \<and> ras_age_limit r \<le> 15))
       (PyValueError ''source_contract_invalid'') (
     bindR (aware_utc (ras_earliest_component_at r) ''earliest_component_at'') (\<lambda>earliest.
     bindR (aware_utc (ras_latest_component_at r) ''latest_component_at'') (\<lambda>latest.
     bindR (aware_utc (ras_assessed_at r) ''assessed_at'') (\<lambda>assessed.
     raiseIf (\<not> (earliest \<le> latest \<and> latest \<le> assessed))
       (PyValueError ''source_component_clock_order_invalid'') (
     bindR (decimal_value (ras_equity r) ''equity'') (\<lambda>equity.
     bindR (decimal_value (ras_available_cash r) ''available_cash'') (\<lambda>cash.
     bindR (decimal_value (ras_invested_amount r) ''invested_amount'') (\<lambda>invested.
     bindR (decimal_value (ras_broker_margin r) ''broker_margin'') (\<lambda>margin.
     bindR (decimal_value (ras_current_pnl r) ''current_pnl'') (\<lambda>pnl.
     bindR (decimal_value (ras_deadline_epoch r) ''deadline_epoch'') (\<lambda>deadline.
     source_checks H p
       \<lparr>as_model_version = ras_model_version r, as_source_evidence_sha256 = ras_source_evidence_sha256 r,
        as_time_evidence_hash = ras_time_evidence_hash r, as_demo_customer_id = ras_demo_customer_id r,
        as_currency = ras_currency r, as_equity = equity, as_available_cash = cash,
        as_invested_amount = invested, as_broker_margin = margin, as_current_pnl = pnl,
        as_positions = ras_positions r, as_earliest_component_at = earliest,
        as_latest_component_at = latest, as_assessed_at = assessed, as_deadline_epoch = deadline,
        as_original_blockers = ras_original_blockers r, as_age_limit = ras_age_limit r,
        as_projection_hash = ras_projection_hash r\<rparr>)))))))))))))"

text \<open>The deadline for a caller that accepts less age than the source allows.\<close>

definition tightened_deadline :: "nat \<Rightarrow> risk_account_source \<Rightarrow> int \<Rightarrow> decimal" where
  "tightened_deadline p x age_limit =
     dec_sub p (as_deadline_epoch x) (dec_of_int (max 0 (as_age_limit x - age_limit)))"

definition validate_at :: "nat \<Rightarrow> risk_account_source \<Rightarrow> pydatetime \<Rightarrow> int \<Rightarrow> string list result" where
  "validate_at p x now age_limit =
     (let contract = (if as_model_version x \<noteq> component_time_model \<or> age_limit > as_age_limit x
                      then [''source_time_contract_mismatch''] else [])
      in bindR (aware_utc now ''now'') (\<lambda>moment.
         bindR (epoch p moment) (\<lambda>seen.
         Inr (as_original_blockers x @ contract @
              (if moment < as_assessed_at x \<or> dec_lt (tightened_deadline p x age_limit) seen
               then [''source_component_evidence_stale_or_future''] else [])))))"

text \<open>\<open>int(d)\<close> truncates towards zero; an infinity or a NaN does not convert.\<close>

fun dec_trunc :: "decimal \<Rightarrow> int result" where
  "dec_trunc (Dec s c e) =
     Inr ((if s then -1 else 1) * (if 0 \<le> e then int c * 10 ^ nat e else int c div 10 ^ nat (- e)))"
| "dec_trunc _ = Inl (PyValueError ''cannot convert to integer'')"

definition freshness_deadline :: "nat \<Rightarrow> risk_account_source \<Rightarrow> int \<Rightarrow> instant result" where
  "freshness_deadline p x age_limit = dec_trunc (dec_mul p (tightened_deadline p x age_limit) (dec_of_int 1000000))"

section \<open>The clock in decimals\<close>

text \<open>Python's datetimes span years 1 to 9999; in microseconds they stay below \<open>10 ^ 18\<close>.\<close>

definition datetime_range :: "instant \<Rightarrow> bool" where
  "datetime_range t \<longleftrightarrow> \<bar>t\<bar> < 10 ^ 18"

lemma micro_fits: "\<bar>t\<bar> < 10 ^ 27 \<Longrightarrow> 28 \<le> p \<Longrightarrow> fits p (of_int t / 1000000)"
proof -
  assume t: "\<bar>t\<bar> < 10 ^ 27" and p: "28 \<le> p"
  have "(10 :: int) ^ 27 \<le> 10 ^ p" using p by (intro power_increasing) simp_all
  then have "fits p (of_int t * 10 powi - 6)" using t by (intro fits_int) simp
  then show ?thesis by (simp add: power_int_minus)
qed

lemma epoch_exact:
  assumes "datetime_range t" and "28 \<le> p"
  obtains d where "epoch p t = Inr d" "is_finite d" "dec_val d = of_int t / 1000000"
proof -
  have small: "\<bar>t mod 1000000\<bar> < 10 ^ 27" "\<bar>t\<bar> < 10 ^ 27" using assms(1) by (simp_all add: datetime_range_def)
  have f: "fits p (of_int (t mod 1000000) / 1000000)" using micro_fits [OF small(1) assms(2)] .
  obtain f where f: "dec_div p (dec_of_int (t mod 1000000)) (dec_of_int 1000000) = Inr f" "is_finite f"
    "dec_val f = of_int (t mod 1000000) / 1000000"
    using dec_div_exact [of "dec_of_int (t mod 1000000)" "dec_of_int 1000000" p] assms(2) f by auto
  have split: "of_int (t div 1000000) + of_int (t mod 1000000) / 1000000 = (of_int t / 1000000 :: rat)"
  proof -
    have "of_int (t div 1000000) * 1000000 + of_int (t mod 1000000) = (of_int (t div 1000000 * 1000000 + t mod 1000000) :: rat)"
      by (simp only: of_int_add of_int_mult of_int_numeral)
    also have "\<dots> = of_int t" by (simp only: div_mult_mod_eq)
    finally show ?thesis by simp
  qed
  have "dec_val (dec_add p (dec_of_int (t div 1000000)) f) = of_int t / 1000000"
    using dec_add_exact [of "dec_of_int (t div 1000000)" f p] f assms(2) micro_fits [OF small(2) assms(2)] split by simp
  then show ?thesis using that [of "dec_add p (dec_of_int (t div 1000000)) f"] f by (simp add: epoch_def)
qed

lemma seconds_fits: "datetime_range t \<Longrightarrow> \<bar>k\<bar> \<le> 15 \<Longrightarrow> 28 \<le> p \<Longrightarrow> fits p (of_int t / 1000000 + of_int k)"
  using micro_fits [of "t + k * 1000000" p] by (simp add: datetime_range_def add_divide_distrib)

lemma RiskAccountSource_Inr:
  assumes "RiskAccountSource H p r = Inr x"
  shows "0 < as_age_limit x" and "as_age_limit x \<le> 15" and "is_finite (as_deadline_epoch x)"
    and "as_earliest_component_at x \<le> as_latest_component_at x" and "as_latest_component_at x \<le> as_assessed_at x"
    and "\<exists>e. epoch p (as_earliest_component_at x) = Inr e \<and>
          \<not> dec_lt (dec_add p e (dec_of_int (as_age_limit x))) (as_deadline_epoch x)"
  using assms by (auto simp: RiskAccountSource_def source_checks_def Let_def dest: decimal_value_finite)

lemma source_deadline_bound:
  assumes "RiskAccountSource H p r = Inr x" and "28 \<le> p" and "datetime_range (as_earliest_component_at x)"
  shows "dec_val (as_deadline_epoch x) \<le> of_int (as_earliest_component_at x) / 1000000 + of_int (as_age_limit x)"
proof -
  note x = RiskAccountSource_Inr [OF assms(1)]
  obtain e where e: "epoch p (as_earliest_component_at x) = Inr e" "is_finite e"
    "dec_val e = of_int (as_earliest_component_at x) / 1000000"
    by (rule epoch_exact [OF assms(3,2)])
  have "fits p (dec_val e + dec_val (dec_of_int (as_age_limit x)))"
    using seconds_fits [OF assms(3), of "as_age_limit x" p] assms(2) x(1,2) unfolding e(3) by simp
  then have "dec_val (dec_add p e (dec_of_int (as_age_limit x))) = dec_val e + of_int (as_age_limit x)"
    using dec_add_exact [of e "dec_of_int (as_age_limit x)" p] e(2) assms(2) by simp
  then show ?thesis using x(3,6) e by auto
qed

lemma tightened_bound:
  assumes "RiskAccountSource H p r = Inr x" and "28 \<le> p" and "28 \<le> p'" and "datetime_range (as_earliest_component_at x)"
    and "0 \<le> limit" and "limit \<le> as_age_limit x"
  shows "dec_val (tightened_deadline p' x limit) \<le> of_int (as_earliest_component_at x) / 1000000 + of_int limit"
proof -
  note x = RiskAccountSource_Inr [OF assms(1)]
  have "dec_val (as_deadline_epoch x) - dec_val (dec_of_int (max 0 (as_age_limit x - limit))) \<le>
      of_int (as_earliest_component_at x) / 1000000 + of_int limit"
    using source_deadline_bound [OF assms(1,2,4)] assms(6) by simp
  then show ?thesis
    unfolding tightened_deadline_def using x assms(3,5,6) seconds_fits [OF assms(4), of limit p']
    by (intro dec_sub_le) simp_all
qed

lemma dec_trunc_le: "is_finite d \<Longrightarrow> dec_val d \<le> of_int k \<Longrightarrow> 0 \<le> k \<Longrightarrow> \<exists>t. dec_trunc d = Inr t \<and> t \<le> k"
proof -
  assume d: "is_finite d" and le: "dec_val d \<le> of_int k" and k: "0 \<le> k"
  obtain s c e where dec: "d = Dec s c e" using d by (cases d) auto
  have neg: "- (if 0 \<le> e then int c * 10 ^ nat e else int c div 10 ^ nat (- e)) \<le> k"
    using k by (auto intro: order_trans [of _ 0] simp: pos_imp_zdiv_nonneg_iff)
  have pos: "(if 0 \<le> e then int c * 10 ^ nat e else int c div 10 ^ nat (- e)) \<le> k" if "\<not> s"
  proof (cases "0 \<le> e")
    case True
    then have "of_int (int c * 10 ^ nat e) \<le> (of_int k :: rat)" using le dec that by (simp add: power_int_def)
    then show ?thesis using True by (simp only: of_int_le_iff if_True)
  next
    case False
    then have "(of_nat c :: rat) \<le> of_int k * 10 ^ nat (- e)"
      using le dec that by (simp add: power_int_def power_one_over divide_le_eq field_simps)
    then have "(of_int (int c) :: rat) \<le> of_int (k * 10 ^ nat (- e))" by simp
    then have "int c \<le> k * 10 ^ nat (- e)" by (simp only: of_int_le_iff)
    then have "int c div 10 ^ nat (- e) \<le> k * 10 ^ nat (- e) div 10 ^ nat (- e)" by (intro zdiv_mono1) simp_all
    then show ?thesis using False by simp
  qed
  show ?thesis using neg pos by (cases s) (simp_all add: dec)
qed

section \<open>Properties\<close>

text \<open>
  C28: account evidence is never used beyond its age limit. For a source accepted by its
  constructor and any limit a caller asks for, \<open>validate_at\<close> reports no blocker only at moments
  from the assessment until the earliest component time plus that limit, and the freshness
  deadline never extends past it; rounding in the decimal context cannot move either bound.
\<close>

theorem source_never_stale:
  assumes "RiskAccountSource H p r = Inr x" and "28 \<le> p" and "28 \<le> p'"
    and "datetime_range (as_earliest_component_at x)" and "datetime_range moment"
    and "0 \<le> limit" and "0 \<le> as_earliest_component_at x"
  shows "(validate_at p' x (Aware moment off) limit = Inr [] \<longrightarrow>
      as_assessed_at x \<le> moment \<and> moment \<le> as_earliest_component_at x + seconds limit \<and> limit \<le> as_age_limit x) \<and>
    (limit \<le> as_age_limit x \<longrightarrow>
      (\<exists>t. freshness_deadline p' x limit = Inr t \<and> t \<le> as_earliest_component_at x + seconds limit))"
proof (intro conjI impI)
  note x = RiskAccountSource_Inr [OF assms(1)]
  have fin: "is_finite (tightened_deadline p' x limit)" using x(3) by (simp add: tightened_deadline_def)
  assume none: "validate_at p' x (Aware moment off) limit = Inr []"
  obtain d where d: "epoch p' moment = Inr d" "is_finite d" "dec_val d = of_int moment / 1000000"
    by (rule epoch_exact [OF assms(5,3)])
  show "as_assessed_at x \<le> moment" "limit \<le> as_age_limit x"
    using none d(1) by (auto simp: validate_at_def Let_def split: if_splits)
  have "\<not> dec_lt (tightened_deadline p' x limit) d"
    using none d(1) by (auto simp: validate_at_def Let_def split: if_splits)
  then have "of_int moment / 1000000 \<le> dec_val (tightened_deadline p' x limit)" using fin d by simp
  also have "\<dots> \<le> of_int (as_earliest_component_at x) / 1000000 + of_int limit"
    by (rule tightened_bound [OF assms(1-4,6) \<open>limit \<le> as_age_limit x\<close>])
  finally have "(of_int moment :: rat) \<le> of_int (as_earliest_component_at x + limit * 1000000)"
    by (simp add: field_simps)
  then show "moment \<le> as_earliest_component_at x + seconds limit" by (simp only: of_int_le_iff seconds_def)
next
  note x = RiskAccountSource_Inr [OF assms(1)]
  assume le: "limit \<le> as_age_limit x"
  let ?t = "tightened_deadline p' x limit" and ?k = "as_earliest_component_at x + seconds limit"
  have fin: "is_finite ?t" using x(3) by (simp add: tightened_deadline_def)
  have "dec_val ?t * 1000000 \<le> of_int ?k"
    using tightened_bound [OF assms(1-4,6) le] by (simp add: seconds_def field_simps)
  moreover have "fits p' (of_int ?k)"
  proof -
    have "(10 :: int) ^ 27 \<le> 10 ^ p'" using assms(3) by (intro power_increasing) simp_all
    moreover have "\<bar>?k\<bar> < 10 ^ 27" using assms(4,6,7) le x(2) by (simp add: datetime_range_def seconds_def)
    ultimately have "fits p' (of_int ?k * 10 powi 0)" by (intro fits_int) simp
    then show ?thesis by simp
  qed
  ultimately have "dec_val (dec_mul p' ?t (dec_of_int 1000000)) \<le> of_int ?k"
    using fin assms(3) by (intro dec_mul_le) simp_all
  then show "\<exists>t. freshness_deadline p' x limit = Inr t \<and> t \<le> ?k"
    unfolding freshness_deadline_def using fin assms(6,7) by (intro dec_trunc_le) (simp_all add: seconds_def)
qed

definition ex_raw_source :: raw_account_source where
  "ex_raw_source = \<lparr>ras_model_version = component_time_model, ras_source_evidence_sha256 = replicate 64 CHR ''a'',
     ras_time_evidence_hash = replicate 64 CHR ''b'', ras_demo_customer_id = ''c1'', ras_currency = ''USD'',
     ras_equity = RDecimal (Dec False 100 0), ras_available_cash = RDecimal (Dec False 100 0),
     ras_invested_amount = RDecimal dec0, ras_broker_margin = RDecimal dec0, ras_current_pnl = RDecimal dec0,
     ras_positions = [], ras_earliest_component_at = utc 100000000, ras_latest_component_at = utc 100000000,
     ras_assessed_at = utc 101000000, ras_deadline_epoch = RDecimal (Dec False 115 0), ras_original_blockers = [],
     ras_age_limit = 15, ras_projection_hash = []\<rparr>"

lemma ex_source:
  "\<exists>x. RiskAccountSource ex_digest 28 ex_raw_source = Inr x \<and> as_earliest_component_at x = 100000000 \<and>
     validate_at 28 x (utc 105000000) 15 = Inr []"
proof -
  obtain e where e: "epoch 28 100000000 = Inr e" "is_finite e" "dec_val e = 100"
    by (rule epoch_exact [of 100000000 28]) (auto simp: datetime_range_def)
  obtain m where m: "epoch 28 105000000 = Inr m" "is_finite m" "dec_val m = 105"
    by (rule epoch_exact [of 105000000 28]) (auto simp: datetime_range_def)
  have "fits 28 115" using fits_int [of 115 28 0] by simp
  then have v: "dec_val (dec_add 28 e (dec_of_int 15)) = 115" "dec_val (dec_sub 28 (Dec False 115 0) (dec_of_int 0)) = 115"
    using dec_add_exact [of e "dec_of_int 15" 28] dec_sub_exact [of "Dec False 115 0" "dec_of_int 0" 28] e by simp_all
  have "\<exists>x. RiskAccountSource ex_digest 28 ex_raw_source = Inr x \<and> as_earliest_component_at x = 100000000 \<and>
      as_assessed_at x = 101000000 \<and> as_age_limit x = 15 \<and> as_deadline_epoch x = Dec False 115 0 \<and>
      as_original_blockers x = [] \<and> as_model_version x = component_time_model"
    using e v(1) by (simp add: RiskAccountSource_def ex_raw_source_def source_checks_def hex_digest_def Let_def eval_nat_numeral)
  then show ?thesis using m v(2)
    by (auto simp: validate_at_def tightened_deadline_def Let_def)
qed

theorem source_never_stale_witness:
  "\<exists>x. RiskAccountSource ex_digest 28 ex_raw_source = Inr x \<and> validate_at 28 x (utc 105000000) 15 = Inr [] \<and>
     105000000 \<le> as_earliest_component_at x + seconds 15"
proof -
  obtain x where x: "RiskAccountSource ex_digest 28 ex_raw_source = Inr x" "as_earliest_component_at x = 100000000"
    "validate_at 28 x (utc 105000000) 15 = Inr []" using ex_source by blast
  have "datetime_range 105000000" "datetime_range (as_earliest_component_at x)"
    by (simp_all add: datetime_range_def x(2))
  then show ?thesis
    using source_never_stale [OF x(1), of 28 105000000 15 0] x by auto
qed

end
