(* ===== verification/Accounting.thy ===== *)
theory Accounting
  imports Account_Source
begin

text \<open>
  \<open>src/execution/accounting.py\<close>: account valuations, accounting events, history coverage and
  the performance evaluation over them. Every monetary value is a decimal, as the code's
  \<open>isinstance\<close> checks require; dataclass arguments that must be typed are typed here. The risk
  time zone comes from the time zone database, so the local date of an instant and the
  instant of a local midnight are arguments. \<open>valuation_from_component_time\<close> converts a broker
  proof and is not modelled here.
\<close>

section \<open>Values\<close>

definition MODEL_VERSION :: string where "MODEL_VERSION = ''account-performance-v1''"
definition ATOMIC_TIME_MODEL :: string where "ATOMIC_TIME_MODEL = ''authoritative-account-v1''"

definition accounting_at :: "pydatetime option \<Rightarrow> instant result" where
  "accounting_at v = (case v of Some (Aware t _) \<Rightarrow> Inr t
     | _ \<Rightarrow> Inl (AccountingEvidenceError ''timezone_aware_accounting_time_required''))"

definition accounting_decimal :: "decimal \<Rightarrow> decimal result" where
  "accounting_decimal d =
     raiseIf (\<not> is_finite d) (AccountingEvidenceError ''finite_decimal_accounting_value_required'') (Inr d)"

definition accounting_identity :: "string \<Rightarrow> string result" where
  "accounting_identity s = raiseIf (blank s) (AccountingEvidenceError ''accounting_evidence_identity_required'') (Inr s)"

text \<open>The sum with a context wide enough for every digit of every summand.\<close>

definition sum_precision :: "decimal list \<Rightarrow> int" where
  "sum_precision values =
     Max (set (map adjusted values)) - Min (set (map dec_exp values)) + int (ndigits (length values)) + 3"

definition accounting_sum :: "decimal list \<Rightarrow> decimal" where
  "accounting_sum values = (if values = [] then dec0 else dec_sum (nat (max 50 (sum_precision values))) values)"

section \<open>Event kinds\<close>

datatype event_kind = DEPOSIT | WITHDRAWAL | RESET | DIVIDEND | FEE | FINANCING | CURRENCY_CONVERSION | PURCHASE | SALE

fun event_kind_str :: "event_kind \<Rightarrow> string" where
  "event_kind_str DEPOSIT = ''deposit''"
| "event_kind_str WITHDRAWAL = ''withdrawal''"
| "event_kind_str RESET = ''reset''"
| "event_kind_str DIVIDEND = ''dividend''"
| "event_kind_str FEE = ''fee''"
| "event_kind_str FINANCING = ''financing''"
| "event_kind_str CURRENCY_CONVERSION = ''currency_conversion''"
| "event_kind_str PURCHASE = ''purchase''"
| "event_kind_str SALE = ''sale''"

definition required_event_kinds :: "event_kind list" where
  "required_event_kinds = [DEPOSIT, WITHDRAWAL, RESET, DIVIDEND, FEE, FINANCING, CURRENCY_CONVERSION, PURCHASE, SALE]"

definition event_kind_of :: "string \<Rightarrow> event_kind result" where
  "event_kind_of s = enum_of event_kind_str required_event_kinds s"

section \<open>Valuations\<close>

record account_valuation =
  av_account_id :: string
  av_snapshot_id :: string
  av_currency :: string
  av_cash :: decimal
  av_invested_amount :: decimal
  av_unrealised_pnl :: decimal
  av_equity :: decimal
  av_broker_margin :: decimal
  av_gross_exposure :: decimal
  av_reconciliation_reference :: string
  av_time_evidence_hash :: string
  av_valuation_at :: "instant option"
  av_component_start_at :: "instant option"
  av_component_end_at :: "instant option"
  av_time_model :: string

text \<open>The three clock arguments, before they are normalised, are given apart.\<close>

definition valuation_amounts :: "account_valuation \<Rightarrow> decimal list" where
  "valuation_amounts v = [av_cash v, av_invested_amount v, av_unrealised_pnl v, av_equity v, av_broker_margin v, av_gross_exposure v]"

definition AccountValuation ::
  "account_valuation \<Rightarrow> pydatetime option \<Rightarrow> pydatetime option \<Rightarrow> pydatetime option \<Rightarrow> account_valuation result" where
  "AccountValuation v valuation_at start_at end_at =
     bindR (mapR accounting_identity [av_account_id v, av_snapshot_id v, av_reconciliation_reference v, av_time_evidence_hash v]) (\<lambda>_.
     raiseIf (av_currency v \<noteq> ''USD'') (AccountingEvidenceError ''unsupported_account_currency'') (
     bindR (mapR accounting_decimal (valuation_amounts v)) (\<lambda>_.
     raiseIf (dec_le (av_equity v) dec0 \<or>
              list_ex (\<lambda>d. dec_lt d dec0) [av_cash v, av_invested_amount v, av_broker_margin v, av_gross_exposure v])
       (AccountingEvidenceError ''invalid_account_valuation'') (
     raiseIf (\<not> dec_eq (av_equity v) (accounting_sum [av_cash v, av_invested_amount v, av_unrealised_pnl v]))
       (AccountingEvidenceError ''equity_cash_invested_unrealised_identity_failed'') (
     if av_time_model v = ATOMIC_TIME_MODEL then
       bindR (accounting_at valuation_at) (\<lambda>t.
       raiseIf (start_at \<noteq> None \<or> end_at \<noteq> None)
         (AccountingEvidenceError ''atomic_and_component_clocks_must_not_be_mixed'') (
       Inr (v\<lparr>av_valuation_at := Some t, av_component_start_at := None, av_component_end_at := None\<rparr>)))
     else if av_time_model v = component_time_model then
       raiseIf (valuation_at \<noteq> None) (AccountingEvidenceError ''component_time_cannot_claim_atomic_account_time'') (
       bindR (accounting_at start_at) (\<lambda>t0.
       bindR (accounting_at end_at) (\<lambda>t1.
       raiseIf (t0 > t1) (AccountingEvidenceError ''component_clock_order_invalid'') (
       Inr (v\<lparr>av_valuation_at := None, av_component_start_at := Some t0, av_component_end_at := Some t1\<rparr>)))))
     else Inl (AccountingEvidenceError ''unsupported_valuation_time_model''))))))"

text \<open>A constructed valuation has the clocks of its model, so the properties never see \<open>None\<close>.\<close>

definition coverage_at :: "account_valuation \<Rightarrow> instant" where
  "coverage_at v = (case av_valuation_at v of Some t \<Rightarrow> t
     | None \<Rightarrow> (case av_component_end_at v of Some t \<Rightarrow> t | None \<Rightarrow> 0))"

definition freshness_at :: "account_valuation \<Rightarrow> instant" where
  "freshness_at v = (case av_valuation_at v of Some t \<Rightarrow> t
     | None \<Rightarrow> (case av_component_start_at v of Some t \<Rightarrow> t | None \<Rightarrow> 0))"

text \<open>Dataclass equality compares decimals by value.\<close>

definition valuation_eq :: "account_valuation \<Rightarrow> account_valuation \<Rightarrow> bool" where
  "valuation_eq v w \<longleftrightarrow> list_all2 dec_eq (valuation_amounts v) (valuation_amounts w) \<and>
     av_account_id v = av_account_id w \<and> av_snapshot_id v = av_snapshot_id w \<and> av_currency v = av_currency w \<and>
     av_reconciliation_reference v = av_reconciliation_reference w \<and> av_time_evidence_hash v = av_time_evidence_hash w \<and>
     av_valuation_at v = av_valuation_at w \<and> av_component_start_at v = av_component_start_at w \<and>
     av_component_end_at v = av_component_end_at w \<and> av_time_model v = av_time_model w"

section \<open>Events and history\<close>

record accounting_event =
  ev_event_id :: string
  ev_kind :: event_kind
  ev_occurred_at :: instant
  ev_amount :: decimal
  ev_currency :: string
  ev_source_reference :: string
  ev_pre_flow_valuation :: "account_valuation option"
  ev_original_amount :: "decimal option"
  ev_original_currency :: "string option"
  ev_conversion_rate :: "decimal option"

text \<open>The kind is converted from its text and the time is normalised; both are given apart.\<close>

definition event_foreign_checks :: "accounting_event \<Rightarrow> accounting_event result" where
  "event_foreign_checks e =
     (case (ev_original_amount e, ev_original_currency e, ev_conversion_rate e) of
        (None, None, None) \<Rightarrow>
          raiseIf (ev_kind e = CURRENCY_CONVERSION)
            (AccountingEvidenceError ''currency_conversion_evidence_required'') (Inr e)
      | (Some original, Some currency, Some rate) \<Rightarrow>
          bindR (accounting_decimal original) (\<lambda>_.
          bindR (accounting_decimal rate) (\<lambda>_.
          bindR (accounting_identity currency) (\<lambda>_.
          raiseIf (dec_le rate dec0) (AccountingEvidenceError ''positive_conversion_rate_required'') (Inr e))))
      | _ \<Rightarrow> Inl (AccountingEvidenceError ''complete_currency_conversion_evidence_required''))"

definition AccountingEvent :: "accounting_event \<Rightarrow> string \<Rightarrow> pydatetime \<Rightarrow> accounting_event result" where
  "AccountingEvent e kind occurred_at =
     bindR (accounting_identity (ev_event_id e)) (\<lambda>_.
     bindR (accounting_identity (ev_source_reference e)) (\<lambda>_.
     bindR (event_kind_of kind) (\<lambda>k.
     bindR (accounting_at (Some occurred_at)) (\<lambda>t.
     bindR (accounting_decimal (ev_amount e)) (\<lambda>amount.
     raiseIf (ev_currency e \<noteq> ''USD'') (AccountingEvidenceError ''event_account_currency_required'') (
     raiseIf (k = DEPOSIT \<and> dec_le amount dec0) (AccountingEvidenceError ''deposit_sign_invalid'') (
     raiseIf (k = WITHDRAWAL \<and> dec_le dec0 amount) (AccountingEvidenceError ''withdrawal_sign_invalid'') (
     raiseIf (ev_pre_flow_valuation e \<noteq> None \<and> k \<notin> {DEPOSIT, WITHDRAWAL})
       (AccountingEvidenceError ''preflow_valuation_only_for_external_flows'') (
     event_foreign_checks (e\<lparr>ev_kind := k, ev_occurred_at := t\<rparr>))))))))))"

definition external_amount :: "accounting_event \<Rightarrow> decimal" where
  "external_amount e = (if ev_kind e \<in> {DEPOSIT, WITHDRAWAL} then ev_amount e else dec0)"

record history_coverage =
  hc_account_id :: string
  hc_currency :: string
  hc_start_at :: instant
  hc_end_at :: instant
  hc_start_cursor :: string
  hc_end_cursor :: string
  hc_source_reference :: string
  hc_source_contract :: string
  hc_raw_evidence_hash :: string
  hc_events :: "accounting_event list"
  hc_covered_kinds :: "event_kind list"
  hc_complete :: bool
  hc_broker_history_verified :: bool
  hc_valuation_path_complete :: bool

definition HistoryCoverage :: "history_coverage \<Rightarrow> pydatetime \<Rightarrow> pydatetime \<Rightarrow> history_coverage result" where
  "HistoryCoverage h start_at end_at =
     bindR (mapR accounting_identity [hc_account_id h, hc_start_cursor h, hc_end_cursor h, hc_source_reference h,
              hc_source_contract h, hc_raw_evidence_hash h]) (\<lambda>_.
     bindR (accounting_at (Some start_at)) (\<lambda>t0.
     bindR (accounting_at (Some end_at)) (\<lambda>t1.
     raiseIf (t1 \<le> t0 \<or> hc_currency h \<noteq> ''USD'') (AccountingEvidenceError ''invalid_history_interval_or_currency'') (
     raiseIf (\<not> distinct (map ev_event_id (hc_events h))) (AccountingEvidenceError ''duplicate_accounting_event'') (
     raiseIf (list_ex (\<lambda>e. \<not> (t0 < ev_occurred_at e \<and> ev_occurred_at e \<le> t1)) (hc_events h))
       (AccountingEvidenceError ''accounting_event_outside_history_interval'') (
     raiseIf (list_ex (\<lambda>e. ev_currency e \<noteq> hc_currency h \<or> ev_kind e \<notin> set (hc_covered_kinds h)) (hc_events h))
       (AccountingEvidenceError ''event_outside_currency_or_category_coverage'') (
     Inr (h\<lparr>hc_start_at := t0, hc_end_at := t1\<rparr>))))))))"

section \<open>Performance evidence\<close>

record performance_evidence =
  pe_current_snapshot_id :: string
  pe_account_id :: string
  pe_currency :: string
  pe_risk_day :: string
  pe_risk_timezone :: string
  pe_coverage_start_at :: "instant option"
  pe_coverage_end_at :: instant
  pe_daily_pnl :: "decimal option"
  pe_daily_loss_denominator :: "decimal option"
  pe_daily_loss_fraction :: "decimal option"
  pe_equity_index :: "decimal option"
  pe_peak_equity_index :: "decimal option"
  pe_drawdown_fraction :: "decimal option"
  pe_history_complete :: bool
  pe_qualified :: bool
  pe_reasons :: "string list"
  pe_current_valuation :: "account_valuation option"
  pe_model_version :: string
  pe_evidence_hash :: string
  pe_projection_hash :: string

definition jtime_opt :: "instant option \<Rightarrow> json" where
  "jtime_opt t = (case t of None \<Rightarrow> JNull | Some x \<Rightarrow> JTime x)"

definition valuation_json :: "account_valuation \<Rightarrow> json" where
  "valuation_json v = JObj
     [(''account_id'', JStr (av_account_id v)), (''snapshot_id'', JStr (av_snapshot_id v)),
      (''currency'', JStr (av_currency v)), (''cash'', jdec (av_cash v)),
      (''invested_amount'', jdec (av_invested_amount v)), (''unrealised_pnl'', jdec (av_unrealised_pnl v)),
      (''equity'', jdec (av_equity v)), (''broker_margin'', jdec (av_broker_margin v)),
      (''gross_exposure'', jdec (av_gross_exposure v)),
      (''reconciliation_reference'', JStr (av_reconciliation_reference v)),
      (''time_evidence_hash'', JStr (av_time_evidence_hash v)),
      (''valuation_at'', jtime_opt (av_valuation_at v)),
      (''component_start_at'', jtime_opt (av_component_start_at v)),
      (''component_end_at'', jtime_opt (av_component_end_at v)),
      (''time_model'', JStr (av_time_model v))]"

definition valuation_json_opt :: "account_valuation option \<Rightarrow> json" where
  "valuation_json_opt v = (case v of None \<Rightarrow> JNull | Some x \<Rightarrow> valuation_json x)"

text \<open>The fields that \<open>evaluate_performance\<close> collects in \<open>result_fields\<close>.\<close>

definition performance_fields :: "performance_evidence \<Rightarrow> (string \<times> json) list" where
  "performance_fields e =
     [(''current_snapshot_id'', JStr (pe_current_snapshot_id e)), (''account_id'', JStr (pe_account_id e)),
      (''currency'', JStr (pe_currency e)), (''risk_day'', JStr (pe_risk_day e)),
      (''risk_timezone'', JStr (pe_risk_timezone e)), (''coverage_start_at'', jtime_opt (pe_coverage_start_at e)),
      (''coverage_end_at'', JTime (pe_coverage_end_at e)), (''daily_pnl'', jdec_opt (pe_daily_pnl e)),
      (''daily_loss_denominator'', jdec_opt (pe_daily_loss_denominator e)),
      (''daily_loss_fraction'', jdec_opt (pe_daily_loss_fraction e)),
      (''equity_index'', jdec_opt (pe_equity_index e)), (''peak_equity_index'', jdec_opt (pe_peak_equity_index e)),
      (''drawdown_fraction'', jdec_opt (pe_drawdown_fraction e)),
      (''history_complete'', JBool (pe_history_complete e)), (''qualified'', JBool (pe_qualified e)),
      (''reasons'', JArr (map JStr (pe_reasons e))),
      (''current_valuation'', valuation_json_opt (pe_current_valuation e)),
      (''model_version'', JStr (pe_model_version e))]"

definition projection_digest :: "digest \<Rightarrow> performance_evidence \<Rightarrow> string" where
  "projection_digest H e = payload_hash H (JObj (performance_fields e @ [(''evidence_hash'', JStr (pe_evidence_hash e))]))"

definition PerformanceEvidence :: "digest \<Rightarrow> performance_evidence \<Rightarrow> performance_evidence result" where
  "PerformanceEvidence H e =
     (let d = projection_digest H e in
      raiseIf (pe_projection_hash e \<noteq> [] \<and> pe_projection_hash e \<noteq> d)
        (AccountingEvidenceError ''performance_projection_digest_mismatch'') (
      Inr (e\<lparr>pe_projection_hash := d\<rparr>)))"

definition projection_valid :: "digest \<Rightarrow> performance_evidence \<Rightarrow> bool" where
  "projection_valid H e \<longleftrightarrow> pe_projection_hash e = projection_digest H e"

section \<open>The flow-unitised path\<close>

definition dec_of_rat :: "nat \<Rightarrow> rat \<Rightarrow> decimal result" where
  "dec_of_rat p x = (case quotient_of x of (n, d) \<Rightarrow> dec_div p (dec_of_int n) (dec_of_int d))"

text \<open>
  The checks on the external flows, in their order of time: \<open>Inr None\<close> lets the path be
  computed, \<open>Inr (Some reason)\<close> leaves it unknown.
\<close>

fun check_flows :: "account_valuation \<Rightarrow> accounting_event list \<Rightarrow> string option result" where
  "check_flows opening [] = Inr None"
| "check_flows opening (flow # flows) =
     (case ev_pre_flow_valuation flow of
        None \<Rightarrow> Inr (Some ''external_flow_immediate_preflow_valuation_missing'')
      | Some v \<Rightarrow>
          if av_valuation_at v \<noteq> Some (ev_occurred_at flow)
          then Inr (Some ''external_flow_immediate_preflow_valuation_missing'')
          else raiseIf (av_account_id v \<noteq> av_account_id opening \<or> av_currency v \<noteq> av_currency opening)
            (AccountingEvidenceError ''preflow_valuation_identity_mismatch'') (
          if dec_le (accounting_sum [av_equity v, external_amount flow]) dec0
          then Inr (Some ''external_flow_exhausts_unitised_equity'')
          else check_flows opening flows))"

text \<open>The equity before a flow; \<open>check_flows\<close> has made sure that it is there.\<close>

definition pre_flow_equity :: "accounting_event \<Rightarrow> rat" where
  "pre_flow_equity flow = (case ev_pre_flow_valuation flow of Some v \<Rightarrow> dec_val (av_equity v) | None \<Rightarrow> 0)"

text \<open>Units and peak after the flows up to a moment, and the flows still to come.\<close>

fun apply_flows :: "instant \<Rightarrow> rat \<Rightarrow> rat \<Rightarrow> accounting_event list \<Rightarrow> rat \<times> rat \<times> accounting_event list" where
  "apply_flows t units peak [] = (units, peak, [])"
| "apply_flows t units peak (flow # flows) =
     (if ev_occurred_at flow \<le> t
      then let before_index = pre_flow_equity flow / units
           in apply_flows t (units + dec_val (external_amount flow) / before_index) (max peak before_index) flows
      else (units, peak, flow # flows))"

fun walk_path :: "rat \<Rightarrow> rat \<Rightarrow> rat \<Rightarrow> accounting_event list \<Rightarrow> account_valuation list \<Rightarrow> rat \<times> rat" where
  "walk_path units peak index flows [] = (index, peak)"
| "walk_path units peak index flows (v # path) =
     (case apply_flows (coverage_at v) units peak flows of (units', peak', flows') \<Rightarrow>
        let index' = dec_val (av_equity v) / units'
        in walk_path units' (max peak' index') index' flows' path)"

definition unitised_path ::
  "account_valuation \<Rightarrow> account_valuation list \<Rightarrow> history_coverage \<Rightarrow>
   (decimal option \<times> decimal option \<times> decimal option \<times> string list) result" where
  "unitised_path opening path history =
     (let flows = sort_key ev_occurred_at (filter (\<lambda>e. \<not> dec_eq (external_amount e) dec0) (hc_events history)) in
      if \<not> distinct (map ev_occurred_at flows)
      then Inr (None, None, None, [''same_time_external_flow_order_unproven''])
      else bindR (check_flows opening flows) (\<lambda>problem.
        case problem of
          Some reason \<Rightarrow> Inr (None, None, None, [reason])
        | None \<Rightarrow>
            let reasons = (if hc_valuation_path_complete history then [] else [''complete_valuation_path_not_proven'']);
                (index, peak) = walk_path (dec_val (av_equity opening)) 1 1 flows path;
                observed_drawdown = max 0 (1 - index / peak)
            in bindR (dec_of_rat 50 index) (\<lambda>decimal_index.
               bindR (dec_of_rat 50 peak) (\<lambda>decimal_peak.
               bindR (dec_of_rat 50 observed_drawdown) (\<lambda>decimal_drawdown.
               Inr (Some decimal_index, Some decimal_peak,
                    if reasons \<noteq> [] then None else Some decimal_drawdown, reasons))))))"

section \<open>Evaluation\<close>

text \<open>The risk time zone: the local day of an instant and the instant at which a local day begins.\<close>

record risk_zone =
  rz_local_day :: "instant \<Rightarrow> int"
  rz_day_start :: "int \<Rightarrow> instant"

definition date_text :: "int \<Rightarrow> string" where
  "date_text day = (case civil_from_days day of (y, m, d) \<Rightarrow>
     pad_nat 4 (nat y) @ ''-'' @ pad_nat 2 (nat m) @ ''-'' @ pad_nat 2 (nat d))"

definition event_json :: "accounting_event \<Rightarrow> json" where
  "event_json e = JObj
     [(''event_id'', JStr (ev_event_id e)), (''kind'', JStr (event_kind_str (ev_kind e))),
      (''occurred_at'', JTime (ev_occurred_at e)), (''amount'', jdec (ev_amount e)),
      (''currency'', JStr (ev_currency e)), (''source_reference'', JStr (ev_source_reference e)),
      (''pre_flow_valuation'', valuation_json_opt (ev_pre_flow_valuation e)),
      (''original_amount'', jdec_opt (ev_original_amount e)),
      (''original_currency'', (case ev_original_currency e of None \<Rightarrow> JNull | Some c \<Rightarrow> JStr c)),
      (''conversion_rate'', jdec_opt (ev_conversion_rate e))]"

definition history_payload :: "history_coverage option \<Rightarrow> json" where
  "history_payload history = (case history of
     None \<Rightarrow> JNull
   | Some h \<Rightarrow> JObj
       [(''account_id'', JStr (hc_account_id h)), (''currency'', JStr (hc_currency h)),
        (''start_at'', JTime (hc_start_at h)), (''end_at'', JTime (hc_end_at h)),
        (''start_cursor'', JStr (hc_start_cursor h)), (''end_cursor'', JStr (hc_end_cursor h)),
        (''source_reference'', JStr (hc_source_reference h)), (''source_contract'', JStr (hc_source_contract h)),
        (''raw_evidence_hash'', JStr (hc_raw_evidence_hash h)),
        (''events'', JArr (map event_json (sort_key (\<lambda>e. (ev_occurred_at e, ev_event_id e)) (hc_events h)))),
        (''covered_kinds'', JArr (map JStr (sort (remdups (map event_kind_str (hc_covered_kinds h)))))),
        (''complete'', JBool (hc_complete h)), (''broker_history_verified'', JBool (hc_broker_history_verified h)),
        (''valuation_path_complete'', JBool (hc_valuation_path_complete h))])"

fun strictly_increasing :: "instant list \<Rightarrow> bool" where
  "strictly_increasing (x # y # ys) = (x < y \<and> strictly_increasing (y # ys))"
| "strictly_increasing _ = True"

definition valuation_path ::
  "account_valuation option \<Rightarrow> account_valuation \<Rightarrow> account_valuation list \<Rightarrow> account_valuation list" where
  "valuation_path opening current observations =
     (let path = sort_key coverage_at (observations @ [current]) in
      case opening of None \<Rightarrow> path | Some o' \<Rightarrow> o' # filter (\<lambda>v. \<not> valuation_eq v o') path)"

text \<open>The checks that raise, in their order.\<close>

definition path_checks ::
  "account_valuation \<Rightarrow> account_valuation list \<Rightarrow> account_valuation list \<Rightarrow> unit result" where
  "path_checks current observations path =
     raiseIf (list_ex (\<lambda>v. coverage_at v \<ge> coverage_at current) observations)
       (AccountingEvidenceError ''historical_valuation_outside_current_interval'') (
     raiseIf (\<not> distinct (map av_snapshot_id path) \<or> \<not> distinct (map coverage_at path))
       (AccountingEvidenceError ''duplicate_or_ambiguous_valuation_path'') (
     raiseIf (list_ex (\<lambda>v. av_account_id v \<noteq> av_account_id current \<or> av_currency v \<noteq> av_currency current) path)
       (AccountingEvidenceError ''valuation_account_or_currency_mismatch'') (
     raiseIf (\<not> strictly_increasing (map coverage_at path))
       (AccountingEvidenceError ''valuation_path_not_strictly_increasing'') (
     Inr ()))))"

definition history_complete :: "account_valuation option \<Rightarrow> account_valuation \<Rightarrow> history_coverage \<Rightarrow> bool" where
  "history_complete opening current h \<longleftrightarrow> hc_complete h \<and> hc_broker_history_verified h \<and>
     set (hc_covered_kinds h) = set required_event_kinds \<and>
     (case opening of None \<Rightarrow> False | Some o' \<Rightarrow> hc_start_at h = coverage_at o') \<and>
     hc_end_at h = coverage_at current"

text \<open>The daily profit and loss, its denominator and the daily loss fraction.\<close>

definition daily_performance ::
  "account_valuation \<Rightarrow> account_valuation \<Rightarrow> accounting_event list \<Rightarrow> instant \<Rightarrow> (decimal \<times> decimal \<times> decimal) result" where
  "daily_performance current day_open events boundary =
     (let flows = accounting_sum (map external_amount (filter (\<lambda>e. ev_occurred_at e > boundary) events));
          daily = accounting_sum [av_equity current, dec_copy_negate (av_equity day_open), dec_copy_negate flows]
      in bindR (dec_div 50 (dec_neg 50 daily) (av_equity day_open)) (\<lambda>ratio.
         Inr (daily, av_equity day_open, dec_max dec0 ratio)))"

text \<open>The parts of \<open>evaluate_performance\<close>: what it decides about age, history, flow order and the two metrics.\<close>

definition current_stale :: "account_valuation \<Rightarrow> instant \<Rightarrow> int \<Rightarrow> bool" where
  "current_stale current moment max_age_seconds \<longleftrightarrow>
     min (moment - freshness_at current) (moment - coverage_at current) < 0 \<or>
     max (moment - freshness_at current) (moment - coverage_at current) > seconds max_age_seconds"

definition history_status ::
  "account_valuation option \<Rightarrow> account_valuation \<Rightarrow> history_coverage option \<Rightarrow> (bool \<times> string list) result" where
  "history_status opening current history =
     (case history of None \<Rightarrow> Inr (False, [])
      | Some h \<Rightarrow>
          raiseIf (hc_account_id h \<noteq> av_account_id current \<or> hc_currency h \<noteq> av_currency current)
            (AccountingEvidenceError ''history_account_or_currency_mismatch'') (
          let complete = history_complete opening current h;
              reset = list_ex (\<lambda>e. ev_kind e = RESET) (hc_events h)
          in Inr (complete \<and> \<not> reset,
               (if complete then [] else [''complete_verified_all_category_history_required'']) @
               (if reset then [''account_reset_breaks_continuity''] else []))))"

definition history_events :: "history_coverage option \<Rightarrow> accounting_event list" where
  "history_events history = (case history of None \<Rightarrow> [] | Some h \<Rightarrow> hc_events h)"

definition flow_order_unknown :: "account_valuation list \<Rightarrow> accounting_event list \<Rightarrow> bool" where
  "flow_order_unknown path events \<longleftrightarrow>
     list_ex (\<lambda>e. \<not> dec_eq (external_amount e) dec0 \<and> ev_occurred_at e \<in> set (map coverage_at path)) events"

definition daily_metrics ::
  "bool \<Rightarrow> account_valuation \<Rightarrow> account_valuation option \<Rightarrow> accounting_event list \<Rightarrow> instant \<Rightarrow>
   (decimal option \<times> decimal option \<times> decimal option) result" where
  "daily_metrics usable current day_open events boundary =
     (case day_open of
        Some d \<Rightarrow> if usable
          then bindR (daily_performance current d events boundary) (\<lambda>(daily, denominator, loss).
               Inr (Some daily, Some denominator, Some loss))
          else Inr (None, None, None)
      | None \<Rightarrow> Inr (None, None, None))"

definition drawdown_metrics ::
  "bool \<Rightarrow> account_valuation option \<Rightarrow> account_valuation list \<Rightarrow> history_coverage option \<Rightarrow>
   (decimal option \<times> decimal option \<times> decimal option \<times> string list) result" where
  "drawdown_metrics usable opening path history =
     (case (opening, history) of
        (Some o', Some h) \<Rightarrow> if usable then unitised_path o' (tl path) h else Inr (None, None, None, [])
      | _ \<Rightarrow> Inr (None, None, None, []))"

definition evaluate_performance ::
  "digest \<Rightarrow> risk_zone \<Rightarrow> account_valuation option \<Rightarrow> account_valuation \<Rightarrow> history_coverage option \<Rightarrow>
   account_valuation list \<Rightarrow> pydatetime \<Rightarrow> int \<Rightarrow> string \<Rightarrow> performance_evidence result" where
  "evaluate_performance H zone opening current history observations now max_age_seconds risk_timezone =
     raiseIf (risk_timezone \<noteq> ''Europe/London'' \<or> \<not> (0 < max_age_seconds \<and> max_age_seconds \<le> 15))
       (AccountingEvidenceError ''unsupported_risk_day_or_freshness_window'') (
     bindR (accounting_at (Some now)) (\<lambda>moment.
     let risk_day = rz_local_day zone (coverage_at current);
         boundary = rz_day_start zone risk_day;
         path = valuation_path opening current observations
     in bindR (path_checks current observations path) (\<lambda>_.
        bindR (history_status opening current history) (\<lambda>(complete, history_reasons).
        let day_open = List.find (\<lambda>v. av_valuation_at v = Some boundary) path;
            unknown = flow_order_unknown path (history_events history)
        in bindR (daily_metrics (complete \<and> \<not> unknown) current day_open (history_events history) boundary)
             (\<lambda>(daily, denominator, daily_loss).
           bindR (drawdown_metrics (complete \<and> \<not> unknown) opening path history)
             (\<lambda>(index, peak, drawdown, drawdown_reasons).
           let reasons =
                 (if current_stale current moment max_age_seconds then [''current_valuation_stale_or_future''] else []) @
                 (if opening = None then [''immutable_opening_valuation_missing''] else []) @
                 (if history = None then [''account_history_missing''] else []) @
                 history_reasons @
                 (if day_open = None then [''exact_risk_day_boundary_valuation_missing''] else []) @
                 (if unknown then [''external_flow_valuation_order_unproven''] else []) @
                 drawdown_reasons;
               fields = \<lparr>pe_current_snapshot_id = av_snapshot_id current, pe_account_id = av_account_id current,
                 pe_currency = av_currency current, pe_risk_day = date_text risk_day, pe_risk_timezone = risk_timezone,
                 pe_coverage_start_at = map_option coverage_at opening, pe_coverage_end_at = coverage_at current,
                 pe_daily_pnl = daily, pe_daily_loss_denominator = denominator, pe_daily_loss_fraction = daily_loss,
                 pe_equity_index = index, pe_peak_equity_index = peak, pe_drawdown_fraction = drawdown,
                 pe_history_complete = complete, pe_qualified = (reasons = []), pe_reasons = reasons,
                 pe_current_valuation = Some current, pe_model_version = MODEL_VERSION,
                 pe_evidence_hash = [], pe_projection_hash = []\<rparr>
           in PerformanceEvidence H (fields\<lparr>pe_evidence_hash := payload_hash H (JObj
                [(''result'', JObj (performance_fields fields)), (''opening'', valuation_json_opt opening),
                 (''current'', valuation_json current), (''history'', history_payload history),
                 (''observations'', JArr (map valuation_json observations))])\<rparr>)))))))"

section \<open>Sums are exact\<close>

lemma accounting_sum_val:
  assumes "\<forall>x\<in>set values. is_finite x"
  shows "is_finite (accounting_sum values)" and "dec_val (accounting_sum values) = sum_list (map dec_val values)"
proof -
  show "is_finite (accounting_sum values)" using assms by (simp add: accounting_sum_def)
  show "dec_val (accounting_sum values) = sum_list (map dec_val values)"
  proof (cases "values = []")
    case False
    define M where "M = Max (set (map adjusted values))"
    define m where "m = Min (set (map dec_exp values))"
    define n where "n = M + 1 + int (ndigits (length values))"
    let ?p = "nat (max 50 (sum_precision values))"
    have each: "is_finite x \<and> on_grid m (dec_val x) \<and> \<bar>dec_val x\<bar> \<le> 10 powi (M + 1)" if x: "x \<in> set values" for x
    proof -
      have "m \<le> dec_exp x" "adjusted x \<le> M" using x by (simp_all add: m_def M_def)
      moreover from this have "(10 :: rat) powi (adjusted x + 1) \<le> 10 powi (M + 1)" by (intro power_int_increasing) simp_all
      ultimately show ?thesis using assms x adjusted_bound [of x] on_grid_dec [of x m] by fastforce
    qed
    have "of_nat (length values) * 10 powi (M + 1) < (10 powi n :: rat)"
    proof -
      have "(of_nat (length values) :: rat) < of_nat (10 ^ ndigits (length values))"
        using ndigits_upper by (simp only: of_nat_less_iff)
      then have "of_nat (length values) * 10 powi (M + 1) < (10 ^ ndigits (length values) * 10 powi (M + 1) :: rat)" by simp
      then show ?thesis by (simp add: n_def power_int_add mult_ac)
    qed
    moreover have "n - m \<le> int ?p"
    proof -
      have "sum_precision values = n - m + 2" unfolding n_def M_def m_def sum_precision_def by simp
      then show ?thesis by linarith
    qed
    ultimately have "dec_val (foldl (dec_add ?p) dec0 values) = dec_val dec0 + sum_list (map dec_val values)"
      using each by (intro foldl_add_exact [of "values" m "10 powi (M + 1)" dec0 n]) (auto simp: on_grid_def intro: exI [of _ 0])
    then show ?thesis using False by (simp add: accounting_sum_def dec_sum_def)
  qed (simp add: accounting_sum_def)
qed

section \<open>Valuations\<close>

lemma mapR_accounting_decimal: "mapR accounting_decimal ds = Inr x \<longleftrightarrow> x = ds \<and> (\<forall>d\<in>set ds. is_finite d)"
  by (induction ds arbitrary: x) (auto simp: accounting_decimal_def)

definition valuation_ok :: "account_valuation \<Rightarrow> bool" where
  "valuation_ok v \<longleftrightarrow> (\<forall>d\<in>set (valuation_amounts v). is_finite d) \<and> av_currency v = ''USD'' \<and>
     0 < dec_val (av_equity v) \<and> 0 \<le> dec_val (av_cash v) \<and> 0 \<le> dec_val (av_invested_amount v) \<and>
     0 \<le> dec_val (av_broker_margin v) \<and> 0 \<le> dec_val (av_gross_exposure v) \<and>
     dec_val (av_equity v) = dec_val (av_cash v) + dec_val (av_invested_amount v) + dec_val (av_unrealised_pnl v) \<and>
     (av_time_model v = ATOMIC_TIME_MODEL \<and> av_valuation_at v \<noteq> None \<and> av_component_start_at v = None \<and>
        av_component_end_at v = None \<or>
      av_time_model v = component_time_model \<and> av_valuation_at v = None \<and>
        (\<exists>t0 t1. av_component_start_at v = Some t0 \<and> av_component_end_at v = Some t1 \<and> t0 \<le> t1))"

lemma AccountValuation_ok:
  assumes "AccountValuation v a b c = Inr w"
  shows "valuation_ok w"
proof -
  have fin: "\<forall>d\<in>set (valuation_amounts v). is_finite d" and "av_currency v = ''USD''"
    and pos: "\<not> dec_le (av_equity v) dec0"
      "\<not> list_ex (\<lambda>d. dec_lt d dec0) [av_cash v, av_invested_amount v, av_broker_margin v, av_gross_exposure v]"
    and eq: "dec_eq (av_equity v) (accounting_sum [av_cash v, av_invested_amount v, av_unrealised_pnl v])"
    using assms by (auto simp: AccountValuation_def mapR_accounting_decimal simp del: dec_lt_iff_val)
  have f: "is_finite (av_cash v)" "is_finite (av_invested_amount v)" "is_finite (av_unrealised_pnl v)" "is_finite (av_equity v)"
    "is_finite (av_broker_margin v)" "is_finite (av_gross_exposure v)"
    using fin by (simp_all add: valuation_amounts_def)
  have "dec_val (av_equity v) = dec_val (av_cash v) + dec_val (av_invested_amount v) + dec_val (av_unrealised_pnl v)"
    using eq accounting_sum_val [of "[av_cash v, av_invested_amount v, av_unrealised_pnl v]"] f by simp
  moreover have "valuation_amounts w = valuation_amounts v" "av_currency w = av_currency v" "av_equity w = av_equity v"
    "av_cash w = av_cash v" "av_invested_amount w = av_invested_amount v" "av_unrealised_pnl w = av_unrealised_pnl v"
    "av_broker_margin w = av_broker_margin v" "av_gross_exposure w = av_gross_exposure v" "av_time_model w = av_time_model v"
    using assms by (auto simp: AccountValuation_def valuation_amounts_def split: if_splits)
  moreover have "av_time_model v = ATOMIC_TIME_MODEL \<and> av_valuation_at w \<noteq> None \<and> av_component_start_at w = None \<and>
        av_component_end_at w = None \<or>
      av_time_model v = component_time_model \<and> av_valuation_at w = None \<and>
        (\<exists>t0 t1. av_component_start_at w = Some t0 \<and> av_component_end_at w = Some t1 \<and> t0 \<le> t1)"
    using assms by (auto simp: AccountValuation_def split: if_splits)
  ultimately show ?thesis using fin pos f \<open>av_currency v = ''USD''\<close> unfolding valuation_ok_def by simp
qed

section \<open>The unitised path is a time-weighted return\<close>

definition event_ok :: "accounting_event \<Rightarrow> bool" where
  "event_ok e \<longleftrightarrow> is_finite (ev_amount e) \<and> (case ev_pre_flow_valuation e of None \<Rightarrow> True | Some v \<Rightarrow> valuation_ok v)"

lemma external_amount_finite: "event_ok e \<Longrightarrow> is_finite (external_amount e)"
  by (simp add: event_ok_def external_amount_def)

lemma valuation_ok_equity: "valuation_ok v \<Longrightarrow> is_finite (av_equity v) \<and> 0 < dec_val (av_equity v)"
  by (simp add: valuation_ok_def valuation_amounts_def)

lemma check_flows_None:
  assumes "check_flows opening flows = Inr None" and "list_all event_ok flows"
  shows "list_all (\<lambda>f. 0 < pre_flow_equity f \<and> 0 < pre_flow_equity f + dec_val (external_amount f)) flows"
  using assms
proof (induction flows)
  case (Cons f flows)
  obtain v where v: "ev_pre_flow_valuation f = Some v" "\<not> dec_le (accounting_sum [av_equity v, external_amount f]) dec0"
    "check_flows opening flows = Inr None"
    using Cons.prems(1) by (auto split: option.splits if_splits)
  have fin: "is_finite (external_amount f)" "is_finite (av_equity v)" "0 < dec_val (av_equity v)"
    using Cons.prems(2) v(1) external_amount_finite valuation_ok_equity [of v] by (auto simp: event_ok_def)
  then show ?case
    using v(2) accounting_sum_val [of "[av_equity v, external_amount f]"] Cons.IH [OF v(3)] Cons.prems(2)
    by (simp add: pre_flow_equity_def v(1))
qed simp

text \<open>
  The reference: every period from one flow or valuation to the next multiplies the index by
  the ratio of the equity at its end, before the next flow, to the equity at its start.
\<close>

fun twr_flows :: "instant \<Rightarrow> rat \<Rightarrow> rat \<Rightarrow> rat \<Rightarrow> accounting_event list \<Rightarrow> rat \<times> rat \<times> rat \<times> accounting_event list" where
  "twr_flows t base index peak [] = (base, index, peak, [])"
| "twr_flows t base index peak (flow # flows) =
     (if ev_occurred_at flow \<le> t
      then let index' = index * (pre_flow_equity flow / base)
           in twr_flows t (pre_flow_equity flow + dec_val (external_amount flow)) index' (max peak index') flows
      else (base, index, peak, flow # flows))"

fun twr_path :: "rat \<Rightarrow> rat \<Rightarrow> rat \<Rightarrow> accounting_event list \<Rightarrow> account_valuation list \<Rightarrow> rat \<times> rat" where
  "twr_path base index peak flows [] = (index, peak)"
| "twr_path base index peak flows (v # path) =
     (case twr_flows (coverage_at v) base index peak flows of (base', index', peak', flows') \<Rightarrow>
        let index'' = index' * (dec_val (av_equity v) / base')
        in twr_path (dec_val (av_equity v)) index'' (max peak' index'') flows' path)"

abbreviation flow_sound :: "accounting_event \<Rightarrow> bool" where
  "flow_sound f \<equiv> 0 < pre_flow_equity f \<and> 0 < pre_flow_equity f + dec_val (external_amount f)"

lemma flow_units:
  fixes units base index pre amount :: rat
  assumes "0 < units" and "0 < pre" and "units * index = base" and "0 < base"
  shows "pre / units = index * (pre / base)"
    and "(units + amount / (pre / units)) * (index * (pre / base)) = pre + amount"
proof -
  have "0 < index" using assms by (metis mult_pos_pos zero_less_mult_pos)
  then show "pre / units = index * (pre / base)" using assms by (simp add: field_simps flip: assms(3))
  then have eq: "index * (pre / base) = pre / units" by simp
  show "(units + amount / (pre / units)) * (index * (pre / base)) = pre + amount"
    unfolding eq using assms(1,2) by (simp add: field_simps)
qed

lemma apply_flows_twr:
  assumes "0 < units" and "units * index = base" and "0 < base" and "list_all flow_sound flows"
  obtains units' base' index' peak' flows' where "apply_flows t units peak flows = (units', peak', flows')"
    "twr_flows t base index peak flows = (base', index', peak', flows')"
    "0 < units'" "units' * index' = base'" "0 < base'" "list_all flow_sound flows'"
  using assms
proof (induction flows arbitrary: units base index peak thesis)
  case (Cons f flows)
  show ?case
  proof (cases "ev_occurred_at f \<le> t")
    case True
    have f: "0 < pre_flow_equity f" "0 < pre_flow_equity f + dec_val (external_amount f)" using Cons.prems(5) by simp_all
    note u = flow_units [OF Cons.prems(2) f(1) Cons.prems(3,4)]
    let ?units = "units + dec_val (external_amount f) / (pre_flow_equity f / units)"
    let ?index = "index * (pre_flow_equity f / base)"
    have "0 < ?index" using u(1) Cons.prems(2) f(1) by (metis divide_pos_pos)
    then have "0 < ?units" using u(2) [of "dec_val (external_amount f)"] f(2) by (metis zero_less_mult_pos2)
    then obtain units' base' index' peak' flows' where
        "apply_flows t ?units (max peak ?index) flows = (units', peak', flows')"
        "twr_flows t (pre_flow_equity f + dec_val (external_amount f)) ?index (max peak ?index) flows = (base', index', peak', flows')"
        "0 < units'" "units' * index' = base'" "0 < base'" "list_all flow_sound flows'"
      by (rule Cons.IH [of ?units "max peak ?index" "pre_flow_equity f + dec_val (external_amount f)" ?index, rotated])
        (use u(2) f(2) Cons.prems(5) in simp_all)
    then show ?thesis using True u(1) by (intro Cons.prems(1) [of units' peak' flows' base' index']) (simp_all add: Let_def)
  next
    case False
    then show ?thesis using Cons.prems by simp
  qed
qed simp

lemma walk_path_twr:
  assumes "0 < units" and "units * index = base" and "0 < base" and "list_all flow_sound flows"
    and "list_all valuation_ok path"
  shows "walk_path units peak index flows path = twr_path base index peak flows path"
  using assms
proof (induction path arbitrary: units index base flows peak)
  case (Cons v path)
  have v: "0 < dec_val (av_equity v)" using Cons.prems(5) valuation_ok_equity [of v] by simp
  obtain units' base' index' peak' flows' where s: "apply_flows (coverage_at v) units peak flows = (units', peak', flows')"
    "twr_flows (coverage_at v) base index peak flows = (base', index', peak', flows')"
    "0 < units'" "units' * index' = base'" "0 < base'" "list_all flow_sound flows'"
    by (rule apply_flows_twr [OF Cons.prems(1-4)])
  note u = flow_units(1) [OF s(3) v s(4,5)]
  have "units' * (dec_val (av_equity v) / units') = dec_val (av_equity v)" using s(3) by simp
  then show ?case
    using Cons.IH [OF s(3) _ v s(6)] Cons.prems(5) s(1,2) u by (simp add: Let_def)
qed simp

lemma twr_flows_pos:
  assumes "0 < base" and "0 < index" and "index \<le> peak" and "list_all flow_sound flows"
    and "twr_flows t base index peak flows = (base', index', peak', flows')"
  shows "0 < base' \<and> 0 < index' \<and> index' \<le> peak' \<and> list_all flow_sound flows'"
  using assms
proof (induction flows arbitrary: base index peak)
  case (Cons f flows)
  show ?case
  proof (cases "ev_occurred_at f \<le> t")
    case True
    show ?thesis
      by (rule Cons.IH [of "pre_flow_equity f + dec_val (external_amount f)" "index * (pre_flow_equity f / base)"
            "max peak (index * (pre_flow_equity f / base))"])
        (use True Cons.prems in \<open>simp_all add: Let_def\<close>)
  next
    case False
    then show ?thesis using Cons.prems by auto
  qed
qed simp

lemma twr_path_pos:
  assumes "0 < base" and "0 < index" and "index \<le> peak" and "list_all flow_sound flows" and "list_all valuation_ok path"
    and "twr_path base index peak flows path = (index', peak')"
  shows "0 < index' \<and> index' \<le> peak'"
  using assms
proof (induction path arbitrary: base index peak flows)
  case (Cons v path)
  obtain b i p fs where f: "twr_flows (coverage_at v) base index peak flows = (b, i, p, fs)" by (metis prod_cases4)
  have pos: "0 < b" "0 < i" "i \<le> p" "list_all flow_sound fs" using twr_flows_pos [OF Cons.prems(1-4) f] by simp_all
  have v: "0 < dec_val (av_equity v)" using Cons.prems(5) valuation_ok_equity [of v] by simp
  show ?case
    by (rule Cons.IH [of "dec_val (av_equity v)" "i * (dec_val (av_equity v) / b)" "max p (i * (dec_val (av_equity v) / b))" fs])
      (use v pos Cons.prems f in \<open>simp_all add: Let_def\<close>)
qed simp

lemma dec_of_rat_bounds:
  obtains d where "dec_of_rat 50 x = Inr d" "is_finite d"
    "\<And>y. fits 50 y \<Longrightarrow> x \<le> y \<Longrightarrow> dec_val d \<le> y" "\<And>y. fits 50 y \<Longrightarrow> y \<le> x \<Longrightarrow> y \<le> dec_val d"
proof -
  obtain n m where nm: "quotient_of x = (n, m)" by fastforce
  have "0 < m" by (rule quotient_of_denom_pos [OF nm])
  moreover have "x = of_int n / of_int m" by (rule quotient_of_div [OF nm])
  moreover obtain d where "dec_div 50 (dec_of_int n) (dec_of_int m) = Inr d" "is_finite d"
    "\<And>y. fits 50 y \<Longrightarrow> dec_val (dec_of_int n) / dec_val (dec_of_int m) \<le> y \<Longrightarrow> dec_val d \<le> y"
    "\<And>y. fits 50 y \<Longrightarrow> y \<le> dec_val (dec_of_int n) / dec_val (dec_of_int m) \<Longrightarrow> y \<le> dec_val d"
    by (rule dec_div_bounds [of "dec_of_int n" "dec_of_int m" 50]) (use calculation in simp_all)
  ultimately show ?thesis using that [of d] nm by (simp add: dec_of_rat_def)
qed

lemma fits_01 [simp]: "0 < p \<Longrightarrow> fits p 0" "0 < p \<Longrightarrow> fits p 1"
  using fits_int [of 0 p 0] fits_int [of 1 p 0] by simp_all

lemma unitised_path_drawdown:
  assumes "unitised_path opening path history = Inr (index, peak, Some dd, reasons)"
    and "valuation_ok opening" and "list_all valuation_ok path" and "list_all event_ok (hc_events history)"
  shows "is_finite dd \<and> 0 \<le> dec_val dd \<and> dec_val dd \<le> 1"
proof -
  let ?flows = "sort_key ev_occurred_at (filter (\<lambda>e. \<not> dec_eq (external_amount e) dec0) (hc_events history))"
  obtain i p where w: "walk_path (dec_val (av_equity opening)) 1 1 ?flows path = (i, p)" by fastforce
  have flows: "check_flows opening ?flows = Inr None" and dd: "dec_of_rat 50 (max 0 (1 - i / p)) = Inr dd"
    using assms(1) w by (auto simp: unitised_path_def Let_def split: if_splits option.splits)
  have sound: "list_all flow_sound ?flows"
    by (rule check_flows_None [OF flows]) (use assms(4) in \<open>auto simp: list_all_iff\<close>)
  have "0 < dec_val (av_equity opening)" using valuation_ok_equity [OF assms(2)] by simp
  then have "twr_path (dec_val (av_equity opening)) 1 1 ?flows path = (i, p)" "0 < dec_val (av_equity opening)"
    using walk_path_twr [of "dec_val (av_equity opening)" 1 "dec_val (av_equity opening)" ?flows path 1] sound assms(3) w
    by simp_all
  then have "0 < i" "i \<le> p" using twr_path_pos [of "dec_val (av_equity opening)" 1 1 ?flows path i p] sound assms(3) by simp_all
  then have "0 \<le> 1 - i / p" "1 - i / p \<le> 1" by (simp_all add: field_simps)
  then show ?thesis using dec_of_rat_bounds [of "max 0 (1 - i / p)"] dd fits_01 [of 50] by (metis Inr_inject max_absorb2 zero_less_numeral)
qed

lemma daily_performance_val:
  assumes "daily_performance current day_open events boundary = Inr (daily, denominator, loss)"
    and "valuation_ok current" and "valuation_ok day_open" and "list_all event_ok events"
  shows "dec_val daily = dec_val (av_equity current) - dec_val (av_equity day_open) -
      sum_list (map (\<lambda>e. dec_val (external_amount e)) (filter (\<lambda>e. ev_occurred_at e > boundary) events))"
    and "is_finite loss" and "0 \<le> dec_val loss"
proof -
  let ?xs = "map external_amount (filter (\<lambda>e. ev_occurred_at e > boundary) events)"
  have fin: "\<forall>x\<in>set ?xs. is_finite x" using assms(4) external_amount_finite by (auto simp: list_all_iff)
  note eq = valuation_ok_equity [OF assms(2)] valuation_ok_equity [OF assms(3)]
  let ?daily = "accounting_sum [av_equity current, dec_copy_negate (av_equity day_open), dec_copy_negate (accounting_sum ?xs)]"
  have finite: "\<forall>x\<in>set [av_equity current, dec_copy_negate (av_equity day_open), dec_copy_negate (accounting_sum ?xs)]. is_finite x"
    using eq accounting_sum_val(1) [OF fin] by simp
  have daily: "daily = ?daily" using assms(1) by (auto simp: daily_performance_def Let_def)
  show "dec_val daily = dec_val (av_equity current) - dec_val (av_equity day_open) -
      sum_list (map (\<lambda>e. dec_val (external_amount e)) (filter (\<lambda>e. ev_occurred_at e > boundary) events))"
    unfolding daily accounting_sum_val(2) [OF finite] using accounting_sum_val(2) [OF fin] by (simp add: o_def)
  obtain ratio where r: "dec_div 50 (dec_neg 50 ?daily) (av_equity day_open) = Inr ratio" "loss = dec_max dec0 ratio"
    using assms(1) by (auto simp: daily_performance_def Let_def)
  obtain d where "dec_div 50 (dec_neg 50 ?daily) (av_equity day_open) = Inr d" "is_finite d"
    by (rule dec_div_bounds [of "dec_neg 50 ?daily" "av_equity day_open" 50]) (use accounting_sum_val(1) [OF finite] eq in simp_all)
  then have "is_finite ratio" using r(1) by simp
  then show "is_finite loss" "0 \<le> dec_val loss" unfolding r(2) dec_max_def by simp_all
qed

end
