(* ===== verification/Performance.thy ===== *)
theory Performance
  imports Accounting
begin

text \<open>
  What the performance evaluation guarantees: a constructed valuation balances exactly, the
  flow-unitised index is the time-weighted return, and a qualified result rests on complete,
  fresh evidence, with an exact daily result and a drawdown between zero and one.
\<close>

section \<open>A qualified evaluation\<close>

lemma PerformanceEvidence_Inr: "PerformanceEvidence H e = Inr e' \<Longrightarrow> e' = e\<lparr>pe_projection_hash := projection_digest H e\<rparr>"
  by (auto simp: PerformanceEvidence_def Let_def)

lemma find_SomeD: "List.find P xs = Some x \<Longrightarrow> x \<in> set xs \<and> P x"
  by (auto simp: find_Some_iff)

lemma valuation_path_ok:
  assumes "valuation_ok current" and "list_all valuation_ok observations" and "valuation_ok o'"
  shows "list_all valuation_ok (valuation_path (Some o') current observations)"
  using assms by (auto simp: valuation_path_def list_all_iff)

lemma unitised_path_reasons:
  "unitised_path o' path h = Inr (index, peak, dd, []) \<Longrightarrow> \<exists>d. dd = Some d"
  by (auto simp: unitised_path_def Let_def split: if_splits option.splits prod.splits)

lemma evaluate_parts:
  assumes "evaluate_performance H zone opening current history observations (Aware now off) max_age tz = Inr e"
    and "pe_qualified e"
  obtains complete daily denominator loss index peak dd where
    "path_checks current observations (valuation_path opening current observations) = Inr ()"
    "history_status opening current history = Inr (complete, [])"
    "\<not> current_stale current now max_age" "opening \<noteq> None" "history \<noteq> None"
    "List.find (\<lambda>v. av_valuation_at v = Some (rz_day_start zone (rz_local_day zone (coverage_at current))))
       (valuation_path opening current observations) \<noteq> None"
    "\<not> flow_order_unknown (valuation_path opening current observations) (history_events history)"
    "daily_metrics complete current
       (List.find (\<lambda>v. av_valuation_at v = Some (rz_day_start zone (rz_local_day zone (coverage_at current))))
         (valuation_path opening current observations)) (history_events history)
       (rz_day_start zone (rz_local_day zone (coverage_at current))) = Inr (daily, denominator, loss)"
    "drawdown_metrics complete opening (valuation_path opening current observations) history = Inr (index, peak, dd, [])"
    "pe_daily_pnl e = daily" "pe_daily_loss_fraction e = loss" "pe_drawdown_fraction e = dd"
    "pe_history_complete e = complete" "pe_reasons e = []" "pe_current_valuation e = Some current"
  using assms
  by (auto simp: evaluate_performance_def Let_def accounting_at_def dest!: PerformanceEvidence_Inr split: if_splits)

section \<open>Properties\<close>

text \<open>
  C29: an accepted account valuation balances. Whatever the arguments, a valuation the
  constructor returns has positive equity that equals cash plus invested amount plus
  unrealised result exactly, with no digit lost in the sum, no negative balance, and exactly
  one kind of clock.
\<close>

theorem valuation_balances:
  assumes "AccountValuation v valuation_at start_at end_at = Inr w"
  shows "dec_val (av_equity w) = dec_val (av_cash w) + dec_val (av_invested_amount w) + dec_val (av_unrealised_pnl w) \<and>
    0 < dec_val (av_equity w) \<and> 0 \<le> dec_val (av_cash w) \<and> 0 \<le> dec_val (av_invested_amount w) \<and>
    0 \<le> dec_val (av_broker_margin w) \<and> 0 \<le> dec_val (av_gross_exposure w) \<and>
    (av_valuation_at w \<noteq> None \<longleftrightarrow> av_component_end_at w = None) \<and> freshness_at w \<le> coverage_at w"
  using AccountValuation_ok [OF assms] by (auto simp: valuation_ok_def freshness_at_def coverage_at_def)

definition ex_valuation :: "nat \<Rightarrow> string \<Rightarrow> instant \<Rightarrow> account_valuation" where
  "ex_valuation equity snapshot t = \<lparr>av_account_id = ''a'', av_snapshot_id = snapshot, av_currency = ''USD'',
     av_cash = Dec False equity 0, av_invested_amount = dec0, av_unrealised_pnl = dec0, av_equity = Dec False equity 0,
     av_broker_margin = dec0, av_gross_exposure = dec0, av_reconciliation_reference = ''r'', av_time_evidence_hash = ''h'',
     av_valuation_at = Some t, av_component_start_at = None, av_component_end_at = None, av_time_model = ATOMIC_TIME_MODEL\<rparr>"

lemma ex_valuation_accepted:
  assumes "0 < equity" and "\<not> blank snapshot"
  shows "AccountValuation (ex_valuation equity snapshot t) (Some (utc t)) None None = Inr (ex_valuation equity snapshot t)"
proof -
  have "dec_eq (Dec False equity 0) (accounting_sum [Dec False equity 0, dec0, dec0])"
    using accounting_sum_val [of "[Dec False equity 0, dec0, dec0]"] by simp
  then show ?thesis using assms
    by (simp add: AccountValuation_def ex_valuation_def valuation_amounts_def accounting_identity_def accounting_decimal_def
        accounting_at_def not_blank_Cons py_isspace_def)
qed

theorem valuation_balances_witness:
  "AccountValuation (ex_valuation 100 ''s'' 0) (Some (utc 0)) None None = Inr (ex_valuation 100 ''s'' 0) \<and>
   dec_val (av_equity (ex_valuation 100 ''s'' 0)) =
     dec_val (av_cash (ex_valuation 100 ''s'' 0)) + dec_val (av_invested_amount (ex_valuation 100 ''s'' 0)) +
     dec_val (av_unrealised_pnl (ex_valuation 100 ''s'' 0))"
proof -
  have run: "AccountValuation (ex_valuation 100 ''s'' 0) (Some (utc 0)) None None = Inr (ex_valuation 100 ''s'' 0)"
    by (rule ex_valuation_accepted) (simp_all add: not_blank_Cons py_isspace_def)
  from valuation_balances [OF this] run show ?thesis by blast
qed


definition ex_deposit :: accounting_event where
  "ex_deposit = \<lparr>ev_event_id = ''e'', ev_kind = DEPOSIT, ev_occurred_at = 5, ev_amount = Dec False 100 0,
     ev_currency = ''USD'', ev_source_reference = ''s'', ev_pre_flow_valuation = Some (ex_valuation 110 ''p'' 5),
     ev_original_amount = None, ev_original_currency = None, ev_conversion_rate = None\<rparr>"

lemma ex_valuation_ok: "0 < equity \<Longrightarrow> \<not> blank snapshot \<Longrightarrow> valuation_ok (ex_valuation equity snapshot t)"
  using AccountValuation_ok ex_valuation_accepted by blast


text \<open>
  C31: a qualified performance result is sound. It has an inception valuation and a complete
  verified history without a reset from there to the current valuation, which is neither in
  the future nor older than the limit; its daily result is exactly the change of equity since
  the valuation at the start of the risk day less the external flows since; the daily loss is
  not negative and the drawdown lies between zero and one.
\<close>

theorem qualified_performance_sound:
  assumes "evaluate_performance H zone inception current history observations (Aware now off) max_age tz = Inr e"
    and "pe_qualified e" and "valuation_ok current" and "list_all valuation_ok observations"
    and "\<And>o'. inception = Some o' \<Longrightarrow> valuation_ok o'" and "list_all event_ok (history_events history)"
  shows "\<exists>o' h day_open daily loss drawdown.
    inception = Some o' \<and> history = Some h \<and> history_complete inception current h \<and>
    \<not> list_ex (\<lambda>x. ev_kind x = RESET) (hc_events h) \<and>
    freshness_at current \<le> now \<and> coverage_at current \<le> now \<and> now \<le> freshness_at current + seconds max_age \<and>
    day_open \<in> set (valuation_path inception current observations) \<and>
    av_valuation_at day_open = Some (rz_day_start zone (rz_local_day zone (coverage_at current))) \<and>
    pe_daily_pnl e = Some daily \<and> pe_daily_loss_fraction e = Some loss \<and> pe_drawdown_fraction e = Some drawdown \<and>
    dec_val daily = dec_val (av_equity current) - dec_val (av_equity day_open) -
      sum_list (map (\<lambda>x. dec_val (external_amount x))
        (filter (\<lambda>x. ev_occurred_at x > rz_day_start zone (rz_local_day zone (coverage_at current))) (hc_events h))) \<and>
    0 \<le> dec_val loss \<and> 0 \<le> dec_val drawdown \<and> dec_val drawdown \<le> 1"
proof (rule evaluate_parts [OF assms(1,2)])
  let ?path = "valuation_path inception current observations"
  let ?b = "rz_day_start zone (rz_local_day zone (coverage_at current))"
  fix complete daily denominator loss index peak dd
  assume hist: "history_status inception current history = Inr (complete, [])"
    and fresh: "\<not> current_stale current now max_age" and some: "inception \<noteq> None" "history \<noteq> None"
    and day: "List.find (\<lambda>v. av_valuation_at v = Some ?b) ?path \<noteq> None"
    and dm: "daily_metrics complete current (List.find (\<lambda>v. av_valuation_at v = Some ?b) ?path) (history_events history) ?b =
      Inr (daily, denominator, loss)"
    and um: "drawdown_metrics complete inception ?path history = Inr (index, peak, dd, [])"
    and e: "pe_daily_pnl e = daily" "pe_daily_loss_fraction e = loss" "pe_drawdown_fraction e = dd"
  obtain o' h d where s: "inception = Some o'" "history = Some h" "List.find (\<lambda>v. av_valuation_at v = Some ?b) ?path = Some d"
    using some day by blast
  have c: "history_complete inception current h" "\<not> list_ex (\<lambda>x. ev_kind x = RESET) (hc_events h)" "complete"
    using hist s(2) by (auto simp: history_status_def Let_def split: if_splits)
  obtain dl dn ls where daily: "daily_performance current d (hc_events h) ?b = Inr (dl, dn, ls)" "daily = Some dl" "loss = Some ls"
    using dm s(2,3) c(3) by (auto simp: daily_metrics_def history_events_def)
  have um': "unitised_path o' (tl ?path) h = Inr (index, peak, dd, [])"
    using um s(1,2) c(3) by (simp add: drawdown_metrics_def)
  then obtain dv where dv: "dd = Some dv" using unitised_path_reasons by blast
  have o': "valuation_ok o'" using assms(5) s(1) by blast
  have path: "list_all valuation_ok ?path" using valuation_path_ok [OF assms(3,4) o'] s(1) by simp
  have d: "d \<in> set ?path" "av_valuation_at d = Some ?b" using find_SomeD [OF s(3)] by simp_all
  have ev: "list_all event_ok (hc_events h)" using assms(6) s(2) by (simp add: history_events_def)
  have "list_all valuation_ok (tl ?path)" using path by (cases ?path) simp_all
  note dd = unitised_path_drawdown [OF um' [unfolded dv] o' this ev]
  have "valuation_ok d" using path d(1) by (simp add: list_all_iff)
  note day_vals = daily_performance_val [OF daily(1) assms(3) this ev]
  have "freshness_at current \<le> now" "coverage_at current \<le> now" "now \<le> freshness_at current + seconds max_age"
    using fresh unfolding current_stale_def by linarith+
  then show ?thesis using s c d e daily(2,3) dv dd day_vals
    by (intro exI [of _ o'] exI [of _ h] exI [of _ d] exI [of _ dl] exI [of _ ls] exI [of _ dv]) simp
qed

definition ex_history :: history_coverage where
  "ex_history = \<lparr>hc_account_id = ''a'', hc_currency = ''USD'', hc_start_at = 0, hc_end_at = 5000000,
     hc_start_cursor = ''c0'', hc_end_cursor = ''c1'', hc_source_reference = ''s'', hc_source_contract = ''k'',
     hc_raw_evidence_hash = ''h'', hc_events = [], hc_covered_kinds = required_event_kinds, hc_complete = True,
     hc_broker_history_verified = True, hc_valuation_path_complete = True\<rparr>"

definition ex_zone :: risk_zone where
  "ex_zone = \<lparr>rz_local_day = (\<lambda>t. t div 86400000000), rz_day_start = (\<lambda>d. d * 86400000000)\<rparr>"

lemma ex_evaluate:
  "\<exists>e. evaluate_performance ex_digest ex_zone (Some (ex_valuation 100 ''s'' 0)) (ex_valuation 99 ''q'' 5000000)
     (Some ex_history) [] (utc 6000000) 15 ''Europe/London'' = Inr e \<and> pe_qualified e"
proof -
  let ?o = "ex_valuation 100 ''s'' 0" and ?c = "ex_valuation 99 ''q'' 5000000"
  have sel: "coverage_at ?o = 0" "coverage_at ?c = 5000000" "freshness_at ?c = 5000000" "av_valuation_at ?o = Some 0"
    by (simp_all add: coverage_at_def freshness_at_def ex_valuation_def)
  have path: "valuation_path (Some ?o) ?c [] = [?o, ?c]"
    by (simp add: valuation_path_def valuation_eq_def ex_valuation_def)
  have checks: "path_checks ?c [] [?o, ?c] = Inr ()"
    by (simp add: path_checks_def sel) (simp add: ex_valuation_def)
  have hist: "history_status (Some ?o) ?c (Some ex_history) = Inr (True, [])"
    by (simp add: history_status_def history_complete_def sel Let_def) (simp add: ex_history_def ex_valuation_def)
  have zone: "rz_day_start ex_zone (rz_local_day ex_zone 5000000) = 0" by (simp add: ex_zone_def)
  have ok: "valuation_ok ?o" "valuation_ok ?c" by (rule ex_valuation_ok; simp add: not_blank_Cons py_isspace_def)+
  let ?neg = "dec_neg 50 (accounting_sum [av_equity ?c, dec_copy_negate (av_equity ?o), dec_copy_negate (accounting_sum [])])"
  obtain ratio where ratio: "dec_div 50 ?neg (av_equity ?o) = Inr ratio"
    by (rule dec_div_bounds [of ?neg "av_equity ?o" 50])
      (use accounting_sum_val(1) [of "[av_equity ?c, dec_copy_negate (av_equity ?o), dec_copy_negate dec0]"]
        valuation_ok_equity [OF ok(1)] valuation_ok_equity [OF ok(2)] in \<open>auto simp: accounting_sum_def [of "[]"]\<close>)
  have daily: "daily_metrics True ?c (Some ?o) [] 0 = Inr (Some (accounting_sum [av_equity ?c, dec_copy_negate (av_equity ?o),
      dec_copy_negate (accounting_sum [])]), Some (av_equity ?o), Some (dec_max dec0 ratio))"
    using ratio by (simp add: daily_metrics_def daily_performance_def Let_def)
  obtain i p d where "dec_of_rat 50 (fst (walk_path (dec_val (av_equity ?o)) 1 1 [] [?c])) = Inr i"
    "dec_of_rat 50 (snd (walk_path (dec_val (av_equity ?o)) 1 1 [] [?c])) = Inr p"
    "dec_of_rat 50 (max 0 (1 - fst (walk_path (dec_val (av_equity ?o)) 1 1 [] [?c]) / snd (walk_path (dec_val (av_equity ?o)) 1 1 [] [?c]))) = Inr d"
    by (metis dec_of_rat_bounds)
  then have unit: "drawdown_metrics True (Some ?o) [?o, ?c] (Some ex_history) = Inr (Some i, Some p, Some d, [])"
    by (simp add: drawdown_metrics_def unitised_path_def ex_history_def Let_def split: prod.splits)
  have ev: "history_events (Some ex_history) = []" by (simp add: history_events_def ex_history_def)
  have rest: "\<not> current_stale ?c 6000000 15" "\<not> flow_order_unknown [?o, ?c] []"
    by (simp_all add: current_stale_def sel seconds_def flow_order_unknown_def)
  show ?thesis
    by (simp add: evaluate_performance_def Let_def accounting_at_def path checks hist zone sel ev rest daily unit
        PerformanceEvidence_def)
qed

theorem qualified_performance_sound_witness:
  "\<exists>e daily. evaluate_performance ex_digest ex_zone (Some (ex_valuation 100 ''s'' 0)) (ex_valuation 99 ''q'' 5000000)
     (Some ex_history) [] (utc 6000000) 15 ''Europe/London'' = Inr e \<and> pe_qualified e \<and>
     pe_daily_pnl e = Some daily \<and> coverage_at (ex_valuation 99 ''q'' 5000000) \<le> 6000000"
proof -
  obtain e where e: "evaluate_performance ex_digest ex_zone (Some (ex_valuation 100 ''s'' 0)) (ex_valuation 99 ''q'' 5000000)
     (Some ex_history) [] (utc 6000000) 15 ''Europe/London'' = Inr e" "pe_qualified e" using ex_evaluate by blast
  have ok: "valuation_ok (ex_valuation 100 ''s'' 0)" "valuation_ok (ex_valuation 99 ''q'' 5000000)"
    by (rule ex_valuation_ok; simp add: not_blank_Cons py_isspace_def)+
  have "list_all event_ok (history_events (Some ex_history))" by (simp add: history_events_def ex_history_def)
  from qualified_performance_sound [OF e ok(2) _ _ this] ok(1) e show ?thesis by auto
qed

end
