(* ===== verification/Pretrade.thy ===== *)
theory Pretrade
  imports Accounting Instruments Risk_Limits
begin

text \<open>
  \<open>src/risk/pretrade.py\<close> after \<open>RiskLimits\<close>: the evidence classes and \<open>PreTradeRiskEvaluator\<close>.
  The evaluator works in a decimal context whose precision \<open>p\<close> it computes from its inputs, so
  every operation below takes \<open>p\<close>. The drawn decision UUID is an argument. The local values of
  the long method are grouped in the functions \<open>project_exposures\<close>, \<open>versioned_metrics\<close>,
  \<open>legacy_metrics\<close>, \<open>account_time\<close>, \<open>versioned_checks\<close> and \<open>evaluate_at\<close>, in the order of the
  source. Ages are differences in microseconds, as in the submission gate.
\<close>

section \<open>Evidence\<close>

record position_evidence =
  po_internal_instrument_id :: uuid
  po_sector :: string
  po_signed_market_value :: decimal
  po_broker_position_id :: "string option"
  po_broker_instrument_id :: "int option"

definition PositionEvidence ::
  "raw_uuid \<Rightarrow> string \<Rightarrow> raw_decimal \<Rightarrow> string option \<Rightarrow> int option \<Rightarrow> position_evidence result" where
  "PositionEvidence instrument_id sector signed_market_value position_id broker_id =
     bindR (uuid_arg instrument_id ''internal_instrument_id'') (\<lambda>u.
     bindR (decimal_value signed_market_value ''signed_market_value'') (\<lambda>v.
     Inr \<lparr>po_internal_instrument_id = u, po_sector = sector_text sector, po_signed_market_value = v,
          po_broker_position_id = position_id, po_broker_instrument_id = broker_id\<rparr>))"

record pending_order_evidence =
  pn_broker_order_id :: string
  pn_internal_instrument_id :: uuid
  pn_sector :: string
  pn_side :: order_side
  pn_remaining_notional :: decimal

definition PendingOrderEvidence ::
  "string \<Rightarrow> raw_uuid \<Rightarrow> string \<Rightarrow> string \<Rightarrow> raw_decimal \<Rightarrow> pending_order_evidence result" where
  "PendingOrderEvidence order_id instrument_id sector side remaining_notional =
     bindR (uuid_arg instrument_id ''internal_instrument_id'') (\<lambda>u.
     bindR (order_side_of side) (\<lambda>sd.
     bindR (decimal_value remaining_notional ''remaining_notional'') (\<lambda>v.
     raiseIf (blank order_id \<or> dec_lt v dec0) (RiskEvidenceError ''pending order evidence is invalid'') (
     Inr \<lparr>pn_broker_order_id = order_id, pn_internal_instrument_id = u, pn_sector = sector_text sector,
          pn_side = sd, pn_remaining_notional = v\<rparr>))))"

text \<open>Dataclass equality.\<close>

definition pending_eq :: "pending_order_evidence \<Rightarrow> pending_order_evidence \<Rightarrow> bool" where
  "pending_eq x y \<longleftrightarrow> pn_broker_order_id x = pn_broker_order_id y \<and>
     pn_internal_instrument_id x = pn_internal_instrument_id y \<and> pn_sector x = pn_sector y \<and>
     pn_side x = pn_side y \<and> dec_eq (pn_remaining_notional x) (pn_remaining_notional y)"

record account_evidence =
  ae_snapshot_id :: string
  ae_environment :: environment
  ae_observed_at :: "instant option"
  ae_currency :: string
  ae_equity :: decimal
  ae_cash :: decimal
  ae_daily_pnl :: "decimal option"
  ae_peak_equity :: "decimal option"
  ae_positions :: "position_evidence list"
  ae_pending_orders :: "pending_order_evidence list"
  ae_pending_orders_complete :: bool
  ae_contract_version :: string
  ae_account_id :: "string option"
  ae_component_time :: "risk_account_source option"
  ae_performance :: "performance_evidence option"
  ae_invested_amount :: "decimal option"
  ae_unrealised_pnl :: "decimal option"
  ae_estimated_order_costs :: decimal
  ae_positions_complete :: bool
  ae_issuer_by_instrument :: "(string \<times> string) list"

record raw_account_evidence =
  rae_snapshot_id :: string
  rae_environment :: string
  rae_observed_at :: "pydatetime option"
  rae_currency :: string
  rae_equity :: raw_decimal
  rae_cash :: raw_decimal
  rae_daily_pnl :: "raw_decimal option"
  rae_peak_equity :: "raw_decimal option"
  rae_positions :: "position_evidence list"
  rae_pending_orders :: "pending_order_evidence list"
  rae_pending_orders_complete :: bool
  rae_contract_version :: string
  rae_account_id :: "string option"
  rae_component_time :: "risk_account_source option"
  rae_performance :: "performance_evidence option"
  rae_invested_amount :: "raw_decimal option"
  rae_unrealised_pnl :: "raw_decimal option"
  rae_estimated_order_costs :: raw_decimal
  rae_positions_complete :: bool
  rae_issuer_by_instrument :: "(raw_uuid \<times> string) list"

definition legacy_contract :: string where "legacy_contract = ''legacy-fixture-v1''"
definition versioned_contract :: string where "versioned_contract = ''account-risk-v2''"

definition issuer_pair :: "raw_uuid \<times> string \<Rightarrow> (string \<times> string) result" where
  "issuer_pair ui = bindR (uuid_arg (fst ui) ''issuer_instrument_id'') (\<lambda>u.
     Inr (uuid_str u, py_lower (py_strip (snd ui))))"

text \<open>The checks after the conversions.\<close>

definition account_checks :: "account_evidence \<Rightarrow> account_evidence result" where
  "account_checks a =
     raiseIf (blank (ae_snapshot_id a) \<or> ae_currency a = [])
       (RiskEvidenceError ''account snapshot identity is incomplete'') (
     raiseIf (dec_le (ae_equity a) dec0 \<or> (case ae_peak_equity a of None \<Rightarrow> False | Some x \<Rightarrow> dec_le x dec0) \<or>
              dec_lt (ae_cash a) dec0 \<or> dec_lt (ae_estimated_order_costs a) dec0)
       (RiskEvidenceError ''account balances are invalid'') (
     raiseIf (ae_contract_version a = legacy_contract \<and> (ae_daily_pnl a = None \<or> ae_peak_equity a = None))
       (RiskEvidenceError ''legacy_fixture_performance_required'') (
     Inr a)))"

definition AccountEvidence :: "raw_account_evidence \<Rightarrow> account_evidence result" where
  "AccountEvidence r =
     raiseIf (rae_contract_version r \<noteq> legacy_contract \<and> rae_contract_version r \<noteq> versioned_contract)
       (RiskEvidenceError ''unsupported_account_risk_contract'') (
     raiseIf (rae_observed_at r = None \<and> (rae_contract_version r \<noteq> versioned_contract \<or> rae_component_time r = None))
       (RiskEvidenceError ''whole_account_observation_time_required'') (
     bindR (environment_of (rae_environment r)) (\<lambda>env.
     bindR (optR (\<lambda>t. aware_utc t ''observed_at'') (rae_observed_at r)) (\<lambda>observed.
     raiseIf (rae_component_time r \<noteq> None \<and> observed \<noteq> None)
       (RiskEvidenceError ''component_time_is_not_atomic_account_time'') (
     bindR (decimal_value (rae_equity r) ''equity'') (\<lambda>equity.
     bindR (decimal_value (rae_cash r) ''cash'') (\<lambda>cash.
     bindR (optR (\<lambda>x. decimal_value x ''daily_pnl'') (rae_daily_pnl r)) (\<lambda>daily.
     bindR (optR (\<lambda>x. decimal_value x ''peak_equity'') (rae_peak_equity r)) (\<lambda>peak.
     bindR (optR (\<lambda>x. decimal_value x ''invested_amount'') (rae_invested_amount r)) (\<lambda>invested.
     bindR (optR (\<lambda>x. decimal_value x ''unrealised_pnl'') (rae_unrealised_pnl r)) (\<lambda>unrealised.
     bindR (decimal_value (rae_estimated_order_costs r) ''estimated_order_costs'') (\<lambda>costs.
     bindR (mapR issuer_pair (rae_issuer_by_instrument r)) (\<lambda>issuers.
     account_checks
       \<lparr>ae_snapshot_id = rae_snapshot_id r, ae_environment = env, ae_observed_at = observed,
        ae_currency = py_upper (py_strip (rae_currency r)), ae_equity = equity, ae_cash = cash,
        ae_daily_pnl = daily, ae_peak_equity = peak, ae_positions = rae_positions r,
        ae_pending_orders = rae_pending_orders r, ae_pending_orders_complete = rae_pending_orders_complete r,
        ae_contract_version = rae_contract_version r, ae_account_id = rae_account_id r,
        ae_component_time = rae_component_time r, ae_performance = rae_performance r,
        ae_invested_amount = invested, ae_unrealised_pnl = unrealised, ae_estimated_order_costs = costs,
        ae_positions_complete = rae_positions_complete r, ae_issuer_by_instrument = issuers\<rparr>)))))))))))))"

record quote_evidence =
  qe_quote_id :: string
  qe_internal_instrument_id :: uuid
  qe_observed_at :: instant
  qe_bid :: decimal
  qe_ask :: decimal
  qe_regular_session_open :: bool

definition QuoteEvidence ::
  "string \<Rightarrow> raw_uuid \<Rightarrow> pydatetime \<Rightarrow> raw_decimal \<Rightarrow> raw_decimal \<Rightarrow> bool \<Rightarrow> quote_evidence result" where
  "QuoteEvidence quote_id instrument_id observed_at bid ask session_open =
     bindR (uuid_arg instrument_id ''internal_instrument_id'') (\<lambda>u.
     bindR (aware_utc observed_at ''observed_at'') (\<lambda>t.
     bindR (decimal_value bid ''bid'') (\<lambda>b.
     bindR (decimal_value ask ''ask'') (\<lambda>a.
     raiseIf (blank quote_id \<or> dec_le b dec0 \<or> dec_le a dec0) (RiskEvidenceError ''quote evidence is invalid'') (
     raiseIf (dec_lt a b) (RiskEvidenceError ''quote ask is below bid'') (
     Inr \<lparr>qe_quote_id = quote_id, qe_internal_instrument_id = u, qe_observed_at = t, qe_bid = b, qe_ask = a,
          qe_regular_session_open = session_open\<rparr>))))))"

section \<open>Projected exposures\<close>

definition dec_zero :: "decimal \<Rightarrow> bool" where
  "dec_zero d = dec_eq d dec0"

definition fraction_of :: "nat \<Rightarrow> decimal \<Rightarrow> decimal \<Rightarrow> decimal result" where
  "fraction_of p numerator denominator =
     (if dec_zero denominator then Inr (DInf False) else dec_div p numerator denominator)"

definition order_notional :: "nat \<Rightarrow> order_intent \<Rightarrow> account_evidence \<Rightarrow> quote_evidence \<Rightarrow> decimal" where
  "order_notional p intent account quote = (case oi_sizing_method intent of
       FIXED_NOTIONAL \<Rightarrow> oi_sizing_value intent
     | PERCENT_EQUITY \<Rightarrow> dec_mul p (ae_equity account) (oi_sizing_value intent)
     | UNITS \<Rightarrow> dec_mul p (qe_ask quote) (oi_sizing_value intent))"

text \<open>The precision of \<open>PreTradeRiskEvaluator.evaluate\<close>.\<close>

definition risk_decimals :: "order_intent \<Rightarrow> account_evidence \<Rightarrow> quote_evidence \<Rightarrow> decimal list" where
  "risk_decimals intent account quote =
     filter is_finite
       ([ae_equity account, ae_cash account, oi_sizing_value intent, qe_ask quote, ae_estimated_order_costs account] @
        concat (map (case_option [] (\<lambda>x. [x]))
          [ae_invested_amount account, ae_unrealised_pnl account, ae_daily_pnl account, ae_peak_equity account]) @
        map po_signed_market_value (ae_positions account) @
        map pn_remaining_notional (ae_pending_orders account))"

definition list_max :: "int list \<Rightarrow> int" where
  "list_max xs = (case xs of [] \<Rightarrow> 0 | y # ys \<Rightarrow> foldl max y ys)"

definition list_min :: "int list \<Rightarrow> int" where
  "list_min xs = (case xs of [] \<Rightarrow> 0 | y # ys \<Rightarrow> foldl min y ys)"

definition risk_precision :: "order_intent \<Rightarrow> account_evidence \<Rightarrow> quote_evidence \<Rightarrow> nat" where
  "risk_precision intent account quote =
     (let decimals = risk_decimals intent account quote;
          largest = list_max (map adjusted decimals); smallest = list_min (map dec_exp decimals)
      in nat (max 80 (2 * (largest - smallest + 1) + int (length decimals))))"

text \<open>
  The pending orders by broker order id, the last entry of an id in the place of the first,
  and whether two entries of one id differ.
\<close>

fun pending_fold ::
  "(string \<times> pending_order_evidence) list \<Rightarrow> bool \<Rightarrow> pending_order_evidence list \<Rightarrow>
   (string \<times> pending_order_evidence) list \<times> bool" where
  "pending_fold by_id contradictory [] = (by_id, contradictory)"
| "pending_fold by_id contradictory (x # xs) =
     pending_fold (dict_put by_id (pn_broker_order_id x) x)
       (contradictory \<or> (case map_of by_id (pn_broker_order_id x) of None \<Rightarrow> False | Some y \<Rightarrow> \<not> pending_eq y x)) xs"

definition pending_orders :: "account_evidence \<Rightarrow> pending_order_evidence list" where
  "pending_orders account = map snd (fst (pending_fold [] False (ae_pending_orders account)))"

definition contradictory_pending :: "account_evidence \<Rightarrow> bool" where
  "contradictory_pending account = snd (pending_fold [] False (ae_pending_orders account))"

definition pending_value :: "nat \<Rightarrow> pending_order_evidence \<Rightarrow> decimal" where
  "pending_value p x = (if pn_side x = BUY then pn_remaining_notional x else dec_neg p (pn_remaining_notional x))"

record projection =
  pj_order :: decimal
  pj_issuer :: decimal
  pj_sector :: decimal
  pj_gross :: decimal
  pj_net :: decimal
  pj_cash :: decimal

definition project_exposures ::
  "nat \<Rightarrow> order_intent \<Rightarrow> instrument \<Rightarrow> account_evidence \<Rightarrow> quote_evidence \<Rightarrow> projection" where
  "project_exposures p intent ins account quote =
     (let pending = pending_orders account;
          order = order_notional p intent account quote;
          signed = (if oi_side intent = BUY then order else dec_neg p order);
          same_issuer = (\<lambda>u. u = in_internal_instrument_id ins);
          pos_abs = (\<lambda>P. dec_sum p (map (\<lambda>x. dec_abs p (po_signed_market_value x)) (filter P (ae_positions account))));
          pend_abs = (\<lambda>P. dec_sum p (map (\<lambda>x. dec_abs p (pending_value p x)) (filter P pending)));
          buys = dec_sum p (map pn_remaining_notional (filter (\<lambda>x. pn_side x = BUY) pending))
      in \<lparr>pj_order = order,
          pj_issuer = dec_add p (dec_add p (pos_abs (same_issuer \<circ> po_internal_instrument_id))
                                           (pend_abs (same_issuer \<circ> pn_internal_instrument_id))) (dec_abs p order),
          pj_sector = dec_add p (dec_add p (pos_abs (\<lambda>x. po_sector x = in_sector ins))
                                           (pend_abs (\<lambda>x. pn_sector x = in_sector ins))) (dec_abs p order),
          pj_gross = dec_add p (dec_add p (pos_abs (\<lambda>_. True)) (pend_abs (\<lambda>_. True))) (dec_abs p order),
          pj_net = dec_add p (dec_add p (dec_sum p (map po_signed_market_value (ae_positions account)))
                                        (dec_sum p (map (pending_value p) pending))) signed,
          pj_cash = dec_sub p (dec_sub p (dec_sub p (ae_cash account) buys)
                                (if oi_side intent = BUY then order else dec0)) (ae_estimated_order_costs account)\<rparr>)"

section \<open>Performance and time of the account\<close>

definition dec_opt_eq :: "decimal \<Rightarrow> decimal option \<Rightarrow> bool" where
  "dec_opt_eq x y = (case y of None \<Rightarrow> False | Some z \<Rightarrow> dec_eq x z)"

definition performance_status ::
  "digest \<Rightarrow> risk_limits \<Rightarrow> account_evidence \<Rightarrow> instant \<Rightarrow> performance_evidence \<Rightarrow> string list" where
  "performance_status H limits account moment e =
     (if \<not> projection_valid H e \<or> \<not> pe_qualified e \<or> \<not> pe_history_complete e \<or> pe_reasons e \<noteq> [] \<or>
         pe_model_version e \<noteq> MODEL_VERSION \<or> pe_current_snapshot_id e \<noteq> ae_snapshot_id account \<or>
         Some (pe_account_id e) \<noteq> ae_account_id account \<or> pe_currency e \<noteq> ae_currency account
      then [''performance_evidence_unqualified_or_unbound'']
      else if \<not> (0 \<le> moment - pe_coverage_end_at e \<and>
                 moment - pe_coverage_end_at e \<le> seconds (rl_account_max_age_seconds limits))
      then [''performance_evidence_stale''] else [])"

definition valuation_binding ::
  "nat \<Rightarrow> account_evidence \<Rightarrow> performance_evidence \<Rightarrow> string list" where
  "valuation_binding p account e =
     (case pe_current_valuation e of
        None \<Rightarrow> [''performance_valuation_binding_mismatch'']
      | Some v \<Rightarrow>
          if Some (av_account_id v) \<noteq> ae_account_id account \<or> av_snapshot_id v \<noteq> ae_snapshot_id account \<or>
             av_currency v \<noteq> ae_currency account \<or> \<not> dec_eq (av_equity v) (ae_equity account) \<or>
             \<not> dec_eq (av_cash v) (ae_cash account) \<or>
             \<not> dec_opt_eq (av_invested_amount v) (ae_invested_amount account) \<or>
             \<not> dec_opt_eq (av_unrealised_pnl v) (ae_unrealised_pnl account) \<or>
             coverage_at v \<noteq> pe_coverage_end_at e \<or>
             \<not> dec_eq (av_gross_exposure v)
                 (dec_sum p (map (\<lambda>x. dec_abs p (po_signed_market_value x)) (ae_positions account)))
          then [''performance_valuation_binding_mismatch'']
          else case ae_component_time account of
            Some src \<Rightarrow>
              if av_valuation_at v \<noteq> None \<or> av_time_model v \<noteq> as_model_version src \<or>
                 av_time_evidence_hash v \<noteq> as_time_evidence_hash src \<or>
                 av_component_start_at v \<noteq> Some (as_earliest_component_at src) \<or>
                 av_component_end_at v \<noteq> Some (as_latest_component_at src) \<or>
                 \<not> dec_eq (av_broker_margin v) (as_broker_margin src)
              then [''performance_time_binding_mismatch''] else []
          | None \<Rightarrow>
              if av_valuation_at v \<noteq> ae_observed_at account then [''performance_time_binding_mismatch''] else [])"

definition metric_unknown :: "decimal option \<Rightarrow> bool" where
  "metric_unknown x = (case x of None \<Rightarrow> True | Some d \<Rightarrow> \<not> is_finite d \<or> dec_lt d dec0)"

definition versioned_metrics ::
  "digest \<Rightarrow> nat \<Rightarrow> risk_limits \<Rightarrow> account_evidence \<Rightarrow> instant \<Rightarrow> string list \<times> decimal option \<times> decimal option" where
  "versioned_metrics H p limits account moment =
     (let reasons = (case ae_performance account of
            None \<Rightarrow> [''performance_evidence_missing'']
          | Some e \<Rightarrow> performance_status H limits account moment e @ valuation_binding p account e);
          known = (if reasons = [] then ae_performance account else None);
          daily_loss = Option.bind known pe_daily_loss_fraction;
          drawdown = Option.bind known pe_drawdown_fraction
      in (reasons @ (if metric_unknown daily_loss \<or> metric_unknown drawdown
                     then [''performance_metrics_unknown''] else []), daily_loss, drawdown))"

definition the_decimal :: "decimal option \<Rightarrow> decimal result" where
  "the_decimal x = of_option (PyTypeError ''unsupported operand type(s)'') x"

definition legacy_metrics :: "nat \<Rightarrow> account_evidence \<Rightarrow> (decimal \<times> decimal) result" where
  "legacy_metrics p account =
     bindR (the_decimal (ae_peak_equity account)) (\<lambda>peak.
     bindR (fraction_of p (dec_sub p peak (ae_equity account)) peak) (\<lambda>fall.
     bindR (the_decimal (ae_daily_pnl account)) (\<lambda>pnl.
     bindR (fraction_of p pnl (ae_equity account)) (\<lambda>change.
     Inr (dec_max dec0 (dec_neg p change), dec_max dec0 fall)))))"

type_synonym position_key = "string option \<times> int option"

definition positions_dict :: "(position_key \<times> decimal) list \<Rightarrow> (position_key \<times> decimal) list" where
  "positions_dict kvs = dict_update [] kvs"

definition same_dict :: "(position_key \<times> decimal) list \<Rightarrow> (position_key \<times> decimal) list \<Rightarrow> bool" where
  "same_dict d e \<longleftrightarrow> length d = length e \<and>
     list_all (\<lambda>(k, v). case map_of e k of None \<Rightarrow> False | Some w \<Rightarrow> dec_eq v w) d"

definition component_reasons ::
  "nat \<Rightarrow> risk_limits \<Rightarrow> account_evidence \<Rightarrow> instant \<Rightarrow> risk_account_source \<Rightarrow> string list result" where
  "component_reasons p limits account moment src =
     bindR (validate_at p src (utc moment) (rl_account_max_age_seconds limits)) (\<lambda>blockers.
     let binding = (if Some (as_demo_customer_id src) \<noteq> ae_account_id account \<or> as_currency src \<noteq> ae_currency account \<or>
           \<not> dec_eq (as_equity src) (ae_equity account) \<or> \<not> dec_eq (as_available_cash src) (ae_cash account) \<or>
           \<not> dec_opt_eq (as_invested_amount src) (ae_invested_amount account) \<or>
           \<not> dec_opt_eq (as_current_pnl src) (ae_unrealised_pnl account) \<or>
           as_source_evidence_sha256 src \<noteq> ae_snapshot_id account
         then [''component_account_binding_mismatch''] else []);
         expected = positions_dict (map (\<lambda>x. ((Some (sp_broker_position_id x), Some (sp_broker_instrument_id x)),
           sp_current_exposure x)) (as_positions src));
         actual = positions_dict (map (\<lambda>x. ((po_broker_position_id x, po_broker_instrument_id x),
           po_signed_market_value x)) (ae_positions account));
         coverage = (if length actual \<noteq> length (ae_positions account) \<or> length expected \<noteq> length (as_positions src) \<or>
           \<not> same_dict expected actual \<or> ae_pending_orders account \<noteq> []
         then [''component_positions_or_pending_coverage_mismatch''] else [])
     in Inr (blockers @ binding @ coverage))"

text \<open>The reasons against the account's time, its age when it has a single time, and the verdict.\<close>

definition account_time ::
  "nat \<Rightarrow> risk_limits \<Rightarrow> account_evidence \<Rightarrow> instant \<Rightarrow> (string \<times> bool) result" where
  "account_time p limits account moment =
     (case ae_component_time account of
        Some src \<Rightarrow> bindR (component_reasons p limits account moment src) (\<lambda>reasons.
          Inr (py_tuple_text (map py_repr_str reasons), reasons = []))
      | None \<Rightarrow> bindR (of_option (PyTypeError ''unsupported operand type(s)'') (ae_observed_at account)) (\<lambda>observed.
          let age = moment - observed in
          Inr (seconds_text age, 0 \<le> age \<and> age \<le> seconds (rl_account_max_age_seconds limits))))"

section \<open>The checks\<close>

definition check :: "string \<Rightarrow> bool \<Rightarrow> string \<Rightarrow> string \<Rightarrow> risk_check" where
  "check name passed observed limit =
     \<lparr>rc_name = name, rc_passed = passed, rc_observed = observed, rc_limit = limit\<rparr>"

definition bool_check :: "string \<Rightarrow> bool \<Rightarrow> risk_check" where
  "bool_check name b = check name b (bool_text b) ''True''"

definition scope_checks ::
  "risk_limits \<Rightarrow> order_intent \<Rightarrow> instrument \<Rightarrow> account_evidence \<Rightarrow> quote_evidence \<Rightarrow> instant \<Rightarrow> string \<Rightarrow> bool \<Rightarrow>
   risk_check list" where
  "scope_checks limits intent ins account quote moment account_observed account_fresh =
     (let quote_age = moment - qe_observed_at quote in
     [check ''environment'' (oi_environment intent = ae_environment account \<and> ae_environment account = rl_environment limits)
        (environment_str (oi_environment intent) @ ''/'' @ environment_str (ae_environment account))
        (environment_str (rl_environment limits)),
      check ''asset_type'' (in_asset_type ins \<in> set (rl_allowed_asset_types limits)) (in_asset_type ins)
        (py_tuple_text (map py_repr_str (rl_allowed_asset_types limits))),
      check ''long_only'' (oi_side intent = BUY) (order_side_str (oi_side intent)) (order_side_str BUY),
      check ''leverage'' (dec_eq (oi_target_leverage intent) (rl_required_leverage limits))
        (dec_str (oi_target_leverage intent)) (dec_str (rl_required_leverage limits)),
      check ''currency'' (oi_currency intent = ae_currency account \<and> ae_currency account = in_currency ins)
        (oi_currency intent @ ''/'' @ ae_currency account @ ''/'' @ in_currency ins) ''exact match'',
      check ''intent_expiry'' (moment < oi_expires_at intent) (iso_text ''+00:00'' (oi_expires_at intent))
        (iso_text ''+00:00'' moment),
      check ''quote_freshness'' (0 \<le> quote_age \<and> quote_age \<le> seconds (rl_quote_max_age_seconds limits))
        (seconds_text quote_age) (str_int (rl_quote_max_age_seconds limits)),
      check ''account_freshness'' account_fresh account_observed (str_int (rl_account_max_age_seconds limits)),
      check ''regular_hours'' (\<not> rl_regular_hours_only limits \<or> qe_regular_session_open quote)
        (bool_text (qe_regular_session_open quote)) ''True'',
      bool_check ''pending_orders_complete'' (ae_pending_orders_complete account),
      bool_check ''pending_orders_consistent'' (\<not> contradictory_pending account)])"

definition issuer_of :: "(string \<times> string) list \<Rightarrow> uuid \<Rightarrow> string" where
  "issuer_of issuers u = (case map_of issuers (uuid_str u) of None \<Rightarrow> ''unknown'' | Some x \<Rightarrow> x)"

text \<open>Instrument, sector and exposure of the positions and pending orders, in this order.\<close>

definition exposure_items :: "nat \<Rightarrow> account_evidence \<Rightarrow> (uuid \<times> string \<times> decimal) list" where
  "exposure_items p account =
     map (\<lambda>x. (po_internal_instrument_id x, po_sector x, dec_abs p (po_signed_market_value x))) (ae_positions account) @
     map (\<lambda>x. (pn_internal_instrument_id x, pn_sector x, pn_remaining_notional x)) (pending_orders account)"

definition add_total :: "nat \<Rightarrow> (string \<times> decimal) list \<Rightarrow> string \<times> decimal \<Rightarrow> (string \<times> decimal) list" where
  "add_total p totals kv =
     dict_put totals (fst kv) (dec_add p (case map_of totals (fst kv) of None \<Rightarrow> dec0 | Some x \<Rightarrow> x) (snd kv))"

definition largest_total :: "(string \<times> decimal) list \<Rightarrow> decimal" where
  "largest_total totals = (case map snd totals of [] \<Rightarrow> dec0 | x # xs \<Rightarrow> foldl dec_max x xs)"

definition issuer_totals ::
  "nat \<Rightarrow> instrument \<Rightarrow> account_evidence \<Rightarrow> decimal \<Rightarrow> (string \<times> decimal) list" where
  "issuer_totals p ins account order =
     (let issuers = dict_update [] (ae_issuer_by_instrument account) in
      foldl (add_total p) [(issuer_of issuers (in_internal_instrument_id ins), dec_abs p order)]
        (map (\<lambda>(u, sector, v). (issuer_of issuers u, v)) (exposure_items p account)))"

definition sector_totals ::
  "nat \<Rightarrow> instrument \<Rightarrow> account_evidence \<Rightarrow> decimal \<Rightarrow> (string \<times> decimal) list" where
  "sector_totals p ins account order =
     foldl (add_total p) [(in_sector ins, dec_abs p order)]
       (map (\<lambda>(u, sector, v). (sector, v)) (exposure_items p account))"

definition issuer_coverage :: "nat \<Rightarrow> instrument \<Rightarrow> account_evidence \<Rightarrow> bool" where
  "issuer_coverage p ins account =
     (let issuers = dict_update [] (ae_issuer_by_instrument account);
          known = (\<lambda>u. py_strip (case map_of issuers (uuid_str u) of None \<Rightarrow> [] | Some x \<Rightarrow> x) \<notin> set [[], ''unknown''])
      in length issuers = length (ae_issuer_by_instrument account) \<and>
         list_all known (map fst (exposure_items p account) @ [in_internal_instrument_id ins]))"

definition equity_identity :: "nat \<Rightarrow> account_evidence \<Rightarrow> bool" where
  "equity_identity p account = (case (ae_invested_amount account, ae_unrealised_pnl account) of
       (Some invested, Some unrealised) \<Rightarrow>
         dec_eq (ae_equity account) (dec_add p (dec_add p (ae_cash account) invested) unrealised)
     | _ \<Rightarrow> False)"

definition versioned_checks ::
  "nat \<Rightarrow> risk_limits \<Rightarrow> instrument \<Rightarrow> account_evidence \<Rightarrow> decimal \<Rightarrow> string list \<Rightarrow> risk_check list result" where
  "versioned_checks p limits ins account order performance_reasons =
     bindR (dec_div p (largest_total (issuer_totals p ins account order)) (ae_equity account)) (\<lambda>max_issuer.
     bindR (dec_div p (largest_total (sector_totals p ins account order)) (ae_equity account)) (\<lambda>max_sector.
     let identified = (ae_account_id account \<noteq> None \<and> ae_account_id account \<noteq> Some []);
         classified = (list_all (\<lambda>(u, sector, v). sector \<noteq> ''unknown'') (exposure_items p account) \<and>
                       in_sector ins \<noteq> ''unknown'');
         covered = issuer_coverage p ins account
     in Inr
       [bool_check ''positions_complete'' (ae_positions_complete account),
        bool_check ''account_identity'' identified,
        check ''equity_identity'' (equity_identity p account) (bool_text (equity_identity p account))
          ''cash + invested + unrealised'',
        check ''performance_coverage'' (performance_reasons = [])
          (py_list_text (map py_repr_str performance_reasons)) ''complete bound fresh history'',
        bool_check ''exposure_classification'' classified,
        check ''issuer_classification'' covered (bool_text covered) ''reviewed issuer identity for every instrument'',
        check ''all_issuer_exposure'' (dec_le max_issuer (rl_max_issuer_fraction limits)) (dec_str max_issuer)
          (dec_str (rl_max_issuer_fraction limits)),
        check ''all_sector_exposure'' (dec_le max_sector (rl_max_sector_fraction limits)) (dec_str max_sector)
          (dec_str (rl_max_sector_fraction limits))]))"

definition limit_check :: "string \<Rightarrow> bool \<Rightarrow> decimal \<Rightarrow> decimal \<Rightarrow> risk_check" where
  "limit_check name passed observed limit = check name passed (dec_str observed) (dec_str limit)"

definition dec_opt_text :: "decimal option \<Rightarrow> string" where
  "dec_opt_text x = (case x of None \<Rightarrow> ''None'' | Some d \<Rightarrow> dec_str d)"

definition below_stop :: "decimal option \<Rightarrow> decimal \<Rightarrow> bool result" where
  "below_stop x stop = (case x of None \<Rightarrow> Inr False | Some d \<Rightarrow> dec_ltR d stop)"

definition exposure_checks ::
  "nat \<Rightarrow> risk_limits \<Rightarrow> account_evidence \<Rightarrow> projection \<Rightarrow> decimal option \<Rightarrow> decimal option \<Rightarrow> risk_check list result" where
  "exposure_checks p limits account pj daily_loss drawdown =
     bindR (fraction_of p (pj_order pj) (ae_equity account)) (\<lambda>order.
     bindR (fraction_of p (pj_issuer pj) (ae_equity account)) (\<lambda>issuer.
     bindR (fraction_of p (pj_sector pj) (ae_equity account)) (\<lambda>sector.
     bindR (fraction_of p (pj_gross pj) (ae_equity account)) (\<lambda>gross.
     bindR (fraction_of p (pj_net pj) (ae_equity account)) (\<lambda>net.
     bindR (fraction_of p (pj_cash pj) (ae_equity account)) (\<lambda>cash.
     bindR (below_stop daily_loss (rl_daily_loss_stop_fraction limits)) (\<lambda>loss_ok.
     bindR (below_stop drawdown (rl_drawdown_stop_fraction limits)) (\<lambda>drawdown_ok.
     Inr
       [limit_check ''order_size'' (dec_le order (rl_max_order_equity_fraction limits)) order
          (rl_max_order_equity_fraction limits),
        limit_check ''issuer_exposure'' (dec_le (dec_abs p issuer) (rl_max_issuer_fraction limits)) issuer
          (rl_max_issuer_fraction limits),
        limit_check ''sector_exposure'' (dec_le sector (rl_max_sector_fraction limits)) sector
          (rl_max_sector_fraction limits),
        limit_check ''gross_exposure'' (dec_le gross (rl_max_gross_fraction limits)) gross
          (rl_max_gross_fraction limits),
        limit_check ''net_exposure'' (dec_le (dec_abs p net) (rl_max_net_fraction limits)) net
          (rl_max_net_fraction limits),
        limit_check ''cash_buffer'' (dec_le (rl_min_cash_buffer_fraction limits) cash) cash
          (rl_min_cash_buffer_fraction limits),
        check ''daily_loss_stop'' loss_ok (dec_opt_text daily_loss) (dec_str (rl_daily_loss_stop_fraction limits)),
        check ''drawdown_stop'' drawdown_ok (dec_opt_text drawdown)
          (dec_str (rl_drawdown_stop_fraction limits))]))))))))"

section \<open>The evaluator\<close>

definition evaluate_at ::
  "digest \<Rightarrow> nat \<Rightarrow> risk_limits \<Rightarrow> uuid \<Rightarrow> order_intent \<Rightarrow> instrument \<Rightarrow> account_evidence \<Rightarrow> quote_evidence \<Rightarrow>
   pydatetime \<Rightarrow> risk_decision result" where
  "evaluate_at H p limits fresh intent ins account quote now =
     bindR (aware_utc now ''now'') (\<lambda>moment.
     raiseIf (qe_internal_instrument_id quote \<noteq> in_internal_instrument_id ins)
       (RiskEvidenceError ''quote instrument identity mismatch'') (
     raiseIf (oi_internal_instrument_id intent \<noteq> in_internal_instrument_id ins)
       (RiskEvidenceError ''intent instrument identity mismatch'') (
     let pj = project_exposures p intent ins account quote;
         versioned = (ae_contract_version account = versioned_contract)
     in
     bindR (if versioned then Inr (versioned_metrics H p limits account moment)
            else bindR (legacy_metrics p account) (\<lambda>(daily, fall). Inr ([], Some daily, Some fall)))
       (\<lambda>(performance_reasons, daily_loss, drawdown).
     bindR (account_time p limits account moment) (\<lambda>(account_observed, account_fresh).
     bindR (if versioned then versioned_checks p limits ins account (pj_order pj) performance_reasons else Inr [])
       (\<lambda>account_checks.
     bindR (exposure_checks p limits account pj daily_loss drawdown) (\<lambda>limit_checks.
     let checks = scope_checks limits intent ins account quote moment account_observed account_fresh @
                  account_checks @ limit_checks;
         reasons = map rc_name (filter (\<lambda>c. \<not> rc_passed c) checks);
         outcome = (if reasons = [] then ACCEPTED else DECLINED);
         exposures = [(''order_notional'', dec_str (pj_order pj)), (''projected_issuer'', dec_str (pj_issuer pj)),
           (''projected_sector'', dec_str (pj_sector pj)), (''projected_gross'', dec_str (pj_gross pj)),
           (''projected_net'', dec_str (pj_net pj)), (''projected_cash'', dec_str (pj_cash pj)),
           (''daily_loss_fraction'', dec_opt_text daily_loss), (''drawdown_fraction'', dec_opt_text drawdown)]
     in RiskDecision (RUuid fresh) (oi_intent_hash intent) (ae_snapshot_id account) (qe_quote_id quote)
          (utc (qe_observed_at quote)) exposures checks (risk_outcome_str outcome) reasons (utc moment)
          schema_version)))))))"

definition evaluate ::
  "digest \<Rightarrow> risk_limits \<Rightarrow> uuid \<Rightarrow> order_intent \<Rightarrow> instrument \<Rightarrow> account_evidence \<Rightarrow> quote_evidence \<Rightarrow>
   pydatetime \<Rightarrow> risk_decision result" where
  "evaluate H limits fresh intent ins account quote now =
     evaluate_at H (risk_precision intent account quote) limits fresh intent ins account quote now"

end
