(* ===== verification/Risk_Exact.thy ===== *)
theory Risk_Exact
  imports Pretrade
begin

text \<open>
  Why the evaluator's decimal arithmetic does not round where it matters. With the precision
  it computes, every amount it adds stays exact (\<open>sized\<close> tracks the grid and the size of a
  value through the operations), and a quotient rounded to that precision lies on the same
  side of a short limit as the exact quotient (\<open>rounds\<close>).
\<close>

section \<open>Exact sums\<close>

definition sized :: "int \<Rightarrow> rat \<Rightarrow> nat \<Rightarrow> decimal \<Rightarrow> bool" where
  "sized m b k x \<longleftrightarrow> is_finite x \<and> on_grid m (dec_val x) \<and> \<bar>dec_val x\<bar> \<le> of_nat k * b"

definition capacity :: "nat \<Rightarrow> int \<Rightarrow> rat \<Rightarrow> nat \<Rightarrow> bool" where
  "capacity p m b n \<longleftrightarrow> 0 < p \<and> 0 \<le> b \<and> of_nat n * b < 10 powi (m + int p)"

lemma on_grid_zero [simp]: "on_grid m 0"
  unfolding on_grid_def by (rule exI [of _ 0]) simp

lemma on_grid_minus: "on_grid m x \<Longrightarrow> on_grid m (- x)"
  unfolding on_grid_def by (metis mult_minus_left of_int_minus)

lemma on_grid_abs: "on_grid m x \<Longrightarrow> on_grid m \<bar>x\<bar>"
  by (auto simp: abs_if on_grid_minus)

lemma on_grid_finer: "on_grid m x \<Longrightarrow> m' \<le> m \<Longrightarrow> on_grid m' x"
proof -
  assume "on_grid m x" and le: "m' \<le> m"
  then obtain k where "x = of_int k * 10 powi m" by (auto simp: on_grid_def)
  then have "x = of_int (k * 10 ^ nat (m - m')) * 10 powi m'" by (simp add: powi_split [OF le])
  then show ?thesis unfolding on_grid_def by blast
qed

lemma on_grid_mult: "on_grid m x \<Longrightarrow> on_grid n y \<Longrightarrow> on_grid (m + n) (x * y)"
proof -
  assume "on_grid m x" "on_grid n y"
  then obtain j k where "x = of_int j * 10 powi m" "y = of_int k * 10 powi n" by (auto simp: on_grid_def)
  then have "x * y = of_int (j * k) * 10 powi (m + n)" by (simp add: power_int_add)
  then show ?thesis unfolding on_grid_def by blast
qed

lemma on_grid_positive: "on_grid u x \<Longrightarrow> 0 < x \<Longrightarrow> 10 powi u \<le> x"
proof -
  assume "on_grid u x" and x: "0 < x"
  then obtain k where k: "x = of_int k * 10 powi u" by (auto simp: on_grid_def)
  then have "0 < k" using x powi_10_pos [of u] by (auto simp: zero_less_mult_iff)
  then have "(1 :: rat) \<le> of_int k" by simp
  then show ?thesis using k mult_right_mono [of 1 "of_int k :: rat" "10 powi u"] by simp
qed

lemma sized_mono: "sized m b j x \<Longrightarrow> j \<le> k \<Longrightarrow> 0 \<le> b \<Longrightarrow> sized m b k x"
  unfolding sized_def by (meson mult_right_mono of_nat_mono order_trans)

lemma capacity_fits: "capacity p m b n \<Longrightarrow> on_grid m x \<Longrightarrow> \<bar>x\<bar> \<le> of_nat k * b \<Longrightarrow> k \<le> n \<Longrightarrow> fits p x"
proof -
  assume cap: "capacity p m b n" and x: "on_grid m x" "\<bar>x\<bar> \<le> of_nat k * b" and "k \<le> n"
  have "of_nat k * b \<le> of_nat n * b" using cap \<open>k \<le> n\<close> by (intro mult_right_mono) (simp_all add: capacity_def)
  then have "\<bar>x\<bar> < 10 powi (m + int p)" using x(2) cap unfolding capacity_def by linarith
  then show ?thesis using x(1) by (intro on_grid_fits [of m x "m + int p"]) simp_all
qed

lemma sized_dec0 [simp]: "sized m b 0 dec0"
  by (simp add: sized_def)

lemma sized_add:
  assumes "capacity p m b n" and "sized m b j x" and "sized m b k y" and "j + k \<le> n"
  shows "sized m b (j + k) (dec_add p x y)" and "dec_val (dec_add p x y) = dec_val x + dec_val y"
proof -
  have g: "on_grid m (dec_val x + dec_val y)" using assms(2,3) by (auto simp: sized_def intro: on_grid_add)
  have s: "\<bar>dec_val x + dec_val y\<bar> \<le> of_nat (j + k) * b"
    using assms(2,3) abs_triangle_ineq [of "dec_val x" "dec_val y"] by (simp add: sized_def distrib_right)
  show v: "dec_val (dec_add p x y) = dec_val x + dec_val y"
    using assms capacity_fits [OF assms(1) g s assms(4)] by (intro dec_add_exact) (auto simp: sized_def capacity_def)
  show "sized m b (j + k) (dec_add p x y)" using g s v assms(2,3) by (simp add: sized_def)
qed

lemma sized_unary:
  assumes "capacity p m b n" and "sized m b k x" and "k \<le> n"
  shows "sized m b k (dec_neg p x)" and "dec_val (dec_neg p x) = - dec_val x"
    and "sized m b k (dec_abs p x)" and "dec_val (dec_abs p x) = \<bar>dec_val x\<bar>"
    and "sized m b k (dec_copy_negate x)"
proof -
  have f: "fits p (dec_val x)" using assms by (intro capacity_fits [OF assms(1)]) (auto simp: sized_def)
  show n: "dec_val (dec_neg p x) = - dec_val x" and a: "dec_val (dec_abs p x) = \<bar>dec_val x\<bar>"
    using dec_neg_exact [OF _ _ f] assms by (auto simp: sized_def capacity_def)
  have fin: "is_finite (dec_neg p x)" "is_finite (dec_abs p x)" "is_finite (dec_copy_negate x)"
    using assms(2) by (cases x; simp add: sized_def)+
  show "sized m b k (dec_neg p x)" "sized m b k (dec_abs p x)" "sized m b k (dec_copy_negate x)"
    using assms(2) fin by (simp_all add: sized_def n a on_grid_minus on_grid_abs)
qed

lemma sized_sub:
  assumes "capacity p m b n" and "sized m b j x" and "sized m b k y" and "j + k \<le> n"
  shows "sized m b (j + k) (dec_sub p x y)" and "dec_val (dec_sub p x y) = dec_val x - dec_val y"
  unfolding dec_sub_def
  using sized_add [OF assms(1,2) sized_unary(5) [OF assms(1,3)] assms(4)] assms(4) by simp_all

lemma sized_foldl:
  assumes "capacity p m b n" and "list_all (sized m b 1) xs" and "sized m b j a" and "j + length xs \<le> n"
  shows "sized m b (j + length xs) (foldl (dec_add p) a xs) \<and>
    dec_val (foldl (dec_add p) a xs) = dec_val a + sum_list (map dec_val xs)"
  using assms(2-4)
proof (induction xs arbitrary: a j)
  case (Cons x xs)
  have step: "sized m b (j + 1) (dec_add p a x)" "dec_val (dec_add p a x) = dec_val a + dec_val x"
    using sized_add [OF assms(1), of j a 1 x] Cons.prems by simp_all
  show ?case using Cons.IH [OF _ step(1)] Cons.prems step(2) by simp
qed simp

lemma sized_sum:
  assumes "capacity p m b n" and "list_all (sized m b 1) xs" and "length xs \<le> n"
  shows "sized m b (length xs) (dec_sum p xs)" and "dec_val (dec_sum p xs) = sum_list (map dec_val xs)"
  using sized_foldl [OF assms(1,2), of 0 dec0] assms(3) by (simp_all add: dec_sum_def)

section \<open>Rounded quotients\<close>

definition rounds :: "nat \<Rightarrow> rat \<Rightarrow> rat \<Rightarrow> bool" where
  "rounds p x q \<longleftrightarrow> (\<forall>y. fits p y \<longrightarrow> (x \<le> y \<longrightarrow> q \<le> y) \<and> (y \<le> x \<longrightarrow> y \<le> q))"

lemma rounds_abs: "rounds p x q \<Longrightarrow> rounds p \<bar>x\<bar> \<bar>q\<bar>"
proof -
  assume r: "rounds p x q"
  have up: "\<bar>q\<bar> \<le> y" if y: "fits p y" "\<bar>x\<bar> \<le> y" for y
  proof -
    have "q \<le> y" "- y \<le> q" using r y fits_uminus [of p y] unfolding rounds_def by fastforce+
    then show ?thesis by linarith
  qed
  have down: "y \<le> \<bar>q\<bar>" if y: "fits p y" "y \<le> \<bar>x\<bar>" for y
  proof (cases "y \<le> x")
    case True
    then have "y \<le> q" using r y unfolding rounds_def by blast
    then show ?thesis by linarith
  next
    case False
    then have "x \<le> - y" using y by linarith
    then have "q \<le> - y" using r y(1) fits_uminus [of p y] unfolding rounds_def by blast
    then show ?thesis by linarith
  qed
  show ?thesis unfolding rounds_def using up down by blast
qed

lemma rounds_trans: "rounds p x q \<Longrightarrow> rounds p q r \<Longrightarrow> rounds p x r"
  unfolding rounds_def by blast

lemma dec_abs_rounds:
  assumes "is_finite d" and "0 < p"
  shows "rounds p \<bar>dec_val d\<bar> (dec_val (dec_abs p d))" and "is_finite (dec_abs p d)"
proof -
  obtain s c e where d: "d = Dec s c e" using assms(1) by (cases d) auto
  have "\<bar>dec_val d\<bar> = dec_val (Dec False c e)" by (simp add: d abs_mult)
  then show "rounds p \<bar>dec_val d\<bar> (dec_val (dec_abs p d))"
    unfolding rounds_def d using round_le [OF assms(2), of _ False c e] round_ge [OF assms(2), of _ False c e] by simp
qed (use assms in simp)

lemma fraction_rounds:
  assumes "is_finite a" and "is_finite b" and "0 < dec_val b" and "0 < p"
  obtains q where "fraction_of p a b = Inr q" "dec_div p a b = Inr q" "is_finite q" "rounds p (dec_val a / dec_val b) (dec_val q)"
proof (rule dec_div_bounds [OF assms(1,2) _ assms(4)])
  show "dec_val b \<noteq> 0" using assms(3) by simp
  fix d assume d: "dec_div p a b = Inr d" "is_finite d"
    "\<And>x. fits p x \<Longrightarrow> dec_val a / dec_val b \<le> x \<Longrightarrow> dec_val d \<le> x"
    "\<And>x. fits p x \<Longrightarrow> x \<le> dec_val a / dec_val b \<Longrightarrow> x \<le> dec_val d"
  have "\<not> dec_zero b" using assms(2,3) by (simp add: dec_zero_def dec_eq_def)
  then show ?thesis using d that [of d] by (simp add: fraction_of_def rounds_def)
qed

text \<open>
  A threshold \<open>t\<close> and a quotient \<open>a / e\<close> that differ do so by at least one unit of the grid of
  \<open>a - t * e\<close> divided by \<open>e\<close>, which the precision resolves.
\<close>

lemma rounds_decides:
  assumes "rounds p (a / e) q" and "0 < e" and "e < 10 powi h" and "on_grid u (a - t * e)"
    and "on_grid (u - h) t" and "\<bar>t\<bar> \<le> 1" and "u - h \<le> 0" and "1 - (u - h) \<le> int p"
  shows "q \<le> t \<longleftrightarrow> a \<le> t * e" and "t \<le> q \<longleftrightarrow> t * e \<le> a"
proof -
  let ?g = "10 powi (u - h) :: rat"
  have unit: "on_grid (u - h) ?g" unfolding on_grid_def by (rule exI [of _ 1]) simp
  have g1: "?g \<le> 1" using assms(7) power_int_increasing [of "u - h" 0 "10 :: rat"] by simp
  have g0: "0 < ?g" by simp
  have fits: "fits p t" "fits p (t + ?g)" "fits p (t - ?g)"
  proof -
    have "on_grid (u - h) (t - ?g)" using on_grid_add [OF assms(5) on_grid_minus [OF unit]] by simp
    moreover have "\<bar>t\<bar> < 10 powi 1" "\<bar>t + ?g\<bar> < 10 powi 1" "\<bar>t - ?g\<bar> < 10 powi 1"
      using assms(6) g1 g0 unfolding power_int_1_right abs_less_iff abs_le_iff by linarith+
    ultimately show "fits p t" "fits p (t + ?g)" "fits p (t - ?g)"
      using assms(5) on_grid_add [OF assms(5) unit] assms(8) by (auto intro!: on_grid_fits)
  qed
  have gap: "?g \<le> d / e" if "on_grid u d" "0 < d" for d
  proof -
    have "10 powi u \<le> d" by (rule on_grid_positive [OF that])
    moreover have "?g * 10 powi h = 10 powi u" by (simp flip: power_int_add)
    moreover have "?g * e \<le> ?g * 10 powi h" using assms(3) g0 by (intro mult_left_mono) simp_all
    ultimately have "?g * e \<le> d" by linarith
    then show ?thesis using assms(2) by (simp add: pos_le_divide_eq)
  qed
  have split: "a / e = t + (a - t * e) / e" using assms(2) by (simp add: field_simps)
  show "q \<le> t \<longleftrightarrow> a \<le> t * e"
  proof
    assume q: "q \<le> t"
    show "a \<le> t * e"
    proof (rule ccontr)
      assume "\<not> a \<le> t * e"
      then have "t + ?g \<le> a / e" using gap [OF assms(4)] split by simp
      then have "t + ?g \<le> q" using assms(1) fits(2) unfolding rounds_def by blast
      then show False using q g0 by linarith
    qed
  next
    assume "a \<le> t * e"
    then have "a / e \<le> t" using assms(2) by (simp add: pos_divide_le_eq)
    then show "q \<le> t" using assms(1) fits(1) unfolding rounds_def by blast
  qed
  show "t \<le> q \<longleftrightarrow> t * e \<le> a"
  proof
    assume q: "t \<le> q"
    show "t * e \<le> a"
    proof (rule ccontr)
      assume "\<not> t * e \<le> a"
      then have "?g \<le> (t * e - a) / e" using gap [of "t * e - a"] on_grid_minus [OF assms(4)] by simp
      moreover have "(t * e - a) / e = - ((a - t * e) / e)" by (metis minus_diff_eq minus_divide_left)
      ultimately have "a / e \<le> t - ?g" using split by linarith
      then have "q \<le> t - ?g" using assms(1) fits(3) unfolding rounds_def by blast
      then show False using q g0 by linarith
    qed
  next
    assume "t * e \<le> a"
    then have "t \<le> a / e" using assms(2) by (simp add: pos_le_divide_eq)
    then show "t \<le> q" using assms(1) fits(1) unfolding rounds_def by blast
  qed
qed

end
