(* ===== verification/Risk_Soundness.thy ===== *)
theory Risk_Soundness
  imports Risk_Exact
begin

text \<open>
  What an accepted decision of the pre-trade evaluator means: exact inequalities over rational
  amounts, stated independently of decimal contexts and rounding.
\<close>

section \<open>Well-formed evidence\<close>

definition position_ok :: "position_evidence \<Rightarrow> bool" where
  "position_ok x = is_finite (po_signed_market_value x)"

definition pending_ok :: "pending_order_evidence \<Rightarrow> bool" where
  "pending_ok x \<longleftrightarrow> is_finite (pn_remaining_notional x) \<and> 0 \<le> dec_val (pn_remaining_notional x)"

definition account_ok :: "account_evidence \<Rightarrow> bool" where
  "account_ok a \<longleftrightarrow> is_finite (ae_equity a) \<and> 0 < dec_val (ae_equity a) \<and> is_finite (ae_cash a) \<and>
     0 \<le> dec_val (ae_cash a) \<and> is_finite (ae_estimated_order_costs a) \<and> 0 \<le> dec_val (ae_estimated_order_costs a) \<and>
     pred_option is_finite (ae_invested_amount a) \<and> pred_option is_finite (ae_unrealised_pnl a) \<and>
     pred_option is_finite (ae_daily_pnl a) \<and>
     pred_option (\<lambda>d. is_finite d \<and> 0 < dec_val d) (ae_peak_equity a) \<and>
     (ae_contract_version a = legacy_contract \<and> ae_component_time a = None \<and> ae_daily_pnl a \<noteq> None \<and> ae_peak_equity a \<noteq> None \<or>
      ae_contract_version a = versioned_contract) \<and>
     (ae_observed_at a = None \<longleftrightarrow> ae_component_time a \<noteq> None) \<and> \<not> blank (ae_snapshot_id a) \<and>
     list_all position_ok (ae_positions a) \<and> list_all pending_ok (ae_pending_orders a)"

definition quote_ok :: "quote_evidence \<Rightarrow> bool" where
  "quote_ok q \<longleftrightarrow> is_finite (qe_ask q) \<and> 0 < dec_val (qe_ask q) \<and> \<not> blank (qe_quote_id q)"

lemma PositionEvidence_ok: "PositionEvidence u sector v i j = Inr x \<Longrightarrow> position_ok x"
  by (auto simp: PositionEvidence_def position_ok_def dest: decimal_value_finite)

lemma PendingOrderEvidence_ok: "PendingOrderEvidence i u sector side v = Inr x \<Longrightarrow> pending_ok x"
  by (auto simp: PendingOrderEvidence_def pending_ok_def not_less dest: decimal_value_finite)

lemma QuoteEvidence_ok: "QuoteEvidence i u t b a s = Inr q \<Longrightarrow> quote_ok q"
  by (auto simp: QuoteEvidence_def quote_ok_def dest: decimal_value_finite)

lemma optR_finite: "optR (\<lambda>x. decimal_value x f) r = Inr y \<Longrightarrow> pred_option is_finite y"
  by (cases r) (auto dest: decimal_value_finite)

lemma account_checks_Inr:
  "account_checks a = Inr b \<longleftrightarrow> b = a \<and> \<not> blank (ae_snapshot_id a) \<and> ae_currency a \<noteq> [] \<and>
     \<not> dec_le (ae_equity a) dec0 \<and> pred_option (\<lambda>x. \<not> dec_le x dec0) (ae_peak_equity a) \<and>
     \<not> dec_lt (ae_cash a) dec0 \<and> \<not> dec_lt (ae_estimated_order_costs a) dec0 \<and>
     (ae_contract_version a = legacy_contract \<longrightarrow> ae_daily_pnl a \<noteq> None \<and> ae_peak_equity a \<noteq> None)"
  by (auto simp: account_checks_def split: option.splits)

lemma legacy_not_versioned [simp]: "legacy_contract \<noteq> versioned_contract"
  by (simp add: legacy_contract_def versioned_contract_def)

lemma AccountEvidence_ok:
  assumes "AccountEvidence r = Inr a" and "list_all position_ok (rae_positions r)" and "list_all pending_ok (rae_pending_orders r)"
  shows "account_ok a"
proof -
  from assms(1) obtain env observed equity cash daily peak invested unrealised costs issuers where
    contract: "rae_contract_version r = legacy_contract \<or> rae_contract_version r = versioned_contract"
    and time: "rae_observed_at r = None \<Longrightarrow> rae_contract_version r = versioned_contract \<and> rae_component_time r \<noteq> None"
      "optR (\<lambda>t. aware_utc t ''observed_at'') (rae_observed_at r) = Inr observed"
      "rae_component_time r = None \<or> observed = None"
    and fin: "decimal_value (rae_equity r) ''equity'' = Inr equity" "decimal_value (rae_cash r) ''cash'' = Inr cash"
      "optR (\<lambda>x. decimal_value x ''daily_pnl'') (rae_daily_pnl r) = Inr daily"
      "optR (\<lambda>x. decimal_value x ''peak_equity'') (rae_peak_equity r) = Inr peak"
      "optR (\<lambda>x. decimal_value x ''invested_amount'') (rae_invested_amount r) = Inr invested"
      "optR (\<lambda>x. decimal_value x ''unrealised_pnl'') (rae_unrealised_pnl r) = Inr unrealised"
      "decimal_value (rae_estimated_order_costs r) ''estimated_order_costs'' = Inr costs"
    and a: "account_checks \<lparr>ae_snapshot_id = rae_snapshot_id r, ae_environment = env, ae_observed_at = observed,
        ae_currency = py_upper (py_strip (rae_currency r)), ae_equity = equity, ae_cash = cash,
        ae_daily_pnl = daily, ae_peak_equity = peak, ae_positions = rae_positions r,
        ae_pending_orders = rae_pending_orders r, ae_pending_orders_complete = rae_pending_orders_complete r,
        ae_contract_version = rae_contract_version r, ae_account_id = rae_account_id r,
        ae_component_time = rae_component_time r, ae_performance = rae_performance r,
        ae_invested_amount = invested, ae_unrealised_pnl = unrealised, ae_estimated_order_costs = costs,
        ae_positions_complete = rae_positions_complete r, ae_issuer_by_instrument = issuers\<rparr> = Inr a"
    unfolding AccountEvidence_def bindR_eq_Inr raiseIf_eq_Inr
    by (elim conjE exE) (rule that; (assumption | blast))
  have obs: "observed = None \<longleftrightarrow> rae_observed_at r = None" using time(2) by (cases "rae_observed_at r") auto
  have finite: "is_finite equity" "is_finite cash" "is_finite costs" "pred_option is_finite daily" "pred_option is_finite peak"
    "pred_option is_finite invested" "pred_option is_finite unrealised"
    using fin by (auto dest: decimal_value_finite optR_finite)
  have peak: "pred_option (\<lambda>d. is_finite d \<and> 0 < dec_val d) peak"
    using finite(5) a unfolding account_checks_Inr by (cases peak) (auto simp: not_le)
  show ?thesis
    using a finite peak contract time obs assms(2,3) unfolding account_checks_Inr account_ok_def
    by (auto simp: not_le not_less)
qed

section \<open>Pending orders\<close>

lemma dict_put_values: "snd ` set (dict_put d k v) \<subseteq> insert v (snd ` set d)" "length (dict_put d k v) \<le> Suc (length d)"
  by (induction d k v rule: dict_put.induct) auto

lemma pending_fold_values:
  "snd ` set (fst (pending_fold d c xs)) \<subseteq> snd ` set d \<union> set xs \<and> length (fst (pending_fold d c xs)) \<le> length d + length xs"
proof (induction d c xs rule: pending_fold.induct)
  case (2 d c x xs)
  let ?d = "dict_put d (pn_broker_order_id x) x"
  have "snd ` set (fst (pending_fold d c (x # xs))) \<subseteq> snd ` set ?d \<union> set xs"
    "length (fst (pending_fold d c (x # xs))) \<le> length ?d + length xs" using 2 by simp_all
  then show ?case using dict_put_values [of d "pn_broker_order_id x" x] by auto
qed simp

lemma pending_orders_subset: "set (pending_orders a) \<subseteq> set (ae_pending_orders a)"
  and pending_orders_length: "length (pending_orders a) \<le> length (ae_pending_orders a)"
  using pending_fold_values [of "[]" False "ae_pending_orders a"] by (auto simp: pending_orders_def)

lemma pending_eq_trans:
  "pending_eq x y \<Longrightarrow> pending_eq y z \<Longrightarrow> is_finite (pn_remaining_notional z) \<Longrightarrow> pending_eq x z"
  unfolding pending_eq_def by (auto intro: dec_eq_trans)

lemma pending_fold_flag: "\<not> snd (pending_fold d c xs) \<Longrightarrow> \<not> c"
  by (induction d c xs rule: pending_fold.induct) auto

text \<open>Without a contradiction, every reported pending order equals the one kept for its id.\<close>

lemma pending_fold_covers:
  assumes "\<not> snd (pending_fold d c xs)" and "map_of d k = Some y \<or> y \<in> set xs \<and> pn_broker_order_id y = k"
    and "is_finite (pn_remaining_notional y)" and "list_all pending_ok xs"
  shows "\<exists>z. map_of (fst (pending_fold d c xs)) k = Some z \<and> pending_eq y z \<and> is_finite (pn_remaining_notional z)"
  using assms
proof (induction d c xs arbitrary: y rule: pending_fold.induct)
  case (1 d c)
  then show ?case by (auto simp: pending_eq_def)
next
  case (2 d c x xs)
  let ?d = "dict_put d (pn_broker_order_id x) x"
  have clean: "\<forall>y. map_of d (pn_broker_order_id x) = Some y \<longrightarrow> pending_eq y x"
    using pending_fold_flag [OF 2(2) [unfolded pending_fold.simps]] by auto
  have "\<exists>y'. (map_of ?d k = Some y' \<or> y' \<in> set xs \<and> pn_broker_order_id y' = k) \<and> pending_eq y y' \<and> is_finite (pn_remaining_notional y')"
  proof (cases "map_of d k = Some y \<and> k = pn_broker_order_id x")
    case True
    then have "pending_eq y x" using clean by blast
    then show ?thesis using True 2(5) by (intro exI [of _ x]) (simp add: map_of_dict_put pending_ok_def)
  next
    case False
    have "pending_eq y y" using 2(4) by (simp add: pending_eq_def)
    then show ?thesis using False 2(3,4) by (intro exI [of _ y]) (auto simp: map_of_dict_put)
  qed
  then obtain y' where y': "map_of ?d k = Some y' \<or> y' \<in> set xs \<and> pn_broker_order_id y' = k" "pending_eq y y'"
    "is_finite (pn_remaining_notional y')" by blast
  from 2(1) [OF _ y'(1,3)] 2(2,5) obtain z where
    "map_of (fst (pending_fold d c (x # xs))) k = Some z" "pending_eq y' z" "is_finite (pn_remaining_notional z)" by auto
  then show ?case using pending_eq_trans [OF y'(2)] by blast
qed

lemma pending_covered:
  assumes "\<not> contradictory_pending a" and "list_all pending_ok (ae_pending_orders a)" and "y \<in> set (ae_pending_orders a)"
  shows "\<exists>z\<in>set (pending_orders a). pending_eq y z"
proof -
  have "is_finite (pn_remaining_notional y)" using assms(2,3) by (auto simp: list_all_iff pending_ok_def)
  then obtain z where "map_of (fst (pending_fold [] False (ae_pending_orders a))) (pn_broker_order_id y) = Some z" "pending_eq y z"
    using pending_fold_covers [of "[]" False "ae_pending_orders a" "pn_broker_order_id y" y] assms
    by (auto simp: contradictory_pending_def)
  then show ?thesis unfolding pending_orders_def by (force dest: map_of_SomeD)
qed

section \<open>The precision is enough\<close>

lemma foldl_max_ge: "x \<in> set (y # ys) \<Longrightarrow> x \<le> foldl max y ys" for x :: int
proof (induction ys arbitrary: x y)
  case (Cons z zs)
  show ?case using Cons.prems Cons.IH [of x "max y z"] Cons.IH [of "max y z" "max y z"] by auto
qed simp

lemma foldl_min_le: "x \<in> set (y # ys) \<Longrightarrow> foldl min y ys \<le> x" for x :: int
proof (induction ys arbitrary: x y)
  case (Cons z zs)
  show ?case using Cons.prems Cons.IH [of x "min y z"] Cons.IH [of "min y z" "min y z"] by auto
qed simp

lemma list_max_ge: "x \<in> set xs \<Longrightarrow> x \<le> list_max xs"
  and list_min_le: "x \<in> set xs \<Longrightarrow> list_min xs \<le> x"
  by (cases xs; simp add: list_max_def list_min_def foldl_max_ge foldl_min_le)+

definition risk_top :: "order_intent \<Rightarrow> account_evidence \<Rightarrow> quote_evidence \<Rightarrow> int" where
  "risk_top intent account quote = list_max (map adjusted (risk_decimals intent account quote))"

definition risk_grid :: "order_intent \<Rightarrow> account_evidence \<Rightarrow> quote_evidence \<Rightarrow> int" where
  "risk_grid intent account quote = list_min (map dec_exp (risk_decimals intent account quote))"

text \<open>Amounts of an ordinary account: equity of at least one unit and costs not coarser than units.\<close>

definition ordinary :: "order_intent \<Rightarrow> account_evidence \<Rightarrow> quote_evidence \<Rightarrow> bool" where
  "ordinary intent account quote \<longleftrightarrow> account_ok account \<and> quote_ok quote \<and> is_finite (oi_sizing_value intent) \<and>
     1 \<le> dec_val (ae_equity account) \<and> dec_exp (ae_estimated_order_costs account) \<le> 0"

abbreviation risk_bound :: "order_intent \<Rightarrow> account_evidence \<Rightarrow> quote_evidence \<Rightarrow> rat" where
  "risk_bound intent account quote \<equiv> 10 powi (2 * risk_top intent account quote + 2)"

definition amount :: "order_intent \<Rightarrow> account_evidence \<Rightarrow> quote_evidence \<Rightarrow> nat \<Rightarrow> decimal \<Rightarrow> bool" where
  "amount intent account quote = sized (2 * risk_grid intent account quote) (risk_bound intent account quote)"

definition terms :: "order_intent \<Rightarrow> account_evidence \<Rightarrow> quote_evidence \<Rightarrow> nat" where
  "terms intent account quote = length (risk_decimals intent account quote)"

lemma account_finite:
  assumes "account_ok a"
  shows "is_finite (ae_equity a)" "is_finite (ae_cash a)" "is_finite (ae_estimated_order_costs a)"
    "x \<in> set (ae_positions a) \<Longrightarrow> is_finite (po_signed_market_value x)"
    "y \<in> set (ae_pending_orders a) \<Longrightarrow> is_finite (pn_remaining_notional y)"
  using assms by (auto simp: account_ok_def position_ok_def pending_ok_def list_all_iff)

lemma risk_decimals_mem:
  assumes "ordinary intent account quote"
  shows "d \<in> set (risk_decimals intent account quote) \<Longrightarrow> is_finite d"
    and "ae_equity account \<in> set (risk_decimals intent account quote)"
    and "ae_cash account \<in> set (risk_decimals intent account quote)"
    and "oi_sizing_value intent \<in> set (risk_decimals intent account quote)"
    and "qe_ask quote \<in> set (risk_decimals intent account quote)"
    and "ae_estimated_order_costs account \<in> set (risk_decimals intent account quote)"
    and "x \<in> set (ae_positions account) \<Longrightarrow> po_signed_market_value x \<in> set (risk_decimals intent account quote)"
    and "y \<in> set (ae_pending_orders account) \<Longrightarrow> pn_remaining_notional y \<in> set (risk_decimals intent account quote)"
    and "ae_invested_amount account = Some v \<Longrightarrow> v \<in> set (risk_decimals intent account quote)"
    and "ae_unrealised_pnl account = Some v \<Longrightarrow> v \<in> set (risk_decimals intent account quote)"
proof -
  have ok: "account_ok account" using assms by (simp add: ordinary_def)
  note fin = account_finite [OF ok]
  show "d \<in> set (risk_decimals intent account quote) \<Longrightarrow> is_finite d"
    unfolding risk_decimals_def set_filter by blast
  show "ae_equity account \<in> set (risk_decimals intent account quote)"
    "ae_cash account \<in> set (risk_decimals intent account quote)"
    "ae_estimated_order_costs account \<in> set (risk_decimals intent account quote)" by (simp_all add: risk_decimals_def fin)
  show "oi_sizing_value intent \<in> set (risk_decimals intent account quote)"
    "qe_ask quote \<in> set (risk_decimals intent account quote)"
    using assms by (simp_all add: risk_decimals_def ordinary_def quote_ok_def)
  show "x \<in> set (ae_positions account) \<Longrightarrow> po_signed_market_value x \<in> set (risk_decimals intent account quote)"
    "y \<in> set (ae_pending_orders account) \<Longrightarrow> pn_remaining_notional y \<in> set (risk_decimals intent account quote)"
    by (simp_all add: risk_decimals_def fin)
  show "ae_invested_amount account = Some v \<Longrightarrow> v \<in> set (risk_decimals intent account quote)"
    "ae_unrealised_pnl account = Some v \<Longrightarrow> v \<in> set (risk_decimals intent account quote)"
    using ok by (simp_all add: risk_decimals_def account_ok_def)
qed

lemma terms_enough:
  assumes "ordinary intent account quote"
  shows "length (ae_positions account) + length (pending_orders account) + 5 \<le> terms intent account quote"
proof -
  have all: "filter is_finite (map po_signed_market_value (ae_positions account)) = map po_signed_market_value (ae_positions account)"
    "filter is_finite (map pn_remaining_notional (ae_pending_orders account)) = map pn_remaining_notional (ae_pending_orders account)"
    using assms account_finite [of account] by (auto simp: ordinary_def filter_id_conv)
  have "terms intent account quote \<ge> 5 + length (ae_positions account) + length (ae_pending_orders account)"
    using assms by (simp add: terms_def risk_decimals_def all account_finite ordinary_def quote_ok_def)
  then show ?thesis using pending_orders_length [of account] by linarith
qed

lemma risk_capacity:
  assumes "ordinary intent account quote"
  shows "risk_grid intent account quote \<le> 0" and "0 \<le> risk_top intent account quote"
    and "d \<in> set (risk_decimals intent account quote) \<Longrightarrow>
      on_grid (risk_grid intent account quote) (dec_val d) \<and> \<bar>dec_val d\<bar> < 10 powi (risk_top intent account quote + 1)"
    and "2 * (risk_top intent account quote - risk_grid intent account quote + 1) + int (terms intent account quote)
      \<le> int (risk_precision intent account quote)"
    and "capacity (risk_precision intent account quote) (2 * risk_grid intent account quote)
      (risk_bound intent account quote) (terms intent account quote)"
proof -
  let ?L = "risk_top intent account quote" and ?S = "risk_grid intent account quote"
    and ?n = "terms intent account quote" and ?p = "risk_precision intent account quote"
  note mem = risk_decimals_mem [OF assms]
  have top: "adjusted d \<le> ?L" and low: "?S \<le> dec_exp d" if "d \<in> set (risk_decimals intent account quote)" for d
    using that by (auto simp: risk_top_def risk_grid_def intro: list_max_ge list_min_le)
  show S0: "?S \<le> 0" using low [OF mem(6)] assms by (simp add: ordinary_def)
  show L0: "0 \<le> ?L"
  proof (rule ccontr)
    assume "\<not> 0 \<le> ?L"
    then have "(10 :: rat) powi (adjusted (ae_equity account) + 1) \<le> 10 powi 0"
      using top [OF mem(2)] by (intro power_int_increasing) simp_all
    then show False using adjusted_bound [OF mem(1) [OF mem(2)]] assms by (simp add: ordinary_def)
  qed
  show "on_grid ?S (dec_val d) \<and> \<bar>dec_val d\<bar> < 10 powi (?L + 1)"
    if d: "d \<in> set (risk_decimals intent account quote)"
  proof
    show "on_grid ?S (dec_val d)" by (rule on_grid_dec [OF mem(1) [OF d] low [OF d]])
    have "(10 :: rat) powi (adjusted d + 1) \<le> 10 powi (?L + 1)" using top [OF d] by (intro power_int_increasing) simp_all
    then show "\<bar>dec_val d\<bar> < 10 powi (?L + 1)" using adjusted_bound [OF mem(1) [OF d]] by linarith
  qed
  show p: "2 * (?L - ?S + 1) + int ?n \<le> int ?p"
    unfolding risk_precision_def Let_def risk_top_def risk_grid_def terms_def by (simp add: le_max_iff_disj)
  have "0 < ?p" by (simp add: risk_precision_def Let_def less_max_iff_disj)
  moreover have "of_nat ?n * risk_bound intent account quote < (10 powi (2 * ?S + int ?p) :: rat)"
  proof -
    have "(of_nat k :: rat) < 10 ^ k" for k
    proof (induction k)
      case (Suc k)
      have "(1 :: rat) \<le> 10 ^ k" by simp
      then have "1 + of_nat k < (10 * 10 ^ k :: rat)" using Suc.IH by linarith
      then show ?case by simp
    qed simp
    then have "(of_nat ?n :: rat) < 10 powi int ?n" by simp
    then have "of_nat ?n * risk_bound intent account quote < (10 powi int ?n * 10 powi (2 * ?L + 2) :: rat)"
      by (intro mult_strict_right_mono) simp_all
    also have "\<dots> = 10 powi (int ?n + (2 * ?L + 2))" by (simp add: power_int_add)
    also have "\<dots> \<le> 10 powi (2 * ?S + int ?p)" using p by (intro power_int_increasing) simp_all
    finally show ?thesis .
  qed
  ultimately show "capacity ?p (2 * ?S) (risk_bound intent account quote) ?n" by (simp add: capacity_def)
qed

lemma input_amount:
  assumes "ordinary intent account quote" and "d \<in> set (risk_decimals intent account quote)"
  shows "amount intent account quote 1 d"
proof -
  let ?L = "risk_top intent account quote" and ?S = "risk_grid intent account quote"
  note cap = risk_capacity [OF assms(1)]
  have "on_grid (2 * ?S) (dec_val d)" using cap(3) [OF assms(2)] cap(1) by (auto intro: on_grid_finer)
  moreover have "(10 :: rat) powi (?L + 1) \<le> risk_bound intent account quote"
    using cap(2) by (intro power_int_increasing) simp_all
  ultimately show ?thesis
    using cap(3) [OF assms(2)] risk_decimals_mem(1) [OF assms] by (simp add: amount_def sized_def)
qed

lemma product_amount:
  assumes "ordinary intent account quote" and "x \<in> set (risk_decimals intent account quote)"
    and "y \<in> set (risk_decimals intent account quote)"
  shows "amount intent account quote 1 (dec_mul (risk_precision intent account quote) x y)"
    and "dec_val (dec_mul (risk_precision intent account quote) x y) = dec_val x * dec_val y"
proof -
  let ?L = "risk_top intent account quote" and ?S = "risk_grid intent account quote"
  note cap = risk_capacity [OF assms(1)]
  have fin: "is_finite x" "is_finite y" using risk_decimals_mem(1) [OF assms(1)] assms(2,3) by blast+
  have grid: "on_grid (2 * ?S) (dec_val x * dec_val y)"
    using on_grid_mult [of ?S "dec_val x" ?S "dec_val y"] cap(3) [OF assms(2)] cap(3) [OF assms(3)] by (simp flip: mult_2)
  have "\<bar>dec_val x * dec_val y\<bar> \<le> 10 powi (?L + 1) * 10 powi (?L + 1)"
    unfolding abs_mult using cap(3) [OF assms(2)] cap(3) [OF assms(3)] by (intro mult_mono) simp_all
  also have "\<dots> = 10 powi ((?L + 1) + (?L + 1))" by (rule power_int_add [symmetric]) simp
  also have "(?L + 1) + (?L + 1) = 2 * ?L + 2" by simp
  finally have size: "\<bar>dec_val x * dec_val y\<bar> \<le> of_nat 1 * risk_bound intent account quote" by simp
  have "1 \<le> terms intent account quote" using terms_enough [OF assms(1)] by linarith
  then show v: "dec_val (dec_mul (risk_precision intent account quote) x y) = dec_val x * dec_val y"
    using capacity_fits [OF cap(5) grid size] fin cap(5) by (intro dec_mul_exact) (simp_all add: capacity_def)
  show "amount intent account quote 1 (dec_mul (risk_precision intent account quote) x y)"
    using grid size fin v by (simp add: amount_def sized_def)
qed

section \<open>Exposures as rational numbers\<close>

definition exact_order :: "order_intent \<Rightarrow> account_evidence \<Rightarrow> quote_evidence \<Rightarrow> rat" where
  "exact_order intent account quote = (case oi_sizing_method intent of
       FIXED_NOTIONAL \<Rightarrow> dec_val (oi_sizing_value intent)
     | PERCENT_EQUITY \<Rightarrow> dec_val (ae_equity account) * dec_val (oi_sizing_value intent)
     | UNITS \<Rightarrow> dec_val (qe_ask quote) * dec_val (oi_sizing_value intent))"

definition held :: "(position_evidence \<Rightarrow> bool) \<Rightarrow> account_evidence \<Rightarrow> rat" where
  "held P account = sum_list (map (\<lambda>x. \<bar>dec_val (po_signed_market_value x)\<bar>) (filter P (ae_positions account)))"

definition reserved :: "(pending_order_evidence \<Rightarrow> bool) \<Rightarrow> account_evidence \<Rightarrow> rat" where
  "reserved P account = sum_list (map (\<lambda>x. dec_val (pn_remaining_notional x)) (filter P (pending_orders account)))"

definition exact_issuer :: "order_intent \<Rightarrow> instrument \<Rightarrow> account_evidence \<Rightarrow> quote_evidence \<Rightarrow> rat" where
  "exact_issuer intent ins account quote =
     held (\<lambda>x. po_internal_instrument_id x = in_internal_instrument_id ins) account +
     reserved (\<lambda>x. pn_internal_instrument_id x = in_internal_instrument_id ins) account + \<bar>exact_order intent account quote\<bar>"

definition exact_sector :: "order_intent \<Rightarrow> instrument \<Rightarrow> account_evidence \<Rightarrow> quote_evidence \<Rightarrow> rat" where
  "exact_sector intent ins account quote =
     held (\<lambda>x. po_sector x = in_sector ins) account + reserved (\<lambda>x. pn_sector x = in_sector ins) account +
     \<bar>exact_order intent account quote\<bar>"

definition exact_gross :: "order_intent \<Rightarrow> account_evidence \<Rightarrow> quote_evidence \<Rightarrow> rat" where
  "exact_gross intent account quote =
     held (\<lambda>_. True) account + reserved (\<lambda>_. True) account + \<bar>exact_order intent account quote\<bar>"

definition exact_net :: "order_intent \<Rightarrow> account_evidence \<Rightarrow> quote_evidence \<Rightarrow> rat" where
  "exact_net intent account quote =
     sum_list (map (\<lambda>x. dec_val (po_signed_market_value x)) (ae_positions account)) +
     sum_list (map (\<lambda>x. (if pn_side x = BUY then 1 else - 1) * dec_val (pn_remaining_notional x)) (pending_orders account)) +
     (if oi_side intent = BUY then 1 else - 1) * exact_order intent account quote"

definition exact_cash :: "order_intent \<Rightarrow> account_evidence \<Rightarrow> quote_evidence \<Rightarrow> rat" where
  "exact_cash intent account quote =
     dec_val (ae_cash account) - reserved (\<lambda>x. pn_side x = BUY) account -
     (if oi_side intent = BUY then exact_order intent account quote else 0) - dec_val (ae_estimated_order_costs account)"

lemma order_amount:
  assumes "ordinary intent account quote"
  shows "amount intent account quote 1 (order_notional (risk_precision intent account quote) intent account quote)"
    and "dec_val (order_notional (risk_precision intent account quote) intent account quote) = exact_order intent account quote"
  using input_amount [OF assms] product_amount [OF assms] risk_decimals_mem(2,4,5) [OF assms]
  by (cases "oi_sizing_method intent"; simp add: order_notional_def exact_order_def)+

lemma amount_add:
  assumes "ordinary intent account quote" and "amount intent account quote j x" and "amount intent account quote k y"
    and "j + k \<le> terms intent account quote"
  shows "amount intent account quote (j + k) (dec_add (risk_precision intent account quote) x y)"
    and "dec_val (dec_add (risk_precision intent account quote) x y) = dec_val x + dec_val y"
    and "amount intent account quote (j + k) (dec_sub (risk_precision intent account quote) x y)"
    and "dec_val (dec_sub (risk_precision intent account quote) x y) = dec_val x - dec_val y"
  using sized_add [OF risk_capacity(5) [OF assms(1)]] sized_sub [OF risk_capacity(5) [OF assms(1)]] assms(2-4)
  unfolding amount_def by blast+

lemma amount_abs:
  assumes "ordinary intent account quote" and "amount intent account quote 1 x"
  shows "amount intent account quote 1 (dec_abs (risk_precision intent account quote) x)"
    and "dec_val (dec_abs (risk_precision intent account quote) x) = \<bar>dec_val x\<bar>"
    and "amount intent account quote 1 (dec_neg (risk_precision intent account quote) x)"
    and "dec_val (dec_neg (risk_precision intent account quote) x) = - dec_val x"
proof -
  have "1 \<le> terms intent account quote" using terms_enough [OF assms(1)] by linarith
  note rules = sized_unary [OF risk_capacity(5) [OF assms(1)] assms(2) [unfolded amount_def] this]
  show "amount intent account quote 1 (dec_abs (risk_precision intent account quote) x)"
    "dec_val (dec_abs (risk_precision intent account quote) x) = \<bar>dec_val x\<bar>"
    "amount intent account quote 1 (dec_neg (risk_precision intent account quote) x)"
    "dec_val (dec_neg (risk_precision intent account quote) x) = - dec_val x"
    using rules unfolding amount_def by blast+
qed

text \<open>A sum over at most \<open>k\<close> items whose decimals are amounts of known value.\<close>

lemma amount_sum:
  assumes "ordinary intent account quote" and "\<And>x. x \<in> set xs \<Longrightarrow> amount intent account quote 1 (f x) \<and> dec_val (f x) = g x"
    and "length xs \<le> k" and "k \<le> terms intent account quote"
  shows "amount intent account quote k (dec_sum (risk_precision intent account quote) (map f xs))"
    and "dec_val (dec_sum (risk_precision intent account quote) (map f xs)) = sum_list (map g xs)"
proof -
  have "list_all (sized (2 * risk_grid intent account quote) (risk_bound intent account quote) 1) (map f xs)"
    using assms(2) by (simp add: list_all_iff amount_def)
  moreover have "length (map f xs) \<le> terms intent account quote" using assms(3,4) by simp
  ultimately have s: "amount intent account quote (length (map f xs)) (dec_sum (risk_precision intent account quote) (map f xs))"
    "dec_val (dec_sum (risk_precision intent account quote) (map f xs)) = sum_list (map dec_val (map f xs))"
    unfolding amount_def by (rule sized_sum [OF risk_capacity(5) [OF assms(1)]])+
  show "amount intent account quote k (dec_sum (risk_precision intent account quote) (map f xs))"
    using sized_mono [OF s(1) [unfolded amount_def length_map] assms(3)] by (simp add: amount_def)
  have "map dec_val (map f xs) = map g xs" using assms(2) by simp
  then show "dec_val (dec_sum (risk_precision intent account quote) (map f xs)) = sum_list (map g xs)" using s(2) by (simp only:)
qed

lemma position_amount:
  assumes "ordinary intent account quote" and "x \<in> set (ae_positions account)"
  shows "amount intent account quote 1 (po_signed_market_value x)"
  using input_amount [OF assms(1)] risk_decimals_mem(7) [OF assms] by blast

lemma pending_amount:
  assumes "ordinary intent account quote" and "x \<in> set (pending_orders account)"
  shows "amount intent account quote 1 (pn_remaining_notional x)"
    and "0 \<le> dec_val (pn_remaining_notional x)"
    and "amount intent account quote 1 (pending_value (risk_precision intent account quote) x)"
    and "dec_val (pending_value (risk_precision intent account quote) x) =
      (if pn_side x = BUY then 1 else - 1) * dec_val (pn_remaining_notional x)"
proof -
  have x: "x \<in> set (ae_pending_orders account)" using assms(2) pending_orders_subset by blast
  show am: "amount intent account quote 1 (pn_remaining_notional x)"
    using input_amount [OF assms(1)] risk_decimals_mem(8) [OF assms(1) x] by blast
  show "0 \<le> dec_val (pn_remaining_notional x)"
    using assms(1) x by (auto simp: ordinary_def account_ok_def list_all_iff pending_ok_def)
  show "amount intent account quote 1 (pending_value (risk_precision intent account quote) x)"
    "dec_val (pending_value (risk_precision intent account quote) x) =
      (if pn_side x = BUY then 1 else - 1) * dec_val (pn_remaining_notional x)"
    using am amount_abs [OF assms(1) am] by (simp_all add: pending_value_def)
qed

lemma held_sum:
  assumes "ordinary intent account quote"
  defines "p \<equiv> risk_precision intent account quote"
  shows "amount intent account quote (length (ae_positions account))
      (dec_sum p (map (\<lambda>x. dec_abs p (po_signed_market_value x)) (filter P (ae_positions account))))"
    and "dec_val (dec_sum p (map (\<lambda>x. dec_abs p (po_signed_market_value x)) (filter P (ae_positions account)))) = held P account"
proof -
  have each: "amount intent account quote 1 (dec_abs p (po_signed_market_value x)) \<and>
      dec_val (dec_abs p (po_signed_market_value x)) = \<bar>dec_val (po_signed_market_value x)\<bar>"
    if "x \<in> set (filter P (ae_positions account))" for x
    unfolding p_def using amount_abs(1,2) [OF assms(1) position_amount [OF assms(1)]] that by simp
  have "length (filter P (ae_positions account)) \<le> length (ae_positions account)"
    "length (ae_positions account) \<le> terms intent account quote" using terms_enough [OF assms(1)] by simp_all
  note rules = amount_sum [OF assms(1) each [unfolded p_def] this, folded p_def]
  show "amount intent account quote (length (ae_positions account))
      (dec_sum p (map (\<lambda>x. dec_abs p (po_signed_market_value x)) (filter P (ae_positions account))))"
    "dec_val (dec_sum p (map (\<lambda>x. dec_abs p (po_signed_market_value x)) (filter P (ae_positions account)))) = held P account"
    unfolding held_def by (rule rules; assumption)+
qed

lemma reserved_sum:
  assumes "ordinary intent account quote"
  defines "p \<equiv> risk_precision intent account quote"
  shows "amount intent account quote (length (pending_orders account))
      (dec_sum p (map (\<lambda>x. dec_abs p (pending_value p x)) (filter P (pending_orders account))))"
    and "dec_val (dec_sum p (map (\<lambda>x. dec_abs p (pending_value p x)) (filter P (pending_orders account)))) = reserved P account"
    and "amount intent account quote (length (pending_orders account))
      (dec_sum p (map pn_remaining_notional (filter P (pending_orders account))))"
    and "dec_val (dec_sum p (map pn_remaining_notional (filter P (pending_orders account)))) = reserved P account"
proof -
  have each: "amount intent account quote 1 (dec_abs p (pending_value p x)) \<and>
      dec_val (dec_abs p (pending_value p x)) = dec_val (pn_remaining_notional x)" if "x \<in> set (pending_orders account)" for x
    using pending_amount [OF assms(1) that] amount_abs [OF assms(1) pending_amount(3) [OF assms(1) that]]
    by (simp add: p_def)
  have enough: "length (pending_orders account) \<le> terms intent account quote" using terms_enough [OF assms(1)] by linarith
  show "amount intent account quote (length (pending_orders account))
      (dec_sum p (map (\<lambda>x. dec_abs p (pending_value p x)) (filter P (pending_orders account))))"
    "dec_val (dec_sum p (map (\<lambda>x. dec_abs p (pending_value p x)) (filter P (pending_orders account)))) = reserved P account"
    unfolding p_def reserved_def using each [unfolded p_def] enough by (intro amount_sum [OF assms(1)]; simp)+
  show "amount intent account quote (length (pending_orders account))
      (dec_sum p (map pn_remaining_notional (filter P (pending_orders account))))"
    "dec_val (dec_sum p (map pn_remaining_notional (filter P (pending_orders account)))) = reserved P account"
    unfolding p_def reserved_def using pending_amount(1) [OF assms(1)] enough by (intro amount_sum [OF assms(1)]; simp)+
qed

abbreviation amount_of :: "order_intent \<Rightarrow> account_evidence \<Rightarrow> quote_evidence \<Rightarrow> decimal \<Rightarrow> rat \<Rightarrow> bool" where
  "amount_of intent account quote d v \<equiv> amount intent account quote (terms intent account quote) d \<and> dec_val d = v"

lemma amount_mono: "amount intent account quote j x \<Longrightarrow> j \<le> k \<Longrightarrow> amount intent account quote k x"
  unfolding amount_def by (rule sized_mono) simp_all

lemma three_amounts:
  assumes ord: "ordinary intent account quote" and x: "amount intent account quote (length (ae_positions account)) x"
    and y: "amount intent account quote (length (pending_orders account)) y" and z: "amount intent account quote 1 z"
  defines "p \<equiv> risk_precision intent account quote"
  shows "amount_of intent account quote (dec_add p (dec_add p x y) z) (dec_val x + dec_val y + dec_val z)"
proof -
  let ?P = "length (ae_positions account)" and ?Q = "length (pending_orders account)"
  have enough: "?P + ?Q + 1 \<le> terms intent account quote" "?P + ?Q \<le> terms intent account quote"
    using terms_enough [OF ord] by linarith+
  note xy = amount_add(1,2) [OF ord x y enough(2), folded p_def]
  note xyz = amount_add(1,2) [OF ord xy(1) z enough(1), folded p_def]
  show ?thesis using amount_mono [OF xyz(1) enough(1)] xyz(2) xy(2) by simp
qed

lemma net_exact:
  assumes ord: "ordinary intent account quote"
  defines "p \<equiv> risk_precision intent account quote"
  shows "amount_of intent account quote (pj_net (project_exposures p intent ins account quote)) (exact_net intent account quote)"
proof -
  let ?order = "order_notional p intent account quote"
  let ?s = "if oi_side intent = BUY then ?order else dec_neg p ?order"
  have enough: "length (ae_positions account) \<le> terms intent account quote" "length (pending_orders account) \<le> terms intent account quote"
    using terms_enough [OF ord] by linarith+
  note order = order_amount [OF ord, folded p_def]
  have s: "amount intent account quote 1 ?s" "dec_val ?s = (if oi_side intent = BUY then 1 else - 1) * exact_order intent account quote"
    using order amount_abs(3,4) [OF ord order(1), folded p_def] by simp_all
  have pos: "amount intent account quote (length (ae_positions account)) (dec_sum p (map po_signed_market_value (ae_positions account)))"
    "dec_val (dec_sum p (map po_signed_market_value (ae_positions account))) =
       sum_list (map (\<lambda>x. dec_val (po_signed_market_value x)) (ae_positions account))"
    unfolding p_def using position_amount [OF ord] enough by (intro amount_sum [OF ord]; simp)+
  have pend: "amount intent account quote (length (pending_orders account)) (dec_sum p (map (pending_value p) (pending_orders account)))"
    "dec_val (dec_sum p (map (pending_value p) (pending_orders account))) =
       sum_list (map (\<lambda>x. (if pn_side x = BUY then 1 else - 1) * dec_val (pn_remaining_notional x)) (pending_orders account))"
    unfolding p_def using pending_amount(3,4) [OF ord] enough by (intro amount_sum [OF ord]; simp)+
  show ?thesis using three_amounts [OF ord pos(1) pend(1) s(1), folded p_def] pos(2) pend(2) s(2)
    by (simp add: project_exposures_def Let_def exact_net_def)
qed

lemma cash_exact:
  assumes ord: "ordinary intent account quote"
  defines "p \<equiv> risk_precision intent account quote"
  shows "amount_of intent account quote (pj_cash (project_exposures p intent ins account quote)) (exact_cash intent account quote)"
proof -
  let ?Q = "length (pending_orders account)"
    and ?b = "dec_sum p (map pn_remaining_notional (filter (\<lambda>x. pn_side x = BUY) (pending_orders account)))"
    and ?o = "if oi_side intent = BUY then order_notional p intent account quote else dec0"
  note io = input_amount [OF ord] and reserved = reserved_sum(3,4) [OF ord, folded p_def]
  have enough: "1 + ?Q \<le> terms intent account quote" "1 + ?Q + 1 \<le> terms intent account quote"
    "1 + ?Q + 1 + 1 \<le> terms intent account quote" using terms_enough [OF ord] by linarith+
  have o: "amount intent account quote 1 ?o"
    "dec_val ?o = (if oi_side intent = BUY then exact_order intent account quote else 0)"
    using order_amount [OF ord, folded p_def] by (simp_all add: amount_def sized_def)
  note a = amount_add(3,4) [OF ord io [OF risk_decimals_mem(3) [OF ord]] reserved(1) enough(1), folded p_def]
  note b = amount_add(3,4) [OF ord a(1) o(1) enough(2), folded p_def]
  note c = amount_add(3,4) [OF ord b(1) io [OF risk_decimals_mem(6) [OF ord]] enough(3), folded p_def]
  show ?thesis using amount_mono [OF c(1) enough(3)] a(2) b(2) c(2) o(2) reserved(2)
    by (simp add: project_exposures_def Let_def exact_cash_def del: One_nat_def)
qed

lemma projection_exact:
  assumes ord: "ordinary intent account quote"
  defines "p \<equiv> risk_precision intent account quote"
  shows "amount_of intent account quote (pj_order (project_exposures p intent ins account quote)) (exact_order intent account quote)"
    and "amount_of intent account quote (pj_issuer (project_exposures p intent ins account quote)) (exact_issuer intent ins account quote)"
    and "amount_of intent account quote (pj_sector (project_exposures p intent ins account quote)) (exact_sector intent ins account quote)"
    and "amount_of intent account quote (pj_gross (project_exposures p intent ins account quote)) (exact_gross intent account quote)"
proof -
  have one: "1 \<le> terms intent account quote" using terms_enough [OF ord] by linarith
  note order = order_amount [OF ord, folded p_def]
  note abs = amount_abs(1,2) [OF ord order(1), folded p_def]
  note held = held_sum [OF ord, folded p_def] and reserved = reserved_sum(1,2) [OF ord, folded p_def]
  have sum: "amount_of intent account quote
      (dec_add p (dec_add p (dec_sum p (map (\<lambda>x. dec_abs p (po_signed_market_value x)) (filter P (ae_positions account))))
         (dec_sum p (map (\<lambda>x. dec_abs p (pending_value p x)) (filter Q (pending_orders account)))))
         (dec_abs p (order_notional p intent account quote)))
      (held P account + reserved Q account + \<bar>exact_order intent account quote\<bar>)" for P Q
    using three_amounts [OF ord held(1) reserved(1) abs(1), folded p_def, of P Q] held(2) reserved(2) abs(2) order(2) by simp
  show "amount_of intent account quote (pj_order (project_exposures p intent ins account quote)) (exact_order intent account quote)"
    using amount_mono [OF order(1) one] order(2) by (simp add: project_exposures_def Let_def)
  show "amount_of intent account quote (pj_issuer (project_exposures p intent ins account quote)) (exact_issuer intent ins account quote)"
    using sum by (simp add: project_exposures_def Let_def exact_issuer_def comp_def)
  show "amount_of intent account quote (pj_sector (project_exposures p intent ins account quote)) (exact_sector intent ins account quote)"
    using sum by (simp add: project_exposures_def Let_def exact_sector_def)
  show "amount_of intent account quote (pj_gross (project_exposures p intent ins account quote)) (exact_gross intent account quote)"
    using sum [of "\<lambda>_. True" "\<lambda>_. True"] by (simp add: project_exposures_def Let_def exact_gross_def)
qed

section \<open>The limits decide exactly\<close>

definition short_limit :: "decimal \<Rightarrow> bool" where
  "short_limit d \<longleftrightarrow> is_finite d \<and> 0 < dec_val d \<and> dec_val d \<le> 1 \<and> - 5 \<le> dec_exp d"

lemma limit_decides:
  assumes ord: "ordinary intent account quote" and x: "amount intent account quote k x" and t: "short_limit t"
  defines "p \<equiv> risk_precision intent account quote"
  obtains q where "fraction_of p x (ae_equity account) = Inr q" "dec_div p x (ae_equity account) = Inr q" "is_finite q"
    "dec_le q t \<longleftrightarrow> dec_val x \<le> dec_val t * dec_val (ae_equity account)"
    "dec_le t q \<longleftrightarrow> dec_val t * dec_val (ae_equity account) \<le> dec_val x"
    "dec_le (dec_abs p q) t \<longleftrightarrow> \<bar>dec_val x\<bar> \<le> dec_val t * dec_val (ae_equity account)"
proof -
  let ?L = "risk_top intent account quote" and ?S = "risk_grid intent account quote" and ?e = "dec_val (ae_equity account)"
  let ?u = "2 * ?S - 5" and ?h = "?L + 1"
  note cap = risk_capacity [OF ord] and eq = risk_decimals_mem(1,2) [OF ord]
  have p0: "0 < p" using cap(5) by (simp add: p_def capacity_def)
  have e: "0 < ?e" "?e < 10 powi ?h" "on_grid ?S ?e" using ord cap(3) [OF eq(2)] by (simp_all add: ordinary_def)
  have tt: "is_finite t" "\<bar>dec_val t\<bar> \<le> 1" "on_grid (- 5) (dec_val t)"
    using t on_grid_dec [of t "- 5"] by (simp_all add: short_limit_def)
  have small: "on_grid (?u - ?h) (dec_val t)" "?u - ?h \<le> 0" "1 - (?u - ?h) \<le> int p"
    using on_grid_finer [OF tt(3)] cap(1,2,4) terms_enough [OF ord] by (simp_all add: p_def)
  have te: "on_grid ?u (dec_val t * ?e)" by (rule on_grid_finer [OF on_grid_mult [OF tt(3) e(3)]]) (use cap(1) in simp)
  have grid: "on_grid ?u (y - dec_val t * ?e)" if "on_grid (2 * ?S) y" for y
    using on_grid_add [OF on_grid_finer [OF that, of ?u] on_grid_minus [OF te]] by simp
  have xs: "is_finite x" "on_grid (2 * ?S) (dec_val x)" "on_grid (2 * ?S) \<bar>dec_val x\<bar>"
    using x by (auto simp: amount_def sized_def intro: on_grid_abs)
  obtain q where q: "fraction_of p x (ae_equity account) = Inr q" "dec_div p x (ae_equity account) = Inr q" "is_finite q"
    "rounds p (dec_val x / ?e) (dec_val q)"
    using fraction_rounds [OF xs(1) eq(1) [OF eq(2)] e(1) p0] by blast
  have "rounds p (\<bar>dec_val x\<bar> / ?e) (dec_val (dec_abs p q))"
    using rounds_trans [OF rounds_abs [OF q(4)] dec_abs_rounds(1) [OF q(3) p0]] e(1) by simp
  note decide = rounds_decides [OF q(4) e(1,2) grid [OF xs(2)] small(1) tt(2) small(2,3)]
    and decide_abs = rounds_decides(1) [OF this e(1,2) grid [OF xs(3)] small(1) tt(2) small(2,3)]
  show ?thesis
    using that [OF q(1-3)] decide decide_abs q(3) tt(1) dec_abs_rounds(2) [OF q(3) p0] by simp
qed

section \<open>Verdicts\<close>

definition verdict :: "risk_check \<Rightarrow> string \<times> bool" where
  "verdict c = (rc_name c, rc_passed c)"

lemma verdict_check [simp]: "verdict (check n b x y) = (n, b)" "verdict (bool_check n b) = (n, b)" "verdict (limit_check n b v w) = (n, b)"
  by (simp_all add: verdict_def check_def bool_check_def limit_check_def)

lemma all_passed: "list_all rc_passed cs \<longleftrightarrow> list_all snd (map verdict cs)"
  by (induction cs) (simp_all add: verdict_def)

definition short_limits :: "risk_limits \<Rightarrow> bool" where
  "short_limits l = list_all short_limit (risk_fractions l)"

definition exposure_verdicts ::
  "risk_limits \<Rightarrow> order_intent \<Rightarrow> instrument \<Rightarrow> account_evidence \<Rightarrow> quote_evidence \<Rightarrow> bool \<Rightarrow> bool \<Rightarrow> (string \<times> bool) list" where
  "exposure_verdicts l intent ins account quote loss_ok drawdown_ok = (let e = dec_val (ae_equity account) in
     [(''order_size'', exact_order intent account quote \<le> dec_val (rl_max_order_equity_fraction l) * e),
      (''issuer_exposure'', \<bar>exact_issuer intent ins account quote\<bar> \<le> dec_val (rl_max_issuer_fraction l) * e),
      (''sector_exposure'', exact_sector intent ins account quote \<le> dec_val (rl_max_sector_fraction l) * e),
      (''gross_exposure'', exact_gross intent account quote \<le> dec_val (rl_max_gross_fraction l) * e),
      (''net_exposure'', \<bar>exact_net intent account quote\<bar> \<le> dec_val (rl_max_net_fraction l) * e),
      (''cash_buffer'', dec_val (rl_min_cash_buffer_fraction l) * e \<le> exact_cash intent account quote),
      (''daily_loss_stop'', loss_ok), (''drawdown_stop'', drawdown_ok)])"

lemma exposure_checks_exact:
  assumes ord: "ordinary intent account quote" and lim: "short_limits l"
  defines "p \<equiv> risk_precision intent account quote"
  assumes stops: "below_stop loss (rl_daily_loss_stop_fraction l) = Inr a" "below_stop fall (rl_drawdown_stop_fraction l) = Inr b"
  shows "\<exists>cs. exposure_checks p l account (project_exposures p intent ins account quote) loss fall = Inr cs \<and>
    map verdict cs = exposure_verdicts l intent ins account quote a b"
proof -
  let ?pj = "project_exposures p intent ins account quote" and ?e = "ae_equity account"
  have t: "short_limit (rl_max_order_equity_fraction l)" "short_limit (rl_max_issuer_fraction l)"
    "short_limit (rl_max_sector_fraction l)" "short_limit (rl_max_gross_fraction l)" "short_limit (rl_max_net_fraction l)"
    "short_limit (rl_min_cash_buffer_fraction l)" using lim by (simp_all add: short_limits_def risk_fractions_def)
  note x = projection_exact [OF ord, folded p_def, of ins] net_exact [OF ord, folded p_def, of ins] cash_exact [OF ord, folded p_def, of ins]
  note decides = limit_decides [OF ord, folded p_def]
  obtain order where 1: "fraction_of p (pj_order ?pj) ?e = Inr order" "dec_le order (rl_max_order_equity_fraction l) \<longleftrightarrow>
      exact_order intent account quote \<le> dec_val (rl_max_order_equity_fraction l) * dec_val ?e"
    by (rule decides [OF conjunct1 [OF x(1)] t(1)]) (use x(1) in simp)
  obtain issuer where 2: "fraction_of p (pj_issuer ?pj) ?e = Inr issuer" "dec_le (dec_abs p issuer) (rl_max_issuer_fraction l) \<longleftrightarrow>
      \<bar>exact_issuer intent ins account quote\<bar> \<le> dec_val (rl_max_issuer_fraction l) * dec_val ?e"
    by (rule decides [OF conjunct1 [OF x(2)] t(2)]) (use x(2) in simp)
  obtain sector where 3: "fraction_of p (pj_sector ?pj) ?e = Inr sector" "dec_le sector (rl_max_sector_fraction l) \<longleftrightarrow>
      exact_sector intent ins account quote \<le> dec_val (rl_max_sector_fraction l) * dec_val ?e"
    by (rule decides [OF conjunct1 [OF x(3)] t(3)]) (use x(3) in simp)
  obtain gross where 4: "fraction_of p (pj_gross ?pj) ?e = Inr gross" "dec_le gross (rl_max_gross_fraction l) \<longleftrightarrow>
      exact_gross intent account quote \<le> dec_val (rl_max_gross_fraction l) * dec_val ?e"
    by (rule decides [OF conjunct1 [OF x(4)] t(4)]) (use x(4) in simp)
  obtain net where 5: "fraction_of p (pj_net ?pj) ?e = Inr net" "dec_le (dec_abs p net) (rl_max_net_fraction l) \<longleftrightarrow>
      \<bar>exact_net intent account quote\<bar> \<le> dec_val (rl_max_net_fraction l) * dec_val ?e"
    by (rule decides [OF conjunct1 [OF x(5)] t(5)]) (use x(5) in simp)
  obtain cash where 6: "fraction_of p (pj_cash ?pj) ?e = Inr cash" "dec_le (rl_min_cash_buffer_fraction l) cash \<longleftrightarrow>
      dec_val (rl_min_cash_buffer_fraction l) * dec_val ?e \<le> exact_cash intent account quote"
    by (rule decides [OF conjunct1 [OF x(6)] t(6)]) (use x(6) in simp)
  show ?thesis
    by (simp add: exposure_checks_def exposure_verdicts_def Let_def 1 2 3 4 5 6 stops)
qed

section \<open>Totals per issuer and sector\<close>

definition total_of :: "(string \<times> decimal) list \<Rightarrow> string \<Rightarrow> rat" where
  "total_of totals k = (case map_of totals k of None \<Rightarrow> 0 | Some d \<Rightarrow> dec_val d)"

lemma dict_put_set: "x \<in> set (dict_put d k v) \<Longrightarrow> x = (k, v) \<or> x \<in> set d"
  by (induction d k v rule: dict_put.induct) (auto split: if_splits)

lemma totals_exact:
  assumes ord: "ordinary intent account quote" and "j + length items \<le> terms intent account quote"
    and "\<forall>(k, v)\<in>set items. amount intent account quote 1 v" and "\<forall>(k, v)\<in>set totals. amount intent account quote j v"
  defines "p \<equiv> risk_precision intent account quote"
  shows "(\<forall>(k, v)\<in>set (foldl (add_total p) totals items). amount intent account quote (j + length items) v) \<and>
    (\<forall>k. total_of (foldl (add_total p) totals items) k =
         total_of totals k + sum_list (map (\<lambda>kv. dec_val (snd kv)) (filter (\<lambda>kv. fst kv = k) items)))"
  using assms(2-4)
proof (induction items arbitrary: totals j)
  case (Cons kv items)
  obtain k v where kv: "kv = (k, v)" by fastforce
  let ?x = "case map_of totals k of None \<Rightarrow> dec0 | Some x \<Rightarrow> x"
  have "amount intent account quote j ?x"
    using Cons.prems(3) by (auto simp: amount_def sized_def split: option.splits dest!: map_of_SomeD)
  then have sum: "amount intent account quote (j + 1) (dec_add p ?x v)" "dec_val (dec_add p ?x v) = dec_val ?x + dec_val v"
    using amount_add(1,2) [OF ord, of j ?x 1 v, folded p_def] Cons.prems kv by simp_all
  have x: "dec_val ?x = total_of totals k" by (simp add: total_of_def split: option.splits)
  let ?t = "add_total p totals kv"
  have "\<forall>(k, v)\<in>set ?t. amount intent account quote (j + 1) v"
    using Cons.prems(3) sum(1) kv amount_mono [of intent account quote j _ "j + 1"]
    unfolding add_total_def kv fst_conv snd_conv by (fastforce dest!: dict_put_set)
  moreover have "total_of ?t i = total_of totals i + (if k = i then dec_val v else 0)" for i
    using sum(2) x by (cases "k = i") (simp_all add: add_total_def total_of_def kv map_of_dict_put)
  ultimately show ?case using Cons.IH [of "j + 1" ?t] Cons.prems(1,2) kv by simp
qed simp

lemma largest_in: "list_all is_finite (x # xs) \<Longrightarrow> foldl dec_max x xs \<in> set (x # xs) \<and>
    (\<forall>y\<in>set (x # xs). dec_val y \<le> dec_val (foldl dec_max x xs))"
proof (induction xs arbitrary: x)
  case (Cons y ys)
  have m: "dec_max x y \<in> {x, y}" "dec_val x \<le> dec_val (dec_max x y)" "dec_val y \<le> dec_val (dec_max x y)"
    using Cons.prems by (auto simp: dec_max_def)
  have "list_all is_finite (dec_max x y # ys)" using m(1) Cons.prems by auto
  from Cons.IH [OF this] m show ?case by auto
qed simp

lemma largest_decides:
  assumes "\<forall>(k, v)\<in>set totals. is_finite v" and "distinct (map fst totals)" and "totals \<noteq> []" and "0 \<le> c"
  shows "largest_total totals \<in> snd ` set totals" and "dec_val (largest_total totals) \<le> c \<longleftrightarrow> (\<forall>k. total_of totals k \<le> c)"
proof -
  obtain x xs where xs: "map snd totals = x # xs" using assms(3) by (cases totals) auto
  have vals: "set (x # xs) = snd ` set totals" by (simp flip: xs)
  have "list_all is_finite (map snd totals)" using assms(1) by (auto simp: list_all_iff)
  from largest_in [OF this [unfolded xs]] have m: "largest_total totals \<in> snd ` set totals"
    "\<And>v. v \<in> snd ` set totals \<Longrightarrow> dec_val v \<le> dec_val (largest_total totals)"
    unfolding vals by (auto simp: largest_total_def xs)
  then obtain k where "map_of totals k = Some (largest_total totals)" using assms(2) by (force simp: map_of_eq_Some_iff)
  moreover have "total_of totals j \<le> c" if "dec_val (largest_total totals) \<le> c" for j
  proof (cases "map_of totals j")
    case (Some v)
    then have "v \<in> snd ` set totals" by (force dest: map_of_SomeD)
    then show ?thesis using m(2) [of v] that Some by (simp add: total_of_def)
  qed (use assms(4) in \<open>simp add: total_of_def\<close>)
  ultimately show "dec_val (largest_total totals) \<le> c \<longleftrightarrow> (\<forall>k. total_of totals k \<le> c)"
    by (metis (mono_tags, lifting) option.simps(5) total_of_def)
  show "largest_total totals \<in> snd ` set totals" by (rule m(1))
qed

definition exact_issuer_total :: "order_intent \<Rightarrow> instrument \<Rightarrow> account_evidence \<Rightarrow> quote_evidence \<Rightarrow> string \<Rightarrow> rat" where
  "exact_issuer_total intent ins account quote issuer =
     (let of_id = issuer_of (dict_update [] (ae_issuer_by_instrument account)) in
      (if of_id (in_internal_instrument_id ins) = issuer then \<bar>exact_order intent account quote\<bar> else 0) +
      held (\<lambda>x. of_id (po_internal_instrument_id x) = issuer) account +
      reserved (\<lambda>x. of_id (pn_internal_instrument_id x) = issuer) account)"

definition exact_sector_total :: "order_intent \<Rightarrow> instrument \<Rightarrow> account_evidence \<Rightarrow> quote_evidence \<Rightarrow> string \<Rightarrow> rat" where
  "exact_sector_total intent ins account quote sector =
     (if in_sector ins = sector then \<bar>exact_order intent account quote\<bar> else 0) +
     held (\<lambda>x. po_sector x = sector) account + reserved (\<lambda>x. pn_sector x = sector) account"

lemma foldl_add_total_shape:
  "distinct (map fst totals) \<Longrightarrow> totals \<noteq> [] \<Longrightarrow>
     distinct (map fst (foldl (add_total p) totals items)) \<and> foldl (add_total p) totals items \<noteq> []"
proof (induction items arbitrary: totals)
  case (Cons kv items)
  have "dict_put totals k v \<noteq> []" for k v by (cases totals) (auto split: if_splits)
  then show ?case using Cons.IH [of "add_total p totals kv"] Cons.prems(1) by (simp add: add_total_def distinct_dict_put)
qed simp

text \<open>
  The totals under any classification \<open>f\<close> of instruments and sectors into groups: the largest
  one passes a limit exactly when every group's exact total does.
\<close>

lemma totals_decide:
  fixes f :: "uuid \<Rightarrow> string \<Rightarrow> string" and group :: string
  assumes ord: "ordinary intent account quote" and t: "short_limit t"
  defines "p \<equiv> risk_precision intent account quote"
  defines "totals \<equiv> foldl (add_total p) [(group, dec_abs p (order_notional p intent account quote))]
    (map (\<lambda>(u, z, v). (f u z, v)) (exposure_items p account))"
  shows "\<exists>q. dec_div p (largest_total totals) (ae_equity account) = Inr q \<and>
    (dec_le q t \<longleftrightarrow> (\<forall>g. (if group = g then \<bar>exact_order intent account quote\<bar> else 0) +
       held (\<lambda>x. f (po_internal_instrument_id x) (po_sector x) = g) account +
       reserved (\<lambda>x. f (pn_internal_instrument_id x) (pn_sector x) = g) account
         \<le> dec_val t * dec_val (ae_equity account)))"
proof -
  let ?items = "map (\<lambda>(u, z, v). (f u z, v)) (exposure_items p account)"
    and ?start = "[(group, dec_abs p (order_notional p intent account quote))]"
  note order = order_amount [OF ord, folded p_def]
  note abs = amount_abs [OF ord order(1), folded p_def]
  have pos: "amount intent account quote 1 (dec_abs p (po_signed_market_value x))"
    "dec_val (dec_abs p (po_signed_market_value x)) = \<bar>dec_val (po_signed_market_value x)\<bar>"
    if "x \<in> set (ae_positions account)" for x
    unfolding p_def using amount_abs(1,2) [OF ord position_amount [OF ord that]] by simp_all
  have items: "\<forall>(k, v)\<in>set ?items. amount intent account quote 1 v"
    using pos(1) pending_amount(1) [OF ord] by (auto simp: exposure_items_def)
  have count: "1 + length ?items \<le> terms intent account quote"
    using terms_enough [OF ord] by (simp add: exposure_items_def)
  note ex = totals_exact [OF ord count items, of ?start, folded p_def]
  have amounts: "\<forall>(k, v)\<in>set totals. amount intent account quote (1 + length ?items) v"
    and total: "\<And>g. total_of totals g = total_of ?start g + sum_list (map (\<lambda>kv. dec_val (snd kv)) (filter (\<lambda>kv. fst kv = g) ?items))"
    using ex abs(1) unfolding totals_def by auto
  have fin: "\<forall>(k, v)\<in>set totals. is_finite v" using amounts by (auto simp: amount_def sized_def)
  have shape: "distinct (map fst totals)" "totals \<noteq> []"
    using foldl_add_total_shape [of ?start p ?items] by (simp_all add: totals_def)
  have sums: "total_of totals g = (if group = g then \<bar>exact_order intent account quote\<bar> else 0) +
       held (\<lambda>x. f (po_internal_instrument_id x) (po_sector x) = g) account +
       reserved (\<lambda>x. f (pn_internal_instrument_id x) (pn_sector x) = g) account" for g
  proof -
    have "total_of ?start g = (if group = g then \<bar>exact_order intent account quote\<bar> else 0)"
      using abs(2) order(2) by (simp add: total_of_def)
    moreover have "sum_list (map (\<lambda>x. dec_val (dec_abs p (po_signed_market_value x))) (filter P (ae_positions account))) =
        sum_list (map (\<lambda>x. \<bar>dec_val (po_signed_market_value x)\<bar>) (filter P (ae_positions account)))" for P
      using pos(2) by (intro arg_cong [of _ _ sum_list] map_cong) simp_all
    ultimately show ?thesis
      unfolding total exposure_items_def held_def reserved_def
      by (simp add: filter_map comp_def)
  qed
  have c: "0 \<le> dec_val t * dec_val (ae_equity account)" using t ord by (simp add: short_limit_def ordinary_def)
  note large = largest_decides [OF fin shape c]
  have "amount intent account quote (1 + length ?items) (largest_total totals)" using large(1) amounts by auto
  then obtain q where "dec_div p (largest_total totals) (ae_equity account) = Inr q"
    "dec_le q t \<longleftrightarrow> dec_val (largest_total totals) \<le> dec_val t * dec_val (ae_equity account)"
    using limit_decides [OF ord _ t, folded p_def] by metis
  then show ?thesis using large(2) sums by simp
qed

end
