(* ===== verification/Admission.thy ===== *)
theory Admission
  imports Risk_Soundness
begin

text \<open>
  The decisions of the pre-trade evaluator. The first part reads off an accepted or declined
  decision which exact conditions held; the properties follow.
\<close>

section \<open>The checks of a decision\<close>

definition scope_verdicts ::
  "risk_limits \<Rightarrow> order_intent \<Rightarrow> instrument \<Rightarrow> account_evidence \<Rightarrow> quote_evidence \<Rightarrow> instant \<Rightarrow> bool \<Rightarrow> (string \<times> bool) list" where
  "scope_verdicts l intent ins account quote moment account_fresh =
     [(''environment'', oi_environment intent = ae_environment account \<and> ae_environment account = rl_environment l),
      (''asset_type'', in_asset_type ins \<in> set (rl_allowed_asset_types l)),
      (''long_only'', oi_side intent = BUY),
      (''leverage'', dec_eq (oi_target_leverage intent) (rl_required_leverage l)),
      (''currency'', oi_currency intent = ae_currency account \<and> ae_currency account = in_currency ins),
      (''intent_expiry'', moment < oi_expires_at intent),
      (''quote_freshness'', 0 \<le> moment - qe_observed_at quote \<and>
         moment - qe_observed_at quote \<le> seconds (rl_quote_max_age_seconds l)),
      (''account_freshness'', account_fresh),
      (''regular_hours'', \<not> rl_regular_hours_only l \<or> qe_regular_session_open quote),
      (''pending_orders_complete'', ae_pending_orders_complete account),
      (''pending_orders_consistent'', \<not> contradictory_pending account)]"

lemma scope_checks_verdicts:
  "map verdict (scope_checks l intent ins account quote moment shown fresh) =
     scope_verdicts l intent ins account quote moment fresh"
  by (simp add: scope_checks_def scope_verdicts_def Let_def)

definition balanced :: "account_evidence \<Rightarrow> bool" where
  "balanced account \<longleftrightarrow> (\<exists>invested unrealised. ae_invested_amount account = Some invested \<and>
     ae_unrealised_pnl account = Some unrealised \<and>
     dec_val (ae_equity account) = dec_val (ae_cash account) + dec_val invested + dec_val unrealised)"

definition classified :: "instrument \<Rightarrow> account_evidence \<Rightarrow> bool" where
  "classified ins account \<longleftrightarrow> in_sector ins \<noteq> ''unknown'' \<and>
     list_all (\<lambda>x. po_sector x \<noteq> ''unknown'') (ae_positions account) \<and>
     list_all (\<lambda>x. pn_sector x \<noteq> ''unknown'') (pending_orders account)"

definition versioned_verdicts ::
  "risk_limits \<Rightarrow> order_intent \<Rightarrow> instrument \<Rightarrow> account_evidence \<Rightarrow> quote_evidence \<Rightarrow> string list \<Rightarrow> (string \<times> bool) list" where
  "versioned_verdicts l intent ins account quote reasons = (let e = dec_val (ae_equity account) in
     [(''positions_complete'', ae_positions_complete account),
      (''account_identity'', ae_account_id account \<noteq> None \<and> ae_account_id account \<noteq> Some []),
      (''equity_identity'', balanced account),
      (''performance_coverage'', reasons = []),
      (''exposure_classification'', classified ins account),
      (''issuer_classification'', issuer_coverage (risk_precision intent account quote) ins account),
      (''all_issuer_exposure'', \<forall>issuer. exact_issuer_total intent ins account quote issuer \<le> dec_val (rl_max_issuer_fraction l) * e),
      (''all_sector_exposure'', \<forall>sector. exact_sector_total intent ins account quote sector \<le> dec_val (rl_max_sector_fraction l) * e)])"

lemma equity_identity_exact:
  assumes ord: "ordinary intent account quote"
  shows "equity_identity (risk_precision intent account quote) account \<longleftrightarrow> balanced account"
proof -
  let ?p = "risk_precision intent account quote"
  note mem = risk_decimals_mem [OF ord]
  have sum: "dec_val (dec_add ?p (dec_add ?p (ae_cash account) i) u) = dec_val (ae_cash account) + dec_val i + dec_val u"
    "is_finite (dec_add ?p (dec_add ?p (ae_cash account) i) u)"
    if "ae_invested_amount account = Some i" "ae_unrealised_pnl account = Some u" for i u
  proof -
    have enough: "1 + 1 \<le> terms intent account quote" "1 + 1 + 1 \<le> terms intent account quote"
      using terms_enough [OF ord] by linarith+
    note am = input_amount [OF ord mem(3)] input_amount [OF ord mem(9) [OF that(1)]] input_amount [OF ord mem(10) [OF that(2)]]
    note ci = amount_add(1,2) [OF ord am(1,2) enough(1)]
    note ciu = amount_add(1,2) [OF ord ci(1) am(3) enough(2)]
    show "dec_val (dec_add ?p (dec_add ?p (ae_cash account) i) u) = dec_val (ae_cash account) + dec_val i + dec_val u"
      "is_finite (dec_add ?p (dec_add ?p (ae_cash account) i) u)"
      using ci(2) ciu by (simp_all add: amount_def sized_def)
  qed
  show ?thesis using sum mem(1) [OF mem(2)]
    by (auto simp: equity_identity_def balanced_def split: option.splits)
qed

lemma versioned_checks_exact:
  assumes ord: "ordinary intent account quote" and lim: "short_limits l"
  defines "p \<equiv> risk_precision intent account quote"
  shows "\<exists>cs. versioned_checks p l ins account (pj_order (project_exposures p intent ins account quote)) reasons = Inr cs \<and>
    map verdict cs = versioned_verdicts l intent ins account quote reasons"
proof -
  let ?o = "order_notional p intent account quote"
  have o: "pj_order (project_exposures p intent ins account quote) = ?o" by (simp add: project_exposures_def Let_def)
  have t: "short_limit (rl_max_issuer_fraction l)" "short_limit (rl_max_sector_fraction l)"
    using lim by (simp_all add: short_limits_def risk_fractions_def)
  obtain qi where qi: "dec_div p (largest_total (issuer_totals p ins account ?o)) (ae_equity account) = Inr qi"
    "dec_le qi (rl_max_issuer_fraction l) \<longleftrightarrow>
      (\<forall>issuer. exact_issuer_total intent ins account quote issuer \<le> dec_val (rl_max_issuer_fraction l) * dec_val (ae_equity account))"
    using totals_decide [OF ord t(1), folded p_def, of "issuer_of (dict_update [] (ae_issuer_by_instrument account)) (in_internal_instrument_id ins)"
      "\<lambda>u z. issuer_of (dict_update [] (ae_issuer_by_instrument account)) u"]
    by (auto simp: issuer_totals_def exact_issuer_total_def Let_def)
  obtain qs where qs: "dec_div p (largest_total (sector_totals p ins account ?o)) (ae_equity account) = Inr qs"
    "dec_le qs (rl_max_sector_fraction l) \<longleftrightarrow>
      (\<forall>sector. exact_sector_total intent ins account quote sector \<le> dec_val (rl_max_sector_fraction l) * dec_val (ae_equity account))"
    using totals_decide [OF ord t(2), folded p_def, of "in_sector ins" "\<lambda>u z. z"]
    by (auto simp: sector_totals_def exact_sector_total_def)
  have c: "list_all (\<lambda>(u, sector, v). sector \<noteq> ''unknown'') (exposure_items p account) \<and> in_sector ins \<noteq> ''unknown'' \<longleftrightarrow>
      classified ins account"
    by (auto simp: exposure_items_def classified_def list.pred_map comp_def)
  show ?thesis
    using equity_identity_exact [OF ord, folded p_def] c
    by (simp add: versioned_checks_def versioned_verdicts_def Let_def o qi qs p_def [symmetric])
qed

section \<open>Reading a decision\<close>

definition metrics ::
  "digest \<Rightarrow> risk_limits \<Rightarrow> account_evidence \<Rightarrow> nat \<Rightarrow> instant \<Rightarrow> (string list \<times> decimal option \<times> decimal option) result" where
  "metrics H l account p moment =
     (if ae_contract_version account = versioned_contract then Inr (versioned_metrics H p l account moment)
      else bindR (legacy_metrics p account) (\<lambda>(daily, fall). Inr ([], Some daily, Some fall)))"

lemma evaluate_read:
  assumes ord: "ordinary intent account quote" and lim: "short_limits l"
    and run: "evaluate H l fresh intent ins account quote now = Inr d"
  defines "p \<equiv> risk_precision intent account quote"
  obtains moment off reasons loss fall shown usable loss_ok fall_ok where
    "now = Aware moment off" "qe_internal_instrument_id quote = in_internal_instrument_id ins"
    "oi_internal_instrument_id intent = in_internal_instrument_id ins"
    "metrics H l account p moment = Inr (reasons, loss, fall)" "account_time p l account moment = Inr (shown, usable)"
    "below_stop loss (rl_daily_loss_stop_fraction l) = Inr loss_ok" "below_stop fall (rl_drawdown_stop_fraction l) = Inr fall_ok"
    "map verdict (rd_checks d) = scope_verdicts l intent ins account quote moment usable @
       (if ae_contract_version account = versioned_contract then versioned_verdicts l intent ins account quote reasons else []) @
       exposure_verdicts l intent ins account quote loss_ok fall_ok"
    "valid_decision d" "rd_decided_at d = moment" "rd_intent_hash d = oi_intent_hash intent"
    "rd_account_snapshot_id d = ae_snapshot_id account" "rd_quote_id d = qe_quote_id quote"
    "rd_quote_observed_at d = qe_observed_at quote" "rd_decision_id d = fresh"
    "rd_reasons d = map rc_name (filter (\<lambda>c. \<not> rc_passed c) (rd_checks d))"
proof -
  let ?pj = "project_exposures p intent ins account quote"
  from run obtain moment off where now: "now = Aware moment off" by (cases now) (auto simp: evaluate_def evaluate_at_def)
  from run obtain reasons loss fall shown usable ac lc where
    ids: "qe_internal_instrument_id quote = in_internal_instrument_id ins"
      "oi_internal_instrument_id intent = in_internal_instrument_id ins"
    and m: "metrics H l account p moment = Inr (reasons, loss, fall)" and at: "account_time p l account moment = Inr (shown, usable)"
    and ac: "(if ae_contract_version account = versioned_contract then versioned_checks p l ins account (pj_order ?pj) reasons else Inr []) = Inr ac"
    and lc: "exposure_checks p l account ?pj loss fall = Inr lc"
    and dec: "\<exists>exposures. RiskDecision (RUuid fresh) (oi_intent_hash intent) (ae_snapshot_id account) (qe_quote_id quote)
      (utc (qe_observed_at quote)) exposures (scope_checks l intent ins account quote moment shown usable @ ac @ lc)
      (risk_outcome_str (if map rc_name (filter (\<lambda>c. \<not> rc_passed c) (scope_checks l intent ins account quote moment shown usable @ ac @ lc)) = []
         then ACCEPTED else DECLINED))
      (map rc_name (filter (\<lambda>c. \<not> rc_passed c) (scope_checks l intent ins account quote moment shown usable @ ac @ lc)))
      (utc moment) schema_version = Inr d"
    unfolding evaluate_def evaluate_at_def now p_def [symmetric] Let_def metrics_def [symmetric]
    by (simp only: aware_utc.simps bindR_simps bindR_eq_Inr raiseIf_eq_Inr split_paired_Ex prod.case not_not) blast
  obtain loss_ok fall_ok where stops: "below_stop loss (rl_daily_loss_stop_fraction l) = Inr loss_ok"
    "below_stop fall (rl_drawdown_stop_fraction l) = Inr fall_ok"
    using lc unfolding exposure_checks_def bindR_eq_Inr by blast
  have lv: "map verdict lc = exposure_verdicts l intent ins account quote loss_ok fall_ok"
    using exposure_checks_exact [OF ord lim stops, folded p_def, of ins] lc by auto
  have av: "map verdict ac = (if ae_contract_version account = versioned_contract then versioned_verdicts l intent ins account quote reasons else [])"
    using versioned_checks_exact [OF ord lim, folded p_def, of ins reasons] ac by (auto split: if_splits)
  obtain exposures where d: "RiskDecision (RUuid fresh) (oi_intent_hash intent) (ae_snapshot_id account) (qe_quote_id quote)
      (utc (qe_observed_at quote)) exposures (scope_checks l intent ins account quote moment shown usable @ ac @ lc)
      (risk_outcome_str (if map rc_name (filter (\<lambda>c. \<not> rc_passed c) (scope_checks l intent ins account quote moment shown usable @ ac @ lc)) = []
         then ACCEPTED else DECLINED))
      (map rc_name (filter (\<lambda>c. \<not> rc_passed c) (scope_checks l intent ins account quote moment shown usable @ ac @ lc)))
      (utc moment) schema_version = Inr d" using dec by blast
  have valid: "valid_decision d" by (rule RiskDecision_valid [OF d])
  from d have fields: "rd_checks d = scope_checks l intent ins account quote moment shown usable @ ac @ lc"
    "rd_decided_at d = moment" "rd_intent_hash d = oi_intent_hash intent"
    "rd_account_snapshot_id d = ae_snapshot_id account" "rd_quote_id d = qe_quote_id quote"
    "rd_quote_observed_at d = qe_observed_at quote" "rd_decision_id d = fresh"
    "rd_reasons d = map rc_name (filter (\<lambda>c. \<not> rc_passed c) (scope_checks l intent ins account quote moment shown usable @ ac @ lc))"
    unfolding RiskDecision_def by (auto simp: decision_checks_Inr simp del: filter_append map_append)
  show ?thesis
    by (rule that [OF now ids m at stops _ valid fields(2-7)]) (simp_all only: fields(1,8) map_append scope_checks_verdicts av lv)
qed

lemmas verdict_simps = scope_verdicts_def versioned_verdicts_def exposure_verdicts_def Let_def

lemma accepted_verdicts: "valid_decision d \<Longrightarrow> rd_outcome d = ACCEPTED \<longleftrightarrow> list_all snd (map verdict (rd_checks d))"
  by (simp only: valid_decision_def decision_ok_def all_passed)

lemma below_stop_True: "below_stop x t = Inr True \<longleftrightarrow> (\<exists>v. x = Some v \<and> v \<noteq> DNaN \<and> t \<noteq> DNaN \<and> dec_lt v t)"
  by (auto simp: below_stop_def dec_ltR_def split: option.splits)

section \<open>The evaluator returns\<close>

lemma epoch_total: "\<exists>d. epoch p t = Inr d"
  by (cases "dec_quot p (nat \<bar>t mod 1000000\<bar>) 0 1000000 0") (simp add: epoch_def dec_of_int_def)

lemma component_reasons_total: "\<exists>rs. component_reasons p l account moment src = Inr rs"
  using epoch_total [of p moment] by (auto simp: component_reasons_def validate_at_def Let_def)

lemma account_time_total:
  assumes "account_ok account"
  shows "\<exists>x. account_time p l account moment = Inr x"
proof (cases "ae_component_time account")
  case None
  then obtain t where "ae_observed_at account = Some t" using assms by (auto simp: account_ok_def)
  then show ?thesis using None by (simp add: account_time_def Let_def)
next
  case (Some src)
  then show ?thesis using component_reasons_total [of p l account moment src] by (auto simp: account_time_def)
qed

lemma below_stop_total: "x \<noteq> Some DNaN \<Longrightarrow> t \<noteq> DNaN \<Longrightarrow> \<exists>b. below_stop x t = Inr b"
  by (cases x) (auto simp: below_stop_def dec_ltR_def)

lemma legacy_metrics_total:
  assumes "account_ok account" and "ae_contract_version account = legacy_contract" and "0 < p"
  shows "\<exists>loss fall. legacy_metrics p account = Inr (loss, fall) \<and> loss \<noteq> DNaN \<and> fall \<noteq> DNaN"
proof -
  from assms(1,2) obtain peak pnl where a: "ae_peak_equity account = Some peak" "is_finite peak" "0 < dec_val peak"
    "ae_daily_pnl account = Some pnl" "is_finite pnl" "is_finite (ae_equity account)" "0 < dec_val (ae_equity account)"
    by (auto simp: account_ok_def)
  obtain f where f: "fraction_of p (dec_sub p peak (ae_equity account)) peak = Inr f" "is_finite f"
    using fraction_rounds [of "dec_sub p peak (ae_equity account)" peak p] a assms(3) by auto
  obtain c where c: "fraction_of p pnl (ae_equity account) = Inr c" "is_finite c"
    using fraction_rounds [of pnl "ae_equity account" p] a assms(3) by auto
  have "dec_max dec0 x \<noteq> DNaN" if "is_finite x" for x using that by (cases x) (auto simp: dec_max_def)
  then show ?thesis using a f c by (simp add: legacy_metrics_def the_decimal_def)
qed

lemma metrics_total:
  assumes "account_ok account" and "0 < p"
    and "\<And>e. ae_performance account = Some e \<Longrightarrow> pe_daily_loss_fraction e \<noteq> Some DNaN \<and> pe_drawdown_fraction e \<noteq> Some DNaN"
  shows "\<exists>reasons loss fall. metrics H l account p moment = Inr (reasons, loss, fall) \<and> loss \<noteq> Some DNaN \<and> fall \<noteq> Some DNaN"
proof (cases "ae_contract_version account = versioned_contract")
  case True
  then show ?thesis using assms(3)
    by (cases "ae_performance account") (auto simp: metrics_def versioned_metrics_def Let_def)
next
  case False
  then have "ae_contract_version account = legacy_contract" using assms(1) by (auto simp: account_ok_def)
  then show ?thesis using legacy_metrics_total [OF assms(1) _ assms(2)] False by (auto simp: metrics_def)
qed

lemma evaluate_total:
  assumes "ordinary intent account quote" and "short_limits l"
    and "qe_internal_instrument_id quote = in_internal_instrument_id ins"
    and "oi_internal_instrument_id intent = in_internal_instrument_id ins" and "\<not> blank (oi_intent_hash intent)"
    and "\<And>e. ae_performance account = Some e \<Longrightarrow> pe_daily_loss_fraction e \<noteq> Some DNaN \<and> pe_drawdown_fraction e \<noteq> Some DNaN"
  shows "\<exists>d. evaluate H l fresh intent ins account quote (Aware moment off) = Inr d \<and> valid_decision d \<and>
    rd_intent_hash d = oi_intent_hash intent \<and> rd_account_snapshot_id d = ae_snapshot_id account \<and>
    rd_quote_id d = qe_quote_id quote \<and> rd_decided_at d = moment \<and>
    rd_reasons d = map rc_name (filter (\<lambda>c. \<not> rc_passed c) (rd_checks d)) \<and>
    (rd_outcome d = ACCEPTED \<longleftrightarrow> rd_reasons d = [])"
proof -
  let ?p = "risk_precision intent account quote"
  let ?pj = "project_exposures ?p intent ins account quote"
  have ok: "account_ok account" "quote_ok quote" and p: "0 < ?p"
    using assms(1) risk_capacity(5) [OF assms(1)] by (simp_all add: ordinary_def capacity_def)
  obtain reasons loss fall where m: "metrics H l account ?p moment = Inr (reasons, loss, fall)" "loss \<noteq> Some DNaN" "fall \<noteq> Some DNaN"
    using metrics_total [OF ok(1) p assms(6)] by blast
  obtain shown usable where at: "account_time ?p l account moment = Inr (shown, usable)"
    using account_time_total [OF ok(1)] by fastforce
  have "rl_daily_loss_stop_fraction l \<noteq> DNaN" "rl_drawdown_stop_fraction l \<noteq> DNaN"
    using assms(2) by (auto simp: short_limits_def risk_fractions_def short_limit_def)
  then obtain a b where stops: "below_stop loss (rl_daily_loss_stop_fraction l) = Inr a" "below_stop fall (rl_drawdown_stop_fraction l) = Inr b"
    using below_stop_total m(2,3) by metis
  obtain lc where lc: "exposure_checks ?p l account ?pj loss fall = Inr lc"
    using exposure_checks_exact [OF assms(1,2) stops] by blast
  obtain ac where ac: "(if ae_contract_version account = versioned_contract
      then versioned_checks ?p l ins account (pj_order ?pj) reasons else Inr []) = Inr ac"
    using versioned_checks_exact [OF assms(1,2)] by (cases "ae_contract_version account = versioned_contract") fastforce+
  have blank: "\<not> blank (ae_snapshot_id account)" "\<not> blank (qe_quote_id quote)" using ok by (simp_all add: account_ok_def quote_ok_def)
  let ?cs = "scope_checks l intent ins account quote moment shown usable @ ac @ lc"
  have all: "map rc_name (filter (\<lambda>c. \<not> rc_passed c) ?cs) = [] \<longleftrightarrow> list_all rc_passed ?cs"
    by (simp only: map_is_Nil_conv filter_empty_conv list_all_iff not_not)
  have "\<exists>d. evaluate H l fresh intent ins account quote (Aware moment off) = Inr d"
    unfolding evaluate_def evaluate_at_def Let_def metrics_def [symmetric]
    using assms(3-5) blank all
    by (simp add: m(1) at ac lc RiskDecision_def decision_checks_Inr decision_ok_def
        del: map_append filter_append list_all_append)
  then obtain d where run: "evaluate H l fresh intent ins account quote (Aware moment off) = Inr d" by blast
  show ?thesis
  proof (rule evaluate_read [OF assms(1,2) run])
    fix m' off'
    assume "Aware moment off = Aware m' off'" and v: "valid_decision d" and "rd_decided_at d = m'"
      and r: "rd_reasons d = map rc_name (filter (\<lambda>c. \<not> rc_passed c) (rd_checks d))"
      and f: "rd_intent_hash d = oi_intent_hash intent" "rd_account_snapshot_id d = ae_snapshot_id account" "rd_quote_id d = qe_quote_id quote"
    moreover have "rd_outcome d = ACCEPTED \<longleftrightarrow> rd_reasons d = []"
      using v unfolding r valid_decision_def decision_ok_def by (auto simp: list_all_iff filter_empty_conv)
    ultimately show ?thesis using run by auto
  qed
qed

lemma evaluate_accepts:
  assumes "ordinary intent account quote" and "short_limits l"
    and "qe_internal_instrument_id quote = in_internal_instrument_id ins"
    and "oi_internal_instrument_id intent = in_internal_instrument_id ins" and "\<not> blank (oi_intent_hash intent)"
    and "\<And>e. ae_performance account = Some e \<Longrightarrow> pe_daily_loss_fraction e \<noteq> Some DNaN \<and> pe_drawdown_fraction e \<noteq> Some DNaN"
    and "metrics H l account (risk_precision intent account quote) moment = Inr (reasons, loss, fall)"
    and "account_time (risk_precision intent account quote) l account moment = Inr (shown, True)"
    and "below_stop loss (rl_daily_loss_stop_fraction l) = Inr True" and "below_stop fall (rl_drawdown_stop_fraction l) = Inr True"
    and "list_all snd (scope_verdicts l intent ins account quote moment True)"
    and "ae_contract_version account = versioned_contract \<Longrightarrow> list_all snd (versioned_verdicts l intent ins account quote reasons)"
    and "list_all snd (exposure_verdicts l intent ins account quote True True)"
  shows "\<exists>d. evaluate H l fresh intent ins account quote (Aware moment off) = Inr d \<and> rd_outcome d = ACCEPTED"
proof -
  obtain d where run: "evaluate H l fresh intent ins account quote (Aware moment off) = Inr d"
    using evaluate_total [OF assms(1-6)] by blast
  have "rd_outcome d = ACCEPTED"
    by (rule evaluate_read [OF assms(1,2) run]) (use assms(7-13) in \<open>simp add: accepted_verdicts\<close>)
  then show ?thesis using run by blast
qed

section \<open>Properties\<close>

text \<open>
  C7: the evaluator always decides. For well-formed evidence about one instrument and an aware
  clock, whatever the amounts, it returns a valid decision that binds the intent hash, the
  account snapshot and the quote, lists exactly the failed checks as its reasons, and accepts
  exactly when there are none.
\<close>

theorem evaluate_decides:
  assumes "ordinary intent account quote" and "short_limits l"
    and "qe_internal_instrument_id quote = in_internal_instrument_id ins"
    and "oi_internal_instrument_id intent = in_internal_instrument_id ins" and "\<not> blank (oi_intent_hash intent)"
    and "\<And>e. ae_performance account = Some e \<Longrightarrow> pe_daily_loss_fraction e \<noteq> Some DNaN \<and> pe_drawdown_fraction e \<noteq> Some DNaN"
  shows "\<exists>d. evaluate H l fresh intent ins account quote (Aware moment off) = Inr d \<and> valid_decision d \<and>
    rd_intent_hash d = oi_intent_hash intent \<and> rd_account_snapshot_id d = ae_snapshot_id account \<and>
    rd_quote_id d = qe_quote_id quote \<and> rd_decided_at d = moment \<and>
    rd_reasons d = map rc_name (filter (\<lambda>c. \<not> rc_passed c) (rd_checks d)) \<and>
    (rd_outcome d = ACCEPTED \<longleftrightarrow> rd_reasons d = [])"
  by (rule evaluate_total [OF assms])

text \<open>
  C5: no rounding at a hard limit. With limits of at most five decimal places, each exposure
  check of a returned decision passes exactly when the inequality between the exact rational
  exposure and the limit times equity holds, for all three sizing methods and any number of
  positions and pending orders; in the versioned contract also for every issuer and sector.
\<close>

theorem limits_decided_exactly:
  assumes "ordinary intent account quote" and "short_limits l"
    and "evaluate H l fresh intent ins account quote now = Inr d"
  defines "e \<equiv> dec_val (ae_equity account)" and "passed \<equiv> map_of (map (\<lambda>c. (rc_name c, rc_passed c)) (rd_checks d))"
  shows "passed ''order_size'' = Some (exact_order intent account quote \<le> dec_val (rl_max_order_equity_fraction l) * e) \<and>
    passed ''issuer_exposure'' = Some (\<bar>exact_issuer intent ins account quote\<bar> \<le> dec_val (rl_max_issuer_fraction l) * e) \<and>
    passed ''sector_exposure'' = Some (exact_sector intent ins account quote \<le> dec_val (rl_max_sector_fraction l) * e) \<and>
    passed ''gross_exposure'' = Some (exact_gross intent account quote \<le> dec_val (rl_max_gross_fraction l) * e) \<and>
    passed ''net_exposure'' = Some (\<bar>exact_net intent account quote\<bar> \<le> dec_val (rl_max_net_fraction l) * e) \<and>
    passed ''cash_buffer'' = Some (dec_val (rl_min_cash_buffer_fraction l) * e \<le> exact_cash intent account quote) \<and>
    (ae_contract_version account = versioned_contract \<longrightarrow>
      passed ''all_issuer_exposure'' =
        Some (\<forall>issuer. exact_issuer_total intent ins account quote issuer \<le> dec_val (rl_max_issuer_fraction l) * e) \<and>
      passed ''all_sector_exposure'' =
        Some (\<forall>sector. exact_sector_total intent ins account quote sector \<le> dec_val (rl_max_sector_fraction l) * e))"
proof (rule evaluate_read [OF assms(1-3)])
  fix moment usable reasons loss_ok fall_ok
  assume v: "map verdict (rd_checks d) = scope_verdicts l intent ins account quote moment usable @
       (if ae_contract_version account = versioned_contract then versioned_verdicts l intent ins account quote reasons else []) @
       exposure_verdicts l intent ins account quote loss_ok fall_ok"
  have p: "passed = map_of (map verdict (rd_checks d))" by (simp add: passed_def verdict_def [abs_def])
  show ?thesis unfolding p v e_def
    by (cases "ae_contract_version account = versioned_contract") (simp_all add: verdict_simps)
qed

text \<open>
  C4: what acceptance guarantees. An accepted order is an unleveraged (leverage as required by
  the limits) buy in the environment, currency and asset scope of the limits, not expired, with
  a quote and account evidence inside their age limits and an open session; no pending order
  was left out or reported in two versions; and order size, issuer, sector, gross and net
  exposure and remaining cash respect their limits as exact numbers.
\<close>

theorem accepted_within_limits:
  assumes "ordinary intent account quote" and "short_limits l"
    and "evaluate H l fresh intent ins account quote (Aware moment off) = Inr d" and "rd_outcome d = ACCEPTED"
  defines "e \<equiv> dec_val (ae_equity account)"
  shows "oi_environment intent = rl_environment l \<and> ae_environment account = rl_environment l \<and>
    in_asset_type ins \<in> set (rl_allowed_asset_types l) \<and> oi_side intent = BUY \<and>
    dec_eq (oi_target_leverage intent) (rl_required_leverage l) \<and>
    oi_currency intent = in_currency ins \<and> ae_currency account = in_currency ins \<and> moment < oi_expires_at intent \<and>
    qe_observed_at quote \<le> moment \<and> moment \<le> qe_observed_at quote + seconds (rl_quote_max_age_seconds l) \<and>
    (\<forall>t. ae_observed_at account = Some t \<longrightarrow> t \<le> moment \<and> moment \<le> t + seconds (rl_account_max_age_seconds l)) \<and>
    (rl_regular_hours_only l \<longrightarrow> qe_regular_session_open quote) \<and> ae_pending_orders_complete account \<and>
    (\<forall>x\<in>set (ae_pending_orders account). \<exists>y\<in>set (pending_orders account). pending_eq x y) \<and>
    exact_order intent account quote \<le> dec_val (rl_max_order_equity_fraction l) * e \<and>
    exact_issuer intent ins account quote \<le> dec_val (rl_max_issuer_fraction l) * e \<and>
    exact_sector intent ins account quote \<le> dec_val (rl_max_sector_fraction l) * e \<and>
    exact_gross intent account quote \<le> dec_val (rl_max_gross_fraction l) * e \<and>
    \<bar>exact_net intent account quote\<bar> \<le> dec_val (rl_max_net_fraction l) * e \<and>
    dec_val (rl_min_cash_buffer_fraction l) * e \<le> exact_cash intent account quote"
proof (rule evaluate_read [OF assms(1-3)])
  fix m' off' reasons shown usable loss_ok fall_ok
  assume "Aware moment off = Aware m' off'"
    and at: "account_time (risk_precision intent account quote) l account m' = Inr (shown, usable)"
    and v: "map verdict (rd_checks d) = scope_verdicts l intent ins account quote m' usable @
       (if ae_contract_version account = versioned_contract then versioned_verdicts l intent ins account quote reasons else []) @
       exposure_verdicts l intent ins account quote loss_ok fall_ok"
    and valid: "valid_decision d"
  then have m: "m' = moment" by simp
  have all: "list_all snd (scope_verdicts l intent ins account quote moment usable)"
    "list_all snd (exposure_verdicts l intent ins account quote loss_ok fall_ok)"
    using assms(4) accepted_verdicts [OF valid] unfolding v m by simp_all
  have ok: "account_ok account" using assms(1) by (simp add: ordinary_def)
  have time: "\<forall>t. ae_observed_at account = Some t \<longrightarrow> t \<le> moment \<and> moment \<le> t + seconds (rl_account_max_age_seconds l)"
    using at all(1) ok unfolding m
    by (cases "ae_component_time account") (auto simp: account_time_def Let_def account_ok_def scope_verdicts_def)
  have pending: "\<forall>x\<in>set (ae_pending_orders account). \<exists>y\<in>set (pending_orders account). pending_eq x y"
    using all(1) ok pending_covered [of account] by (auto simp: scope_verdicts_def account_ok_def)
  have "exact_issuer intent ins account quote \<le> dec_val (rl_max_issuer_fraction l) * dec_val (ae_equity account)"
    using all(2) by (auto simp: exposure_verdicts_def Let_def dest: abs_le_D1)
  then show ?thesis
    using all time pending unfolding e_def by (simp add: scope_verdicts_def exposure_verdicts_def Let_def)
qed

text \<open>
  C6: an account under the versioned contract is accepted only on verified performance. The
  performance evidence is untampered, qualified and complete, bound to this snapshot, account
  and valuation, no older than the account limit; its loss and drawdown are strictly below the
  stops; the account balances exactly, every holding is classified, and every issuer's and
  every sector's exact total is within its limit.
\<close>

theorem versioned_acceptance_sound:
  assumes "ordinary intent account quote" and "short_limits l" and "ae_contract_version account = versioned_contract"
    and "evaluate H l fresh intent ins account quote (Aware moment off) = Inr d" and "rd_outcome d = ACCEPTED"
  shows "\<exists>e loss fall. ae_performance account = Some e \<and> projection_valid H e \<and> pe_qualified e \<and> pe_history_complete e \<and>
    pe_reasons e = [] \<and> pe_current_snapshot_id e = ae_snapshot_id account \<and> Some (pe_account_id e) = ae_account_id account \<and>
    pe_coverage_end_at e \<le> moment \<and> moment \<le> pe_coverage_end_at e + seconds (rl_account_max_age_seconds l) \<and>
    valuation_binding (risk_precision intent account quote) account e = [] \<and>
    pe_daily_loss_fraction e = Some loss \<and> 0 \<le> dec_val loss \<and> dec_lt loss (rl_daily_loss_stop_fraction l) \<and>
    pe_drawdown_fraction e = Some fall \<and> 0 \<le> dec_val fall \<and> dec_lt fall (rl_drawdown_stop_fraction l) \<and>
    balanced account \<and> classified ins account \<and>
    (\<forall>issuer. exact_issuer_total intent ins account quote issuer \<le> dec_val (rl_max_issuer_fraction l) * dec_val (ae_equity account)) \<and>
    (\<forall>sector. exact_sector_total intent ins account quote sector \<le> dec_val (rl_max_sector_fraction l) * dec_val (ae_equity account))"
proof (rule evaluate_read [OF assms(1,2,4)])
  let ?p = "risk_precision intent account quote"
  fix m' off' reasons loss fall usable loss_ok fall_ok
  assume "Aware moment off = Aware m' off'" and m: "metrics H l account ?p m' = Inr (reasons, loss, fall)"
    and stops: "below_stop loss (rl_daily_loss_stop_fraction l) = Inr loss_ok" "below_stop fall (rl_drawdown_stop_fraction l) = Inr fall_ok"
    and v: "map verdict (rd_checks d) = scope_verdicts l intent ins account quote m' usable @
       (if ae_contract_version account = versioned_contract then versioned_verdicts l intent ins account quote reasons else []) @
       exposure_verdicts l intent ins account quote loss_ok fall_ok"
    and valid: "valid_decision d"
  then have m': "m' = moment" by simp
  have all: "list_all snd (versioned_verdicts l intent ins account quote reasons)"
    "list_all snd (exposure_verdicts l intent ins account quote loss_ok fall_ok)"
    using assms(3,5) accepted_verdicts [OF valid] unfolding v by simp_all
  have passed: "reasons = []" "loss_ok" "fall_ok" "balanced account" "classified ins account"
    "\<forall>issuer. exact_issuer_total intent ins account quote issuer \<le> dec_val (rl_max_issuer_fraction l) * dec_val (ae_equity account)"
    "\<forall>sector. exact_sector_total intent ins account quote sector \<le> dec_val (rl_max_sector_fraction l) * dec_val (ae_equity account)"
    using all by (simp_all add: versioned_verdicts_def exposure_verdicts_def Let_def)
  have vm: "versioned_metrics H ?p l account moment = ([], loss, fall)"
    using m assms(3) passed(1) unfolding m' by (simp add: metrics_def)
  obtain e where e: "ae_performance account = Some e" "performance_status H l account moment e = []" "valuation_binding ?p account e = []"
    "loss = pe_daily_loss_fraction e" "fall = pe_drawdown_fraction e" "\<not> metric_unknown loss" "\<not> metric_unknown fall"
    using vm by (cases "ae_performance account") (auto simp: versioned_metrics_def Let_def split: if_splits)
  obtain x y where xy: "loss = Some x" "fall = Some y" "is_finite x" "is_finite y" "0 \<le> dec_val x" "0 \<le> dec_val y"
    using e(6,7) by (auto simp: metric_unknown_def not_less split: option.splits)
  have "dec_lt x (rl_daily_loss_stop_fraction l)" "dec_lt y (rl_drawdown_stop_fraction l)"
    using stops passed(2,3) xy by (auto simp: below_stop_True)
  moreover have "projection_valid H e" "pe_qualified e" "pe_history_complete e" "pe_reasons e = []"
    "pe_current_snapshot_id e = ae_snapshot_id account" "Some (pe_account_id e) = ae_account_id account"
    "pe_coverage_end_at e \<le> moment" "moment \<le> pe_coverage_end_at e + seconds (rl_account_max_age_seconds l)"
    using e(2) by (auto simp: performance_status_def split: if_splits)
  ultimately show ?thesis using e xy passed by (intro exI [of _ e] exI [of _ x] exI [of _ y]) simp
qed

section \<open>An accepted order\<close>

definition ex_quote :: quote_evidence where
  "ex_quote = \<lparr>qe_quote_id = ''q'', qe_internal_instrument_id = 2, qe_observed_at = 99000000, qe_bid = Dec False 99 0,
     qe_ask = Dec False 100 0, qe_regular_session_open = True\<rparr>"

definition ex_position :: position_evidence where
  "ex_position = \<lparr>po_internal_instrument_id = 5, po_sector = ''energy'', po_signed_market_value = Dec False 2000 0,
     po_broker_position_id = None, po_broker_instrument_id = None\<rparr>"

definition ex_pending :: pending_order_evidence where
  "ex_pending = \<lparr>pn_broker_order_id = ''o'', pn_internal_instrument_id = 2, pn_sector = ''tech'', pn_side = BUY,
     pn_remaining_notional = Dec False 50050 (-2)\<rparr>"

definition ex_valued :: account_valuation where
  "ex_valued = \<lparr>av_account_id = ''a'', av_snapshot_id = ''snap'', av_currency = ''USD'', av_cash = Dec False 98000 0,
     av_invested_amount = Dec False 1900 0, av_unrealised_pnl = Dec False 100 0, av_equity = Dec False 100000 0,
     av_broker_margin = dec0, av_gross_exposure = Dec False 2000 0, av_reconciliation_reference = ''r'',
     av_time_evidence_hash = [], av_valuation_at = Some 99000000, av_component_start_at = None,
     av_component_end_at = None, av_time_model = ATOMIC_TIME_MODEL\<rparr>"

definition ex_unsealed :: performance_evidence where
  "ex_unsealed = \<lparr>pe_current_snapshot_id = ''snap'', pe_account_id = ''a'', pe_currency = ''USD'', pe_risk_day = [],
     pe_risk_timezone = [], pe_coverage_start_at = Some 0, pe_coverage_end_at = 99000000, pe_daily_pnl = Some dec0,
     pe_daily_loss_denominator = Some dec1, pe_daily_loss_fraction = Some dec0, pe_equity_index = Some dec1,
     pe_peak_equity_index = Some dec1, pe_drawdown_fraction = Some (Dec False 1 (-2)), pe_history_complete = True,
     pe_qualified = True, pe_reasons = [], pe_current_valuation = Some ex_valued, pe_model_version = MODEL_VERSION,
     pe_evidence_hash = [], pe_projection_hash = []\<rparr>"

definition ex_performance :: performance_evidence where
  "ex_performance = ex_unsealed\<lparr>pe_projection_hash := projection_digest ex_digest ex_unsealed\<rparr>"

definition ex_account :: "string \<Rightarrow> account_evidence" where
  "ex_account contract = \<lparr>ae_snapshot_id = ''snap'', ae_environment = DEMO, ae_observed_at = Some 99000000,
     ae_currency = ''USD'', ae_equity = Dec False 100000 0, ae_cash = Dec False 98000 0, ae_daily_pnl = Some dec0,
     ae_peak_equity = Some (Dec False 100000 0), ae_positions = [ex_position], ae_pending_orders = [ex_pending, ex_pending],
     ae_pending_orders_complete = True, ae_contract_version = contract, ae_account_id = Some ''a'',
     ae_component_time = None, ae_performance = Some ex_performance, ae_invested_amount = Some (Dec False 1900 0),
     ae_unrealised_pnl = Some (Dec False 100 0), ae_estimated_order_costs = dec1, ae_positions_complete = True,
     ae_issuer_by_instrument = [(uuid_str 2, ''apple''), (uuid_str 5, ''shell'')]\<rparr>"

lemma ex_ordinary:
  "contract \<in> {legacy_contract, versioned_contract} \<Longrightarrow> ordinary ex_intent (ex_account contract) ex_quote"
  by (auto simp: ordinary_def account_ok_def quote_ok_def ex_account_def ex_quote_def ex_position_def ex_pending_def
      position_ok_def pending_ok_def ex_intent_def not_blank_Cons py_isspace_def)

lemma ex_short_limits: "short_limits ex_limits"
  by (simp add: short_limits_def risk_fractions_def ex_limits_def short_limit_def power_int_minus)

lemma ex_pending_orders: "pending_orders (ex_account contract) = [ex_pending]" "\<not> contradictory_pending (ex_account contract)"
  by (simp_all add: pending_orders_def contradictory_pending_def ex_account_def pending_eq_def ex_pending_def)

lemma ex_scope: "list_all snd (scope_verdicts ex_limits ex_intent (ex_instrument 2 ''tech'') (ex_account contract) ex_quote 100000000 True)"
  using ex_pending_orders(2) [of contract]
  by (simp add: scope_verdicts_def ex_limits_def ex_intent_def ex_instrument_def ex_quote_def seconds_def)
    (simp add: ex_account_def)

lemma ex_exposures: "list_all snd (exposure_verdicts ex_limits ex_intent (ex_instrument 2 ''tech'') (ex_account contract) ex_quote True True)"
  by (simp add: exposure_verdicts_def exact_order_def exact_issuer_def exact_sector_def exact_gross_def exact_net_def
      exact_cash_def held_def reserved_def ex_pending_orders Let_def)
    (simp add: ex_limits_def ex_intent_def ex_instrument_def ex_account_def ex_position_def ex_pending_def power_int_minus)

lemma ex_stops:
  "is_finite x \<Longrightarrow> dec_val x \<le> 0 \<Longrightarrow> below_stop (Some x) (rl_daily_loss_stop_fraction ex_limits) = Inr True"
  "is_finite x \<Longrightarrow> dec_val x \<le> 1 / 100 \<Longrightarrow> below_stop (Some x) (rl_drawdown_stop_fraction ex_limits) = Inr True"
proof -
  have l: "is_finite (rl_daily_loss_stop_fraction ex_limits)" "dec_val (rl_daily_loss_stop_fraction ex_limits) = 1 / 100"
    "is_finite (rl_drawdown_stop_fraction ex_limits)" "dec_val (rl_drawdown_stop_fraction ex_limits) = 5 / 100"
    by (simp_all add: ex_limits_def power_int_minus)
  have stop: "below_stop (Some x) t = Inr True" if "is_finite x" "is_finite t" "dec_val x < dec_val t" for t
    using that unfolding below_stop_True by (intro exI [of _ x]) auto
  show "is_finite x \<Longrightarrow> dec_val x \<le> 0 \<Longrightarrow> below_stop (Some x) (rl_daily_loss_stop_fraction ex_limits) = Inr True"
    "is_finite x \<Longrightarrow> dec_val x \<le> 1 / 100 \<Longrightarrow> below_stop (Some x) (rl_drawdown_stop_fraction ex_limits) = Inr True"
    by (rule stop; use l in simp)+
qed

lemma zero_fits: "fits p 0"
  using fits_int [of 0 p 0] by simp

lemma ex_legacy_metrics:
  assumes "0 < p"
  shows "\<exists>loss fall. metrics H l (ex_account legacy_contract) p moment = Inr ([], Some loss, Some fall) \<and>
    is_finite loss \<and> is_finite fall \<and> dec_val loss = 0 \<and> dec_val fall = 0"
proof -
  let ?e = "Dec False 100000 0"
  have zero: "\<exists>q. fraction_of p x ?e = Inr q \<and> is_finite q \<and> dec_val q = 0" if "is_finite x" "dec_val x = 0" for x
  proof (rule fraction_rounds [OF that(1), of ?e p])
    fix q assume "fraction_of p x ?e = Inr q" "is_finite q" "rounds p (dec_val x / dec_val ?e) (dec_val q)"
    then show ?thesis using that(2) zero_fits [of p] by (auto simp: rounds_def intro!: antisym)
  qed (use assms in simp_all)
  have "dec_val (dec_sub p ?e ?e) = 0" using dec_sub_exact [of ?e ?e p] assms zero_fits [of p] by simp
  then obtain fall where fall: "fraction_of p (dec_sub p ?e ?e) ?e = Inr fall" "is_finite fall" "dec_val fall = 0"
    using zero [of "dec_sub p ?e ?e"] by auto
  obtain c where c: "fraction_of p dec0 ?e = Inr c" "is_finite c" "dec_val c = 0" using zero [of dec0] by auto
  have neg: "is_finite (dec_neg p c)" "dec_val (dec_neg p c) = 0"
    using dec_neg_exact(1) [OF c(2) assms] c zero_fits [of p] by simp_all
  have max: "is_finite (dec_max dec0 x)" "dec_val (dec_max dec0 x) = 0" if "is_finite x" "dec_val x = 0" for x
    using that by (simp_all add: dec_max_def)
  have sel: "ae_peak_equity (ex_account legacy_contract) = Some ?e" "ae_equity (ex_account legacy_contract) = ?e"
    "ae_daily_pnl (ex_account legacy_contract) = Some dec0" "ae_contract_version (ex_account legacy_contract) = legacy_contract"
    by (simp_all add: ex_account_def)
  have "metrics H l (ex_account legacy_contract) p moment = Inr ([], Some (dec_max dec0 (dec_neg p c)), Some (dec_max dec0 fall))"
    by (simp add: metrics_def legacy_metrics_def the_decimal_def sel fall(1) c(1))
  then show ?thesis using max [OF neg] max [OF fall(2,3)] by blast
qed

lemma ex_time: "account_time p ex_limits (ex_account contract) 100000000 = Inr (seconds_text 1000000, True)"
  by (simp add: account_time_def ex_account_def ex_limits_def Let_def seconds_def)

lemma ex_identities:
  "qe_internal_instrument_id ex_quote = in_internal_instrument_id (ex_instrument 2 ''tech'')"
  "oi_internal_instrument_id ex_intent = in_internal_instrument_id (ex_instrument 2 ''tech'')"
  "\<not> blank (oi_intent_hash ex_intent)"
  "ae_performance (ex_account contract) = Some e \<Longrightarrow> pe_daily_loss_fraction e \<noteq> Some DNaN \<and> pe_drawdown_fraction e \<noteq> Some DNaN"
  by (auto simp: ex_quote_def ex_instrument_def ex_intent_def not_blank_Cons py_isspace_def ex_account_def
      ex_performance_def ex_unsealed_def)

lemma ex_accepted_legacy:
  "\<exists>d. evaluate ex_digest ex_limits 7 ex_intent (ex_instrument 2 ''tech'') (ex_account legacy_contract) ex_quote (Aware 100000000 0) = Inr d \<and>
     rd_outcome d = ACCEPTED"
proof -
  let ?a = "ex_account legacy_contract"
  have ord: "ordinary ex_intent ?a ex_quote" by (rule ex_ordinary) simp
  have "0 < risk_precision ex_intent ?a ex_quote" using risk_capacity(5) [OF ord] by (simp add: capacity_def)
  from ex_legacy_metrics [OF this] obtain loss fall where m:
    "metrics ex_digest ex_limits ?a (risk_precision ex_intent ?a ex_quote) 100000000 = Inr ([], Some loss, Some fall)"
    "is_finite loss" "is_finite fall" "dec_val loss = 0" "dec_val fall = 0" by blast
  show ?thesis
    by (rule evaluate_accepts [OF ord ex_short_limits ex_identities m(1) ex_time ex_stops(1) [OF m(2)] ex_stops(2) [OF m(3)]
        ex_scope _ ex_exposures]) (simp_all add: m ex_account_def)
qed

lemma ex_issuers: "issuer_of (dict_update [] (ae_issuer_by_instrument (ex_account contract))) 2 = ''apple''"
  "issuer_of (dict_update [] (ae_issuer_by_instrument (ex_account contract))) 5 = ''shell''"
  "length (dict_update [] (ae_issuer_by_instrument (ex_account contract))) = 2"
proof -
  have ne: "uuid_str 2 \<noteq> uuid_str 5" using uuid_str_inj by fastforce
  show "issuer_of (dict_update [] (ae_issuer_by_instrument (ex_account contract))) 2 = ''apple''"
    "issuer_of (dict_update [] (ae_issuer_by_instrument (ex_account contract))) 5 = ''shell''"
    "length (dict_update [] (ae_issuer_by_instrument (ex_account contract))) = 2"
    using ne by (simp_all add: dict_update_def issuer_of_def ex_account_def)
qed

lemma ex_versioned:
  defines "a \<equiv> ex_account versioned_contract"
  shows "list_all snd (versioned_verdicts ex_limits ex_intent (ex_instrument 2 ''tech'') a ex_quote [])"
proof -
  let ?i = "ex_instrument 2 ''tech''"
  have sel: "in_internal_instrument_id ?i = 2" "in_sector ?i = ''tech''" "ae_positions a = [ex_position]" "pending_orders a = [ex_pending]"
    "po_internal_instrument_id ex_position = 5" "pn_internal_instrument_id ex_pending = 2"
    "po_sector ex_position = ''energy''" "pn_sector ex_pending = ''tech''" "dec_val (po_signed_market_value ex_position) = 2000"
    "dec_val (pn_remaining_notional ex_pending) = 1001 / 2" "exact_order ex_intent a ex_quote = 100" "dec_val (ae_equity a) = 100000"
    "dec_val (rl_max_issuer_fraction ex_limits) = 5 / 100" "dec_val (rl_max_sector_fraction ex_limits) = 20 / 100"
    by (simp_all add: a_def ex_pending_orders)
      (simp_all add: ex_instrument_def ex_account_def ex_position_def ex_pending_def exact_order_def ex_intent_def ex_limits_def power_int_minus)
  have totals: "exact_issuer_total ex_intent ?i a ex_quote issuer \<le> 5000" "exact_sector_total ex_intent ?i a ex_quote sector \<le> 20000" for issuer sector
    using ex_issuers [of versioned_contract, folded a_def]
    by (simp_all add: exact_issuer_total_def exact_sector_total_def held_def reserved_def sel Let_def)
  have "issuer_coverage p ?i a" for p
  proof -
    have ne: "uuid_str 2 \<noteq> uuid_str 5" using uuid_str_inj by fastforce
    have strip: "py_strip ''apple'' = ''apple''" "py_strip ''shell'' = ''shell''" by (simp_all add: py_strip_def py_isspace_def)
    show ?thesis using ne ex_issuers(3) [of versioned_contract]
      by (simp add: issuer_coverage_def exposure_items_def sel Let_def strip)
        (simp add: a_def ex_account_def dict_update_def strip)
  qed
  moreover have "balanced a" by (simp add: balanced_def a_def ex_account_def)
  moreover have "classified ?i a" by (simp add: classified_def sel)
  moreover have "ae_positions_complete a" "ae_account_id a = Some ''a''" by (simp_all add: a_def ex_account_def)
  ultimately show ?thesis using totals by (simp add: versioned_verdicts_def Let_def sel)
qed

lemma ex_accepted_versioned:
  "\<exists>d. evaluate ex_digest ex_limits 7 ex_intent (ex_instrument 2 ''tech'') (ex_account versioned_contract) ex_quote (Aware 100000000 0) = Inr d \<and>
     rd_outcome d = ACCEPTED"
proof -
  let ?a = "ex_account versioned_contract"
  let ?p = "risk_precision ex_intent ?a ex_quote"
  have ord: "ordinary ex_intent ?a ex_quote" by (rule ex_ordinary) simp
  have gross: "dec_eq (Dec False 2000 0) (dec_sum ?p (map (\<lambda>x. dec_abs ?p (po_signed_market_value x)) (ae_positions ?a)))"
  proof -
    have "dec_val (dec_sum ?p (map (\<lambda>x. dec_abs ?p (po_signed_market_value x)) (ae_positions ?a))) = 2000"
      using held_sum(2) [OF ord, of "\<lambda>_. True"] by (simp add: held_def) (simp add: ex_account_def ex_position_def)
    moreover have "is_finite (dec_sum ?p (map (\<lambda>x. dec_abs ?p (po_signed_market_value x)) (ae_positions ?a)))"
      using held_sum(1) [OF ord, of "\<lambda>_. True"] by (simp add: amount_def sized_def)
    ultimately show ?thesis by (simp add: dec_eq_def)
  qed
  have perf: "ae_performance ?a = Some ex_performance" by (simp add: ex_account_def)
  have "projection_valid ex_digest ex_performance"
    by (simp add: projection_valid_def ex_performance_def projection_digest_def performance_fields_def)
  then have status: "performance_status ex_digest ex_limits ?a 100000000 ex_performance = []"
    by (simp add: performance_status_def ex_performance_def ex_unsealed_def ex_limits_def seconds_def) (simp add: ex_account_def)
  have binding: "valuation_binding ?p ?a ex_performance = []"
    using gross
    by (simp add: valuation_binding_def ex_performance_def ex_unsealed_def ex_valued_def coverage_at_def dec_opt_eq_def)
      (simp add: ex_account_def)
  have m: "metrics ex_digest ex_limits ?a ?p 100000000 = Inr ([], Some dec0, Some (Dec False 1 (-2)))"
    using status binding
    by (simp add: metrics_def versioned_metrics_def perf Let_def)
      (simp add: ex_account_def metric_unknown_def ex_performance_def ex_unsealed_def)
  show ?thesis
    by (rule evaluate_accepts [OF ord ex_short_limits ex_identities m ex_time ex_stops(1) ex_stops(2)
        ex_scope ex_versioned ex_exposures]) (simp_all add: power_int_minus)
qed

theorem evaluate_decides_witness:
  "\<exists>d. evaluate ex_digest ex_limits 7 ex_intent (ex_instrument 2 ''tech'') (ex_account legacy_contract) ex_quote (Aware 100000000 0) = Inr d \<and>
     rd_intent_hash d = ''sha'' \<and> (rd_outcome d = ACCEPTED \<longleftrightarrow> rd_reasons d = [])"
proof -
  have "ordinary ex_intent (ex_account legacy_contract) ex_quote" by (rule ex_ordinary) simp
  from evaluate_decides [OF this ex_short_limits ex_identities(1-3) ex_identities(4) [of legacy_contract], of ex_digest 7 100000000 0]
  obtain d where d: "evaluate ex_digest ex_limits 7 ex_intent (ex_instrument 2 ''tech'') (ex_account legacy_contract) ex_quote
      (Aware 100000000 0) = Inr d" "rd_intent_hash d = oi_intent_hash ex_intent" "rd_outcome d = ACCEPTED \<longleftrightarrow> rd_reasons d = []" by blast
  moreover have "oi_intent_hash ex_intent = ''sha''" by (simp add: ex_intent_def)
  ultimately show ?thesis by auto
qed

theorem limits_decided_exactly_witness:
  "\<exists>d. evaluate ex_digest ex_limits 7 ex_intent (ex_instrument 2 ''tech'') (ex_account versioned_contract) ex_quote (Aware 100000000 0) = Inr d \<and>
     map_of (map (\<lambda>c. (rc_name c, rc_passed c)) (rd_checks d)) ''order_size'' = Some (100 \<le> (1 / 100 * 100000 :: rat))"
proof -
  have ord: "ordinary ex_intent (ex_account versioned_contract) ex_quote" by (rule ex_ordinary) simp
  obtain d where d: "evaluate ex_digest ex_limits 7 ex_intent (ex_instrument 2 ''tech'') (ex_account versioned_contract) ex_quote
      (Aware 100000000 0) = Inr d" using ex_accepted_versioned by blast
  have "exact_order ex_intent (ex_account versioned_contract) ex_quote = 100" "dec_val (ae_equity (ex_account versioned_contract)) = 100000"
    "dec_val (rl_max_order_equity_fraction ex_limits) = 1 / 100"
    by (simp_all add: exact_order_def ex_intent_def ex_account_def ex_limits_def power_int_minus)
  then show ?thesis using limits_decided_exactly [OF ord ex_short_limits d] d by simp
qed

theorem accepted_within_limits_witness:
  "\<exists>d. evaluate ex_digest ex_limits 7 ex_intent (ex_instrument 2 ''tech'') (ex_account legacy_contract) ex_quote (Aware 100000000 0) = Inr d \<and>
     rd_outcome d = ACCEPTED \<and> exact_gross ex_intent (ex_account legacy_contract) ex_quote \<le>
       dec_val (rl_max_gross_fraction ex_limits) * dec_val (ae_equity (ex_account legacy_contract))"
proof -
  have ord: "ordinary ex_intent (ex_account legacy_contract) ex_quote" by (rule ex_ordinary) simp
  obtain d where d: "evaluate ex_digest ex_limits 7 ex_intent (ex_instrument 2 ''tech'') (ex_account legacy_contract) ex_quote
      (Aware 100000000 0) = Inr d" "rd_outcome d = ACCEPTED" using ex_accepted_legacy by blast
  show ?thesis using accepted_within_limits [OF ord ex_short_limits d] d by blast
qed

theorem versioned_acceptance_sound_witness:
  "\<exists>d. evaluate ex_digest ex_limits 7 ex_intent (ex_instrument 2 ''tech'') (ex_account versioned_contract) ex_quote (Aware 100000000 0) = Inr d \<and>
     rd_outcome d = ACCEPTED \<and> balanced (ex_account versioned_contract)"
proof -
  have ord: "ordinary ex_intent (ex_account versioned_contract) ex_quote" by (rule ex_ordinary) simp
  have v: "ae_contract_version (ex_account versioned_contract) = versioned_contract" by (simp add: ex_account_def)
  obtain d where d: "evaluate ex_digest ex_limits 7 ex_intent (ex_instrument 2 ''tech'') (ex_account versioned_contract) ex_quote
      (Aware 100000000 0) = Inr d" "rd_outcome d = ACCEPTED" using ex_accepted_versioned by blast
  show ?thesis using versioned_acceptance_sound [OF ord ex_short_limits v d] d by blast
qed

end
