(* ===== verification/Schedule.thy ===== *)
theory Schedule
  imports Store Py_Render Once
begin

text \<open>
  \<open>src/scheduler/config.py\<close>, \<open>lock.py\<close> and \<open>store.py\<close>: the configuration of the scheduled Demo
  runs, the exclusive run lock and the SQLite store of runs, approval waits, heartbeats,
  operator actions, mutation cycles and fault drills. Drawn UUIDs are arguments. Timestamps
  are stored as ISO text of UTC instants; the columns here hold the instants, whose order is
  that of the texts. Flags are stored as 0 and 1.
\<close>

section \<open>Configuration\<close>

record scheduler_config =
  sc_enabled :: bool
  sc_environment :: string
  sc_broker_submission_enabled :: bool
  sc_per_order_human_approval_required :: bool
  sc_approval_ttl_seconds :: int
  sc_heartbeat_interval_seconds :: int
  sc_minimum_trading_sessions :: int
  sc_minimum_approved_mutation_cycles :: int
  sc_required_fault_drills :: "string list"

text \<open>\<open>value[key]\<close> with a text key, of any YAML value.\<close>

definition yaml_sub :: "yaml \<Rightarrow> string \<Rightarrow> yaml result" where
  "yaml_sub v k = (case v of YMap kvs \<Rightarrow> of_option (PyKeyError k) (map_of kvs k)
                           | _ \<Rightarrow> Inl (PyTypeError ''not subscriptable by text''))"

definition scheduler_values :: "yaml \<Rightarrow> scheduler_config result" where
  "scheduler_values raw =
     bindR (yaml_sub raw ''qualification'') (\<lambda>qualification.
     bindR (yaml_sub raw ''enabled'') (\<lambda>enabled.
     bindR (yaml_sub raw ''environment'') (\<lambda>env.
     bindR (yaml_sub raw ''broker_submission_enabled'') (\<lambda>submission.
     bindR (yaml_sub raw ''per_order_human_approval_required'') (\<lambda>human.
     bindR (bindR (yaml_sub raw ''approval_ttl_seconds'') yaml_int) (\<lambda>ttl.
     bindR (bindR (yaml_sub raw ''heartbeat_interval_seconds'') yaml_int) (\<lambda>interval.
     bindR (bindR (yaml_sub qualification ''minimum_trading_sessions'') yaml_int) (\<lambda>sessions.
     bindR (bindR (yaml_sub qualification ''minimum_approved_mutation_cycles'') yaml_int) (\<lambda>cycles.
     bindR (bindR (yaml_sub qualification ''required_fault_drills'') yaml_items) (\<lambda>drills.
     Inr \<lparr>sc_enabled = yaml_true enabled, sc_environment = py_lower (py_strip (yaml_str env)),
          sc_broker_submission_enabled = yaml_true submission,
          sc_per_order_human_approval_required = yaml_true human, sc_approval_ttl_seconds = ttl,
          sc_heartbeat_interval_seconds = interval, sc_minimum_trading_sessions = sessions,
          sc_minimum_approved_mutation_cycles = cycles,
          sc_required_fault_drills = map (\<lambda>v. py_strip (yaml_str v)) drills\<rparr>))))))))))"

text \<open>
  \<open>except (OSError, YAMLError, KeyError, TypeError, ValueError)\<close>: an infinite number is an
  \<open>OverflowError\<close>, which is none of these.
\<close>

definition scheduler_rescue :: "'a result \<Rightarrow> 'a result" where
  "scheduler_rescue r = (case r of
       Inl (PyOverflowError m) \<Rightarrow> Inl (PyOverflowError m)
     | Inl _ \<Rightarrow> Inl (SchedulerConfigurationError ''scheduler configuration is missing or invalid'')
     | Inr x \<Rightarrow> Inr x)"

definition load_scheduler_config :: "yaml option \<Rightarrow> scheduler_config result" where
  "load_scheduler_config doc =
     bindR (scheduler_rescue (bindR (of_option (PyValueError ''unreadable'') doc) scheduler_values)) (\<lambda>c.
     raiseIf (sc_environment c \<noteq> ''demo'') (SchedulerConfigurationError ''scheduler supports Demo only'') (
     raiseIf (sc_broker_submission_enabled c)
       (SchedulerConfigurationError ''scheduler may never receive broker submission capability'') (
     raiseIf (\<not> sc_per_order_human_approval_required c)
       (SchedulerConfigurationError ''every scheduled order requires approval'') (
     raiseIf (sc_approval_ttl_seconds c \<le> 0 \<or> sc_approval_ttl_seconds c > 300)
       (SchedulerConfigurationError ''approval TTL exceeds the five-minute cap'') (
     raiseIf (sc_heartbeat_interval_seconds c \<le> 0)
       (SchedulerConfigurationError ''heartbeat interval must be positive'') (
     raiseIf (sc_minimum_trading_sessions c < 30)
       (SchedulerConfigurationError ''Gate C requires at least 30 sessions'') (
     raiseIf (sc_minimum_approved_mutation_cycles c < 20)
       (SchedulerConfigurationError ''Gate C requires at least 20 cycles'') (
     raiseIf (sc_required_fault_drills c = [] \<or> list_ex (\<lambda>d. d = []) (sc_required_fault_drills c))
       (SchedulerConfigurationError ''required fault drills are incomplete'') (
     Inr c)))))))))"

section \<open>The run lock\<close>

text \<open>The lock file as a reader finds it.\<close>

datatype lock_text = LockGarbled | LockJson json

record lock_lease =
  le_token :: string
  le_run_id :: string
  le_acquired_at :: instant

definition lock_payload :: "string \<Rightarrow> string \<Rightarrow> int \<Rightarrow> instant \<Rightarrow> json" where
  "lock_payload token run_id pid moment = JObj
     [(''schema_version'', JStr ''1.0''), (''token'', JStr token), (''run_id'', JStr run_id), (''pid'', JInt pid),
      (''acquired_at'', JStr (iso_text ''+00:00'' moment))]"

text \<open>
  The file is created exclusively; an exception while writing it removes it again. The clock
  argument is the instant \<open>astimezone(UTC)\<close> gives.
\<close>

definition acquire ::
  "string \<Rightarrow> int \<Rightarrow> error option \<Rightarrow> string \<Rightarrow> instant \<Rightarrow> lock_text option \<Rightarrow> lock_lease result \<times> lock_text option" where
  "acquire token pid write_error run_id moment file =
     (case file of
        Some _ \<Rightarrow> (Inl (ScheduleLockError ''scheduler lock exists; inspect/recover it instead of overriding''), file)
      | None \<Rightarrow> (case write_error of
          Some e \<Rightarrow> (Inl e, None)
        | None \<Rightarrow> (Inr \<lparr>le_token = token, le_run_id = run_id, le_acquired_at = moment\<rparr>,
                  Some (LockJson (lock_payload token run_id pid moment)))))"

text \<open>\<open>payload.get(key)\<close>, which only a dict has.\<close>

definition lock_field :: "json \<Rightarrow> string \<Rightarrow> json result" where
  "lock_field j k = (case j of JObj kvs \<Rightarrow> Inr (case map_of kvs k of None \<Rightarrow> JNull | Some v \<Rightarrow> v)
                             | _ \<Rightarrow> Inl (PyAttributeError ''get''))"

definition release :: "lock_lease \<Rightarrow> lock_text option \<Rightarrow> unit result \<times> lock_text option" where
  "release lease file =
     (case file of
        Some (LockJson payload) \<Rightarrow>
          (case (lock_field payload ''token'', lock_field payload ''run_id'') of
             (Inr token, Inr run_id) \<Rightarrow>
               if token \<noteq> JStr (le_token lease) \<or> run_id \<noteq> JStr (le_run_id lease)
               then (Inl (ScheduleLockError ''scheduler lock ownership mismatch''), file)
               else (Inr (), None)
           | (Inl e, _) \<Rightarrow> (Inl e, file)
           | (_, Inl e) \<Rightarrow> (Inl e, file))
      | _ \<Rightarrow> (Inl (ScheduleLockError ''scheduler lock is missing or corrupt''), file))"

section \<open>The schedule store\<close>

record run_row =
  sr_schedule_run_id :: string
  sr_trading_session :: string
  sr_pipeline_run_id :: string
  sr_state :: string
  sr_started_at :: instant
  sr_completed_at :: "instant option"
  sr_finalization_passed :: int
  sr_nightly_passed :: int
  sr_duplicate_orders :: int
  sr_unresolved_reconciliation :: int
  sr_failure :: string

record wait_row =
  wt_wait_id :: string
  wt_schedule_run_id :: string
  wt_command_id :: string
  wt_intent_hash :: string
  wt_state :: string
  wt_requested_at :: instant
  wt_expires_at :: instant
  wt_approval_id :: "string option"
  wt_operator_id :: string
  wt_resolved_at :: "instant option"

record heartbeat_row =
  hb_heartbeat_id :: string
  hb_schedule_run_id :: string
  hb_recorded_at :: instant
  hb_phase :: string

record action_row =
  oa_action_id :: string
  oa_schedule_run_id :: "string option"
  oa_operator_id :: string
  oa_action :: string
  oa_reason :: string
  oa_recorded_at :: instant

record cycle_row =
  mc_cycle_id :: string
  mc_trading_session :: string
  mc_command_id :: string
  mc_manually_approved :: int
  mc_terminal_state :: string
  mc_duplicate_detected :: int
  mc_reconciliation_resolved :: int
  mc_recovery_verified :: int
  mc_recorded_at :: instant

record drill_row =
  fd_drill_id :: string
  fd_trading_session :: string
  fd_drill_name :: string
  fd_passed :: int
  fd_evidence_checksum :: string
  fd_recorded_at :: instant

record schedule_store =
  schedule_runs :: "run_row list"
  approval_waits :: "wait_row list"
  heartbeats :: "heartbeat_row list"
  operator_actions :: "action_row list"
  mutation_cycles :: "cycle_row list"
  fault_drills :: "drill_row list"

definition empty_schedule :: schedule_store where
  "empty_schedule = \<lparr>schedule_runs = [], approval_waits = [], heartbeats = [], operator_actions = [],
     mutation_cycles = [], fault_drills = []\<rparr>"

type_synonym 'a schedule_op = "schedule_store \<Rightarrow> 'a result \<times> schedule_store"

fun schedule_utc :: "pydatetime \<Rightarrow> instant result" where
  "schedule_utc (Naive _) = Inl (ScheduleStoreError ''timestamp must be timezone-aware'')"
| "schedule_utc (Aware t _) = Inr t"

abbreviation flag :: "bool \<Rightarrow> int" where "flag b \<equiv> (if b then 1 else 0)"

definition start_run :: "uuid \<Rightarrow> string \<Rightarrow> string \<Rightarrow> pydatetime \<Rightarrow> uuid schedule_op" where
  "start_run fresh trading_session pipeline_run_id now = transaction (\<lambda>s.
     let taken = ScheduleStoreError ''schedule run identity already exists or is invalid'' in
     bindR (of_option taken (date_fromisoformat trading_session)) (\<lambda>day.
     bindR (schedule_utc now) (\<lambda>moment.
     raiseIf (\<not> key_free sr_schedule_run_id (uuid_str fresh) (schedule_runs s) \<or>
              \<not> key_free sr_pipeline_run_id pipeline_run_id (schedule_runs s)) taken (
     Inr (fresh, s\<lparr>schedule_runs := schedule_runs s @
       [\<lparr>sr_schedule_run_id = uuid_str fresh, sr_trading_session = day, sr_pipeline_run_id = pipeline_run_id,
         sr_state = ''started'', sr_started_at = moment, sr_completed_at = None, sr_finalization_passed = 0,
         sr_nightly_passed = 0, sr_duplicate_orders = 0, sr_unresolved_reconciliation = 0, sr_failure = []\<rparr>]\<rparr>)))))"

definition run_exists :: "string \<Rightarrow> schedule_store \<Rightarrow> bool" where
  "run_exists k s = (\<not> key_free sr_schedule_run_id k (schedule_runs s))"

definition heartbeat :: "uuid \<Rightarrow> string \<Rightarrow> string \<Rightarrow> pydatetime \<Rightarrow> unit schedule_op" where
  "heartbeat fresh schedule_run_id phase_name now = transaction (\<lambda>s.
     raiseIf (blank phase_name) (ScheduleStoreError ''heartbeat phase is required'') (
     bindR (schedule_utc now) (\<lambda>moment.
     raiseIf (\<not> key_free hb_heartbeat_id (uuid_str fresh) (heartbeats s) \<or> \<not> run_exists schedule_run_id s)
       (integrity ''heartbeats'') (
     Inr ((), s\<lparr>heartbeats := heartbeats s @
       [\<lparr>hb_heartbeat_id = uuid_str fresh, hb_schedule_run_id = schedule_run_id, hb_recorded_at = moment,
         hb_phase = phase_name\<rparr>]\<rparr>)))))"

definition finish_run ::
  "string \<Rightarrow> bool \<Rightarrow> bool \<Rightarrow> bool \<Rightarrow> int \<Rightarrow> int \<Rightarrow> pydatetime \<Rightarrow> string \<Rightarrow> unit schedule_op" where
  "finish_run schedule_run_id succeeded finalization nightly duplicates unresolved now failure = transaction (\<lambda>s.
     raiseIf (min duplicates unresolved < 0) (ScheduleStoreError ''run counters must not be negative'') (
     bindR (schedule_utc now) (\<lambda>moment.
     let open_run = (\<lambda>r. sr_schedule_run_id r = schedule_run_id \<and> sr_state r = ''started'') in
     raiseIf (length (filter open_run (schedule_runs s)) \<noteq> 1)
       (ScheduleStoreError ''schedule run is missing or already terminal'') (
     Inr ((), s\<lparr>schedule_runs := update_rows open_run (\<lambda>r. r\<lparr>
       sr_state := (if succeeded then ''succeeded'' else ''failed''), sr_completed_at := Some moment,
       sr_finalization_passed := flag finalization, sr_nightly_passed := flag nightly,
       sr_duplicate_orders := duplicates, sr_unresolved_reconciliation := unresolved,
       sr_failure := take 500 failure\<rparr>) (schedule_runs s)\<rparr>)))))"

record approval_wait =
  aw_wait_id :: uuid
  aw_schedule_run_id :: uuid
  aw_command_id :: uuid
  aw_intent_hash :: string
  aw_state :: string
  aw_requested_at :: instant
  aw_expires_at :: instant
  aw_approval_id :: "uuid option"

text \<open>\<open>UUID(text)\<close>\<close>

definition uuid_parse :: "string \<Rightarrow> uuid result" where
  "uuid_parse s = of_option (PyValueError ''badly formed hexadecimal UUID string'') (uuid_of_string s)"

text \<open>The row is committed before the identifiers are parsed for the returned object.\<close>

definition insert_wait ::
  "uuid \<Rightarrow> string \<Rightarrow> string \<Rightarrow> string \<Rightarrow> instant \<Rightarrow> instant \<Rightarrow> unit schedule_op" where
  "insert_wait fresh schedule_run_id command_id intent_hash requested expiry = transaction (\<lambda>s.
     raiseIf (\<not> key_free wt_wait_id (uuid_str fresh) (approval_waits s) \<or>
              \<not> key_free wt_command_id command_id (approval_waits s) \<or> \<not> run_exists schedule_run_id s)
       (ScheduleStoreError ''command already has an approval wait'') (
     Inr ((), s\<lparr>approval_waits := approval_waits s @
       [\<lparr>wt_wait_id = uuid_str fresh, wt_schedule_run_id = schedule_run_id, wt_command_id = command_id,
         wt_intent_hash = intent_hash, wt_state = ''awaiting'', wt_requested_at = requested,
         wt_expires_at = expiry, wt_approval_id = None, wt_operator_id = [], wt_resolved_at = None\<rparr>]\<rparr>)))"

definition request_approval ::
  "uuid \<Rightarrow> string \<Rightarrow> string \<Rightarrow> string \<Rightarrow> pydatetime \<Rightarrow> pydatetime \<Rightarrow> approval_wait schedule_op" where
  "request_approval fresh schedule_run_id command_id intent_hash requested_at expires_at s =
     (case bindR (schedule_utc requested_at) (\<lambda>requested. bindR (schedule_utc expires_at) (\<lambda>expiry.
        raiseIf (expiry \<le> requested \<or> expiry - requested > seconds 300)
          (ScheduleStoreError ''approval wait expiry is invalid'') (Inr (requested, expiry)))) of
        Inl e \<Rightarrow> (Inl e, s)
      | Inr (requested, expiry) \<Rightarrow>
          andThen (insert_wait fresh schedule_run_id command_id intent_hash requested expiry s) (\<lambda>_ s.
          (bindR (uuid_parse schedule_run_id) (\<lambda>run. bindR (uuid_parse command_id) (\<lambda>command.
             Inr \<lparr>aw_wait_id = fresh, aw_schedule_run_id = run, aw_command_id = command,
                  aw_intent_hash = intent_hash, aw_state = ''awaiting'', aw_requested_at = requested,
                  aw_expires_at = expiry, aw_approval_id = None\<rparr>)), s)))"

definition approve_wait :: "string \<Rightarrow> string \<Rightarrow> string \<Rightarrow> pydatetime \<Rightarrow> bool \<Rightarrow> unit schedule_op" where
  "approve_wait wait_id approval_id operator_id now human_confirmed = transaction (\<lambda>s.
     raiseIf (\<not> human_confirmed \<or> py_strip operator_id = [])
       (ScheduleStoreError ''approval requires explicit human operator identity'') (
     bindR (schedule_utc now) (\<lambda>moment.
     let open_wait = (\<lambda>r. wt_wait_id r = wait_id \<and> wt_state r = ''awaiting'' \<and> moment < wt_expires_at r) in
     raiseIf (length (filter open_wait (approval_waits s)) \<noteq> 1)
       (ScheduleStoreError ''approval wait is stale, missing, or already resolved'') (
     Inr ((), s\<lparr>approval_waits := update_rows open_wait (\<lambda>r. r\<lparr>wt_state := ''approved'',
       wt_approval_id := Some approval_id, wt_operator_id := py_strip operator_id,
       wt_resolved_at := Some moment\<rparr>) (approval_waits s)\<rparr>)))))"

definition expire_approvals :: "pydatetime \<Rightarrow> int schedule_op" where
  "expire_approvals now = transaction (\<lambda>s.
     bindR (schedule_utc now) (\<lambda>moment.
     let lapsed = (\<lambda>r. wt_state r = ''awaiting'' \<and> wt_expires_at r \<le> moment) in
     Inr (int (length (filter lapsed (approval_waits s))),
          s\<lparr>approval_waits := update_rows lapsed (\<lambda>r. r\<lparr>wt_state := ''expired'', wt_resolved_at := Some moment\<rparr>)
            (approval_waits s)\<rparr>)))"

definition record_operator_action ::
  "uuid \<Rightarrow> string \<Rightarrow> string \<Rightarrow> string \<Rightarrow> pydatetime \<Rightarrow> string option \<Rightarrow> unit schedule_op" where
  "record_operator_action fresh operator_id action reason now schedule_run_id = transaction (\<lambda>s.
     raiseIf (blank operator_id \<or> blank action \<or> blank reason)
       (ScheduleStoreError ''operator action identity/reason is incomplete'') (
     bindR (schedule_utc now) (\<lambda>moment.
     raiseIf (\<not> key_free oa_action_id (uuid_str fresh) (operator_actions s)) (integrity ''operator_actions'') (
     Inr ((), s\<lparr>operator_actions := operator_actions s @
       [\<lparr>oa_action_id = uuid_str fresh,
         oa_schedule_run_id = (case schedule_run_id of Some k \<Rightarrow> if k = [] then None else Some k | None \<Rightarrow> None),
         oa_operator_id = operator_id, oa_action = action, oa_reason = reason, oa_recorded_at = moment\<rparr>]\<rparr>)))))"

definition terminal_cycle_states :: "string list" where
  "terminal_cycle_states = [''filled'', ''partially_filled'', ''rejected'', ''cancelled'']"

definition record_mutation_cycle ::
  "uuid \<Rightarrow> string \<Rightarrow> string \<Rightarrow> bool \<Rightarrow> string \<Rightarrow> bool \<Rightarrow> bool \<Rightarrow> bool \<Rightarrow> pydatetime \<Rightarrow> uuid schedule_op" where
  "record_mutation_cycle fresh trading_session command_id approved terminal duplicate resolved verified now = transaction (\<lambda>s.
     let taken = ScheduleStoreError ''mutation cycle identity already exists or is invalid'' in
     raiseIf (terminal \<notin> set terminal_cycle_states) (ScheduleStoreError ''mutation cycle is not terminal'') (
     bindR (of_option taken (date_fromisoformat trading_session)) (\<lambda>day.
     bindR (schedule_utc now) (\<lambda>moment.
     raiseIf (\<not> key_free mc_cycle_id (uuid_str fresh) (mutation_cycles s) \<or>
              \<not> key_free mc_command_id command_id (mutation_cycles s)) taken (
     Inr (fresh, s\<lparr>mutation_cycles := mutation_cycles s @
       [\<lparr>mc_cycle_id = uuid_str fresh, mc_trading_session = day, mc_command_id = command_id,
         mc_manually_approved = flag approved, mc_terminal_state = terminal, mc_duplicate_detected = flag duplicate,
         mc_reconciliation_resolved = flag resolved, mc_recovery_verified = flag verified,
         mc_recorded_at = moment\<rparr>]\<rparr>))))))"

definition record_fault_drill ::
  "digest \<Rightarrow> uuid \<Rightarrow> string \<Rightarrow> string \<Rightarrow> bool \<Rightarrow> string \<Rightarrow> pydatetime \<Rightarrow> uuid schedule_op" where
  "record_fault_drill H fresh trading_session drill_name passed evidence now = transaction (\<lambda>s.
     let taken = ScheduleStoreError ''fault drill evidence already exists or is invalid'' in
     raiseIf (blank drill_name \<or> blank evidence) (ScheduleStoreError ''fault drill requires named evidence'') (
     bindR (of_option taken (date_fromisoformat trading_session)) (\<lambda>day.
     bindR (schedule_utc now) (\<lambda>moment.
     raiseIf (\<not> key_free fd_drill_id (uuid_str fresh) (fault_drills s) \<or>
              \<not> key_free (\<lambda>r. (fd_trading_session r, fd_drill_name r)) (day, drill_name) (fault_drills s)) taken (
     Inr (fresh, s\<lparr>fault_drills := fault_drills s @
       [\<lparr>fd_drill_id = uuid_str fresh, fd_trading_session = day, fd_drill_name = drill_name, fd_passed = flag passed,
         fd_evidence_checksum = H evidence, fd_recorded_at = moment\<rparr>]\<rparr>))))))"

section \<open>The invariant of the store\<close>

definition run_ok :: "run_row \<Rightarrow> bool" where
  "run_ok r \<longleftrightarrow> sr_state r \<in> {''started'', ''succeeded'', ''failed''} \<and>
     (sr_state r = ''started'' \<longleftrightarrow> sr_completed_at r = None) \<and>
     0 \<le> sr_duplicate_orders r \<and> 0 \<le> sr_unresolved_reconciliation r"

text \<open>A wait lasts at most five minutes and is resolved in one of two ways.\<close>

definition wait_ok :: "wait_row \<Rightarrow> bool" where
  "wait_ok w \<longleftrightarrow> wt_requested_at w < wt_expires_at w \<and> wt_expires_at w \<le> wt_requested_at w + seconds 300 \<and>
     (wt_state w = ''awaiting'' \<and> wt_approval_id w = None \<and> wt_resolved_at w = None \<or>
      wt_state w = ''approved'' \<and> wt_approval_id w \<noteq> None \<and> wt_operator_id w \<noteq> [] \<and>
        (\<exists>t. wt_resolved_at w = Some t \<and> t < wt_expires_at w) \<or>
      wt_state w = ''expired'' \<and> wt_approval_id w = None \<and> (\<exists>t. wt_resolved_at w = Some t \<and> wt_expires_at w \<le> t))"

definition schedule_ok :: "schedule_store \<Rightarrow> bool" where
  "schedule_ok s \<longleftrightarrow> list_all run_ok (schedule_runs s) \<and> list_all wait_ok (approval_waits s) \<and>
     unique_by sr_schedule_run_id (schedule_runs s) \<and> unique_by sr_pipeline_run_id (schedule_runs s) \<and>
     unique_by wt_wait_id (approval_waits s) \<and> unique_by wt_command_id (approval_waits s) \<and>
     unique_by mc_command_id (mutation_cycles s) \<and>
     unique_by (\<lambda>r. (fd_trading_session r, fd_drill_name r)) (fault_drills s) \<and>
     list_all (\<lambda>c. mc_terminal_state c \<in> set terminal_cycle_states) (mutation_cycles s) \<and>
     list_all (\<lambda>w. run_exists (wt_schedule_run_id w) s) (approval_waits s) \<and>
     list_all (\<lambda>h. run_exists (hb_schedule_run_id h) s) (heartbeats s)"

datatype schedule_call =
    StartRun uuid string string pydatetime
  | Heartbeat uuid string string pydatetime
  | FinishRun string bool bool bool int int pydatetime string
  | RequestApproval uuid string string string pydatetime pydatetime
  | ApproveWait string string string pydatetime bool
  | ExpireApprovals pydatetime
  | OperatorAction uuid string string string pydatetime "string option"
  | MutationCycle uuid string string bool string bool bool bool pydatetime
  | FaultDrill uuid string string bool string pydatetime

fun schedule_exec :: "digest \<Rightarrow> schedule_call \<Rightarrow> schedule_store \<Rightarrow> schedule_store" where
  "schedule_exec H (StartRun u session pid now) s = snd (start_run u session pid now s)"
| "schedule_exec H (Heartbeat u k ph now) s = snd (heartbeat u k ph now s)"
| "schedule_exec H (FinishRun k b fin ni dup unres now fail) s = snd (finish_run k b fin ni dup unres now fail s)"
| "schedule_exec H (RequestApproval u k c h t0 t1) s = snd (request_approval u k c h t0 t1 s)"
| "schedule_exec H (ApproveWait k a who now human) s = snd (approve_wait k a who now human s)"
| "schedule_exec H (ExpireApprovals now) s = snd (expire_approvals now s)"
| "schedule_exec H (OperatorAction u who what why now k) s = snd (record_operator_action u who what why now k s)"
| "schedule_exec H (MutationCycle u session c app term dup res ver now) s = snd (record_mutation_cycle u session c app term dup res ver now s)"
| "schedule_exec H (FaultDrill u session name b ev now) s = snd (record_fault_drill H u session name b ev now s)"

lemma schedule_utc_Inr [simp]: "schedule_utc now = Inr t \<longleftrightarrow> (\<exists>off. now = Aware t off)"
  by (cases now) auto

lemma run_exists_append: "run_exists k s \<Longrightarrow> run_exists k (s\<lparr>schedule_runs := schedule_runs s @ rs\<rparr>)"
  by (simp add: run_exists_def key_free_def)

lemma run_exists_other [simp]:
  "run_exists k (s\<lparr>approval_waits := x\<rparr>) = run_exists k s" "run_exists k (s\<lparr>heartbeats := y\<rparr>) = run_exists k s"
  "run_exists k (s\<lparr>operator_actions := a\<rparr>) = run_exists k s" "run_exists k (s\<lparr>mutation_cycles := c\<rparr>) = run_exists k s"
  "run_exists k (s\<lparr>fault_drills := d\<rparr>) = run_exists k s"
  by (simp_all add: run_exists_def)

lemma list_all_update_rows:
  "list_all Q rows \<Longrightarrow> (\<And>r. r \<in> set rows \<Longrightarrow> P r \<Longrightarrow> Q r \<Longrightarrow> Q (f r)) \<Longrightarrow> list_all Q (update_rows P f rows)"
  by (auto simp: update_rows_def list_all_iff)

lemma transaction_keeps:
  "P s \<Longrightarrow> (\<And>x s'. body s = Inr (x, s') \<Longrightarrow> P s') \<Longrightarrow> P (snd (transaction body s))"
  by (auto simp: transaction_def split: sum.splits)

lemma ok_start_run: "schedule_ok s \<Longrightarrow> schedule_ok (snd (start_run u session pid now s))"
  unfolding start_run_def
  by (rule transaction_keeps [where P = schedule_ok])
    (auto simp: schedule_ok_def Let_def run_ok_def unique_by_append run_exists_append list_all_iff)

lemma ok_heartbeat: "schedule_ok s \<Longrightarrow> schedule_ok (snd (heartbeat u k ph now s))"
  unfolding heartbeat_def by (rule transaction_keeps [where P = schedule_ok]) (auto simp: schedule_ok_def)

lemma ok_runs_update:
  assumes "schedule_ok s" and "\<And>r. P r \<Longrightarrow> run_ok r \<Longrightarrow> run_ok (f r)"
    and "\<And>r. sr_schedule_run_id (f r) = sr_schedule_run_id r" and "\<And>r. sr_pipeline_run_id (f r) = sr_pipeline_run_id r"
  shows "schedule_ok (s\<lparr>schedule_runs := update_rows P f (schedule_runs s)\<rparr>)"
proof -
  have same: "run_exists k (s\<lparr>schedule_runs := update_rows P f (schedule_runs s)\<rparr>) = run_exists k s" for k
    using assms(3) by (simp add: run_exists_def key_free_def map_update_rows del: set_map)
  show ?thesis
    using assms(1) list_all_update_rows [of run_ok "schedule_runs s" P f] assms(2-4)
    by (simp add: schedule_ok_def same unique_by_update)
qed

lemma ok_waits_update:
  assumes "schedule_ok s" and "\<And>w. P w \<Longrightarrow> wait_ok w \<Longrightarrow> wait_ok (f w)"
    and "\<And>w. wt_wait_id (f w) = wt_wait_id w" and "\<And>w. wt_command_id (f w) = wt_command_id w"
    and "\<And>w. wt_schedule_run_id (f w) = wt_schedule_run_id w"
  shows "schedule_ok (s\<lparr>approval_waits := update_rows P f (approval_waits s)\<rparr>)"
  using assms(1) list_all_update_rows [of wait_ok "approval_waits s" P f] assms(2-5)
    list_all_update_rows [of "\<lambda>w. run_exists (wt_schedule_run_id w) s" "approval_waits s" P f]
  by (simp add: schedule_ok_def unique_by_update)

lemma ok_finish_run: "schedule_ok s \<Longrightarrow> schedule_ok (snd (finish_run k b fin ni dup unres now fail s))"
  unfolding finish_run_def
  by (rule transaction_keeps [where P = schedule_ok])
    (auto simp: Let_def not_less intro!: ok_runs_update simp: run_ok_def)

lemma ok_request_approval: "schedule_ok s \<Longrightarrow> schedule_ok (snd (request_approval u k c h t0 t1 s))"
proof -
  assume ok: "schedule_ok s"
  have ins: "schedule_ok (snd (insert_wait u k c h a b s))" if "a < b" "b \<le> a + seconds 300" for a b
    unfolding insert_wait_def
    by (rule transaction_keeps [where P = schedule_ok, OF ok])
      (use ok that in \<open>auto simp: schedule_ok_def wait_ok_def unique_by_append list_all_iff\<close>)
  have snd_andThen: "snd (andThen out (\<lambda>_ s. (r, s))) = snd out" for out :: "unit result \<times> schedule_store" and r :: "approval_wait result"
    by (auto simp: andThen_def split: prod.splits sum.splits)
  show ?thesis
    using ok ins by (auto simp: request_approval_def snd_andThen split: sum.splits)
qed

lemma ok_approve_wait: "schedule_ok s \<Longrightarrow> schedule_ok (snd (approve_wait k a who now human s))"
  unfolding approve_wait_def
  by (rule transaction_keeps [where P = schedule_ok]) (auto simp: Let_def intro!: ok_waits_update simp: wait_ok_def)

lemma ok_expire_approvals: "schedule_ok s \<Longrightarrow> schedule_ok (snd (expire_approvals now s))"
  unfolding expire_approvals_def
  by (rule transaction_keeps [where P = schedule_ok]) (auto simp: Let_def intro!: ok_waits_update simp: wait_ok_def)

lemma ok_records:
  "schedule_ok s \<Longrightarrow> schedule_ok (snd (record_operator_action u who what why now k s))"
  "schedule_ok s \<Longrightarrow> schedule_ok (snd (record_mutation_cycle u session c app term dup res ver now s))"
  "schedule_ok s \<Longrightarrow> schedule_ok (snd (record_fault_drill H u session name b ev now s))"
  unfolding record_operator_action_def record_mutation_cycle_def record_fault_drill_def
  by (rule transaction_keeps [where P = schedule_ok]; auto simp: schedule_ok_def Let_def unique_by_append)+

lemma ok_schedule_exec: "schedule_ok s \<Longrightarrow> schedule_ok (schedule_exec H c s)"
  by (cases c) (simp_all add: ok_start_run ok_heartbeat ok_finish_run ok_request_approval ok_approve_wait
      ok_expire_approvals ok_records)

lemma ok_empty_schedule: "schedule_ok empty_schedule"
  by (simp add: schedule_ok_def empty_schedule_def unique_by_def)

section \<open>Resolved rows stay\<close>

definition wait_resolved :: "schedule_store \<Rightarrow> wait_row \<Rightarrow> bool" where
  "wait_resolved s w \<longleftrightarrow> w \<in> set (approval_waits s) \<and> wt_state w \<noteq> ''awaiting''"

definition run_terminal :: "schedule_store \<Rightarrow> run_row \<Rightarrow> bool" where
  "run_terminal s r \<longleftrightarrow> r \<in> set (schedule_runs s) \<and> sr_state r \<noteq> ''started''"

lemma update_rows_keeps: "x \<in> set rows \<Longrightarrow> \<not> P x \<Longrightarrow> x \<in> set (update_rows P f rows)"
  by (force simp: update_rows_def)

definition keeps_resolved :: "schedule_store \<Rightarrow> schedule_store \<Rightarrow> bool" where
  "keeps_resolved s s' \<longleftrightarrow> (\<forall>w. wait_resolved s w \<longrightarrow> wait_resolved s' w) \<and> (\<forall>r. run_terminal s r \<longrightarrow> run_terminal s' r)"

lemma keeps_refl [simp]: "keeps_resolved s s"
  by (simp add: keeps_resolved_def)

lemma snd_andThen_value: "snd (andThen out (\<lambda>_ s. (r, s))) = snd out"
  by (auto simp: andThen_def split: prod.splits sum.splits)

lemma keeps_transaction:
  "(\<And>x s'. body s = Inr (x, s') \<Longrightarrow> keeps_resolved s s') \<Longrightarrow> keeps_resolved s (snd (transaction body s))"
  by (rule transaction_keeps [where P = "keeps_resolved s"]) simp_all

lemmas keeps_simps = keeps_resolved_def wait_resolved_def run_terminal_def Let_def update_rows_keeps

lemma keeps_insert_wait: "keeps_resolved s (snd (insert_wait u k c h a b s))"
  unfolding insert_wait_def by (rule keeps_transaction) (auto simp: keeps_simps)

lemma keeps_ops:
  "keeps_resolved s (snd (start_run u session pid now s))"
  "keeps_resolved s (snd (heartbeat u k ph now s))"
  "keeps_resolved s (snd (finish_run k b fin ni dup unres now fail s))"
  "keeps_resolved s (snd (request_approval u k c h t0 t1 s))"
  "keeps_resolved s (snd (approve_wait k a who now human s))"
  "keeps_resolved s (snd (expire_approvals now s))"
  "keeps_resolved s (snd (record_operator_action u who what why now kk s))"
  "keeps_resolved s (snd (record_mutation_cycle u session c app term dp res ver now s))"
  "keeps_resolved s (snd (record_fault_drill H u session name b ev now s))"
  unfolding start_run_def heartbeat_def finish_run_def approve_wait_def expire_approvals_def
    record_operator_action_def record_mutation_cycle_def record_fault_drill_def
proof -
  show "keeps_resolved s (snd (request_approval u k c h t0 t1 s))"
    by (auto simp: request_approval_def snd_andThen_value keeps_insert_wait split: sum.splits)
qed (rule keeps_transaction; auto simp: keeps_simps)+

lemma resolved_stays: "keeps_resolved s (schedule_exec H c s)"
  by (cases c) (simp_all only: schedule_exec.simps keeps_ops)

text \<open>A command identifier that is no UUID raises only after its wait has been stored.\<close>

lemma request_approval_stores_before_parsing:
  assumes "uuid_of_string c = None" and "uuid_of_string k = Some u" and "run_exists k s"
    and "key_free wt_wait_id (uuid_str v) (approval_waits s)" and "key_free wt_command_id c (approval_waits s)"
  shows "isl (fst (request_approval v k c h (utc t) (utc (t + 1)) s)) \<and>
    \<not> key_free wt_command_id c (approval_waits (snd (request_approval v k c h (utc t) (utc (t + 1)) s)))"
  using assms by (simp add: request_approval_def insert_wait_def uuid_parse_def andThen_def transaction_def seconds_def key_free_def)

section \<open>Approvals of waits\<close>

fun wait_grants :: "schedule_call \<Rightarrow> schedule_store \<Rightarrow> string list" where
  "wait_grants (ApproveWait k a who now human) s = (if isl (fst (approve_wait k a who now human s)) then [] else [k])"
| "wait_grants _ s = []"

definition wait_approved :: "schedule_store \<Rightarrow> string \<Rightarrow> bool" where
  "wait_approved s k \<longleftrightarrow> (\<exists>w. wait_resolved s w \<and> wt_wait_id w = k \<and> wt_state w = ''approved'')"

definition awaiting_at :: "string \<Rightarrow> instant \<Rightarrow> wait_row \<Rightarrow> bool" where
  "awaiting_at k moment r \<longleftrightarrow> wt_wait_id r = k \<and> wt_state r = ''awaiting'' \<and> moment < wt_expires_at r"

definition wait_approval :: "string \<Rightarrow> string \<Rightarrow> instant \<Rightarrow> wait_row \<Rightarrow> wait_row" where
  "wait_approval a who moment r = r\<lparr>wt_state := ''approved'', wt_approval_id := Some a, wt_operator_id := py_strip who,
     wt_resolved_at := Some moment\<rparr>"

lemma approve_wait_steps:
  assumes "approve_wait k a who now human s = (Inr (), s')"
  obtains moment where "schedule_utc now = Inr moment" and "length (filter (awaiting_at k moment) (approval_waits s)) = 1"
    and "s' = s\<lparr>approval_waits := update_rows (awaiting_at k moment) (wait_approval a who moment) (approval_waits s)\<rparr>"
proof -
  have fold: "(\<lambda>r. wt_wait_id r = k \<and> wt_state r = ''awaiting'' \<and> m < wt_expires_at r) = awaiting_at k m"
    "(\<lambda>r. r\<lparr>wt_state := ''approved'', wt_approval_id := Some a, wt_operator_id := py_strip who, wt_resolved_at := Some m\<rparr>)
      = wait_approval a who m" for m
    by (simp_all add: fun_eq_iff awaiting_at_def wait_approval_def)
  show thesis
    using assms that by (simp only: approve_wait_def fold Let_def transaction_Inr raiseIf_eq_Inr bindR_eq_Inr sum.inject
        prod.inject) blast
qed

lemma approve_wait_effect:
  assumes "schedule_ok s" and "approve_wait k a who now human s = (Inr (), s')"
  shows "\<not> wait_approved s k" and "\<exists>w. wait_resolved s' w \<and> wt_wait_id w = k \<and> wt_state w = ''approved'' \<and> wt_approval_id w = Some a"
proof -
  obtain moment where one: "length (filter (awaiting_at k moment) (approval_waits s)) = 1"
    and s': "s' = s\<lparr>approval_waits := update_rows (awaiting_at k moment) (wait_approval a who moment) (approval_waits s)\<rparr>"
    by (rule approve_wait_steps [OF assms(2)])
  obtain w where "w \<in> set (filter (awaiting_at k moment) (approval_waits s))"
    using one by (cases "filter (awaiting_at k moment) (approval_waits s)") simp_all
  then have w: "w \<in> set (approval_waits s)" "awaiting_at k moment w" by simp_all
  have uniq: "unique_by wt_wait_id (approval_waits s)" using assms(1) by (simp add: schedule_ok_def)
  show "\<not> wait_approved s k"
  proof
    assume "wait_approved s k"
    then obtain v where v: "v \<in> set (approval_waits s)" "wt_wait_id v = k" "wt_state v = ''approved''"
      by (auto simp: wait_approved_def wait_resolved_def)
    with unique_by_inj [OF uniq w(1), of v] w(2) show False by (simp add: awaiting_at_def)
  qed
  have "wait_approval a who moment w \<in> set (approval_waits s')"
    using w by (auto simp: s' set_update_rows)
  then show "\<exists>w. wait_resolved s' w \<and> wt_wait_id w = k \<and> wt_state w = ''approved'' \<and> wt_approval_id w = Some a"
    using w(2) by (intro exI [of _ "wait_approval a who moment w"]) (simp add: wait_resolved_def awaiting_at_def wait_approval_def)
qed

interpretation approvals: once_only "schedule_exec H" "\<lambda>_. True" schedule_ok wait_grants wait_approved for H
proof unfold_locales
  fix s c k
  assume ok: "schedule_ok s"
  then show "schedule_ok (schedule_exec H c s)" by (rule ok_schedule_exec)
  show "wait_approved s k \<Longrightarrow> wait_approved (schedule_exec H c s) k"
    using resolved_stays [of s H c] unfolding keeps_resolved_def wait_approved_def by blast
  show "distinct (wait_grants c s)" by (cases c) simp_all
  assume g: "k \<in> set (wait_grants c s)"
  then obtain k' a who now human where c: "c = ApproveWait k' a who now human" by (cases c) auto
  have k': "k' = k" and notl: "\<not> isl (fst (approve_wait k' a who now human s))"
    using g by (simp_all add: c split: if_splits)
  obtain s' where run: "approve_wait k a who now human s = (Inr (), s')"
    using notl unfolding k' by (cases "approve_wait k a who now human s"; cases "fst (approve_wait k a who now human s)") simp_all
  show "\<not> wait_approved s k" by (rule approve_wait_effect(1) [OF ok run])
  show "wait_approved (schedule_exec H c s) k"
    using approve_wait_effect(2) [OF ok run] by (auto simp: c k' run wait_approved_def)
qed

section \<open>Properties\<close>

text \<open>
  C32: the approvals of scheduled orders. Over any sequence of store calls from an empty store,
  the store keeps its invariant (rows well-formed, keys unique, references resolved, no wait
  longer than five minutes), each wait is approved at most once, and every wait that was
  approved is stored as approved by a named operator before it expired.
\<close>

theorem scheduled_approvals_once:
  "schedule_ok (run_calls (schedule_exec H) calls empty_schedule) \<and>
   distinct (grant_log (schedule_exec H) wait_grants calls empty_schedule) \<and>
   (\<forall>k\<in>set (grant_log (schedule_exec H) wait_grants calls empty_schedule).
      \<exists>w\<in>set (approval_waits (run_calls (schedule_exec H) calls empty_schedule)).
        wt_wait_id w = k \<and> wt_state w = ''approved'' \<and> wt_operator_id w \<noteq> [] \<and>
        (\<exists>t. wt_resolved_at w = Some t \<and> t < wt_expires_at w) \<and> wt_expires_at w \<le> wt_requested_at w + seconds 300)"
proof -
  let ?s = "run_calls (schedule_exec H) calls empty_schedule" and ?log = "grant_log (schedule_exec H) wait_grants calls empty_schedule"
  have all: "list_all (\<lambda>_. True) calls" by (simp add: list_all_iff)
  have ok: "schedule_ok ?s" by (rule approvals.inv_run [OF ok_empty_schedule all])
  moreover have "distinct ?log" by (rule approvals.log_distinct [OF ok_empty_schedule all])
  moreover have "\<exists>w\<in>set (approval_waits ?s). wt_wait_id w = k \<and> wt_state w = ''approved'' \<and> wt_operator_id w \<noteq> [] \<and>
      (\<exists>t. wt_resolved_at w = Some t \<and> t < wt_expires_at w) \<and> wt_expires_at w \<le> wt_requested_at w + seconds 300"
    if k: "k \<in> set ?log" for k
  proof -
    obtain w where w: "w \<in> set (approval_waits ?s)" "wt_wait_id w = k" "wt_state w = ''approved''"
      using approvals.log_granted [OF ok_empty_schedule all k] by (auto simp: wait_approved_def wait_resolved_def)
    then have "wait_ok w" using ok by (simp add: schedule_ok_def list_all_iff)
    then show ?thesis using w by (intro bexI [of _ w]) (auto simp: wait_ok_def)
  qed
  ultimately show ?thesis by blast
qed

definition ex_schedule_calls :: "schedule_call list" where
  "ex_schedule_calls = [StartRun 1 ''2026-03-02'' ''p'' (utc 0), RequestApproval 2 (uuid_str 1) ''c'' ''h'' (utc 0) (utc 300000000),
     ApproveWait (uuid_str 2) ''a'' ''op'' (utc 1000000) True, ApproveWait (uuid_str 2) ''b'' ''op'' (utc 2000000) True]"

lemma ex_schedule_log: "grant_log (schedule_exec H) wait_grants ex_schedule_calls empty_schedule = [uuid_str 2]"
proof -
  have day: "date_fromisoformat ''2026-03-02'' = Some ''2026-03-02''" by code_simp
  show ?thesis using day
    by (auto simp: ex_schedule_calls_def empty_schedule_def start_run_def request_approval_def insert_wait_def approve_wait_def
        transaction_def andThen_def run_exists_def key_free_def update_rows_def seconds_def py_strip_def py_isspace_def Let_def raiseIf_def)
qed

theorem scheduled_approvals_once_witness:
  "\<exists>w\<in>set (approval_waits (run_calls (schedule_exec ex_digest) ex_schedule_calls empty_schedule)).
     wt_wait_id w = uuid_str 2 \<and> wt_state w = ''approved'' \<and> wt_operator_id w \<noteq> []"
proof -
  have "uuid_str 2 \<in> set (grant_log (schedule_exec ex_digest) wait_grants ex_schedule_calls empty_schedule)"
    by (simp add: ex_schedule_log)
  then show ?thesis using scheduled_approvals_once [of ex_digest ex_schedule_calls] by blast
qed

end
