(* ===== verification/Schedule_Run.thy ===== *)
theory Schedule_Run
  imports Schedule
begin

text \<open>
  \<open>src/scheduler/runner.py\<close> and \<open>qualification.py\<close>: the scheduled Demo run, which prepares,
  waits for approvals and reconciles but holds no way to submit an order, and the Gate C
  evaluation of the recorded evidence. The callbacks of a run are arguments; they act on a
  world of their own beside the lock file and the schedule store. The clock is the instant
  \<open>astimezone(UTC)\<close> gives, and \<open>fresh n\<close> is the \<open>n\<close>-th UUID drawn.
\<close>

section \<open>The scheduled run\<close>

record prepared_approval_wait =
  pw_command_id :: uuid
  pw_intent_hash :: string

record preparation_result =
  pr_finalization_passed :: bool
  pr_approval_waits :: "prepared_approval_wait list"

record reconciliation_status =
  rs_unresolved_count :: int
  rs_duplicate_order_count :: int

record 'w runner_state =
  rn_lock :: "lock_text option"
  rn_store :: schedule_store
  rn_world :: 'w

type_synonym ('a, 'w) callback = "'w runner_state \<Rightarrow> 'a result \<times> 'w runner_state"

definition on_store :: "'a schedule_op \<Rightarrow> ('a, 'w) callback" where
  "on_store act st = (case act (rn_store st) of (r, s') \<Rightarrow> (r, st\<lparr>rn_store := s'\<rparr>))"

fun request_waits ::
  "(nat \<Rightarrow> uuid) \<Rightarrow> int \<Rightarrow> uuid \<Rightarrow> instant \<Rightarrow> nat \<Rightarrow> prepared_approval_wait list \<Rightarrow> unit schedule_op" where
  "request_waits fresh ttl run_id moment n [] s = (Inr (), s)"
| "request_waits fresh ttl run_id moment n (w # ws) s =
     andThen (request_approval (fresh n) (uuid_str run_id) (uuid_str (pw_command_id w)) (pw_intent_hash w)
                (utc moment) (utc (moment + seconds ttl)) s)
       (\<lambda>_. request_waits fresh ttl run_id moment (Suc n) ws)"

text \<open>The \<open>try\<close> block after \<open>start_run\<close> has returned the run's identifier.\<close>

definition prepared_run ::
  "scheduler_config \<Rightarrow> (nat \<Rightarrow> uuid) \<Rightarrow> (preparation_result, 'w) callback \<Rightarrow> (reconciliation_status, 'w) callback \<Rightarrow>
   (bool, 'w) callback \<Rightarrow> instant \<Rightarrow> uuid \<Rightarrow> (uuid, 'w) callback" where
  "prepared_run cfg fresh prepare reconcile nightly moment run_id st =
     andThen (on_store (heartbeat (fresh 1) (uuid_str run_id) ''preparing'' (utc moment)) st) (\<lambda>_ st.
     andThen (prepare st) (\<lambda>preparation st.
     andThen (on_store (request_waits fresh (sc_approval_ttl_seconds cfg) run_id moment 3 (pr_approval_waits preparation)) st)
       (\<lambda>_ st.
     andThen (on_store (heartbeat (fresh 2) (uuid_str run_id) ''reconciling'' (utc moment)) st) (\<lambda>_ st.
     andThen (reconcile st) (\<lambda>reconciliation st.
     andThen (nightly st) (\<lambda>nightly_passed st.
     let succeeded = (pr_finalization_passed preparation \<and> nightly_passed \<and> rs_unresolved_count reconciliation = 0 \<and>
                      rs_duplicate_order_count reconciliation = 0)
     in andThen (on_store (finish_run (uuid_str run_id) succeeded (pr_finalization_passed preparation) nightly_passed
              (rs_duplicate_order_count reconciliation) (rs_unresolved_count reconciliation) (utc moment)
              (if succeeded then [] else ''scheduled validation did not pass'')) st) (\<lambda>_ st.
     (Inr run_id, st))))))))"

text \<open>\<open>except Exception\<close>: the run is closed as failed, whatever that attempt raises.\<close>

definition close_failed :: "instant \<Rightarrow> uuid \<Rightarrow> ('a result \<times> 'w runner_state) \<Rightarrow> 'a result \<times> 'w runner_state" where
  "close_failed moment run_id out = (case out of
       (Inl e, st) \<Rightarrow> (Inl e, snd (on_store (finish_run (uuid_str run_id) False False False 0 1 (utc moment) (error_class e)) st))
     | (Inr x, st) \<Rightarrow> (Inr x, st))"

text \<open>\<open>finally\<close>: the lock is released; an exception there replaces the outcome.\<close>

definition release_after :: "lock_lease \<Rightarrow> ('a result \<times> 'w runner_state) \<Rightarrow> 'a result \<times> 'w runner_state" where
  "release_after lease out = (case out of (r, st) \<Rightarrow> (case release lease (rn_lock st) of
       (Inl e, f) \<Rightarrow> (Inl e, st\<lparr>rn_lock := f\<rparr>)
     | (Inr _, f) \<Rightarrow> (r, st\<lparr>rn_lock := f\<rparr>)))"

definition run_scheduled ::
  "scheduler_config \<Rightarrow> string \<Rightarrow> int \<Rightarrow> error option \<Rightarrow> (nat \<Rightarrow> uuid) \<Rightarrow> (preparation_result, 'w) callback \<Rightarrow>
   (reconciliation_status, 'w) callback \<Rightarrow> (bool, 'w) callback \<Rightarrow> string \<Rightarrow> string \<Rightarrow> instant \<Rightarrow> (uuid, 'w) callback" where
  "run_scheduled cfg token pid write_error fresh prepare reconcile nightly trading_session pipeline_run_id moment st =
     (if \<not> sc_enabled cfg then (Inl (ScheduledRunError ''scheduled Demo preparation is disabled''), st)
      else case acquire token pid write_error pipeline_run_id moment (rn_lock st) of
        (Inl e, f) \<Rightarrow> (Inl e, st\<lparr>rn_lock := f\<rparr>)
      | (Inr lease, f) \<Rightarrow> release_after lease (
          andThen (on_store (start_run (fresh 0) trading_session pipeline_run_id (utc moment)) (st\<lparr>rn_lock := f\<rparr>))
            (\<lambda>run_id st. close_failed moment run_id (prepared_run cfg fresh prepare reconcile nightly moment run_id st))))"

text \<open>\<open>src/scripts/run_scheduled_demo.py\<close>: the reconciliation callback of the Demo scheduler reads the execution store.\<close>

definition unresolved_states :: "command_state list" where
  "unresolved_states = filter (\<lambda>state. state \<notin> {RECONCILED, RISK_REJECTED}) all_command_states"

definition demo_reconcile :: "(reconciliation_status, store) callback" where
  "demo_reconcile st = (bindR (list_commands unresolved_states (rn_world st)) (\<lambda>commands.
     Inr \<lparr>rs_unresolved_count = int (length commands), rs_duplicate_order_count = 0\<rparr>), st)"

section \<open>Gate C\<close>

record qualification_report =
  qr_qualified :: bool
  qr_trading_sessions :: int
  qr_approved_mutation_cycles :: int
  qr_blockers :: "string list"

definition clean_run :: "run_row \<Rightarrow> bool" where
  "clean_run r \<longleftrightarrow> sr_state r = ''succeeded'' \<and> sr_finalization_passed r = 1 \<and> sr_nightly_passed r = 1 \<and>
     sr_duplicate_orders r = 0 \<and> sr_unresolved_reconciliation r = 0"

text \<open>\<open>",".join(sorted(...))\<close> of a set of names\<close>

definition sorted_names :: "string list \<Rightarrow> string list" where
  "sorted_names names = sort (remdups names)"

definition comma_join :: "string list \<Rightarrow> string" where
  "comma_join names = (case names of [] \<Rightarrow> [] | n # ns \<Rightarrow> n @ concat (map (\<lambda>m. '','' @ m) ns))"

abbreviation block_if :: "bool \<Rightarrow> string \<Rightarrow> string list" where
  "block_if c msg \<equiv> (if c then [msg] else [])"

definition evaluate_gate_c :: "schedule_store \<Rightarrow> store \<Rightarrow> scheduler_config \<Rightarrow> qualification_report result" where
  "evaluate_gate_c schedule execution config =
     (let runs = schedule_runs schedule;
          cycles = mutation_cycles schedule;
          drills = fault_drills schedule;
          clean_runs = filter clean_run runs;
          sessions = int (length (remdups (map sr_trading_session clean_runs)));
          approved_cycles = int (length (filter (\<lambda>c. mc_manually_approved c = 1) cycles));
          passed_drills = map fd_drill_name (filter (\<lambda>d. fd_passed d = 1) drills);
          missing_drills = sorted_names (filter (\<lambda>d. d \<notin> set passed_drills) (sc_required_fault_drills config));
          failed_required = sorted_names (map fd_drill_name
            (filter (\<lambda>d. fd_drill_name d \<in> set (sc_required_fault_drills config) \<and> fd_passed d = 0) drills));
          blockers =
            block_if (sessions < sc_minimum_trading_sessions config)
              (''trading_sessions='' @ str_int sessions @ ''/'' @ str_int (sc_minimum_trading_sessions config)) @
            block_if (length clean_runs \<noteq> length runs) ''one_or_more_schedule_runs_not_clean'' @
            block_if (approved_cycles < sc_minimum_approved_mutation_cycles config)
              (''approved_mutation_cycles='' @ str_int approved_cycles @ ''/'' @
               str_int (sc_minimum_approved_mutation_cycles config)) @
            block_if (list_ex (\<lambda>c. mc_duplicate_detected c \<noteq> 0) cycles) ''duplicate_order_evidence'' @
            block_if (list_ex (\<lambda>c. mc_reconciliation_resolved c = 0) cycles) ''unresolved_cycle_reconciliation'' @
            block_if (list_ex (\<lambda>c. mc_recovery_verified c = 0) cycles) ''unverified_cycle_recovery'' @
            block_if (missing_drills \<noteq> []) (''missing_fault_drills='' @ comma_join missing_drills) @
            block_if (failed_required \<noteq> []) (''failed_fault_drills='' @ comma_join failed_required)
      in bindR (list_commands unresolved_states execution) (\<lambda>commands.
         let blockers = blockers @ block_if (commands \<noteq> []) ''execution_commands_unresolved'' in
         Inr \<lparr>qr_qualified = (blockers = []), qr_trading_sessions = sessions,
              qr_approved_mutation_cycles = approved_cycles, qr_blockers = blockers\<rparr>))"

section \<open>What a run does to the store\<close>

definition finished_row :: "bool \<Rightarrow> bool \<Rightarrow> bool \<Rightarrow> int \<Rightarrow> int \<Rightarrow> instant \<Rightarrow> string \<Rightarrow> run_row \<Rightarrow> run_row" where
  "finished_row b fin ni dup unres moment fail r = r\<lparr>sr_state := (if b then ''succeeded'' else ''failed''),
     sr_completed_at := Some moment, sr_finalization_passed := flag fin, sr_nightly_passed := flag ni,
     sr_duplicate_orders := dup, sr_unresolved_reconciliation := unres, sr_failure := take 500 fail\<rparr>"

definition run_waits :: "uuid \<Rightarrow> instant \<Rightarrow> int \<Rightarrow> wait_row list \<Rightarrow> bool" where
  "run_waits u moment ttl = list_all (\<lambda>w. wt_schedule_run_id w = uuid_str u \<and> wt_state w = ''awaiting'' \<and>
     wt_requested_at w = moment \<and> wt_expires_at w = moment + seconds ttl)"

text \<open>
  \<open>in_run s0 u moment ttl r s\<close>: since the store was \<open>s0\<close> the run has added its row \<open>r\<close> and open
  approval waits, and nothing else but heartbeats.
\<close>

definition in_run :: "schedule_store \<Rightarrow> uuid \<Rightarrow> instant \<Rightarrow> int \<Rightarrow> run_row \<Rightarrow> schedule_store \<Rightarrow> bool" where
  "in_run s0 u moment ttl r s \<longleftrightarrow> schedule_ok s \<and> schedule_runs s = schedule_runs s0 @ [r] \<and>
     (\<exists>ws. approval_waits s = approval_waits s0 @ ws \<and> run_waits u moment ttl ws) \<and>
     mutation_cycles s = mutation_cycles s0 \<and> fault_drills s = fault_drills s0 \<and> operator_actions s = operator_actions s0"

lemma in_run_heartbeat: "in_run s0 u moment ttl r s \<Longrightarrow> in_run s0 u moment ttl r (snd (heartbeat v k ph now s))"
  using ok_heartbeat [of s v k ph now] unfolding in_run_def
  by (auto simp: heartbeat_def transaction_def split: sum.splits)

lemma insert_wait_effect:
  "snd (insert_wait v k c h a b s) = s \<or> (\<exists>w. snd (insert_wait v k c h a b s) = s\<lparr>approval_waits := approval_waits s @ [w]\<rparr> \<and>
     wt_schedule_run_id w = k \<and> wt_state w = ''awaiting'' \<and> wt_requested_at w = a \<and> wt_expires_at w = b)"
  by (auto simp: insert_wait_def transaction_def raiseIf_def)

lemma in_run_request:
  assumes "in_run s0 u moment ttl r s"
  shows "in_run s0 u moment ttl r (snd (request_approval v (uuid_str u) c h (utc moment) (utc (moment + seconds ttl)) s))"
proof -
  let ?s = "snd (request_approval v (uuid_str u) c h (utc moment) (utc (moment + seconds ttl)) s)"
  have ok: "schedule_ok ?s" using assms by (simp add: in_run_def ok_request_approval)
  have "?s = s \<or> ?s = snd (insert_wait v (uuid_str u) c h moment (moment + seconds ttl) s)"
    by (simp add: request_approval_def raiseIf_def snd_andThen_value)
  then consider "?s = s" | w where "?s = s\<lparr>approval_waits := approval_waits s @ [w]\<rparr>" "run_waits u moment ttl [w]"
    using insert_wait_effect [of v "uuid_str u" c h moment "moment + seconds ttl" s] by (auto simp: run_waits_def)
  then show ?thesis
  proof cases
    case 1 then show ?thesis using assms by simp
  next
    case (2 w)
    then show ?thesis using assms ok unfolding in_run_def by (auto simp: run_waits_def)
  qed
qed

lemma snd_andThen: "snd (andThen out k) = (case out of (Inl e, w) \<Rightarrow> w | (Inr x, w) \<Rightarrow> snd (k x w))"
  by (auto simp: andThen_def split: prod.splits sum.splits)

lemma in_run_request_waits:
  "in_run s0 u moment ttl r s \<Longrightarrow> in_run s0 u moment ttl r (snd (request_waits fresh ttl u moment n ws s))"
proof (induction ws arbitrary: n s)
  case (Cons w ws)
  let ?out = "request_approval (fresh n) (uuid_str u) (uuid_str (pw_command_id w)) (pw_intent_hash w) (utc moment)
    (utc (moment + seconds ttl)) s"
  have step: "in_run s0 u moment ttl r (snd ?out)" by (rule in_run_request [OF Cons.prems])
  show ?case
  proof (cases ?out)
    case (Pair res s1)
    then show ?thesis using step Cons.IH [of s1 "Suc n"] by (cases res) (simp_all add: andThen_def)
  qed
qed simp

lemma update_last:
  assumes "unique_by key (rows @ [r])" and "key r = k" and "P r" and "\<And>x. P x \<Longrightarrow> key x = k"
  shows "filter P (rows @ [r]) = [r]" and "update_rows P f (rows @ [r]) = rows @ [f r]"
proof -
  have no: "\<not> P x" if "x \<in> set rows" for x
    using assms that by (auto simp: unique_by_append key_free_iff)
  show "filter P (rows @ [r]) = [r]" using no assms(3) by simp
  show "update_rows P f (rows @ [r]) = rows @ [f r]"
    using no assms(3) by (auto simp: update_rows_def intro: map_idI)
qed

lemma in_run_finish:
  assumes "in_run s0 u moment ttl r s" and "sr_schedule_run_id r = uuid_str u" and "sr_state r = ''started''"
  shows "finish_run (uuid_str u) b fin ni dup unres (utc moment) fail s =
      (if min dup unres < 0 then (Inl (ScheduleStoreError ''run counters must not be negative''), s)
       else (Inr (), s\<lparr>schedule_runs := schedule_runs s0 @ [finished_row b fin ni dup unres moment fail r]\<rparr>))"
    and "0 \<le> min dup unres \<Longrightarrow> in_run s0 u moment ttl (finished_row b fin ni dup unres moment fail r)
       (s\<lparr>schedule_runs := schedule_runs s0 @ [finished_row b fin ni dup unres moment fail r]\<rparr>)"
proof -
  let ?P = "\<lambda>r. sr_schedule_run_id r = uuid_str u \<and> sr_state r = ''started''"
  have runs: "schedule_runs s = schedule_runs s0 @ [r]" using assms(1) by (simp add: in_run_def)
  have "schedule_ok s" using assms(1) by (simp add: in_run_def)
  then have "unique_by sr_schedule_run_id (schedule_runs s)" by (simp add: schedule_ok_def)
  then have uniq: "unique_by sr_schedule_run_id (schedule_runs s0 @ [r])" by (simp only: runs)
  have "?P r" using assms(2,3) by simp
  note last = update_last [where P = ?P, OF uniq assms(2) this]
  show eq: "finish_run (uuid_str u) b fin ni dup unres (utc moment) fail s =
      (if min dup unres < 0 then (Inl (ScheduleStoreError ''run counters must not be negative''), s)
       else (Inr (), s\<lparr>schedule_runs := schedule_runs s0 @ [finished_row b fin ni dup unres moment fail r]\<rparr>))"
    unfolding finish_run_def transaction_def Let_def runs finished_row_def
    by (subst last(2), simp)+ (simp add: last(1) del: filter_append)
  show "in_run s0 u moment ttl (finished_row b fin ni dup unres moment fail r)
       (s\<lparr>schedule_runs := schedule_runs s0 @ [finished_row b fin ni dup unres moment fail r]\<rparr>)" if "0 \<le> min dup unres"
    using ok_finish_run [of s "uuid_str u" b fin ni dup unres "utc moment" fail] assms(1) that
    by (simp add: eq in_run_def)
qed

section \<open>What a run does to its state\<close>

text \<open>\<open>leaves_schedule f\<close>: the callback touches neither the lock file nor the schedule store.\<close>

definition leaves_schedule :: "('a, 'w) callback \<Rightarrow> bool" where
  "leaves_schedule f \<longleftrightarrow> (\<forall>st. rn_lock (snd (f st)) = rn_lock st \<and> rn_store (snd (f st)) = rn_store st)"

text \<open>\<open>outcome Q E out\<close>: a returned value satisfies \<open>Q\<close> and a raised error \<open>E\<close>, with the state reached.\<close>

definition outcome :: "('a \<Rightarrow> 's \<Rightarrow> bool) \<Rightarrow> ('s \<Rightarrow> bool) \<Rightarrow> 'a result \<times> 's \<Rightarrow> bool" where
  "outcome Q E out \<longleftrightarrow> (case out of (Inr x, s) \<Rightarrow> Q x s | (Inl e, s) \<Rightarrow> E s)"

lemma outcome_andThen:
  "outcome Q E out \<Longrightarrow> (\<And>x s. Q x s \<Longrightarrow> outcome R E (k x s)) \<Longrightarrow> outcome R E (andThen out k)"
  by (cases out; cases "fst out") (simp_all add: outcome_def andThen_def)

lemma outcome_snd: "P (snd out) \<Longrightarrow> outcome (\<lambda>_. P) P out"
  by (auto simp: outcome_def split: prod.splits sum.splits)

lemma outcome_mono: "outcome Q E out \<Longrightarrow> (\<And>x s. Q x s \<Longrightarrow> Q' x s) \<Longrightarrow> outcome Q' E out"
  by (auto simp: outcome_def split: prod.splits sum.splits)

lemma snd_on_store: "snd (on_store act st) = st\<lparr>rn_store := snd (act (rn_store st))\<rparr>"
  by (simp add: on_store_def split: prod.splits)

text \<open>The state inside a run: the lock file is the run's own and the store is that of \<open>in_run\<close>.\<close>

definition at_run :: "lock_text option \<Rightarrow> schedule_store \<Rightarrow> uuid \<Rightarrow> instant \<Rightarrow> int \<Rightarrow> run_row \<Rightarrow> 'w runner_state \<Rightarrow> bool" where
  "at_run f s0 u moment ttl r st \<longleftrightarrow> rn_lock st = f \<and> in_run s0 u moment ttl r (rn_store st)"

lemma at_run_store:
  "at_run f s0 u moment ttl r st \<Longrightarrow> in_run s0 u moment ttl r (snd (act (rn_store st))) \<Longrightarrow>
   at_run f s0 u moment ttl r (snd (on_store act st))"
  by (simp add: at_run_def snd_on_store)

lemma at_run_callback: "leaves_schedule g \<Longrightarrow> at_run f s0 u moment ttl r st \<Longrightarrow> at_run f s0 u moment ttl r (snd (g st))"
  by (simp add: at_run_def leaves_schedule_def)

lemma at_run_steps:
  assumes "at_run f s0 u moment ttl r st"
  shows "at_run f s0 u moment ttl r (snd (on_store (heartbeat v k ph now) st))"
    and "at_run f s0 u moment ttl r (snd (on_store (request_waits fresh ttl u moment n ws) st))"
  using assms by (auto simp: at_run_def snd_on_store in_run_heartbeat in_run_request_waits)

text \<open>A run's row once it is closed: succeeded with every check passed, or failed.\<close>

definition closed_row :: "uuid \<Rightarrow> instant \<Rightarrow> run_row \<Rightarrow> bool" where
  "closed_row u moment r \<longleftrightarrow> sr_schedule_run_id r = uuid_str u \<and> sr_completed_at r = Some moment \<and>
     (sr_state r = ''succeeded'' \<and> clean_run r \<or> sr_state r = ''failed'')"

lemma finish_outcome:
  assumes "at_run f s0 u moment ttl r st" and "sr_schedule_run_id r = uuid_str u" and "sr_state r = ''started''"
    and "b \<Longrightarrow> fin \<and> ni \<and> dup = 0 \<and> unres = 0"
  shows "outcome (\<lambda>_ st. \<exists>r'. closed_row u moment r' \<and> at_run f s0 u moment ttl r' st) (at_run f s0 u moment ttl r)
    (on_store (finish_run (uuid_str u) b fin ni dup unres (utc moment) fail) st)"
proof -
  have run: "in_run s0 u moment ttl r (rn_store st)" using assms(1) by (simp add: at_run_def)
  have "closed_row u moment (finished_row b fin ni dup unres moment fail r)"
    using assms(2,4) by (cases b) (simp_all add: closed_row_def finished_row_def clean_run_def)
  then show ?thesis
    using in_run_finish [OF run assms(2,3)] assms(1)
    by (auto simp: on_store_def outcome_def at_run_def not_less)
qed

lemma prepared_run_outcome:
  assumes "leaves_schedule prepare" and "leaves_schedule reconcile" and "leaves_schedule nightly"
    and "at_run f s0 u moment (sc_approval_ttl_seconds cfg) r st"
    and "sr_schedule_run_id r = uuid_str u" and "sr_state r = ''started''"
  shows "outcome (\<lambda>v st. v = u \<and> (\<exists>r'. closed_row u moment r' \<and> at_run f s0 u moment (sc_approval_ttl_seconds cfg) r' st))
    (at_run f s0 u moment (sc_approval_ttl_seconds cfg) r) (prepared_run cfg fresh prepare reconcile nightly moment u st)"
  unfolding prepared_run_def Let_def
  by (intro outcome_andThen [OF outcome_snd] outcome_andThen [OF finish_outcome])
    (use assms in \<open>auto simp: outcome_def intro: at_run_steps at_run_callback\<close>)

lemma close_failed_outcome:
  assumes "outcome Q (at_run f s0 u moment ttl r) out"
    and "\<And>v st. Q v st \<Longrightarrow> v = u \<and> (\<exists>r'. closed_row u moment r' \<and> at_run f s0 u moment ttl r' st)"
    and "sr_schedule_run_id r = uuid_str u" and "sr_state r = ''started''"
  shows "outcome (\<lambda>v st. v = u \<and> (\<exists>r'. closed_row u moment r' \<and> at_run f s0 u moment ttl r' st))
    (\<lambda>st. \<exists>r'. closed_row u moment r' \<and> at_run f s0 u moment ttl r' st) (close_failed moment u out)"
proof (cases out)
  case (Pair res st)
  show ?thesis
  proof (cases res)
    case (Inl e)
    then have here: "at_run f s0 u moment ttl r st" using assms(1) by (simp add: Pair outcome_def)
    let ?r = "finished_row False False False 0 1 moment (error_class e) r"
    have run: "in_run s0 u moment ttl r (rn_store st)" using here by (simp add: at_run_def)
    have closed: "closed_row u moment ?r" using assms(3) by (simp add: closed_row_def finished_row_def)
    have "at_run f s0 u moment ttl ?r
      (snd (on_store (finish_run (uuid_str u) False False False 0 1 (utc moment) (error_class e)) st))"
      using in_run_finish [OF run assms(3,4), where b = False and fin = False and ni = False
          and dup = 0 and unres = 1 and fail = "error_class e"] here
      by (simp add: at_run_def snd_on_store)
    with closed show ?thesis by (auto simp: Pair Inl close_failed_def outcome_def)
  next
    case (Inr x)
    then show ?thesis using assms(1,2) by (auto simp: Pair close_failed_def outcome_def)
  qed
qed

lemma release_own: "release \<lparr>le_token = token, le_run_id = run_id, le_acquired_at = moment\<rparr>
    (Some (LockJson (lock_payload token run_id pid moment))) = (Inr (), None)"
  by (simp add: release_def lock_field_def lock_payload_def)

lemma start_run_effect:
  assumes "schedule_ok s" and "start_run u session pid (utc moment) s = (Inr v, s')"
  shows "v = u" and "\<exists>r. in_run s u moment ttl r s' \<and> sr_schedule_run_id r = uuid_str u \<and> sr_state r = ''started''"
proof -
  have ok: "schedule_ok s'" using ok_start_run [OF assms(1), of u session pid "utc moment"] assms(2) by simp
  show "v = u" using assms(2) by (auto simp: start_run_def Let_def)
  show "\<exists>r. in_run s u moment ttl r s' \<and> sr_schedule_run_id r = uuid_str u \<and> sr_state r = ''started''"
    using assms(2) ok by (auto simp: start_run_def Let_def in_run_def run_waits_def)
qed

text \<open>The run has closed its row, or it stored nothing.\<close>

definition settled :: "lock_text option \<Rightarrow> schedule_store \<Rightarrow> uuid \<Rightarrow> instant \<Rightarrow> int \<Rightarrow> 'w runner_state \<Rightarrow> bool" where
  "settled f s0 u moment ttl st \<longleftrightarrow> (\<exists>r. closed_row u moment r \<and> at_run f s0 u moment ttl r st)"

lemma started_run_outcome:
  fixes st :: "'w runner_state"
  assumes "leaves_schedule prepare" and "leaves_schedule reconcile" and "leaves_schedule nightly"
    and "schedule_ok (rn_store st)"
  shows "outcome (\<lambda>v. \<lambda>st'. v = fresh 0 \<and> settled (rn_lock st) (rn_store st) (fresh 0) moment (sc_approval_ttl_seconds cfg) st')
      (\<lambda>st'. settled (rn_lock st) (rn_store st) (fresh 0) moment (sc_approval_ttl_seconds cfg) st' \<or> st' = st)
      (andThen (on_store (start_run (fresh 0) session pipeline (utc moment)) st)
        (\<lambda>run_id st. close_failed moment run_id (prepared_run cfg fresh prepare reconcile nightly moment run_id st)))"
proof (cases "start_run (fresh 0) session pipeline (utc moment) (rn_store st)")
  case (Pair started s1)
  show ?thesis
  proof (cases started)
    case (Inl e)
    then have "s1 = rn_store st" using Pair by (auto simp: start_run_def transaction_def split: sum.splits)
    then show ?thesis by (simp add: on_store_def Pair Inl andThen_def outcome_def)
  next
    case (Inr v)
    let ?ttl = "sc_approval_ttl_seconds cfg"
    note run = start_run_effect [OF assms(4) Pair [unfolded Inr]]
    obtain r where r: "in_run (rn_store st) (fresh 0) moment ?ttl r s1" "sr_schedule_run_id r = uuid_str (fresh 0)"
      "sr_state r = ''started''" using run(2) by blast
    have "at_run (rn_lock st) (rn_store st) (fresh 0) moment ?ttl r (st\<lparr>rn_store := s1\<rparr>)" using r(1) by (simp add: at_run_def)
    note prepared_run_outcome [OF assms(1-3) this r(2,3)]
    note close_failed_outcome [OF this [where fresh = fresh] _ r(2,3), simplified]
    then show ?thesis
      by (simp add: on_store_def Pair Inr run(1) andThen_def settled_def) (auto simp: outcome_def split: prod.splits sum.splits)
  qed
qed

section \<open>The blockers of Gate C\<close>

lemma unresolved_commands:
  assumes "list_commands unresolved_states execution = Inr commands"
  shows "commands = [] \<longleftrightarrow> (\<forall>c\<in>set (broker_commands execution). \<forall>state. tc_state c = command_state_str state \<longrightarrow>
    state \<in> {RECONCILED, RISK_REJECTED})"
proof -
  have "unresolved_states \<noteq> []" by (simp add: unresolved_states_def all_command_states_def)
  then have "commands = [] \<longleftrightarrow> filter (\<lambda>r. tc_state r \<in> set (map command_state_str unresolved_states)) (broker_commands execution) = []"
    using assms mapR_eq_Inr_length [OF assms [unfolded list_commands_def Let_def]] by auto
  also have "\<dots> \<longleftrightarrow> (\<forall>c\<in>set (broker_commands execution). \<forall>state. tc_state c = command_state_str state \<longrightarrow>
    state \<in> {RECONCILED, RISK_REJECTED})"
    by (auto simp: filter_empty_conv unresolved_states_def all_command_states_complete)
  finally show ?thesis .
qed

lemma sorted_names_empty [simp]: "sorted_names xs = [] \<longleftrightarrow> set xs = {}"
  by (metis set_sort set_remdups set_empty sorted_names_def)

lemma block_if_Nil: "block_if c m = [] \<longleftrightarrow> \<not> c"
  by simp

lemma filter_all_length: "length (filter P xs) = length xs \<longleftrightarrow> (\<forall>x\<in>set xs. P x)"
  by (metis filter_id_conv length_filter_less less_irrefl)

text \<open>What Gate C asks of the recorded evidence, apart from the blockers' texts.\<close>

definition gate_c_requirements :: "schedule_store \<Rightarrow> scheduler_config \<Rightarrow> bool" where
  "gate_c_requirements schedule config \<longleftrightarrow>
       sc_minimum_trading_sessions config \<le> int (card (sr_trading_session ` {r \<in> set (schedule_runs schedule). clean_run r})) \<and>
       (\<forall>r\<in>set (schedule_runs schedule). clean_run r) \<and>
       sc_minimum_approved_mutation_cycles config \<le> int (length (filter (\<lambda>c. mc_manually_approved c = 1) (mutation_cycles schedule))) \<and>
       (\<forall>c\<in>set (mutation_cycles schedule). mc_duplicate_detected c = 0 \<and> mc_reconciliation_resolved c \<noteq> 0 \<and> mc_recovery_verified c \<noteq> 0) \<and>
       (\<forall>d\<in>set (sc_required_fault_drills config).
          (\<exists>e\<in>set (fault_drills schedule). fd_drill_name e = d \<and> fd_passed e = 1) \<and>
          (\<forall>e\<in>set (fault_drills schedule). fd_drill_name e = d \<longrightarrow> fd_passed e \<noteq> 0))"

lemma gate_c_blockers:
  assumes "evaluate_gate_c schedule execution config = Inr report" and "list_commands unresolved_states execution = Inr commands"
  shows "qr_qualified report \<longleftrightarrow> qr_blockers report = []"
    and "qr_blockers report = [] \<longleftrightarrow> gate_c_requirements schedule config \<and> commands = []"
proof -
  have sess: "length (remdups (map sr_trading_session (filter clean_run (schedule_runs schedule)))) =
      card (sr_trading_session ` {r \<in> set (schedule_runs schedule). clean_run r})"
    by (simp add: length_remdups_card_conv)
  show "qr_qualified report \<longleftrightarrow> qr_blockers report = []"
    using assms(1) by (auto simp: evaluate_gate_c_def Let_def)
  have rep: "qr_blockers report = [] \<longleftrightarrow>
     \<not> int (length (remdups (map sr_trading_session (filter clean_run (schedule_runs schedule))))) < sc_minimum_trading_sessions config \<and>
     length (filter clean_run (schedule_runs schedule)) = length (schedule_runs schedule) \<and>
     \<not> int (length (filter (\<lambda>c. mc_manually_approved c = 1) (mutation_cycles schedule))) < sc_minimum_approved_mutation_cycles config \<and>
     \<not> list_ex (\<lambda>c. mc_duplicate_detected c \<noteq> 0) (mutation_cycles schedule) \<and>
     \<not> list_ex (\<lambda>c. mc_reconciliation_resolved c = 0) (mutation_cycles schedule) \<and>
     \<not> list_ex (\<lambda>c. mc_recovery_verified c = 0) (mutation_cycles schedule) \<and>
     set (filter (\<lambda>d. d \<notin> set (map fd_drill_name (filter (\<lambda>d. fd_passed d = 1) (fault_drills schedule)))) (sc_required_fault_drills config)) = {} \<and>
     set (map fd_drill_name (filter (\<lambda>d. fd_drill_name d \<in> set (sc_required_fault_drills config) \<and> fd_passed d = 0) (fault_drills schedule))) = {} \<and>
     commands = []"
    unfolding assms(1) [unfolded evaluate_gate_c_def Let_def assms(2) bindR_simps sum.inject, symmetric]
    by (simp only: qualification_report.simps append_is_Nil_conv block_if_Nil sorted_names_empty not_not conj_assoc)
  show "qr_blockers report = [] \<longleftrightarrow> gate_c_requirements schedule config \<and> commands = []"
    unfolding rep sess filter_all_length gate_c_requirements_def by (auto simp: list_ex_iff)
qed

section \<open>Properties\<close>

text \<open>
  C33: a scheduled run is safe however it ends. When another run holds the lock it raises and
  changes nothing. Otherwise the lock is free again afterwards, the store keeps its invariant,
  and the run has added nothing to it (but heartbeats), or exactly one run row, which is closed
  at the run's instant: as succeeded only with finalization and the nightly check passed and
  no duplicate or unresolved order, else as failed; its approval waits are all still awaiting
  a human, for the configured time. A run that returns gives the identifier of its row. This
  needs callbacks that leave the lock file and the schedule store alone.
\<close>

theorem scheduled_run_safe:
  assumes "leaves_schedule prepare" and "leaves_schedule reconcile" and "leaves_schedule nightly"
    and "schedule_ok (rn_store st)"
    and "run_scheduled cfg token pid write_error fresh prepare reconcile nightly session pipeline moment st = (res, st')"
  shows "(rn_lock st \<noteq> None \<longrightarrow> st' = st \<and> isl res) \<and>
    (rn_lock st = None \<longrightarrow> rn_lock st' = None \<and> schedule_ok (rn_store st') \<and>
      (\<exists>rows ws. schedule_runs (rn_store st') = schedule_runs (rn_store st) @ rows \<and>
         approval_waits (rn_store st') = approval_waits (rn_store st) @ ws \<and>
         run_waits (fresh 0) moment (sc_approval_ttl_seconds cfg) ws \<and>
         (rows = [] \<and> ws = [] \<and> isl res \<or> (\<exists>r. rows = [r] \<and> closed_row (fresh 0) moment r \<and> (isl res \<or> res = Inr (fresh 0))))))"
proof (cases "sc_enabled cfg \<and> rn_lock st = None \<and> write_error = None")
  case False
  then have "st' = st \<and> isl res"
    using assms(5) by (auto simp: run_scheduled_def acquire_def split: option.splits if_splits)
  then show ?thesis using assms(4) by (auto simp: run_waits_def)
next
  case True
  let ?f = "Some (LockJson (lock_payload token pipeline pid moment))" and ?ttl = "sc_approval_ttl_seconds cfg"
  let ?body = "andThen (on_store (start_run (fresh 0) session pipeline (utc moment)) (st\<lparr>rn_lock := ?f\<rparr>))
      (\<lambda>run_id st. close_failed moment run_id (prepared_run cfg fresh prepare reconcile nightly moment run_id st))"
  obtain out st1 where body: "?body = (out, st1)" by (cases ?body)
  have fin: "(res, st') = release_after \<lparr>le_token = token, le_run_id = pipeline, le_acquired_at = moment\<rparr> (out, st1)"
    using assms(5) True by (simp add: run_scheduled_def acquire_def body)
  have "outcome (\<lambda>v. \<lambda>st'. v = fresh 0 \<and> settled ?f (rn_store st) (fresh 0) moment ?ttl st')
      (\<lambda>st'. settled ?f (rn_store st) (fresh 0) moment ?ttl st' \<or> st' = st\<lparr>rn_lock := ?f\<rparr>) (out, st1)"
    using started_run_outcome [OF assms(1-3), where st = "st\<lparr>rn_lock := ?f\<rparr>" and fresh = fresh and moment = moment
        and cfg = cfg and session = session and pipeline = pipeline] assms(4) by (simp add: body)
  then consider "settled ?f (rn_store st) (fresh 0) moment ?ttl st1" "isl out \<or> out = Inr (fresh 0)"
    | "st1 = st\<lparr>rn_lock := ?f\<rparr>" "isl out"
    by (cases out) (auto simp: outcome_def)
  then show ?thesis
  proof cases
    case 1
    then obtain r where r: "closed_row (fresh 0) moment r" "at_run ?f (rn_store st) (fresh 0) moment ?ttl r st1"
      by (auto simp: settled_def)
    then have "res = out" "rn_lock st' = None" "rn_store st' = rn_store st1"
      using fin by (simp_all add: release_after_def release_own at_run_def)
    then show ?thesis using r 1(2) True by (auto simp: at_run_def in_run_def)
  next
    case 2
    then have "res = out" "rn_lock st' = None" "rn_store st' = rn_store st"
      using fin by (simp_all add: release_after_def release_own)
    then show ?thesis using 2 assms(4) True by (auto simp: run_waits_def)
  qed
qed

text \<open>
  C34: what Gate C means. With a configuration that loads, the report qualifies exactly when it
  lists no blocker, that is when enough distinct sessions ran cleanly and every recorded run
  was clean, enough mutation cycles were approved by hand and every cycle is free of duplicates,
  reconciled and recovered, every required drill has passed and never failed, and every stored
  command is reconciled or was rejected by the risk check. The thresholds are at least thirty
  sessions and twenty cycles, and at least one drill is required.
\<close>

theorem gate_c_qualification:
  assumes "load_scheduler_config doc = Inr config" and "evaluate_gate_c schedule execution config = Inr report"
  shows "(qr_qualified report \<longleftrightarrow> qr_blockers report = []) \<and>
    (qr_qualified report \<longleftrightarrow>
       gate_c_requirements schedule config \<and>
       (\<forall>c\<in>set (broker_commands execution). \<forall>state. tc_state c = command_state_str state \<longrightarrow> state \<in> {RECONCILED, RISK_REJECTED})) \<and>
    30 \<le> sc_minimum_trading_sessions config \<and> 20 \<le> sc_minimum_approved_mutation_cycles config \<and>
    sc_required_fault_drills config \<noteq> []"
proof -
  have limits: "30 \<le> sc_minimum_trading_sessions config" "20 \<le> sc_minimum_approved_mutation_cycles config"
    "sc_required_fault_drills config \<noteq> []"
    using assms(1) by (auto simp: load_scheduler_config_def)
  obtain commands where cmds: "list_commands unresolved_states execution = Inr commands"
    using assms(2) by (auto simp: evaluate_gate_c_def Let_def)
  note gate = gate_c_blockers [OF assms(2) cmds]
  show ?thesis
    using limits gate(1) unfolding gate(1) gate(2) unresolved_commands [OF cmds] by blast
qed

section \<open>Witnesses\<close>

definition ex_scheduler_doc :: yaml where
  "ex_scheduler_doc = YMap [(''enabled'', YBool True), (''environment'', YStr ''demo''), (''broker_submission_enabled'', YBool False),
     (''per_order_human_approval_required'', YBool True), (''approval_ttl_seconds'', YInt 300), (''heartbeat_interval_seconds'', YInt 30),
     (''qualification'', YMap [(''minimum_trading_sessions'', YInt 30), (''minimum_approved_mutation_cycles'', YInt 20),
        (''required_fault_drills'', YList [YStr ''outage''])])]"

definition ex_scheduler :: scheduler_config where
  "ex_scheduler = \<lparr>sc_enabled = True, sc_environment = ''demo'', sc_broker_submission_enabled = False,
     sc_per_order_human_approval_required = True, sc_approval_ttl_seconds = 300, sc_heartbeat_interval_seconds = 30,
     sc_minimum_trading_sessions = 30, sc_minimum_approved_mutation_cycles = 20, sc_required_fault_drills = [''outage'']\<rparr>"

lemma ex_scheduler_loads: "load_scheduler_config (Some ex_scheduler_doc) = Inr ex_scheduler"
  by code_simp

definition ex_prepare :: "(preparation_result, store) callback" where
  "ex_prepare st = (Inr \<lparr>pr_finalization_passed = True, pr_approval_waits = [\<lparr>pw_command_id = 9, pw_intent_hash = ''h''\<rparr>]\<rparr>, st)"

definition ex_nightly :: "(bool, store) callback" where
  "ex_nightly st = (Inr True, st)"

definition ex_runner :: "store runner_state" where
  "ex_runner = \<lparr>rn_lock = None, rn_store = empty_schedule, rn_world = empty_store\<rparr>"

definition ex_run :: "uuid result \<times> store runner_state" where
  "ex_run = run_scheduled ex_scheduler ''t'' 7 None of_nat ex_prepare demo_reconcile ex_nightly ''2026-03-02'' ''p'' 0 ex_runner"

lemma ex_run_returns: "fst ex_run = Inr 0"
proof -
  have "date_fromisoformat ''2026-03-02'' = Some ''2026-03-02''" by code_simp
  then show ?thesis
    by (simp add: ex_run_def ex_runner_def run_scheduled_def ex_scheduler_def acquire_def on_store_def start_run_def transaction_def
        empty_schedule_def key_free_def andThen_def prepared_run_def heartbeat_def run_exists_def ex_prepare_def blank_def py_strip_def
        py_isspace_def request_approval_def insert_wait_def uuid_parse_def seconds_def demo_reconcile_def ex_nightly_def
        list_commands_def empty_store_def finish_run_def close_failed_def release_after_def release_own)
qed

lemma ex_callbacks: "leaves_schedule ex_prepare" "leaves_schedule demo_reconcile" "leaves_schedule ex_nightly"
  by (simp_all add: leaves_schedule_def ex_prepare_def demo_reconcile_def ex_nightly_def)

theorem scheduled_run_safe_witness:
  "fst ex_run = Inr 0 \<and> rn_lock (snd ex_run) = None \<and> (\<exists>r. schedule_runs (rn_store (snd ex_run)) = [r] \<and> closed_row 0 0 r)"
proof -
  have run: "run_scheduled ex_scheduler ''t'' 7 None of_nat ex_prepare demo_reconcile ex_nightly ''2026-03-02'' ''p'' 0 ex_runner
      = (fst ex_run, snd ex_run)" by (simp add: ex_run_def)
  show ?thesis
    using scheduled_run_safe [OF ex_callbacks _ run] ex_run_returns ok_empty_schedule
    by (auto simp: ex_runner_def empty_schedule_def)
qed

definition ex_clean_run :: "nat \<Rightarrow> run_row" where
  "ex_clean_run n = \<lparr>sr_schedule_run_id = str_nat n, sr_trading_session = str_nat n, sr_pipeline_run_id = str_nat n,
     sr_state = ''succeeded'', sr_started_at = 0, sr_completed_at = Some 0, sr_finalization_passed = 1, sr_nightly_passed = 1,
     sr_duplicate_orders = 0, sr_unresolved_reconciliation = 0, sr_failure = []\<rparr>"

definition ex_cycle :: "nat \<Rightarrow> cycle_row" where
  "ex_cycle n = \<lparr>mc_cycle_id = str_nat n, mc_trading_session = str_nat n, mc_command_id = str_nat n, mc_manually_approved = 1,
     mc_terminal_state = ''filled'', mc_duplicate_detected = 0, mc_reconciliation_resolved = 1, mc_recovery_verified = 1,
     mc_recorded_at = 0\<rparr>"

definition ex_qualified :: schedule_store where
  "ex_qualified = empty_schedule\<lparr>schedule_runs := map ex_clean_run [0..<30], mutation_cycles := map ex_cycle [0..<20],
     fault_drills := [\<lparr>fd_drill_id = ''d'', fd_trading_session = ''0'', fd_drill_name = ''outage'', fd_passed = 1,
       fd_evidence_checksum = [], fd_recorded_at = 0\<rparr>]\<rparr>"

lemma ex_gate_c: "evaluate_gate_c ex_qualified empty_store ex_scheduler =
    Inr \<lparr>qr_qualified = True, qr_trading_sessions = 30, qr_approved_mutation_cycles = 20, qr_blockers = []\<rparr>"
  by code_simp

theorem gate_c_qualification_witness:
  "30 \<le> card (sr_trading_session ` {r \<in> set (schedule_runs ex_qualified). clean_run r}) \<and>
   list_all clean_run (schedule_runs ex_qualified)"
  using gate_c_qualification [OF ex_scheduler_loads ex_gate_c] by (simp add: ex_scheduler_def gate_c_requirements_def list_all_iff)

end
