(* ===== verification/Fills.thy ===== *)
theory Fills
  imports Accounting Broker_Base Py_Exact
begin

text \<open>
  \<open>src/execution/fill_ingestion.py\<close>: staging of broker-confirmed executions in a CSV file. The
  file is the table of texts a reader finds in it (\<open>dtype=str\<close>, no missing values); what cannot
  be read as one is the error of the reader. Rows are keyed by column.
\<close>

section \<open>The staging file\<close>

definition broker_fill_columns :: "string list" where
  "broker_fill_columns = [''fill_id'', ''ticker'', ''side'', ''action'', ''quantity'', ''fill_price'', ''fees'',
     ''fill_timestamp'', ''broker'', ''environment'', ''broker_execution_id'', ''broker_order_id'',
     ''broker_position_id'', ''broker_reference_id'', ''broker_instrument_id'', ''broker_rate_id'', ''broker_fee'',
     ''broker_tax'', ''currency'', ''executed_amount'']"

definition legacy_broker_fill_columns :: "string list" where
  "legacy_broker_fill_columns = butlast broker_fill_columns"

type_synonym fill_row = "(string \<times> string) list"

record fill_table =
  ft_columns :: "string list"
  ft_rows :: "fill_row list"

datatype fill_file = NoFills | Unreadable error | Fills fill_table

definition row_get :: "fill_row \<Rightarrow> string \<Rightarrow> string" where
  "row_get r k = (case map_of r k of Some v \<Rightarrow> v | None \<Rightarrow> [])"

text \<open>
  \<open>datetime.isoformat()\<close>: the local time of the offset, then the offset as hours and minutes,
  with seconds and microseconds when it has them.
\<close>

definition offset_text :: "int \<Rightarrow> string" where
  "offset_text off =
     (let a = \<bar>off\<bar>; us = a mod 1000000; s = a div 1000000 in
      (if off < 0 then ''-'' else ''+'') @ pad_nat 2 (nat (s div 3600)) @ '':'' @ pad_nat 2 (nat (s mod 3600 div 60)) @
      (if s mod 60 = 0 \<and> us = 0 then [] else '':'' @ pad_nat 2 (nat (s mod 60))) @
      (if us = 0 then [] else ''.'' @ pad_nat 6 (nat us)))"

fun datetime_isoformat :: "pydatetime \<Rightarrow> string" where
  "datetime_isoformat (Naive t) = iso_text [] t"
| "datetime_isoformat (Aware t off) = iso_text (offset_text off) (t + off)"

text \<open>\<open>accounting._sum\<close> of decimals of any kind: an infinity or a NaN has no integer exponent.\<close>

definition exact_sum :: "decimal list \<Rightarrow> decimal result" where
  "exact_sum ds = (if list_all is_finite ds then Inr (accounting_sum ds)
                   else Inl (PyTypeError ''exponent is not an integer''))"

section \<open>Staging\<close>

definition fill_identity :: "string \<Rightarrow> broker_execution \<Rightarrow> string" where
  "fill_identity broker x = py_lower (py_strip broker) @ '':'' @ environment_str (be_environment x) @ '':'' @ be_broker_execution_id x"

definition fill_values :: "string \<Rightarrow> string \<Rightarrow> bool \<Rightarrow> broker_execution \<Rightarrow> fill_row result" where
  "fill_values broker ticker with_amount x =
     bindR (exact_sum [be_fees x, be_taxes x]) (\<lambda>total.
     Inr ([(''fill_id'', fill_identity broker x), (''ticker'', ticker), (''side'', be_side x), (''action'', be_action x),
       (''quantity'', dec_str (be_units x)), (''fill_price'', dec_str (be_price x)), (''fees'', dec_str total),
       (''fill_timestamp'', (case be_executed_at_source x of
            Some t \<Rightarrow> if t = [] then datetime_isoformat (be_executed_at x) else t
          | None \<Rightarrow> datetime_isoformat (be_executed_at x))),
       (''broker'', py_lower (py_strip broker)), (''environment'', environment_str (be_environment x)),
       (''broker_execution_id'', be_broker_execution_id x), (''broker_order_id'', be_broker_order_id x),
       (''broker_position_id'', be_broker_position_id x), (''broker_reference_id'', be_broker_reference_id x),
       (''broker_instrument_id'', str_int (be_broker_instrument_id x)), (''broker_rate_id'', be_price_rate_id x),
       (''broker_fee'', dec_str (be_fees x)), (''broker_tax'', dec_str (be_taxes x)), (''currency'', be_currency x)] @
      (if with_amount then [(''executed_amount'', case be_executed_amount x of None \<Rightarrow> [] | Some d \<Rightarrow> dec_str d)] else [])))"

definition numeric_columns :: "string list" where
  "numeric_columns = [''quantity'', ''fill_price'', ''fees'', ''broker_fee'', ''broker_tax'', ''executed_amount'']"

text \<open>\<open>Decimal(a) == Decimal(b)\<close>, false when a text is no number; a NaN equals nothing.\<close>

definition same_number :: "string \<Rightarrow> string \<Rightarrow> bool" where
  "same_number a b = (case (dec_of_string a, dec_of_string b) of (Some x, Some y) \<Rightarrow> dec_eq x y | _ \<Rightarrow> False)"

definition same_value :: "fill_row \<Rightarrow> string \<times> string \<Rightarrow> bool" where
  "same_value old kv = (case map_of old (fst kv) of
       None \<Rightarrow> False
     | Some o' \<Rightarrow> if fst kv \<in> set numeric_columns \<and> snd kv \<noteq> [] \<and> o' \<noteq> [] then same_number o' (snd kv) else o' = snd kv)"

definition same_fill :: "fill_row \<Rightarrow> fill_row \<Rightarrow> bool" where
  "same_fill old row = list_all (same_value old) row"

text \<open>
  The loop over the executions: \<open>known\<close> is \<open>existing_by_id\<close> with the newest entry first, \<open>rows\<close>
  the rows to append.
\<close>

fun stage_rows ::
  "(int \<Rightarrow> string option) \<Rightarrow> string \<Rightarrow> bool \<Rightarrow> (string \<times> fill_row) list \<Rightarrow> fill_row list \<Rightarrow> broker_execution list \<Rightarrow> fill_row list result" where
  "stage_rows tickers broker with_amount known rows [] = Inr rows"
| "stage_rows tickers broker with_amount known rows (x # xs) =
     raiseIf (be_environment x \<noteq> DEMO) (BrokerFillIngestionError ''only Demo broker executions may be staged'') (
     let ticker = py_upper (py_strip (case tickers (be_broker_instrument_id x) of Some t \<Rightarrow> t | None \<Rightarrow> [])) in
     raiseIf (ticker = []) (BrokerFillIngestionError ''broker execution lacks an exact internal instrument mapping'') (
     bindR (fill_values broker ticker with_amount x) (\<lambda>row.
     case map_of known (fill_identity broker x) of
       Some old \<Rightarrow>
         raiseIf (\<not> same_fill old row) (BrokerFillIngestionError ''broker fill identity has contradictory values'') (
         stage_rows tickers broker with_amount known rows xs)
     | None \<Rightarrow> stage_rows tickers broker with_amount ((fill_identity broker x, row) # known) (rows @ [row]) xs)))"

definition existing_fills :: "fill_file \<Rightarrow> fill_table result" where
  "existing_fills file = (case file of
       NoFills \<Rightarrow> Inr \<lparr>ft_columns = legacy_broker_fill_columns, ft_rows = []\<rparr>
     | Unreadable e \<Rightarrow> Inl e
     | Fills t \<Rightarrow> raiseIf (ft_columns t \<noteq> broker_fill_columns \<and> ft_columns t \<noteq> legacy_broker_fill_columns)
         (BrokerFillIngestionError ''broker fill staging schema is invalid'') (Inr t))"

definition add_amount_column :: "fill_table \<Rightarrow> fill_table" where
  "add_amount_column t = \<lparr>ft_columns = ft_columns t @ [''executed_amount''],
     ft_rows = map (\<lambda>r. r @ [(''executed_amount'', [])]) (ft_rows t)\<rparr>"

text \<open>The result of writing is an argument: an error leaves the file as it was.\<close>

definition stage_broker_executions ::
  "(int \<Rightarrow> string option) \<Rightarrow> string \<Rightarrow> error option \<Rightarrow> broker_execution list \<Rightarrow> fill_file \<Rightarrow> fill_table result \<times> fill_file" where
  "stage_broker_executions tickers broker write_error executions = transaction (\<lambda>file.
     bindR (existing_fills file) (\<lambda>found.
     let with_amount = (''executed_amount'' \<in> set (ft_columns found) \<or> list_ex (\<lambda>x. be_executed_amount x \<noteq> None) executions);
         existing = (if with_amount \<and> ''executed_amount'' \<notin> set (ft_columns found) then add_amount_column found else found);
         columns = (if with_amount then broker_fill_columns else legacy_broker_fill_columns)
     in raiseIf (\<not> unique_by (\<lambda>r. row_get r ''fill_id'') (ft_rows existing)) (BrokerFillIngestionError ''broker fill identity collision'') (
        bindR (stage_rows tickers broker with_amount (map (\<lambda>r. (row_get r ''fill_id'', r)) (ft_rows existing)) [] executions) (\<lambda>rows.
        let output = \<lparr>ft_columns = columns, ft_rows = ft_rows existing @ rows\<rparr> in
        raiseIf (\<not> unique_by (\<lambda>r. row_get r ''fill_id'') (ft_rows output)) (BrokerFillIngestionError ''broker fill identity collision'') (
        case write_error of Some e \<Rightarrow> Inl e | None \<Rightarrow> Inr (output, Fills output))))))"

section \<open>What staging keeps\<close>

text \<open>Every number of the execution is finite; eToro's parsed executions have no other.\<close>

definition finite_execution :: "broker_execution \<Rightarrow> bool" where
  "finite_execution x \<longleftrightarrow> is_finite (be_units x) \<and> is_finite (be_price x) \<and> is_finite (be_fees x) \<and> is_finite (be_taxes x) \<and>
     (case be_executed_amount x of None \<Rightarrow> True | Some d \<Rightarrow> is_finite d)"

abbreviation fill_id_of :: "fill_row \<Rightarrow> string" where
  "fill_id_of r \<equiv> row_get r ''fill_id''"

abbreviation keyed :: "fill_row \<Rightarrow> string \<times> fill_row" where
  "keyed r \<equiv> (fill_id_of r, r)"

lemma fill_values_row:
  assumes "fill_values broker ticker w x = Inr row"
  shows "fill_id_of row = fill_identity broker x"
    and "map fst row = (if w then broker_fill_columns else legacy_broker_fill_columns)"
  using assms by (auto simp: fill_values_def row_get_def broker_fill_columns_def legacy_broker_fill_columns_def)

lemma same_number_refl: "is_finite d \<Longrightarrow> same_number (dec_str d) (dec_str d)"
  by (simp add: same_number_def)

lemma is_finite_accounting_sum: "list_all is_finite ds \<Longrightarrow> is_finite (accounting_sum ds)"
  by (simp add: accounting_sum_def list_all_iff)

lemma same_fillI:
  assumes "distinct (map fst row)" and "\<And>k v. (k, v) \<in> set row \<Longrightarrow> k \<in> set numeric_columns \<Longrightarrow> v = [] \<or> same_number v v"
  shows "same_fill row row"
  using assms by (fastforce simp: same_fill_def same_value_def list_all_iff)

lemma distinct_columns: "distinct broker_fill_columns" "distinct legacy_broker_fill_columns"
  by (simp_all add: broker_fill_columns_def legacy_broker_fill_columns_def)

lemma same_fill_refl:
  assumes "fill_values broker ticker w x = Inr row" and "finite_execution x"
  shows "same_fill row row"
proof (rule same_fillI)
  show "distinct (map fst row)" using fill_values_row(2) [OF assms(1)] distinct_columns by simp
next
  fix k v
  assume kv: "(k, v) \<in> set row" "k \<in> set numeric_columns"
  have "is_finite (accounting_sum [be_fees x, be_taxes x])"
    using assms(2) by (simp add: is_finite_accounting_sum finite_execution_def)
  moreover have "v \<in> dec_str ` {be_units x, be_price x, accounting_sum [be_fees x, be_taxes x], be_fees x, be_taxes x} \<or>
      v = [] \<or> (\<exists>d. be_executed_amount x = Some d \<and> v = dec_str d)"
    using assms(1) kv by (auto simp: fill_values_def exact_sum_def numeric_columns_def split: if_splits option.splits)
  ultimately show "v = [] \<or> same_number v v"
    using assms(2) by (auto simp: finite_execution_def same_number_refl)
qed

text \<open>The execution's evidence is among the known rows.\<close>

definition staged :: "(int \<Rightarrow> string option) \<Rightarrow> string \<Rightarrow> bool \<Rightarrow> fill_row set \<Rightarrow> broker_execution \<Rightarrow> bool" where
  "staged tickers broker w R x \<longleftrightarrow> be_environment x = DEMO \<and>
     (\<exists>t. tickers (be_broker_instrument_id x) = Some t \<and> py_upper (py_strip t) \<noteq> [] \<and>
       (\<exists>row. fill_values broker (py_upper (py_strip t)) w x = Inr row \<and>
         (\<exists>old\<in>R. fill_id_of old = fill_identity broker x \<and> same_fill old row)))"

lemma staged_mono: "staged tickers broker w R x \<Longrightarrow> R \<subseteq> R' \<Longrightarrow> staged tickers broker w R' x"
  unfolding staged_def by blast

lemma map_of_keyed: "map_of (map keyed rs) k = Some r \<Longrightarrow> r \<in> set rs \<and> fill_id_of r = k"
  by (drule map_of_SomeD) auto

lemma stage_again:
  assumes "unique_by fill_id_of rs" and "list_all (staged tickers broker w (set rs)) xs"
  shows "stage_rows tickers broker w (map keyed rs) rows xs = Inr rows"
  using assms(2)
proof (induction xs)
  case (Cons x xs)
  then obtain t row old where x: "be_environment x = DEMO" "tickers (be_broker_instrument_id x) = Some t" "py_upper (py_strip t) \<noteq> []"
    "fill_values broker (py_upper (py_strip t)) w x = Inr row" "old \<in> set rs" "fill_id_of old = fill_identity broker x" "same_fill old row"
    by (auto simp: staged_def)
  have "map_of (map keyed rs) (fill_identity broker x) = Some old"
    using assms(1) x(5) unfolding x(6) [symmetric] by (intro map_of_is_SomeI) (auto simp: unique_by_def comp_def)
  then show ?case using Cons x by simp
qed simp

lemma stage_rows_effect:
  assumes "stage_rows tickers broker w (map keyed known) rows xs = Inr out" and "list_all finite_execution xs"
    and "unique_by fill_id_of known"
  shows "\<exists>new. out = rows @ new \<and> list_all (staged tickers broker w (set known \<union> set new)) xs \<and>
     unique_by fill_id_of (rev new @ known) \<and>
     list_all (\<lambda>r. map fst r = (if w then broker_fill_columns else legacy_broker_fill_columns)) new"
  using assms
proof (induction xs arbitrary: known rows)
  case Nil
  then show ?case by simp
next
  case (Cons x xs)
  let ?t = "case tickers (be_broker_instrument_id x) of Some t \<Rightarrow> t | None \<Rightarrow> []"
  obtain row where demo: "be_environment x = DEMO" and tick: "py_upper (py_strip ?t) \<noteq> []"
    and row: "fill_values broker (py_upper (py_strip ?t)) w x = Inr row"
    using Cons.prems(1) by (auto simp: Let_def)
  have some: "\<exists>t. tickers (be_broker_instrument_id x) = Some t \<and> ?t = t"
    using tick by (auto simp: py_strip_def py_upper_def split: option.splits)
  note id = fill_values_row [OF row]
  show ?case
  proof (cases "map_of (map keyed known) (fill_identity broker x)")
    case (Some old)
    then have "same_fill old row" and rest: "stage_rows tickers broker w (map keyed known) rows xs = Inr out"
      using Cons.prems(1) demo tick row by (auto simp: Let_def)
    then have here: "staged tickers broker w (set known) x"
      using demo tick row some map_of_keyed [OF Some] by (auto simp: staged_def)
    obtain new where "out = rows @ new" "list_all (staged tickers broker w (set known \<union> set new)) xs"
      "unique_by fill_id_of (rev new @ known)"
      "list_all (\<lambda>r. map fst r = (if w then broker_fill_columns else legacy_broker_fill_columns)) new"
      using Cons.IH [OF rest] Cons.prems(2,3) by auto
    then show ?thesis using staged_mono [OF here] by auto
  next
    case None
    then have rest: "stage_rows tickers broker w (map keyed (row # known)) (rows @ [row]) xs = Inr out"
      using Cons.prems(1) demo tick row by (simp add: Let_def id)
    have uniq: "unique_by fill_id_of (row # known)"
      using None Cons.prems(3) by (auto simp: unique_by_def map_of_eq_None_iff id image_image)
    have here: "staged tickers broker w {row} x"
      using demo tick row some id same_fill_refl [OF row] Cons.prems(2) by (auto simp: staged_def)
    obtain new where new: "out = (rows @ [row]) @ new" "list_all (staged tickers broker w (set (row # known) \<union> set new)) xs"
      "unique_by fill_id_of (rev new @ row # known)"
      "list_all (\<lambda>r. map fst r = (if w then broker_fill_columns else legacy_broker_fill_columns)) new"
      using Cons.IH [OF rest _ uniq] Cons.prems(2) by auto
    have "list_all (staged tickers broker w (set known \<union> set (row # new))) (x # xs)"
      using new(2) staged_mono [OF here] by (simp add: list_all_iff)
    then show ?thesis using new id by (intro exI [of _ "row # new"]) simp
  qed
qed

lemma amount_column [simp]:
  "''executed_amount'' \<in> set broker_fill_columns" "''executed_amount'' \<notin> set legacy_broker_fill_columns"
  by (simp_all add: broker_fill_columns_def legacy_broker_fill_columns_def)

lemma existing_fills_columns:
  "existing_fills file = Inr found \<Longrightarrow> ft_columns found = broker_fill_columns \<or> ft_columns found = legacy_broker_fill_columns"
  by (auto simp: existing_fills_def split: fill_file.splits)

lemma staging_result:
  assumes "stage_broker_executions tickers broker we xs file = (Inr out, file')" and "list_all finite_execution xs"
  shows "file' = Fills out"
    and "\<exists>found new. existing_fills file = Inr found \<and>
         (ft_rows out = ft_rows found @ new \<and> ft_columns out = ft_columns found \<or>
          ft_rows out = ft_rows (add_amount_column found) @ new \<and> ft_columns out = broker_fill_columns) \<and>
         list_all (\<lambda>r. map fst r = ft_columns out) new"
    and "unique_by fill_id_of (ft_rows out)"
    and "list_all (staged tickers broker (''executed_amount'' \<in> set (ft_columns out)) (set (ft_rows out))) xs"
    and "stage_broker_executions tickers broker None xs (Fills out) = (Inr out, Fills out)"
proof -
  obtain found where found: "existing_fills file = Inr found"
    using assms(1) by (auto simp: stage_broker_executions_def)
  define w where "w \<longleftrightarrow> ''executed_amount'' \<in> set (ft_columns found) \<or> list_ex (\<lambda>x. be_executed_amount x \<noteq> None) xs"
  define old where "old = (if w \<and> ''executed_amount'' \<notin> set (ft_columns found) then add_amount_column found else found)"
  define cols where "cols = (if w then broker_fill_columns else legacy_broker_fill_columns)"
  obtain new where uold: "unique_by fill_id_of (ft_rows old)"
    and stage: "stage_rows tickers broker w (map keyed (ft_rows old)) [] xs = Inr new"
    and out: "out = \<lparr>ft_columns = cols, ft_rows = ft_rows old @ new\<rparr>" and uniq: "unique_by fill_id_of (ft_rows out)"
    and file': "file' = Fills out"
    using assms(1) found unfolding stage_broker_executions_def transaction_Inr found bindR_simps Let_def
    by (fold w_def) (fold old_def cols_def, auto split: option.splits)
  obtain st: "list_all (staged tickers broker w (set (ft_rows old) \<union> set new)) xs"
    and cols_new: "list_all (\<lambda>r. map fst r = cols) new"
    using stage_rows_effect [OF stage assms(2) uold] by (auto simp: cols_def)
  show "file' = Fills out" by (fact file')
  show "unique_by fill_id_of (ft_rows out)" by (fact uniq)
  have w: "''executed_amount'' \<in> set (ft_columns out) \<longleftrightarrow> w" by (simp add: out cols_def)
  show staged: "list_all (staged tickers broker (''executed_amount'' \<in> set (ft_columns out)) (set (ft_rows out))) xs"
    using st unfolding w by (simp add: out)
  show "\<exists>found new. existing_fills file = Inr found \<and>
         (ft_rows out = ft_rows found @ new \<and> ft_columns out = ft_columns found \<or>
          ft_rows out = ft_rows (add_amount_column found) @ new \<and> ft_columns out = broker_fill_columns) \<and>
         list_all (\<lambda>r. map fst r = ft_columns out) new"
    using found cols_new existing_fills_columns [OF found]
    by (intro exI [of _ found] exI [of _ new]) (auto simp: out old_def cols_def w_def)
  have exist: "existing_fills (Fills out) = Inr out" by (auto simp: existing_fills_def out cols_def)
  have same: "''executed_amount'' \<in> set (ft_columns out) \<or> list_ex (\<lambda>x. be_executed_amount x \<noteq> None) xs \<longleftrightarrow> w"
    using w by (auto simp: w_def)
  show "stage_broker_executions tickers broker None xs (Fills out) = (Inr out, Fills out)"
    unfolding stage_broker_executions_def transaction_Inr exist bindR_simps Let_def same
    using stage_again [OF uniq staged] uniq by (simp add: w) (simp add: out cols_def)
qed

section \<open>Properties\<close>

text \<open>
  C39: staging is append-only and idempotent. When it succeeds on executions with finite numbers,
  the file holds the rows it held before (with an empty amount where that column is new) and
  after them the new ones, every row has its own fill identity, each execution is an exact Demo
  execution of a mapped instrument whose evidence agrees with the row of its identity, and
  staging the same executions again succeeds and changes nothing. A staging that fails, on any
  input, leaves the file as it was.
\<close>

theorem staging_append_only_idempotent:
  "(\<forall>e. fst (stage_broker_executions tickers broker we xs file) = Inl e \<longrightarrow>
       snd (stage_broker_executions tickers broker we xs file) = file) \<and>
   (\<forall>out. fst (stage_broker_executions tickers broker we xs file) = Inr out \<and> list_all finite_execution xs \<longrightarrow>
      snd (stage_broker_executions tickers broker we xs file) = Fills out \<and>
      (\<exists>found new. existing_fills file = Inr found \<and>
         (ft_rows out = ft_rows found @ new \<and> ft_columns out = ft_columns found \<or>
          ft_rows out = ft_rows (add_amount_column found) @ new \<and> ft_columns out = broker_fill_columns) \<and>
         list_all (\<lambda>r. map fst r = ft_columns out) new) \<and>
      unique_by fill_id_of (ft_rows out) \<and>
      list_all (staged tickers broker (''executed_amount'' \<in> set (ft_columns out)) (set (ft_rows out))) xs \<and>
      stage_broker_executions tickers broker None xs (Fills out) = (Inr out, Fills out))"
  (is "?fail \<and> (\<forall>out. ?ok out \<longrightarrow> ?file out \<and> ?rows out \<and> ?uniq out \<and> ?staged out \<and> ?again out)")
proof (intro conjI allI impI)
  fix e assume "fst (stage_broker_executions tickers broker we xs file) = Inl e"
  then show "snd (stage_broker_executions tickers broker we xs file) = file"
    by (auto simp: stage_broker_executions_def transaction_def split: sum.splits)
next
  fix out
  assume "?ok out"
  then have fin: "list_all finite_execution xs"
    and run: "stage_broker_executions tickers broker we xs file = (Inr out, snd (stage_broker_executions tickers broker we xs file))"
    by (simp_all add: prod_eq_iff)
  note res = staging_result [OF run fin]
  show "?file out" "?rows out" "?uniq out" "?staged out" "?again out" by (fact res)+
qed

section \<open>Witness\<close>

definition ex_execution :: broker_execution where
  "ex_execution = \<lparr>be_broker_execution_id = ''e1'', be_broker_order_id = ''o1'', be_broker_instrument_id = 1001,
     be_broker_position_id = ''p1'', be_broker_reference_id = ''r1'', be_environment = DEMO, be_side = ''buy'', be_action = ''open'',
     be_units = Dec False 12 (-1), be_price = Dec False 100 0, be_executed_at = utc 0, be_price_rate_id = ''q1'',
     be_fees = Dec False 5 (-1), be_taxes = Dec False 0 0, be_currency = ''USD'', be_executed_amount = Some (Dec False 120 0),
     be_executed_at_source = None\<rparr>"

definition ex_tickers :: "int \<Rightarrow> string option" where
  "ex_tickers i = (if i = 1001 then Some ''aapl'' else None)"

definition ex_fills :: fill_table where
  "ex_fills = (case fst (stage_broker_executions ex_tickers ''eToro'' None [ex_execution] NoFills) of
     Inr t \<Rightarrow> t | Inl e \<Rightarrow> \<lparr>ft_columns = [], ft_rows = []\<rparr>)"

lemma ex_fills_staged: "fst (stage_broker_executions ex_tickers ''eToro'' None [ex_execution] NoFills) = Inr ex_fills"
  by code_simp

lemma ex_execution_finite: "finite_execution ex_execution"
  by (simp add: finite_execution_def ex_execution_def)

theorem staging_append_only_idempotent_witness:
  "stage_broker_executions ex_tickers ''eToro'' None [ex_execution] (Fills ex_fills) = (Inr ex_fills, Fills ex_fills) \<and>
   staged ex_tickers ''eToro'' (''executed_amount'' \<in> set (ft_columns ex_fills)) (set (ft_rows ex_fills)) ex_execution"
  using staging_append_only_idempotent [of ex_tickers "''eToro''" None "[ex_execution]" NoFills] ex_fills_staged ex_execution_finite
  by simp

end
