(* ===== verification/Usage.thy ===== *)
theory Usage
  imports Account_Source Py_Exact
begin

text \<open>
  \<open>src/execution/usage_reserve.py\<close>: the quota evidence an automated send is admitted on. The
  type checks of the constructors are the types of the model; sums are taken in the default
  decimal context of 28 digits.
\<close>

section \<open>Windows\<close>

definition minimum_floor_percent :: decimal where "minimum_floor_percent = Dec False 20 0"
definition minimum_recovery_reserve_percent :: decimal where "minimum_recovery_reserve_percent = Dec False 5 0"
definition pilot_minimum_floor_percent :: decimal where "pilot_minimum_floor_percent = Dec False 5 0"
definition max_usage_age_seconds :: int where "max_usage_age_seconds = 60"
abbreviation hundred :: decimal where "hundred \<equiv> Dec False 100 0"

fun usage_moment :: "pydatetime \<Rightarrow> instant result" where
  "usage_moment (Naive _) = Inl (UsageEvidenceError ''timezone_aware_usage_time_required'')"
| "usage_moment (Aware t _) = Inr t"

definition usage_percent :: "decimal \<Rightarrow> decimal result" where
  "usage_percent d = raiseIf (\<not> is_finite d \<or> \<not> dec_le dec0 d \<or> \<not> dec_le d hundred)
     (UsageEvidenceError ''finite_decimal_usage_percentage_required'') (Inr d)"

record usage_window =
  uw_window_id :: string
  uw_remaining_percent :: "decimal option"
  uw_primary :: bool

definition UsageWindow :: "string \<Rightarrow> decimal option \<Rightarrow> bool \<Rightarrow> usage_window result" where
  "UsageWindow window_id remaining primary =
     raiseIf (blank window_id) (UsageEvidenceError ''usage_window_identity_required'') (
     bindR (optR usage_percent remaining) (\<lambda>_.
     Inr \<lparr>uw_window_id = window_id, uw_remaining_percent = remaining, uw_primary = primary\<rparr>))"

section \<open>The admission\<close>

record usage_admission =
  ua_observed_at :: instant
  ua_windows :: "usage_window list"
  ua_available_window_ids :: "string list"
  ua_source_reference :: string
  ua_source_sha256 :: string
  ua_floor_percent :: decimal
  ua_recovery_reserve_percent :: decimal

text \<open>The class attribute \<open>minimum_floor_percent\<close> of the class being built is an argument.\<close>

definition usage_checks ::
  "decimal \<Rightarrow> pydatetime \<Rightarrow> usage_window list \<Rightarrow> string list \<Rightarrow> string \<Rightarrow> string \<Rightarrow> decimal \<Rightarrow> decimal \<Rightarrow> usage_admission result" where
  "usage_checks class_floor observed_at windows available source_reference source_sha256 floor_percent reserve =
     bindR (usage_moment observed_at) (\<lambda>observed.
     raiseIf (\<not> distinct (map uw_window_id windows)) (UsageEvidenceError ''duplicate_usage_window'') (
     raiseIf (list_ex blank available \<or> \<not> distinct available)
       (UsageEvidenceError ''explicit_available_usage_windows_required'') (
     raiseIf (blank source_reference \<or> \<not> hex_digest source_sha256) (UsageEvidenceError ''usage_source_provenance_required'') (
     bindR (usage_percent floor_percent) (\<lambda>_.
     bindR (usage_percent reserve) (\<lambda>_.
     raiseIf (dec_lt floor_percent class_floor \<or> dec_lt reserve minimum_recovery_reserve_percent)
       (UsageEvidenceError ''usage_floor_or_recovery_reserve_cannot_be_relaxed'') (
     raiseIf (dec_lt hundred (dec_add 28 floor_percent reserve))
       (UsageEvidenceError ''usage_floor_plus_reserve_exceeds_allowance'') (
     Inr \<lparr>ua_observed_at = observed, ua_windows = windows, ua_available_window_ids = available,
          ua_source_reference = source_reference, ua_source_sha256 = source_sha256, ua_floor_percent = floor_percent,
          ua_recovery_reserve_percent = reserve\<rparr>))))))))"

definition UsageAdmission ::
  "pydatetime \<Rightarrow> usage_window list \<Rightarrow> string list \<Rightarrow> string \<Rightarrow> string \<Rightarrow> decimal \<Rightarrow> decimal \<Rightarrow> usage_admission result" where
  "UsageAdmission = usage_checks minimum_floor_percent"

record pilot_usage_admission = usage_admission +
  ua_authorization_reference :: string

definition PilotUsageAdmission ::
  "pydatetime \<Rightarrow> usage_window list \<Rightarrow> string list \<Rightarrow> string \<Rightarrow> string \<Rightarrow> decimal \<Rightarrow> decimal \<Rightarrow> string \<Rightarrow>
   pilot_usage_admission result" where
  "PilotUsageAdmission observed_at windows available source_reference source_sha256 floor_percent reserve authorization =
     bindR (usage_checks pilot_minimum_floor_percent observed_at windows available source_reference source_sha256 floor_percent reserve)
       (\<lambda>a.
     raiseIf (dec_lt floor_percent minimum_floor_percent \<and> blank authorization)
       (UsageEvidenceError ''explicit_pilot_usage_floor_authorization_required'') (
     Inr (usage_admission.extend a \<lparr>ua_authorization_reference = authorization\<rparr>)))"

text \<open>\<open>min\<close> of decimals: the first of the least.\<close>

fun dec_min_list :: "decimal \<Rightarrow> decimal list \<Rightarrow> decimal" where
  "dec_min_list m [] = m"
| "dec_min_list m (d # ds) = dec_min_list (if dec_lt d m then d else m) ds"

definition minimum_remaining_percent :: "'a usage_admission_scheme \<Rightarrow> decimal option" where
  "minimum_remaining_percent a =
     (if \<not> list_ex uw_primary (ua_windows a) \<or> set (ua_available_window_ids a) \<noteq> set (map uw_window_id (ua_windows a)) \<or>
         list_ex (\<lambda>w. uw_remaining_percent w = None) (ua_windows a)
      then None
      else case map (the \<circ> uw_remaining_percent) (ua_windows a) of
        [] \<Rightarrow> None
      | d # ds \<Rightarrow> Some (dec_min_list d ds))"

definition required_submission_percent :: "'a usage_admission_scheme \<Rightarrow> decimal" where
  "required_submission_percent a = dec_add 28 (ua_floor_percent a) (ua_recovery_reserve_percent a)"

definition evidence_blockers :: "'a usage_admission_scheme \<Rightarrow> pydatetime \<Rightarrow> string list result" where
  "evidence_blockers a now =
     bindR (usage_moment now) (\<lambda>moment.
     let age = moment - ua_observed_at a in
     Inr ((if age < 0 \<or> age > seconds max_usage_age_seconds then [''usage_snapshot_stale_or_future''] else []) @
          (if \<not> list_ex uw_primary (ua_windows a) then [''primary_usage_window_missing''] else []) @
          (if set (ua_available_window_ids a) \<noteq> set (map uw_window_id (ua_windows a))
           then [''available_usage_window_coverage_mismatch''] else []) @
          (if list_ex (\<lambda>w. uw_remaining_percent w = None) (ua_windows a) then [''usage_window_allowance_unknown''] else [])))"

definition validate_for_submission :: "'a usage_admission_scheme \<Rightarrow> pydatetime \<Rightarrow> string list result" where
  "validate_for_submission a now =
     bindR (evidence_blockers a now) (\<lambda>blockers.
     Inr (blockers @ (case minimum_remaining_percent a of
            Some r \<Rightarrow> if dec_lt r (required_submission_percent a) then [''usage_recovery_reserve_insufficient''] else []
          | None \<Rightarrow> [])))"

definition validate_for_work :: "'a usage_admission_scheme \<Rightarrow> pydatetime \<Rightarrow> string list result" where
  "validate_for_work a now =
     bindR (evidence_blockers a now) (\<lambda>blockers.
     Inr (blockers @ (case minimum_remaining_percent a of
            Some r \<Rightarrow> if dec_le r (ua_floor_percent a) then [''usage_remaining_floor_reached''] else []
          | None \<Rightarrow> [])))"

section \<open>What an admitted send leaves\<close>

definition window_built :: "usage_window \<Rightarrow> bool" where
  "window_built w \<longleftrightarrow> UsageWindow (uw_window_id w) (uw_remaining_percent w) (uw_primary w) = Inr w"

lemma window_built_finite: "window_built w \<Longrightarrow> uw_remaining_percent w = Some d \<Longrightarrow> is_finite d"
  by (auto simp: window_built_def UsageWindow_def usage_percent_def)

lemma dec_min_list_least:
  "list_all is_finite (m # ds) \<Longrightarrow> is_finite (dec_min_list m ds) \<and> (\<forall>d\<in>set (m # ds). dec_val (dec_min_list m ds) \<le> dec_val d)"
proof (induction ds arbitrary: m)
  case (Cons d ds)
  let ?m = "if dec_lt d m then d else m"
  have "list_all is_finite (?m # ds)" using Cons.prems by auto
  from Cons.IH [OF this] show ?case using Cons.prems by (auto split: if_splits)
qed simp

text \<open>
  \<open>admitted least a now\<close>: the evidence is fresh and complete, and every window retains the least
  allowance, more than the floor, and the whole floor plus reserve when their sum has at most
  28 digits.
\<close>

definition admitted :: "rat \<Rightarrow> 'a usage_admission_scheme \<Rightarrow> instant \<Rightarrow> bool" where
  "admitted least a now \<longleftrightarrow> ua_observed_at a \<le> now \<and> now \<le> ua_observed_at a + seconds 60 \<and>
     list_ex uw_primary (ua_windows a) \<and> set (ua_available_window_ids a) = set (map uw_window_id (ua_windows a)) \<and>
     list_all (\<lambda>w. case uw_remaining_percent w of None \<Rightarrow> False | Some d \<Rightarrow>
       least \<le> dec_val d \<and> dec_val (ua_floor_percent a) < dec_val d \<and>
       (fits 28 (dec_val (ua_floor_percent a) + dec_val (ua_recovery_reserve_percent a)) \<longrightarrow>
        dec_val (ua_floor_percent a) + dec_val (ua_recovery_reserve_percent a) \<le> dec_val d)) (ua_windows a)"

text \<open>What the constructors promise of floor and reserve.\<close>

definition reserve_ok :: "rat \<Rightarrow> 'a usage_admission_scheme \<Rightarrow> bool" where
  "reserve_ok least_floor a \<longleftrightarrow> is_finite (ua_floor_percent a) \<and> is_finite (ua_recovery_reserve_percent a) \<and>
     least_floor \<le> dec_val (ua_floor_percent a) \<and> dec_val (ua_floor_percent a) \<le> 100 \<and> 5 \<le> dec_val (ua_recovery_reserve_percent a) \<and>
     list_all window_built (ua_windows a)"

lemma fits_small_int: "\<bar>k\<bar> < 10 ^ 28 \<Longrightarrow> fits 28 (of_int k)"
  using fits_int [of k 28 0] by simp

lemma required_bounds:
  assumes "reserve_ok (of_int l) a" and "0 \<le> l" "l \<le> 100"
  shows "is_finite (required_submission_percent a)"
    and "of_int (l + 5) \<le> dec_val (required_submission_percent a)"
    and "dec_val (ua_floor_percent a) < dec_val (required_submission_percent a)"
    and "fits 28 (dec_val (ua_floor_percent a) + dec_val (ua_recovery_reserve_percent a)) \<Longrightarrow>
      dec_val (required_submission_percent a) = dec_val (ua_floor_percent a) + dec_val (ua_recovery_reserve_percent a)"
proof -
  let ?f = "dec_val (ua_floor_percent a)" and ?r = "dec_val (ua_recovery_reserve_percent a)"
  have fin: "is_finite (ua_floor_percent a)" "is_finite (ua_recovery_reserve_percent a)" and
    b: "of_int l \<le> ?f" "?f \<le> 100" "5 \<le> ?r" using assms(1) by (simp_all add: reserve_ok_def)
  note ge = dec_add_ge [OF fin, of 28]
  show "is_finite (required_submission_percent a)" using fin by (simp add: required_submission_percent_def)
  show "of_int (l + 5) \<le> dec_val (required_submission_percent a)"
    unfolding required_submission_percent_def using b assms(2,3) by (intro ge fits_small_int) simp_all
  have "\<lfloor>?f\<rfloor> \<le> 100" using b(2) by (simp add: floor_le_iff)
  have "0 \<le> ?f" using b(1) assms(2) by (meson of_int_0_le_iff order_trans)
  then have "0 \<le> \<lfloor>?f\<rfloor>" by simp
  have "of_int (\<lfloor>?f\<rfloor> + 1) \<le> dec_val (required_submission_percent a)"
    unfolding required_submission_percent_def
  proof (intro ge fits_small_int)
    show "\<bar>\<lfloor>?f\<rfloor> + 1\<bar> < 10 ^ 28" using \<open>0 \<le> \<lfloor>?f\<rfloor>\<close> \<open>\<lfloor>?f\<rfloor> \<le> 100\<close> by simp
    show "of_int (\<lfloor>?f\<rfloor> + 1) \<le> ?f + ?r" using b(3) of_int_floor_le [of ?f] by (simp only: of_int_add of_int_1)
  qed simp
  then show "?f < dec_val (required_submission_percent a)" using floor_correct [of ?f] by linarith
  show "dec_val (required_submission_percent a) = ?f + ?r" if "fits 28 (?f + ?r)"
    unfolding required_submission_percent_def using that by (intro dec_add_exact fin) simp_all
qed

lemma submission_admits:
  assumes "reserve_ok (of_int l) a" and "0 \<le> l" "l \<le> 100" and "validate_for_submission a (Aware now off) = Inr []"
  shows "admitted (of_int (l + 5)) a now \<and> validate_for_work a (Aware now off) = Inr []"
proof -
  note req = required_bounds [OF assms(1-3)]
  have ev: "evidence_blockers a (Aware now off) = Inr []"
    using assms(4) by (auto simp: validate_for_submission_def)
  then have fresh: "ua_observed_at a \<le> now" "now \<le> ua_observed_at a + seconds 60" and
    ids: "list_ex uw_primary (ua_windows a)" "set (ua_available_window_ids a) = set (map uw_window_id (ua_windows a))"
    "\<not> list_ex (\<lambda>w. uw_remaining_percent w = None) (ua_windows a)"
    by (auto simp: evidence_blockers_def Let_def max_usage_age_seconds_def split: if_splits)
  obtain d ds where ds: "map (the \<circ> uw_remaining_percent) (ua_windows a) = d # ds"
    using ids(1) by (cases "ua_windows a") simp_all
  have known: "\<exists>d. uw_remaining_percent w = Some d \<and> is_finite d" if "w \<in> set (ua_windows a)" for w
    using that ids(3) assms(1) window_built_finite by (fastforce simp: reserve_ok_def list_ex_iff list_all_iff)
  have "list_all is_finite (map (the \<circ> uw_remaining_percent) (ua_windows a))"
    using known by (fastforce simp: list_all_iff)
  note least = dec_min_list_least [OF this [unfolded ds]]
  let ?m = "dec_min_list d ds"
  have min: "minimum_remaining_percent a = Some ?m" using ids ds by (simp add: minimum_remaining_percent_def)
  then have m: "dec_val (required_submission_percent a) \<le> dec_val ?m"
    using assms(4) least req(1) by (auto simp: validate_for_submission_def ev split: if_splits)
  have every: "dec_val (required_submission_percent a) \<le> dec_val r" if "w \<in> set (ua_windows a)" "uw_remaining_percent w = Some r" for w r
  proof -
    have "r \<in> set (d # ds)" unfolding ds [symmetric] using that by force
    then show ?thesis using least m by fastforce
  qed
  have held: "case uw_remaining_percent w of None \<Rightarrow> False | Some d \<Rightarrow> of_int (l + 5) \<le> dec_val d \<and> dec_val (ua_floor_percent a) < dec_val d \<and>
      (fits 28 (dec_val (ua_floor_percent a) + dec_val (ua_recovery_reserve_percent a)) \<longrightarrow>
        dec_val (ua_floor_percent a) + dec_val (ua_recovery_reserve_percent a) \<le> dec_val d)" if w: "w \<in> set (ua_windows a)" for w
  proof -
    obtain r where r: "uw_remaining_percent w = Some r" using known [OF w] by blast
    show ?thesis using every [OF w r] req(2-4) by (auto simp: r)
  qed
  have "admitted (of_int (l + 5)) a now"
    unfolding admitted_def list_all_iff using fresh ids(1,2) held by blast
  moreover have "validate_for_work a (Aware now off) = Inr []"
    using req(3) m least assms(1) by (simp add: validate_for_work_def ev min reserve_ok_def)
  ultimately show ?thesis ..
qed

lemma usage_percent_Inr: "usage_percent d = Inr x \<longleftrightarrow> x = d \<and> is_finite d \<and> 0 \<le> dec_val d \<and> dec_val d \<le> 100"
  by (auto simp: usage_percent_def)

lemma usage_checks_ok:
  assumes "usage_checks (Dec False n 0) observed windows available reference sha floor_percent reserve = Inr a" and "list_all window_built windows"
  shows "ua_windows a = windows" and "reserve_ok (of_nat n) a" and "ua_floor_percent a = floor_percent"
  using assms by (auto simp: usage_checks_def usage_percent_Inr reserve_ok_def minimum_recovery_reserve_percent_def)

lemma pilot_ok:
  assumes "PilotUsageAdmission observed windows available reference sha floor_percent reserve authorization = Inr b"
    and "list_all window_built windows"
  shows "ua_windows b = windows" and "reserve_ok (of_int 5) b"
    and "dec_val (ua_floor_percent b) < 20 \<Longrightarrow> \<not> blank (ua_authorization_reference b)"
proof -
  obtain a where a: "usage_checks (Dec False 5 0) observed windows available reference sha floor_percent reserve = Inr a"
    and b: "b = usage_admission.extend a \<lparr>ua_authorization_reference = authorization\<rparr>"
    and auth: "\<not> (dec_lt floor_percent minimum_floor_percent \<and> blank authorization)"
    using assms(1) by (auto simp: PilotUsageAdmission_def pilot_minimum_floor_percent_def)
  note ok = usage_checks_ok [OF a assms(2)]
  show "ua_windows b = windows" "reserve_ok (of_int 5) b"
    using ok by (simp_all add: b usage_admission.defs reserve_ok_def)
  show "\<not> blank (ua_authorization_reference b)" if "dec_val (ua_floor_percent b) < 20"
    using ok auth that by (simp add: b usage_admission.defs reserve_ok_def minimum_floor_percent_def)
qed

section \<open>Properties\<close>

text \<open>
  C40: the recovery reserve is never spent. When a usage snapshot built from constructed windows
  admits a submission, it is at most a minute old and not from the future, it covers exactly
  the available windows with a primary one among them, and every window retains at least 25
  per cent, more than its floor, and all of floor plus reserve when that sum has at most 28
  digits; general work is admitted too. For the Demo pilot the same holds with at least 10 per
  cent, and a floor below 20 carries an authorization reference.
\<close>

theorem usage_reserve_kept:
  assumes "list_all window_built windows"
  shows "(UsageAdmission observed windows available reference sha floor_percent reserve = Inr a \<and>
          validate_for_submission a (Aware now off) = Inr [] \<longrightarrow>
          ua_windows a = windows \<and> admitted 25 a now \<and> validate_for_work a (Aware now off) = Inr []) \<and>
         (PilotUsageAdmission observed windows available reference sha floor_percent reserve authorization = Inr b \<and>
          validate_for_submission b (Aware now off) = Inr [] \<longrightarrow>
          ua_windows b = windows \<and> admitted 10 b now \<and> validate_for_work b (Aware now off) = Inr [] \<and>
          (dec_val (ua_floor_percent b) < 20 \<longrightarrow> \<not> blank (ua_authorization_reference b)))"
proof (intro conjI impI; (elim conjE)?)
  assume "UsageAdmission observed windows available reference sha floor_percent reserve = Inr a"
  note usage_checks_ok [OF this [unfolded UsageAdmission_def minimum_floor_percent_def] assms]
  then have a: "ua_windows a = windows" "reserve_ok (of_int 20) a" by simp_all
  assume v: "validate_for_submission a (Aware now off) = Inr []"
  show "ua_windows a = windows" "admitted 25 a now" "validate_for_work a (Aware now off) = Inr []"
    using a submission_admits [OF a(2) _ _ v] by simp_all
next
  assume pilot: "PilotUsageAdmission observed windows available reference sha floor_percent reserve authorization = Inr b"
  assume v: "validate_for_submission b (Aware now off) = Inr []"
  note b = pilot_ok [OF pilot assms]
  show "ua_windows b = windows" "admitted 10 b now" "validate_for_work b (Aware now off) = Inr []"
    using b submission_admits [OF b(2) _ _ v] by simp_all
  show "\<not> blank (ua_authorization_reference b)" if "dec_val (ua_floor_percent b) < 20" using b(3) that by simp
qed

section \<open>Witness\<close>

definition ex_windows :: "usage_window list" where
  "ex_windows = [\<lparr>uw_window_id = ''weekly'', uw_remaining_percent = Some (Dec False 50 0), uw_primary = True\<rparr>]"

definition ex_usage :: usage_admission where
  "ex_usage = \<lparr>ua_observed_at = 0, ua_windows = ex_windows, ua_available_window_ids = [''weekly''], ua_source_reference = ''receipt'',
     ua_source_sha256 = replicate 64 CHR ''a'', ua_floor_percent = Dec False 20 0, ua_recovery_reserve_percent = Dec False 5 0\<rparr>"

lemma ex_usage_built:
  "list_all window_built ex_windows"
  "UsageAdmission (utc 0) ex_windows [''weekly''] ''receipt'' (replicate 64 CHR ''a'') (Dec False 20 0) (Dec False 5 0) = Inr ex_usage"
  "validate_for_submission ex_usage (utc 1000000) = Inr []"
  by code_simp+

theorem usage_reserve_kept_witness: "admitted 25 ex_usage 1000000 \<and> ua_windows ex_usage = ex_windows"
  using usage_reserve_kept [OF ex_usage_built(1)] ex_usage_built(2,3) by blast

end
