(* ===== verification/Finite_Mandate.thy ===== *)
theory Finite_Mandate
  imports Accounting Account_Source
begin

text \<open>
  \<open>src/execution/finite_demo_mandate.py\<close>: the scope of a finite Demo mandate and the orders it
  authorises. A scope arrives as parsed JSON and is normalised by \<open>validate_scope\<close>; the
  normalised scope is a record whose decimals are the numbers of the texts the code stores
  (\<open>Decimal(str(d))\<close> is \<open>d\<close>).
\<close>

section \<open>Scope\<close>

record finite_instrument =
  fi_instrument_id :: int
  fi_symbol :: string
  fi_exchange :: string
  fi_asset_type :: string
  fi_economic_class :: string
  fi_currency :: string
  fi_issuer :: string
  fi_sector :: string
  fi_class_source_reference :: string

record finite_scope =
  fs_instruments :: "finite_instrument list"
  fs_authorized_amounts :: "(string \<times> decimal) list"
  fs_max_submissions :: int
  fs_max_per_day :: int
  fs_per_order_cap :: decimal
  fs_total_commitment :: decimal
  fs_max_positions :: int
  fs_min_cash_fraction :: decimal
  fs_loss_stop :: decimal
  fs_order_types :: "string list"
  fs_acknowledge_unreported_buffer :: "bool option"

abbreviation finite_error :: "string \<Rightarrow> error" where
  "finite_error name \<equiv> FiniteDemoMandateError (''finite_'' @ name)"

text \<open>\<open>_decimal\<close>: a text or an integer; \<open>Decimal\<close> refuses the rest.\<close>

fun finite_decimal :: "json \<Rightarrow> string \<Rightarrow> decimal result" where
  "finite_decimal (JStr s) name = bindR (of_option (finite_error (name @ ''_exact_decimal_required'')) (dec_of_string s)) (\<lambda>d.
     raiseIf (\<not> is_finite d) (finite_error (name @ ''_invalid'')) (Inr d))"
| "finite_decimal (JInt i) name = Inr (dec_of_int i)"
| "finite_decimal _ name = Inl (finite_error (name @ ''_exact_decimal_required''))"

fun finite_positive_int :: "json \<Rightarrow> string \<Rightarrow> int result" where
  "finite_positive_int (JInt i) name = raiseIf (i < 1) (finite_error (name @ ''_positive_integer_required'')) (Inr i)"
| "finite_positive_int _ name = Inl (finite_error (name @ ''_positive_integer_required''))"

definition finite_text_ok :: "string \<Rightarrow> bool" where
  "finite_text_ok s \<longleftrightarrow> \<not> blank s \<and> length s \<le> 4096"

fun finite_text :: "json \<Rightarrow> string \<Rightarrow> string result" where
  "finite_text (JStr s) name = raiseIf (\<not> finite_text_ok s) (finite_error (name @ ''_required'')) (Inr s)"
| "finite_text _ name = Inl (finite_error (name @ ''_required''))"

definition scope_keys :: "string list" where
  "scope_keys = [''instruments'', ''authorized_amounts'', ''max_submissions'', ''max_per_day'', ''per_order_cap'',
     ''total_commitment'', ''max_positions'', ''min_cash_fraction'', ''loss_stop'', ''order_types'']"

definition optional_scope_keys :: "string list" where
  "optional_scope_keys = [''acknowledge_unreported_buffer'']"

definition instrument_keys :: "string list" where
  "instrument_keys = [''instrument_id'', ''symbol'', ''exchange'', ''asset_type'', ''economic_class'', ''currency'',
     ''issuer'', ''sector'', ''class_source_reference'']"

text \<open>\<open>d[key]\<close> of a dictionary that has the key.\<close>

definition member :: "(string \<times> json) list \<Rightarrow> string \<Rightarrow> json" where
  "member kvs k = (case map_of kvs k of Some v \<Rightarrow> v | None \<Rightarrow> JNull)"

definition scope_instrument :: "json \<Rightarrow> finite_instrument result" where
  "scope_instrument j = (case j of
       JObj kvs \<Rightarrow>
         raiseIf (set (map fst kvs) \<noteq> set instrument_keys) (finite_error ''instrument_shape_invalid'') (
         bindR (finite_positive_int (member kvs ''instrument_id'') ''instrument_id'') (\<lambda>ident.
         bindR (finite_text (member kvs ''symbol'') ''symbol'') (\<lambda>symbol.
         bindR (finite_text (member kvs ''exchange'') ''exchange'') (\<lambda>exchange.
         bindR (finite_text (member kvs ''asset_type'') ''asset_type'') (\<lambda>asset_type.
         bindR (finite_text (member kvs ''economic_class'') ''economic_class'') (\<lambda>economic_class.
         bindR (finite_text (member kvs ''currency'') ''currency'') (\<lambda>currency.
         bindR (finite_text (member kvs ''issuer'') ''issuer'') (\<lambda>issuer.
         bindR (finite_text (member kvs ''sector'') ''sector'') (\<lambda>sector.
         bindR (finite_text (member kvs ''class_source_reference'') ''class_source_reference'') (\<lambda>reference.
         raiseIf (asset_type \<notin> {''equity'', ''etf''} \<or> currency \<noteq> ''USD'' \<or>
                  economic_class \<notin> {''equity'', ''fixed_income'', ''commodity'', ''crypto''} \<or>
                  asset_type = ''equity'' \<and> economic_class \<noteq> ''equity'')
           (finite_error ''supported_usd_real_asset_scope_required'') (
         Inr \<lparr>fi_instrument_id = ident, fi_symbol = symbol, fi_exchange = exchange, fi_asset_type = asset_type,
              fi_economic_class = economic_class, fi_currency = currency, fi_issuer = issuer, fi_sector = sector,
              fi_class_source_reference = reference\<rparr>)))))))))))
     | _ \<Rightarrow> Inl (finite_error ''instrument_shape_invalid''))"

text \<open>The loop over the instruments, with the identities and listings seen so far.\<close>

fun scope_instruments :: "finite_instrument list \<Rightarrow> json list \<Rightarrow> finite_instrument list result" where
  "scope_instruments seen [] = Inr seen"
| "scope_instruments seen (j # js) =
     bindR (scope_instrument j) (\<lambda>item.
     raiseIf (fi_instrument_id item \<in> set (map fi_instrument_id seen) \<or>
              (fi_symbol item, fi_exchange item) \<in> set (map (\<lambda>i. (fi_symbol i, fi_exchange i)) seen))
       (finite_error ''duplicate_instrument'') (
     scope_instruments (seen @ [item]) js))"

fun scope_amounts :: "decimal \<Rightarrow> (string \<times> json) list \<Rightarrow> finite_instrument list \<Rightarrow> (string \<times> decimal) list result" where
  "scope_amounts cap kvs [] = Inr []"
| "scope_amounts cap kvs (i # is) =
     bindR (finite_decimal (member kvs (str_int (fi_instrument_id i))) ''authorized_amount'') (\<lambda>amount.
     raiseIf (\<not> (dec_lt dec0 amount \<and> dec_le amount cap)) (finite_error ''authorized_amount_outside_order_cap'') (
     bindR (scope_amounts cap kvs is) (\<lambda>rest. Inr ((str_int (fi_instrument_id i), amount) # rest))))"

definition scope_acknowledgement :: "(string \<times> json) list \<Rightarrow> bool option result" where
  "scope_acknowledgement kvs = (case map_of kvs ''acknowledge_unreported_buffer'' of
       None \<Rightarrow> Inr None
     | Some (JBool b) \<Rightarrow> Inr (Some b)
     | Some _ \<Rightarrow> Inl (finite_error ''explicit_buffer_acknowledgement_required''))"

definition scope_allowlist :: "json \<Rightarrow> finite_instrument list result" where
  "scope_allowlist j = (case j of
       JArr (i # is) \<Rightarrow> scope_instruments [] (i # is)
     | _ \<Rightarrow> Inl (finite_error ''instrument_allowlist_required''))"

definition scope_amount_table :: "decimal \<Rightarrow> finite_instrument list \<Rightarrow> json \<Rightarrow> (string \<times> decimal) list result" where
  "scope_amount_table cap instruments j = (case j of
       JObj amounts \<Rightarrow>
         raiseIf (set (map fst amounts) \<noteq> set (map (\<lambda>i. str_int (fi_instrument_id i)) instruments))
           (finite_error ''exact_instrument_amounts_required'') (scope_amounts cap amounts instruments)
     | _ \<Rightarrow> Inl (finite_error ''exact_instrument_amounts_required''))"

definition validate_scope :: "json \<Rightarrow> finite_scope result" where
  "validate_scope j = (case j of
       JObj kvs \<Rightarrow>
         raiseIf (\<not> set scope_keys \<subseteq> set (map fst kvs) \<or> \<not> set (map fst kvs) \<subseteq> set scope_keys \<union> set optional_scope_keys)
           (finite_error ''scope_shape_invalid'') (
         bindR (scope_acknowledgement kvs) (\<lambda>acknowledged.
         bindR (finite_positive_int (member kvs ''max_submissions'') ''max_submissions'') (\<lambda>max_submissions.
         bindR (finite_positive_int (member kvs ''max_per_day'') ''max_per_day'') (\<lambda>max_per_day.
         bindR (finite_positive_int (member kvs ''max_positions'') ''max_positions'') (\<lambda>max_positions.
         raiseIf (max_positions > 5) (finite_error ''count_limit_invalid'') (
         bindR (finite_decimal (member kvs ''per_order_cap'') ''per_order_cap'') (\<lambda>order_cap.
         bindR (finite_decimal (member kvs ''total_commitment'') ''total_commitment'') (\<lambda>commitment.
         bindR (finite_decimal (member kvs ''min_cash_fraction'') ''min_cash_fraction'') (\<lambda>cash_fraction.
         bindR (finite_decimal (member kvs ''loss_stop'') ''loss_stop'') (\<lambda>loss_stop.
         raiseIf (\<not> (dec_lt dec0 order_cap \<and> dec_le order_cap (dec_of_int 100) \<and>
                     dec_lt dec0 commitment \<and> dec_le commitment (dec_of_int 500) \<and> dec_le order_cap commitment \<and>
                     dec_le (Dec False 20 (-2)) cash_fraction \<and> dec_le cash_fraction dec1 \<and>
                     dec_lt dec0 loss_stop \<and> dec_le loss_stop (dec_of_int 25)))
           (finite_error ''risk_limit_invalid'') (
         raiseIf (member kvs ''order_types'' \<noteq> JArr [JStr ''market'']) (finite_error ''supported_explicit_order_types_required'') (
         bindR (scope_allowlist (member kvs ''instruments'')) (\<lambda>instruments.
         bindR (scope_amount_table order_cap instruments (member kvs ''authorized_amounts'')) (\<lambda>amounts.
         Inr \<lparr>fs_instruments = instruments, fs_authorized_amounts = amounts, fs_max_submissions = max_submissions,
              fs_max_per_day = max_per_day, fs_per_order_cap = order_cap, fs_total_commitment = commitment,
              fs_max_positions = max_positions, fs_min_cash_fraction = cash_fraction, fs_loss_stop = loss_stop,
              fs_order_types = [''market''], fs_acknowledge_unreported_buffer = acknowledged\<rparr>))))))))))))))
     | _ \<Rightarrow> Inl (finite_error ''scope_shape_invalid''))"

section \<open>Candidates\<close>

record finite_candidate =
  fc_command_id :: string
  fc_instrument_id :: int
  fc_amount :: decimal
  fc_expected_costs :: decimal
  fc_intent_hash :: string
  fc_order_type :: string
  fc_currency :: string
  fc_side :: string
  fc_leverage :: decimal
  fc_settlement_type :: string

text \<open>\<open>_decimal\<close> of a \<open>Decimal\<close>\<close>

definition finite_number :: "decimal \<Rightarrow> string \<Rightarrow> decimal result" where
  "finite_number d name = raiseIf (\<not> is_finite d) (finite_error (name @ ''_invalid'')) (Inr d)"

definition validate_order_amount :: "finite_scope \<Rightarrow> int \<Rightarrow> decimal \<Rightarrow> unit result" where
  "validate_order_amount scope instrument_id amount =
     raiseIf (instrument_id < 1) (finite_error ''instrument_id_positive_integer_required'') (
     bindR (of_option (finite_error ''candidate_instrument_not_authorized'')
       (map_of (fs_authorized_amounts scope) (str_int instrument_id))) (\<lambda>authorized.
     bindR (finite_number amount ''amount'') (\<lambda>amount.
     raiseIf (\<not> dec_eq amount authorized) (finite_error ''exact_authorized_amount_required'') (Inr ()))))"

definition validate_candidate :: "finite_scope \<Rightarrow> finite_candidate \<Rightarrow> finite_instrument result" where
  "validate_candidate scope c =
     raiseIf (\<not> finite_text_ok (fc_command_id c)) (finite_error ''command_id_required'') (
     raiseIf (fc_instrument_id c < 1) (finite_error ''instrument_id_positive_integer_required'') (
     raiseIf (\<not> hex_digest (fc_intent_hash c)) (finite_error ''exact_intent_hash_required'') (
     raiseIf (fc_order_type c \<notin> set (fs_order_types scope) \<or> fc_currency c \<noteq> ''USD'' \<or> fc_side c \<noteq> ''buy'')
       (finite_error ''candidate_execution_scope_invalid'') (
     bindR (finite_number (fc_leverage c) ''leverage'') (\<lambda>leverage.
     raiseIf (\<not> dec_eq leverage dec1 \<or> fc_settlement_type c \<noteq> ''real'') (finite_error ''candidate_execution_scope_invalid'') (
     bindR (finite_number (fc_amount c) ''amount'') (\<lambda>amount.
     bindR (finite_number (fc_expected_costs c) ''expected_costs'') (\<lambda>costs.
     raiseIf (dec_le amount dec0 \<or> dec_lt costs dec0 \<or> dec_lt (fs_per_order_cap scope) (accounting_sum [amount, costs]))
       (finite_error ''candidate_order_cap_exceeded'') (
     case filter (\<lambda>i. fi_instrument_id i = fc_instrument_id c) (fs_instruments scope) of
       [i] \<Rightarrow> bindR (validate_order_amount scope (fc_instrument_id c) amount) (\<lambda>_. Inr i)
     | _ \<Rightarrow> Inl (finite_error ''candidate_instrument_not_authorized''))))))))))"

section \<open>The mandate file\<close>

record finite_mandate =
  fm_account_id :: string
  fm_mandate_hash :: string
  fm_mandate_id :: string
  fm_source_reference :: string
  fm_issued_at :: instant
  fm_expires_at :: instant
  fm_ledger_path :: string
  fm_ledger_inception_hash :: string
  fm_reviewed_commit :: string
  fm_baseline_claims :: "(string \<times> string) list"
  fm_scope :: finite_scope

definition instrument_scope_json :: "finite_instrument \<Rightarrow> json" where
  "instrument_scope_json i = JObj
     [(''instrument_id'', JInt (fi_instrument_id i)), (''symbol'', JStr (fi_symbol i)), (''exchange'', JStr (fi_exchange i)),
      (''asset_type'', JStr (fi_asset_type i)), (''economic_class'', JStr (fi_economic_class i)), (''currency'', JStr (fi_currency i)),
      (''issuer'', JStr (fi_issuer i)), (''sector'', JStr (fi_sector i)),
      (''class_source_reference'', JStr (fi_class_source_reference i))]"

definition scope_json :: "finite_scope \<Rightarrow> json" where
  "scope_json s = JObj (
     [(''instruments'', JArr (map instrument_scope_json (fs_instruments s))),
      (''authorized_amounts'', JObj (map (\<lambda>kv. (fst kv, JStr (dec_str (snd kv)))) (fs_authorized_amounts s))),
      (''max_submissions'', JInt (fs_max_submissions s)), (''max_per_day'', JInt (fs_max_per_day s)),
      (''per_order_cap'', JStr (dec_str (fs_per_order_cap s))), (''total_commitment'', JStr (dec_str (fs_total_commitment s))),
      (''max_positions'', JInt (fs_max_positions s)), (''min_cash_fraction'', JStr (dec_str (fs_min_cash_fraction s))),
      (''loss_stop'', JStr (dec_str (fs_loss_stop s))), (''order_types'', JArr (map JStr (fs_order_types s)))] @
     (case fs_acknowledge_unreported_buffer s of None \<Rightarrow> [] | Some b \<Rightarrow> [(''acknowledge_unreported_buffer'', JBool b)]))"

text \<open>\<open>_identity\<close>, \<open>_timestamp\<close>, \<open>_commit\<close> and the hash patterns, of values of any JSON kind.\<close>

definition account_identity_ok :: "string \<Rightarrow> bool" where
  "account_identity_ok s = (case s of [] \<Rightarrow> False | c # cs \<Rightarrow> is_digit c \<and> c \<noteq> CHR ''0'' \<and> list_all is_digit cs)"

fun mandate_identity :: "json \<Rightarrow> string result" where
  "mandate_identity (JStr s) = raiseIf (\<not> account_identity_ok s)
     (PilotMandateError ''mandate_exact_demo_account_identity_required'') (Inr s)"
| "mandate_identity _ = Inl (PilotMandateError ''mandate_exact_demo_account_identity_required'')"

fun mandate_timestamp :: "json \<Rightarrow> instant result" where
  "mandate_timestamp (JTime t) = Inr t"
| "mandate_timestamp _ = Inl (PilotMandateError ''mandate_timezone_aware_time_required'')"

definition commit_ok :: "string \<Rightarrow> bool" where
  "commit_ok s \<longleftrightarrow> length s = 40 \<and> list_all (\<lambda>c. c \<in> set ''0123456789abcdef'') s"

fun mandate_commit :: "json \<Rightarrow> string result" where
  "mandate_commit (JStr s) = raiseIf (\<not> commit_ok s) (finite_error ''reviewed_commit_required'') (Inr s)"
| "mandate_commit _ = Inl (finite_error ''reviewed_commit_required'')"

fun json_uuid :: "json \<Rightarrow> string result" where
  "json_uuid (JStr s) = bindR (of_option (PyValueError ''badly formed hexadecimal UUID string'') (uuid_of_string s)) (\<lambda>_. Inr s)"
| "json_uuid _ = Inl (PyAttributeError ''replace'')"

fun json_hash :: "error \<Rightarrow> json \<Rightarrow> string result" where
  "json_hash e (JStr s) = raiseIf (\<not> hex_digest s) e (Inr s)"
| "json_hash e _ = Inl (PyTypeError ''expected string or bytes-like object'')"

fun json_path :: "json \<Rightarrow> string result" where
  "json_path (JStr s) = Inr s"
| "json_path _ = Inl (PyTypeError ''argument should be a str or an os.PathLike object'')"

fun baseline_claims :: "string list \<Rightarrow> json list \<Rightarrow> (string \<times> string) list result" where
  "baseline_claims seen [] = Inr []"
| "baseline_claims seen (j # js) = (case j of
       JObj kvs \<Rightarrow>
         raiseIf (set (map fst kvs) \<noteq> {''command_id'', ''sha256''}) (finite_error ''baseline_claims_invalid'') (
         case member kvs ''command_id'' of
           JStr c \<Rightarrow>
             raiseIf (c = []) (finite_error ''baseline_claims_invalid'') (
             bindR (json_hash (finite_error ''baseline_claims_invalid'') (member kvs ''sha256'')) (\<lambda>h.
             raiseIf (c \<in> set seen) (finite_error ''baseline_claims_invalid'') (
             bindR (baseline_claims (c # seen) js) (\<lambda>rest. Inr ((c, h) # rest)))))
         | _ \<Rightarrow> Inl (finite_error ''baseline_claims_invalid''))
     | _ \<Rightarrow> Inl (finite_error ''baseline_claims_invalid''))"

definition mandate_keys :: "string list" where
  "mandate_keys = [''schema'', ''policy'', ''environment'', ''broker'', ''transport'', ''mandate_id'', ''account_id'',
     ''source_reference'', ''issued_at'', ''expires_at'', ''ledger_path'', ''ledger_inception_hash'', ''reviewed_commit'',
     ''baseline_claims'', ''scope'']"

text \<open>\<open>canonical_path\<close> says whether a path is absolute and equal to its resolution.\<close>

definition mandate_payload ::
  "digest \<Rightarrow> (string \<Rightarrow> bool) \<Rightarrow> string \<Rightarrow> json \<Rightarrow> finite_mandate result" where
  "mandate_payload H canonical_path expected j = (case j of
       JObj file \<Rightarrow>
         raiseIf (set (map fst file) \<noteq> {''mandate'', ''sha256''}) (finite_error ''mandate_record_invalid'') (
         case member file ''mandate'' of
           JObj kvs \<Rightarrow>
             raiseIf (set (map fst kvs) \<noteq> set mandate_keys \<or> JStr (payload_hash H (JObj kvs)) \<noteq> member file ''sha256'')
               (finite_error ''mandate_integrity_failure'') (
             raiseIf (member kvs ''schema'' \<noteq> JStr ''finite-demo-mandate-v2'' \<or> member kvs ''policy'' \<noteq> JStr ''finite-demo-v2'' \<or>
                      member kvs ''environment'' \<noteq> JStr ''demo'' \<or> member kvs ''broker'' \<noteq> JStr ''etoro'' \<or>
                      member kvs ''transport'' \<noteq> JStr ''official_demo_api'') (finite_error ''mandate_scope_invalid'') (
             bindR (mandate_identity (member kvs ''account_id'')) (\<lambda>account_id.
             bindR (mandate_identity (JStr expected)) (\<lambda>_.
             raiseIf (account_id \<noteq> expected) (finite_error ''wrong_demo_account'') (
             bindR (json_uuid (member kvs ''mandate_id'')) (\<lambda>mandate_id.
             bindR (finite_text (member kvs ''source_reference'') ''source_reference'') (\<lambda>reference.
             bindR (mandate_commit (member kvs ''reviewed_commit'')) (\<lambda>commit.
             bindR (mandate_timestamp (member kvs ''issued_at'')) (\<lambda>issued.
             bindR (mandate_timestamp (member kvs ''expires_at'')) (\<lambda>expires.
             raiseIf (expires \<le> issued) (finite_error ''expiry_must_follow_issue'') (
             bindR (json_path (member kvs ''ledger_path'')) (\<lambda>ledger_path.
             raiseIf (\<not> canonical_path ledger_path) (finite_error ''original_ledger_binding_invalid'') (
             bindR (json_hash (finite_error ''original_ledger_binding_invalid'') (member kvs ''ledger_inception_hash'')) (\<lambda>inception_hash.
             bindR (validate_scope (member kvs ''scope'')) (\<lambda>scope.
             raiseIf (canonical_json (scope_json scope) \<noteq> canonical_json (member kvs ''scope'')) (finite_error ''noncanonical_scope'') (
             case member kvs ''baseline_claims'' of
               JArr claims \<Rightarrow> bindR (baseline_claims [] claims) (\<lambda>baseline.
                 Inr \<lparr>fm_account_id = account_id, fm_mandate_hash = payload_hash H (JObj kvs), fm_mandate_id = mandate_id,
                      fm_source_reference = reference, fm_issued_at = issued, fm_expires_at = expires,
                      fm_ledger_path = ledger_path, fm_ledger_inception_hash = inception_hash,
                      fm_reviewed_commit = commit, fm_baseline_claims = baseline, fm_scope = scope\<rparr>)
             | _ \<Rightarrow> Inl (finite_error ''baseline_claims_invalid'')))))))))))))))))
         | _ \<Rightarrow> Inl (finite_error ''mandate_integrity_failure''))
     | _ \<Rightarrow> Inl (finite_error ''mandate_record_invalid''))"

text \<open>
  \<open>load\<close>: the file as parsed, or the exception of reading it. Mandate errors pass; input,
  value, type and key errors become one; an \<open>AttributeError\<close> escapes.
\<close>

definition load_mandate :: "digest \<Rightarrow> (string \<Rightarrow> bool) \<Rightarrow> string \<Rightarrow> json result \<Rightarrow> finite_mandate result" where
  "load_mandate H canonical_path expected doc =
     (case bindR doc (mandate_payload H canonical_path expected) of
        Inl (FiniteDemoMandateError m) \<Rightarrow> Inl (FiniteDemoMandateError m)
      | Inl (PilotMandateError m) \<Rightarrow> Inl (PilotMandateError m)
      | Inl (PyAttributeError m) \<Rightarrow> Inl (PyAttributeError m)
      | Inl _ \<Rightarrow> Inl (finite_error ''mandate_missing_or_invalid'')
      | Inr m \<Rightarrow> Inr m)"

section \<open>What a loaded mandate bounds\<close>

definition scope_ok :: "finite_scope \<Rightarrow> bool" where
  "scope_ok s \<longleftrightarrow> 1 \<le> fs_max_submissions s \<and> 1 \<le> fs_max_per_day s \<and> 1 \<le> fs_max_positions s \<and> fs_max_positions s \<le> 5 \<and>
     is_finite (fs_per_order_cap s) \<and> is_finite (fs_total_commitment s) \<and> is_finite (fs_min_cash_fraction s) \<and>
     is_finite (fs_loss_stop s) \<and> 0 < dec_val (fs_per_order_cap s) \<and> dec_val (fs_per_order_cap s) \<le> 100 \<and>
     dec_val (fs_per_order_cap s) \<le> dec_val (fs_total_commitment s) \<and> dec_val (fs_total_commitment s) \<le> 500 \<and>
     1 / 5 \<le> dec_val (fs_min_cash_fraction s) \<and> dec_val (fs_min_cash_fraction s) \<le> 1 \<and>
     0 < dec_val (fs_loss_stop s) \<and> dec_val (fs_loss_stop s) \<le> 25 \<and>
     distinct (map fi_instrument_id (fs_instruments s)) \<and> fs_order_types s = [''market''] \<and>
     list_all (\<lambda>kv. is_finite (snd kv) \<and> 0 < dec_val (snd kv) \<and> dec_val (snd kv) \<le> dec_val (fs_per_order_cap s)) (fs_authorized_amounts s)"

lemma finite_decimal_finite: "finite_decimal j name = Inr d \<Longrightarrow> is_finite d"
  by (cases j) (auto simp: dec_of_int_def)

lemma finite_positive_int_pos: "finite_positive_int j name = Inr i \<Longrightarrow> 1 \<le> i"
  by (cases j) auto

lemma scope_instruments_distinct:
  "scope_instruments seen js = Inr out \<Longrightarrow> distinct (map fi_instrument_id seen) \<Longrightarrow> distinct (map fi_instrument_id out)"
  by (induction js arbitrary: seen) auto

lemma scope_amounts_bounded:
  assumes "scope_amounts cap kvs is = Inr out" and "is_finite cap"
  shows "list_all (\<lambda>kv. is_finite (snd kv) \<and> 0 < dec_val (snd kv) \<and> dec_val (snd kv) \<le> dec_val cap) out"
  using assms by (induction "is" arbitrary: out) (auto dest!: finite_decimal_finite)

lemma dec_val_of_int [simp]: "dec_val (dec_of_int i) = of_int i" "is_finite (dec_of_int i)"
  by (auto simp: dec_of_int_def)

lemma scope_allowlist_distinct: "scope_allowlist j = Inr out \<Longrightarrow> distinct (map fi_instrument_id out)"
  by (auto simp: scope_allowlist_def split: json.splits list.splits simp del: scope_instruments.simps dest!: scope_instruments_distinct)

lemma scope_amount_table_bounded:
  "scope_amount_table cap is j = Inr out \<Longrightarrow> is_finite cap \<Longrightarrow>
   list_all (\<lambda>kv. is_finite (snd kv) \<and> 0 < dec_val (snd kv) \<and> dec_val (snd kv) \<le> dec_val cap) out"
  by (cases j) (auto simp: scope_amount_table_def dest: scope_amounts_bounded)

lemma validate_scope_ok: "validate_scope j = Inr s \<Longrightarrow> scope_ok s"
proof -
  assume "validate_scope j = Inr s"
  then obtain kvs where j: "validate_scope (JObj kvs) = Inr s" by (cases j) (simp_all add: validate_scope_def)
  obtain ack ms md mp oc tc cf ls ins am where
    ints: "finite_positive_int (member kvs ''max_submissions'') ''max_submissions'' = Inr ms"
      "finite_positive_int (member kvs ''max_per_day'') ''max_per_day'' = Inr md"
      "finite_positive_int (member kvs ''max_positions'') ''max_positions'' = Inr mp" "\<not> mp > 5"
    and decs: "finite_decimal (member kvs ''per_order_cap'') ''per_order_cap'' = Inr oc"
      "finite_decimal (member kvs ''total_commitment'') ''total_commitment'' = Inr tc"
      "finite_decimal (member kvs ''min_cash_fraction'') ''min_cash_fraction'' = Inr cf"
      "finite_decimal (member kvs ''loss_stop'') ''loss_stop'' = Inr ls"
    and lim: "dec_lt dec0 oc \<and> dec_le oc (dec_of_int 100) \<and> dec_lt dec0 tc \<and> dec_le tc (dec_of_int 500) \<and> dec_le oc tc \<and>
       dec_le (Dec False 20 (-2)) cf \<and> dec_le cf dec1 \<and> dec_lt dec0 ls \<and> dec_le ls (dec_of_int 25)"
    and ins: "scope_allowlist (member kvs ''instruments'') = Inr ins"
    and am: "scope_amount_table oc ins (member kvs ''authorized_amounts'') = Inr am"
    and s: "s = \<lparr>fs_instruments = ins, fs_authorized_amounts = am, fs_max_submissions = ms,
              fs_max_per_day = md, fs_per_order_cap = oc, fs_total_commitment = tc,
              fs_max_positions = mp, fs_min_cash_fraction = cf, fs_loss_stop = ls,
              fs_order_types = [''market''], fs_acknowledge_unreported_buffer = ack\<rparr>"
    using j unfolding validate_scope_def json.case raiseIf_eq_Inr bindR_eq_Inr sum.inject by (metis (no_types))
  have frac: "dec_val (Dec False 20 (-2)) = 1 / 5" by (simp add: power_int_def power2_eq_square)
  note fin = decs [THEN finite_decimal_finite]
  have "0 < dec_val oc \<and> dec_val oc \<le> 100 \<and> dec_val oc \<le> dec_val tc \<and> dec_val tc \<le> 500 \<and>
      1 / 5 \<le> dec_val cf \<and> dec_val cf \<le> 1 \<and> 0 < dec_val ls \<and> dec_val ls \<le> 25"
    using lim fin by (simp add: frac [symmetric] del: dec_val.simps) simp
  then show ?thesis
    using fin ints(4) finite_positive_int_pos [OF ints(1)] finite_positive_int_pos [OF ints(2)] finite_positive_int_pos [OF ints(3)]
      scope_allowlist_distinct [OF ins] scope_amount_table_bounded [OF am fin(1)]
    unfolding s scope_ok_def by simp
qed

end
