(* ===== verification/Pilot_Ledger.thy ===== *)
theory Pilot_Ledger
  imports Finite_Mandate Broker_Base Once
begin

text \<open>
  \<open>src/agents/fill_agent/pilot_ledger.py\<close>: the event-sourced ledger of the Demo pilot. Claims and
  events are append-only (triggers refuse updates and deletions); the state is recomputed from
  them on every call. Rows hold the decoded payloads, so the digests stored beside them, which
  only an outside change of the file could contradict, are left out. The validation of account evidence
  against its raw broker receipts and the London calendar day are arguments (\<open>fresh\<close>, \<open>day_of\<close>).
  External lifecycle imports are not modelled: the ledger here has none.
\<close>

section \<open>Evidence\<close>

record pilot_position =
  pp_position_id :: string
  pp_instrument_id :: int
  pp_units :: decimal
  pp_principal :: decimal
  pp_pnl :: decimal
  pp_exposure :: decimal
  pp_fees :: decimal
  pp_taxes :: decimal
  pp_carrying_fees :: decimal
  pp_is_buy :: bool
  pp_leverage :: decimal
  pp_settlement_type :: int
  pp_source_timestamp :: string

record pilot_account =
  pa_account_id :: string
  pa_cash :: decimal
  pa_equity :: decimal
  pa_positions :: "pilot_position list"
  pa_capture_started_at :: instant
  pa_capture_completed_at :: instant
  pa_source_hash :: string
  pa_raw_sources :: json

definition pilot_position_json :: "pilot_position \<Rightarrow> json" where
  "pilot_position_json p = JObj
     [(''position_id'', JStr (pp_position_id p)), (''instrument_id'', JInt (pp_instrument_id p)), (''units'', jdec (pp_units p)),
      (''principal'', jdec (pp_principal p)), (''pnl'', jdec (pp_pnl p)), (''exposure'', jdec (pp_exposure p)),
      (''fees'', jdec (pp_fees p)), (''taxes'', jdec (pp_taxes p)), (''carrying_fees'', jdec (pp_carrying_fees p)),
      (''is_buy'', JBool (pp_is_buy p)), (''leverage'', jdec (pp_leverage p)), (''settlement_type'', JInt (pp_settlement_type p)),
      (''source_timestamp'', JStr (pp_source_timestamp p))]"

definition pilot_account_json :: "pilot_account \<Rightarrow> json" where
  "pilot_account_json a = JObj
     [(''account_id'', JStr (pa_account_id a)), (''cash'', jdec (pa_cash a)), (''equity'', jdec (pa_equity a)),
      (''positions'', JArr (map pilot_position_json (pa_positions a))), (''capture_started_at'', JTime (pa_capture_started_at a)),
      (''capture_completed_at'', JTime (pa_capture_completed_at a)), (''source_hash'', JStr (pa_source_hash a)),
      (''raw_sources'', pa_raw_sources a), (''qualification_credit'', JBool False), (''historical_daily_loss'', JNull),
      (''historical_drawdown'', JNull)]"

text \<open>\<open>_clean\<close>: fields whose name holds one of the secret words are dropped at every depth.\<close>

definition secret_key :: "string \<Rightarrow> bool" where
  "secret_key k = (let name = filter (\<lambda>c. c \<noteq> CHR ''_'' \<and> c \<noteq> CHR ''-'') (py_lower k) in
     list_ex (\<lambda>w. list_ex (\<lambda>n. take (length w) (drop n name) = w) [0..<Suc (length name)])
       [''token'', ''authorization'', ''apikey'', ''userkey'', ''credential'', ''secret''])"

fun clean_json :: "json \<Rightarrow> json" where
  "clean_json (JObj kvs) = JObj (map (\<lambda>(k, v). (k, clean_json v)) (filter (\<lambda>kv. \<not> secret_key (fst kv)) kvs))"
| "clean_json (JArr js) = JArr (map clean_json js)"
| "clean_json j = j"

definition clean_account :: "pilot_account \<Rightarrow> pilot_account" where
  "clean_account a = a\<lparr>pa_raw_sources := clean_json (pa_raw_sources a)\<rparr>"

abbreviation ledger_error :: "string \<Rightarrow> error" where
  "ledger_error name \<equiv> PilotLedgerError name"

definition money :: "decimal \<Rightarrow> string \<Rightarrow> bool \<Rightarrow> decimal result" where
  "money d name nonnegative = raiseIf (\<not> is_finite d \<or> nonnegative \<and> dec_lt d dec0) (ledger_error (name @ ''_invalid'')) (Inr d)"

definition difference :: "decimal \<Rightarrow> decimal list \<Rightarrow> decimal" where
  "difference left right = accounting_sum (left # map dec_copy_negate right)"

text \<open>\<open>as_integer_ratio()\<close>, up to a common factor, and the cross products that compare without rounding.\<close>

fun integer_ratio :: "decimal \<Rightarrow> int \<times> int" where
  "integer_ratio (Dec s c e) = ((if s then -1 else 1) * int c * 10 ^ nat e, 10 ^ nat (- e))"
| "integer_ratio _ = (0, 1)"

definition cash_reserve_met :: "decimal \<Rightarrow> decimal \<Rightarrow> bool" where
  "cash_reserve_met cash equity = (case (integer_ratio cash, integer_ratio equity) of ((cash_n, cash_d), (equity_n, equity_d)) \<Rightarrow>
     cash_n * 5 * equity_d \<ge> equity_n * cash_d)"

definition cash_fraction_missed :: "decimal \<Rightarrow> decimal \<Rightarrow> decimal \<Rightarrow> bool" where
  "cash_fraction_missed cash equity fraction = (case (integer_ratio cash, integer_ratio equity, integer_ratio fraction) of
     ((cash_n, cash_d), (eq_n, eq_d), (fraction_n, fraction_d)) \<Rightarrow> cash_n * eq_d * fraction_d < eq_n * cash_d * fraction_n)"

text \<open>\<open>_account\<close>: identity, freshness and consistency of an account capture.\<close>

definition checked_account ::
  "(pilot_account \<Rightarrow> instant \<Rightarrow> unit result) \<Rightarrow> string \<Rightarrow> pilot_account \<Rightarrow> instant \<Rightarrow> pilot_account result" where
  "checked_account fresh expected account now =
     raiseIf (pa_account_id account \<noteq> expected) (ledger_error ''pilot_wrong_account'') (
     bindR (fresh account now) (\<lambda>_.
     let data = clean_account account in
     raiseIf (pa_source_hash data = []) (ledger_error ''pilot_account_provenance_missing'') (
     bindR (money (pa_cash data) ''cash'' True) (\<lambda>cash.
     bindR (money (pa_equity data) ''equity'' True) (\<lambda>equity.
     raiseIf (dec_lt equity cash \<or> dec_le equity dec0) (ledger_error ''pilot_cash_equity_inconsistent'') (
     raiseIf (\<not> distinct (map pp_position_id (pa_positions data))) (ledger_error ''pilot_duplicate_position_identity'') (
     Inr data)))))))"

definition same_money :: "decimal \<Rightarrow> decimal \<Rightarrow> bool" where
  "same_money a b \<longleftrightarrow> dec_eq a b"

definition same_holdings :: "bool \<Rightarrow> pilot_position \<Rightarrow> pilot_position \<Rightarrow> bool" where
  "same_holdings carrying b a \<longleftrightarrow> pp_instrument_id b = pp_instrument_id a \<and> same_money (pp_units b) (pp_units a) \<and>
     same_money (pp_principal b) (pp_principal a) \<and> same_money (pp_fees b) (pp_fees a) \<and> same_money (pp_taxes b) (pp_taxes a) \<and>
     pp_is_buy b = pp_is_buy a \<and> same_money (pp_leverage b) (pp_leverage a) \<and> pp_settlement_type b = pp_settlement_type a \<and>
     (carrying \<longrightarrow> same_money (pp_carrying_fees b) (pp_carrying_fees a))"

section \<open>Rows and derived state\<close>

record mandate_claim =
  mn_mandate_id :: string
  mn_mandate_hash :: string
  mn_scope :: finite_scope
  mn_instrument :: finite_instrument
  mn_order_type :: string

record pilot_claim =
  cl_command_id :: string
  cl_london_day :: string
  cl_send_started_at :: instant
  cl_amount :: decimal
  cl_expected_costs :: decimal
  cl_pre_account :: pilot_account
  cl_intent_hash :: "string option"
  cl_instrument_id :: "int option"
  cl_mandate :: "mandate_claim option"

record pilot_holding =
  ph_position_id :: string
  ph_instrument_id :: int
  ph_command_id :: string
  ph_capital :: decimal
  ph_opening_fees :: decimal
  ph_opening_taxes :: decimal
  ph_position_at_open :: pilot_position

record pilot_receipt =
  rc_observed_at :: instant
  rc_pre_account :: pilot_account
  rc_post_account :: pilot_account
  rc_executions :: "broker_execution list"
  rc_positions :: "pilot_holding list"
  rc_terminal_partial :: bool
  rc_terminal_no_fill :: bool
  rc_terminal_evidence :: "broker_reconciliation_result option"

record migration_receipt =
  mg_source_reference :: string
  mg_reviewed_commit :: string
  mg_observed_at :: instant
  mg_preserved_submissions :: nat

datatype pilot_event =
    ReconciledOpen string pilot_receipt
  | ReconciledNoFill string pilot_receipt
  | Marked instant pilot_account decimal
  | LossStop instant decimal
  | Hold string
  | FiniteMigration migration_receipt
  | JournalComplete string string instant
  | Outcome string json

record pilot_inception =
  in_account_id :: string
  in_moment :: instant
  in_account :: pilot_account
  in_legacy_breaches :: json

record pilot_ledger =
  lg_inception :: pilot_inception
  lg_submissions :: "pilot_claim list"
  lg_events :: "pilot_event list"

record pilot_state =
  ps_positions :: "pilot_holding list"
  ps_execution_ids :: "string list"
  ps_reconciliations :: "(string \<times> pilot_receipt) list"
  ps_holds :: "string list"
  ps_migration :: "migration_receipt option"
  ps_journal_receipts :: "(string \<times> string) list"
  ps_checkpoint :: pilot_account
  ps_pnl :: decimal
  ps_loss_stopped :: bool

definition reconcile_event :: "pilot_claim list \<Rightarrow> string \<Rightarrow> pilot_receipt \<Rightarrow> pilot_state \<Rightarrow> pilot_state result" where
  "reconcile_event claims c r st =
     raiseIf (c \<notin> set (map cl_command_id claims) \<or> c \<in> set (map fst (ps_reconciliations st)))
       (ledger_error ''pilot_reconciliation_integrity_failure'') (
     raiseIf (\<not> distinct (map ph_position_id (ps_positions st @ rc_positions r)))
       (ledger_error ''pilot_duplicate_position_attribution'') (
     raiseIf (\<not> distinct (ps_execution_ids st @ map be_broker_execution_id (rc_executions r)))
       (ledger_error ''pilot_duplicate_execution_attribution'') (
     Inr (st\<lparr>ps_reconciliations := ps_reconciliations st @ [(c, r)], ps_checkpoint := rc_post_account r,
            ps_positions := ps_positions st @ rc_positions r,
            ps_execution_ids := ps_execution_ids st @ map be_broker_execution_id (rc_executions r)\<rparr>))))"

fun apply_event :: "pilot_claim list \<Rightarrow> pilot_event \<Rightarrow> pilot_state \<Rightarrow> pilot_state result" where
  "apply_event claims (ReconciledOpen c r) st = reconcile_event claims c r st"
| "apply_event claims (ReconciledNoFill c r) st = reconcile_event claims c r st"
| "apply_event claims (Marked t a pnl) st = bindR (money pnl ''pilot_pnl'' False) (\<lambda>pnl. Inr (st\<lparr>ps_pnl := pnl, ps_checkpoint := a\<rparr>))"
| "apply_event claims (LossStop t pnl) st = Inr (st\<lparr>ps_loss_stopped := True\<rparr>)"
| "apply_event claims (Hold reason) st = Inr (st\<lparr>ps_holds := ps_holds st @ [reason]\<rparr>)"
| "apply_event claims (FiniteMigration g) st =
     raiseIf (ps_migration st \<noteq> None \<or> mg_source_reference g = [] \<or> \<not> commit_ok (mg_reviewed_commit g))
       (ledger_error ''pilot_finite_migration_integrity_failure'') (Inr (st\<lparr>ps_migration := Some g\<rparr>))"
| "apply_event claims (JournalComplete c ref t) st =
     raiseIf (c \<notin> set (map fst (ps_reconciliations st)) \<or> c \<in> set (map fst (ps_journal_receipts st)) \<or> ref = [])
       (ledger_error ''pilot_journal_completion_integrity_failure'') (
     Inr (st\<lparr>ps_journal_receipts := ps_journal_receipts st @ [(c, ref)]\<rparr>))"
| "apply_event claims (Outcome c j) st = Inr st"

fun apply_events :: "pilot_claim list \<Rightarrow> pilot_event list \<Rightarrow> pilot_state \<Rightarrow> pilot_state result" where
  "apply_events claims [] st = Inr st"
| "apply_events claims (e # es) st = bindR (apply_event claims e st) (apply_events claims es)"

definition first_state :: "pilot_inception \<Rightarrow> pilot_state" where
  "first_state i = \<lparr>ps_positions = [], ps_execution_ids = [], ps_reconciliations = [], ps_holds = [], ps_migration = None,
     ps_journal_receipts = [], ps_checkpoint = in_account i, ps_pnl = dec0, ps_loss_stopped = False\<rparr>"

text \<open>What the state says of the claims.\<close>

definition reconciled :: "pilot_state \<Rightarrow> pilot_claim \<Rightarrow> bool" where
  "reconciled st c \<longleftrightarrow> cl_command_id c \<in> set (map fst (ps_reconciliations st))"

definition pending_claims :: "pilot_ledger \<Rightarrow> pilot_state \<Rightarrow> pilot_claim list" where
  "pending_claims lg st = filter (\<lambda>c. \<not> reconciled st c) (lg_submissions lg)"

definition ledger_state :: "string \<Rightarrow> pilot_ledger \<Rightarrow> pilot_state result" where
  "ledger_state expected lg =
     raiseIf (in_account_id (lg_inception lg) \<noteq> expected) (ledger_error ''pilot_wrong_account_or_policy'') (
     bindR (apply_events (lg_submissions lg) (lg_events lg) (first_state (lg_inception lg))) (\<lambda>st.
     raiseIf (case ps_migration st of None \<Rightarrow> False | Some g \<Rightarrow> mg_preserved_submissions g > length (lg_submissions lg))
       (ledger_error ''pilot_original_submission_history_changed'') (
     raiseIf (ps_migration st = None \<and> list_ex (\<lambda>c. cl_mandate c \<noteq> None) (lg_submissions lg))
       (ledger_error ''pilot_finite_claim_without_migration'') (
     raiseIf (\<not> list_all (\<lambda>p. is_finite (ph_capital p) \<and> \<not> dec_lt (ph_capital p) dec0) (ps_positions st)) (ledger_error ''capital_invalid'') (
     bindR (mapR (\<lambda>c. bindR (money (cl_amount c) ''amount'' False) (\<lambda>_. money (cl_expected_costs c) ''expected_costs'' False))
       (pending_claims lg st)) (\<lambda>_.
     Inr st))))))"

definition journal_pending :: "pilot_ledger \<Rightarrow> pilot_state \<Rightarrow> bool" where
  "journal_pending lg st = list_ex (\<lambda>c. cl_mandate c \<noteq> None \<and> cl_command_id c \<notin> set (map fst (ps_journal_receipts st))) (lg_submissions lg)"

definition unresolved :: "pilot_ledger \<Rightarrow> pilot_state \<Rightarrow> bool" where
  "unresolved lg st \<longleftrightarrow> pending_claims lg st \<noteq> [] \<or> ps_holds st \<noteq> [] \<or> journal_pending lg st"

definition claim_cost :: "pilot_claim \<Rightarrow> decimal" where
  "claim_cost c = accounting_sum [cl_amount c, cl_expected_costs c]"

definition committed_capital :: "pilot_ledger \<Rightarrow> pilot_state \<Rightarrow> decimal" where
  "committed_capital lg st = accounting_sum (accounting_sum (map ph_capital (ps_positions st)) # map claim_cost (pending_claims lg st))"

definition position_count :: "pilot_ledger \<Rightarrow> pilot_state \<Rightarrow> int" where
  "position_count lg st = int (length (ps_positions st) + length (pending_claims lg st))"

section \<open>Operations\<close>

text \<open>
  One transaction on the ledger. A raised exception rolls everything back; an error kept until
  after the commit leaves what was appended; otherwise the caller gets the state read back.
\<close>

definition ledger_tx ::
  "string \<Rightarrow> (pilot_ledger \<Rightarrow> (error option \<times> pilot_ledger) result) \<Rightarrow> pilot_ledger \<Rightarrow> pilot_state result \<times> pilot_ledger" where
  "ledger_tx expected body lg = (case body lg of
       Inl e \<Rightarrow> (Inl e, lg)
     | Inr (Some e, lg') \<Rightarrow> (Inl e, lg')
     | Inr (None, lg') \<Rightarrow> (ledger_state expected lg', lg'))"

abbreviation append_event :: "pilot_event \<Rightarrow> pilot_ledger \<Rightarrow> pilot_ledger" where
  "append_event e lg \<equiv> lg\<lparr>lg_events := lg_events lg @ [e]\<rparr>"

definition find_position :: "pilot_position list \<Rightarrow> string \<Rightarrow> pilot_position option" where
  "find_position ps k = find_row (\<lambda>p. pp_position_id p = k) ps"

definition loss_limit :: "pilot_claim list \<Rightarrow> decimal" where
  "loss_limit claims = foldl (\<lambda>m c. case cl_mandate c of None \<Rightarrow> m
     | Some g \<Rightarrow> if dec_lt (fs_loss_stop (mn_scope g)) m then fs_loss_stop (mn_scope g) else m) (dec_of_int 25) claims"

fun pilot_pnl :: "pilot_position list \<Rightarrow> decimal \<Rightarrow> pilot_holding list \<Rightarrow> decimal result" where
  "pilot_pnl current pnl [] = Inr pnl"
| "pilot_pnl current pnl (h # hs) = (case find_position current (ph_position_id h) of
       None \<Rightarrow> Inl (PyKeyError (ph_position_id h))
     | Some p \<Rightarrow>
         raiseIf (\<not> same_holdings False (ph_position_at_open h) p) (ledger_error ''pilot_position_changed_closed_evidence_required'') (
         raiseIf (\<not> same_money (pp_carrying_fees p) (pp_carrying_fees (ph_position_at_open h)))
           (ledger_error ''pilot_carrying_fee_cash_movement_evidence_required'') (
         pilot_pnl current (accounting_sum [pnl, difference (pp_pnl p) [ph_opening_fees h, ph_opening_taxes h]]) hs)))"

definition mark_ledger ::
  "pilot_state \<Rightarrow> pilot_account \<Rightarrow> instant \<Rightarrow> string option \<Rightarrow> pilot_ledger \<Rightarrow> (decimal \<times> pilot_ledger) result" where
  "mark_ledger st data now rec_id lg =
     raiseIf (case rec_id of None \<Rightarrow> False | Some c \<Rightarrow> (case map_of (ps_reconciliations st) c of
         None \<Rightarrow> True | Some r \<Rightarrow> rc_post_account r \<noteq> data \<or> ps_checkpoint st \<noteq> data))
       (ledger_error ''pilot_reconciled_mark_capture_mismatch'') (
     let baseline = pa_positions (in_account (lg_inception lg)) in
     raiseIf (set (map pp_position_id (pa_positions data)) \<noteq> set (map pp_position_id baseline) \<union> set (map ph_position_id (ps_positions st)))
       (ledger_error ''pilot_missing_or_unattributed_position_closed_evidence_required'') (
     raiseIf (\<not> list_all (\<lambda>p. case find_position (pa_positions data) (pp_position_id p) of
         None \<Rightarrow> False | Some q \<Rightarrow> same_holdings True p q) baseline) (ledger_error ''pilot_legacy_holdings_changed'') (
     bindR (pilot_pnl (pa_positions data) dec0 (ps_positions st)) (\<lambda>pnl.
     let marked = append_event (Marked now data pnl) lg in
     Inr (pnl, if dec_le pnl (dec_copy_negate (loss_limit (lg_submissions lg))) \<and> \<not> ps_loss_stopped st
               then append_event (LossStop now pnl) marked else marked)))))"

text \<open>
  The marks of a reservation: a failed mark is recorded as a hold and reported after the
  commit; the state is then read again.
\<close>

definition mark_or_hold ::
  "pilot_state \<Rightarrow> pilot_account \<Rightarrow> instant \<Rightarrow> pilot_ledger \<Rightarrow> (error option \<times> decimal \<times> pilot_ledger) result" where
  "mark_or_hold st data now lg = (case mark_ledger st data now None lg of
       Inr (pnl, lg') \<Rightarrow> Inr (None, pnl, lg')
     | Inl (PilotLedgerError m) \<Rightarrow> Inr (Some (PilotLedgerError m), dec0, append_event (Hold m) lg)
     | Inl e \<Rightarrow> Inl e)"

definition refresh_marks ::
  "(pilot_account \<Rightarrow> instant \<Rightarrow> unit result) \<Rightarrow> string \<Rightarrow> pilot_account \<Rightarrow> instant \<Rightarrow> pilot_ledger \<Rightarrow> pilot_state result \<times> pilot_ledger" where
  "refresh_marks fresh expected account now = ledger_tx expected (\<lambda>lg.
     bindR (checked_account fresh expected account now) (\<lambda>data.
     bindR (ledger_state expected lg) (\<lambda>st.
     raiseIf (pending_claims lg st \<noteq> []) (ledger_error ''pilot_unresolved_submission_reconcile_before_marks'') (
     bindR (mark_or_hold st data now lg) (\<lambda>(err, _, lg'). Inr (err, lg'))))))"

definition reserve_and_claim ::
  "(pilot_account \<Rightarrow> instant \<Rightarrow> unit result) \<Rightarrow> (instant \<Rightarrow> string) \<Rightarrow> string \<Rightarrow> string \<Rightarrow> decimal \<Rightarrow> decimal \<Rightarrow> pilot_account \<Rightarrow> instant \<Rightarrow>
   string option \<Rightarrow> int option \<Rightarrow> pilot_ledger \<Rightarrow> pilot_state result \<times> pilot_ledger" where
  "reserve_and_claim fresh day_of expected command_id amount costs account now intent_hash instrument_id = ledger_tx expected (\<lambda>lg.
     bindR (checked_account fresh expected account now) (\<lambda>data.
     bindR (money amount ''amount'' True) (\<lambda>amount.
     bindR (money costs ''expected_costs'' True) (\<lambda>costs.
     raiseIf (dec_le amount dec0 \<or> dec_lt (dec_of_int 100) (accounting_sum [amount, costs]))
       (ledger_error ''pilot_order_cap_100_including_costs'') (
     raiseIf (command_id = []) (ledger_error ''pilot_command_id_required'') (
     bindR (ledger_state expected lg) (\<lambda>st.
     raiseIf (command_id \<in> set (map cl_command_id (lg_submissions lg))) (ledger_error ''pilot_duplicate_command_lookup_only'') (
     raiseIf (unresolved lg st) (ledger_error ''pilot_unresolved_reconciliation_lookup_only'') (
     raiseIf (day_of now \<in> set (map cl_london_day (lg_submissions lg))) (ledger_error ''pilot_one_opening_submission_per_london_day'') (
     bindR (mark_or_hold st data now lg) (\<lambda>(err, pnl, lg1).
     bindR (ledger_state expected lg1) (\<lambda>st1.
     let err1 = (if err = None \<and> ps_loss_stopped st1 then Some (ledger_error ''pilot_cumulative_loss_stop_latched'') else err) in
     if err1 \<noteq> None then Inr (err1, lg1) else
     raiseIf (dec_lt (dec_of_int 500) (accounting_sum [committed_capital lg1 st1, amount, costs]))
       (ledger_error ''pilot_combined_capital_cap_500'') (
     raiseIf (position_count lg1 st1 \<ge> 5) (ledger_error ''pilot_maximum_five_positions'') (
     raiseIf (\<not> cash_reserve_met (difference (pa_cash data) [amount, costs]) (pa_equity data))
       (ledger_error ''pilot_cash_reserve_below_20_percent'') (
     Inr (None, lg1\<lparr>lg_submissions := lg_submissions lg1 @
       [\<lparr>cl_command_id = command_id, cl_london_day = day_of now, cl_send_started_at = now, cl_amount = amount,
         cl_expected_costs = costs, cl_pre_account = data, cl_intent_hash = intent_hash, cl_instrument_id = instrument_id,
         cl_mandate = None\<rparr>]\<rparr>))))))))))))))))"

definition record_outcome :: "string \<Rightarrow> string \<Rightarrow> json \<Rightarrow> pilot_ledger \<Rightarrow> pilot_state result \<times> pilot_ledger" where
  "record_outcome expected command_id response = ledger_tx expected (\<lambda>lg.
     bindR (ledger_state expected lg) (\<lambda>st.
     raiseIf (command_id \<notin> set (map cl_command_id (lg_submissions lg))) (ledger_error ''pilot_submission_claim_missing'') (
     Inr (None, append_event (Outcome command_id (clean_json response)) lg))))"

definition mark_journal_complete ::
  "string \<Rightarrow> string \<Rightarrow> string \<Rightarrow> instant \<Rightarrow> pilot_ledger \<Rightarrow> pilot_state result \<times> pilot_ledger" where
  "mark_journal_complete expected command_id journal_reference now = ledger_tx expected (\<lambda>lg.
     raiseIf (blank journal_reference) (ledger_error ''pilot_durable_journal_reference_required'') (
     bindR (ledger_state expected lg) (\<lambda>st.
     bindR (of_option (ledger_error ''pilot_economic_reconciliation_required'') (map_of (ps_reconciliations st) command_id)) (\<lambda>receipt.
     raiseIf (now < rc_observed_at receipt) (ledger_error ''pilot_journal_precedes_reconciliation'') (
     case map_of (ps_journal_receipts st) command_id of
       Some previous \<Rightarrow> raiseIf (previous \<noteq> journal_reference) (ledger_error ''pilot_journal_completion_reference_changed'') (Inr (None, lg))
     | None \<Rightarrow> Inr (None, append_event (JournalComplete command_id journal_reference now) lg))))))"

text \<open>The schema migration: claims, events and inception stay as they are.\<close>

definition enable_finite_mandates ::
  "string \<Rightarrow> string \<Rightarrow> string \<Rightarrow> instant \<Rightarrow> pilot_ledger \<Rightarrow> pilot_state result \<times> pilot_ledger" where
  "enable_finite_mandates expected source_reference reviewed_commit now = ledger_tx expected (\<lambda>lg.
     raiseIf (blank source_reference) (ledger_error ''pilot_finite_migration_authority_required'') (
     raiseIf (\<not> commit_ok reviewed_commit) (ledger_error ''pilot_finite_migration_reviewed_commit_required'') (
     bindR (ledger_state expected lg) (\<lambda>st.
     case ps_migration st of
       Some previous \<Rightarrow>
         raiseIf (mg_source_reference previous \<noteq> source_reference \<or> mg_reviewed_commit previous \<noteq> reviewed_commit)
           (ledger_error ''pilot_finite_migration_exists_never_replace'') (Inr (None, lg))
     | None \<Rightarrow>
         raiseIf (unresolved lg st \<or> ps_loss_stopped st) (ledger_error ''pilot_finite_migration_requires_reconciled_ledger'') (
         raiseIf (now < in_moment (lg_inception lg)) (ledger_error ''pilot_finite_migration_precedes_inception'') (
         Inr (None, append_event (FiniteMigration \<lparr>mg_source_reference = source_reference, mg_reviewed_commit = reviewed_commit,
            mg_observed_at = now, mg_preserved_submissions = length (lg_submissions lg)\<rparr>) lg)))))))"

section \<open>Reservations under a finite mandate\<close>

definition inception_json :: "pilot_inception \<Rightarrow> json" where
  "inception_json i = JObj
     [(''policy'', JStr ''demo-pilot-v1''), (''account_id'', JStr (in_account_id i)), (''inception'', JTime (in_moment i)),
      (''account'', pilot_account_json (in_account i)), (''legacy_breaches'', in_legacy_breaches i),
      (''pilot_positions_at_inception'', JArr []), (''pilot_realised_pnl_at_inception'', jdec dec0),
      (''historical_whole_account_daily_loss'', JNull), (''historical_whole_account_drawdown'', JNull),
      (''qualification_credit'', JBool False)]"

definition claim_json :: "pilot_claim \<Rightarrow> json" where
  "claim_json c = JObj (
     [(''command_id'', JStr (cl_command_id c)), (''london_day'', JStr (cl_london_day c)),
      (''send_started_at'', JTime (cl_send_started_at c)), (''amount'', jdec (cl_amount c)),
      (''expected_costs'', jdec (cl_expected_costs c)), (''pre_account'', pilot_account_json (cl_pre_account c)),
      (''intent_hash'', jopt (cl_intent_hash c)),
      (''instrument_id'', (case cl_instrument_id c of None \<Rightarrow> JNull | Some i \<Rightarrow> JInt i)),
      (''recovery'', JStr ''lookup_only_no_resubmission'')] @
     (case cl_mandate c of None \<Rightarrow> []
      | Some g \<Rightarrow> [(''mandate_policy'', JStr ''finite-demo-v2''), (''mandate_id'', JStr (mn_mandate_id g)),
          (''mandate_hash'', JStr (mn_mandate_hash g)), (''mandate_scope'', scope_json (mn_scope g)),
          (''instrument'', instrument_scope_json (mn_instrument g)), (''order_type'', JStr (mn_order_type g)),
          (''journal_required'', JBool True)]))"

text \<open>
  \<open>validate_binding\<close> without a reviewed commit: \<open>reloaded\<close> is what loading the mandate file
  again gives, \<open>path\<close> the resolved path of the ledger.
\<close>

definition validate_binding ::
  "digest \<Rightarrow> string \<Rightarrow> string \<Rightarrow> finite_mandate result \<Rightarrow> finite_mandate \<Rightarrow> instant \<Rightarrow> pilot_ledger \<Rightarrow> unit result" where
  "validate_binding H path expected reloaded mandate now lg =
     bindR reloaded (\<lambda>loaded.
     raiseIf (loaded \<noteq> mandate) (finite_error ''mandate_changed_after_load'') (
     raiseIf (now < fm_issued_at mandate \<or> fm_expires_at mandate \<le> now) (finite_error ''mandate_outside_authorized_time'') (
     raiseIf (expected \<noteq> fm_account_id mandate \<or> in_account_id (lg_inception lg) \<noteq> fm_account_id mandate \<or>
              path \<noteq> fm_ledger_path mandate \<or>
              payload_hash H (inception_json (lg_inception lg)) \<noteq> fm_ledger_inception_hash mandate)
       (finite_error ''original_ledger_inception_required'') (
     let present = map (\<lambda>c. (cl_command_id c, payload_hash H (claim_json c))) (lg_submissions lg) in
     raiseIf (list_ex (\<lambda>(c, h). map_of (rev present) c \<noteq> Some h) (fm_baseline_claims mandate))
       (finite_error ''original_claim_history_required'') (Inr ())))))"

definition own_claims :: "finite_mandate \<Rightarrow> pilot_claim list \<Rightarrow> pilot_claim list" where
  "own_claims mandate = filter (\<lambda>c. case cl_mandate c of None \<Rightarrow> False | Some g \<Rightarrow> mn_mandate_hash g = fm_mandate_hash mandate)"

definition reserve_under_mandate ::
  "digest \<Rightarrow> (pilot_account \<Rightarrow> instant \<Rightarrow> unit result) \<Rightarrow> (instant \<Rightarrow> string) \<Rightarrow> string \<Rightarrow> string \<Rightarrow> finite_mandate result \<Rightarrow>
   finite_mandate \<Rightarrow> finite_candidate \<Rightarrow> pilot_account \<Rightarrow> instant \<Rightarrow> pilot_ledger \<Rightarrow> pilot_state result \<times> pilot_ledger" where
  "reserve_under_mandate H fresh day_of path expected reloaded mandate candidate account now = ledger_tx expected (\<lambda>lg.
     let scope = fm_scope mandate in
     bindR (checked_account fresh expected account now) (\<lambda>data.
     bindR (validate_candidate scope candidate) (\<lambda>instrument.
     bindR (money (fc_amount candidate) ''amount'' True) (\<lambda>amount.
     bindR (money (fc_expected_costs candidate) ''expected_costs'' True) (\<lambda>costs.
     bindR (ledger_state expected lg) (\<lambda>st.
     bindR (validate_binding H path expected reloaded mandate now lg) (\<lambda>_.
     raiseIf (ps_migration st = None) (ledger_error ''pilot_explicit_finite_migration_required'') (
     raiseIf (fc_command_id candidate \<in> set (map cl_command_id (lg_submissions lg))) (ledger_error ''pilot_duplicate_command_lookup_only'') (
     raiseIf (unresolved lg st) (ledger_error ''pilot_unresolved_reconciliation_or_journal_lookup_only'') (
     let own = own_claims mandate (lg_submissions lg) in
     raiseIf (int (length own) \<ge> fs_max_submissions scope) (ledger_error ''pilot_finite_submission_budget_exhausted'') (
     raiseIf (Some (fc_instrument_id candidate) \<in> set (map cl_instrument_id own))
       (ledger_error ''pilot_finite_instrument_attempt_already_consumed'') (
     raiseIf (int (length (filter (\<lambda>c. cl_london_day c = day_of now) (lg_submissions lg))) \<ge> fs_max_per_day scope)
       (ledger_error ''pilot_finite_daily_submission_budget_exhausted'') (
     raiseIf (dec_lt (fs_total_commitment scope) (accounting_sum [accounting_sum (map claim_cost own), amount, costs]))
       (ledger_error ''pilot_finite_attempt_commitment_exhausted'') (
     bindR (mark_or_hold st data now lg) (\<lambda>(err, pnl, lg1).
     bindR (ledger_state expected lg1) (\<lambda>st1.
     if err \<noteq> None then Inr (err, lg1)
     else if ps_loss_stopped st1 \<or> dec_le pnl (dec_copy_negate (fs_loss_stop scope)) then
       Inr (Some (ledger_error ''pilot_cumulative_loss_stop_latched''),
            if ps_loss_stopped st1 then lg1 else append_event (LossStop now pnl) lg1)
     else
     raiseIf (dec_lt (fs_total_commitment scope) (accounting_sum [committed_capital lg1 st1, amount, costs]))
       (ledger_error ''pilot_finite_combined_capital_cap'') (
     raiseIf (position_count lg1 st1 \<ge> fs_max_positions scope) (ledger_error ''pilot_finite_position_cap'') (
     raiseIf (cash_fraction_missed (difference (pa_cash data) [amount, costs]) (pa_equity data) (fs_min_cash_fraction scope))
       (ledger_error ''pilot_finite_cash_reserve'') (
     Inr (None, lg1\<lparr>lg_submissions := lg_submissions lg1 @
       [\<lparr>cl_command_id = fc_command_id candidate, cl_london_day = day_of now, cl_send_started_at = now, cl_amount = amount,
         cl_expected_costs = costs, cl_pre_account = data, cl_intent_hash = Some (fc_intent_hash candidate),
         cl_instrument_id = Some (fc_instrument_id candidate),
         cl_mandate = Some \<lparr>mn_mandate_id = fm_mandate_id mandate, mn_mandate_hash = fm_mandate_hash mandate, mn_scope = scope,
           mn_instrument = instrument, mn_order_type = fc_order_type candidate\<rparr>\<rparr>]\<rparr>))))))))))))))))))))"

section \<open>Reconciliation\<close>

definition detail :: "broker_reconciliation_result \<Rightarrow> string \<Rightarrow> string" where
  "detail r k = (case map_of (rr_details r) k of Some v \<Rightarrow> v | None \<Rightarrow> [])"

text \<open>\<open>_terminal_evidence\<close>; \<open>partial\<close> is \<open>None\<close> for a full fill and \<open>Some False\<close> for no fill.\<close>

definition terminal_evidence :: "broker_reconciliation_result \<Rightarrow> string \<Rightarrow> bool option \<Rightarrow> unit result" where
  "terminal_evidence r command_id partial =
     raiseIf (uuid_str (rr_command_id r) \<noteq> command_id) (ledger_error ''pilot_typed_terminal_lookup_required'') (
     raiseIf (\<not> distinct (map fst (rr_details r)) \<or> \<not> rr_reconciled r \<or> \<not> py_truthy (rr_broker_order_id r) \<or>
              detail r ''connector_broker_reference_id'' = [] \<or> detail r ''remainder_terminal'' \<noteq> ''true'' \<or>
              \<not> hex_digest (detail r ''lookup_sha256''))
       (ledger_error ''pilot_authoritative_terminal_remainder_required'') (
     case partial of
       Some True \<Rightarrow> raiseIf (rr_lifecycle_state r \<noteq> ''partially_filled_terminal'' \<or> detail r ''status_id'' \<notin> {''9'', ''10''})
         (ledger_error ''pilot_terminal_partial_lookup_required'') (Inr ())
     | None \<Rightarrow> raiseIf (rr_lifecycle_state r \<noteq> ''filled'' \<or> detail r ''status_id'' \<noteq> ''3'')
         (ledger_error ''pilot_terminal_full_fill_lookup_required'') (Inr ())
     | Some False \<Rightarrow> raiseIf (rr_lifecycle_state r \<notin> {''rejected'', ''cancelled''} \<or> detail r ''status_id'' \<notin> {''4'', ''7'', ''8''} \<or>
           rr_executions r \<noteq> [] \<or> rr_broker_position_id r \<noteq> None) (ledger_error ''pilot_terminal_no_fill_lookup_required'') (Inr ())))"

definition datetime_json :: "pydatetime \<Rightarrow> json" where
  "datetime_json t = (case t of Aware i off \<Rightarrow> JTime i | Naive n \<Rightarrow> JStr (iso_text [] n))"

definition execution_json :: "broker_execution \<Rightarrow> json" where
  "execution_json x = JObj
     [(''broker_execution_id'', JStr (be_broker_execution_id x)), (''broker_order_id'', JStr (be_broker_order_id x)),
      (''broker_instrument_id'', JInt (be_broker_instrument_id x)), (''broker_position_id'', JStr (be_broker_position_id x)),
      (''broker_reference_id'', JStr (be_broker_reference_id x)), (''environment'', JStr (environment_str (be_environment x))),
      (''side'', JStr (be_side x)), (''action'', JStr (be_action x)), (''units'', jdec (be_units x)), (''price'', jdec (be_price x)),
      (''executed_at'', datetime_json (be_executed_at x)), (''price_rate_id'', JStr (be_price_rate_id x)),
      (''fees'', jdec (be_fees x)), (''taxes'', jdec (be_taxes x)), (''currency'', JStr (be_currency x)),
      (''executed_amount'', jdec_opt (be_executed_amount x)), (''executed_at_source'', jopt (be_executed_at_source x))]"

fun unique_executions :: "broker_execution list \<Rightarrow> broker_execution list \<Rightarrow> broker_execution list result" where
  "unique_executions seen [] = Inr seen"
| "unique_executions seen (x # xs) = (case find_row (\<lambda>y. be_broker_execution_id y = be_broker_execution_id x) seen of
       Some y \<Rightarrow> raiseIf (execution_json y \<noteq> execution_json x) (ledger_error ''pilot_conflicting_duplicate_execution'') (unique_executions seen xs)
     | None \<Rightarrow> unique_executions (seen @ [x]) xs)"

definition amount_of :: "broker_execution \<Rightarrow> decimal" where
  "amount_of x = (case be_executed_amount x of Some d \<Rightarrow> d | None \<Rightarrow> dec0)"

definition execution_economics :: "broker_execution \<Rightarrow> unit result" where
  "execution_economics x =
     (let invalid = ledger_error ''pilot_execution_scope_or_economics_invalid'' in
     raiseIf (be_environment x \<noteq> DEMO \<or> be_currency x \<noteq> ''USD'' \<or> be_side x \<noteq> ''long'' \<or> be_action x \<noteq> ''buy'' \<or>
              \<not> py_truthy (be_executed_at_source x) \<or> be_broker_execution_id x = [] \<or> be_broker_order_id x = [] \<or>
              be_broker_reference_id x = [] \<or> be_broker_position_id x = [] \<or> be_price_rate_id x = []) invalid (
     bindR (money (be_units x) ''units'' False) (\<lambda>units. raiseIf (dec_le units dec0) invalid (
     bindR (money (be_price x) ''price'' False) (\<lambda>price. raiseIf (dec_le price dec0) invalid (
     bindR (of_option (ledger_error ''executed_amount_exact_money_required'') (be_executed_amount x)) (\<lambda>amount.
     bindR (money amount ''executed_amount'' False) (\<lambda>amount. raiseIf (dec_le amount dec0) invalid (
     bindR (money (be_fees x) ''fees'' False) (\<lambda>fees. raiseIf (dec_lt fees dec0) invalid (
     bindR (money (be_taxes x) ''taxes'' False) (\<lambda>taxes. raiseIf (dec_lt taxes dec0) invalid (Inr ())))))))))))))"

definition execution_scope :: "pilot_claim \<Rightarrow> pilot_account \<Rightarrow> pilot_state \<Rightarrow> broker_execution \<Rightarrow> unit result" where
  "execution_scope claim post st x =
     bindR (execution_economics x) (\<lambda>_.
     bindR (aware_utc (be_executed_at x) ''pilot_time'') (\<lambda>executed_at.
     raiseIf (executed_at < cl_send_started_at claim \<or> pa_capture_completed_at post < executed_at)
       (ledger_error ''pilot_execution_outside_submission_capture'') (
     raiseIf (be_broker_execution_id x \<in> set (ps_execution_ids st)) (ledger_error ''pilot_execution_already_attributed'') (
     raiseIf (cl_instrument_id claim \<noteq> None \<and> cl_instrument_id claim \<noteq> Some (be_broker_instrument_id x))
       (ledger_error ''pilot_execution_instrument_mismatch'') (Inr ())))))"

text \<open>The position identifiers in the order the executions introduce them.\<close>

fun position_keys :: "string list \<Rightarrow> broker_execution list \<Rightarrow> string list" where
  "position_keys seen [] = seen"
| "position_keys seen (x # xs) = position_keys (if be_broker_position_id x \<in> set seen then seen else seen @ [be_broker_position_id x]) xs"

definition new_holding :: "string \<Rightarrow> pilot_account \<Rightarrow> broker_execution list \<Rightarrow> string \<Rightarrow> pilot_holding result" where
  "new_holding command_id post xs key =
     bindR (of_option (PyKeyError key) (find_position (pa_positions post) key)) (\<lambda>p.
     let fills = filter (\<lambda>x. be_broker_position_id x = key) xs;
         invested = accounting_sum (map amount_of fills);
         fees = accounting_sum (map be_fees fills);
         taxes = accounting_sum (map be_taxes fills) in
     raiseIf (\<not> pp_is_buy p \<or> \<not> same_money (pp_leverage p) dec1 \<or> pp_settlement_type p \<noteq> 1 \<or>
              list_ex (\<lambda>x. pp_instrument_id p \<noteq> be_broker_instrument_id x) fills \<or>
              \<not> same_money (pp_units p) (accounting_sum (map be_units fills)) \<or> \<not> same_money (pp_principal p) invested \<or>
              \<not> same_money (pp_fees p) fees \<or> \<not> same_money (pp_taxes p) taxes)
       (ledger_error ''pilot_new_position_or_actual_costs_mismatch'') (
     raiseIf (\<not> same_money (pp_carrying_fees p) dec0) (ledger_error ''pilot_initial_carrying_fee_cash_movement_evidence_required'') (
     Inr \<lparr>ph_position_id = key, ph_instrument_id = pp_instrument_id p, ph_command_id = command_id,
          ph_capital = accounting_sum [invested, fees, taxes], ph_opening_fees = fees, ph_opening_taxes = taxes,
          ph_position_at_open = p\<rparr>)))"

abbreviation breach_if :: "bool \<Rightarrow> string \<Rightarrow> string list" where
  "breach_if c m \<equiv> (if c then [m] else [])"

definition actual_breaches :: "pilot_claim \<Rightarrow> decimal \<Rightarrow> pilot_account \<Rightarrow> pilot_ledger \<Rightarrow> pilot_state \<Rightarrow> string list" where
  "actual_breaches claim spent post lg st =
     breach_if (dec_lt (dec_of_int 100) spent) ''pilot_actual_order_cap_exceeded'' @
     breach_if (dec_lt (dec_of_int 500) (committed_capital lg st)) ''pilot_actual_combined_capital_cap_exceeded'' @
     breach_if (position_count lg st > 5) ''pilot_actual_position_count_exceeded'' @
     breach_if (\<not> cash_reserve_met (pa_cash post) (pa_equity post)) ''pilot_actual_cash_reserve_breached'' @
     (case cl_mandate claim of None \<Rightarrow> []
      | Some g \<Rightarrow>
          breach_if (dec_lt (fs_per_order_cap (mn_scope g)) spent) ''pilot_finite_actual_order_cap_exceeded'' @
          breach_if (dec_lt (fs_total_commitment (mn_scope g)) (committed_capital lg st)) ''pilot_finite_actual_capital_cap_exceeded'' @
          breach_if (position_count lg st > fs_max_positions (mn_scope g)) ''pilot_finite_actual_position_cap_exceeded'' @
          breach_if (cash_fraction_missed (pa_cash post) (pa_equity post) (fs_min_cash_fraction (mn_scope g)))
            ''pilot_finite_actual_cash_reserve_breached'')"

text \<open>The claim both reconciliations start from.\<close>

definition claim_of :: "digest \<Rightarrow> string \<Rightarrow> pilot_account \<Rightarrow> pilot_account \<Rightarrow> pilot_ledger \<Rightarrow> pilot_claim result" where
  "claim_of H command_id pre post lg = (case filter (\<lambda>c. cl_command_id c = command_id) (lg_submissions lg) of
       [claim] \<Rightarrow>
         raiseIf (payload_hash H (pilot_account_json pre) \<noteq> payload_hash H (pilot_account_json (cl_pre_account claim)))
           (ledger_error ''pilot_reconciliation_pre_capture_mismatch'') (
         raiseIf (pa_capture_started_at post < cl_send_started_at claim) (ledger_error ''pilot_post_capture_precedes_submission'') (
         Inr claim))
     | _ \<Rightarrow> Inl (ledger_error ''pilot_submission_claim_missing''))"

definition reconcile_open ::
  "digest \<Rightarrow> (pilot_account \<Rightarrow> instant \<Rightarrow> unit result) \<Rightarrow> string \<Rightarrow> string \<Rightarrow> broker_execution list \<Rightarrow> pilot_account \<Rightarrow> pilot_account \<Rightarrow>
   instant \<Rightarrow> bool \<Rightarrow> broker_reconciliation_result option \<Rightarrow> pilot_ledger \<Rightarrow> pilot_state result \<times> pilot_ledger" where
  "reconcile_open H fresh expected command_id executions pre_account post_account now terminal_partial evidence = ledger_tx expected (\<lambda>lg.
     bindR (fresh pre_account (pa_capture_completed_at pre_account)) (\<lambda>_.
     let pre = clean_account pre_account in
     bindR (checked_account fresh expected post_account now) (\<lambda>post.
     bindR (case (terminal_partial, evidence) of
         (True, None) \<Rightarrow> Inl (ledger_error ''pilot_typed_terminal_lookup_required'')
       | (True, Some r) \<Rightarrow> terminal_evidence r command_id (Some True)
       | (False, Some r) \<Rightarrow> terminal_evidence r command_id None
       | (False, None) \<Rightarrow> Inr ()) (\<lambda>_.
     bindR (ledger_state expected lg) (\<lambda>st.
     bindR (claim_of H command_id pre post lg) (\<lambda>claim.
     bindR (unique_executions [] executions) (\<lambda>xs.
     raiseIf (xs = []) (ledger_error ''pilot_confirmed_opening_executions_required'') (
     case map_of (ps_reconciliations st) command_id of
       Some previous \<Rightarrow>
         raiseIf (payload_hash H (JArr (map execution_json (rc_executions previous))) \<noteq> payload_hash H (JArr (map execution_json xs)) \<or>
                  rc_terminal_partial previous \<noteq> terminal_partial \<or> rc_terminal_evidence previous \<noteq> evidence)
           (ledger_error ''pilot_reconciled_execution_changed'') (Inr (None, lg))
     | None \<Rightarrow>
         bindR (mapR (execution_scope claim post st) xs) (\<lambda>_.
         let keys = position_keys [] xs; before = map pp_position_id (pa_positions pre); after = map pp_position_id (pa_positions post) in
         raiseIf (card (set (map be_broker_order_id xs)) \<noteq> 1 \<or> card (set (map be_broker_reference_id xs)) \<noteq> 1)
           (ledger_error ''pilot_one_broker_order_required'') (
         raiseIf (case evidence of None \<Rightarrow> False | Some r \<Rightarrow> cl_mandate claim = None \<or>
                    rr_broker_order_id r \<notin> Some ` set (map be_broker_order_id xs) \<or>
                    detail r ''connector_broker_reference_id'' \<notin> set (map be_broker_reference_id xs) \<or>
                    payload_hash H (JArr (map execution_json (rr_executions r))) \<noteq> payload_hash H (JArr (map execution_json xs)))
           (ledger_error ''pilot_terminal_partial_claim_binding_mismatch'') (
         raiseIf (set after \<noteq> set before \<union> set keys \<or> set before \<inter> set keys \<noteq> {}) (ledger_error ''pilot_whole_account_position_set_mismatch'') (
         raiseIf (\<not> list_all (\<lambda>p. case find_position (pa_positions post) (pp_position_id p) of
                    None \<Rightarrow> False | Some q \<Rightarrow> same_holdings True p q) (pa_positions pre))
           (ledger_error ''pilot_whole_account_existing_holding_changed'') (
         let principal = accounting_sum (map amount_of xs);
             costs = accounting_sum (map (\<lambda>x. accounting_sum [be_fees x, be_taxes x]) xs) in
         raiseIf (terminal_partial \<and> \<not> (dec_lt dec0 principal \<and> dec_lt principal (cl_amount claim)))
           (ledger_error ''pilot_terminal_partial_principal_outside_claim'') (
         raiseIf (\<not> terminal_partial \<and> \<not> same_money principal (cl_amount claim))
           (ledger_error ''pilot_terminal_full_requested_principal_required'') (
         raiseIf (\<not> same_money (difference (pa_cash pre) [principal, costs, pa_cash post]) dec0)
           (ledger_error ''pilot_actual_cash_reconciliation_failed'') (
         bindR (mapR (new_holding command_id post xs) keys) (\<lambda>records.
         let receipt = \<lparr>rc_observed_at = now, rc_pre_account = pre, rc_post_account = post, rc_executions = xs, rc_positions = records,
               rc_terminal_partial = terminal_partial, rc_terminal_no_fill = False, rc_terminal_evidence = evidence\<rparr>;
             lg1 = append_event (ReconciledOpen command_id receipt) lg in
         bindR (ledger_state expected lg1) (\<lambda>st1.
         let breaches = actual_breaches claim (accounting_sum [principal, costs]) post lg1 st1;
             lg2 = lg1\<lparr>lg_events := lg_events lg1 @ map Hold breaches\<rparr> in
         bindR (mark_ledger st1 post now (Some command_id) lg2) (\<lambda>(_, lg3).
         Inr (if breaches = [] then None else Some (ledger_error (join '';'' breaches)), lg3))))))))))))))))))))"

definition reconcile_no_fill ::
  "digest \<Rightarrow> (pilot_account \<Rightarrow> instant \<Rightarrow> unit result) \<Rightarrow> string \<Rightarrow> string \<Rightarrow> pilot_account \<Rightarrow> pilot_account \<Rightarrow> instant \<Rightarrow>
   broker_reconciliation_result \<Rightarrow> pilot_ledger \<Rightarrow> pilot_state result \<times> pilot_ledger" where
  "reconcile_no_fill H fresh expected command_id pre_account post_account now evidence = ledger_tx expected (\<lambda>lg.
     bindR (terminal_evidence evidence command_id (Some False)) (\<lambda>_.
     bindR (fresh pre_account (pa_capture_completed_at pre_account)) (\<lambda>_.
     let pre = clean_account pre_account in
     bindR (checked_account fresh expected post_account now) (\<lambda>post.
     bindR (ledger_state expected lg) (\<lambda>st.
     raiseIf (case filter (\<lambda>c. cl_command_id c = command_id) (lg_submissions lg) of [c] \<Rightarrow> cl_mandate c = None | _ \<Rightarrow> True)
       (ledger_error ''pilot_finite_submission_claim_required'') (
     bindR (claim_of H command_id pre post lg) (\<lambda>claim.
     case map_of (ps_reconciliations st) command_id of
       Some previous \<Rightarrow>
         raiseIf (\<not> rc_terminal_no_fill previous \<or> rc_terminal_evidence previous \<noteq> Some evidence)
           (ledger_error ''pilot_reconciled_terminal_outcome_changed'') (Inr (None, lg))
     | None \<Rightarrow>
         raiseIf (set (map pp_position_id (pa_positions pre)) \<noteq> set (map pp_position_id (pa_positions post)) \<or>
                  \<not> list_all (\<lambda>p. case find_position (pa_positions post) (pp_position_id p) of
                    None \<Rightarrow> False | Some q \<Rightarrow> same_holdings True p q) (pa_positions pre))
           (ledger_error ''pilot_no_fill_existing_holdings_changed'') (
         raiseIf (\<not> same_money (pa_cash pre) (pa_cash post)) (ledger_error ''pilot_no_fill_cash_changed'') (
         let lg1 = append_event (ReconciledNoFill command_id \<lparr>rc_observed_at = now, rc_pre_account = pre, rc_post_account = post,
               rc_executions = [], rc_positions = [], rc_terminal_partial = False, rc_terminal_no_fill = True,
               rc_terminal_evidence = Some evidence\<rparr>) lg in
         bindR (ledger_state expected lg1) (\<lambda>st1.
         bindR (mark_ledger st1 post now (Some command_id) lg1) (\<lambda>(_, lg2). Inr (None, lg2))))))))))))"

text \<open>\<open>create\<close> on a path that holds no file yet.\<close>

definition create_ledger ::
  "(pilot_account \<Rightarrow> instant \<Rightarrow> unit result) \<Rightarrow> pilot_account \<Rightarrow> json \<Rightarrow> instant \<Rightarrow> pilot_ledger result" where
  "create_ledger fresh account legacy_breaches now =
     bindR (checked_account fresh (pa_account_id account) account now) (\<lambda>data.
     Inr \<lparr>lg_inception = \<lparr>in_account_id = pa_account_id account, in_moment = now, in_account = data,
            in_legacy_breaches = clean_json legacy_breaches\<rparr>, lg_submissions = [], lg_events = []\<rparr>)"

end
