(* ===== verification/Pilot_Budget.thy ===== *)
theory Pilot_Budget
  imports Pilot_Ledger "HOL-Library.Sublist"
begin

text \<open>
  What the pilot ledger guarantees: claims are only ever appended, each within the caps in force
  when it was taken, and a latched loss stop or a hold ends all claiming.
\<close>

section \<open>Exact comparisons\<close>

lemma integer_ratio_val:
  assumes "is_finite d" and "integer_ratio d = (n, m)"
  shows "0 < m" and "dec_val d = of_int n / of_int m"
proof -
  obtain s c e where d: "d = Dec s c e" using assms(1) by (cases d) auto
  have n: "n = (if s then -1 else 1) * int c * 10 ^ nat e" "m = 10 ^ nat (- e)" using assms(2) by (simp_all add: d)
  show "0 < m" by (simp add: n)
  have "(10 :: rat) powi e = of_int (10 ^ nat e) / of_int (10 ^ nat (- e))"
  proof (cases "0 \<le> e")
    case True then show ?thesis by (simp add: power_int_def)
  next
    case False then show ?thesis by (simp add: power_int_def power_one_over inverse_eq_divide)
  qed
  then show "dec_val d = of_int n / of_int m" by (simp add: d n)
qed

lemma cash_reserve_met_iff:
  assumes "is_finite cash" and "is_finite equity"
  shows "cash_reserve_met cash equity \<longleftrightarrow> dec_val equity / 5 \<le> dec_val cash"
proof -
  obtain cn cd en ed where r: "integer_ratio cash = (cn, cd)" "integer_ratio equity = (en, ed)" by fastforce
  note c = integer_ratio_val [OF assms(1) r(1)] and e = integer_ratio_val [OF assms(2) r(2)]
  have "dec_val equity / 5 \<le> dec_val cash \<longleftrightarrow> rat_of_int en * of_int cd \<le> of_int cn * 5 * of_int ed"
    unfolding c(2) e(2) using c(1) e(1) by (simp add: divide_simps) (simp add: ac_simps)
  also have "\<dots> \<longleftrightarrow> en * cd \<le> cn * 5 * ed" by (metis of_int_le_iff of_int_mult of_int_numeral)
  finally show ?thesis by (simp add: cash_reserve_met_def r)
qed

lemma cash_fraction_missed_iff:
  assumes "is_finite cash" and "is_finite equity" and "is_finite fraction"
  shows "cash_fraction_missed cash equity fraction \<longleftrightarrow> dec_val cash < dec_val equity * dec_val fraction"
proof -
  obtain cn cd en ed fn fd where r: "integer_ratio cash = (cn, cd)" "integer_ratio equity = (en, ed)" "integer_ratio fraction = (fn, fd)"
    by (metis surj_pair)
  note c = integer_ratio_val [OF assms(1) r(1)] and e = integer_ratio_val [OF assms(2) r(2)] and f = integer_ratio_val [OF assms(3) r(3)]
  have "dec_val cash < dec_val equity * dec_val fraction \<longleftrightarrow> rat_of_int cn * of_int ed * of_int fd < of_int en * of_int cd * of_int fn"
    unfolding c(2) e(2) f(2) using c(1) e(1) f(1) by (simp add: divide_simps) (simp add: ac_simps)
  also have "\<dots> \<longleftrightarrow> cn * ed * fd < en * cd * fn" by (metis of_int_less_iff of_int_mult)
  finally show ?thesis by (simp add: cash_fraction_missed_def r)
qed

lemma difference_val:
  assumes "is_finite a" and "\<forall>x\<in>set bs. is_finite x"
  shows "is_finite (difference a bs)" and "dec_val (difference a bs) = dec_val a - sum_list (map dec_val bs)"
proof -
  have neg: "is_finite (dec_copy_negate x) = is_finite x" for x by (cases x) simp_all
  have fin: "\<forall>x\<in>set (a # map dec_copy_negate bs). is_finite x" using assms by (auto simp: neg)
  show "is_finite (difference a bs)" unfolding difference_def by (rule accounting_sum_val(1) [OF fin])
  have "sum_list (map (\<lambda>x. - dec_val x) bs) = - sum_list (map dec_val bs)" by (induction bs) simp_all
  then show "dec_val (difference a bs) = dec_val a - sum_list (map dec_val bs)"
    unfolding difference_def accounting_sum_val(2) [OF fin] by (simp add: comp_def)
qed

section \<open>Reading the events\<close>

lemma apply_events_append: "apply_events cs (es @ fs) st = bindR (apply_events cs es st) (apply_events cs fs)"
  by (induction es arbitrary: st) (auto simp: bindR_def split: sum.splits)

definition command_ids :: "pilot_claim list \<Rightarrow> string set" where
  "command_ids cs = set (map cl_command_id cs)"

lemma apply_event_more:
  "apply_event cs e st = Inr st' \<Longrightarrow> command_ids cs \<subseteq> command_ids cs' \<Longrightarrow> apply_event cs' e st = Inr st'"
  by (cases e) (auto simp: reconcile_event_def command_ids_def)

lemma apply_events_more:
  "apply_events cs es st = Inr st' \<Longrightarrow> command_ids cs \<subseteq> command_ids cs' \<Longrightarrow> apply_events cs' es st = Inr st'"
  by (induction es arbitrary: st) (auto dest: apply_event_more)

text \<open>What every event keeps: latched stops, holds, and reconciliations of stored claims only.\<close>

definition grows :: "pilot_claim list \<Rightarrow> pilot_state \<Rightarrow> pilot_state \<Rightarrow> bool" where
  "grows cs st st' \<longleftrightarrow> (ps_loss_stopped st \<longrightarrow> ps_loss_stopped st') \<and> set (ps_holds st) \<subseteq> set (ps_holds st') \<and>
     set (map fst (ps_reconciliations st)) \<subseteq> set (map fst (ps_reconciliations st')) \<and>
     set (map fst (ps_reconciliations st')) \<subseteq> set (map fst (ps_reconciliations st)) \<union> command_ids cs"

lemma reconcile_event_grows:
  assumes "reconcile_event cs c r st = Inr st'"
  shows "grows cs st st'"
proof -
  have "c \<in> command_ids cs" and "st' = st\<lparr>ps_reconciliations := ps_reconciliations st @ [(c, r)], ps_checkpoint := rc_post_account r,
      ps_positions := ps_positions st @ rc_positions r,
      ps_execution_ids := ps_execution_ids st @ map be_broker_execution_id (rc_executions r)\<rparr>"
    using assms unfolding reconcile_event_def raiseIf_eq_Inr command_ids_def by simp_all
  then show ?thesis by (auto simp: grows_def)
qed

lemma apply_event_grows: "apply_event cs e st = Inr st' \<Longrightarrow> grows cs st st'"
  using reconcile_event_grows by (cases e) (auto simp: grows_def)

lemma apply_events_grows: "apply_events cs es st = Inr st' \<Longrightarrow> grows cs st st'"
proof (induction es arbitrary: st)
  case (Cons e es)
  then obtain st1 where "apply_event cs e st = Inr st1" "apply_events cs es st1 = Inr st'" by auto
  with Cons.IH apply_event_grows [of cs e st st1] show ?case unfolding grows_def by blast
qed (simp add: grows_def)

lemma ledger_stateD:
  assumes "ledger_state expected lg = Inr st"
  shows "apply_events (lg_submissions lg) (lg_events lg) (first_state (lg_inception lg)) = Inr st"
    and "set (map fst (ps_reconciliations st)) \<subseteq> command_ids (lg_submissions lg)"
    and "\<forall>p\<in>set (ps_positions st). is_finite (ph_capital p)"
    and "\<forall>c\<in>set (pending_claims lg st). is_finite (cl_amount c) \<and> is_finite (cl_expected_costs c)"
proof -
  show run: "apply_events (lg_submissions lg) (lg_events lg) (first_state (lg_inception lg)) = Inr st"
    using assms by (auto simp: ledger_state_def)
  show "set (map fst (ps_reconciliations st)) \<subseteq> command_ids (lg_submissions lg)"
    using apply_events_grows [OF run] by (auto simp: grows_def first_state_def)
  show "\<forall>p\<in>set (ps_positions st). is_finite (ph_capital p)"
    "\<forall>c\<in>set (pending_claims lg st). is_finite (cl_amount c) \<and> is_finite (cl_expected_costs c)"
    using assms by (auto simp: ledger_state_def list_all_iff money_def dest!: mapR_mem)
qed

text \<open>More events on the same claims: a stop stays latched and a hold stays.\<close>

lemma later_state:
  assumes "ledger_state expected lg = Inr st" and "lg' = lg\<lparr>lg_events := lg_events lg @ es\<rparr>" and "ledger_state expected lg' = Inr st'"
  shows "grows (lg_submissions lg) st st'"
proof -
  have "apply_events (lg_submissions lg) (lg_events lg @ es) (first_state (lg_inception lg)) = Inr st'"
    using ledger_stateD(1) [OF assms(3)] by (simp add: assms(2))
  then have "apply_events (lg_submissions lg) es st = Inr st'"
    using ledger_stateD(1) [OF assms(1)] by (simp add: apply_events_append)
  then show ?thesis by (rule apply_events_grows)
qed

section \<open>Marks only append\<close>

lemma mark_ledger_appends: "mark_ledger st data now r lg = Inr (pnl, lg') \<Longrightarrow> \<exists>es. lg' = lg\<lparr>lg_events := lg_events lg @ es\<rparr>"
  by (auto simp: mark_ledger_def Let_def split: if_splits)

lemma mark_or_hold_appends: "mark_or_hold st data now lg = Inr (err, pnl, lg') \<Longrightarrow> \<exists>es. lg' = lg\<lparr>lg_events := lg_events lg @ es\<rparr>"
  by (auto simp: mark_or_hold_def split: sum.splits error.splits dest: mark_ledger_appends)

lemma ledger_tx_cases:
  assumes "ledger_tx expected body lg = (r, lg')"
  obtains (raised) e where "r = Inl e" "lg' = lg"
    | (kept) e where "body lg = Inr (Some e, lg')" "r = Inl e"
    | (done_ok) "body lg = Inr (None, lg')" "r = ledger_state expected lg'"
proof (cases "body lg")
  case (Inl e)
  then have "r = Inl e" "lg' = lg" using assms by (simp_all add: ledger_tx_def)
  then show ?thesis by (rule raised)
next
  case (Inr x)
  obtain o' l where x: "x = (o', l)" by (cases x)
  show ?thesis
  proof (cases o')
    case None
    then have "body lg = Inr (None, lg')" "r = ledger_state expected lg'" using assms Inr x by (auto simp: ledger_tx_def)
    then show ?thesis by (rule done_ok)
  next
    case (Some e)
    then have "body lg = Inr (Some e, lg')" "r = Inl e" using assms Inr x by (auto simp: ledger_tx_def)
    then show ?thesis by (rule kept)
  qed
qed

section \<open>What a reservation requires\<close>

lemma money_Inr [simp]: "money d name b = Inr x \<longleftrightarrow> x = d \<and> is_finite d \<and> (b \<longrightarrow> 0 \<le> dec_val d)"
  by (auto simp: money_def not_less)

lemma checked_account_ok:
  assumes "checked_account fresh expected account now = Inr data"
  shows "is_finite (pa_cash data)" and "is_finite (pa_equity data)" and "0 < dec_val (pa_equity data)"
  using assms by (auto simp: checked_account_def Let_def)

lemma reserve_and_claim_steps:
  assumes "reserve_and_claim fresh day_of expected k amount costs account now ih iid lg = (r, lg')"
    and "lg_submissions lg' \<noteq> lg_submissions lg"
  obtains data st lg1 st1 pnl where
    "checked_account fresh expected account now = Inr data" "is_finite amount" "is_finite costs" "0 \<le> dec_val costs"
    "0 < dec_val amount" "dec_val amount + dec_val costs \<le> 100" "k \<notin> command_ids (lg_submissions lg)"
    "ledger_state expected lg = Inr st" "\<not> unresolved lg st" "day_of now \<notin> set (map cl_london_day (lg_submissions lg))"
    "mark_or_hold st data now lg = Inr (None, pnl, lg1)" "ledger_state expected lg1 = Inr st1" "\<not> ps_loss_stopped st1"
    "\<not> dec_lt (dec_of_int 500) (accounting_sum [committed_capital lg1 st1, amount, costs])" "position_count lg1 st1 < 5"
    "cash_reserve_met (difference (pa_cash data) [amount, costs]) (pa_equity data)"
    "lg' = lg1\<lparr>lg_submissions := lg_submissions lg1 @
       [\<lparr>cl_command_id = k, cl_london_day = day_of now, cl_send_started_at = now, cl_amount = amount, cl_expected_costs = costs,
         cl_pre_account = data, cl_intent_hash = ih, cl_instrument_id = iid, cl_mandate = None\<rparr>]\<rparr>"
    "r = ledger_state expected lg'"
proof -
  have same: "lg_submissions lg1 = lg_submissions lg" if "mark_or_hold st data now lg = Inr (err, pnl, lg1)" for st data err pnl lg1
    using mark_or_hold_appends [OF that] by auto
  show thesis
    using assms(1) unfolding reserve_and_claim_def
  proof (cases rule: ledger_tx_cases)
    case raised then show thesis using assms(2) by simp
  next
    case (kept e)
    then show thesis using assms(2) same by (auto simp: Let_def split: if_splits)
  next
    case done_ok
    then show thesis
      using that same by (auto simp: Let_def not_le not_less command_ids_def accounting_sum_val split: if_splits)
  qed
qed

definition under :: "string \<Rightarrow> pilot_claim list \<Rightarrow> pilot_claim list" where
  "under h = filter (\<lambda>c. case cl_mandate c of None \<Rightarrow> False | Some g \<Rightarrow> mn_mandate_hash g = h)"

lemma own_claims_under: "own_claims m = under (fm_mandate_hash m)"
  by (simp add: own_claims_def under_def)

lemma validate_candidate_ok:
  assumes "validate_candidate scope c = Inr i" and "scope_ok scope"
  shows "is_finite (fc_amount c)" and "is_finite (fc_expected_costs c)" and "0 < dec_val (fc_amount c)" and "0 \<le> dec_val (fc_expected_costs c)"
    and "dec_val (fc_amount c) + dec_val (fc_expected_costs c) \<le> dec_val (fs_per_order_cap scope)"
proof -
  have fin: "is_finite (fs_per_order_cap scope)" using assms(2) by (simp add: scope_ok_def)
  have steps: "is_finite (fc_amount c)" "is_finite (fc_expected_costs c)"
    "\<not> (dec_le (fc_amount c) dec0 \<or> dec_lt (fc_expected_costs c) dec0 \<or>
       dec_lt (fs_per_order_cap scope) (accounting_sum [fc_amount c, fc_expected_costs c]))"
    using assms(1) unfolding validate_candidate_def finite_number_def raiseIf_eq_Inr bindR_eq_Inr sum.inject by blast+
  then show "is_finite (fc_amount c)" "is_finite (fc_expected_costs c)" "0 < dec_val (fc_amount c)" "0 \<le> dec_val (fc_expected_costs c)"
    "dec_val (fc_amount c) + dec_val (fc_expected_costs c) \<le> dec_val (fs_per_order_cap scope)"
    using fin by (simp_all add: accounting_sum_val not_le not_less)
qed

lemma reserve_under_mandate_steps:
  assumes "reserve_under_mandate H fresh day_of path expected reloaded mandate c account now lg = (r, lg')"
    and "lg_submissions lg' \<noteq> lg_submissions lg"
  obtains data st lg1 st1 pnl instrument where
    "checked_account fresh expected account now = Inr data" "validate_candidate (fm_scope mandate) c = Inr instrument"
    "ledger_state expected lg = Inr st" "validate_binding H path expected reloaded mandate now lg = Inr ()"
    "fc_command_id c \<notin> command_ids (lg_submissions lg)" "\<not> unresolved lg st"
    "int (length (own_claims mandate (lg_submissions lg))) < fs_max_submissions (fm_scope mandate)"
    "Some (fc_instrument_id c) \<notin> set (map cl_instrument_id (own_claims mandate (lg_submissions lg)))"
    "int (length (filter (\<lambda>c. cl_london_day c = day_of now) (lg_submissions lg))) < fs_max_per_day (fm_scope mandate)"
    "\<not> dec_lt (fs_total_commitment (fm_scope mandate))
       (accounting_sum [accounting_sum (map claim_cost (own_claims mandate (lg_submissions lg))), fc_amount c, fc_expected_costs c])"
    "mark_or_hold st data now lg = Inr (None, pnl, lg1)" "ledger_state expected lg1 = Inr st1" "\<not> ps_loss_stopped st1"
    "\<not> dec_lt (fs_total_commitment (fm_scope mandate)) (accounting_sum [committed_capital lg1 st1, fc_amount c, fc_expected_costs c])"
    "position_count lg1 st1 < fs_max_positions (fm_scope mandate)"
    "\<not> cash_fraction_missed (difference (pa_cash data) [fc_amount c, fc_expected_costs c]) (pa_equity data) (fs_min_cash_fraction (fm_scope mandate))"
    "lg' = lg1\<lparr>lg_submissions := lg_submissions lg1 @
       [\<lparr>cl_command_id = fc_command_id c, cl_london_day = day_of now, cl_send_started_at = now, cl_amount = fc_amount c,
         cl_expected_costs = fc_expected_costs c, cl_pre_account = data, cl_intent_hash = Some (fc_intent_hash c),
         cl_instrument_id = Some (fc_instrument_id c),
         cl_mandate = Some \<lparr>mn_mandate_id = fm_mandate_id mandate, mn_mandate_hash = fm_mandate_hash mandate, mn_scope = fm_scope mandate,
           mn_instrument = instrument, mn_order_type = fc_order_type c\<rparr>\<rparr>]\<rparr>"
    "r = ledger_state expected lg'"
proof -
  have same: "lg_submissions lg1 = lg_submissions lg" if "mark_or_hold st data now lg = Inr (err, pnl, lg1)" for st data err pnl lg1
    using mark_or_hold_appends [OF that] by auto
  show thesis
    using assms(1) unfolding reserve_under_mandate_def
  proof (cases rule: ledger_tx_cases)
    case raised then show thesis using assms(2) by simp
  next
    case (kept e)
    then show thesis using assms(2) same by (auto simp: Let_def split: if_splits)
  next
    case done_ok
    then show thesis using that same by (auto simp: Let_def not_le not_less command_ids_def split: if_splits)
  qed
qed

section \<open>The invariant of the claims\<close>

definition cost_val :: "pilot_claim \<Rightarrow> rat" where
  "cost_val c = dec_val (cl_amount c) + dec_val (cl_expected_costs c)"

text \<open>\<open>claim_ok prior c\<close>: the claim was within every cap when it was taken after the claims \<open>prior\<close>.\<close>

definition claim_ok :: "pilot_claim list \<Rightarrow> pilot_claim \<Rightarrow> bool" where
  "claim_ok prior c \<longleftrightarrow> cl_command_id c \<notin> command_ids prior \<and> is_finite (cl_amount c) \<and> is_finite (cl_expected_costs c) \<and>
     0 < dec_val (cl_amount c) \<and> 0 \<le> dec_val (cl_expected_costs c) \<and> cost_val c \<le> 100 \<and>
     dec_val (pa_equity (cl_pre_account c)) / 5 \<le> dec_val (pa_cash (cl_pre_account c)) - cost_val c \<and>
     (case cl_mandate c of
        None \<Rightarrow> cl_london_day c \<notin> set (map cl_london_day prior)
      | Some g \<Rightarrow> let s = mn_scope g; own = under (mn_mandate_hash g) prior in
          scope_ok s \<and> cost_val c \<le> dec_val (fs_per_order_cap s) \<and> int (length own) < fs_max_submissions s \<and>
          cl_instrument_id c \<notin> set (map cl_instrument_id own) \<and>
          int (length (filter (\<lambda>p. cl_london_day p = cl_london_day c) prior)) < fs_max_per_day s \<and>
          sum_list (map cost_val own) + cost_val c \<le> dec_val (fs_total_commitment s))"

definition claims_ok :: "pilot_claim list \<Rightarrow> bool" where
  "claims_ok cs \<longleftrightarrow> (\<forall>xs c ys. cs = xs @ c # ys \<longrightarrow> claim_ok xs c)"

lemma claims_ok_Nil [simp]: "claims_ok []"
  by (simp add: claims_ok_def)

lemma claims_ok_snoc [simp]: "claims_ok (cs @ [c]) \<longleftrightarrow> claims_ok cs \<and> claim_ok cs c"
proof
  assume ok: "claims_ok (cs @ [c])"
  have "claims_ok cs"
    unfolding claims_ok_def
  proof (intro allI impI)
    fix xs d ys assume "cs = xs @ d # ys"
    then have "cs @ [c] = xs @ d # (ys @ [c])" by simp
    then show "claim_ok xs d" using ok unfolding claims_ok_def by blast
  qed
  then show "claims_ok cs \<and> claim_ok cs c" using ok unfolding claims_ok_def by blast
next
  assume ok: "claims_ok cs \<and> claim_ok cs c"
  show "claims_ok (cs @ [c])"
    unfolding claims_ok_def
  proof (intro allI impI)
    fix xs d ys assume eq: "cs @ [c] = xs @ d # ys"
    show "claim_ok xs d"
    proof (cases ys rule: rev_cases)
      case Nil then show ?thesis using eq ok by simp
    next
      case (snoc zs z)
      then have "cs = xs @ d # zs" using eq by simp
      then show ?thesis using ok unfolding claims_ok_def by blast
    qed
  qed
qed

lemma claims_ok_finite: "claims_ok cs \<Longrightarrow> c \<in> set cs \<Longrightarrow> is_finite (cl_amount c) \<and> is_finite (cl_expected_costs c)"
proof -
  assume ok: "claims_ok cs" and "c \<in> set cs"
  then obtain xs ys where "cs = xs @ c # ys" by (meson split_list)
  then show ?thesis using ok unfolding claims_ok_def claim_ok_def by blast
qed

lemma claim_cost_val:
  assumes "is_finite (cl_amount c)" and "is_finite (cl_expected_costs c)"
  shows "is_finite (claim_cost c)" and "dec_val (claim_cost c) = cost_val c"
  using assms by (simp_all add: claim_cost_def cost_val_def accounting_sum_val)

lemma claims_cost_sum:
  assumes "\<forall>c\<in>set cs. is_finite (cl_amount c) \<and> is_finite (cl_expected_costs c)"
  shows "is_finite (accounting_sum (map claim_cost cs))" and "dec_val (accounting_sum (map claim_cost cs)) = sum_list (map cost_val cs)"
proof -
  have fin: "\<forall>x\<in>set (map claim_cost cs). is_finite x" using assms claim_cost_val(1) by auto
  show "is_finite (accounting_sum (map claim_cost cs))" by (rule accounting_sum_val(1) [OF fin])
  have "map (dec_val \<circ> claim_cost) cs = map cost_val cs" using assms claim_cost_val(2) by (intro map_cong) auto
  then show "dec_val (accounting_sum (map claim_cost cs)) = sum_list (map cost_val cs)"
    unfolding accounting_sum_val(2) [OF fin] map_map by (simp only:)
qed

lemma reserved_cash:
  assumes "checked_account fresh expected account now = Inr data" and "is_finite amount" and "is_finite costs"
  shows "is_finite (difference (pa_cash data) [amount, costs])"
    and "dec_val (difference (pa_cash data) [amount, costs]) = dec_val (pa_cash data) - (dec_val amount + dec_val costs)"
  using difference_val [of "pa_cash data" "[amount, costs]"] checked_account_ok [OF assms(1)] assms(2,3) by simp_all

lemma reserve_and_claim_ok:
  assumes "reserve_and_claim fresh day_of expected k amount costs account now ih iid lg = (r, lg')"
    and "lg_submissions lg' \<noteq> lg_submissions lg"
  shows "\<exists>c. lg_submissions lg' = lg_submissions lg @ [c] \<and> claim_ok (lg_submissions lg) c"
proof (rule reserve_and_claim_steps [OF assms])
  fix data st lg1 st1 pnl
  assume a: "checked_account fresh expected account now = Inr data" "is_finite amount" "is_finite costs" "0 \<le> dec_val costs"
    "0 < dec_val amount" "dec_val amount + dec_val costs \<le> 100" "k \<notin> command_ids (lg_submissions lg)"
    "day_of now \<notin> set (map cl_london_day (lg_submissions lg))" "mark_or_hold st data now lg = Inr (None, pnl, lg1)"
    "cash_reserve_met (difference (pa_cash data) [amount, costs]) (pa_equity data)"
    "lg' = lg1\<lparr>lg_submissions := lg_submissions lg1 @
       [\<lparr>cl_command_id = k, cl_london_day = day_of now, cl_send_started_at = now, cl_amount = amount, cl_expected_costs = costs,
         cl_pre_account = data, cl_intent_hash = ih, cl_instrument_id = iid, cl_mandate = None\<rparr>]\<rparr>"
  have "lg_submissions lg1 = lg_submissions lg" using mark_or_hold_appends [OF a(9)] by auto
  then show ?thesis
    using a reserved_cash [OF a(1-3)] checked_account_ok [OF a(1)] by (simp add: claim_ok_def cost_val_def cash_reserve_met_iff)
qed

lemma reserve_under_mandate_ok:
  assumes "reserve_under_mandate H fresh day_of path expected reloaded mandate c account now lg = (r, lg')"
    and "lg_submissions lg' \<noteq> lg_submissions lg" and "scope_ok (fm_scope mandate)" and "claims_ok (lg_submissions lg)"
  shows "\<exists>c. lg_submissions lg' = lg_submissions lg @ [c] \<and> claim_ok (lg_submissions lg) c"
proof (rule reserve_under_mandate_steps [OF assms(1,2)])
  let ?s = "fm_scope mandate" and ?own = "own_claims mandate (lg_submissions lg)"
  fix data st lg1 st1 pnl instrument
  assume a: "checked_account fresh expected account now = Inr data" "validate_candidate ?s c = Inr instrument"
    "fc_command_id c \<notin> command_ids (lg_submissions lg)" "int (length ?own) < fs_max_submissions ?s"
    "Some (fc_instrument_id c) \<notin> set (map cl_instrument_id ?own)"
    "int (length (filter (\<lambda>c. cl_london_day c = day_of now) (lg_submissions lg))) < fs_max_per_day ?s"
    "\<not> dec_lt (fs_total_commitment ?s) (accounting_sum [accounting_sum (map claim_cost ?own), fc_amount c, fc_expected_costs c])"
    "mark_or_hold st data now lg = Inr (None, pnl, lg1)"
    "\<not> cash_fraction_missed (difference (pa_cash data) [fc_amount c, fc_expected_costs c]) (pa_equity data) (fs_min_cash_fraction ?s)"
  assume lg': "lg' = lg1\<lparr>lg_submissions := lg_submissions lg1 @
       [\<lparr>cl_command_id = fc_command_id c, cl_london_day = day_of now, cl_send_started_at = now, cl_amount = fc_amount c,
         cl_expected_costs = fc_expected_costs c, cl_pre_account = data, cl_intent_hash = Some (fc_intent_hash c),
         cl_instrument_id = Some (fc_instrument_id c),
         cl_mandate = Some \<lparr>mn_mandate_id = fm_mandate_id mandate, mn_mandate_hash = fm_mandate_hash mandate, mn_scope = ?s,
           mn_instrument = instrument, mn_order_type = fc_order_type c\<rparr>\<rparr>]\<rparr>"
  have same: "lg_submissions lg1 = lg_submissions lg" using mark_or_hold_appends [OF a(8)] by auto
  note cand = validate_candidate_ok [OF a(2) assms(3)]
  have scope: "is_finite (fs_total_commitment ?s)" "is_finite (fs_min_cash_fraction ?s)" "dec_val (fs_per_order_cap ?s) \<le> 100"
    "1 / 5 \<le> dec_val (fs_min_cash_fraction ?s)" using assms(3) by (simp_all add: scope_ok_def)
  have fin: "\<forall>c\<in>set ?own. is_finite (cl_amount c) \<and> is_finite (cl_expected_costs c)"
    using claims_ok_finite [OF assms(4)] by (simp add: own_claims_def)
  have total: "sum_list (map cost_val ?own) + (dec_val (fc_amount c) + dec_val (fc_expected_costs c)) \<le> dec_val (fs_total_commitment ?s)"
    using a(7) claims_cost_sum [OF fin] cand scope(1) by (simp add: accounting_sum_val not_less)
  have eq: "0 < dec_val (pa_equity data)" by (rule checked_account_ok(3) [OF a(1)])
  have fifth: "dec_val (pa_equity data) / 5 \<le> dec_val (pa_equity data) * dec_val (fs_min_cash_fraction ?s)"
    using mult_left_mono [OF scope(4), of "dec_val (pa_equity data)"] eq by simp
  have "dec_val (pa_equity data) * dec_val (fs_min_cash_fraction ?s) \<le> dec_val (pa_cash data) - (dec_val (fc_amount c) + dec_val (fc_expected_costs c))"
    using a(9) reserved_cash [OF a(1) cand(1,2)] checked_account_ok [OF a(1)] scope(2)
    by (simp add: cash_fraction_missed_iff not_less)
  with fifth have cash: "dec_val (pa_equity data) / 5 \<le> dec_val (pa_cash data) - (dec_val (fc_amount c) + dec_val (fc_expected_costs c))"
    by (rule order_trans)
  show ?thesis
    using a(3-6) cand scope(3) total cash assms(3) by (simp add: lg' same claim_ok_def cost_val_def own_claims_under Let_def)
qed

lemma load_mandate_scope:
  assumes "load_mandate H canonical expected doc = Inr m"
  shows "scope_ok (fm_scope m)"
proof -
  obtain j where j: "mandate_payload H canonical expected j = Inr m"
    using assms by (auto simp: load_mandate_def split: sum.splits error.splits)
  then obtain top where f: "j = JObj top" by (cases j) (simp_all add: mandate_payload_def)
  then obtain kvs where k: "member top ''mandate'' = JObj kvs"
    using j by (cases "member top ''mandate''") (simp_all add: mandate_payload_def raiseIf_eq_Inr)
  have "validate_scope (member kvs ''scope'') = Inr (fm_scope m)"
    using j unfolding mandate_payload_def f json.case k raiseIf_eq_Inr bindR_eq_Inr
    by (elim exE conjE, cases "member kvs ''baseline_claims''") (simp_all only: json.case bindR_eq_Inr sum.inject sum.distinct,
       elim exE conjE, hypsubst, simp only: finite_mandate.simps)
  then show ?thesis by (rule validate_scope_ok)
qed

section \<open>Events only append\<close>

definition extends :: "pilot_ledger \<Rightarrow> pilot_ledger \<Rightarrow> bool" where
  "extends lg lg' \<longleftrightarrow> (\<exists>es. lg' = lg\<lparr>lg_events := lg_events lg @ es\<rparr>)"

lemma extendsI [intro]:
  "extends lg lg" "extends lg (lg\<lparr>lg_events := lg_events lg @ es\<rparr>)"
  by (auto simp: extends_def intro: exI [of _ "[]"])

lemma extends_trans: "extends a b \<Longrightarrow> extends b c \<Longrightarrow> extends a c"
  by (auto simp: extends_def)

lemma extends_submissions: "extends lg lg' \<Longrightarrow> lg_submissions lg' = lg_submissions lg"
  by (auto simp: extends_def)

lemma ledger_tx_extends:
  assumes "ledger_tx expected body lg = (r, lg')" and "\<And>o' l. body lg = Inr (o', l) \<Longrightarrow> extends lg l"
  shows "extends lg lg'"
  using assms(1) by (cases rule: ledger_tx_cases) (use assms(2) in auto)

lemmas mark_extends = mark_ledger_appends [folded extends_def] mark_or_hold_appends [folded extends_def]

lemma call_extends:
  "refresh_marks fresh expected a t lg = (r, lg') \<Longrightarrow> extends lg lg'"
  "record_outcome expected k j lg = (r, lg') \<Longrightarrow> extends lg lg'"
  "mark_journal_complete expected k ref t lg = (r, lg') \<Longrightarrow> extends lg lg'"
  "enable_finite_mandates expected src commit t lg = (r, lg') \<Longrightarrow> extends lg lg'"
  unfolding refresh_marks_def record_outcome_def mark_journal_complete_def enable_finite_mandates_def
  by (erule ledger_tx_extends; auto split: option.splits dest!: mark_extends)+

lemma reconcile_extends:
  "reconcile_open H fresh expected k xs pre post t part ev lg = (r, lg') \<Longrightarrow> extends lg lg'"
  "reconcile_no_fill H fresh expected k pre post t ev2 lg = (r, lg') \<Longrightarrow> extends lg lg'"
  unfolding reconcile_open_def reconcile_no_fill_def
  by (erule ledger_tx_extends;
      auto simp: Let_def split: option.splits dest!: mark_extends intro: extends_trans [OF extends_trans] extends_trans)+

lemma reserve_extends:
  assumes "lg_submissions lg' = lg_submissions lg"
  shows "reserve_and_claim fresh day_of expected k amount costs account now ih iid lg = (r, lg') \<Longrightarrow> extends lg lg'"
    and "reserve_under_mandate H fresh day_of path expected reloaded mandate c account now lg = (r, lg') \<Longrightarrow> extends lg lg'"
  unfolding reserve_and_claim_def reserve_under_mandate_def
  by (erule ledger_tx_cases;
      use assms in \<open>auto simp: Let_def split: if_splits dest!: mark_extends intro: extends_trans
        dest: extends_submissions\<close>)+

section \<open>Calls\<close>

text \<open>What the calls of one process get from outside: the hash, the account checks, the calendar, the file system.\<close>

record pilot_env =
  pe_hash :: digest
  pe_fresh :: "pilot_account \<Rightarrow> instant \<Rightarrow> unit result"
  pe_day_of :: "instant \<Rightarrow> string"
  pe_canonical :: "string \<Rightarrow> bool"
  pe_path :: string
  pe_account :: string

datatype pilot_call =
    RefreshMarks pilot_account instant
  | ReserveAndClaim string decimal decimal pilot_account instant "string option" "int option"
  | ReserveUnderMandate "json result" finite_mandate finite_candidate pilot_account instant
  | RecordOutcome string json
  | MarkJournalComplete string string instant
  | EnableFiniteMandates string string instant
  | ReconcileOpen string "broker_execution list" pilot_account pilot_account instant bool "broker_reconciliation_result option"
  | ReconcileNoFill string pilot_account pilot_account instant broker_reconciliation_result

text \<open>A reservation under a mandate loads the mandate's file, \<open>doc\<close>, again.\<close>

fun pilot_run :: "pilot_env \<Rightarrow> pilot_call \<Rightarrow> pilot_ledger \<Rightarrow> pilot_state result \<times> pilot_ledger" where
  "pilot_run v (RefreshMarks a t) lg = refresh_marks (pe_fresh v) (pe_account v) a t lg"
| "pilot_run v (ReserveAndClaim k amt cst a t ih iid) lg =
     reserve_and_claim (pe_fresh v) (pe_day_of v) (pe_account v) k amt cst a t ih iid lg"
| "pilot_run v (ReserveUnderMandate doc m c a t) lg =
     reserve_under_mandate (pe_hash v) (pe_fresh v) (pe_day_of v) (pe_path v) (pe_account v)
       (load_mandate (pe_hash v) (pe_canonical v) (fm_account_id m) doc) m c a t lg"
| "pilot_run v (RecordOutcome k j) lg = record_outcome (pe_account v) k j lg"
| "pilot_run v (MarkJournalComplete k ref t) lg = mark_journal_complete (pe_account v) k ref t lg"
| "pilot_run v (EnableFiniteMandates src commit t) lg = enable_finite_mandates (pe_account v) src commit t lg"
| "pilot_run v (ReconcileOpen k xs pre post t part ev) lg =
     reconcile_open (pe_hash v) (pe_fresh v) (pe_account v) k xs pre post t part ev lg"
| "pilot_run v (ReconcileNoFill k pre post t ev) lg = reconcile_no_fill (pe_hash v) (pe_fresh v) (pe_account v) k pre post t ev lg"

definition pilot_exec :: "pilot_env \<Rightarrow> pilot_call \<Rightarrow> pilot_ledger \<Rightarrow> pilot_ledger" where
  "pilot_exec v c lg = snd (pilot_run v c lg)"

fun is_reservation :: "pilot_call \<Rightarrow> bool" where
  "is_reservation (ReserveAndClaim k amt cst a t ih iid) = True"
| "is_reservation (ReserveUnderMandate doc m c a t) = True"
| "is_reservation _ = False"

lemma pilot_run_extends: "\<not> is_reservation c \<Longrightarrow> pilot_run v c lg = (r, lg') \<Longrightarrow> extends lg lg'"
  by (cases c) (auto intro: call_extends reconcile_extends)

lemma pilot_run_same_extends:
  "pilot_run v c lg = (r, lg') \<Longrightarrow> lg_submissions lg' = lg_submissions lg \<Longrightarrow> extends lg lg'"
  by (cases "is_reservation c"; cases c) (auto intro: call_extends reconcile_extends reserve_extends)

lemma validate_binding_scope:
  "validate_binding H path expected (load_mandate H canonical a doc) m now lg = Inr () \<Longrightarrow> scope_ok (fm_scope m)"
  unfolding validate_binding_def bindR_eq_Inr raiseIf_eq_Inr by (auto intro: load_mandate_scope)

lemma pilot_run_claims:
  assumes "pilot_run v c lg = (r, lg')" and "claims_ok (lg_submissions lg)" and "lg_submissions lg' \<noteq> lg_submissions lg"
  shows "\<exists>cl. lg_submissions lg' = lg_submissions lg @ [cl] \<and> claim_ok (lg_submissions lg) cl"
proof -
  have "is_reservation c" using pilot_run_extends [OF _ assms(1)] assms(3) extends_submissions by blast
  then show ?thesis
  proof (cases c)
    case (ReserveAndClaim k amt cst a t ih iid)
    then show ?thesis using reserve_and_claim_ok assms by simp
  next
    case (ReserveUnderMandate doc m cd a t)
    then have run: "reserve_under_mandate (pe_hash v) (pe_fresh v) (pe_day_of v) (pe_path v) (pe_account v)
       (load_mandate (pe_hash v) (pe_canonical v) (fm_account_id m) doc) m cd a t lg = (r, lg')" using assms(1) by simp
    have "scope_ok (fm_scope m)"
      by (rule reserve_under_mandate_steps [OF run assms(3)]) (rule validate_binding_scope)
    then show ?thesis using reserve_under_mandate_ok [OF run assms(3)] assms(2) by blast
  qed simp_all
qed

interpretation pilot: invariant_calls "pilot_exec v" "\<lambda>_. True" "\<lambda>lg :: pilot_ledger. claims_ok (lg_submissions lg) \<and> prefix S (lg_submissions lg)" for v S
proof unfold_locales
  fix lg :: pilot_ledger and c
  assume inv: "claims_ok (lg_submissions lg) \<and> prefix S (lg_submissions lg)"
  obtain r lg' where run: "pilot_run v c lg = (r, lg')" by fastforce
  show "claims_ok (lg_submissions (pilot_exec v c lg)) \<and> prefix S (lg_submissions (pilot_exec v c lg))"
  proof (cases "lg_submissions lg' = lg_submissions lg")
    case True then show ?thesis using inv by (simp add: pilot_exec_def run)
  next
    case False
    then show ?thesis using pilot_run_claims [OF run _ False] inv by (auto simp: pilot_exec_def run intro: prefix_prefix)
  qed
qed

text \<open>Halted: a stop or a hold is latched, whatever events follow.\<close>

definition halted :: "pilot_ledger \<Rightarrow> bool" where
  "halted lg \<longleftrightarrow> (case apply_events (lg_submissions lg) (lg_events lg) (first_state (lg_inception lg)) of
     Inl _ \<Rightarrow> True | Inr st \<Rightarrow> ps_loss_stopped st \<or> ps_holds st \<noteq> [])"

lemma halted_extends: "extends lg lg' \<Longrightarrow> halted lg \<Longrightarrow> halted lg'"
  by (auto simp: extends_def halted_def apply_events_append grows_def split: sum.splits dest!: apply_events_grows)

lemma halted_state: "ledger_state expected lg = Inr st \<Longrightarrow> halted lg \<longleftrightarrow> ps_loss_stopped st \<or> ps_holds st \<noteq> []"
  using ledger_stateD(1) by (auto simp: halted_def)

lemma reserve_halted:
  assumes "ledger_state expected lg = Inr st" and "\<not> unresolved lg st" and "mark_or_hold st data now lg = Inr (err, pnl, lg1)"
    and "ledger_state expected lg1 = Inr st1" and "\<not> ps_loss_stopped st1"
  shows "\<not> halted lg"
proof
  assume "halted lg"
  then have "ps_loss_stopped st" using halted_state [OF assms(1)] assms(2) by (simp add: unresolved_def)
  moreover obtain es where "lg1 = lg\<lparr>lg_events := lg_events lg @ es\<rparr>" using mark_or_hold_appends [OF assms(3)] by blast
  ultimately show False using later_state [OF assms(1) _ assms(4)] assms(5) unfolding grows_def by blast
qed

lemma pilot_run_halted:
  assumes "pilot_run v c lg = (r, lg')" and "halted lg"
  shows "lg_submissions lg' = lg_submissions lg"
proof (rule ccontr)
  assume ch: "lg_submissions lg' \<noteq> lg_submissions lg"
  have "is_reservation c" using pilot_run_extends [OF _ assms(1)] ch extends_submissions by blast
  then show False
  proof (cases c)
    case (ReserveAndClaim k amt cst a t ih iid)
    then have run: "reserve_and_claim (pe_fresh v) (pe_day_of v) (pe_account v) k amt cst a t ih iid lg = (r, lg')" using assms(1) by simp
    show False by (rule reserve_and_claim_steps [OF run ch]) (use reserve_halted assms(2) in blast)
  next
    case (ReserveUnderMandate doc m cd a t)
    then have run: "reserve_under_mandate (pe_hash v) (pe_fresh v) (pe_day_of v) (pe_path v) (pe_account v)
       (load_mandate (pe_hash v) (pe_canonical v) (fm_account_id m) doc) m cd a t lg = (r, lg')" using assms(1) by simp
    show False by (rule reserve_under_mandate_steps [OF run ch]) (use reserve_halted assms(2) in blast)
  qed simp_all
qed

interpretation halt: invariant_calls "pilot_exec v" "\<lambda>_. True" "\<lambda>lg. halted lg \<and> lg_submissions lg = S" for v S
proof unfold_locales
  fix lg :: pilot_ledger and c
  assume inv: "halted lg \<and> lg_submissions lg = S"
  obtain r lg' where run: "pilot_run v c lg = (r, lg')" by fastforce
  then have "lg_submissions lg' = lg_submissions lg" using pilot_run_halted inv by blast
  moreover have "halted lg'" using halted_extends [OF pilot_run_same_extends [OF run calculation]] inv by blast
  ultimately show "halted (pilot_exec v c lg) \<and> lg_submissions (pilot_exec v c lg) = S" using inv by (simp add: pilot_exec_def run)
qed

section \<open>What a successful reservation leaves\<close>

lemma pending_marked:
  assumes "ledger_state expected lg = Inr st" and "\<not> unresolved lg st" and "mark_or_hold st data now lg = Inr (err, pnl, lg1)"
    and "ledger_state expected lg1 = Inr st1"
  shows "pending_claims lg1 st1 = []" and "lg_submissions lg1 = lg_submissions lg"
proof -
  obtain es where lg1: "lg1 = lg\<lparr>lg_events := lg_events lg @ es\<rparr>" using mark_or_hold_appends [OF assms(3)] by blast
  then show "lg_submissions lg1 = lg_submissions lg" by simp
  then show "pending_claims lg1 st1 = []"
    using later_state [OF assms(1) lg1 assms(4)] assms(2)
    by (auto simp: grows_def unresolved_def pending_claims_def reconciled_def filter_empty_conv)
qed

lemma claimed_state:
  assumes "ledger_state expected lg1 = Inr st1" and "pending_claims lg1 st1 = []"
    and "cl_command_id c \<notin> command_ids (lg_submissions lg1)" and "is_finite (cl_amount c)" and "is_finite (cl_expected_costs c)"
    and "lg' = lg1\<lparr>lg_submissions := lg_submissions lg1 @ [c]\<rparr>" and "ledger_state expected lg' = Inr st'"
  shows "st' = st1" and "pending_claims lg' st' = [c]" and "position_count lg' st' = position_count lg1 st1 + 1"
    and "is_finite (accounting_sum [committed_capital lg1 st1, cl_amount c, cl_expected_costs c])"
    and "dec_val (committed_capital lg' st') = dec_val (accounting_sum [committed_capital lg1 st1, cl_amount c, cl_expected_costs c])"
proof -
  have "command_ids (lg_submissions lg1) \<subseteq> command_ids (lg_submissions lg')" by (auto simp: command_ids_def assms(6))
  from apply_events_more [OF ledger_stateD(1) [OF assms(1)] this]
  show st: "st' = st1" using ledger_stateD(1) [OF assms(7)] by (simp add: assms(6))
  have "\<not> reconciled st1 c" using ledger_stateD(2) [OF assms(1)] assms(3) by (auto simp: reconciled_def)
  then show pend: "pending_claims lg' st' = [c]" using assms(2) by (simp add: st pending_claims_def assms(6))
  show "position_count lg' st' = position_count lg1 st1 + 1" by (simp add: position_count_def pend [unfolded st] st assms(2))
  have cap: "\<forall>x\<in>set (map ph_capital (ps_positions st1)). is_finite x" using ledger_stateD(3) [OF assms(1)] by simp
  note acc = accounting_sum_val(1) [OF cap]
  have com: "is_finite (committed_capital lg1 st1)"
    "dec_val (committed_capital lg1 st1) = dec_val (accounting_sum (map ph_capital (ps_positions st1)))"
    using acc by (simp_all add: committed_capital_def assms(2) accounting_sum_val)
  show "is_finite (accounting_sum [committed_capital lg1 st1, cl_amount c, cl_expected_costs c])"
    using com assms(4,5) by (simp add: accounting_sum_val)
  show "dec_val (committed_capital lg' st') = dec_val (accounting_sum [committed_capital lg1 st1, cl_amount c, cl_expected_costs c])"
    using com assms(4,5) acc claim_cost_val [OF assms(4,5)] unfolding committed_capital_def [of lg'] pend
    by (simp add: accounting_sum_val st cost_val_def)
qed

text \<open>The ledger right after a reservation: within the caps of the pilot and of the mandate, one claim open.\<close>

definition reserved_ok :: "pilot_ledger \<Rightarrow> pilot_state \<Rightarrow> pilot_claim \<Rightarrow> bool" where
  "reserved_ok lg st c \<longleftrightarrow> pending_claims lg st = [c] \<and> \<not> ps_loss_stopped st \<and>
     dec_val (committed_capital lg st) \<le> 500 \<and> position_count lg st \<le> 5 \<and>
     (case cl_mandate c of None \<Rightarrow> True
      | Some g \<Rightarrow> dec_val (committed_capital lg st) \<le> dec_val (fs_total_commitment (mn_scope g)) \<and>
          position_count lg st \<le> fs_max_positions (mn_scope g))"

lemma reserve_and_claim_reserved:
  assumes "reserve_and_claim fresh day_of expected k amount costs account now ih iid lg = (Inr st', lg')"
    and "lg_submissions lg' \<noteq> lg_submissions lg"
  shows "\<exists>c st. lg_submissions lg' = lg_submissions lg @ [c] \<and> ledger_state expected lg = Inr st \<and> \<not> unresolved lg st \<and> reserved_ok lg' st' c"
proof (rule reserve_and_claim_steps [OF assms])
  let ?c = "\<lambda>data. \<lparr>cl_command_id = k, cl_london_day = day_of now, cl_send_started_at = now, cl_amount = amount, cl_expected_costs = costs,
         cl_pre_account = data, cl_intent_hash = ih, cl_instrument_id = iid, cl_mandate = None\<rparr>"
  fix data st lg1 st1 pnl
  assume a: "is_finite amount" "is_finite costs" "k \<notin> command_ids (lg_submissions lg)"
    "ledger_state expected lg = Inr st" "\<not> unresolved lg st"
    "mark_or_hold st data now lg = Inr (None, pnl, lg1)" "ledger_state expected lg1 = Inr st1" "\<not> ps_loss_stopped st1"
    "\<not> dec_lt (dec_of_int 500) (accounting_sum [committed_capital lg1 st1, amount, costs])" "position_count lg1 st1 < 5"
    "lg' = lg1\<lparr>lg_submissions := lg_submissions lg1 @ [?c data]\<rparr>" "Inr st' = ledger_state expected lg'"
  note p = pending_marked [OF a(4-7)]
  note q = claimed_state [OF a(7) p(1) _ _ _ a(11) a(12) [symmetric], simplified, unfolded p(2), OF a(3,1,2)]
  have "reserved_ok lg' st' (?c data)" using q a(8-10) by (simp add: reserved_ok_def not_less)
  then show ?thesis using a(4,5) p(2) by (auto simp: a(11))
qed

lemma reserve_under_mandate_reserved:
  assumes "reserve_under_mandate H fresh day_of path expected (load_mandate H canonical acc doc) mandate c account now lg = (Inr st', lg')"
    and "lg_submissions lg' \<noteq> lg_submissions lg"
  shows "\<exists>c st. lg_submissions lg' = lg_submissions lg @ [c] \<and> ledger_state expected lg = Inr st \<and> \<not> unresolved lg st \<and> reserved_ok lg' st' c"
proof (rule reserve_under_mandate_steps [OF assms])
  let ?s = "fm_scope mandate"
  fix data st lg1 st1 pnl instrument
  let ?c = "\<lparr>cl_command_id = fc_command_id c, cl_london_day = day_of now, cl_send_started_at = now, cl_amount = fc_amount c,
         cl_expected_costs = fc_expected_costs c, cl_pre_account = data, cl_intent_hash = Some (fc_intent_hash c),
         cl_instrument_id = Some (fc_instrument_id c),
         cl_mandate = Some \<lparr>mn_mandate_id = fm_mandate_id mandate, mn_mandate_hash = fm_mandate_hash mandate, mn_scope = ?s,
           mn_instrument = instrument, mn_order_type = fc_order_type c\<rparr>\<rparr>"
  assume a: "validate_candidate ?s c = Inr instrument" "validate_binding H path expected (load_mandate H canonical acc doc) mandate now lg = Inr ()"
    "fc_command_id c \<notin> command_ids (lg_submissions lg)" "ledger_state expected lg = Inr st" "\<not> unresolved lg st"
    "mark_or_hold st data now lg = Inr (None, pnl, lg1)" "ledger_state expected lg1 = Inr st1" "\<not> ps_loss_stopped st1"
    "\<not> dec_lt (fs_total_commitment ?s) (accounting_sum [committed_capital lg1 st1, fc_amount c, fc_expected_costs c])"
    "position_count lg1 st1 < fs_max_positions ?s" "lg' = lg1\<lparr>lg_submissions := lg_submissions lg1 @ [?c]\<rparr>" "Inr st' = ledger_state expected lg'"
  have s: "scope_ok ?s" by (rule validate_binding_scope [OF a(2)])
  then have caps: "is_finite (fs_total_commitment ?s)" "dec_val (fs_total_commitment ?s) \<le> 500" "fs_max_positions ?s \<le> 5"
    by (simp_all add: scope_ok_def)
  note cand = validate_candidate_ok [OF a(1) s]
  note p = pending_marked [OF a(4-7)]
  note q = claimed_state [OF a(7) p(1) _ _ _ a(11) a(12) [symmetric], simplified, unfolded p(2), OF a(3) cand(1,2)]
  have "reserved_ok lg' st' ?c" using q a(8-10) caps by (auto simp: reserved_ok_def not_less)
  then show ?thesis using a(4,5) p(2) by (auto simp: a(11))
qed

lemma claimedD: "lg\<lparr>lg_submissions := cs\<rparr> = lg' \<Longrightarrow> lg_submissions lg' = cs"
  by auto

lemma reserve_success_claims:
  "reserve_and_claim fresh day_of expected k amount costs account now ih iid lg = (Inr st', lg') \<Longrightarrow> lg_submissions lg' \<noteq> lg_submissions lg"
  "reserve_under_mandate H fresh day_of path expected reloaded mandate c account now lg = (Inr st', lg') \<Longrightarrow> lg_submissions lg' \<noteq> lg_submissions lg"
  unfolding reserve_and_claim_def reserve_under_mandate_def
  by (erule ledger_tx_cases; auto simp: Let_def split: if_splits dest!: mark_extends extends_submissions dest: claimedD)+

section \<open>Properties\<close>

definition wit_account :: pilot_account where
  "wit_account = \<lparr>pa_account_id = ''123'', pa_cash = Dec False 1000 0, pa_equity = Dec False 1000 0, pa_positions = [],
     pa_capture_started_at = 0, pa_capture_completed_at = 1, pa_source_hash = ''s'', pa_raw_sources = JNull\<rparr>"

definition wit_env :: pilot_env where
  "wit_env = \<lparr>pe_hash = (\<lambda>_. []), pe_fresh = (\<lambda>_ _. Inr ()), pe_day_of = (\<lambda>_. ''2026-01-05''), pe_canonical = (\<lambda>_. True),
     pe_path = ''/l'', pe_account = ''123''\<rparr>"

definition wit_ledger :: pilot_ledger where
  "wit_ledger = \<lparr>lg_inception = \<lparr>in_account_id = ''123'', in_moment = 5, in_account = wit_account, in_legacy_breaches = JArr []\<rparr>,
     lg_submissions = [], lg_events = []\<rparr>"

abbreviation wit_reserve :: pilot_call where
  "wit_reserve \<equiv> ReserveAndClaim ''c1'' (Dec False 95 0) (Dec False 5 0) wit_account 6 None None"

lemma wit_reserve_run: "case pilot_run wit_env wit_reserve wit_ledger of (Inr st, lg) \<Rightarrow> length (lg_submissions lg) = 1 | _ \<Rightarrow> False"
  by code_simp



text \<open>
  C14: a reservation that succeeds found the ledger resolved, adds exactly one claim, and leaves a
  ledger that is not loss-stopped, whose only open claim is the new one, and whose committed
  capital and positions, the claim included, are within the pilot's caps of 500 and five and
  within the mandate's own.
\<close>

theorem pilot_reservation_safe:
  assumes "pilot_run v c lg = (Inr st', lg')" and "is_reservation c"
  shows "\<exists>cl st. lg_submissions lg' = lg_submissions lg @ [cl] \<and> ledger_state (pe_account v) lg = Inr st \<and> \<not> unresolved lg st \<and>
    reserved_ok lg' st' cl"
  using assms reserve_and_claim_reserved [OF _ reserve_success_claims(1)] reserve_under_mandate_reserved [OF _ reserve_success_claims(2)]
  by (cases c) simp_all

theorem pilot_reservation_safe_witness:
  "\<exists>st lg cl. pilot_run wit_env wit_reserve wit_ledger = (Inr st, lg) \<and> lg_submissions lg = [cl] \<and> reserved_ok lg st cl"
proof -
  obtain st lg where run: "pilot_run wit_env wit_reserve wit_ledger = (Inr st, lg)"
    using wit_reserve_run by (auto split: prod.splits sum.splits)
  have "lg_submissions wit_ledger = []" by (simp add: wit_ledger_def)
  then show ?thesis using pilot_reservation_safe [OF run] run by auto
qed

text \<open>
  C15: once the loss stop is latched or a hold is recorded, no sequence of calls whatsoever adds a
  claim: the pilot stays halted.
\<close>

theorem pilot_stop_is_final:
  assumes "ledger_state expected lg = Inr st" and "ps_loss_stopped st \<or> ps_holds st \<noteq> []"
  shows "lg_submissions (run_calls (pilot_exec v) calls lg) = lg_submissions lg"
proof -
  have "halted lg" using assms halted_state by blast
  then show ?thesis using halt.inv_run [of lg "lg_submissions lg" calls v] by (simp add: list_all_iff)
qed

theorem pilot_stop_is_final_witness:
  "lg_submissions (run_calls (pilot_exec wit_env) [wit_reserve] (wit_ledger\<lparr>lg_events := [Hold ''h'']\<rparr>)) = []"
proof -
  let ?lg = "wit_ledger\<lparr>lg_events := [Hold ''h'']\<rparr>"
  have "case ledger_state ''123'' ?lg of Inr st \<Rightarrow> ps_holds st \<noteq> [] | _ \<Rightarrow> False" by code_simp
  then obtain st where "ledger_state ''123'' ?lg = Inr st" "ps_holds st \<noteq> []" by (auto split: sum.splits)
  then show ?thesis using pilot_stop_is_final [of "''123''" ?lg st wit_env "[wit_reserve]"] by (simp add: wit_ledger_def)
qed

end
