(* ===== verification/Strategy.thy ===== *)
theory Strategy
  imports Py_Render Risk_Exact
begin

text \<open>
  \<open>src/strategy/domain.py\<close> and the walk-forward windows of \<open>src/strategy/validation.py\<close>: experiment
  specifications with their content-addressed key, cost assumptions, metrics, and the promotion
  decision. A date is a day number; decimals are computed in the default context of 28 digits.
\<close>

section \<open>Windows and costs\<close>

type_synonym day = int

definition date_json :: "day \<Rightarrow> json" where
  "date_json d = JStr (date_text_of (civil_from_days d))"

definition decimal_json :: "decimal \<Rightarrow> json" where
  "decimal_json d = JStr (dec_format_f d)"

record split_window =
  sw_fold :: int
  sw_train_start :: day
  sw_train_end :: day
  sw_validation_start :: day
  sw_validation_end :: day
  sw_test_start :: day
  sw_test_end :: day

abbreviation strategy_error :: "string \<Rightarrow> error" where
  "strategy_error m \<equiv> StrategyValidationError m"

definition chronological :: "split_window \<Rightarrow> bool" where
  "chronological w \<longleftrightarrow> sw_train_start w \<le> sw_train_end w \<and> sw_train_end w < sw_validation_start w \<and>
     sw_validation_start w \<le> sw_validation_end w \<and> sw_validation_end w < sw_test_start w \<and> sw_test_start w \<le> sw_test_end w"

definition SplitWindow :: "split_window \<Rightarrow> split_window result" where
  "SplitWindow w =
     raiseIf (sw_fold w < 1) (strategy_error ''fold must be positive'') (
     raiseIf (\<not> chronological w) (strategy_error ''train, validation, and test windows must be chronological and disjoint'') (Inr w))"

record cost_model =
  cm_spread_bps :: decimal
  cm_slippage_bps :: decimal
  cm_fee_bps :: decimal
  cm_tax_bps :: decimal
  cm_stress_multiplier :: decimal

definition strategy_decimal :: "decimal \<Rightarrow> string \<Rightarrow> decimal result" where
  "strategy_decimal d name = raiseIf (\<not> is_finite d) (strategy_error (name @ '' must be finite'')) (Inr d)"

definition finite_fields :: "(string \<times> decimal) list \<Rightarrow> decimal list result" where
  "finite_fields fs = mapR (\<lambda>(name, d). strategy_decimal d name) fs"

fun dec_min :: "decimal \<Rightarrow> decimal list \<Rightarrow> decimal" where
  "dec_min m [] = m"
| "dec_min m (d # ds) = dec_min (if dec_lt d m then d else m) ds"

definition CostModel :: "cost_model \<Rightarrow> cost_model result" where
  "CostModel c =
     bindR (finite_fields [(''spread_bps'', cm_spread_bps c), (''slippage_bps'', cm_slippage_bps c), (''fee_bps'', cm_fee_bps c),
       (''tax_bps'', cm_tax_bps c), (''stress_multiplier'', cm_stress_multiplier c)]) (\<lambda>_.
     raiseIf (dec_lt (dec_min (cm_spread_bps c) [cm_slippage_bps c, cm_fee_bps c, cm_tax_bps c]) dec0)
       (strategy_error ''cost assumptions must not be negative'') (
     raiseIf (dec_lt (cm_stress_multiplier c) dec1) (strategy_error ''cost stress multiplier must be at least 1'') (Inr c)))"

definition round_trip_cost :: "cost_model \<Rightarrow> decimal \<Rightarrow> decimal result" where
  "round_trip_cost c notional =
     bindR (strategy_decimal notional ''notional'') (\<lambda>amount.
     raiseIf (dec_lt amount dec0) (strategy_error ''notional must not be negative'') (
     let twice = dec_of_int 2;
         bps = dec_mul 28 (dec_add 28 (dec_add 28 (dec_add 28 (cm_spread_bps c) (dec_mul 28 (cm_slippage_bps c) twice))
           (dec_mul 28 (cm_fee_bps c) twice)) (cm_tax_bps c)) (cm_stress_multiplier c) in
     dec_div 28 (dec_mul 28 amount bps) (dec_of_int 10000)))"

section \<open>Experiments\<close>

record experiment_spec =
  es_experiment_id :: uuid
  es_experiment_key :: string
  es_strategy_version :: string
  es_data_snapshot_id :: string
  es_universe_checksum :: string
  es_code_revision :: string
  es_environment :: string
  es_parameters :: "(string \<times> string) list"
  es_splits :: "split_window list"
  es_cost_model :: cost_model
  es_tuned_on_partition :: string
  es_created_at :: instant
  es_schema_version :: string

definition split_json :: "split_window \<Rightarrow> json" where
  "split_json w = JObj
     [(''fold'', JInt (sw_fold w)), (''train_start'', date_json (sw_train_start w)), (''train_end'', date_json (sw_train_end w)),
      (''validation_start'', date_json (sw_validation_start w)), (''validation_end'', date_json (sw_validation_end w)),
      (''test_start'', date_json (sw_test_start w)), (''test_end'', date_json (sw_test_end w))]"

definition cost_json :: "cost_model \<Rightarrow> json" where
  "cost_json c = JObj
     [(''spread_bps'', decimal_json (cm_spread_bps c)), (''slippage_bps'', decimal_json (cm_slippage_bps c)),
      (''fee_bps'', decimal_json (cm_fee_bps c)), (''tax_bps'', decimal_json (cm_tax_bps c)),
      (''stress_multiplier'', decimal_json (cm_stress_multiplier c))]"

definition key_fields :: "experiment_spec \<Rightarrow> (string \<times> json) list" where
  "key_fields s =
     [(''strategy_version'', JStr (es_strategy_version s)), (''data_snapshot_id'', JStr (es_data_snapshot_id s)),
      (''point_in_time_universe_checksum'', JStr (es_universe_checksum s)), (''code_revision'', JStr (es_code_revision s)),
      (''environment'', JStr (es_environment s)),
      (''parameters'', JArr (map (\<lambda>kv. JArr [JStr (fst kv), JStr (snd kv)]) (es_parameters s))),
      (''splits'', JArr (map split_json (es_splits s))), (''cost_model'', cost_json (es_cost_model s)),
      (''tuned_on_partition'', JStr (es_tuned_on_partition s)), (''schema_version'', JStr (es_schema_version s))]"

definition content_hash :: "digest \<Rightarrow> experiment_spec \<Rightarrow> string" where
  "content_hash H s = H (canonical_json (JObj (key_fields s)))"

definition spec_json :: "experiment_spec \<Rightarrow> json" where
  "spec_json s = JObj ([(''experiment_id'', JStr (uuid_str (es_experiment_id s))), (''experiment_key'', JStr (es_experiment_key s)),
     (''created_at'', JTime (es_created_at s))] @ key_fields s)"

text \<open>\<open>ExperimentSpec(...)\<close>, its \<open>created_at\<close> given as a datetime.\<close>

definition ExperimentSpec :: "digest \<Rightarrow> experiment_spec \<Rightarrow> pydatetime \<Rightarrow> experiment_spec result" where
  "ExperimentSpec H raw created =
     bindR (case created of Naive _ \<Rightarrow> Inl (strategy_error ''created_at must be timezone-aware'') | Aware t _ \<Rightarrow> Inr t) (\<lambda>moment.
     let s = raw\<lparr>es_created_at := moment, es_parameters := immutable_pairs (es_parameters raw)\<rparr> in
     bindR (mapR (\<lambda>(name, v). raiseIf (blank v) (strategy_error (name @ '' must not be blank'')) (Inr ()))
       [(''strategy_version'', es_strategy_version s), (''data_snapshot_id'', es_data_snapshot_id s),
        (''point_in_time_universe_checksum'', es_universe_checksum s), (''code_revision'', es_code_revision s),
        (''environment'', es_environment s)]) (\<lambda>_.
     raiseIf (es_tuned_on_partition s \<notin> {''train'', ''validation''}) (strategy_error ''parameters may not be tuned on test data'') (
     raiseIf (es_splits s = []) (strategy_error ''at least one chronological split is required'') (
     raiseIf (es_experiment_key s \<noteq> content_hash H s) (strategy_error ''experiment_key does not match immutable evidence'') (
     Inr s)))))"

text \<open>\<open>create\<close>: the identity and the moment are what \<open>uuid4\<close> and the clock gave when none was passed.\<close>

definition create_experiment ::
  "digest \<Rightarrow> string \<Rightarrow> string \<Rightarrow> string \<Rightarrow> string \<Rightarrow> string \<Rightarrow> (string \<times> string) list \<Rightarrow> split_window list \<Rightarrow> cost_model \<Rightarrow> string \<Rightarrow>
   pydatetime \<Rightarrow> uuid \<Rightarrow> experiment_spec result" where
  "create_experiment H version snapshot checksum revision env parameters splits costs tuned created ident =
     (let values = \<lparr>es_experiment_id = ident, es_experiment_key = [], es_strategy_version = py_strip version,
        es_data_snapshot_id = py_strip snapshot, es_universe_checksum = py_strip checksum, es_code_revision = py_strip revision,
        es_environment = py_lower (py_strip env), es_parameters = immutable_pairs parameters, es_splits = splits,
        es_cost_model = costs, es_tuned_on_partition = py_lower (py_strip tuned), es_created_at = 0, es_schema_version = ''1.0''\<rparr>
      in ExperimentSpec H (values\<lparr>es_experiment_key := content_hash H values\<rparr>) created)"

section \<open>Promotion\<close>

record experiment_metrics =
  em_validation_excess :: decimal
  em_test_excess :: decimal
  em_test_max_drawdown :: decimal
  em_stressed_test_excess :: decimal
  em_benchmark_return :: decimal
  em_passed_folds :: int
  em_total_folds :: int
  em_deterministic_reproduction :: bool
  em_universe_passed :: bool
  em_survivorship_passed :: bool
  em_calendar_passed :: bool
  em_cost_model_passed :: bool

definition ExperimentMetrics :: "experiment_metrics \<Rightarrow> experiment_metrics result" where
  "ExperimentMetrics m =
     bindR (finite_fields [(''validation_excess_return_pct'', em_validation_excess m), (''test_excess_return_pct'', em_test_excess m),
       (''test_max_drawdown_pct'', em_test_max_drawdown m), (''stressed_test_excess_return_pct'', em_stressed_test_excess m),
       (''benchmark_return_pct'', em_benchmark_return m)]) (\<lambda>_.
     raiseIf (em_total_folds m < 1) (strategy_error ''walk-forward evidence must contain a fold'') (
     raiseIf (\<not> (0 \<le> em_passed_folds m \<and> em_passed_folds m \<le> em_total_folds m))
       (strategy_error ''walk-forward pass count is invalid'') (Inr m)))"

record promotion_criteria =
  pc_validation_excess :: decimal
  pc_test_excess :: decimal
  pc_stressed_test_excess :: decimal
  pc_test_drawdown :: decimal
  pc_pass_fraction :: decimal

definition PromotionCriteria :: "promotion_criteria \<Rightarrow> promotion_criteria result" where
  "PromotionCriteria c =
     bindR (finite_fields [(''minimum_validation_excess_return_pct'', pc_validation_excess c),
       (''minimum_test_excess_return_pct'', pc_test_excess c), (''minimum_stressed_test_excess_return_pct'', pc_stressed_test_excess c),
       (''maximum_test_drawdown_pct'', pc_test_drawdown c), (''minimum_walk_forward_pass_fraction'', pc_pass_fraction c)]) (\<lambda>_.
     raiseIf (\<not> (dec_le dec0 (pc_pass_fraction c) \<and> dec_le (pc_pass_fraction c) dec1))
       (strategy_error ''walk-forward pass fraction must be within 0..1'') (Inr c))"

record promotion_decision =
  pd_experiment_id :: uuid
  pd_eligible :: bool
  pd_capability :: string
  pd_reasons :: "string list"
  pd_decided_at :: instant

definition PromotionDecision :: "promotion_decision \<Rightarrow> promotion_decision result" where
  "PromotionDecision d = raiseIf (pd_capability d \<noteq> ''advisory_only'')
     (strategy_error ''strategy promotion can grant advisory_only only'') (Inr d)"

definition promotion_checks ::
  "experiment_spec \<Rightarrow> experiment_metrics \<Rightarrow> promotion_criteria \<Rightarrow> decimal \<Rightarrow> (string \<times> bool) list" where
  "promotion_checks spec m c share =
     [(''validation_benchmark'', dec_le (pc_validation_excess c) (em_validation_excess m)),
      (''test_benchmark'', dec_le (pc_test_excess c) (em_test_excess m)),
      (''stressed_costs'', dec_le (pc_stressed_test_excess c) (em_stressed_test_excess m)),
      (''test_drawdown'', dec_le (dec_abs 28 (em_test_max_drawdown m)) (dec_abs 28 (pc_test_drawdown c))),
      (''walk_forward'', dec_le (pc_pass_fraction c) share),
      (''deterministic_reproduction'', em_deterministic_reproduction m),
      (''point_in_time_universe'', em_universe_passed m),
      (''survivorship'', em_survivorship_passed m),
      (''exchange_calendar'', em_calendar_passed m),
      (''cost_model'', em_cost_model_passed m),
      (''test_not_tuned'', es_tuned_on_partition spec \<noteq> ''test'')]"

definition evaluate_promotion ::
  "experiment_spec \<Rightarrow> experiment_metrics \<Rightarrow> promotion_criteria \<Rightarrow> instant \<Rightarrow> promotion_decision result" where
  "evaluate_promotion spec m c now =
     bindR (dec_div 28 (dec_of_int (em_passed_folds m)) (dec_of_int (em_total_folds m))) (\<lambda>share.
     let reasons = map fst (filter (\<lambda>check. \<not> snd check) (promotion_checks spec m c share)) in
     PromotionDecision \<lparr>pd_experiment_id = es_experiment_id spec, pd_eligible = (reasons = []), pd_capability = ''advisory_only'',
       pd_reasons = reasons, pd_decided_at = now\<rparr>)"

section \<open>Walk-forward windows\<close>

text \<open>
  \<open>pd.DatetimeIndex(...).sort_values().unique()\<close> of naive timestamps, as microseconds, and their
  dates. Two timestamps of one day are two sessions with the same date.
\<close>

definition session_days :: "int list \<Rightarrow> day list" where
  "session_days dates = map (\<lambda>t. t div 86400000000) (sort (remdups dates))"

definition walk_fold :: "nat \<Rightarrow> nat \<Rightarrow> nat \<Rightarrow> day list \<Rightarrow> nat \<Rightarrow> nat \<Rightarrow> split_window" where
  "walk_fold train val test days n start =
     \<lparr>sw_fold = int n, sw_train_start = days ! start, sw_train_end = days ! (start + train - 1),
      sw_validation_start = days ! (start + train), sw_validation_end = days ! (start + train + val - 1),
      sw_test_start = days ! (start + train + val), sw_test_end = days ! (start + train + val + test - 1)\<rparr>"

text \<open>The loop is entered with a positive step only.\<close>

function walk_folds ::
  "nat \<Rightarrow> nat \<Rightarrow> nat \<Rightarrow> nat \<Rightarrow> day list \<Rightarrow> split_window list \<Rightarrow> nat \<Rightarrow> split_window list result" where
  "walk_folds train val test step days folds start =
     (if start + (train + val + test) \<le> length days \<and> 0 < step then
        bindR (SplitWindow (walk_fold train val test days (length folds + 1) start)) (\<lambda>w.
        walk_folds train val test step days (folds @ [w]) (start + step))
      else Inr folds)"
  by pat_completeness auto
termination
  by (relation "measure (\<lambda>(train, val, test, step, days, folds, start). length days + 1 - start)") auto

declare walk_folds.simps [simp del]

definition rolling_walk_forward_splits ::
  "int list \<Rightarrow> int \<Rightarrow> int \<Rightarrow> int \<Rightarrow> int option \<Rightarrow> split_window list result" where
  "rolling_walk_forward_splits dates train val test step_sessions =
     (let days = session_days dates;
          step = (case step_sessions of Some s \<Rightarrow> if s = 0 then test else s | None \<Rightarrow> test) in
      raiseIf (min train (min val (min test step)) \<le> 0) (strategy_error ''walk-forward window sizes must be positive'') (
      bindR (walk_folds (nat train) (nat val) (nat test) (nat step) days [] 0) (\<lambda>folds.
      raiseIf (folds = []) (strategy_error ''insufficient sessions for one walk-forward fold'') (Inr folds))))"

section \<open>The windows that are produced\<close>

lemma session_days_strict: "distinct (session_days dates) \<Longrightarrow> sorted_wrt (<) (session_days dates)"
proof -
  assume d: "distinct (session_days dates)"
  have "sorted (session_days dates)" unfolding session_days_def
    by (rule sorted_map_mono [OF sorted_sort]) (auto intro: zdiv_mono1 monoI mono_onI)
  then show ?thesis using d by (simp add: strict_sorted_iff)
qed

lemma walk_fold_chronological:
  assumes "sorted_wrt (<) days" and "0 < train" and "0 < val" and "0 < test" and "start + (train + val + test) \<le> length days"
  shows "chronological (walk_fold train val test days n start)"
proof -
  have lt: "i < j \<Longrightarrow> j < length days \<Longrightarrow> days ! i < days ! j" for i j using sorted_wrt_nth_less [OF assms(1)] by blast
  have le: "i \<le> j \<Longrightarrow> j < length days \<Longrightarrow> days ! i \<le> days ! j" for i j using lt [of i j] by (cases "i = j") auto
  show ?thesis
    unfolding chronological_def walk_fold_def using assms(2-5)
    by (auto intro!: lt le)
qed

definition fold_count :: "nat \<Rightarrow> nat \<Rightarrow> nat \<Rightarrow> nat \<Rightarrow> nat" where
  "fold_count len need step start = (if start + need \<le> len then (len - start - need) div step + 1 else 0)"

lemma fold_count_step:
  assumes "start + need \<le> len" and "0 < step"
  shows "fold_count len need step start = Suc (fold_count len need step (start + step))"
proof (cases "start + step + need \<le> len")
  case True
  then have "(len - start - need) div step = Suc ((len - start - need - step) div step)"
    using assms(2) le_div_geq [of step "len - start - need"] by simp
  then show ?thesis using assms(1) True by (simp add: fold_count_def diff_diff_left add.commute add.left_commute)
next
  case False
  then have "len - start - need < step" using assms(1) by linarith
  then show ?thesis using assms(1) False by (simp add: fold_count_def)
qed

lemma walk_folds_eq:
  assumes "sorted_wrt (<) days" and "0 < train" and "0 < val" and "0 < test" and "0 < step"
  shows "walk_folds train val test step days folds start = Inr (folds @
    map (\<lambda>k. walk_fold train val test days (length folds + k + 1) (start + k * step))
      [0..<fold_count (length days) (train + val + test) step start])"
  using assms
proof (induction train val test step days folds start rule: walk_folds.induct)
  case (1 train val test step days folds start)
  let ?need = "train + val + test" and ?w = "walk_fold train val test days (length folds + 1) start"
  show ?case
  proof (cases "start + ?need \<le> length days")
    case False
    then show ?thesis by (simp add: walk_folds.simps [of train] fold_count_def)
  next
    case True
    have w: "SplitWindow ?w = Inr ?w"
    proof -
      have "1 \<le> sw_fold ?w" by (simp add: walk_fold_def)
      then show ?thesis using walk_fold_chronological [OF "1.prems"(1-4) True] by (simp add: SplitWindow_def)
    qed
    have shift: "map f [0..<Suc m] = f 0 # map (\<lambda>k. f (Suc k)) [0..<m]" for f :: "nat \<Rightarrow> split_window" and m
      by (simp add: upt_conv_Cons map_Suc_upt [symmetric] del: upt_Suc)
    have "walk_folds train val test step days folds start = walk_folds train val test step days (folds @ [?w]) (start + step)"
      using True "1.prems"(5) w by (simp add: walk_folds.simps [of train val test step days folds start])
    also have "\<dots> = Inr ((folds @ [?w]) @ map (\<lambda>k. walk_fold train val test days (length (folds @ [?w]) + k + 1) (start + step + k * step))
        [0..<fold_count (length days) ?need step (start + step)])"
      using "1.IH" [of ?w] True "1.prems" by blast
    finally show ?thesis
      unfolding fold_count_step [OF True "1.prems"(5)] shift by (simp add: add.assoc)
  qed
qed


definition wit_dates :: "int list" where
  "wit_dates = map (\<lambda>k. k * 86400000000) [4, 1, 2, 3, 5, 6, 1]"


section \<open>The promotion decision\<close>

lemma finite_fields_iff: "finite_fields fs = Inr ds \<longleftrightarrow> ds = map snd fs \<and> list_all (\<lambda>f. is_finite (snd f)) fs"
  by (induction fs arbitrary: ds) (auto simp: finite_fields_def strategy_decimal_def)

lemma dec_abs_exact:
  assumes "is_finite d" and "fits 28 (dec_val d)"
  shows "dec_val (dec_abs 28 d) = \<bar>dec_val d\<bar>" and "is_finite (dec_abs 28 d)"
proof -
  have "fits 28 \<bar>dec_val d\<bar>" using assms(2) fits_uminus [of 28 "dec_val d"] by (cases "0 \<le> dec_val d") auto
  then show "dec_val (dec_abs 28 d) = \<bar>dec_val d\<bar>"
    using dec_abs_rounds(1) [OF assms(1), of 28] unfolding rounds_def by (auto intro: antisym)
  show "is_finite (dec_abs 28 d)" using dec_abs_rounds(2) [OF assms(1), of 28] by simp
qed

text \<open>The rational conditions of a promotion.\<close>

definition promotable :: "experiment_spec \<Rightarrow> experiment_metrics \<Rightarrow> promotion_criteria \<Rightarrow> bool" where
  "promotable spec m c \<longleftrightarrow>
     dec_val (pc_validation_excess c) \<le> dec_val (em_validation_excess m) \<and> dec_val (pc_test_excess c) \<le> dec_val (em_test_excess m) \<and>
     dec_val (pc_stressed_test_excess c) \<le> dec_val (em_stressed_test_excess m) \<and>
     \<bar>dec_val (em_test_max_drawdown m)\<bar> \<le> \<bar>dec_val (pc_test_drawdown c)\<bar> \<and>
     dec_val (pc_pass_fraction c) * of_int (em_total_folds m) \<le> of_int (em_passed_folds m) \<and>
     em_deterministic_reproduction m \<and> em_universe_passed m \<and> em_survivorship_passed m \<and> em_calendar_passed m \<and>
     em_cost_model_passed m \<and> es_tuned_on_partition spec \<noteq> ''test''"

lemma share_decides:
  assumes "1 \<le> tot" and "tot < 10 ^ 12" and "is_finite f" and "-12 \<le> dec_exp f" and "0 \<le> dec_val f" and "dec_val f \<le> 1"
  obtains q where "dec_div 28 (dec_of_int passed) (dec_of_int tot) = Inr q" "is_finite q"
    "dec_val f \<le> dec_val q \<longleftrightarrow> dec_val f * of_int tot \<le> of_int passed"
proof -
  have pos: "0 < dec_val (dec_of_int tot)" using assms(1) by simp
  obtain q where q: "dec_div 28 (dec_of_int passed) (dec_of_int tot) = Inr q" "is_finite q"
    "rounds 28 (dec_val (dec_of_int passed) / dec_val (dec_of_int tot)) (dec_val q)"
    using fraction_rounds [of "dec_of_int passed" "dec_of_int tot" 28] pos by auto
  have g: "on_grid (-12) (dec_val f)" by (rule on_grid_dec [OF assms(3,4)])
  have int: "on_grid 0 (of_int k :: rat)" for k unfolding on_grid_def by auto
  have "on_grid (-12) (dec_val f * of_int tot)" using on_grid_mult [OF g int] by simp
  then have diff: "on_grid (-12) (of_int passed - dec_val f * of_int tot)"
    using on_grid_add [OF on_grid_finer [OF int] on_grid_minus] by fastforce
  have "rat_of_int tot < of_int (10 ^ 12)" using assms(2) by (simp only: of_int_less_iff)
  then have big: "rat_of_int tot < 10 powi 12" by (simp add: power_int_def)
  have "dec_val f \<le> dec_val q \<longleftrightarrow> dec_val f * of_int tot \<le> of_int passed"
    using rounds_decides(2) [of 28 "of_int passed" "of_int tot" "dec_val q" 12 "-12" "dec_val f"] q(3) pos big diff
      on_grid_finer [OF g, of "-24"] assms(5,6) by simp
  with q(1,2) show thesis by (rule that)
qed

text \<open>
  C35: for constructed metrics and criteria with at most 28 significant digits, a pass fraction
  of at most twelve decimals and fewer than 10^12 folds, the promotion decision is exact: no
  rounding of the decimal context changes it. It is made for the experiment, grants advisory use
  only, is eligible exactly when every condition holds as rational numbers, and lists a reason
  exactly when it is not eligible.
\<close>

theorem promotion_decided_exactly:
  assumes "ExperimentMetrics m0 = Inr m" and "PromotionCriteria c0 = Inr c"
    and "fits 28 (dec_val (em_test_max_drawdown m))" and "fits 28 (dec_val (pc_test_drawdown c))"
    and "em_total_folds m < 10 ^ 12" and "-12 \<le> dec_exp (pc_pass_fraction c)"
  shows "\<exists>d. evaluate_promotion spec m c now = Inr d \<and> pd_experiment_id d = es_experiment_id spec \<and>
    pd_capability d = ''advisory_only'' \<and> (pd_eligible d \<longleftrightarrow> promotable spec m c) \<and> (pd_reasons d = [] \<longleftrightarrow> pd_eligible d)"
proof -
  have m: "is_finite (em_validation_excess m)" "is_finite (em_test_excess m)" "is_finite (em_test_max_drawdown m)"
    "is_finite (em_stressed_test_excess m)" "1 \<le> em_total_folds m"
    using assms(1) by (auto simp: ExperimentMetrics_def finite_fields_iff not_less)
  have c: "is_finite (pc_validation_excess c)" "is_finite (pc_test_excess c)" "is_finite (pc_stressed_test_excess c)"
    "is_finite (pc_test_drawdown c)" "is_finite (pc_pass_fraction c)" "0 \<le> dec_val (pc_pass_fraction c)" "dec_val (pc_pass_fraction c) \<le> 1"
    using assms(2) by (auto simp: PromotionCriteria_def finite_fields_iff)
  obtain q where q: "dec_div 28 (dec_of_int (em_passed_folds m)) (dec_of_int (em_total_folds m)) = Inr q" "is_finite q"
    "dec_val (pc_pass_fraction c) \<le> dec_val q \<longleftrightarrow> dec_val (pc_pass_fraction c) * of_int (em_total_folds m) \<le> of_int (em_passed_folds m)"
    using share_decides [OF m(5) assms(5) c(5) assms(6) c(6,7)] by blast
  have "map fst (filter (\<lambda>check. \<not> snd check) (promotion_checks spec m c q)) = [] \<longleftrightarrow> promotable spec m c"
    using m c q(2,3) dec_abs_exact [OF m(3) assms(3)] dec_abs_exact [OF c(4) assms(4)]
    by (simp add: promotion_checks_def promotable_def)
  then show ?thesis by (simp add: evaluate_promotion_def q(1) PromotionDecision_def Let_def)
qed

definition wit_metrics :: experiment_metrics where
  "wit_metrics = \<lparr>em_validation_excess = Dec False 2 0, em_test_excess = Dec False 1 0, em_test_max_drawdown = Dec True 12 0,
     em_stressed_test_excess = Dec False 5 (-1), em_benchmark_return = Dec False 7 0, em_passed_folds = 2, em_total_folds = 3,
     em_deterministic_reproduction = True, em_universe_passed = True, em_survivorship_passed = True, em_calendar_passed = True,
     em_cost_model_passed = True\<rparr>"

definition wit_criteria :: promotion_criteria where
  "wit_criteria = \<lparr>pc_validation_excess = Dec False 1 0, pc_test_excess = Dec False 0 0, pc_stressed_test_excess = Dec False 0 0,
     pc_test_drawdown = Dec False 20 0, pc_pass_fraction = Dec False 67 (-2)\<rparr>"

theorem promotion_decided_exactly_witness:
  "\<exists>d spec. evaluate_promotion spec wit_metrics wit_criteria 0 = Inr d \<and> \<not> pd_eligible d"
proof -
  obtain spec :: experiment_spec where True by simp
  have m: "ExperimentMetrics wit_metrics = Inr wit_metrics" and c: "PromotionCriteria wit_criteria = Inr wit_criteria" by code_simp+
  have f: "fits 28 (dec_val (em_test_max_drawdown wit_metrics))" "fits 28 (dec_val (pc_test_drawdown wit_criteria))"
    using fits_int [of "-12" 28 0] fits_int [of 20 28 0] by (simp_all add: wit_metrics_def wit_criteria_def)
  have "em_total_folds wit_metrics < 10 ^ 12" "-12 \<le> dec_exp (pc_pass_fraction wit_criteria)"
    by (simp_all add: wit_metrics_def wit_criteria_def)
  moreover have "\<not> promotable spec wit_metrics wit_criteria"
    by (simp add: promotable_def wit_metrics_def wit_criteria_def power_int_def power2_eq_square)
  ultimately show ?thesis using promotion_decided_exactly [OF m c f, of spec 0] by blast
qed

end
