(* ===== verification/Experiments.thy ===== *)
theory Experiments
  imports Strategy Once "HOL-Library.Sublist"
begin

text \<open>
  \<open>src/strategy/registry.py\<close>: experiment manifests on disk and the registry of experiments and
  promotions. A path is a directory and a file name. A file is either the canonical text of a JSON
  document (as \<open>_atomic_json\<close> writes it) or other bytes, which \<open>json.loads\<close> refuses. Failing disks and
  permissions are not modelled.
\<close>

section \<open>Files\<close>

type_synonym path = "string \<times> string"

datatype file_content = JsonFile json | RawFile string

record disk =
  dk_dirs :: "string list"
  dk_files :: "(path \<times> file_content) list"

text \<open>\<open>strategy.domain.canonical_json\<close>: instants are written with their offset.\<close>

fun with_offsets :: "json \<Rightarrow> json" where
  "with_offsets (JTime t) = JStr (iso_text ''+00:00'' t)"
| "with_offsets (JArr vs) = JArr (map with_offsets vs)"
| "with_offsets (JObj kvs) = JObj (map (\<lambda>kv. (fst kv, with_offsets (snd kv))) kvs)"
| "with_offsets j = j"

definition strategy_text :: "json \<Rightarrow> string" where
  "strategy_text j = canonical_json (with_offsets j)"

fun file_bytes :: "file_content \<Rightarrow> string" where
  "file_bytes (JsonFile j) = strategy_text j @ [CHR 0x0A]"
| "file_bytes (RawFile b) = b"

definition sha256_file :: "digest \<Rightarrow> file_content \<Rightarrow> string" where
  "sha256_file H f = H (file_bytes f)"

abbreviation registry_error :: "string \<Rightarrow> error" where
  "registry_error m \<equiv> ExperimentRegistryError m"

definition metrics_json :: "experiment_metrics \<Rightarrow> json" where
  "metrics_json m = JObj
     [(''validation_excess_return_pct'', decimal_json (em_validation_excess m)), (''test_excess_return_pct'', decimal_json (em_test_excess m)),
      (''test_max_drawdown_pct'', decimal_json (em_test_max_drawdown m)),
      (''stressed_test_excess_return_pct'', decimal_json (em_stressed_test_excess m)),
      (''benchmark_return_pct'', decimal_json (em_benchmark_return m)), (''walk_forward_passed_folds'', JInt (em_passed_folds m)),
      (''walk_forward_total_folds'', JInt (em_total_folds m)), (''deterministic_reproduction'', JBool (em_deterministic_reproduction m)),
      (''point_in_time_universe_passed'', JBool (em_universe_passed m)),
      (''survivorship_checks_passed'', JBool (em_survivorship_passed m)), (''exchange_calendar_passed'', JBool (em_calendar_passed m)),
      (''cost_model_passed'', JBool (em_cost_model_passed m))]"

section \<open>Manifests\<close>

text \<open>A verified manifest: its metrics and the evidence files with their digests.\<close>

record manifest =
  mf_metrics :: json
  mf_artifacts :: "(string \<times> string) list"

definition evidence_name_ok :: "string list \<Rightarrow> string \<Rightarrow> bool" where
  "evidence_name_ok names name \<longleftrightarrow> name \<noteq> [] \<and> CHR ''/'' \<notin> set name \<and> name \<notin> {''.'', ''..'', ''experiment.json''} \<and> name \<notin> set names"

definition dict_get :: "(string \<times> json) list \<Rightarrow> string \<Rightarrow> json" where
  "dict_get kvs k = (case map_of kvs k of Some v \<Rightarrow> v | None \<Rightarrow> JNull)"

abbreviation malformed :: error where
  "malformed \<equiv> registry_error ''experiment artifact is missing or malformed''"

fun verified_evidence :: "digest \<Rightarrow> disk \<Rightarrow> string \<Rightarrow> string list \<Rightarrow> json list \<Rightarrow> (string \<times> string) list result" where
  "verified_evidence H d dir names [] = Inr []"
| "verified_evidence H d dir names (item # items) = (case item of
       JObj kvs \<Rightarrow> (case map_of kvs ''file'' of
           None \<Rightarrow> Inl malformed
         | Some (JStr name) \<Rightarrow>
             raiseIf (\<not> evidence_name_ok names name) (registry_error ''invalid experiment evidence filename'') (
             let failed = registry_error (''experiment evidence integrity failed: '' @ name) in
             bindR (of_option failed (map_of (dk_files d) (dir, name))) (\<lambda>evidence.
             bindR (of_option malformed (map_of kvs ''sha256'')) (\<lambda>digest.
             raiseIf (digest \<noteq> JStr (sha256_file H evidence)) failed (
             bindR (verified_evidence H d dir (name # names) items) (\<lambda>rest. Inr ((name, sha256_file H evidence) # rest))))))
         | Some _ \<Rightarrow> Inl (registry_error ''invalid experiment evidence filename''))
     | _ \<Rightarrow> Inl malformed)"

definition verified_artifact :: "digest \<Rightarrow> disk \<Rightarrow> path \<Rightarrow> experiment_spec \<Rightarrow> manifest result" where
  "verified_artifact H d p spec = (case map_of (dk_files d) p of
       Some (JsonFile (JObj kvs)) \<Rightarrow>
         raiseIf (dict_get kvs ''experiment_key'' \<noteq> JStr (es_experiment_key spec) \<or>
                  dict_get kvs ''experiment_id'' \<noteq> JStr (uuid_str (es_experiment_id spec)) \<or>
                  strategy_text (dict_get kvs ''spec'') \<noteq> strategy_text (spec_json spec))
           (registry_error ''experiment artifact identity collision'') (
         case dict_get kvs ''metrics'' of
           JObj ms \<Rightarrow> (case dict_get kvs ''artifacts'' of
               JArr items \<Rightarrow> bindR (verified_evidence H d (fst p) [] items) (\<lambda>evidence.
                 Inr \<lparr>mf_metrics = JObj ms, mf_artifacts = evidence\<rparr>)
             | _ \<Rightarrow> Inl (registry_error ''experiment artifact evidence list is missing''))
         | _ \<Rightarrow> Inl (registry_error ''experiment artifact metrics are missing''))
     | _ \<Rightarrow> Inl malformed)"

text \<open>Copying the sources of a new experiment; the entries of the manifest, in order.\<close>

fun copy_sources :: "digest \<Rightarrow> string \<Rightarrow> (string \<times> string) list \<Rightarrow> path list \<Rightarrow> disk \<Rightarrow> ((string \<times> string) list \<times> disk) result" where
  "copy_sources H dir copied [] d = Inr (copied, d)"
| "copy_sources H dir copied (source # sources) d =
     bindR (of_option (registry_error (''missing source artifact: '' @ snd source)) (map_of (dk_files d) source)) (\<lambda>content.
     raiseIf (snd source = ''experiment.json'' \<or> snd source \<in> set (map fst copied))
       (registry_error ''duplicate or reserved source artifact filename'') (
     copy_sources H dir (copied @ [(snd source, sha256_file H content)]) sources
       (d\<lparr>dk_files := dict_put (dk_files d) (dir, snd source) content\<rparr>)))"

definition manifest_json :: "experiment_spec \<Rightarrow> experiment_metrics \<Rightarrow> (string \<times> string) list \<Rightarrow> json" where
  "manifest_json spec m copied = JObj
     [(''schema_version'', JStr ''1.0''), (''experiment_id'', JStr (uuid_str (es_experiment_id spec))),
      (''experiment_key'', JStr (es_experiment_key spec)), (''spec'', spec_json spec), (''metrics'', metrics_json m),
      (''artifacts'', JArr (map (\<lambda>kv. JObj [(''file'', JStr (fst kv)), (''sha256'', JStr (snd kv))]) copied))]"

definition same_sources :: "digest \<Rightarrow> disk \<Rightarrow> (string \<times> string) list \<Rightarrow> path list \<Rightarrow> unit result" where
  "same_sources H d hashes sources =
     (let names = map snd sources in
      raiseIf (\<not> distinct names \<or> set names \<noteq> set (map fst hashes)) (registry_error ''immutable experiment source artifacts changed'') (
      bindR (mapR (\<lambda>source. case map_of (dk_files d) source of
          Some content \<Rightarrow> raiseIf (map_of hashes (snd source) \<noteq> Some (sha256_file H content))
            (registry_error (''immutable experiment source changed: '' @ snd source)) (Inr ())
        | None \<Rightarrow> Inl (registry_error (''immutable experiment source changed: '' @ snd source))) sources) (\<lambda>_. Inr ())))"

definition remove_dir :: "string \<Rightarrow> disk \<Rightarrow> disk" where
  "remove_dir dir d = d\<lparr>dk_dirs := filter (\<lambda>x. x \<noteq> dir) (dk_dirs d), dk_files := filter (\<lambda>f. fst (fst f) \<noteq> dir) (dk_files d)\<rparr>"

definition experiment_dir :: "string \<Rightarrow> experiment_spec \<Rightarrow> string" where
  "experiment_dir base spec = base @ ''/'' @ uuid_str (es_experiment_id spec)"

text \<open>An exception while copying removes the new directory, whatever was copied.\<close>

definition write_experiment_artifact ::
  "digest \<Rightarrow> string \<Rightarrow> experiment_spec \<Rightarrow> experiment_metrics \<Rightarrow> path list \<Rightarrow> disk \<Rightarrow> path result \<times> disk" where
  "write_experiment_artifact H base spec m sources d =
     (let dir = experiment_dir base spec; manifest_path = (dir, ''experiment.json'') in
      if map_of (dk_files d) manifest_path \<noteq> None then
        (bindR (verified_artifact H d manifest_path spec) (\<lambda>existing.
         raiseIf (strategy_text (mf_metrics existing) \<noteq> strategy_text (metrics_json m))
           (registry_error ''immutable experiment metrics changed'') (
         bindR (if sources = [] then Inr () else same_sources H d (mf_artifacts existing) sources) (\<lambda>_. Inr manifest_path))), d)
      else if dir \<in> set (dk_dirs d) then (Inl (PyFileExistsError dir), d)
      else let d1 = d\<lparr>dk_dirs := dk_dirs d @ [dir]\<rparr> in
        (case copy_sources H dir [] sources d1 of
           Inl e \<Rightarrow> (Inl e, remove_dir dir d1)
         | Inr (copied, d2) \<Rightarrow>
             (Inr manifest_path, d2\<lparr>dk_files := dict_put (dk_files d2) manifest_path (JsonFile (manifest_json spec m copied))\<rparr>)))"

section \<open>The registry\<close>

record experiment_row =
  er_experiment_id :: string
  er_experiment_key :: string
  er_strategy_version :: string
  er_payload :: json
  er_artifact_path :: path
  er_artifact_sha256 :: string
  er_recorded_at :: instant

record promotion_row =
  pr_promotion_id :: string
  pr_experiment_id :: string
  pr_strategy_version :: string
  pr_eligible :: bool
  pr_capability :: string
  pr_operator_id :: string
  pr_reasons :: "string list"
  pr_decided_at :: instant

record experiment_registry =
  rg_experiments :: "experiment_row list"
  rg_promotions :: "promotion_row list"

definition empty_registry :: experiment_registry where
  "empty_registry = \<lparr>rg_experiments = [], rg_promotions = []\<rparr>"

definition stable_replay_artifacts :: "string set" where
  "stable_replay_artifacts = {''historical_prices.csv'', ''walk_forward.csv''}"

definition resolve_identity :: "digest \<Rightarrow> experiment_spec \<Rightarrow> experiment_registry \<Rightarrow> experiment_spec result" where
  "resolve_identity H spec g = (case find_row (\<lambda>r. er_experiment_key r = es_experiment_key spec) (rg_experiments g) of
       None \<Rightarrow> Inr spec
     | Some r \<Rightarrow>
         let bad = registry_error ''stored experiment identity is malformed'' in
         bindR (of_option bad (uuid_of_string (er_experiment_id r))) (\<lambda>ident.
         bindR (case er_payload r of JObj kvs \<Rightarrow> (case map_of kvs ''created_at'' of Some (JTime t) \<Rightarrow> Inr t | _ \<Rightarrow> Inl bad) | _ \<Rightarrow> Inl bad) (\<lambda>created.
         bindR (case ExperimentSpec H (spec\<lparr>es_experiment_id := ident\<rparr>) (utc created) of Inl _ \<Rightarrow> Inl bad | Inr s \<Rightarrow> Inr s) (\<lambda>resolved.
         raiseIf (strategy_text (spec_json resolved) \<noteq> strategy_text (er_payload r)) (registry_error ''immutable experiment changed'') (
         Inr resolved)))))"

text \<open>The evidence that a replay must reproduce.\<close>

definition replay_evidence :: "manifest \<Rightarrow> (string \<times> string) set" where
  "replay_evidence m = {kv \<in> set (mf_artifacts m). fst kv \<in> stable_replay_artifacts}"

definition record_experiment ::
  "digest \<Rightarrow> disk \<Rightarrow> experiment_spec \<Rightarrow> path \<Rightarrow> instant \<Rightarrow> experiment_registry \<Rightarrow> unit result \<times> experiment_registry" where
  "record_experiment H d spec artifact now = transaction (\<lambda>g.
     bindR (of_option (registry_error ''experiment artifact is missing'') (map_of (dk_files d) artifact)) (\<lambda>content.
     bindR (verified_artifact H d artifact spec) (\<lambda>new_artifact.
     case find_row (\<lambda>r. er_experiment_key r = es_experiment_key spec) (rg_experiments g) of
       Some r \<Rightarrow>
         raiseIf (strategy_text (er_payload r) \<noteq> strategy_text (spec_json spec)) (registry_error ''immutable experiment changed'') (
         raiseIf (case map_of (dk_files d) (er_artifact_path r) of None \<Rightarrow> True | Some f \<Rightarrow> sha256_file H f \<noteq> er_artifact_sha256 r)
           (registry_error ''registered experiment artifact integrity failed'') (
         bindR (verified_artifact H d (er_artifact_path r) spec) (\<lambda>previous.
         raiseIf (strategy_text (mf_metrics previous) \<noteq> strategy_text (mf_metrics new_artifact))
           (registry_error ''immutable experiment metrics changed'') (
         raiseIf (replay_evidence previous \<noteq> replay_evidence new_artifact) (registry_error ''immutable experiment replay evidence changed'') (
         Inr ((), g))))))
     | None \<Rightarrow>
         raiseIf (\<not> key_free er_experiment_id (uuid_str (es_experiment_id spec)) (rg_experiments g))
           (IntegrityError ''UNIQUE constraint failed: experiments.experiment_id'') (
         Inr ((), g\<lparr>rg_experiments := rg_experiments g @
           [\<lparr>er_experiment_id = uuid_str (es_experiment_id spec), er_experiment_key = es_experiment_key spec,
             er_strategy_version = es_strategy_version spec, er_payload = spec_json spec, er_artifact_path = artifact,
             er_artifact_sha256 = sha256_file H content, er_recorded_at = now\<rparr>]\<rparr>)))))"

definition record_promotion ::
  "experiment_spec \<Rightarrow> promotion_decision \<Rightarrow> string \<Rightarrow> uuid \<Rightarrow> experiment_registry \<Rightarrow> uuid result \<times> experiment_registry" where
  "record_promotion spec decision operator_id promotion_id = transaction (\<lambda>g.
     let operator = py_strip operator_id in
     raiseIf (operator = []) (registry_error ''promotion requires operator identity'') (
     raiseIf (pd_experiment_id decision \<noteq> es_experiment_id spec) (registry_error ''promotion does not bind to experiment'') (
     raiseIf (find_row (\<lambda>r. er_experiment_id r = uuid_str (es_experiment_id spec)) (rg_experiments g) = None)
       (registry_error ''promotion references unknown experiment'') (
     raiseIf (\<not> key_free pr_promotion_id (uuid_str promotion_id) (rg_promotions g))
       (IntegrityError ''UNIQUE constraint failed: promotions.promotion_id'') (
     raiseIf (pd_capability decision \<noteq> ''advisory_only'') (IntegrityError ''CHECK constraint failed: capability'') (
     Inr (promotion_id, g\<lparr>rg_promotions := rg_promotions g @
       [\<lparr>pr_promotion_id = uuid_str promotion_id, pr_experiment_id = uuid_str (es_experiment_id spec),
         pr_strategy_version = es_strategy_version spec, pr_eligible = pd_eligible decision, pr_capability = pd_capability decision,
         pr_operator_id = operator, pr_reasons = pd_reasons decision, pr_decided_at = pd_decided_at decision\<rparr>]\<rparr>)))))))"

text \<open>\<open>ORDER BY decided_at DESC, promotion_id DESC LIMIT 1\<close>, the times as their ISO text.\<close>

definition promotion_rank :: "promotion_row \<Rightarrow> string \<times> string" where
  "promotion_rank r = (iso_text ''+00:00'' (pr_decided_at r), pr_promotion_id r)"

fun latest_row :: "promotion_row list \<Rightarrow> promotion_row option" where
  "latest_row [] = None"
| "latest_row (r # rs) = (case latest_row rs of None \<Rightarrow> Some r | Some s \<Rightarrow> Some (if promotion_rank s < promotion_rank r then r else s))"

definition latest_advisory_eligibility :: "string \<Rightarrow> experiment_registry \<Rightarrow> bool" where
  "latest_advisory_eligibility version g =
     (case latest_row (filter (\<lambda>r. pr_strategy_version r = version) (rg_promotions g)) of None \<Rightarrow> False | Some r \<Rightarrow> pr_eligible r)"

section \<open>Written artifacts verify\<close>

definition holds_evidence :: "digest \<Rightarrow> disk \<Rightarrow> string \<Rightarrow> (string \<times> string) list \<Rightarrow> bool" where
  "holds_evidence H d dir es \<longleftrightarrow> distinct (map fst es) \<and>
     list_all (\<lambda>e. map_option (sha256_file H) (map_of (dk_files d) (dir, fst e)) = Some (snd e) \<and> fst e \<noteq> ''experiment.json'') es"

lemma copy_sources_holds:
  "copy_sources H dir copied sources d = Inr (es, d') \<Longrightarrow> holds_evidence H d dir copied \<Longrightarrow>
     holds_evidence H d' dir es \<and> map fst es = map fst copied @ map snd sources \<and> dk_dirs d' = dk_dirs d"
proof (induction H dir copied sources d rule: copy_sources.induct)
  case (2 H dir copied source sources d)
  let ?put = "\<lambda>c. d\<lparr>dk_files := dict_put (dk_files d) (dir, snd source) c\<rparr>"
  obtain c where c: "map_of (dk_files d) source = Some c" and new: "snd source \<noteq> ''experiment.json''" "snd source \<notin> set (map fst copied)"
    and rest: "copy_sources H dir (copied @ [(snd source, sha256_file H c)]) sources (?put c) = Inr (es, d')"
    using "2.prems"(1) by auto
  have "holds_evidence H (?put c) dir (copied @ [(snd source, sha256_file H c)])"
    using "2.prems"(2) new by (force simp: holds_evidence_def list_all_iff map_of_dict_put)
  from "2.IH" [OF rest this] show ?case by simp
qed simp

abbreviation entry :: "string \<times> string \<Rightarrow> json" where
  "entry e \<equiv> JObj [(''file'', JStr (fst e)), (''sha256'', JStr (snd e))]"

lemma verified_evidence_holds:
  assumes "holds_evidence H d dir es" and "list_all (\<lambda>e. evidence_name_ok names (fst e)) es"
  shows "verified_evidence H d dir names (map entry es) = Inr es"
  using assms
proof (induction es arbitrary: names)
  case (Cons e es)
  obtain c where c: "map_of (dk_files d) (dir, fst e) = Some c" "snd e = sha256_file H c"
    using Cons.prems(1) by (auto simp: holds_evidence_def)
  have "list_all (\<lambda>x. evidence_name_ok (fst e # names) (fst x)) es"
    using Cons.prems by (auto simp: holds_evidence_def list_all_iff evidence_name_ok_def)
  then have "verified_evidence H d dir (fst e # names) (map entry es) = Inr es"
    using Cons.IH Cons.prems(1) by (simp add: holds_evidence_def)
  then show ?case using Cons.prems(2) c by (cases e) simp
qed simp

lemma write_new_artifact:
  assumes "write_experiment_artifact H base spec m sources d = (Inr p, d')" and "map_of (dk_files d) (experiment_dir base spec, ''experiment.json'') = None"
    and "list_all (\<lambda>s. evidence_name_ok [] (snd s)) sources"
  obtains es where "p = (experiment_dir base spec, ''experiment.json'')" "map_of (dk_files d') p = Some (JsonFile (manifest_json spec m es))"
    "map fst es = map snd sources" "verified_artifact H d' p spec = Inr \<lparr>mf_metrics = metrics_json m, mf_artifacts = es\<rparr>"
proof -
  let ?dir = "experiment_dir base spec" and ?d1 = "d\<lparr>dk_dirs := dk_dirs d @ [experiment_dir base spec]\<rparr>"
  obtain es d2 where run: "copy_sources H ?dir [] sources ?d1 = Inr (es, d2)"
    and p: "p = (?dir, ''experiment.json'')"
    and d': "d' = d2\<lparr>dk_files := dict_put (dk_files d2) p (JsonFile (manifest_json spec m es))\<rparr>"
    using assms(1,2) by (auto simp: write_experiment_artifact_def Let_def split: if_splits sum.splits)
  note es = copy_sources_holds [OF run]
  have held: "holds_evidence H d' ?dir es" and names: "map fst es = map snd sources"
    using es by (auto simp: holds_evidence_def d' p map_of_dict_put list_all_iff)
  have "list_all (evidence_name_ok []) (map fst es)" using assms(3) by (simp add: names list_all_iff)
  then have "verified_evidence H d' ?dir [] (map entry es) = Inr es"
    by (intro verified_evidence_holds [OF held]) (simp add: list_all_iff)
  moreover have stored: "map_of (dk_files d') p = Some (JsonFile (manifest_json spec m es))" by (simp add: d' map_of_dict_put)
  ultimately have "verified_artifact H d' p spec = Inr \<lparr>mf_metrics = metrics_json m, mf_artifacts = es\<rparr>"
    by (simp add: verified_artifact_def manifest_json_def dict_get_def metrics_json_def p)
  then show thesis using that p stored names by blast
qed

lemma ExperimentSpec_again:
  assumes "ExperimentSpec H raw created = Inr spec"
  shows "ExperimentSpec H spec (utc (es_created_at spec)) = Inr spec"
proof -
  have "sorted (es_parameters spec)" using assms by (auto simp: ExperimentSpec_def Let_def immutable_pairs_def)
  then show ?thesis using assms by (auto simp: ExperimentSpec_def Let_def split: pydatetime.splits)
qed

text \<open>
  C37: an experiment whose artifact was written into a new directory verifies, is recorded, and is
  recognised: recording it again changes nothing, and any specification with the same content,
  whatever its own identifier and creation time, resolves to the recorded one.
\<close>

theorem experiment_recorded_and_resolved:
  assumes "ExperimentSpec H raw created = Inr spec" and "write_experiment_artifact H base spec m sources d = (Inr p, d')"
    and "map_of (dk_files d) (experiment_dir base spec, ''experiment.json'') = None"
    and "list_all (\<lambda>s. evidence_name_ok [] (snd s)) sources"
    and "key_free er_experiment_key (es_experiment_key spec) (rg_experiments g)"
    and "key_free er_experiment_id (uuid_str (es_experiment_id spec)) (rg_experiments g)"
  shows "\<exists>g' r. record_experiment H d' spec p now g = (Inr (), g') \<and> rg_experiments g' = rg_experiments g @ [r] \<and>
    rg_promotions g' = rg_promotions g \<and> record_experiment H d' spec p later g' = (Inr (), g') \<and>
    resolve_identity H (spec\<lparr>es_experiment_id := other, es_created_at := whenever\<rparr>) g' = Inr spec"
proof -
  obtain es where p: "map_of (dk_files d') p = Some (JsonFile (manifest_json spec m es))"
    and v: "verified_artifact H d' p spec = Inr \<lparr>mf_metrics = metrics_json m, mf_artifacts = es\<rparr>"
    by (rule write_new_artifact [OF assms(2-4)])
  define r where "r = \<lparr>er_experiment_id = uuid_str (es_experiment_id spec), er_experiment_key = es_experiment_key spec,
    er_strategy_version = es_strategy_version spec, er_payload = spec_json spec, er_artifact_path = p,
    er_artifact_sha256 = sha256_file H (JsonFile (manifest_json spec m es)), er_recorded_at = now\<rparr>"
  define g' where "g' = g\<lparr>rg_experiments := rg_experiments g @ [r]\<rparr>"
  have none: "find_row (\<lambda>r. er_experiment_key r = es_experiment_key spec) (rg_experiments g) = None"
    using assms(5) by (auto simp: find_row_None key_free_iff)
  have some: "find_row (\<lambda>r. er_experiment_key r = es_experiment_key spec) (rg_experiments g') = Some r"
    by (simp add: g'_def find_row_append none r_def)
  have first: "record_experiment H d' spec p now g = (Inr (), g')"
    unfolding record_experiment_def transaction_Inr by (simp add: p v none assms(6) g'_def r_def)
  have again: "record_experiment H d' spec p later g' = (Inr (), g')"
    unfolding record_experiment_def transaction_Inr by (simp add: p v some) (simp add: r_def p v)
  have same: "ExperimentSpec H (spec\<lparr>es_experiment_id := es_experiment_id spec, es_created_at := whenever\<rparr>) (utc (es_created_at spec)) = Inr spec"
    using ExperimentSpec_again [OF assms(1)] by (simp add: ExperimentSpec_def Let_def)
  have "resolve_identity H (spec\<lparr>es_experiment_id := other, es_created_at := whenever\<rparr>) g' = Inr spec"
    using same by (simp add: resolve_identity_def some Let_def) (simp add: r_def spec_json_def)
  with first again show ?thesis by (intro exI [of _ g'] exI [of _ r]) (simp add: g'_def)
qed

definition wit_spec :: experiment_spec where
  "wit_spec = \<lparr>es_experiment_id = 7, es_experiment_key = ''h'', es_strategy_version = ''v1'', es_data_snapshot_id = ''s'',
     es_universe_checksum = ''u'', es_code_revision = ''r'', es_environment = ''demo'', es_parameters = [(''a'', ''1'')],
     es_splits = [\<lparr>sw_fold = 1, sw_train_start = 1, sw_train_end = 2, sw_validation_start = 3, sw_validation_end = 3, sw_test_start = 4, sw_test_end = 5\<rparr>],
     es_cost_model = \<lparr>cm_spread_bps = dec1, cm_slippage_bps = dec1, cm_fee_bps = dec0, cm_tax_bps = dec0, cm_stress_multiplier = dec1\<rparr>,
     es_tuned_on_partition = ''validation'', es_created_at = 5, es_schema_version = ''1.0''\<rparr>"

theorem experiment_recorded_and_resolved_witness:
  "\<exists>g. rg_experiments g \<noteq> [] \<and> resolve_identity (\<lambda>_. ''h'') (wit_spec\<lparr>es_experiment_id := 9, es_created_at := 6\<rparr>) g = Inr wit_spec"
proof -
  let ?H = "\<lambda>_ :: string. ''h''" and ?d = "\<lparr>dk_dirs = [], dk_files = []\<rparr>"
  have spec: "ExperimentSpec ?H wit_spec (utc 5) = Inr wit_spec"
    by (simp add: ExperimentSpec_def Let_def wit_spec_def immutable_pairs_def content_hash_def blank_def py_strip_def py_isspace_def)
  obtain p d' where w: "write_experiment_artifact ?H ''b'' wit_spec wit_metrics [] ?d = (Inr p, d')"
    by (simp add: write_experiment_artifact_def Let_def)
  obtain g r where "rg_experiments g = rg_experiments empty_registry @ [r]"
    "resolve_identity ?H (wit_spec\<lparr>es_experiment_id := 9, es_created_at := 6\<rparr>) g = Inr wit_spec"
    using experiment_recorded_and_resolved [OF spec w, of empty_registry 0 0 6 9] by (auto simp: empty_registry_def key_free_iff)
  then show ?thesis by (intro exI [of _ g]) simp
qed

section \<open>The registry only grows\<close>

datatype registry_call =
    RecordExperiment disk experiment_spec path instant
  | RecordPromotion experiment_spec promotion_decision string uuid

fun registry_exec :: "digest \<Rightarrow> registry_call \<Rightarrow> experiment_registry \<Rightarrow> experiment_registry" where
  "registry_exec H (RecordExperiment d spec p now) g = snd (record_experiment H d spec p now g)"
| "registry_exec H (RecordPromotion spec decision operator ident) g = snd (record_promotion spec decision operator ident g)"

definition promotion_ok :: "experiment_row list \<Rightarrow> promotion_row \<Rightarrow> bool" where
  "promotion_ok es r \<longleftrightarrow> pr_capability r = ''advisory_only'' \<and> pr_operator_id r \<noteq> [] \<and> pr_experiment_id r \<in> set (map er_experiment_id es)"

definition registry_ok :: "experiment_registry \<Rightarrow> bool" where
  "registry_ok g \<longleftrightarrow> unique_by er_experiment_id (rg_experiments g) \<and> unique_by er_experiment_key (rg_experiments g) \<and>
     unique_by pr_promotion_id (rg_promotions g) \<and> list_all (promotion_ok (rg_experiments g)) (rg_promotions g)"

definition registry_grows :: "experiment_registry \<Rightarrow> experiment_registry \<Rightarrow> bool" where
  "registry_grows g g' \<longleftrightarrow> prefix (rg_experiments g) (rg_experiments g') \<and> prefix (rg_promotions g) (rg_promotions g')"

lemma promotion_ok_append: "promotion_ok es r \<Longrightarrow> promotion_ok (es @ fs) r"
  by (auto simp: promotion_ok_def)

lemma record_experiment_Inr:
  assumes "record_experiment H d spec p now g = (Inr (), g')"
  shows "g' = g \<or> (\<exists>r. g' = g\<lparr>rg_experiments := rg_experiments g @ [r]\<rparr> \<and> key_free er_experiment_id (er_experiment_id r) (rg_experiments g) \<and>
    key_free er_experiment_key (er_experiment_key r) (rg_experiments g))"
proof (cases "find_row (\<lambda>r. er_experiment_key r = es_experiment_key spec) (rg_experiments g)")
  case None
  then have "key_free er_experiment_key (es_experiment_key spec) (rg_experiments g)" by (auto simp: find_row_None key_free_iff)
  then show ?thesis using assms None unfolding record_experiment_def transaction_Inr by auto
next
  case (Some r)
  then show ?thesis using assms unfolding record_experiment_def transaction_Inr by auto
qed

lemma record_promotion_Inr:
  assumes "record_promotion spec decision operator ident g = (Inr x, g')"
  shows "\<exists>r. g' = g\<lparr>rg_promotions := rg_promotions g @ [r]\<rparr> \<and> key_free pr_promotion_id (pr_promotion_id r) (rg_promotions g) \<and>
    promotion_ok (rg_experiments g) r"
proof -
  have "find_row (\<lambda>r. er_experiment_id r = uuid_str (es_experiment_id spec)) (rg_experiments g) \<noteq> None"
    using assms unfolding record_promotion_def transaction_Inr by (auto simp: Let_def)
  then have "uuid_str (es_experiment_id spec) \<in> set (map er_experiment_id (rg_experiments g))"
    unfolding find_row_None set_map by (auto intro: rev_image_eqI)
  then show ?thesis
    using assms unfolding record_promotion_def transaction_Inr by (auto simp: Let_def promotion_ok_def)
qed

lemma registry_step:
  assumes "registry_ok g"
  shows "registry_ok (registry_exec H c g) \<and> registry_grows g (registry_exec H c g)"
proof (cases c)
  case (RecordExperiment d spec p now)
  show ?thesis unfolding RecordExperiment registry_exec.simps
  proof (rule keep_or_commit [where s = g])
    fix e s' assume "record_experiment H d spec p now g = (Inl e, s')" then show "s' = g" by (simp add: record_experiment_def)
  next
    fix x s' assume run: "record_experiment H d spec p now g = (Inr x, s')"
    then show "registry_ok s' \<and> registry_grows g s'"
      using record_experiment_Inr [of H d spec p now g s'] assms promotion_ok_append
      by (auto simp: registry_ok_def registry_grows_def unique_by_append list_all_iff)
  qed (use assms in \<open>simp add: registry_grows_def\<close>)
next
  case (RecordPromotion spec decision operator ident)
  show ?thesis unfolding RecordPromotion registry_exec.simps
  proof (rule keep_or_commit [where s = g])
    fix e s' assume "record_promotion spec decision operator ident g = (Inl e, s')" then show "s' = g" by (simp add: record_promotion_def)
  next
    fix x s' assume run: "record_promotion spec decision operator ident g = (Inr x, s')"
    then show "registry_ok s' \<and> registry_grows g s'"
      using record_promotion_Inr [OF run] assms by (auto simp: registry_ok_def registry_grows_def unique_by_append)
  qed (use assms in \<open>simp add: registry_grows_def\<close>)
qed

interpretation experiments: invariant_calls "registry_exec H" "\<lambda>_. True" "\<lambda>g. registry_ok g \<and> registry_grows g0 g" for H g0
proof unfold_locales
  fix g c assume "registry_ok g \<and> registry_grows g0 g"
  then show "registry_ok (registry_exec H c g) \<and> registry_grows g0 (registry_exec H c g)"
    using registry_step [of g H c] unfolding registry_grows_def by (blast intro: prefix_order.trans)
qed

lemma latest_row_max: "latest_row rs = Some r \<Longrightarrow> r \<in> set rs \<and> (\<forall>s\<in>set rs. promotion_rank s \<le> promotion_rank r)"
proof (induction rs arbitrary: r)
  case (Cons x rs)
  show ?case
  proof (cases "latest_row rs")
    case None
    then have "rs = []" by (cases rs) (auto split: option.splits)
    then show ?thesis using Cons.prems by simp
  next
    case (Some s)
    then show ?thesis using Cons.IH [OF Some] Cons.prems by (auto simp: not_less split: if_splits intro: order_trans)
  qed
qed simp

lemma eligible_row:
  assumes "latest_advisory_eligibility version g"
  obtains r where "r \<in> set (rg_promotions g)" "pr_strategy_version r = version" "pr_eligible r"
    "\<forall>s\<in>set (rg_promotions g). pr_strategy_version s = version \<longrightarrow> promotion_rank s \<le> promotion_rank r"
proof -
  obtain r where "latest_row (filter (\<lambda>r. pr_strategy_version r = version) (rg_promotions g)) = Some r" "pr_eligible r"
    using assms by (auto simp: latest_advisory_eligibility_def split: option.splits)
  then show thesis using that latest_row_max [of _ r] by fastforce
qed

text \<open>
  C36: over any sequence of recordings the registry only grows, experiments keep their unique
  identifier and key, and a strategy version is eligible only through its latest promotion,
  which an identified operator recorded as eligible, for advisory use, of a stored experiment.
\<close>

theorem experiment_registry_sound:
  assumes "registry_ok g0"
  shows "registry_ok (run_calls (registry_exec H) calls g0) \<and> registry_grows g0 (run_calls (registry_exec H) calls g0) \<and>
    (latest_advisory_eligibility version (run_calls (registry_exec H) calls g0) \<longrightarrow>
      (\<exists>r\<in>set (rg_promotions (run_calls (registry_exec H) calls g0)). pr_strategy_version r = version \<and> pr_eligible r \<and>
        promotion_ok (rg_experiments (run_calls (registry_exec H) calls g0)) r \<and>
        (\<forall>s\<in>set (rg_promotions (run_calls (registry_exec H) calls g0)). pr_strategy_version s = version \<longrightarrow> promotion_rank s \<le> promotion_rank r)))"
proof -
  let ?g = "run_calls (registry_exec H) calls g0"
  have inv: "registry_ok ?g \<and> registry_grows g0 ?g"
    using experiments.inv_run [of g0 g0 calls H] assms by (simp add: registry_grows_def list_all_iff)
  then show ?thesis by (auto simp: registry_ok_def list_all_iff elim!: eligible_row)
qed

definition wit_registry :: experiment_registry where
  "wit_registry = \<lparr>rg_experiments = [\<lparr>er_experiment_id = ''e'', er_experiment_key = ''k'', er_strategy_version = ''v'', er_payload = JNull,
       er_artifact_path = (''d'', ''f''), er_artifact_sha256 = ''h'', er_recorded_at = 0\<rparr>],
     rg_promotions = [\<lparr>pr_promotion_id = ''p'', pr_experiment_id = ''e'', pr_strategy_version = ''v'', pr_eligible = True,
       pr_capability = ''advisory_only'', pr_operator_id = ''op'', pr_reasons = [], pr_decided_at = 0\<rparr>]\<rparr>"

theorem experiment_registry_sound_witness:
  "registry_ok wit_registry \<and> latest_advisory_eligibility ''v'' wit_registry \<and> (\<exists>r. r \<in> set (rg_promotions wit_registry) \<and> pr_eligible r)"
proof -
  have ok: "registry_ok wit_registry" by (simp add: registry_ok_def wit_registry_def unique_by_def promotion_ok_def)
  have el: "latest_advisory_eligibility ''v'' wit_registry" by (simp add: latest_advisory_eligibility_def wit_registry_def)
  show ?thesis using experiment_registry_sound [OF ok, of "\<lambda>_. []" "[]" "''v''"] ok el by auto
qed

end
