(* ===== verification/Pilot_Policy.thy ===== *)
theory Pilot_Policy
  imports Pilot_Budget Py_Render
begin

text \<open>
  \<open>src/execution/pilot_policy.py\<close>: the reviewed instrument catalog, whole-account exposures and
  breaches, opening costs of a preview, and the assessment of a pilot order. Broker responses are
  taken as decoded by \<open>response_object\<close>; a decimal of a response is \<open>None\<close> when it is missing.
\<close>

abbreviation policy_error :: "string \<Rightarrow> error" where
  "policy_error m \<equiv> PilotPolicyError m"

section \<open>Exact helpers\<close>

definition zero_foreign_recurring_cost :: "string \<Rightarrow> string \<Rightarrow> decimal \<Rightarrow> bool" where
  "zero_foreign_recurring_cost kind currency v \<longleftrightarrow>
     kind \<in> {''overnightFee'', ''overWeekendFee''} \<and> currency \<in> {''GBP'', ''EUR''} \<and> dec_eq v dec0"

fun dec_digits :: "decimal \<Rightarrow> nat" where
  "dec_digits (Dec s c e) = ndigits c"
| "dec_digits _ = 1"

definition multiply :: "decimal \<Rightarrow> decimal \<Rightarrow> decimal" where
  "multiply left right = dec_mul (max 50 (dec_digits left + dec_digits right + 2)) left right"

fun dec_copy_abs :: "decimal \<Rightarrow> decimal" where
  "dec_copy_abs (Dec s c e) = Dec False c e"
| "dec_copy_abs (DInf s) = DInf False"
| "dec_copy_abs DNaN = DNaN"

definition evidence_number :: "decimal option \<Rightarrow> string \<Rightarrow> decimal result" where
  "evidence_number v name = (case v of
       None \<Rightarrow> Inl (ConnectorEvidenceError (name @ ''_unknown''))
     | Some d \<Rightarrow> raiseIf (\<not> is_finite d) (ConnectorEvidenceError (name @ ''_invalid'')) (Inr d))"

section \<open>The catalog\<close>

record pilot_classification =
  pk_instrument_id :: int
  pk_symbol :: string
  pk_issuer :: string
  pk_sector :: string
  pk_asset_type :: string
  pk_source_reference :: string

record pilot_catalog =
  ct_items :: "pilot_classification list"
  ct_metadata :: json
  ct_source_hash :: string

definition classification_json :: "pilot_classification \<Rightarrow> json" where
  "classification_json c = JObj
     [(''instrument_id'', JInt (pk_instrument_id c)), (''symbol'', JStr (pk_symbol c)), (''issuer'', JStr (pk_issuer c)),
      (''sector'', JStr (pk_sector c)), (''asset_type'', JStr (pk_asset_type c)), (''source_reference'', JStr (pk_source_reference c))]"

definition catalog_hash :: "digest \<Rightarrow> pilot_classification list \<Rightarrow> json \<Rightarrow> string" where
  "catalog_hash H items raw = payload_hash H (JObj [(''classifications'', JArr (map classification_json items)), (''metadata'', raw)])"

text \<open>\<open>row.get(k)\<close>, of a value that may be no dict.\<close>

fun get_field :: "json \<Rightarrow> string \<Rightarrow> json result" where
  "get_field (JObj kvs) k = Inr (member kvs k)"
| "get_field _ k = Inl (PyAttributeError ''get'')"

fun hashable :: "json \<Rightarrow> bool" where
  "hashable (JArr _) = False"
| "hashable (JObj _) = False"
| "hashable _ = True"

fun broker_asset_type :: "json \<Rightarrow> string option" where
  "broker_asset_type (JStr t) = map_of [(''Stocks'', ''equity''), (''ETF'', ''etf''), (''Crypto'', ''crypto'')] t"
| "broker_asset_type _ = None"

definition find_item :: "pilot_classification list \<Rightarrow> int \<Rightarrow> pilot_classification option" where
  "find_item items i = find_row (\<lambda>c. pk_instrument_id c = i) items"

definition reviewed_row :: "pilot_classification list \<Rightarrow> json \<Rightarrow> unit result" where
  "reviewed_row items row =
     bindR (get_field row ''instrumentId'') (\<lambda>i.
     bindR (of_option (PyKeyError ''instrumentId'') (case i of JInt n \<Rightarrow> find_item items n | _ \<Rightarrow> None)) (\<lambda>item.
     bindR (get_field row ''symbol'') (\<lambda>sym.
     bindR (get_field row ''type'') (\<lambda>kind.
     raiseIf (sym \<noteq> JStr (pk_symbol item) \<or> broker_asset_type kind \<noteq> Some (pk_asset_type item) \<or>
              pk_issuer item = [] \<or> pk_sector item = [] \<or> pk_source_reference item = [])
       (policy_error ''reviewed_instrument_classification_required'') (Inr ())))))"

definition PilotCatalog :: "digest \<Rightarrow> pilot_classification list \<Rightarrow> json \<Rightarrow> pilot_catalog result" where
  "PilotCatalog H classifications raw =
     bindR (get_field raw ''results'') (\<lambda>results.
     case results of
       JArr rows \<Rightarrow>
         bindR (case raw of JObj kvs \<Rightarrow> (case map_of kvs ''pagination'' of None \<Rightarrow> Inr JNull | Some p \<Rightarrow> get_field p ''hasNext'') | _ \<Rightarrow> Inr JNull) (\<lambda>more.
         raiseIf (more \<noteq> JBool False) (policy_error ''complete_instrument_metadata_required'') (
         raiseIf (\<not> distinct (map pk_instrument_id classifications)) (policy_error ''duplicate_instrument_metadata'') (
         bindR (mapR (\<lambda>row. get_field row ''instrumentId'') rows) (\<lambda>ids.
         raiseIf (list_ex (\<lambda>i. \<not> hashable i) ids) (PyTypeError ''unhashable type'') (
         raiseIf (\<not> distinct ids) (policy_error ''duplicate_instrument_metadata'') (
         raiseIf (set (map (JInt \<circ> pk_instrument_id) classifications) \<noteq> set ids)
           (policy_error ''classification_metadata_coverage_mismatch'') (
         bindR (mapR (reviewed_row classifications) rows) (\<lambda>_.
         Inr \<lparr>ct_items = classifications, ct_metadata = raw, ct_source_hash = catalog_hash H classifications raw\<rparr>))))))))
     | _ \<Rightarrow> Inl (policy_error ''complete_instrument_metadata_required''))"

definition validate_catalog :: "digest \<Rightarrow> pilot_catalog \<Rightarrow> unit result" where
  "validate_catalog H c = raiseIf (ct_source_hash c \<noteq> catalog_hash H (ct_items c) (ct_metadata c))
     (policy_error ''classification_evidence_changed'') (Inr ())"

section \<open>Exposures\<close>

definition add_exposure :: "(string \<times> decimal) list \<Rightarrow> string \<Rightarrow> decimal \<Rightarrow> (string \<times> decimal) list" where
  "add_exposure d k x = dict_put d k (accounting_sum [case map_of d k of Some v \<Rightarrow> v | None \<Rightarrow> dec0, x])"

fun sum_exposures ::
  "pilot_classification list \<Rightarrow> (string \<times> decimal) list \<Rightarrow> (string \<times> decimal) list \<Rightarrow> pilot_position list \<Rightarrow>
   ((string \<times> decimal) list \<times> (string \<times> decimal) list) result" where
  "sum_exposures items issuers sectors [] = Inr (issuers, sectors)"
| "sum_exposures items issuers sectors (p # ps) =
     bindR (of_option (policy_error ''whole_account_classification_incomplete'') (find_item items (pp_instrument_id p))) (\<lambda>item.
     sum_exposures items (add_exposure issuers (pk_issuer item) (dec_copy_abs (pp_exposure p)))
       (add_exposure sectors (pk_sector item) (dec_copy_abs (pp_exposure p))) ps)"

definition exposures :: "digest \<Rightarrow> pilot_catalog \<Rightarrow> pilot_account \<Rightarrow> ((string \<times> decimal) list \<times> (string \<times> decimal) list) result" where
  "exposures H c account = bindR (validate_catalog H c) (\<lambda>_. sum_exposures (ct_items c) [] [] (pa_positions account))"

datatype legacy_breach =
    LimitBreach string decimal decimal
  | ScopeBreach string string int decimal bool

definition limit_breaches :: "(string \<times> decimal \<times> decimal) list \<Rightarrow> legacy_breach list" where
  "limit_breaches rows = map (\<lambda>(name, seen, limit). LimitBreach name seen limit) (filter (\<lambda>(name, seen, limit). dec_lt limit seen) rows)"

fun scope_breach :: "pilot_classification list \<Rightarrow> pilot_position \<Rightarrow> legacy_breach list result" where
  "scope_breach items p = bindR (of_option (PyKeyError ''instrument_id'') (find_item items (pp_instrument_id p))) (\<lambda>item.
     Inr (if pk_asset_type item \<notin> {''equity'', ''etf''} \<or> pp_settlement_type p \<noteq> 1 \<or> \<not> dec_eq (pp_leverage p) dec1 \<or> \<not> pp_is_buy p
          then [ScopeBreach (pp_position_id p) (pk_asset_type item) (pp_settlement_type p) (pp_leverage p) (pp_is_buy p)] else []))"

abbreviation half :: decimal where "half \<equiv> Dec False 5 (-1)"
abbreviation fifth :: decimal where "fifth \<equiv> Dec False 2 (-1)"
abbreviation twentieth :: decimal where "twentieth \<equiv> Dec False 5 (-2)"

definition legacy_breaches :: "digest \<Rightarrow> pilot_catalog \<Rightarrow> pilot_account \<Rightarrow> legacy_breach list result" where
  "legacy_breaches H c account =
     bindR (exposures H c account) (\<lambda>(issuers, sectors).
     let ps = pa_positions account; equity = pa_equity account;
         gross = accounting_sum (map (\<lambda>p. dec_copy_abs (pp_exposure p)) ps);
         net = accounting_sum (map (\<lambda>p. if pp_is_buy p then pp_exposure p else dec_copy_negate (pp_exposure p)) ps);
         rows = [(''gross'', gross, multiply equity half), (''absolute_net'', dec_copy_abs net, multiply equity half)] @
           map (\<lambda>kv. (''issuer:'' @ fst kv, snd kv, multiply equity twentieth)) issuers @
           map (\<lambda>kv. (''sector:'' @ fst kv, snd kv, multiply equity fifth)) sectors in
     bindR (mapR (scope_breach (ct_items c)) ps) (\<lambda>scopes. Inr (limit_breaches rows @ concat scopes)))"

section \<open>Preview costs\<close>

record cost_item =
  ci_kind :: string
  ci_value :: "decimal option"
  ci_currency :: "string option"

record preview =
  pv_costs :: "cost_item list"
  pv_total_upfront :: "decimal option"
  pv_ask :: "decimal option"
  pv_bid :: "decimal option"
  pv_estimated_units :: "decimal option"

text \<open>One pass over the cost components; a currency that is absent is the empty text, one that is no text is \<open>None\<close>.\<close>

fun cash_costs :: "string list \<Rightarrow> decimal \<Rightarrow> cost_item list \<Rightarrow> decimal result" where
  "cash_costs seen cash [] = Inr cash"
| "cash_costs seen cash (i # items) =
     (let kind = ci_kind i; recurring = {''overnightFee'', ''overWeekendFee''} in
      raiseIf (kind \<in> set seen \<or> kind \<notin> {''transactionFee'', ''markup'', ''marketSpread'', ''sdrt''} \<union> recurring)
        (policy_error ''cost_component_unknown_or_duplicate'') (
      bindR (evidence_number (ci_value i) ''cost'') (\<lambda>v.
      raiseIf (case ci_currency i of None \<Rightarrow> True
               | Some cur \<Rightarrow> dec_lt v dec0 \<or> py_upper cur \<noteq> ''USD'' \<and> \<not> zero_foreign_recurring_cost kind cur v)
        (policy_error ''usd_nonnegative_cost_required'') (
      raiseIf (kind \<in> recurring \<and> \<not> dec_eq v dec0) (policy_error ''recurring_cost_requires_separate_evidence'') (
      cash_costs (kind # seen) (if kind \<in> recurring \<union> {''marketSpread''} then cash else accounting_sum [cash, v]) items)))))"

definition preview_costs :: "preview \<Rightarrow> (decimal \<times> decimal) result" where
  "preview_costs c =
     raiseIf (pv_costs c = []) (policy_error ''explicit_opening_cost_breakdown_required'') (
     bindR (cash_costs [] dec0 (pv_costs c)) (\<lambda>cash.
     bindR (evidence_number (pv_total_upfront c) ''upfront_cost'') (\<lambda>upfront.
     raiseIf (\<not> dec_eq upfront cash) (policy_error ''upfront_cost_breakdown_mismatch'') (
     bindR (evidence_number (pv_ask c) ''ask'') (\<lambda>ask.
     bindR (evidence_number (pv_bid c) ''bid'') (\<lambda>bid.
     bindR (evidence_number (pv_estimated_units c) ''estimated_units'') (\<lambda>units.
     raiseIf (dec_lt ask bid \<or> dec_le bid dec0 \<or> dec_le units dec0) (policy_error ''invalid_preview_quote'') (
     bindR (mapR (\<lambda>i. evidence_number (ci_value i) ''spread'') (filter (\<lambda>i. ci_kind i = ''marketSpread'') (pv_costs c))) (\<lambda>explicit.
     Inr (upfront, accounting_sum [upfront, dec_max (multiply units (difference ask [bid])) (accounting_sum explicit)]))))))))))"

section \<open>The assessment\<close>

record pilot_assessment =
  ps_eligible :: bool
  ps_checks :: "(string \<times> bool) list"
  ps_opening_capital :: decimal
  ps_cash_after :: decimal
  ps_legacy_breaches :: "legacy_breach list"
  ps_catalog_hash :: string

definition pilot_checks ::
  "pilot_account \<Rightarrow> pilot_ledger \<Rightarrow> pilot_state \<Rightarrow> (string \<times> decimal) list \<Rightarrow> string \<Rightarrow> decimal \<Rightarrow> string \<Rightarrow> (string \<times> bool) list" where
  "pilot_checks account lg st issuers issuer commitment day =
     [(''order_cap'', dec_le commitment (dec_of_int 100)),
      (''capital_cap'', dec_le (accounting_sum [committed_capital lg st, commitment]) (dec_of_int 500)),
      (''position_cap'', position_count lg st < 5),
      (''cash_buffer'', dec_le (multiply (pa_equity account) (Dec False 20 (-2))) (difference (pa_cash account) [commitment])),
      (''issuer_cap'', dec_le (accounting_sum [case map_of issuers issuer of Some v \<Rightarrow> v | None \<Rightarrow> dec0, commitment])
         (multiply (pa_equity account) twentieth)),
      (''loss_stop'', \<not> ps_loss_stopped st \<and> dec_lt (Dec True 25 0) (ps_pnl st)),
      (''reconciled'', \<not> unresolved lg st),
      (''daily_submission'', day \<notin> set (map cl_london_day (lg_submissions lg)))]"

definition evaluate_pilot ::
  "digest \<Rightarrow> (pilot_account \<Rightarrow> instant \<Rightarrow> unit result) \<Rightarrow> (instant \<Rightarrow> string) \<Rightarrow> pilot_account \<Rightarrow> pilot_ledger \<Rightarrow> pilot_state \<Rightarrow>
   pilot_catalog \<Rightarrow> int \<Rightarrow> decimal \<Rightarrow> decimal \<Rightarrow> instant \<Rightarrow> pilot_assessment result" where
  "evaluate_pilot H fresh day_of account lg st catalog instrument_id amount expected_costs now =
     bindR (fresh account now) (\<lambda>_.
     raiseIf (pa_account_id account \<noteq> in_account_id (lg_inception lg)) (policy_error ''pilot_account_mismatch'') (
     bindR (evidence_number (Some amount) ''amount'') (\<lambda>amount.
     bindR (evidence_number (Some expected_costs) ''expected_costs'') (\<lambda>costs.
     raiseIf (dec_le amount dec0 \<or> dec_lt costs dec0) (policy_error ''positive_principal_nonnegative_cost_required'') (
     bindR (of_option (policy_error ''eligible_equity_or_etf_required'') (find_item (ct_items catalog) instrument_id)) (\<lambda>candidate.
     raiseIf (pk_asset_type candidate \<notin> {''equity'', ''etf''}) (policy_error ''eligible_equity_or_etf_required'') (
     bindR (exposures H catalog account) (\<lambda>(issuers, _).
     let commitment = accounting_sum [amount, costs];
         checks = pilot_checks account lg st issuers (pk_issuer candidate) commitment (day_of now) in
     bindR (legacy_breaches H catalog account) (\<lambda>breaches.
     Inr \<lparr>ps_eligible = list_all snd checks, ps_checks = checks, ps_opening_capital = commitment,
       ps_cash_after = difference (pa_cash account) [commitment], ps_legacy_breaches = breaches, ps_catalog_hash = ct_source_hash catalog\<rparr>)))))))))"

section \<open>The assessment is exact\<close>

lemma multiply_val:
  assumes "is_finite a" and "is_finite b"
  shows "is_finite (multiply a b)" and "dec_val (multiply a b) = dec_val a * dec_val b"
proof -
  obtain s c e s' c' e' where ab: "a = Dec s c e" "b = Dec s' c' e'" using assms by (cases a; cases b) auto
  let ?p = "max 50 (dec_digits a + dec_digits b + 2)" and ?k = "(if s = s' then 1 else - 1) * (int c * int c')"
  show "is_finite (multiply a b)" by (simp add: multiply_def dec_mul_def ab)
  have "c * c' < 10 ^ ndigits c * 10 ^ ndigits c'" using ndigits_upper [of c] ndigits_upper [of c'] by (intro mult_strict_mono) auto
  also have "\<dots> \<le> 10 ^ ?p" unfolding power_add [symmetric] by (rule power_increasing) (simp_all add: ab)
  finally have "int (c * c') < int (10 ^ ?p)" by (simp only: of_nat_less_iff)
  then have "\<bar>?k\<bar> < 10 ^ ?p" by (simp add: abs_mult)
  moreover have "dec_val a * dec_val b = of_int ?k * 10 powi (e + e')" by (simp add: ab power_int_add)
  ultimately have "fits ?p (dec_val a * dec_val b)" using fits_int by metis
  then show "dec_val (multiply a b) = dec_val a * dec_val b"
    unfolding multiply_def by (intro dec_mul_exact) (use assms in auto)
qed

lemma copy_abs_val [simp]: "is_finite (dec_copy_abs d) = is_finite d" "is_finite d \<Longrightarrow> dec_val (dec_copy_abs d) = \<bar>dec_val d\<bar>"
  by (cases d; simp add: abs_mult)+

definition value_at :: "(string \<times> decimal) list \<Rightarrow> string \<Rightarrow> rat" where
  "value_at d k = (case map_of d k of None \<Rightarrow> 0 | Some v \<Rightarrow> dec_val v)"

abbreviation finite_values :: "(string \<times> decimal) list \<Rightarrow> bool" where
  "finite_values d \<equiv> (\<forall>k v. map_of d k = Some v \<longrightarrow> is_finite v)"

lemma add_exposure_val:
  assumes "finite_values d" and "is_finite x"
  shows "finite_values (add_exposure d k x)" and "value_at (add_exposure d k x) j = value_at d j + (if j = k then dec_val x else 0)"
proof -
  have "is_finite (accounting_sum [case map_of d k of Some v \<Rightarrow> v | None \<Rightarrow> dec0, x])"
    "dec_val (accounting_sum [case map_of d k of Some v \<Rightarrow> v | None \<Rightarrow> dec0, x]) = value_at d k + dec_val x"
    using assms by (simp_all add: accounting_sum_val value_at_def split: option.splits)
  then show "finite_values (add_exposure d k x)" "value_at (add_exposure d k x) j = value_at d j + (if j = k then dec_val x else 0)"
    using assms(1) by (simp_all add: add_exposure_def map_of_dict_put) (auto simp: value_at_def map_of_dict_put)
qed

text \<open>The exposure of an issuer: the absolute exposures of its positions.\<close>

definition issued_by :: "pilot_classification list \<Rightarrow> string \<Rightarrow> pilot_position \<Rightarrow> bool" where
  "issued_by items issuer p \<longleftrightarrow> (case find_item items (pp_instrument_id p) of None \<Rightarrow> False | Some c \<Rightarrow> pk_issuer c = issuer)"

definition issuer_exposure :: "pilot_classification list \<Rightarrow> string \<Rightarrow> pilot_position list \<Rightarrow> rat" where
  "issuer_exposure items issuer ps = sum_list (map (\<lambda>p. \<bar>dec_val (pp_exposure p)\<bar>) (filter (issued_by items issuer) ps))"

lemma sum_exposures_val:
  assumes "sum_exposures items ib sb ps = Inr (issuers, sectors)" and "finite_values ib" and "\<forall>p\<in>set ps. is_finite (pp_exposure p)"
  shows "finite_values issuers \<and> value_at issuers k = value_at ib k + issuer_exposure items k ps"
  using assms
proof (induction ps arbitrary: ib sb)
  case Nil then show ?case by (simp add: issuer_exposure_def)
next
  case (Cons p ps)
  obtain item where item: "find_item items (pp_instrument_id p) = Some item"
    and rest: "sum_exposures items (add_exposure ib (pk_issuer item) (dec_copy_abs (pp_exposure p)))
       (add_exposure sb (pk_sector item) (dec_copy_abs (pp_exposure p))) ps = Inr (issuers, sectors)"
    using Cons.prems(1) by auto
  have fin: "is_finite (dec_copy_abs (pp_exposure p))" "dec_val (dec_copy_abs (pp_exposure p)) = \<bar>dec_val (pp_exposure p)\<bar>"
    using Cons.prems(3) by simp_all
  note add = add_exposure_val [OF Cons.prems(2) fin(1), of "pk_issuer item"]
  from Cons.IH [OF rest add(1)] Cons.prems(3)
  show ?case by (auto simp: add(2) fin(2) issuer_exposure_def issued_by_def item)
qed

lemma ledger_pnl_finite:
  assumes "ledger_state expected lg = Inr st"
  shows "is_finite (ps_pnl st)"
proof -
  have step: "apply_event cs e s = Inr s' \<Longrightarrow> is_finite (ps_pnl s) \<Longrightarrow> is_finite (ps_pnl s')" for cs e s s'
    by (cases e) (auto simp: reconcile_event_def)
  have "apply_events cs es s = Inr s' \<Longrightarrow> is_finite (ps_pnl s) \<Longrightarrow> is_finite (ps_pnl s')" for cs es s s'
    by (induction es arbitrary: s) (auto dest: step)
  then show ?thesis using ledger_stateD(1) [OF assms] by (auto simp: first_state_def)
qed

lemma committed_val:
  assumes "ledger_state expected lg = Inr st"
  shows "is_finite (committed_capital lg st)"
proof -
  have "\<forall>x\<in>set (map ph_capital (ps_positions st)). is_finite x" using ledger_stateD(3) [OF assms] by simp
  then show ?thesis
    using accounting_sum_val(1) ledger_stateD(4) [OF assms] claim_cost_val(1) unfolding committed_capital_def by (intro accounting_sum_val(1)) auto
qed

text \<open>What makes an order admissible, over the rationals.\<close>

definition admissible ::
  "pilot_account \<Rightarrow> pilot_ledger \<Rightarrow> pilot_state \<Rightarrow> pilot_catalog \<Rightarrow> string \<Rightarrow> rat \<Rightarrow> string \<Rightarrow> bool" where
  "admissible account lg st catalog issuer cost day \<longleftrightarrow>
     cost \<le> 100 \<and> dec_val (committed_capital lg st) + cost \<le> 500 \<and> position_count lg st < 5 \<and>
     dec_val (pa_equity account) / 5 \<le> dec_val (pa_cash account) - cost \<and>
     issuer_exposure (ct_items catalog) issuer (pa_positions account) + cost \<le> dec_val (pa_equity account) / 20 \<and>
     \<not> ps_loss_stopped st \<and> - 25 < dec_val (ps_pnl st) \<and> \<not> unresolved lg st \<and> day \<notin> set (map cl_london_day (lg_submissions lg))"

lemma dec_vals [simp]: "dec_val (Dec False 20 (-2)) = 1 / 5" "dec_val (Dec False 5 (-2)) = 1 / 20" "dec_val (Dec True 25 0) = - 25"
  by (simp_all add: power_int_def power2_eq_square)

lemma evaluate_pilot_exact:
  assumes "evaluate_pilot H fresh day_of account lg st catalog i amount costs now = Inr r" and "ledger_state expected lg = Inr st"
    and "is_finite (pa_cash account)" and "is_finite (pa_equity account)" and "\<forall>p\<in>set (pa_positions account). is_finite (pp_exposure p)"
  shows "\<exists>c. find_item (ct_items catalog) i = Some c \<and> pk_asset_type c \<in> {''equity'', ''etf''} \<and> 0 < dec_val amount \<and> 0 \<le> dec_val costs \<and>
    is_finite amount \<and> is_finite costs \<and>
    (ps_eligible r \<longleftrightarrow> admissible account lg st catalog (pk_issuer c) (dec_val amount + dec_val costs) (day_of now))"
proof -
  obtain c issuers sectors where c: "find_item (ct_items catalog) i = Some c" "pk_asset_type c \<in> {''equity'', ''etf''}"
    and fin: "is_finite amount" "is_finite costs" and pos: "\<not> (dec_le amount dec0 \<or> dec_lt costs dec0)"
    and ex: "sum_exposures (ct_items catalog) [] [] (pa_positions account) = Inr (issuers, sectors)"
    and r: "ps_eligible r = list_all snd (pilot_checks account lg st issuers (pk_issuer c) (accounting_sum [amount, costs]) (day_of now))"
    using assms(1) unfolding evaluate_pilot_def exposures_def evidence_number_def Let_def by auto
  have cost: "is_finite (accounting_sum [amount, costs])" "dec_val (accounting_sum [amount, costs]) = dec_val amount + dec_val costs"
    using fin by (simp_all add: accounting_sum_val)
  have iss: "finite_values issuers" "value_at issuers (pk_issuer c) = issuer_exposure (ct_items catalog) (pk_issuer c) (pa_positions account)"
    using sum_exposures_val [OF ex _ assms(5), of "pk_issuer c"] by (simp_all add: value_at_def)
  have val: "is_finite (case map_of issuers (pk_issuer c) of Some v \<Rightarrow> v | None \<Rightarrow> dec0)"
    "dec_val (case map_of issuers (pk_issuer c) of Some v \<Rightarrow> v | None \<Rightarrow> dec0) = issuer_exposure (ct_items catalog) (pk_issuer c) (pa_positions account)"
    using iss by (auto simp: value_at_def split: option.splits)
  have diff: "is_finite (difference (pa_cash account) [accounting_sum [amount, costs]])"
    "dec_val (difference (pa_cash account) [accounting_sum [amount, costs]]) = dec_val (pa_cash account) - (dec_val amount + dec_val costs)"
    using difference_val [of "pa_cash account" "[accounting_sum [amount, costs]]"] assms(3) cost by simp_all
  have lim: "dec_val (pa_equity account) / 5 = dec_val (multiply (pa_equity account) (Dec False 20 (-2)))"
    "dec_val (pa_equity account) / 20 = dec_val (multiply (pa_equity account) (Dec False 5 (-2)))"
    unfolding multiply_val(2) [OF assms(4), of "Dec False 20 (-2)", simplified is_finite.simps, OF TrueI]
      multiply_val(2) [OF assms(4), of "Dec False 5 (-2)", simplified is_finite.simps, OF TrueI] dec_vals by simp_all
  have fins: "is_finite (multiply (pa_equity account) (Dec False 20 (-2)))" "is_finite (multiply (pa_equity account) (Dec False 5 (-2)))"
    "is_finite (ps_pnl st)" "is_finite (committed_capital lg st)"
    using multiply_val(1) [OF assms(4)] ledger_pnl_finite [OF assms(2)] committed_val [OF assms(2)] by simp_all
  have "ps_eligible r \<longleftrightarrow> admissible account lg st catalog (pk_issuer c) (dec_val amount + dec_val costs) (day_of now)"
    unfolding r pilot_checks_def admissible_def lim using cost val diff fins by (simp add: accounting_sum_val del: dec_val.simps)
  moreover have "0 < dec_val amount" "0 \<le> dec_val costs" using pos fin by (simp_all add: not_le not_less)
  ultimately show ?thesis using c fin by blast
qed

section \<open>An eligible order can be reserved\<close>

lemma marked_same:
  assumes "mark_ledger st data now None lg = Inr (pnl, lg1)" and "ledger_state expected lg = Inr st" and "ledger_state expected lg1 = Inr st1"
  shows "ps_positions st1 = ps_positions st" and "committed_capital lg1 st1 = committed_capital lg st" and "position_count lg1 st1 = position_count lg st"
    and "lg_submissions lg1 = lg_submissions lg"
proof -
  obtain es where es: "lg1 = lg\<lparr>lg_events := lg_events lg @ es\<rparr>" "es = [Marked now data pnl] \<or> es = [Marked now data pnl, LossStop now pnl]"
    using assms(1) by (auto simp: mark_ledger_def Let_def split: if_splits)
  have "apply_events (lg_submissions lg) es st = Inr st1"
    using ledger_stateD(1) [OF assms(3)] ledger_stateD(1) [OF assms(2)] by (simp add: es(1) apply_events_append)
  then have same: "ps_positions st1 = ps_positions st" "ps_reconciliations st1 = ps_reconciliations st" using es(2) by auto
  then have "pending_claims lg1 st1 = pending_claims lg st" by (simp add: pending_claims_def reconciled_def es(1))
  then show "ps_positions st1 = ps_positions st" "committed_capital lg1 st1 = committed_capital lg st" "position_count lg1 st1 = position_count lg st"
    "lg_submissions lg1 = lg_submissions lg" using same by (simp_all add: committed_capital_def position_count_def es(1))
qed

lemma mapR_snoc: "mapR f xs = Inr ys \<Longrightarrow> f x = Inr y \<Longrightarrow> mapR f (xs @ [x]) = Inr (ys @ [y])"
  by (induction xs arbitrary: ys) auto

lemma ledger_state_claim:
  assumes "ledger_state expected lg = Inr st" and "cl_mandate c = None" and "is_finite (cl_amount c)" and "is_finite (cl_expected_costs c)"
  shows "ledger_state expected (lg\<lparr>lg_submissions := lg_submissions lg @ [c]\<rparr>) = Inr st"
proof -
  let ?lg = "lg\<lparr>lg_submissions := lg_submissions lg @ [c]\<rparr>"
  have "command_ids (lg_submissions lg) \<subseteq> command_ids (lg_submissions ?lg)" by (auto simp: command_ids_def)
  then have run: "apply_events (lg_submissions lg @ [c]) (lg_events lg) (first_state (lg_inception lg)) = Inr st"
    using apply_events_more [OF ledger_stateD(1) [OF assms(1)]] by simp
  obtain ys where "mapR (\<lambda>c. bindR (money (cl_amount c) ''amount'' False) (\<lambda>_. money (cl_expected_costs c) ''expected_costs'' False))
      (pending_claims lg st) = Inr ys" using assms(1) by (auto simp: ledger_state_def)
  then have "\<exists>zs. mapR (\<lambda>c. bindR (money (cl_amount c) ''amount'' False) (\<lambda>_. money (cl_expected_costs c) ''expected_costs'' False))
      (pending_claims ?lg st) = Inr zs"
    using assms(3,4) mapR_snoc by (fastforce simp: pending_claims_def)
  then show ?thesis
    using assms(1,2) run by (auto simp: ledger_state_def list_ex_iff split: option.splits)
qed

text \<open>
  C16: the assessment and the ledger agree. An order the assessment finds eligible is reserved by
  the ledger with the same account capture, provided the capture marks the ledger without
  reaching the loss stop and the command identifier is new: exactly one claim is added.
\<close>

theorem eligible_assessment_reserves:
  assumes "evaluate_pilot H fresh day_of account lg st catalog i amount costs now = Inr r" and "ps_eligible r"
    and "ledger_state expected lg = Inr st" and "checked_account fresh expected account now = Inr data"
    and "list_all (\<lambda>p. is_finite (pp_exposure p)) (pa_positions account)"
    and "mark_ledger st data now None lg = Inr (pnl, lg1)" and "ledger_state expected lg1 = Inr st1" and "\<not> ps_loss_stopped st1"
    and "k \<noteq> []" and "k \<notin> set (map cl_command_id (lg_submissions lg))"
  shows "\<exists>lg'. reserve_and_claim fresh day_of expected k amount costs account now ih iid lg = (Inr st1, lg') \<and>
    length (lg_submissions lg') = Suc (length (lg_submissions lg))"
proof -
  have data: "data = clean_account account" using assms(4) by (auto simp: checked_account_def Let_def)
  note ok = checked_account_ok [OF assms(4)]
  have acc: "is_finite (pa_cash account)" "is_finite (pa_equity account)" "pa_cash data = pa_cash account" "pa_equity data = pa_equity account"
    using ok by (simp_all add: data clean_account_def)
  obtain c :: pilot_classification where fin: "is_finite amount" "is_finite costs" "0 < dec_val amount" "0 \<le> dec_val costs"
    and adm: "admissible account lg st catalog (pk_issuer c) (dec_val amount + dec_val costs) (day_of now)"
    using evaluate_pilot_exact [OF assms(1,3) acc(1,2)] assms(2,5) by (auto simp: list_all_iff)
  note same = marked_same [OF assms(6,3,7)]
  have caps: "\<not> dec_lt (dec_of_int 100) (accounting_sum [amount, costs])"
    "\<not> dec_lt (dec_of_int 500) (accounting_sum [committed_capital lg1 st1, amount, costs])"
    using adm fin committed_val [OF assms(3)] by (simp_all add: admissible_def accounting_sum_val same not_less)
  have cash: "cash_reserve_met (difference (pa_cash data) [amount, costs]) (pa_equity data)"
    using adm reserved_cash [OF assms(4) fin(1,2)] ok(2) by (simp add: admissible_def cash_reserve_met_iff acc)
  have mark: "mark_or_hold st data now lg = Inr (None, pnl, lg1)" by (simp add: mark_or_hold_def assms(6))
  have state: "ledger_state expected (lg1\<lparr>lg_submissions := lg_submissions lg1 @ [\<lparr>cl_command_id = k, cl_london_day = day_of now,
      cl_send_started_at = now, cl_amount = amount, cl_expected_costs = costs, cl_pre_account = data, cl_intent_hash = ih,
      cl_instrument_id = iid, cl_mandate = None\<rparr>]\<rparr>) = Inr st1"
    by (rule ledger_state_claim [OF assms(7)]) (simp_all add: fin)
  show ?thesis
    unfolding reserve_and_claim_def ledger_tx_def
    using assms(3,4,7-10) adm fin caps cash mark state
    by (simp add: admissible_def money_def raiseIf_def same Let_def)
qed

definition wit_catalog :: pilot_catalog where
  "wit_catalog = \<lparr>ct_items = [\<lparr>pk_instrument_id = 1, pk_symbol = ''A'', pk_issuer = ''a'', pk_sector = ''s'', pk_asset_type = ''equity'',
     pk_source_reference = ''r''\<rparr>], ct_metadata = JNull, ct_source_hash = ''h''\<rparr>"

definition wit_assessment :: "pilot_assessment result" where
  "wit_assessment = evaluate_pilot (\<lambda>_. ''h'') (\<lambda>_ _. Inr ()) (\<lambda>_. ''d'') wit_account wit_ledger (first_state (lg_inception wit_ledger))
     wit_catalog 1 (Dec False 40 0) (Dec False 5 0) 6"

lemma wit_exposures: "exposures (\<lambda>_. ''h'') wit_catalog wit_account = Inr ([], [])"
  by (simp add: exposures_def validate_catalog_def catalog_hash_def payload_hash_def wit_catalog_def wit_account_def)

lemma wit_breaches: "\<exists>bs. legacy_breaches (\<lambda>_. ''h'') wit_catalog wit_account = Inr bs"
  by (simp add: legacy_breaches_def wit_exposures Let_def) (simp add: wit_account_def)

lemma wit_assessed: "\<exists>r. wit_assessment = Inr r"
proof -
  obtain bs where b: "legacy_breaches (\<lambda>_. ''h'') wit_catalog wit_account = Inr bs" using wit_breaches by blast
  have i: "find_item (ct_items wit_catalog) 1 = Some (hd (ct_items wit_catalog))" "pk_asset_type (hd (ct_items wit_catalog)) = ''equity''"
    by (simp_all add: find_item_def wit_catalog_def)
  have a: "pa_account_id wit_account = in_account_id (lg_inception wit_ledger)" by (simp add: wit_account_def wit_ledger_def)
  show ?thesis unfolding wit_assessment_def evaluate_pilot_def evidence_number_def by (simp add: a i wit_exposures b Let_def raiseIf_def)
qed

lemma wit_admissible: "admissible wit_account wit_ledger (first_state (lg_inception wit_ledger)) wit_catalog ''a'' 45 ''d''"
  by (simp add: admissible_def wit_account_def wit_ledger_def first_state_def committed_capital_def position_count_def pending_claims_def
    accounting_sum_val issuer_exposure_def unresolved_def journal_pending_def)

lemma wit_issuer: "find_item (ct_items wit_catalog) 1 = Some c \<Longrightarrow> pk_issuer c = ''a''"
  by (auto simp: find_item_def wit_catalog_def)

lemma wit_finite:
  "is_finite (pa_cash wit_account)" "is_finite (pa_equity wit_account)" "list_all (\<lambda>p. is_finite (pp_exposure p)) (pa_positions wit_account)"
  by (simp_all add: wit_account_def)

lemma wit_ledger_state: "ledger_state ''123'' wit_ledger = Inr (first_state (lg_inception wit_ledger))"
  by (simp add: ledger_state_def wit_ledger_def first_state_def pending_claims_def)

lemma wit_checked: "checked_account (\<lambda>_ _. Inr ()) ''123'' wit_account 6 = Inr wit_account"
  by code_simp

lemma wit_marked: "case mark_ledger (first_state (lg_inception wit_ledger)) wit_account 6 None wit_ledger of
    Inr (pnl, lg1) \<Rightarrow> (case ledger_state ''123'' lg1 of Inr st1 \<Rightarrow> \<not> ps_loss_stopped st1 | Inl _ \<Rightarrow> False) | Inl _ \<Rightarrow> False"
  by code_simp

theorem eligible_assessment_reserves_witness:
  "\<exists>st lg. reserve_and_claim (\<lambda>_ _. Inr ()) (\<lambda>_. ''d'') ''123'' ''c1'' (Dec False 40 0) (Dec False 5 0) wit_account 6 None None wit_ledger = (Inr st, lg) \<and>
     length (lg_submissions lg) = 1"
proof -
  obtain r where r: "wit_assessment = Inr r" using wit_assessed by blast
  have el: "ps_eligible r"
    using evaluate_pilot_exact [OF r [unfolded wit_assessment_def] wit_ledger_state wit_finite(1,2)] wit_finite(3) wit_admissible wit_issuer
    by (auto simp: list_all_iff)
  obtain pnl lg1 st1 where m: "mark_ledger (first_state (lg_inception wit_ledger)) wit_account 6 None wit_ledger = Inr (pnl, lg1)"
    "ledger_state ''123'' lg1 = Inr st1" "\<not> ps_loss_stopped st1" using wit_marked by (auto split: sum.splits prod.splits) (meson sumE)
  have l: "length (lg_submissions wit_ledger) = 0" "''c1'' \<notin> set (map cl_command_id (lg_submissions wit_ledger))" by (simp_all add: wit_ledger_def)
  show ?thesis
    using eligible_assessment_reserves [OF r [unfolded wit_assessment_def] el wit_ledger_state wit_checked wit_finite(3) m, of "''c1''" None None] l by auto
qed

text \<open>
  C17: the pilot assessment is exact: an order is eligible exactly when, over the rationals, its
  amount with costs is at most 100, fits the combined capital of 500 and the five positions,
  leaves a fifth of equity in cash, keeps the issuer within a twentieth of equity, and the
  ledger is neither loss-stopped nor unresolved nor already used that London day.
\<close>

theorem pilot_assessment_exact:
  assumes "evaluate_pilot H fresh day_of account lg st catalog i amount costs now = Inr r" and "ledger_state expected lg = Inr st"
    and "is_finite (pa_cash account)" and "is_finite (pa_equity account)" and "list_all (\<lambda>p. is_finite (pp_exposure p)) (pa_positions account)"
  shows "\<exists>c. find_item (ct_items catalog) i = Some c \<and> pk_asset_type c \<in> {''equity'', ''etf''} \<and> 0 < dec_val amount \<and> 0 \<le> dec_val costs \<and>
    (ps_eligible r \<longleftrightarrow> admissible account lg st catalog (pk_issuer c) (dec_val amount + dec_val costs) (day_of now))"
  using evaluate_pilot_exact [OF assms(1-4)] assms(5) unfolding list_all_iff by blast

theorem pilot_assessment_exact_witness: "\<exists>r. wit_assessment = Inr r \<and> ps_eligible r"
proof -
  obtain r where r: "wit_assessment = Inr r" using wit_assessed by blast
  then show ?thesis
    using pilot_assessment_exact [OF r [unfolded wit_assessment_def] wit_ledger_state wit_finite] wit_admissible wit_issuer by auto
qed

end
