(* ===== verification/Journal.thy ===== *)
theory Journal
  imports Store Once Pilot_Budget "HOL-Library.Sublist"
begin

text \<open>
  \<open>src/agents/journal_agent/execution_journal.py\<close>: the execution audit, an append-only hash chain
  that is verified from the binding to the head before and after every append. The operational
  store and the pilot ledger are read only. What comes from outside is in \<open>journal_env\<close>: the
  digest, \<open>json.loads\<close> of a text inside a payload, the recursion limit, the resolved paths and
  the rebuilding of an account from its raw sources. External imports are not modelled, and the
  file is one whose SQLite pages are intact.
\<close>

section \<open>Rows\<close>

record journal_env =
  je_hash :: digest
  je_loads :: "string \<Rightarrow> json option"
  je_limit :: nat
  je_account :: string
  je_root :: string
  je_ledger_path :: string
  je_store_path :: string
  je_rebuild :: "pilot_account \<Rightarrow> string \<Rightarrow> unit result"

record journal_row =
  jr_sequence :: nat
  jr_command_id :: string
  jr_phase :: string
  jr_identity :: string
  jr_payload :: json
  jr_payload_hash :: string
  jr_previous_hash :: string
  jr_chain_hash :: string

record journal =
  jn_binding :: json
  jn_binding_digest :: string
  jn_head :: "nat \<times> string"
  jn_events :: "journal_row list"

abbreviation journal_error :: "string \<Rightarrow> error" where
  "journal_error m \<equiv> ExecutionJournalError m"

definition sensitive_key :: "string \<Rightarrow> bool" where
  "sensitive_key k = (let name = filter (\<lambda>c. c \<in> set ''abcdefghijklmnopqrstuvwxyz0123456789'') (py_lower k) in
     list_ex (\<lambda>w. list_ex (\<lambda>n. take (length w) (drop n name) = w) [0..<Suc (length name)])
       [''token'', ''authorization'', ''apikey'', ''userkey'', ''credential'', ''secret'', ''password'', ''privatekey'', ''accesskey'',
        ''sessionkey'', ''cookie''])"

definition looks_nested :: "string \<Rightarrow> bool" where
  "looks_nested s = (case dropWhile py_isspace s of c # _ \<Rightarrow> c = CHR ''{'' \<or> c = CHR ''['' | [] \<Rightarrow> False)"

fun visit_json :: "(string \<Rightarrow> json option) \<Rightarrow> nat \<Rightarrow> json \<Rightarrow> unit result" where
  "visit_json loads 0 j = Inl (PyRecursionError ''maximum recursion depth exceeded'')"
| "visit_json loads (Suc n) (JObj kvs) =
     bindR (mapR (\<lambda>kv. raiseIf (sensitive_key (fst kv)) (journal_error ''journal_sensitive_field_rejected'') (visit_json loads n (snd kv))) kvs) (\<lambda>_. Inr ())"
| "visit_json loads (Suc n) (JArr js) = bindR (mapR (visit_json loads n) js) (\<lambda>_. Inr ())"
| "visit_json loads (Suc n) (JStr s) =
     (if looks_nested s then (case loads s of None \<Rightarrow> Inr () | Some j \<Rightarrow> visit_json loads n j) else Inr ())"
| "visit_json loads (Suc n) _ = Inr ()"

definition clean_payload :: "journal_env \<Rightarrow> json \<Rightarrow> json result" where
  "clean_payload v j = bindR (visit_json (je_loads v) (je_limit v) j) (\<lambda>_. Inr j)"

definition chain_document :: "nat \<Rightarrow> string \<Rightarrow> string \<Rightarrow> string \<Rightarrow> string \<Rightarrow> string \<Rightarrow> json" where
  "chain_document sequence command_id stage event_identity digest previous = JObj
     [(''sequence'', JInt (int sequence)), (''command_id'', JStr command_id), (''phase'', JStr stage),
      (''event_identity'', JStr event_identity), (''payload_hash'', JStr digest), (''previous_hash'', JStr previous)]"

definition chain_digest :: "digest \<Rightarrow> nat \<Rightarrow> string \<Rightarrow> string \<Rightarrow> string \<Rightarrow> string \<Rightarrow> string \<Rightarrow> string" where
  "chain_digest H sequence command_id stage event_identity digest previous =
     payload_hash H (chain_document sequence command_id stage event_identity digest previous)"

section \<open>Reading\<close>

definition journal_phases :: "string list" where
  "journal_phases = [''intent'', ''dispatch'', ''outcome'', ''reconciliation'', ''external_import'']"

definition phases_of :: "string \<Rightarrow> journal_row list \<Rightarrow> string list" where
  "phases_of c rows = map jr_phase (filter (\<lambda>r. jr_command_id r = c) rows)"

definition is_external :: "string \<Rightarrow> bool" where
  "is_external c \<longleftrightarrow> take 9 c = ''external:''"

definition phase_refused :: "journal_row \<Rightarrow> string list \<Rightarrow> bool" where
  "phase_refused r seen \<longleftrightarrow> (let stage = jr_phase r in
     is_external (jr_command_id r) \<or> stage \<noteq> ''intent'' \<and> ''intent'' \<notin> set seen \<or>
     stage \<in> {''outcome'', ''reconciliation''} \<and> ''dispatch'' \<notin> set seen \<or>
     stage = ''reconciliation'' \<and> ''outcome'' \<notin> set seen \<or> stage \<noteq> ''outcome'' \<and> stage \<in> set seen \<or> ''reconciliation'' \<in> set seen)"

definition check_row :: "journal_env \<Rightarrow> journal_row list \<Rightarrow> string \<Rightarrow> journal_row \<Rightarrow> unit result" where
  "check_row v records previous r =
     bindR (clean_payload v (jr_payload r)) (\<lambda>data.
     raiseIf (jr_sequence r \<noteq> length records + 1 \<or> jr_phase r \<notin> set journal_phases \<or> jr_command_id r = [] \<or> jr_identity r = [] \<or>
              jr_payload_hash r \<noteq> payload_hash (je_hash v) data \<or> jr_previous_hash r \<noteq> previous \<or>
              jr_chain_hash r \<noteq> chain_digest (je_hash v) (jr_sequence r) (jr_command_id r) (jr_phase r) (jr_identity r) (jr_payload_hash r) previous)
       (journal_error ''journal_chain_integrity_failure'') (
     let seen = phases_of (jr_command_id r) records in
     if jr_phase r = ''external_import'' then
       raiseIf (seen \<noteq> [] \<or> \<not> is_external (jr_command_id r) \<or> jr_identity r \<noteq> ''external_import'')
         (journal_error ''journal_external_phase_integrity_failure'') (Inr ())
     else raiseIf (phase_refused r seen) (journal_error ''journal_phase_integrity_failure'') (Inr ())))"

fun read_rows :: "journal_env \<Rightarrow> journal_row list \<Rightarrow> string \<Rightarrow> journal_row list \<Rightarrow> (journal_row list \<times> string) result" where
  "read_rows v records previous [] = Inr (records, previous)"
| "read_rows v records previous (r # rs) =
     bindR (check_row v records previous r) (\<lambda>_. read_rows v (records @ [r]) (jr_chain_hash r) rs)"

definition read_journal :: "journal_env \<Rightarrow> json \<Rightarrow> journal \<Rightarrow> journal_row list result" where
  "read_journal v binding j =
     raiseIf (jn_binding j \<noteq> binding \<or> jn_binding_digest j \<noteq> payload_hash (je_hash v) binding)
       (journal_error ''journal_original_binding_mismatch'') (
     bindR (read_rows v [] (jn_binding_digest j) (jn_events j)) (\<lambda>(records, previous).
     raiseIf (jn_head j \<noteq> (length records, previous)) (journal_error ''journal_head_or_truncation_failure'') (Inr records)))"

section \<open>Sources\<close>

text \<open>\<open>_binding\<close>, of stores under the runtime root; the state of the ledger has to be readable.\<close>

definition journal_binding :: "journal_env \<Rightarrow> pilot_ledger \<Rightarrow> json result" where
  "journal_binding v lg = bindR (ledger_state (je_account v) lg) (\<lambda>_.
     clean_payload v (JObj
       [(''schema'', JStr ''demo-execution-journal-v1''), (''environment'', JStr ''demo''), (''account_id'', JStr (in_account_id (lg_inception lg))),
        (''runtime_root'', JStr (je_root v)), (''ledger_path'', JStr (je_ledger_path v)), (''store_path'', JStr (je_store_path v)),
        (''inception_hash'', JStr (payload_hash (je_hash v) (inception_json (lg_inception lg))))]))"

definition journal_command :: "journal_env \<Rightarrow> store \<Rightarrow> string \<Rightarrow> (broker_command \<times> order_intent) result" where
  "journal_command v s command_id =
     (let required = journal_error ''journal_persisted_demo_intent_required'' in
      bindR (bindR (get_command command_id s) (of_option required)) (\<lambda>command.
      bindR (bindR (get_intent (je_hash v) (bc_intent_hash command) s) (of_option required)) (\<lambda>intent.
      raiseIf (bc_environment command \<noteq> DEMO \<or> oi_environment intent \<noteq> DEMO \<or> bc_broker command \<noteq> ''etoro'') required (
      Inr (command, intent)))))"

fun outcomes_from :: "nat \<Rightarrow> string \<Rightarrow> pilot_event list \<Rightarrow> (nat \<times> json) list" where
  "outcomes_from n c [] = []"
| "outcomes_from n c (Outcome d j # es) = (if d = c then (n, JObj [(''response'', j)]) # outcomes_from (Suc n) c es else outcomes_from (Suc n) c es)"
| "outcomes_from n c (_ # es) = outcomes_from (Suc n) c es"

definition economic_source :: "journal_env \<Rightarrow> pilot_ledger \<Rightarrow> string \<Rightarrow> (pilot_claim \<times> (nat \<times> json) list) result" where
  "economic_source v lg command_id =
     bindR (ledger_state (je_account v) lg) (\<lambda>st.
     bindR (of_option (journal_error ''journal_economic_dispatch_claim_required'')
       (find_row (\<lambda>c. cl_command_id c = command_id) (lg_submissions lg))) (\<lambda>claim.
     bindR (clean_payload v (claim_json claim)) (\<lambda>_. Inr (claim, outcomes_from 1 command_id (lg_events lg)))))"

definition mandate_hash_of :: "pilot_claim \<Rightarrow> string option" where
  "mandate_hash_of c = map_option mn_mandate_hash (cl_mandate c)"

section \<open>Completion\<close>

definition holding_json :: "pilot_holding \<Rightarrow> json" where
  "holding_json h = JObj
     [(''position_id'', JStr (ph_position_id h)), (''instrument_id'', JInt (ph_instrument_id h)), (''command_id'', JStr (ph_command_id h)),
      (''capital'', jdec (ph_capital h)), (''opening_fees'', jdec (ph_opening_fees h)), (''opening_taxes'', jdec (ph_opening_taxes h)),
      (''position_at_open'', pilot_position_json (ph_position_at_open h))]"

definition lookup_json :: "broker_reconciliation_result \<Rightarrow> json" where
  "lookup_json r = JObj
     [(''command_id'', JStr (uuid_str (rr_command_id r))), (''lifecycle_state'', JStr (rr_lifecycle_state r)), (''reconciled'', JBool (rr_reconciled r)),
      (''broker_order_id'', jopt (rr_broker_order_id r)), (''broker_position_id'', jopt (rr_broker_position_id r)),
      (''executions'', JArr (map execution_json (rr_executions r))),
      (''details'', JArr (map (\<lambda>kv. JArr [JStr (fst kv), JStr (snd kv)]) (rr_details r)))]"

definition receipt_json :: "pilot_receipt \<Rightarrow> json" where
  "receipt_json r = JObj (
     [(''observed_at'', JTime (rc_observed_at r)), (''pre_account'', pilot_account_json (rc_pre_account r)),
      (''post_account'', pilot_account_json (rc_post_account r)), (''executions'', JArr (map execution_json (rc_executions r))),
      (''positions'', JArr (map holding_json (rc_positions r)))] @
     (case rc_terminal_evidence r of None \<Rightarrow> []
      | Some e \<Rightarrow> [(if rc_terminal_no_fill r then (''terminal_no_fill'', JBool True) else (''terminal_partial'', JBool (rc_terminal_partial r))),
          (''terminal_evidence'', lookup_json e)]))"

definition terminal_proved :: "string \<Rightarrow> broker_command \<Rightarrow> pilot_receipt \<Rightarrow> bool" where
  "terminal_proved command_id command r = (case rc_terminal_evidence r of None \<Rightarrow> False
     | Some t \<Rightarrow>
         \<not> (rc_terminal_no_fill r \<and> rc_terminal_partial r) \<and> uuid_str (rr_command_id t) = command_id \<and>
         rr_broker_order_id t = bc_broker_order_id command \<and> rr_reconciled t \<and>
         rr_lifecycle_state t \<in> (if rc_terminal_partial r then {''partially_filled_terminal''} else {''cancelled'', ''rejected''}) \<and>
         detail t ''status_id'' \<in> (if rc_terminal_partial r then {''9'', ''10''} else {''4'', ''7'', ''8''}) \<and>
         distinct (map fst (rr_details t)) \<and> detail t ''remainder_terminal'' = ''true'' \<and> detail t ''connector_broker_reference_id'' \<noteq> [] \<and>
         hex_digest (detail t ''lookup_sha256'') \<and> map execution_json (rr_executions t) = map execution_json (rc_executions r) \<and> (rc_executions r = []) = rc_terminal_no_fill r)"

text \<open>The stored decimals are compared as their text.\<close>

definition same_text :: "(pilot_position \<Rightarrow> decimal) \<Rightarrow> pilot_position \<Rightarrow> pilot_position \<Rightarrow> bool" where
  "same_text f p q \<longleftrightarrow> jdec (f p) = jdec (f q)"

definition stable_position :: "pilot_position \<Rightarrow> pilot_position \<Rightarrow> bool" where
  "stable_position p q \<longleftrightarrow> pp_instrument_id p = pp_instrument_id q \<and> same_text pp_units p q \<and> same_text pp_principal p q \<and>
     same_text pp_fees p q \<and> same_text pp_taxes p q \<and> same_text pp_carrying_fees p q \<and> pp_is_buy p = pp_is_buy q \<and>
     same_text pp_leverage p q \<and> pp_settlement_type p = pp_settlement_type q"

definition added_position_ok :: "pilot_claim \<Rightarrow> broker_execution list \<Rightarrow> pilot_account \<Rightarrow> string \<Rightarrow> bool" where
  "added_position_ok claim fills post key = (case find_position (pa_positions post) key of None \<Rightarrow> False
     | Some p \<Rightarrow> (let group = filter (\<lambda>x. be_broker_position_id x = key) fills in
         pp_is_buy p \<and> dec_eq (pp_leverage p) dec1 \<and> pp_settlement_type p = 1 \<and> dec_eq (pp_carrying_fees p) dec0 \<and>
         Some (pp_instrument_id p) = cl_instrument_id claim \<and> list_all (\<lambda>x. be_side x = ''long'' \<and> be_action x = ''buy'') group \<and>
         dec_eq (pp_units p) (accounting_sum (map be_units group)) \<and> dec_eq (pp_principal p) (accounting_sum (map amount_of group)) \<and>
         dec_eq (pp_fees p) (accounting_sum (map be_fees group)) \<and> dec_eq (pp_taxes p) (accounting_sum (map be_taxes group))))"

definition positions_proved :: "pilot_account \<Rightarrow> pilot_account \<Rightarrow> broker_execution list \<Rightarrow> bool" where
  "positions_proved pre post fills \<longleftrightarrow> (let before = map pp_position_id (pa_positions pre); after = map pp_position_id (pa_positions post);
       added = map be_broker_position_id fills in
     set before \<inter> set added = {} \<and> set after = set before \<union> set added \<and>
     list_all (\<lambda>p. case find_position (pa_positions post) (pp_position_id p) of None \<Rightarrow> False | Some q \<Rightarrow> stable_position p q) (pa_positions pre))"

definition completion_payload :: "journal_env \<Rightarrow> json \<Rightarrow> store \<Rightarrow> pilot_ledger \<Rightarrow> string \<Rightarrow> journal_row list \<Rightarrow> json result" where
  "completion_payload v binding s lg command_id records =
     bindR (journal_command v s command_id) (\<lambda>(command, intent).
     raiseIf (bc_state command \<noteq> RECONCILED \<or> \<not> py_truthy (bc_broker_order_id command))
       (journal_error ''journal_operational_reconciliation_required'') (
     let required = journal_error ''journal_economic_reconciliation_required'' in
     bindR (case ledger_state (je_account v) lg of Inl _ \<Rightarrow> Inl required | Inr st \<Rightarrow> Inr st) (\<lambda>st.
     bindR (of_option required (map_of (ps_reconciliations st) command_id)) (\<lambda>receipt.
     bindR (of_option required (find_row (\<lambda>c. cl_command_id c = command_id) (lg_submissions lg))) (\<lambda>claim.
     let inception_hash = payload_hash (je_hash v) (inception_json (lg_inception lg));
         economic = JObj [(''claim'', claim_json claim), (''reconciliation'', receipt_json receipt), (''inception_hash'', JStr inception_hash),
           (''reconciliation_hash'', JStr (payload_hash (je_hash v) (receipt_json receipt)))] in
     bindR (case clean_payload v economic of Inl (PyRecursionError m) \<Rightarrow> Inl (PyRecursionError m) | Inl _ \<Rightarrow> Inl required | Inr j \<Rightarrow> Inr j) (\<lambda>_.
     raiseIf (Inr (JStr inception_hash) \<noteq> json_get binding ''inception_hash'' \<or> cl_intent_hash claim \<noteq> Some (oi_intent_hash intent))
       (journal_error ''journal_reconciliation_source_mismatch'') (
     bindR (of_option (journal_error ''journal_matching_intent_required'')
       (find_row (\<lambda>r. jr_command_id r = command_id \<and> jr_phase r = ''intent'') records)) (\<lambda>intent_record.
     raiseIf (json_get (jr_payload intent_record) ''intent_hash'' \<noteq> Inr (JStr (oi_intent_hash intent)))
       (journal_error ''journal_matching_intent_required'') (
     bindR (json_get (jr_payload intent_record) ''mandate_hash'') (\<lambda>mandate_hash.
     raiseIf (case mandate_hash_of claim of None \<Rightarrow> False | Some h \<Rightarrow> JStr h \<noteq> mandate_hash) (journal_error ''journal_dispatch_mandate_mismatch'') (
     let pre = rc_pre_account receipt; post = rc_post_account receipt; fills = rc_executions receipt;
         no_fill = rc_terminal_no_fill receipt; partial = rc_terminal_partial receipt in
     bindR (je_rebuild v pre (je_account v)) (\<lambda>_.
     bindR (je_rebuild v post (je_account v)) (\<lambda>_.
     raiseIf (payload_hash (je_hash v) (pilot_account_json pre) \<noteq> payload_hash (je_hash v) (pilot_account_json (cl_pre_account claim)))
       (journal_error ''journal_claimed_pre_account_mismatch'') (
     raiseIf ((no_fill \<or> partial) \<and> \<not> terminal_proved command_id command receipt)
       (journal_error ''journal_authoritative_terminal_evidence_required'') (
     raiseIf (\<not> no_fill \<and> fills = [] \<or> fills \<noteq> [] \<and> Some ` set (map be_broker_order_id fills) \<noteq> {bc_broker_order_id command} \<or>
              list_ex (\<lambda>x. be_environment x \<noteq> DEMO \<or> be_currency x \<noteq> ''USD'' \<or> Some (be_broker_instrument_id x) \<noteq> cl_instrument_id claim) fills)
       (journal_error ''journal_matching_order_executions_required'') (
     bindR (mapR (\<lambda>x. of_option (PyTypeError ''conversion from NoneType to Decimal is not supported'') (be_executed_amount x)) fills) (\<lambda>amounts.
     let principal = accounting_sum amounts;
         costs = accounting_sum (map (\<lambda>x. accounting_sum [be_fees x, be_taxes x]) fills) in
     raiseIf (\<not> no_fill \<and> \<not> (dec_lt dec0 principal \<and> dec_le principal (cl_amount claim)) \<or>
              no_fill \<and> (\<not> dec_eq principal dec0 \<or> \<not> dec_eq costs dec0) \<or>
              \<not> dec_eq (difference (pa_cash pre) [principal, costs]) (pa_cash post))
       (journal_error ''journal_actual_cash_or_principal_mismatch'') (
     raiseIf (\<not> positions_proved pre post fills) (journal_error ''journal_independent_positions_mismatch'') (
     raiseIf (\<not> list_all (added_position_ok claim fills post) (map be_broker_position_id fills))
       (journal_error ''journal_independent_fill_position_mismatch'') (
     raiseIf (\<not> no_fill \<and> dec_lt principal (cl_amount claim) \<and> \<not> partial) (journal_error ''journal_partial_terminal_evidence_required'') (
     raiseIf (partial \<and> \<not> dec_lt principal (cl_amount claim)) (journal_error ''journal_partial_principal_outside_claim'') (
     clean_payload v (JObj
       [(''intent_hash'', JStr (oi_intent_hash intent)), (''mandate_hash'', mandate_hash), (''economic_receipt'', economic),
        (''operational_command'', command_json command), (''pre_source_hash'', JStr (pa_source_hash pre)),
        (''post_source_hash'', JStr (pa_source_hash post)), (''broker_order_id'', jopt (bc_broker_order_id command)),
        (''actual_principal'', jdec principal), (''actual_costs'', jdec costs),
        (''outcome'', JStr (if no_fill then (case rc_terminal_evidence receipt of Some t \<Rightarrow> rr_lifecycle_state t | None \<Rightarrow> [])
           else if partial then ''partially_filled'' else ''filled'')),
        (''qualification_credit'', JBool False)])))))))))))))))))))))))"

section \<open>Operations\<close>

definition source_check :: "journal_env \<Rightarrow> json \<Rightarrow> store \<Rightarrow> pilot_ledger \<Rightarrow> journal_row list \<Rightarrow> journal_row \<Rightarrow> unit result" where
  "source_check v binding s lg records r =
     (if jr_phase r = ''intent'' then
        bindR (journal_command v s (jr_command_id r)) (\<lambda>(command, intent).
        raiseIf (json_get (jr_payload r) ''intent'' \<noteq> Inr (intent_json intent) \<or>
                 json_get (jr_payload r) ''intent_hash'' \<noteq> Inr (JStr (oi_intent_hash intent)) \<or>
                 json_get (jr_payload r) ''logical_request_id'' \<noteq> Inr (JStr (uuid_str (bc_logical_request_id command))) \<or>
                 json_get (jr_payload r) ''broker_payload_hash'' \<noteq> Inr (JStr (bc_payload_hash command)))
          (journal_error ''journal_intent_source_changed'') (Inr ()))
      else if jr_phase r = ''dispatch'' then
        bindR (economic_source v lg (jr_command_id r)) (\<lambda>(claim, _).
        raiseIf (json_get (jr_payload r) ''claim'' \<noteq> Inr (claim_json claim)) (journal_error ''journal_dispatch_source_changed'') (Inr ()))
      else if jr_phase r = ''reconciliation'' then
        bindR (completion_payload v binding s lg (jr_command_id r) records) (\<lambda>actual.
        raiseIf (payload_hash (je_hash v) actual \<noteq> jr_payload_hash r) (journal_error ''journal_terminal_source_changed'') (Inr ()))
      else Inr ())"

definition ensure_ready :: "journal_env \<Rightarrow> json \<Rightarrow> store \<Rightarrow> pilot_ledger \<Rightarrow> journal \<Rightarrow> unit result" where
  "ensure_ready v binding s lg j =
     bindR (journal_binding v lg) (\<lambda>b.
     raiseIf (b \<noteq> binding) (journal_error ''journal_original_binding_mismatch'') (
     bindR (read_journal v binding j) (\<lambda>records.
     bindR (mapR (source_check v binding s lg records) records) (\<lambda>_. Inr ()))))"

definition append_record :: "journal_env \<Rightarrow> json \<Rightarrow> string \<Rightarrow> string \<Rightarrow> string \<Rightarrow> json \<Rightarrow> journal \<Rightarrow> journal_row result \<times> journal" where
  "append_record v binding command_id stage event_identity data = transaction (\<lambda>j.
     bindR (read_journal v binding j) (\<lambda>records.
     let digest = payload_hash (je_hash v) data in
     case find_row (\<lambda>r. (jr_command_id r, jr_phase r, jr_identity r) = (command_id, stage, event_identity)) records of
       Some previous \<Rightarrow> raiseIf (jr_payload_hash previous \<noteq> digest) (journal_error ''journal_conflicting_duplicate_event'') (Inr (previous, j))
     | None \<Rightarrow>
         let seq = length records + 1;
             prev = (if records = [] then payload_hash (je_hash v) binding else jr_chain_hash (last records));
             chain = chain_digest (je_hash v) seq command_id stage event_identity digest prev;
             j' = j\<lparr>jn_events := jn_events j @ [\<lparr>jr_sequence = seq, jr_command_id = command_id, jr_phase = stage, jr_identity = event_identity,
                      jr_payload = data, jr_payload_hash = digest, jr_previous_hash = prev, jr_chain_hash = chain\<rparr>],
                    jn_head := (seq, chain)\<rparr> in
         bindR (read_journal v binding j') (\<lambda>rows. Inr (last rows, j'))))"

definition append_journal ::
  "journal_env \<Rightarrow> json \<Rightarrow> store \<Rightarrow> pilot_ledger \<Rightarrow> string \<Rightarrow> string \<Rightarrow> string \<Rightarrow> json \<Rightarrow> journal \<Rightarrow> journal_row result \<times> journal" where
  "append_journal v binding s lg command_id stage event_identity payload j =
     (case bindR (clean_payload v payload) (\<lambda>data. bindR (ensure_ready v binding s lg j) (\<lambda>_. Inr data)) of
        Inl e \<Rightarrow> (Inl e, j)
      | Inr data \<Rightarrow> append_record v binding command_id stage event_identity data j)"

definition journal_events :: "journal_env \<Rightarrow> json \<Rightarrow> store \<Rightarrow> pilot_ledger \<Rightarrow> string \<Rightarrow> journal \<Rightarrow> journal_row list result" where
  "journal_events v binding s lg command_id j =
     bindR (ensure_ready v binding s lg j) (\<lambda>_. bindR (read_journal v binding j) (\<lambda>records.
     Inr (filter (\<lambda>r. jr_command_id r = command_id) records)))"

definition terminal_record :: "journal_env \<Rightarrow> json \<Rightarrow> store \<Rightarrow> pilot_ledger \<Rightarrow> string \<Rightarrow> journal \<Rightarrow> journal_row option result" where
  "terminal_record v binding s lg command_id j =
     bindR (journal_events v binding s lg command_id j) (\<lambda>rows. Inr (find_row (\<lambda>r. jr_phase r = ''reconciliation'') rows))"

definition sha256_required :: "string \<Rightarrow> string \<Rightarrow> unit result" where
  "sha256_required name h = raiseIf (\<not> hex_digest h) (journal_error (''journal_'' @ name @ ''_sha256_required'')) (Inr ())"

text \<open>Operations that first gather a value and then continue on the journal.\<close>

definition given :: "'a result \<Rightarrow> ('a \<Rightarrow> journal \<Rightarrow> 'b result \<times> journal) \<Rightarrow> journal \<Rightarrow> 'b result \<times> journal" where
  "given r k j = (case r of Inl e \<Rightarrow> (Inl e, j) | Inr x \<Rightarrow> k x j)"

definition record_intent ::
  "journal_env \<Rightarrow> json \<Rightarrow> store \<Rightarrow> pilot_ledger \<Rightarrow> string \<Rightarrow> string \<Rightarrow> (string \<times> string) list \<Rightarrow> journal \<Rightarrow> journal_row result \<times> journal" where
  "record_intent v binding s lg command_id mandate_hash refs =
     given (journal_command v s command_id) (\<lambda>(command, intent).
     given (sha256_required ''mandate'' mandate_hash) (\<lambda>_.
     given (clean_payload v (JObj (map (\<lambda>kv. (fst kv, JStr (snd kv))) refs))) (\<lambda>evidence_refs.
     given (raiseIf (refs = []) (journal_error ''journal_evidence_references_required'') (mapR (sha256_required ''evidence'') (map snd refs))) (\<lambda>_.
     append_journal v binding s lg command_id ''intent'' ''intent'' (JObj
       [(''intent'', intent_json intent), (''intent_hash'', JStr (oi_intent_hash intent)), (''mandate_hash'', JStr mandate_hash),
        (''evidence_refs'', evidence_refs), (''logical_request_id'', JStr (uuid_str (bc_logical_request_id command))),
        (''broker_payload_hash'', JStr (bc_payload_hash command))])))))"

definition record_dispatch :: "journal_env \<Rightarrow> json \<Rightarrow> store \<Rightarrow> pilot_ledger \<Rightarrow> string \<Rightarrow> journal \<Rightarrow> journal_row result \<times> journal" where
  "record_dispatch v binding s lg command_id j =
     given (bindR (journal_command v s command_id) (\<lambda>(command, intent).
            bindR (economic_source v lg command_id) (\<lambda>(claim, _).
            raiseIf (cl_intent_hash claim \<noteq> Some (oi_intent_hash intent)) (journal_error ''journal_dispatch_intent_mismatch'') (
            bindR (journal_events v binding s lg command_id j) (\<lambda>rows.
            bindR (of_option (journal_error ''journal_dispatch_mandate_mismatch'') (find_row (\<lambda>r. jr_phase r = ''intent'') rows)) (\<lambda>recorded.
            raiseIf (case mandate_hash_of claim of None \<Rightarrow> False | Some h \<Rightarrow> json_get (jr_payload recorded) ''mandate_hash'' \<noteq> Inr (JStr h))
              (journal_error ''journal_dispatch_mandate_mismatch'') (Inr (claim, intent)))))))) (\<lambda>(claim, intent).
     append_journal v binding s lg command_id ''dispatch'' ''dispatch'' (JObj
       [(''claim'', claim_json claim), (''claim_hash'', JStr (payload_hash (je_hash v) (claim_json claim))),
        (''intent_hash'', JStr (oi_intent_hash intent)), (''status'', JStr ''durably_claimed_not_proof_of_broker_receipt'')])) j"

fun append_outcomes ::
  "journal_env \<Rightarrow> json \<Rightarrow> store \<Rightarrow> pilot_ledger \<Rightarrow> string \<Rightarrow> (string \<times> json) list \<Rightarrow> journal \<Rightarrow> unit result \<times> journal" where
  "append_outcomes v binding s lg command_id [] j = (Inr (), j)"
| "append_outcomes v binding s lg command_id ((event_identity, payload) # rest) j =
     andThen (append_journal v binding s lg command_id ''outcome'' event_identity payload j) (\<lambda>_. append_outcomes v binding s lg command_id rest)"

definition record_outcomes :: "journal_env \<Rightarrow> json \<Rightarrow> store \<Rightarrow> pilot_ledger \<Rightarrow> string \<Rightarrow> journal \<Rightarrow> unit result \<times> journal" where
  "record_outcomes v binding s lg command_id j =
     given (bindR (journal_command v s command_id) (\<lambda>(command, _).
            bindR (economic_source v lg command_id) (\<lambda>(_, outcomes).
            bindR (terminal_record v binding s lg command_id j) (\<lambda>existing. Inr (command, outcomes, existing))))) (\<lambda>(command, outcomes, existing).
     if existing \<noteq> None then (\<lambda>j. (bindR (journal_events v binding s lg command_id j) (\<lambda>_. Inr ()), j)) else
     append_outcomes v binding s lg command_id (
       map (\<lambda>(seq, v). (''economic:'' @ str_nat seq, JObj [(''source_kind'', JStr ''economic_outcome''), (''source_sequence'', JInt (int seq)), (''observation'', v)])) outcomes @
       (if bc_broker_order_id command = None then [] else
          [(''operational:'' @ payload_hash (je_hash v) (command_json command),
            JObj [(''source_kind'', JStr ''persisted_operational_command''), (''command'', command_json command)])]))) j"

definition record_reconciliation :: "journal_env \<Rightarrow> json \<Rightarrow> store \<Rightarrow> pilot_ledger \<Rightarrow> string \<Rightarrow> journal \<Rightarrow> journal_row option result \<times> journal" where
  "record_reconciliation v binding s lg command_id j =
     given (bindR (read_journal v binding j) (completion_payload v binding s lg command_id)) (\<lambda>data j.
     andThen (append_journal v binding s lg command_id ''reconciliation'' ''reconciliation'' data j) (\<lambda>_ j.
     (terminal_record v binding s lg command_id j, j))) j"

definition reconstruct ::
  "journal_env \<Rightarrow> json \<Rightarrow> store \<Rightarrow> pilot_ledger \<Rightarrow> string \<Rightarrow> string \<Rightarrow> (string \<times> string) list \<Rightarrow> journal \<Rightarrow> journal_row option result \<times> journal" where
  "reconstruct v binding s lg command_id mandate_hash refs j =
     andThen (record_intent v binding s lg command_id mandate_hash refs j) (\<lambda>_ j.
     andThen (record_dispatch v binding s lg command_id j) (\<lambda>_ j.
     andThen (record_outcomes v binding s lg command_id j) (\<lambda>_.
     given (journal_command v s command_id) (\<lambda>(command, _).
     if bc_state command = RECONCILED then record_reconciliation v binding s lg command_id else (\<lambda>j. (Inr None, j))))))"

definition create_journal :: "journal_env \<Rightarrow> pilot_ledger \<Rightarrow> journal result" where
  "create_journal v lg = bindR (journal_binding v lg) (\<lambda>b.
     let genesis = payload_hash (je_hash v) b in Inr \<lparr>jn_binding = b, jn_binding_digest = genesis, jn_head = (0, genesis), jn_events = []\<rparr>)"

section \<open>What a readable journal is\<close>

lemma read_rows_append:
  "read_rows v records p (rs @ [r]) = bindR (read_rows v records p rs) (\<lambda>(recs, prev).
     bindR (check_row v recs prev r) (\<lambda>_. Inr (recs @ [r], jr_chain_hash r)))"
proof (induction rs arbitrary: records p)
  case (Cons x rs)
  then show ?case by (cases "check_row v records p x") simp_all
qed simp

lemma read_rows_all: "read_rows v records p rs = Inr (out, q) \<Longrightarrow> out = records @ rs"
proof (induction rs arbitrary: records p)
  case (Cons r rs)
  then have "read_rows v (records @ [r]) (jr_chain_hash r) rs = Inr (out, q)" by (auto split: sum.splits)
  from Cons.IH [OF this] show ?case by simp
qed simp

lemma read_journalD:
  assumes "read_journal v b j = Inr records"
  shows "records = jn_events j" and "jn_binding j = b" and "jn_binding_digest j = payload_hash (je_hash v) b"
    and "read_rows v [] (payload_hash (je_hash v) b) (jn_events j) = Inr (jn_events j, snd (jn_head j))" and "fst (jn_head j) = length (jn_events j)"
proof -
  obtain prev where run: "read_rows v [] (jn_binding_digest j) (jn_events j) = Inr (records, prev)" and head: "jn_head j = (length records, prev)"
    and b: "jn_binding j = b" "jn_binding_digest j = payload_hash (je_hash v) b"
    using assms by (auto simp: read_journal_def)
  then show "records = jn_events j" "jn_binding j = b" "jn_binding_digest j = payload_hash (je_hash v) b" using read_rows_all [OF run] by simp_all
  then show "read_rows v [] (payload_hash (je_hash v) b) (jn_events j) = Inr (jn_events j, snd (jn_head j))" "fst (jn_head j) = length (jn_events j)"
    using run head by simp_all
qed

text \<open>The phases of one command, in the order of the journal.\<close>

definition phase_word :: "string \<Rightarrow> string list \<Rightarrow> bool" where
  "phase_word c ps \<longleftrightarrow> ps = [] \<or> ps = [''external_import''] \<and> is_external c \<or> ps = [''intent''] \<or>
     (\<exists>n. ps = [''intent'', ''dispatch''] @ replicate n ''outcome'') \<or>
     (\<exists>n. ps = [''intent'', ''dispatch''] @ replicate (Suc n) ''outcome'' @ [''reconciliation''])"

lemma phase_word_step:
  assumes "phase_word c seen" and "check_row v records p r = Inr ()" and "jr_command_id r = c" and "seen = phases_of c records"
  shows "phase_word c (seen @ [jr_phase r])"
proof (cases "jr_phase r = ''external_import''")
  case True
  then have "seen = [] \<and> is_external c" using assms by (auto simp: check_row_def Let_def)
  then show ?thesis using True by (simp add: phase_word_def)
next
  case False
  then have ok: "\<not> phase_refused r seen" and ph: "jr_phase r \<in> {''intent'', ''dispatch'', ''outcome'', ''reconciliation''}"
    using assms by (auto simp: check_row_def Let_def journal_phases_def)
  from assms(1) consider "seen = []" | "seen = [''external_import'']" "is_external c" | "seen = [''intent'']"
    | n where "seen = [''intent'', ''dispatch''] @ replicate n ''outcome''" | "''reconciliation'' \<in> set seen"
    unfolding phase_word_def by fastforce
  then show ?thesis
  proof cases
    case 1 then show ?thesis using ok ph by (auto simp: phase_refused_def phase_word_def Let_def)
  next
    case 2 then show ?thesis using ok assms(3) by (simp add: phase_refused_def Let_def)
  next
    case 3
    then have "jr_phase r = ''dispatch''" using ok ph by (auto simp: phase_refused_def Let_def)
    then show ?thesis unfolding 3 phase_word_def by (intro disjI2 disjI2 disjI2 disjI1 exI [of _ 0]) simp
  next
    case (4 n)
    then have "jr_phase r = ''outcome'' \<or> jr_phase r = ''reconciliation'' \<and> 0 < n"
      using ok ph by (auto simp: phase_refused_def Let_def)
    then show ?thesis
    proof
      assume "jr_phase r = ''outcome''"
      then have "seen @ [jr_phase r] = [''intent'', ''dispatch''] @ replicate (Suc n) ''outcome''" by (simp add: 4 replicate_append_same)
      then show ?thesis unfolding phase_word_def by blast
    next
      assume "jr_phase r = ''reconciliation'' \<and> 0 < n"
      then obtain m where "seen @ [jr_phase r] = [''intent'', ''dispatch''] @ replicate (Suc m) ''outcome'' @ [''reconciliation'']"
        unfolding 4 by (cases n) simp_all
      then show ?thesis unfolding phase_word_def by blast
    qed
  next
    case 5 then show ?thesis using ok by (simp add: phase_refused_def Let_def)
  qed
qed

lemma read_rows_phases:
  "read_rows v [] p rs = Inr (out, q) \<Longrightarrow> phase_word c (phases_of c rs)"
proof (induction rs arbitrary: out q rule: rev_induct)
  case Nil then show ?case by (simp add: phases_of_def phase_word_def)
next
  case (snoc r rs)
  obtain recs prev where run: "read_rows v [] p rs = Inr (recs, prev)" and chk: "check_row v recs prev r = Inr ()"
    using snoc.prems by (auto simp: read_rows_append)
  have recs: "recs = rs" using read_rows_all [OF run] by simp
  show ?case
  proof (cases "jr_command_id r = c")
    case True
    then show ?thesis using phase_word_step [OF snoc.IH [OF run] chk [unfolded recs] True] by (simp add: phases_of_def)
  next
    case False then show ?thesis using snoc.IH [OF run] by (simp add: phases_of_def)
  qed
qed

section \<open>The journal only grows\<close>

definition readable :: "journal_env \<Rightarrow> json \<Rightarrow> journal \<Rightarrow> bool" where
  "readable v b j \<longleftrightarrow> (\<exists>records. read_journal v b j = Inr records)"

definition journal_grows :: "journal_env \<Rightarrow> json \<Rightarrow> journal \<Rightarrow> journal \<Rightarrow> bool" where
  "journal_grows v b j j' \<longleftrightarrow> (readable v b j \<longrightarrow> readable v b j') \<and> prefix (jn_events j) (jn_events j')"

lemma journal_grows_refl [simp]: "journal_grows v b j j"
  by (simp add: journal_grows_def)

lemma journal_grows_trans: "journal_grows v b j j1 \<Longrightarrow> journal_grows v b j1 j2 \<Longrightarrow> journal_grows v b j j2"
  unfolding journal_grows_def by (blast intro: prefix_order.trans)

lemma append_record_grows: "journal_grows v b j (snd (append_record v b c ph i data j))"
proof (rule keep_or_commit [where s = j])
  fix e s' assume "append_record v b c ph i data j = (Inl e, s')" then show "s' = j" by (simp add: append_record_def)
next
  fix x s' assume "append_record v b c ph i data j = (Inr x, s')"
  then show "journal_grows v b j s'"
    unfolding append_record_def transaction_Inr
    by (auto simp: Let_def journal_grows_def readable_def split: option.splits)
qed simp

lemma append_journal_grows: "journal_grows v b j (snd (append_journal v b s lg c ph i payload j))"
  using append_record_grows by (simp add: append_journal_def split: sum.splits)

lemma given_grows: "(\<And>x. journal_grows v b j (snd (k x j))) \<Longrightarrow> journal_grows v b j (snd (given r k j))"
  by (simp add: given_def split: sum.splits)

lemma andThen_grows:
  "journal_grows v b j (snd out) \<Longrightarrow> (\<And>x j1. journal_grows v b j1 (snd (k x j1))) \<Longrightarrow> journal_grows v b j (snd (andThen out k))"
  by (cases out; cases "fst out") (auto simp: andThen_def intro: journal_grows_trans)

lemma append_outcomes_grows: "journal_grows v b j (snd (append_outcomes v b s lg c xs j))"
proof (induction xs arbitrary: j)
  case (Cons x xs)
  then show ?case by (cases x) (simp, rule andThen_grows [OF append_journal_grows])
qed simp

lemma record_grows:
  "journal_grows v b j (snd (record_intent v b s lg c h refs j))"
  "journal_grows v b j (snd (record_dispatch v b s lg c j))"
  "journal_grows v b j (snd (record_outcomes v b s lg c j))"
  "journal_grows v b j (snd (record_reconciliation v b s lg c j))"
  unfolding record_intent_def record_dispatch_def record_outcomes_def record_reconciliation_def
  by (auto intro!: given_grows andThen_grows append_journal_grows append_outcomes_grows split: prod.splits)

lemma reconstruct_grows: "journal_grows v b j (snd (reconstruct v b s lg c h refs j))"
  unfolding reconstruct_def
  by (intro andThen_grows record_grows given_grows) (auto intro: record_grows split: prod.splits)

section \<open>What the chain binds\<close>

definition short_escapes :: "(nat \<times> char) list" where
  "short_escapes = [(34, CHR 0x22), (92, CHR 0x5C), (8, CHR ''b''), (9, CHR ''t''), (10, CHR ''n''), (12, CHR ''f''), (13, CHR ''r'')]"

lemma json_char_cases:
  "json_char c = [c] \<and> c \<noteq> CHR 0x22 \<and> c \<noteq> CHR 0x5C \<or> (\<exists>x. json_char c = [CHR 0x5C, x] \<and> (of_char c, x) \<in> set short_escapes) \<or>
     json_char c = CHR 0x5C # CHR ''u'' # hexn 4 (of_char c)"
  by (simp add: json_char_def Let_def short_escapes_def)

lemma json_char_forms:
  obtains (plain) "json_char c = [c]" "c \<noteq> CHR 0x22" "c \<noteq> CHR 0x5C"
    | (short) x where "json_char c = [CHR 0x5C, x]" "(of_char c, x) \<in> set short_escapes"
    | (hex) "json_char c = CHR 0x5C # CHR ''u'' # hexn 4 (of_char c)"
  using json_char_cases [of c] by blast

lemma short_escape_not_u: "(n, CHR ''u'') \<notin> set short_escapes"
  by (simp add: short_escapes_def)

lemma short_escape_inj: "(n, x) \<in> set short_escapes \<Longrightarrow> (m, x) \<in> set short_escapes \<Longrightarrow> n = m"
  by (auto simp: short_escapes_def)

lemma hexn_inj: "n < 16 ^ k \<Longrightarrow> m < 16 ^ k \<Longrightarrow> hexn k n = hexn k m \<Longrightarrow> n = m"
  by (metis hex_run_hexn mod_less add_0 mult_0 option.inject)

lemma of_char_inj: "(of_char c :: nat) = of_char d \<Longrightarrow> c = d"
  by simp

lemma of_char_hex: "(of_char c :: nat) < 16 ^ 4"
  by (rule less_trans [OF nat_of_char_less_256]) simp

lemma hexn_char_inj: "hexn 4 (of_char c) = hexn 4 (of_char d) \<Longrightarrow> c = d"
  using hexn_inj [OF of_char_hex of_char_hex] of_char_inj by blast

lemma json_char_append: "json_char c @ r = json_char d @ r' \<longleftrightarrow> c = d \<and> r = r'"
proof
  assume eq: "json_char c @ r = json_char d @ r'"
  show "c = d \<and> r = r'"
  proof (cases c rule: json_char_forms)
    case plain
    then show ?thesis using eq by (cases d rule: json_char_forms) auto
  next
    case short
    then show ?thesis using eq
      by (cases d rule: json_char_forms) (auto simp: short_escape_not_u dest: short_escape_inj intro: of_char_inj)
  next
    case hex
    then show ?thesis using eq
      by (cases d rule: json_char_forms) (auto simp: short_escape_not_u append_eq_append_conv simp del: hexn.simps dest: hexn_char_inj)
  qed
qed simp

lemma json_char_quote: "json_char c @ r \<noteq> CHR 0x22 # r'" "CHR 0x22 # r' \<noteq> json_char c @ r"
  by (cases c rule: json_char_forms; simp)+

lemma json_quote_append: "json_quote s @ r = json_quote t @ r' \<longleftrightarrow> s = t \<and> r = r'"
proof -
  have "concat (map json_char s) @ CHR 0x22 # r = concat (map json_char t) @ CHR 0x22 # r' \<longleftrightarrow> s = t \<and> r = r'"
  proof (induction s arbitrary: t)
    case Nil then show ?case by (cases t) (auto simp: json_char_quote)
  next
    case (Cons a s) then show ?case by (cases t) (auto simp: json_char_quote json_char_append)
  qed
  then show ?thesis by (simp add: json_quote_def)
qed

lemma chain_document_text:
  "canonical_json (chain_document n c ph i d p) = canonical_json (chain_document m c' ph' i' d' p') \<Longrightarrow>
     c = c' \<and> ph = ph' \<and> i = i' \<and> d = d' \<and> p = p'"
proof -
  have sorted: "canonical_json (chain_document n c ph i d p) = ''{'' @ json_quote ''command_id'' @ '':'' @ json_quote c @
      '','' @ json_quote ''event_identity'' @ '':'' @ json_quote i @ '','' @ json_quote ''payload_hash'' @ '':'' @ json_quote d @
      '','' @ json_quote ''phase'' @ '':'' @ json_quote ph @ '','' @ json_quote ''previous_hash'' @ '':'' @ json_quote p @
      '','' @ json_quote ''sequence'' @ '':'' @ str_int (int n) @ ''}''" for n c ph i d p
    by (simp add: chain_document_def sort_key_def)
  assume "canonical_json (chain_document n c ph i d p) = canonical_json (chain_document m c' ph' i' d' p')"
  then show ?thesis unfolding sorted by (simp add: json_quote_append)
qed

text \<open>A row as its table holds it, the payload as the text of its JSON, and the texts that the digest was taken of.\<close>

definition stored_row :: "journal_row \<Rightarrow> nat \<times> string \<times> string \<times> string \<times> string \<times> string \<times> string \<times> string" where
  "stored_row r = (jr_sequence r, jr_command_id r, jr_phase r, jr_identity r, canonical_json (jr_payload r), jr_payload_hash r,
     jr_previous_hash r, jr_chain_hash r)"

definition hashed_texts :: "journal_row list \<Rightarrow> string set" where
  "hashed_texts rows = (\<Union>r \<in> set rows. {canonical_json (jr_payload r),
     canonical_json (chain_document (jr_sequence r) (jr_command_id r) (jr_phase r) (jr_identity r) (jr_payload_hash r) (jr_previous_hash r))})"

lemma check_row_hashes:
  assumes "check_row v recs p r = Inr ()"
  shows "jr_sequence r = Suc (length recs)" "jr_previous_hash r = p" "jr_payload_hash r = je_hash v (canonical_json (jr_payload r))"
    "jr_chain_hash r = je_hash v (canonical_json (chain_document (jr_sequence r) (jr_command_id r) (jr_phase r) (jr_identity r)
       (jr_payload_hash r) (jr_previous_hash r)))"
  using assms by (auto simp: check_row_def clean_payload_def chain_digest_def payload_hash_def)

lemma chain_binds_rows:
  assumes "read_rows v [] p rs = Inr (out, q)" and "read_rows v [] p' rs' = Inr (out', q)" and "length rs = length rs'"
    and "inj_on (je_hash v) (hashed_texts rs \<union> hashed_texts rs')"
  shows "map stored_row rs = map stored_row rs'"
  using assms
proof (induction rs arbitrary: rs' out out' q rule: rev_induct)
  case (snoc r rs)
  obtain r' rt where rs': "rs' = rt @ [r']" using snoc.prems(3) by (cases rs' rule: rev_cases) auto
  obtain recs prev where run: "read_rows v [] p rs = Inr (recs, prev)" and chk: "check_row v recs prev r = Inr ()" and q: "q = jr_chain_hash r"
    using snoc.prems(1) by (auto simp: read_rows_append)
  obtain recs' prev' where run': "read_rows v [] p' rt = Inr (recs', prev')" and chk': "check_row v recs' prev' r' = Inr ()" and q': "q = jr_chain_hash r'"
    using snoc.prems(2) by (auto simp: rs' read_rows_append)
  note h = check_row_hashes [OF chk] and h' = check_row_hashes [OF chk']
  have len: "length recs = length recs'" using read_rows_all [OF run] read_rows_all [OF run'] snoc.prems(3) rs' by simp
  let ?doc = "\<lambda>r. canonical_json (chain_document (jr_sequence r) (jr_command_id r) (jr_phase r) (jr_identity r) (jr_payload_hash r) (jr_previous_hash r))"
  note inj = inj_onD [OF snoc.prems(4)]
  have "?doc r = ?doc r'" by (rule inj) (use q q' h(4) h'(4) in \<open>auto simp: hashed_texts_def rs'\<close>)
  note same = chain_document_text [OF this]
  have "canonical_json (jr_payload r) = canonical_json (jr_payload r')"
    by (rule inj) (use same h(3) h'(3) in \<open>auto simp: hashed_texts_def rs'\<close>)
  then have "stored_row r = stored_row r'" using same h h' len q q' by (simp add: stored_row_def)
  moreover have "map stored_row rs = map stored_row rt"
    using snoc.IH [OF run, of rt recs'] run' same h(2) h'(2) snoc.prems(3,4) by (auto simp: rs' hashed_texts_def intro: inj_on_subset)
  ultimately show ?case by (simp add: rs')
qed simp

section \<open>Calls\<close>

text \<open>Every public operation, with the store and the ledger as they are when it is called.\<close>

datatype journal_call =
    RecordIntent store pilot_ledger string string "(string \<times> string) list"
  | RecordDispatch store pilot_ledger string
  | RecordOutcomes store pilot_ledger string
  | RecordReconciliation store pilot_ledger string
  | Reconstruct store pilot_ledger string string "(string \<times> string) list"

fun journal_exec :: "journal_env \<Rightarrow> json \<Rightarrow> journal_call \<Rightarrow> journal \<Rightarrow> journal" where
  "journal_exec v b (RecordIntent s lg c h refs) j = snd (record_intent v b s lg c h refs j)"
| "journal_exec v b (RecordDispatch s lg c) j = snd (record_dispatch v b s lg c j)"
| "journal_exec v b (RecordOutcomes s lg c) j = snd (record_outcomes v b s lg c j)"
| "journal_exec v b (RecordReconciliation s lg c) j = snd (record_reconciliation v b s lg c j)"
| "journal_exec v b (Reconstruct s lg c h refs) j = snd (reconstruct v b s lg c h refs j)"

lemma journal_exec_grows: "journal_grows v b j (journal_exec v b c j)"
  by (cases c) (simp_all add: record_grows reconstruct_grows)

interpretation audit: invariant_calls "journal_exec v b" "\<lambda>_. True" "\<lambda>j. readable v b j \<and> prefix rows (jn_events j)" for v b rows
  by unfold_locales (metis journal_exec_grows journal_grows_def prefix_order.trans)

lemma create_journal_readable: "create_journal v lg = Inr j \<Longrightarrow> readable v (jn_binding j) j \<and> jn_events j = []"
  by (auto simp: create_journal_def readable_def read_journal_def Let_def)

lemma append_record_new:
  assumes "append_record v b c ph i data j = (Inr r, j')"
  shows "readable v b j' \<and> find_row (\<lambda>r. (jr_command_id r, jr_phase r, jr_identity r) = (c, ph, i)) (jn_events j') = Some r \<and>
    jr_payload_hash r = payload_hash (je_hash v) data"
proof -
  let ?key = "\<lambda>r. (jr_command_id r, jr_phase r, jr_identity r) = (c, ph, i)"
  obtain records where read: "read_journal v b j = Inr records" using assms unfolding append_record_def transaction_Inr by auto
  note old = read_journalD(1) [OF read]
  show ?thesis
  proof (cases "find_row ?key records")
    case (Some p)
    then have "r = p" "j' = j" "jr_payload_hash p = payload_hash (je_hash v) data"
      using assms read unfolding append_record_def transaction_Inr by (auto simp: Let_def split: if_splits)
    then show ?thesis using Some read old by (auto simp: readable_def)
  next
    case None
    then obtain row rows where new: "jn_events j' = jn_events j @ [row]" "?key row" "jr_payload_hash row = payload_hash (je_hash v) data"
      "read_journal v b j' = Inr rows" "r = last rows"
      using assms read unfolding append_record_def transaction_Inr by (auto simp: Let_def)
    have "r = row" using new read_journalD(1) [OF new(4)] by simp
    then show ?thesis using None new old by (auto simp: readable_def find_row_append)
  qed
qed

section \<open>Properties\<close>

definition wit_journal_env :: journal_env where
  "wit_journal_env = \<lparr>je_hash = (\<lambda>s. s), je_loads = (\<lambda>_. None), je_limit = 9, je_account = ''123'', je_root = ''/r'',
     je_ledger_path = ''/r/l'', je_store_path = ''/r/s'', je_rebuild = (\<lambda>_ _. Inr ())\<rparr>"

abbreviation wit_binding :: json where
  "wit_binding \<equiv> JInt 1"

definition wit_journal :: "json \<Rightarrow> journal" where
  "wit_journal p = snd (append_record wit_journal_env wit_binding ''c'' ''intent'' ''intent'' p
     \<lparr>jn_binding = wit_binding, jn_binding_digest = canonical_json wit_binding, jn_head = (0, canonical_json wit_binding), jn_events = []\<rparr>)"

abbreviation wit_a :: json where
  "wit_a \<equiv> JObj [(''a'', JInt 1), (''b'', JInt 2)]"

abbreviation wit_b :: json where
  "wit_b \<equiv> JObj [(''b'', JInt 2), (''a'', JInt 1)]"

lemma wit_journal_checks:
  "let j = wit_journal wit_a; k = wit_journal wit_b in
     read_journal wit_journal_env wit_binding j = Inr (jn_events j) \<and> read_journal wit_journal_env wit_binding k = Inr (jn_events k) \<and>
     jn_head j = jn_head k"
  by code_simp

lemmas wit_journal_reads = wit_journal_checks [unfolded Let_def, THEN conjunct1] wit_journal_checks [unfolded Let_def, THEN conjunct2, THEN conjunct1]
  wit_journal_checks [unfolded Let_def, THEN conjunct2, THEN conjunct2]

text \<open>
  C20: over any sequence of calls, with whatever store and ledger each finds, a journal that verifies
  keeps verifying from its binding to its head, rows are only appended, and the rows of every
  command are an intent, then a dispatch, then outcomes, then at most one reconciliation that
  follows at least one outcome and ends them (or one external import).
\<close>

theorem journal_append_only_ordered:
  assumes "read_journal v b j0 = Inr rows"
  shows "readable v b (run_calls (journal_exec v b) calls j0) \<and> prefix rows (jn_events (run_calls (journal_exec v b) calls j0)) \<and>
    phase_word c (phases_of c (jn_events (run_calls (journal_exec v b) calls j0)))"
proof -
  let ?j = "run_calls (journal_exec v b) calls j0"
  have j: "readable v b ?j" "prefix rows (jn_events ?j)"
    using audit.inv_run [of v b j0 rows calls] assms read_journalD(1) [OF assms] by (simp_all add: readable_def list_all_iff)
  then obtain records where "read_journal v b ?j = Inr records" by (auto simp: readable_def)
  from read_rows_phases [OF read_journalD(4) [OF this]] show ?thesis using j by blast
qed

theorem journal_append_only_ordered_witness:
  "readable wit_journal_env wit_binding (run_calls (journal_exec wit_journal_env wit_binding)
     [RecordDispatch empty_store wit_ledger ''c''] (wit_journal wit_a))"
  using journal_append_only_ordered [OF wit_journal_reads(1)] by blast

text \<open>
  C21: tampering shows. Two journals that verify under the same binding and have the same head hold
  the same rows, column by column, unless the digest collides on two texts that the journals
  themselves hash.
\<close>

theorem journal_tamper_evident:
  assumes "read_journal v b j1 = Inr rows1" and "read_journal v b j2 = Inr rows2" and "jn_head j1 = jn_head j2"
    and "inj_on (je_hash v) (hashed_texts rows1 \<union> hashed_texts rows2)"
  shows "map stored_row rows1 = map stored_row rows2"
  using chain_binds_rows [OF read_journalD(4) [OF assms(1)] read_journalD(4) [OF assms(2), folded assms(3)]]
    read_journalD(1,5) [OF assms(1)] read_journalD(1,5) [OF assms(2)] assms(3,4) by simp

theorem journal_tamper_evident_witness:
  "map stored_row (jn_events (wit_journal wit_a)) =
     map stored_row (jn_events (wit_journal wit_b))"
  by (rule journal_tamper_evident [OF wit_journal_reads(1,2,3)]) (simp add: wit_journal_env_def inj_on_def)

text \<open>
  An event is recorded once. After an append has returned a row, repeating it with the same
  content returns that row and leaves the journal as it is; repeating it with content of another
  hash is refused as a conflict and leaves the journal as it is.
\<close>

theorem journal_append_once:
  assumes "append_record v b c ph i data j = (Inr r, j')"
  shows "append_record v b c ph i data' j' =
    (if payload_hash (je_hash v) data' = payload_hash (je_hash v) data then Inr r
     else Inl (journal_error ''journal_conflicting_duplicate_event''), j')"
proof -
  note new = append_record_new [OF assms]
  obtain records where read: "read_journal v b j' = Inr records" using new by (auto simp: readable_def)
  then show ?thesis using new read_journalD(1) [OF read] by (simp add: append_record_def transaction_def Let_def)
qed

theorem journal_append_once_witness:
  "\<exists>r. append_record wit_journal_env wit_binding ''c'' ''intent'' ''intent'' JNull (wit_journal JNull) = (Inr r, wit_journal JNull)"
proof -
  let ?j0 = "\<lparr>jn_binding = wit_binding, jn_binding_digest = canonical_json wit_binding, jn_head = (0, canonical_json wit_binding), jn_events = []\<rparr>"
  have "\<not> isl (fst (append_record wit_journal_env wit_binding ''c'' ''intent'' ''intent'' JNull ?j0))" by code_simp
  then obtain r where "append_record wit_journal_env wit_binding ''c'' ''intent'' ''intent'' JNull ?j0 = (Inr r, wit_journal JNull)"
    unfolding wit_journal_def by (cases "append_record wit_journal_env wit_binding ''c'' ''intent'' ''intent'' JNull ?j0"; cases "fst (append_record wit_journal_env wit_binding ''c'' ''intent'' ''intent'' JNull ?j0)") auto
  from journal_append_once [OF this, of JNull] show ?thesis by simp
qed

end
