(* ===== verification/Standing_Mandate.thy ===== *)
theory Standing_Mandate
  imports Submission_Gate Usage Pilot_Budget
begin

text \<open>
  \<open>src/execution/pilot_mandate.py\<close>: the standing authorization of one Demo attempt, its three
  additive amendments and the approvals issued under it. A mandate is a sealed file that is
  created once and re-read before each use. The files are a map from paths to contents (their
  size and the parsed document, or the exception of parsing); links are not modelled. The clocks
  of an account capture (\<open>validate_fresh\<close> and \<open>deadline\<close>, computed from the raw broker
  sources) are in \<open>mandate_env\<close>, with the digest and the ledger's resolved path and account.
\<close>

section \<open>Files\<close>

record mandate_env =
  me_hash :: digest
  me_fresh :: "pilot_account \<Rightarrow> instant \<Rightarrow> unit result"
  me_deadline :: "pilot_account \<Rightarrow> instant"
  me_ledger_path :: string
  me_account :: string

record mandate_file =
  mf_size :: nat
  mf_doc :: "json result"

type_synonym mandate_disk = "string \<Rightarrow> mandate_file option"

abbreviation mandate_error :: "string \<Rightarrow> error" where
  "mandate_error m \<equiv> PilotMandateError m"

text \<open>\<open>==\<close> of parsed JSON: dictionaries without regard to order, and \<open>True == 1\<close>.\<close>

fun json_eq :: "json \<Rightarrow> json \<Rightarrow> bool" where
  "json_eq (JObj xs) (JObj ys) \<longleftrightarrow> set (map fst xs) = set (map fst ys) \<and>
     list_all (\<lambda>kv. case map_of ys (fst kv) of Some w \<Rightarrow> json_eq (snd kv) w | None \<Rightarrow> False) xs"
| "json_eq (JArr xs) (JArr ys) \<longleftrightarrow> list_all2 json_eq xs ys"
| "json_eq (JBool b) (JInt i) \<longleftrightarrow> i = (if b then 1 else 0)"
| "json_eq (JInt i) (JBool b) \<longleftrightarrow> i = (if b then 1 else 0)"
| "json_eq x y \<longleftrightarrow> x = y"

text \<open>\<open>str(Path(s))\<close>: empty and \<open>.\<close> components go, and a root of exactly two slashes stays.\<close>

fun path_split :: "string \<Rightarrow> string \<Rightarrow> string list" where
  "path_split acc [] = [rev acc]"
| "path_split acc (c # cs) = (if c = CHR ''/'' then rev acc # path_split [] cs else path_split (c # acc) cs)"

definition path_absolute :: "string \<Rightarrow> bool" where
  "path_absolute s \<longleftrightarrow> take 1 s = ''/''"

definition path_str :: "string \<Rightarrow> string" where
  "path_str s =
     (let parts = filter (\<lambda>p. p \<noteq> [] \<and> p \<noteq> ''.'') (path_split [] s);
          base = (if take 2 s = ''//'' \<and> take 3 s \<noteq> ''///'' then ''//'' else if path_absolute s then ''/'' else []) in
      if base = [] \<and> parts = [] then ''.'' else base @ join ''/'' parts)"

text \<open>\<open>_timestamp\<close> of a datetime\<close>

fun pilot_timestamp :: "pydatetime \<Rightarrow> instant result" where
  "pilot_timestamp (Aware t _) = Inr t"
| "pilot_timestamp (Naive _) = Inl (mandate_error ''mandate_timezone_aware_time_required'')"

text \<open>The record of a file: the payload under its key, with its hash.\<close>

definition sealed_payload :: "digest \<Rightarrow> string \<Rightarrow> string \<Rightarrow> mandate_file \<Rightarrow> ((string \<times> json) list \<times> string) result" where
  "sealed_payload H name key f =
     raiseIf (mf_size f > 65536) (mandate_error (name @ ''_file_size_invalid'')) (
     bindR (mf_doc f) (\<lambda>j. case j of
       JObj kvs \<Rightarrow>
         raiseIf (set (map fst kvs) \<noteq> {key, ''sha256''}) (mandate_error (name @ ''_record_shape_invalid'')) (
         case member kvs key of
           JObj payload \<Rightarrow>
             let digest = payload_hash H (JObj payload) in
             raiseIf (JStr digest \<noteq> member kvs ''sha256'') (mandate_error (name @ ''_integrity_failure'')) (Inr (payload, digest))
         | _ \<Rightarrow> Inl (mandate_error (name @ ''_integrity_failure'')))
     | _ \<Rightarrow> Inl (mandate_error (name @ ''_record_shape_invalid''))))"

definition sealed_file :: "digest \<Rightarrow> string \<Rightarrow> json \<Rightarrow> mandate_file" where
  "sealed_file H key payload = (let doc = JObj [(key, payload), (''sha256'', JStr (payload_hash H payload))] in
     \<lparr>mf_size = length (canonical_json doc) + 1, mf_doc = Inr doc\<rparr>)"

text \<open>
  The handlers of a load: mandate errors pass, value, type and key errors and a missing file
  become one; \<open>AttributeError\<close> and \<open>RecursionError\<close> escape.
\<close>

definition load_errors :: "string \<Rightarrow> 'a result \<Rightarrow> 'a result" where
  "load_errors name r = (case r of
       Inl (PilotMandateError m) \<Rightarrow> Inl (PilotMandateError m)
     | Inl (PyAttributeError m) \<Rightarrow> Inl (PyAttributeError m)
     | Inl (PyRecursionError m) \<Rightarrow> Inl (PyRecursionError m)
     | Inl _ \<Rightarrow> Inl (mandate_error (name @ ''_missing_or_invalid''))
     | Inr x \<Rightarrow> Inr x)"

section \<open>The standing mandate\<close>

definition standing_scope :: json where
  "standing_scope = JObj
     [(''policy'', JStr ''demo-pilot-v1''), (''environment'', JStr ''demo''), (''broker'', JStr ''etoro''),
      (''transport'', JStr ''official_demo_api''), (''instrument_id'', JInt 1142), (''symbol'', JStr ''SBUX''), (''asset_type'', JStr ''equity''),
      (''currency'', JStr ''USD''), (''amount'', JStr ''10''), (''side'', JStr ''buy''), (''order_type'', JStr ''market''), (''leverage'', JStr ''1''),
      (''settlement_type'', JStr ''real''), (''maximum_submissions'', JInt 1), (''maximum_confirmed_pilot_fills'', JInt 1),
      (''validity'', JStr ''until_first_submission_or_revocation''), (''expiry_at'', JNull),
      (''guardrails'', JObj
        [(''order_including_costs_usd'', JStr ''100''), (''pilot_capital_and_commitments_usd'', JStr ''500''), (''maximum_pilot_positions'', JInt 5),
         (''minimum_available_cash_equity_fraction'', JStr ''0.20''), (''maximum_opening_submissions_per_london_day'', JInt 1),
         (''cumulative_pilot_loss_stop_usd'', JStr ''25''), (''usage_work_floor_percent'', JStr ''10''),
         (''usage_recovery_reserve_percent'', JStr ''5''), (''preserve_existing_inception'', JBool True),
         (''preserve_legacy_holdings'', JBool True), (''no_addition_to_over_limit_issuer'', JBool True),
         (''recovery'', JStr ''lookup_only_no_resubmission'')])]"

record standing_mandate =
  sm_path :: string
  sm_account_id :: string
  sm_mandate_hash :: string
  sm_mandate_id :: string
  sm_source_reference :: string
  sm_issued_at :: instant
  sm_ledger_path :: string
  sm_ledger_inception_hash :: string

definition standing_keys :: "string list" where
  "standing_keys = [''schema'', ''mandate_id'', ''account_id'', ''source_reference'', ''issued_at'', ''ledger_path'', ''ledger_inception_hash'', ''scope'']"

definition standing_fields :: "string \<Rightarrow> (string \<times> json) list \<times> string \<Rightarrow> standing_mandate result" where
  "standing_fields path = (\<lambda>(kvs, digest).
     let invalid = mandate_error ''mandate_authority_or_inception_binding_invalid'' in
     raiseIf (set (map fst kvs) \<noteq> set standing_keys \<or> member kvs ''schema'' \<noteq> JStr ''standing-demo-pilot-mandate-v1'' \<or>
              \<not> json_eq (member kvs ''scope'') standing_scope) (mandate_error ''mandate_scope_or_schema_invalid'') (
     case (member kvs ''source_reference'', member kvs ''ledger_path'') of
       (JStr reference, JStr ledger_path) \<Rightarrow>
         raiseIf (blank reference \<or> \<not> path_absolute ledger_path) invalid (
         bindR (json_hash invalid (member kvs ''ledger_inception_hash'')) (\<lambda>inception_hash.
         bindR (mandate_identity (member kvs ''account_id'')) (\<lambda>account_id.
         bindR (json_uuid (member kvs ''mandate_id'')) (\<lambda>mandate_id.
         bindR (mandate_timestamp (member kvs ''issued_at'')) (\<lambda>issued.
         Inr \<lparr>sm_path = path, sm_account_id = account_id, sm_mandate_hash = digest, sm_mandate_id = mandate_id,
              sm_source_reference = reference, sm_issued_at = issued, sm_ledger_path = path_str ledger_path,
              sm_ledger_inception_hash = inception_hash\<rparr>)))))
     | _ \<Rightarrow> Inl invalid))"

definition read_standing :: "digest \<Rightarrow> mandate_disk \<Rightarrow> string \<Rightarrow> standing_mandate result" where
  "read_standing H d path = (case d path of
       None \<Rightarrow> Inl (mandate_error ''mandate_missing_or_invalid'')
     | Some f \<Rightarrow> load_errors ''mandate'' (bindR (sealed_payload H ''mandate'' ''mandate'' f) (standing_fields path)))"

definition load_standing :: "digest \<Rightarrow> mandate_disk \<Rightarrow> string \<Rightarrow> string \<Rightarrow> standing_mandate result" where
  "load_standing H d path expected_account_id =
     bindR (read_standing H d path) (\<lambda>m.
     bindR (mandate_identity (JStr expected_account_id)) (\<lambda>expected.
     raiseIf (sm_account_id m \<noteq> expected) (mandate_error ''mandate_wrong_demo_account'') (Inr m)))"

definition existing_ledger :: "mandate_env \<Rightarrow> pilot_ledger \<Rightarrow> string \<Rightarrow> pilot_state result" where
  "existing_ledger v lg account_id =
     bindR (ledger_state (me_account v) lg) (\<lambda>st.
     raiseIf (in_account_id (lg_inception lg) \<noteq> account_id) (mandate_error ''mandate_existing_demo_inception_mismatch'') (
     raiseIf (lg_submissions lg \<noteq> [] \<or> ps_positions st \<noteq> [] \<or> position_count lg st \<noteq> 0 \<or> \<not> dec_eq (committed_capital lg st) dec0)
       (mandate_error ''mandate_one_attempt_exhausted_lookup_only'') (
     raiseIf (unresolved lg st \<or> ps_loss_stopped st \<or> dec_le (ps_pnl st) (Dec True 25 0)) (mandate_error ''mandate_pilot_ledger_blocked'') (
     Inr st))))"

text \<open>
  A creation makes its payload and writes it to a path that must not exist; the file stays even
  when it then does not load. \<open>fresh\<close> is the drawn UUID.
\<close>

definition seal_new :: "digest \<Rightarrow> string \<Rightarrow> string \<Rightarrow> string \<Rightarrow> (mandate_disk \<Rightarrow> 'a result) \<Rightarrow> json result \<Rightarrow> mandate_disk \<Rightarrow> 'a result \<times> mandate_disk" where
  "seal_new H name key path load payload d = (case payload of
       Inl e \<Rightarrow> (Inl e, d)
     | Inr p \<Rightarrow>
         if d path \<noteq> None then (Inl (mandate_error (name @ ''_already_exists_never_overwrite'')), d)
         else let d' = d(path := Some (sealed_file H key p)) in (load d', d'))"

definition standing_payload :: "mandate_env \<Rightarrow> uuid \<Rightarrow> string \<Rightarrow> string \<Rightarrow> instant \<Rightarrow> pilot_ledger \<Rightarrow> json" where
  "standing_payload v fresh account source_reference moment lg = JObj
     [(''schema'', JStr ''standing-demo-pilot-mandate-v1''), (''mandate_id'', JStr (uuid_str fresh)), (''account_id'', JStr account),
      (''source_reference'', JStr source_reference), (''issued_at'', JTime moment), (''ledger_path'', JStr (me_ledger_path v)),
      (''ledger_inception_hash'', JStr (payload_hash (me_hash v) (inception_json (lg_inception lg)))), (''scope'', standing_scope)]"

definition create_standing ::
  "mandate_env \<Rightarrow> uuid \<Rightarrow> string \<Rightarrow> string \<Rightarrow> string \<Rightarrow> pydatetime \<Rightarrow> pilot_ledger \<Rightarrow> mandate_disk \<Rightarrow> standing_mandate result \<times> mandate_disk" where
  "create_standing v fresh path account_id source_reference issued_at lg =
     seal_new (me_hash v) ''mandate'' ''mandate'' path (\<lambda>d. load_standing (me_hash v) d path account_id) (
     bindR (mandate_identity (JStr account_id)) (\<lambda>account.
     bindR (pilot_timestamp issued_at) (\<lambda>moment.
     raiseIf (blank source_reference) (mandate_error ''mandate_human_source_reference_required'') (
     bindR (existing_ledger v lg account) (\<lambda>st.
     raiseIf (moment < in_moment (lg_inception lg)) (mandate_error ''mandate_issue_precedes_existing_inception'') (
     Inr (standing_payload v fresh account source_reference moment lg)))))))"

definition validate_standing ::
  "mandate_env \<Rightarrow> mandate_disk \<Rightarrow> standing_mandate \<Rightarrow> pilot_ledger \<Rightarrow> ks_status result \<Rightarrow> pydatetime \<Rightarrow> ks_status result" where
  "validate_standing v d m lg kill_switch now =
     bindR (load_standing (me_hash v) d (sm_path m) (sm_account_id m)) (\<lambda>loaded.
     raiseIf (m \<noteq> loaded) (mandate_error ''mandate_changed_after_load'') (
     bindR (pilot_timestamp now) (\<lambda>moment.
     raiseIf (moment < sm_issued_at m) (mandate_error ''mandate_not_yet_issued'') (
     bindR (existing_ledger v lg (sm_account_id m)) (\<lambda>st.
     raiseIf (me_ledger_path v \<noteq> sm_ledger_path m \<or> payload_hash (me_hash v) (inception_json (lg_inception lg)) \<noteq> sm_ledger_inception_hash m)
       (mandate_error ''mandate_original_ledger_inception_required'') (
     bindR kill_switch (\<lambda>status.
     raiseIf (ks_environment status \<noteq> DEMO \<or> ks_engaged status \<or> \<not> ks_integrity_valid status \<or> \<not> writes_allowed status)
       (mandate_error ''mandate_revoked_or_kill_switch_unverified'') (Inr status))))))))"

section \<open>Amendments\<close>

text \<open>The classes \<open>PilotUsageAmendment\<close>, \<open>PilotUsageWaiver\<close> and \<open>PilotBufferAmendment\<close> differ in these.\<close>

datatype amendment_kind = UsageFloor | UsageWaived | UnreportedBuffer

fun kind_name :: "amendment_kind \<Rightarrow> string" where
  "kind_name UsageFloor = ''usage_amendment''"
| "kind_name UsageWaived = ''usage_waiver''"
| "kind_name UnreportedBuffer = ''buffer_amendment''"

fun kind_key :: "amendment_kind \<Rightarrow> string" where
  "kind_key UsageWaived = ''waiver''"
| "kind_key _ = ''amendment''"

fun kind_id :: "amendment_kind \<Rightarrow> string" where
  "kind_id UsageWaived = ''waiver_id''"
| "kind_id _ = ''amendment_id''"

fun kind_schema :: "amendment_kind \<Rightarrow> string" where
  "kind_schema UsageFloor = ''standing-demo-pilot-usage-amendment-v1''"
| "kind_schema UsageWaived = ''standing-demo-pilot-usage-waiver-v1''"
| "kind_schema UnreportedBuffer = ''standing-demo-pilot-buffer-amendment-v1''"

definition usage_amendment_scope :: json where
  "usage_amendment_scope = JObj
     [(''policy'', JStr ''demo-pilot-v1''), (''change'', JStr ''usage_work_floor_only''), (''original_work_floor_percent'', JStr ''10''),
      (''work_floor_percent'', JStr ''5''), (''recovery_reserve_percent'', JStr ''5''), (''preserve_original_mandate'', JBool True),
      (''preserve_existing_inception'', JBool True)]"

definition usage_waiver_scope :: json where
  "usage_waiver_scope = JObj
     [(''policy'', JStr ''demo-pilot-v1''), (''workflow'', JStr ''standing_demo_api''), (''change'', JStr ''usage_gates_only''),
      (''work_usage_gate'', JStr ''waived''), (''submission_usage_gate'', JStr ''waived''), (''recovery_usage_gate'', JStr ''waived''),
      (''preserve_original_mandate'', JBool True), (''preserve_existing_inception'', JBool True), (''preserve_order_scope'', JBool True),
      (''preserve_non_usage_risk_gates'', JBool True), (''preserve_single_submission_limit'', JBool True)]"

definition buffer_amendment_scope :: json where
  "buffer_amendment_scope = JObj
     [(''policy'', JStr ''demo-pilot-v1''), (''workflow'', JStr ''standing_demo_api''), (''change'', JStr ''unreported_buffer_admission_only''),
      (''instrument_id'', JInt 1142), (''symbol'', JStr ''SBUX''), (''amount'', JStr ''10''), (''currency'', JStr ''USD''),
      (''side'', JStr ''buy''), (''order_type'', JStr ''market''), (''leverage'', JStr ''1''), (''settlement_type'', JStr ''real''),
      (''allow_unreported_buffer'', JBool True), (''unreported_buffer_value'', JStr ''unknown''),
      (''explicit_nonzero_buffer'', JStr ''unsupported''),
      (''cash_guard_basis'', JStr ''economic_commitment_and_terminal_whole_account_cash_reconciliation''),
      (''continuous_inflight_available_cash_verified'', JBool False), (''preserve_original_mandate'', JBool True),
      (''preserve_existing_inception'', JBool True), (''preserve_other_financial_limits'', JBool True),
      (''preserve_market_freshness'', JBool True), (''preserve_single_submission_limit'', JBool True),
      (''recovery'', JStr ''lookup_only_no_resubmission'')]"

fun kind_scope :: "amendment_kind \<Rightarrow> json" where
  "kind_scope UsageFloor = usage_amendment_scope"
| "kind_scope UsageWaived = usage_waiver_scope"
| "kind_scope UnreportedBuffer = buffer_amendment_scope"

text \<open>The buffer amendment compares the canonical texts, the others compare with \<open>==\<close>.\<close>

fun scope_matches :: "amendment_kind \<Rightarrow> json \<Rightarrow> bool" where
  "scope_matches UnreportedBuffer j \<longleftrightarrow> canonical_json j = canonical_json buffer_amendment_scope"
| "scope_matches k j \<longleftrightarrow> json_eq j (kind_scope k)"

record pilot_amendment =
  am_path :: string
  am_hash :: string
  am_id :: string
  am_mandate_hash :: string
  am_account_id :: string
  am_ledger_path :: string
  am_ledger_inception_hash :: string
  am_source_reference :: string
  am_issued_at :: instant

definition original_mandate :: "digest \<Rightarrow> mandate_disk \<Rightarrow> standing_mandate \<Rightarrow> unit result" where
  "original_mandate H d m =
     bindR (load_standing H d (sm_path m) (sm_account_id m)) (\<lambda>loaded.
     raiseIf (loaded \<noteq> m) (mandate_error ''usage_amendment_original_mandate_changed'') (Inr ()))"

definition amendment_binding :: "mandate_env \<Rightarrow> mandate_disk \<Rightarrow> standing_mandate \<Rightarrow> pilot_ledger \<Rightarrow> bool \<Rightarrow> unit result" where
  "amendment_binding v d m lg require_unclaimed =
     bindR (original_mandate (me_hash v) d m) (\<lambda>_.
     bindR (if require_unclaimed then existing_ledger v lg (sm_account_id m) else ledger_state (me_account v) lg) (\<lambda>st.
     raiseIf (in_account_id (lg_inception lg) \<noteq> sm_account_id m \<or> me_ledger_path v \<noteq> sm_ledger_path m \<or>
              payload_hash (me_hash v) (inception_json (lg_inception lg)) \<noteq> sm_ledger_inception_hash m)
       (mandate_error ''usage_amendment_original_ledger_inception_required'') (Inr ())))"

definition amendment_keys :: "amendment_kind \<Rightarrow> string list" where
  "amendment_keys k = [''schema'', kind_id k, ''mandate_hash'', ''account_id'', ''ledger_path'', ''ledger_inception_hash'', ''source_reference'', ''issued_at'', ''scope'']"

definition amendment_fields :: "amendment_kind \<Rightarrow> string \<Rightarrow> standing_mandate \<Rightarrow> (string \<times> json) list \<times> string \<Rightarrow> pilot_amendment result" where
  "amendment_fields k path m = (\<lambda>(kvs, digest).
     let required = mandate_error (kind_name k @ ''_current_human_source_reference_required'') in
     raiseIf (set (map fst kvs) \<noteq> set (amendment_keys k) \<or> member kvs ''schema'' \<noteq> JStr (kind_schema k) \<or>
              \<not> scope_matches k (member kvs ''scope'')) (mandate_error (kind_name k @ ''_scope_or_schema_invalid'')) (
     raiseIf (member kvs ''mandate_hash'' \<noteq> JStr (sm_mandate_hash m) \<or> member kvs ''account_id'' \<noteq> JStr (sm_account_id m) \<or>
              member kvs ''ledger_path'' \<noteq> JStr (sm_ledger_path m) \<or>
              member kvs ''ledger_inception_hash'' \<noteq> JStr (sm_ledger_inception_hash m))
       (mandate_error (kind_name k @ ''_original_mandate_binding_mismatch'')) (
     case member kvs ''source_reference'' of
       JStr reference \<Rightarrow>
         raiseIf (blank reference) required (
         bindR (json_uuid (member kvs (kind_id k))) (\<lambda>ident.
         bindR (mandate_timestamp (member kvs ''issued_at'')) (\<lambda>moment.
         raiseIf (moment < sm_issued_at m) (mandate_error (kind_name k @ ''_cannot_precede_original_mandate'')) (
         Inr \<lparr>am_path = path, am_hash = digest, am_id = ident, am_mandate_hash = sm_mandate_hash m, am_account_id = sm_account_id m,
              am_ledger_path = sm_ledger_path m, am_ledger_inception_hash = sm_ledger_inception_hash m,
              am_source_reference = reference, am_issued_at = moment\<rparr>))))
     | _ \<Rightarrow> Inl required)))"

definition load_amendment :: "amendment_kind \<Rightarrow> digest \<Rightarrow> mandate_disk \<Rightarrow> string \<Rightarrow> standing_mandate \<Rightarrow> pilot_amendment result" where
  "load_amendment k H d path m =
     bindR (original_mandate H d m) (\<lambda>_. case d path of
       None \<Rightarrow> Inl (mandate_error (kind_name k @ ''_missing_or_invalid''))
     | Some f \<Rightarrow> load_errors (kind_name k) (bindR (sealed_payload H (kind_name k) (kind_key k) f) (amendment_fields k path m)))"

definition create_amendment ::
  "amendment_kind \<Rightarrow> mandate_env \<Rightarrow> uuid \<Rightarrow> string \<Rightarrow> standing_mandate \<Rightarrow> pilot_ledger \<Rightarrow> string \<Rightarrow> pydatetime \<Rightarrow> mandate_disk \<Rightarrow>
   pilot_amendment result \<times> mandate_disk" where
  "create_amendment k v fresh path m lg source_reference issued_at d =
     seal_new (me_hash v) (kind_name k) (kind_key k) path (\<lambda>d. load_amendment k (me_hash v) d path m) (
     bindR (amendment_binding v d m lg True) (\<lambda>_.
     bindR (pilot_timestamp issued_at) (\<lambda>moment.
     raiseIf (blank source_reference) (mandate_error (kind_name k @ ''_current_human_source_reference_required'')) (
     raiseIf (moment < sm_issued_at m) (mandate_error (kind_name k @ ''_cannot_precede_original_mandate'')) (
     Inr (JObj
       [(''schema'', JStr (kind_schema k)), (kind_id k, JStr (uuid_str fresh)), (''mandate_hash'', JStr (sm_mandate_hash m)),
        (''account_id'', JStr (sm_account_id m)), (''ledger_path'', JStr (sm_ledger_path m)),
        (''ledger_inception_hash'', JStr (sm_ledger_inception_hash m)), (''source_reference'', JStr source_reference),
        (''issued_at'', JTime moment), (''scope'', kind_scope k)])))))) d"

definition validate_amendment ::
  "amendment_kind \<Rightarrow> mandate_env \<Rightarrow> mandate_disk \<Rightarrow> pilot_amendment \<Rightarrow> standing_mandate \<Rightarrow> pilot_ledger \<Rightarrow> pydatetime \<Rightarrow> unit result" where
  "validate_amendment k v d a m lg now =
     bindR (load_amendment k (me_hash v) d (am_path a) m) (\<lambda>loaded.
     raiseIf (loaded \<noteq> a) (mandate_error (kind_name k @ ''_changed_after_load'')) (
     bindR (pilot_timestamp now) (\<lambda>moment.
     raiseIf (moment < am_issued_at a) (mandate_error (kind_name k @ ''_not_yet_issued'')) (
     amendment_binding v d m lg False))))"

definition PilotUsageAmendment_create where "PilotUsageAmendment_create = create_amendment UsageFloor"
definition PilotUsageAmendment_load where "PilotUsageAmendment_load = load_amendment UsageFloor"
definition PilotUsageAmendment_validate where "PilotUsageAmendment_validate = validate_amendment UsageFloor"
definition PilotUsageWaiver_create where "PilotUsageWaiver_create = create_amendment UsageWaived"
definition PilotUsageWaiver_load where "PilotUsageWaiver_load = load_amendment UsageWaived"
definition PilotUsageWaiver_validate where "PilotUsageWaiver_validate = validate_amendment UsageWaived"
definition PilotBufferAmendment_create where "PilotBufferAmendment_create = create_amendment UnreportedBuffer"
definition PilotBufferAmendment_load where "PilotBufferAmendment_load = load_amendment UnreportedBuffer"
definition PilotBufferAmendment_validate where "PilotBufferAmendment_validate = validate_amendment UnreportedBuffer"

definition amended_floor_percent :: decimal where "amended_floor_percent = Dec False 5 0"

section \<open>Approvals under the mandate\<close>

datatype order_value = OText string | OInt int | ONumber decimal

fun order_value_json :: "order_value \<Rightarrow> json" where
  "order_value_json (OText s) = JStr s"
| "order_value_json (OInt i) = JInt i"
| "order_value_json (ONumber x) = jdec x"

type_synonym order_payload = "(string \<times> order_value) list"

definition exact_order :: "order_payload \<Rightarrow> bool" where
  "exact_order p \<longleftrightarrow>
     set (map fst p) = {''action'', ''transaction'', ''instrumentId'', ''settlementType'', ''orderType'', ''leverage'', ''amount'', ''orderCurrency''} \<and>
     map_of p ''action'' = Some (OText ''open'') \<and> map_of p ''transaction'' = Some (OText ''buy'') \<and> map_of p ''instrumentId'' = Some (OInt 1142) \<and>
     map_of p ''settlementType'' = Some (OText ''real'') \<and> map_of p ''orderType'' = Some (OText ''mkt'') \<and> map_of p ''leverage'' = Some (OInt 1) \<and>
     (case map_of p ''amount'' of Some (ONumber x) \<Rightarrow> dec_eq x (dec_of_int 10) | Some (OInt i) \<Rightarrow> i = 10 | _ \<Rightarrow> False) \<and>
     map_of p ''orderCurrency'' = Some (OText ''usd'')"

definition required_checks :: "string list" where
  "required_checks = [''order_cap'', ''capital_cap'', ''position_cap'', ''cash_buffer'', ''issuer_cap'', ''loss_stop'', ''reconciled'', ''daily_submission'']"

definition intent_in_scope :: "digest \<Rightarrow> order_intent \<Rightarrow> bool" where
  "intent_in_scope H i \<longleftrightarrow> compute_hash H i = oi_intent_hash i \<and> oi_environment i = DEMO \<and> oi_currency i = ''USD'' \<and> oi_side i = BUY \<and>
     oi_order_type i = MARKET \<and> oi_sizing_method i = FIXED_NOTIONAL \<and> dec_eq (oi_sizing_value i) (dec_of_int 10) \<and>
     dec_eq (oi_target_leverage i) dec1 \<and> oi_limit_price i = None"

definition instrument_in_scope :: "order_intent \<Rightarrow> instrument \<Rightarrow> broker_mapping \<Rightarrow> bool" where
  "instrument_in_scope i x b \<longleftrightarrow> in_internal_instrument_id x = oi_internal_instrument_id i \<and>
     bm_internal_instrument_id b = oi_internal_instrument_id i \<and> in_canonical_symbol x = ''SBUX'' \<and> in_asset_type x = ''equity'' \<and>
     in_currency x = ''USD'' \<and> bm_broker b = ''etoro'' \<and> bm_environment b = DEMO \<and> bm_broker_instrument_id b = 1142 \<and>
     bm_exact_match_symbol b = ''SBUX''"

definition decision_in_scope :: "risk_limits \<Rightarrow> order_intent \<Rightarrow> pilot_account \<Rightarrow> instant \<Rightarrow> risk_decision \<Rightarrow> bool" where
  "decision_in_scope limits i account moment r \<longleftrightarrow>
     rd_outcome r = ACCEPTED \<and> rd_intent_hash r = oi_intent_hash i \<and> rd_account_snapshot_id r = pa_source_hash account \<and>
     dict_get (rd_computed_exposures r) ''policy'' = Some ''demo-pilot-v1'' \<and> distinct (map rc_name (rd_checks r)) \<and>
     set required_checks \<subseteq> set (map rc_name (rd_checks r)) \<and> list_all rc_passed (rd_checks r) \<and>
     0 \<le> moment - rd_decided_at r \<and> moment - rd_decided_at r \<le> seconds (min 30 (rl_approval_max_age_seconds limits)) \<and>
     0 \<le> moment - rd_quote_observed_at r \<and> moment - rd_quote_observed_at r \<le> seconds (min 30 (rl_quote_max_age_seconds limits))"

text \<open>The usage evidence of a send: a waiver, or an admission above the (amended) floor.\<close>

definition usage_gate ::
  "mandate_env \<Rightarrow> mandate_disk \<Rightarrow> standing_mandate \<Rightarrow> pilot_ledger \<Rightarrow> instant \<Rightarrow> pilot_usage_admission option \<Rightarrow> pilot_amendment option \<Rightarrow>
   pilot_amendment option \<Rightarrow> unit result" where
  "usage_gate v d m lg moment usage amendment waiver = (case waiver of
       Some w \<Rightarrow> validate_amendment UsageWaived v d w m lg (utc moment)
     | None \<Rightarrow>
         bindR (case amendment of None \<Rightarrow> Inr (dec_of_int 10)
           | Some a \<Rightarrow> bindR (validate_amendment UsageFloor v d a m lg (utc moment)) (\<lambda>_. Inr amended_floor_percent)) (\<lambda>least.
         let required = mandate_error ''mandate_fresh_authorized_usage_floor_and_reserve_required'' in
         case usage of
           None \<Rightarrow> Inl required
         | Some u \<Rightarrow>
             raiseIf (dec_lt (ua_floor_percent u) least \<or> dec_lt (ua_recovery_reserve_percent u) (Dec False 5 0)) required (
             bindR (validate_for_submission u (utc moment)) (\<lambda>blockers.
             raiseIf (blockers \<noteq> []) required (
             raiseIf (dec_lt (ua_floor_percent u) (dec_of_int 10) \<and>
                      Some (ua_authorization_reference u) \<noteq> map_option am_source_reference amendment)
               (mandate_error ''mandate_usage_amendment_authorization_reference_mismatch'') (Inr ()))))))"

definition approval_expiry ::
  "mandate_env \<Rightarrow> risk_limits \<Rightarrow> order_intent \<Rightarrow> risk_decision \<Rightarrow> pilot_account \<Rightarrow> pilot_usage_admission option \<Rightarrow> bool \<Rightarrow> instant" where
  "approval_expiry v limits i r account usage waived =
     (let e = min (oi_expires_at i) (min (me_deadline v account)
                (min (rd_decided_at r + seconds (rl_approval_max_age_seconds limits))
                     (rd_quote_observed_at r + seconds (min 30 (rl_quote_max_age_seconds limits))))) in
      case usage of Some u \<Rightarrow> if waived then e else min e (ua_observed_at u + seconds max_usage_age_seconds) | None \<Rightarrow> e)"

definition bound_limits ::
  "mandate_env \<Rightarrow> standing_mandate \<Rightarrow> risk_decision \<Rightarrow> order_payload \<Rightarrow> ks_status \<Rightarrow> pilot_usage_admission option \<Rightarrow> pilot_amendment option \<Rightarrow>
   pilot_amendment option \<Rightarrow> (string \<times> string) list" where
  "bound_limits v m r order switch usage amendment waiver =
     (let waived = waiver \<noteq> None;
          of_usage = (\<lambda>f. if waived then [] else case usage of Some u \<Rightarrow> f u | None \<Rightarrow> []);
          of_waiver = (\<lambda>f. case waiver of Some w \<Rightarrow> f w | None \<Rightarrow> []);
          of_amendment = (\<lambda>f. case amendment of Some a \<Rightarrow> if waived then [] else f a | None \<Rightarrow> []) in
      [(''risk_decision_id'', uuid_str (rd_decision_id r)), (''account_snapshot_id'', rd_account_snapshot_id r), (''quote_id'', rd_quote_id r),
       (''authorization_kind'', ''standing_mandate''), (''mandate_hash'', sm_mandate_hash m), (''mandate_id'', sm_mandate_id m),
       (''authorization_source_reference'', sm_source_reference m), (''account_id'', sm_account_id m),
       (''order_payload_hash'', payload_hash (me_hash v) (JObj (map (\<lambda>kv. (fst kv, order_value_json (snd kv))) order))),
       (''policy'', ''demo-pilot-v1''), (''broker_instrument_id'', ''1142''), (''symbol'', ''SBUX''), (''amount_usd'', ''10''),
       (''settlement_type'', ''real''), (''maximum_submissions'', ''1''), (''maximum_confirmed_pilot_fills'', ''1''),
       (''kill_switch_revision'', str_int (ks_revision switch)), (''usage_gate'', if waived then ''waived'' else ''enforced''),
       (''usage_waiver_hash'', of_waiver am_hash), (''usage_waiver_source_reference'', of_waiver am_source_reference),
       (''usage_work_floor_percent'', if waived then ''waived'' else of_usage (dec_str \<circ> ua_floor_percent)),
       (''usage_recovery_reserve_percent'', if waived then ''waived'' else of_usage (dec_str \<circ> ua_recovery_reserve_percent)),
       (''usage_floor_authorization_reference'', of_usage ua_authorization_reference), (''usage_source_reference'', of_usage ua_source_reference),
       (''usage_source_sha256'', of_usage ua_source_sha256), (''usage_observed_at'', of_usage (iso_text ''+00:00'' \<circ> ua_observed_at)),
       (''usage_amendment_hash'', of_amendment am_hash), (''usage_amendment_source_reference'', of_amendment am_source_reference)])"

definition issue_approval ::
  "mandate_env \<Rightarrow> uuid \<Rightarrow> mandate_disk \<Rightarrow> standing_mandate \<Rightarrow> order_intent \<Rightarrow> risk_decision \<Rightarrow> pilot_account \<Rightarrow> instrument \<Rightarrow> broker_mapping \<Rightarrow>
   order_payload \<Rightarrow> pilot_ledger \<Rightarrow> ks_status result \<Rightarrow> risk_limits \<Rightarrow> pydatetime \<Rightarrow> pilot_usage_admission option \<Rightarrow> pilot_amendment option \<Rightarrow>
   pilot_amendment option \<Rightarrow> (string \<times> string) list \<Rightarrow> approval result" where
  "issue_approval v fresh d m intent decision account x mapping order lg kill_switch limits now usage amendment waiver approval_limits =
     bindR (pilot_timestamp now) (\<lambda>moment.
     bindR (validate_standing v d m lg kill_switch (utc moment)) (\<lambda>status.
     bindR (usage_gate v d m lg moment usage amendment waiver) (\<lambda>_.
     raiseIf (pa_account_id account \<noteq> sm_account_id m) (mandate_error ''mandate_fresh_same_demo_account_required'') (
     bindR (me_fresh v account moment) (\<lambda>_.
     raiseIf (\<not> intent_in_scope (me_hash v) intent) (mandate_error ''mandate_order_outside_scope'') (
     raiseIf (\<not> instrument_in_scope intent x mapping) (mandate_error ''mandate_exact_instrument_mapping_required'') (
     raiseIf (\<not> exact_order order) (mandate_error ''mandate_exact_official_demo_payload_required'') (
     raiseIf (rl_environment limits \<noteq> DEMO) (mandate_error ''mandate_demo_dynamic_limits_required'') (
     raiseIf (\<not> decision_in_scope limits intent account moment decision) (mandate_error ''mandate_fresh_accepted_pilot_risk_required'') (
     let expires_at = approval_expiry v limits intent decision account usage (waiver \<noteq> None) in
     raiseIf (expires_at \<le> moment) (mandate_error ''mandate_dynamic_evidence_expired'') (
     let bound = bound_limits v m decision order status usage amendment waiver in
     raiseIf (set (map fst approval_limits) \<inter> set (map fst bound) \<noteq> {})
       (mandate_error ''mandate_protected_approval_limits_cannot_be_overridden'') (
     bindR (Approval (RUuid fresh) (oi_intent_hash intent) (''standing-mandate:'' @ sm_mandate_id m) (environment_str DEMO)
       (immutable_pairs (bound @ approval_limits)) (utc moment) (utc expires_at) schema_version) (\<lambda>a.
     bindR (verify (me_hash v) a intent (utc moment)) (\<lambda>_. Inr a))))))))))))))"

section \<open>Files are written once\<close>

datatype mandate_call =
    CreateStanding uuid string string string pydatetime pilot_ledger
  | CreateAmendment amendment_kind uuid string standing_mandate pilot_ledger string pydatetime

fun mandate_exec :: "mandate_env \<Rightarrow> mandate_call \<Rightarrow> mandate_disk \<Rightarrow> mandate_disk" where
  "mandate_exec v (CreateStanding fresh path account reference issued lg) d = snd (create_standing v fresh path account reference issued lg d)"
| "mandate_exec v (CreateAmendment k fresh path m lg reference issued) d = snd (create_amendment k v fresh path m lg reference issued d)"

lemma seal_new_keeps: "d p = Some f \<Longrightarrow> snd (seal_new H name key path load payload d) p = Some f"
  by (auto simp: seal_new_def Let_def split: sum.splits)

interpretation sealed: invariant_calls "mandate_exec v" "\<lambda>_. True" "\<lambda>d. d p = Some f" for v p f
proof unfold_locales
  fix d c assume "d p = Some f"
  then show "mandate_exec v c d p = Some f" by (cases c) (simp_all add: create_standing_def create_amendment_def seal_new_keeps)
qed

lemma seal_newD:
  assumes "seal_new H name key path load payload d = (Inr x, d')"
  obtains p where "payload = Inr p" and "d path = None" and "d' = d(path := Some (sealed_file H key p))" and "load d' = Inr x"
  using assms by (auto simp: seal_new_def Let_def split: sum.splits if_splits)

lemma load_errors_Inr [simp]: "load_errors name r = Inr x \<longleftrightarrow> r = Inr x"
  by (auto simp: load_errors_def split: sum.splits error.splits)

lemma sealed_payload_file:
  "sealed_payload H name key (sealed_file H key (JObj kvs)) = Inr (payload, digest) \<Longrightarrow> key \<noteq> ''sha256'' \<Longrightarrow>
     payload = kvs \<and> digest = payload_hash H (JObj kvs)"
  by (auto simp: sealed_payload_def sealed_file_def Let_def member_def)

lemma parsed_json:
  "json_hash e j = Inr h \<Longrightarrow> j = JStr h" "mandate_identity j = Inr h \<Longrightarrow> j = JStr h" "json_uuid j = Inr h \<Longrightarrow> j = JStr h"
  "mandate_timestamp j = Inr t \<Longrightarrow> j = JTime t"
  by (cases j; simp)+

lemma standing_fieldsD:
  assumes "standing_fields path (kvs, digest) = Inr m"
  shows "member kvs ''source_reference'' = JStr (sm_source_reference m) \<and> member kvs ''mandate_id'' = JStr (sm_mandate_id m) \<and>
    member kvs ''issued_at'' = JTime (sm_issued_at m) \<and> member kvs ''account_id'' = JStr (sm_account_id m) \<and>
    member kvs ''ledger_inception_hash'' = JStr (sm_ledger_inception_hash m)"
proof -
  obtain r l where "member kvs ''source_reference'' = JStr r" "member kvs ''ledger_path'' = JStr l"
    using assms unfolding standing_fields_def Let_def prod.case raiseIf_eq_Inr by (auto split: json.splits)
  then show ?thesis
    using assms unfolding standing_fields_def Let_def prod.case json.case raiseIf_eq_Inr bindR_eq_Inr
    by (auto dest!: parsed_json)
qed

lemma existing_ledger_empty: "existing_ledger v lg account = Inr st \<Longrightarrow> lg_submissions lg = [] \<and> in_account_id (lg_inception lg) = account"
  by (simp add: existing_ledger_def)

lemma load_standing_same: "d path = d' path \<Longrightarrow> load_standing H d path a = load_standing H d' path a"
  by (simp add: load_standing_def read_standing_def)

section \<open>What an approval rests on\<close>

lemma validate_standingD:
  assumes "validate_standing v d m lg ks now = Inr st"
  shows "load_standing (me_hash v) d (sm_path m) (sm_account_id m) = Inr m" and "lg_submissions lg = []" and "ks = Inr st"
    and "writes_allowed st" and "ks_environment st = DEMO"
    and "payload_hash (me_hash v) (inception_json (lg_inception lg)) = sm_ledger_inception_hash m"
    and "\<exists>pst. ledger_state (me_account v) lg = Inr pst \<and> \<not> unresolved lg pst \<and> \<not> ps_loss_stopped pst"
  using assms by (auto simp: validate_standing_def existing_ledger_def)

lemma unclaimed_only:
  assumes "lg_submissions lg \<noteq> []"
  shows "\<exists>e. existing_ledger v lg account = Inl e"
  using assms existing_ledger_empty by (cases "existing_ledger v lg account") auto

lemma amendment_needs_unclaimed: "lg_submissions lg \<noteq> [] \<Longrightarrow> amendment_binding v d m lg True \<noteq> Inr ()"
  using unclaimed_only [of lg v "sm_account_id m"] by (auto simp: amendment_binding_def)

lemma bound_limits_keys: "distinct (map fst (bound_limits v m r order switch usage amendment waiver))"
  by (simp add: bound_limits_def Let_def)

lemma bound_limits_get:
  assumes "distinct (map fst al)" and "set (map fst al) \<inter> set (map fst (bound_limits v m r order switch usage amendment waiver)) = {}"
    and "map_of (bound_limits v m r order switch usage amendment waiver) k = Some x"
  shows "dict_get (immutable_pairs (bound_limits v m r order switch usage amendment waiver @ al)) k = Some x"
proof -
  have "distinct (map fst (bound_limits v m r order switch usage amendment waiver @ al))"
    using assms(1,2) bound_limits_keys [of v m r order switch usage amendment waiver] by auto
  from dict_get_immutable_pairs [OF this] show ?thesis
    using assms(3) by (simp add: map_add_Some_iff)
qed

lemma approval_expiry_le:
  "approval_expiry v limits i r account usage waived \<le> oi_expires_at i"
  "approval_expiry v limits i r account usage waived \<le> me_deadline v account"
  "approval_expiry v limits i r account usage waived \<le> rd_quote_observed_at r + seconds 30"
  "approval_expiry v limits i r account (Some u) False \<le> ua_observed_at u + seconds max_usage_age_seconds"
  by (auto simp: approval_expiry_def Let_def seconds_def min_def split: option.splits)

lemma usage_gateD:
  "usage_gate v d m lg t usage amendment None = Inr () \<Longrightarrow>
     \<exists>u. usage = Some u \<and> validate_for_submission u (utc t) = Inr [] \<and> \<not> dec_lt (ua_recovery_reserve_percent u) (Dec False 5 0)"
  by (auto simp: usage_gate_def Let_def split: option.splits)

section \<open>Properties\<close>

text \<open>
  C18: the standing mandate is good for one attempt. Once a claim is on the pilot ledger, then after
  any further calls on the ledger no approval is issued under any mandate, and no mandate and no
  amendment can be created for that ledger, whatever the files, the evidence and the switch.
\<close>

theorem standing_mandate_one_attempt:
  assumes "create_ledger fresh account breaches moment = Inr lg0" and "lg_submissions (run_calls (pilot_exec w) calls lg0) \<noteq> []"
  shows "isl (issue_approval v ident d m intent decision acc x mapping order (run_calls (pilot_exec w) (calls @ rest) lg0) ks limits now
           usage amendment waiver al) \<and>
    isl (fst (create_standing v ident path aid reference now (run_calls (pilot_exec w) (calls @ rest) lg0) d)) \<and>
    isl (fst (create_amendment k v ident path m (run_calls (pilot_exec w) (calls @ rest) lg0) reference now d))"
proof -
  let ?lg = "run_calls (pilot_exec w) (calls @ rest) lg0"
  have "lg_submissions lg0 = []" using assms(1) by (auto simp: create_ledger_def)
  then have "claims_ok (lg_submissions (run_calls (pilot_exec w) calls lg0))"
    using pilot.inv_run [of lg0 "[]" calls w] by (simp add: list_all_iff)
  then have "prefix (lg_submissions (run_calls (pilot_exec w) calls lg0)) (lg_submissions ?lg)"
    using pilot.inv_run [of "run_calls (pilot_exec w) calls lg0" "lg_submissions (run_calls (pilot_exec w) calls lg0)" rest w]
    by (simp add: list_all_iff run_calls_append)
  then have claimed: "lg_submissions ?lg \<noteq> []" using assms(2) by auto
  have 1: "isl (issue_approval v ident d m intent decision acc x mapping order ?lg ks limits now usage amendment waiver al)"
    using claimed validate_standingD(2) by (cases "issue_approval v ident d m intent decision acc x mapping order ?lg ks limits now usage amendment waiver al")
      (fastforce simp: issue_approval_def)+
  have 2: "isl (fst (create_standing v ident path aid reference now ?lg d))"
    using claimed existing_ledger_empty by (cases "create_standing v ident path aid reference now ?lg d"; cases "fst (create_standing v ident path aid reference now ?lg d)")
      (fastforce simp: create_standing_def elim!: seal_newD)+
  have 3: "isl (fst (create_amendment k v ident path m ?lg reference now d))"
    using amendment_needs_unclaimed [OF claimed] by (cases "create_amendment k v ident path m ?lg reference now d"; cases "fst (create_amendment k v ident path m ?lg reference now d)")
      (fastforce simp: create_amendment_def elim!: seal_newD)+
  show ?thesis using 1 2 3 by blast
qed


text \<open>
  A created mandate lasts. It carries exactly what was authorised and the hash of the ledger's
  inception, on a ledger without claims, and after any further creations of mandates and
  amendments, at any paths, its file still loads as the same mandate.
\<close>

theorem standing_mandate_durable:
  assumes "create_standing v ident path aid reference now lg d = (Inr m, d')"
  shows "sm_account_id m = aid \<and> sm_source_reference m = reference \<and> sm_mandate_id m = uuid_str ident \<and> pilot_timestamp now = Inr (sm_issued_at m) \<and>
    sm_ledger_inception_hash m = payload_hash (me_hash v) (inception_json (lg_inception lg)) \<and> lg_submissions lg = [] \<and>
    load_standing (me_hash v) (run_calls (mandate_exec w) calls d') path aid = Inr m"
proof -
  obtain p moment st where p: "pilot_timestamp now = Inr moment" "existing_ledger v lg aid = Inr st"
      "p = standing_payload v ident aid reference moment lg"
    and d': "d' path = Some (sealed_file (me_hash v) ''mandate'' p)" and load: "load_standing (me_hash v) d' path aid = Inr m"
    using assms unfolding create_standing_def by (elim seal_newD) auto
  have "run_calls (mandate_exec w) calls d' path = d' path"
    using sealed.inv_run [of d' path "sealed_file (me_hash v) ''mandate'' p" calls w] d' by (simp add: list_all_iff)
  then have kept: "load_standing (me_hash v) (run_calls (mandate_exec w) calls d') path aid = Inr m" using load_standing_same load by metis
  obtain kvs digest where seal: "sealed_payload (me_hash v) ''mandate'' ''mandate'' (sealed_file (me_hash v) ''mandate'' p) = Inr (kvs, digest)"
    and fields: "standing_fields path (kvs, digest) = Inr m"
    using load d' by (auto simp: load_standing_def read_standing_def)
  have "JObj kvs = p" using sealed_payload_file [OF seal [unfolded p(3) standing_payload_def]] p(3) by (simp add: standing_payload_def)
  then have "sm_source_reference m = reference \<and> sm_mandate_id m = uuid_str ident \<and> sm_issued_at m = moment \<and> sm_account_id m = aid \<and>
      sm_ledger_inception_hash m = payload_hash (me_hash v) (inception_json (lg_inception lg))"
    using standing_fieldsD [OF fields] by (simp add: p(3) standing_payload_def member_def)
  then show ?thesis using kept p(1) existing_ledger_empty [OF p(2)] by simp
qed

section \<open>Witnesses\<close>

definition wit_hex :: string where
  "wit_hex = replicate 64 (CHR ''a'')"

definition wit_mandate_env :: mandate_env where
  "wit_mandate_env = \<lparr>me_hash = (\<lambda>_. wit_hex), me_fresh = (\<lambda>_ _. Inr ()), me_deadline = (\<lambda>_. 40000000), me_ledger_path = ''/l'', me_account = ''123''\<rparr>"

definition wit_document :: "(string \<times> json) list" where
  "wit_document = [(''schema'', JStr ''standing-demo-pilot-mandate-v1''), (''mandate_id'', JStr (uuid_str 1)), (''account_id'', JStr ''123''),
     (''source_reference'', JStr ''human''), (''issued_at'', JTime 6), (''ledger_path'', JStr ''/l''), (''ledger_inception_hash'', JStr wit_hex),
     (''scope'', standing_scope)]"

definition wit_mandate_disk :: mandate_disk where
  "wit_mandate_disk = (\<lambda>_. None)(''/m'' := Some \<lparr>mf_size = 1000, mf_doc = Inr (JObj [(''mandate'', JObj wit_document), (''sha256'', JStr wit_hex)])\<rparr>)"

definition wit_mandate :: standing_mandate where
  "wit_mandate = \<lparr>sm_path = ''/m'', sm_account_id = ''123'', sm_mandate_hash = wit_hex, sm_mandate_id = uuid_str 1, sm_source_reference = ''human'',
     sm_issued_at = 6, sm_ledger_path = ''/l'', sm_ledger_inception_hash = wit_hex\<rparr>"

lemma wit_json_eq: "json_eq standing_scope standing_scope"
  by code_simp

lemma wit_uuid_value: "uuid_str 1 = ''00000000-0000-0000-0000-000000000001''"
  by code_simp

lemma wit_hash [simp]: "payload_hash (me_hash wit_mandate_env) j = wit_hex"
  by (simp add: payload_hash_def wit_mandate_env_def)

lemma wit_hex_digest: "hex_digest wit_hex"
  by code_simp

lemma wit_hex_not_blank: "\<not> blank wit_hex"
  by code_simp

lemma wit_identity: "account_identity_ok ''123''"
  by code_simp

lemma wit_path: "path_str ''/l'' = ''/l''" "path_absolute ''/l''"
  by code_simp+

lemma wit_not_blank: "\<not> blank ''human''"
  by code_simp

lemma wit_fields: "standing_fields ''/m'' (wit_document, wit_hex) = Inr wit_mandate"
  using wit_json_eq wit_hex_digest wit_identity wit_path wit_not_blank uuid_of_string_uuid_str [of 1]
  by (simp add: standing_fields_def wit_document_def standing_keys_def Let_def member_def wit_mandate_def)

lemma wit_load: "load_standing (me_hash wit_mandate_env) wit_mandate_disk ''/m'' ''123'' = Inr wit_mandate"
  using wit_fields wit_identity
  by (simp add: load_standing_def read_standing_def wit_mandate_disk_def sealed_payload_def member_def Let_def) (simp add: wit_mandate_def)

lemma wit_existing: "\<exists>st. existing_ledger wit_mandate_env wit_ledger ''123'' = Inr st"
proof -
  have "\<not> isl (existing_ledger wit_mandate_env wit_ledger ''123'')" by code_simp
  then show ?thesis by (cases "existing_ledger wit_mandate_env wit_ledger ''123''") simp_all
qed

definition wit_switch :: ks_status where
  "wit_switch = \<lparr>ks_engaged = False, ks_integrity_valid = True, ks_environment = DEMO, ks_revision = 2, ks_reason = ''reset'', ks_updated_at = None\<rparr>"

lemma wit_validate: "validate_standing wit_mandate_env wit_mandate_disk wit_mandate wit_ledger (Inr wit_switch) (utc 8) = Inr wit_switch"
  using wit_load wit_existing
  by (auto simp: validate_standing_def wit_mandate_def wit_mandate_env_def [THEN arg_cong [of _ _ me_ledger_path]] wit_switch_def writes_allowed_def)

definition wit_intent :: order_intent where
  "wit_intent = ex_intent\<lparr>oi_sizing_value := Dec False 10 0, oi_intent_hash := wit_hex\<rparr>"

definition wit_decision :: risk_decision where
  "wit_decision = ex_decision\<lparr>rd_intent_hash := wit_hex, rd_account_snapshot_id := ''s'', rd_quote_observed_at := 7, rd_decided_at := 7,
     rd_computed_exposures := [(''policy'', ''demo-pilot-v1'')],
     rd_checks := map (\<lambda>n. \<lparr>rc_name = n, rc_passed = True, rc_observed = [], rc_limit = []\<rparr>) required_checks\<rparr>"

definition wit_instrument :: instrument where
  "wit_instrument = \<lparr>in_internal_instrument_id = 2, in_canonical_symbol = ''SBUX'', in_exchange = ''NASDAQ'', in_asset_type = ''equity'',
     in_currency = ''USD'', in_sector = ''consumer''\<rparr>"

definition wit_mapping :: broker_mapping where
  "wit_mapping = \<lparr>bm_internal_instrument_id = 2, bm_broker = ''etoro'', bm_environment = DEMO, bm_broker_instrument_id = 1142,
     bm_exact_match_symbol = ''SBUX'', bm_resolved_at = 0, bm_metadata_checksum = ''c''\<rparr>"

definition wit_order :: order_payload where
  "wit_order = [(''action'', OText ''open''), (''transaction'', OText ''buy''), (''instrumentId'', OInt 1142), (''settlementType'', OText ''real''),
     (''orderType'', OText ''mkt''), (''leverage'', OInt 1), (''amount'', OInt 10), (''orderCurrency'', OText ''usd'')]"

definition wit_usage :: pilot_usage_admission where
  "wit_usage = \<lparr>ua_observed_at = 7, ua_windows = [\<lparr>uw_window_id = ''w'', uw_remaining_percent = Some (Dec False 60 0), uw_primary = True\<rparr>],
     ua_available_window_ids = [''w''], ua_source_reference = ''u'', ua_source_sha256 = wit_hex, ua_floor_percent = Dec False 20 0,
     ua_recovery_reserve_percent = Dec False 5 0, ua_authorization_reference = []\<rparr>"

lemma wit_usage_gate: "usage_gate wit_mandate_env wit_mandate_disk wit_mandate wit_ledger 8 (Some wit_usage) None None = Inr ()"
  by code_simp

lemma wit_scope:
  "intent_in_scope (me_hash wit_mandate_env) wit_intent" "instrument_in_scope wit_intent wit_instrument wit_mapping" "exact_order wit_order"
  "decision_in_scope ex_limits wit_intent wit_account 8 wit_decision" "rl_environment ex_limits = DEMO"
  by (simp add: intent_in_scope_def compute_hash_def wit_intent_def ex_intent_def, code_simp+)

lemma wit_expiry: "approval_expiry wit_mandate_env ex_limits wit_intent wit_decision wit_account (Some wit_usage) False = 30000007"
  by code_simp

lemma wit_issued:
  "\<exists>a. issue_approval wit_mandate_env 9 wit_mandate_disk wit_mandate wit_intent wit_decision wit_account wit_instrument wit_mapping wit_order wit_ledger
     (Inr wit_switch) ex_limits (utc 8) (Some wit_usage) None None [] = Inr a"
proof -
  have same: "pa_account_id wit_account = sm_account_id wit_mandate" "me_fresh wit_mandate_env wit_account 8 = Inr ()"
      "oi_intent_hash wit_intent = wit_hex" "oi_environment wit_intent = DEMO" "oi_expires_at wit_intent = 1000000000"
    by (simp_all add: wit_account_def wit_mandate_def wit_mandate_env_def wit_intent_def ex_intent_def)
  have hash: "compute_hash (me_hash wit_mandate_env) wit_intent = wit_hex" "\<not> blank wit_hex" "\<not> blank (''standing-mandate:'' @ sm_mandate_id wit_mandate)"
    using wit_scope(1) same(3) wit_hex_not_blank by (simp_all add: intent_in_scope_def not_blank_Cons py_isspace_def)
  show ?thesis
    using wit_validate wit_usage_gate wit_scope same wit_expiry hash
    by (simp add: issue_approval_def Let_def Approval_def approval_ok_def verify_Inr environment_of_def enum_of_def)
qed

theorem standing_mandate_one_attempt_witness:
  "isl (fst (create_standing wit_mandate_env 1 ''/n'' ''123'' ''human'' (utc 6) (run_calls (pilot_exec wit_env) ([wit_reserve] @ [RecordOutcome ''c1'' JNull]) wit_ledger) wit_mandate_disk))"
proof -
  have lg: "create_ledger (\<lambda>_ _. Inr ()) wit_account (JArr []) 5 = Inr wit_ledger" by code_simp
  have claimed: "lg_submissions (run_calls (pilot_exec wit_env) [wit_reserve] wit_ledger) \<noteq> []"
    using wit_reserve_run by (auto simp: pilot_exec_def split: prod.splits sum.splits)
  show ?thesis by (rule standing_mandate_one_attempt [OF lg claimed, THEN conjunct2, THEN conjunct1])
qed


text \<open>A bound on the length of a canonical text.\<close>

fun json_bound :: "json \<Rightarrow> nat" where
  "json_bound (JStr s) = 6 * length s + 2"
| "json_bound (JArr js) = sum_list (map json_bound js) + length js + 2"
| "json_bound (JObj kvs) = sum_list (map (\<lambda>kv. 6 * length (fst kv) + 3 + json_bound (snd kv)) kvs) + length kvs + 2"
| "json_bound j = length (canonical_json j)"

lemma length_json_quote: "length (json_quote s) \<le> 6 * length s + 2"
proof -
  have "length (json_char c) \<le> 6" for c by (simp add: json_char_def Let_def)
  then have "length (concat (map json_char s)) \<le> 6 * length s" by (induction s) (simp_all add: add_mono)
  then show ?thesis by (simp add: json_quote_def)
qed

lemma length_join: "length (join '','' xs) \<le> sum_list (map length xs) + length xs"
  by (induction "'',''" xs rule: join.induct) auto

lemma sum_sort_key: "sum_list (map f (sort_key k xs)) = (sum_list (map f xs) :: nat)"
proof -
  have "sum_list (map f (insort_key k x ys)) = f x + sum_list (map f ys)" for x ys by (induction ys) simp_all
  then show ?thesis by (induction xs) simp_all
qed

lemma length_canonical_json: "length (canonical_json j) \<le> json_bound j"
proof (induction j rule: json_bound.induct)
  case (1 s) then show ?case using length_json_quote [of s] by simp
next
  case (2 js)
  then have "sum_list (map (length \<circ> canonical_json) js) \<le> sum_list (map json_bound js)" by (intro sum_list_mono) simp
  then show ?case using length_join [of "map canonical_json js"] by simp
next
  case (3 kvs)
  define row where "row = (\<lambda>(k, t). json_quote k @ '':'' @ t)"
  let ?kts = "map (\<lambda>kv. (fst kv, canonical_json (snd kv))) kvs"
  have "sum_list (map (length \<circ> row) (sort_key fst ?kts)) = sum_list (map (length \<circ> row) ?kts)"
    by (rule sum_sort_key)
  also have "\<dots> \<le> sum_list (map (\<lambda>kv. 6 * length (fst kv) + 3 + json_bound (snd kv)) kvs)"
    unfolding map_map comp_def
  proof (rule sum_list_mono)
    fix kv assume "kv \<in> set kvs"
    then have "length (canonical_json (snd kv)) \<le> json_bound (snd kv)" using 3 by blast
    then show "length (row (fst kv, canonical_json (snd kv))) \<le> 6 * length (fst kv) + 3 + json_bound (snd kv)"
      using length_json_quote [of "fst kv"] by (simp add: row_def)
  qed
  finally show ?case using length_join [of "map row (sort_key fst ?kts)"] by (simp add: row_def)
qed simp_all

lemma wit_size: "length (canonical_json (JObj [(''mandate'', JObj wit_document), (''sha256'', JStr wit_hex)])) < 65536"
proof -
  have "length (canonical_json (JTime 6)) < 100" "length (canonical_json (JInt 1142)) < 100" "length (canonical_json (JInt 1)) < 100"
      "length (canonical_json JNull) < 100" "length (canonical_json (JInt 5)) < 100" "length (canonical_json (JBool True)) < 100" by code_simp+
  then have "json_bound (JObj [(''mandate'', JObj wit_document), (''sha256'', JStr wit_hex)]) < 65536"
    by (simp add: wit_document_def standing_scope_def wit_hex_def wit_uuid_value del: canonical_json.simps)
  then show ?thesis by (rule le_less_trans [OF length_canonical_json])
qed

lemma wit_created:
  "create_standing wit_mandate_env 1 ''/m'' ''123'' ''human'' (utc 6) wit_ledger (\<lambda>_. None) =
     (Inr wit_mandate, (\<lambda>_. None)(''/m'' := Some (sealed_file (me_hash wit_mandate_env) ''mandate'' (JObj wit_document))))"
proof -
  have payload: "standing_payload wit_mandate_env 1 ''123'' ''human'' 6 wit_ledger = JObj wit_document"
    by (simp add: standing_payload_def wit_document_def) (simp add: wit_mandate_env_def)
  have "load_standing (me_hash wit_mandate_env) ((\<lambda>_. None)(''/m'' := Some (sealed_file (me_hash wit_mandate_env) ''mandate'' (JObj wit_document)))) ''/m'' ''123'' =
      Inr wit_mandate"
    using wit_fields wit_identity wit_size
    by (simp add: load_standing_def read_standing_def sealed_file_def sealed_payload_def member_def Let_def del: canonical_json.simps) (simp add: wit_mandate_def)
  moreover have "in_moment (lg_inception wit_ledger) = 5" by (simp add: wit_ledger_def)
  ultimately show ?thesis
    using wit_identity wit_not_blank wit_existing payload by (auto simp: create_standing_def seal_new_def)
qed

theorem standing_mandate_durable_witness:
  "load_standing (me_hash wit_mandate_env)
     (run_calls (mandate_exec wit_mandate_env) [CreateStanding 2 ''/m'' ''123'' ''again'' (utc 7) wit_ledger]
       ((\<lambda>_. None)(''/m'' := Some (sealed_file (me_hash wit_mandate_env) ''mandate'' (JObj wit_document))))) ''/m'' ''123'' = Inr wit_mandate"
  using standing_mandate_durable [OF wit_created] by blast

end
