(* ===== verification/Spec2Isabelle.thy ===== *)
theory Spec2Isabelle
  imports Prelude Once Py_Text Py_Decimal Py_Render Py_Exact Domain Evidence Instruments Store Ledger Claims
    Registry Kill_Switch Risk_Limits Submission_Gate Broker_Base Coordinator Protocol
    Coordination Account_Source Accounting Performance Pretrade Risk_Exact Risk_Soundness Admission Schedule Schedule_Run
    Fills Usage Pilot_Budget Experiments Pilot_Policy Journal Standing_Mandate
begin

text \<open>
  Verification of the execution core of the advisory portfolio engine.

  \<^bold>\<open>The program.\<close> Advisory agents (\<open>src/agents\<close>) propose orders as data frames; an execution layer
  turns them into broker commands under risk control. A proposed order becomes an immutable
  \<open>OrderIntent\<close>; the pre-trade evaluator (\<open>src/risk/pretrade.py\<close>) decides it against limits,
  account, quote and performance evidence; a human approval is issued for an accepted
  decision (\<open>src/risk/approval.py\<close>); the submission gate (\<open>src/risk/submission_gate.py\<close>) checks
  approval, freshness, kill switch (\<open>src/risk/kill_switch.py\<close>), session and governance; the
  coordinator (\<open>src/execution/coordinator.py\<close>) drives the command through its lifecycle in the
  SQLite store (\<open>src/execution/store.py\<close>), takes a durable one-send claim before it hands the
  command to a broker adapter (\<open>src/brokers/base.py\<close>), and reconciles afterwards by lookup only.
  The scheduler (\<open>src/scheduler\<close>) prepares runs and qualifies the Demo evidence without any way
  to send; fill ingestion (\<open>src/execution/fill_ingestion.py\<close>) stages confirmed executions, and
  the usage reserve (\<open>src/execution/usage_reserve.py\<close>) admits automated work. The Demo pilot keeps
  its own economic ledger (\<open>src/agents/fill_agent/pilot_ledger.py\<close>): claims are reserved before a
  send under hard caps or a finite mandate (\<open>src/execution/finite_demo_mandate.py\<close>), assessed
  beforehand by the pilot policy (\<open>src/execution/pilot_policy.py\<close>), approved under a standing
  mandate (\<open>src/execution/pilot_mandate.py\<close>) for the first attempt, and settled against account
  captures; a hash-chained execution journal (\<open>src/agents/journal_agent/execution_journal.py\<close>)
  proves each completed trade from the store and the ledger. Strategy experiments and
  promotions to advisory use are recorded by \<open>src/strategy\<close>.

  \<^bold>\<open>Conventions.\<close> A raised exception is a value: results are \<open>error + 'a\<close>, \<open>Inl\<close> the exception,
  with one constructor of \<open>error\<close> per exception class. State is passed explicitly; a SQLite
  transaction is \<open>transaction\<close>, which keeps the old state when its body raises; tables are lists
  of rows in insertion order. Every operation is an executable function. Dictionaries are
  association lists where order is visible and maps where it is not. An instant is an integer
  number of microseconds; a \<open>datetime\<close> is naive, or aware with its offset. \<open>Decimal\<close> is sign,
  coefficient and exponent, with the context precision as an argument of each operation.

  \<^bold>\<open>Parameters.\<close> What is not code of the repository is an argument: \<open>H\<close> is SHA-256 (no property of
  it is assumed, but that the tamper evidence of the journal asks for no collision among the
  texts the compared journals hash), the clock readings and drawn UUIDs, the broker adapter (any function of command and world), the
  parsed YAML and JSON documents, \<open>json.loads\<close> and the recursion limit in the journal, the CSV codec,
  the freshness of an account capture and its rebuilding from raw broker sources, the risk time zone and the callbacks of a
  scheduled run (which must leave the lock file and the schedule store alone).

  \<^bold>\<open>Theories.\<close>

  \<^item> \<open>Prelude\<close>: errors, results and their combinators, transactions, tables and keys, with the
    simp collections \<open>result_simps\<close> and \<open>row_simps\<close> the components use. \<open>Once\<close>: the locales
    \<open>invariant_calls\<close> (an invariant of every call) and \<open>once_only\<close> (a key is granted at most
    once over any sequence of calls).
  \<^item> \<open>Py_Text\<close>, \<open>Py_Decimal\<close>, \<open>Py_Render\<close>, \<open>Py_Exact\<close>: the parts of Python's \<open>str\<close>, \<open>int\<close>,
    \<open>uuid.UUID\<close>, \<open>decimal.Decimal\<close>, \<open>datetime\<close> and YAML values the sources use, with round
    trips of the conversions and the theory of when rounding is exact or monotone.
  \<^item> \<open>Domain\<close>, \<open>Evidence\<close>, \<open>Instruments\<close>: \<open>domain.py\<close> and \<open>instruments.py\<close>. Enumerations, the
    lifecycle table, the evidence dataclasses with validation, canonical JSON and hashes, and
    the round trip of each stored form.
  \<^item> \<open>Store\<close>, \<open>Ledger\<close>, \<open>Claims\<close>, \<open>Registry\<close>: \<open>store.py\<close>. The nine tables and every
    operation; the database invariant and its preservation; at-most-once sending, approval
    consumption and lifecycle safety over arbitrary call sequences (the interpretations of
    \<open>once_only\<close>); write-once registries (the locale \<open>write_once\<close>).
  \<^item> \<open>Kill_Switch\<close>: the state file and the hash-chained audit with crashes between the durable
    steps; the switch fails closed and only an acknowledged reset opens it.
  \<^item> \<open>Risk_Limits\<close>, \<open>Pretrade\<close>: all of \<open>pretrade.py\<close>. \<open>Risk_Exact\<close> shows that the computed
    precision keeps every sum exact and makes a rounded quotient decide a limit as the exact
    one would; \<open>Risk_Soundness\<close> states the exact rational conditions; \<open>Admission\<close> concludes what
    acceptance means and that a decision is always reached.
  \<^item> \<open>Submission_Gate\<close>: approvals and the gate, with its exact acceptance condition.
  \<^item> \<open>Broker_Base\<close>, \<open>Coordinator\<close>, \<open>Protocol\<close>, \<open>Coordination\<close>: the adapter's data, every operation
    of the coordinator, the send protocol as a step relation that interleaves processes and
    crashes, the refinement of \<open>submit_pending_command\<close> into it, and what import and
    reconciliation guarantee.
  \<^item> \<open>Account_Source\<close>, \<open>Accounting\<close>, \<open>Performance\<close>: account facts and their freshness, valuations,
    flows and the performance evaluation against the time-weighted return.
  \<^item> \<open>Schedule\<close>, \<open>Schedule_Run\<close>: scheduler configuration, run lock and store; the scheduled run with
    its exception and cleanup branches; Gate C against its requirements.
  \<^item> \<open>Fills\<close>, \<open>Usage\<close>: append-only, idempotent staging of executions; the usage reserve.
  \<^item> \<open>Finite_Mandate\<close>, \<open>Pilot_Ledger\<close>, \<open>Pilot_Budget\<close>: mandate scopes and candidates; the ledger's
    events, derived state and operations; every claim is within the caps over any sequence of
    calls, and a loss stop or hold is final.
  \<^item> \<open>Pilot_Policy\<close>: the reviewed catalogue, exposures, opening costs and the assessment, which is
    exact over the rationals and agrees with what the ledger then reserves.
  \<^item> \<open>Standing_Mandate\<close>: \<open>pilot_mandate.py\<close>, the sealed file of a standing mandate, its amendments and the
    approvals issued under it: one attempt, exactly the mandated order, write-once files.
  \<^item> \<open>Journal\<close>: the audit chain. It only grows, keeps every command's phases in order, records an
    event once, and its head determines its rows.
  \<^item> \<open>Strategy\<close>, \<open>Experiments\<close>: walk-forward windows, the exact promotion decision, experiment
    artifacts on disk and the registry of experiments and promotions.

  \<^bold>\<open>Bounds and assumptions.\<close> No fuel is used: every modelled loop is structural or has a
  termination proof; the recursion limit of the journal's visitor is Python's own and running
  into it is the error Python raises. The exactness theorems of the evaluator ask for \<open>ordinary\<close> evidence (finite,
  consistent account numbers, as the loaders produce them) and for limits with few digits
  (\<open>short_limits\<close>); nothing bounds the number of positions, orders or calls. Timestamps stored
  as ISO text are kept as instants: at a fixed offset the texts sort as the instants do.

  \<^bold>\<open>Not modelled.\<close> File permissions, \<open>fsync\<close>, SQLite pragmas and network transport (I/O without
  logic of its own); the advisory agents and the backtester, which compute in floating point
  on data frames of a third-party library; the eToro client and its response parsers, for
  which the adapter parameter stands; schema and data-frame services under \<open>src/shared\<close>; the
  operator workflow; external lifecycle imports of the pilot
  ledger and of the journal, whose records are rebuilt from raw broker history; the creation of
  a mandate file; the fractional split, history checks and backtests of the strategies (binary
  floating point); the fill agent and the command-line scripts (but the reconciliation callback
  of the scheduled run).
\<close>

end
